(* ===== verification/Go_Prelude.thy ===== *)
theory Go_Prelude
  imports Main "HOL-Library.Finite_Map"
begin

text \<open>
  Shared vocabulary of the development: the pieces of Go and of its standard library that the
  operator's sources rely on, and the generic lemmas the component theories use.

  \<^item> \<open>'a slice\<close> and \<open>('k, 'v) gomap\<close> keep Go's distinction between a nil and an empty slice or
    map, which \<open>reflect.DeepEqual\<close> observes (\<open>None\<close> is nil);
  \<^item> \<open>itoa\<close> and \<open>atoi\<close> are \<open>strconv.Itoa\<close> and \<open>strconv.Atoi\<close> on the 64-bit \<open>int\<close>;
  \<^item> \<open>has_prefix\<close>, \<open>has_suffix\<close>, \<open>str_contains\<close>, \<open>str_cut\<close> and \<open>trim_suffix\<close> are the functions of
    package \<open>strings\<close> of the same names;
  \<^item> times and durations are \<open>int\<close> nanoseconds.
\<close>

section \<open>Collections of facts\<close>

named_theorems resolver_defs "definitions of the engine / class / default resolvers"
named_theorems builder_defs "definitions of the resource builders"
named_theorems drift_simps "facts that evaluate the drift comparator on built objects"
named_theorems phase_defs "definitions of the phase handlers"
named_theorems frame_simps "status fields a handler leaves alone"

section \<open>Transition systems\<close>

text \<open>A property every step keeps holds wherever the system can get to. The step relations of the
  component theories interpret this.\<close>

locale invariant_system =
  fixes step :: "'s \<Rightarrow> 's \<Rightarrow> bool" and inv :: "'s \<Rightarrow> bool"
  assumes step_keeps: "step s s' \<Longrightarrow> inv s \<Longrightarrow> inv s'"
begin

lemma reach_keeps: "step\<^sup>*\<^sup>* s s' \<Longrightarrow> inv s \<Longrightarrow> inv s'"
  by (induction rule: rtranclp_induct) (auto intro: step_keeps)

end

section \<open>Slices and maps\<close>

type_synonym 'a slice = "'a list option"

type_synonym ('k, 'v) gomap = "('k, 'v) fmap option"

definition sitems :: "'a slice \<Rightarrow> 'a list" where
  "sitems s = (case s of None \<Rightarrow> [] | Some xs \<Rightarrow> xs)"

definition mitems :: "('k, 'v) gomap \<Rightarrow> ('k, 'v) fmap" where
  "mitems m = (case m of None \<Rightarrow> fmempty | Some f \<Rightarrow> f)"

definition mlen :: "('k, 'v) gomap \<Rightarrow> nat" where
  "mlen m = fcard (fmdom (mitems m))"

text \<open>A slice built by appending: nil when nothing was appended.\<close>

definition nil_if_empty :: "'a list \<Rightarrow> 'a slice" where
  "nil_if_empty xs = (if xs = [] then None else Some xs)"

lemma sitems_simps [simp]: "sitems None = []" "sitems (Some xs) = xs"
  by (simp_all add: sitems_def)

lemma mitems_simps [simp]: "mitems None = fmempty" "mitems (Some f) = f"
  by (simp_all add: mitems_def)

lemma sitems_nil_if_empty [simp]: "sitems (nil_if_empty xs) = xs"
  by (simp add: nil_if_empty_def)

lemma mlen_zero_iff [simp]: "mlen m = 0 \<longleftrightarrow> mitems m = fmempty"
proof
  assume "mlen m = 0"
  then have "fmdom (mitems m) = {||}" by (simp add: mlen_def)
  then show "mitems m = fmempty" by (metis fmdom_empty fmrestrict_fset_dom fmrestrict_fset_null)
qed (simp add: mlen_def)

lemma fmadd_eq_empty_iff [simp]: "m ++\<^sub>f n = fmempty \<longleftrightarrow> m = fmempty \<and> n = fmempty"
proof
  assume "m ++\<^sub>f n = fmempty"
  then have "fmdom m |\<union>| fmdom n = {||}" by (metis fmdom_add fmdom_empty)
  then have "fmdom m = {||}" and "fmdom n = {||}" by auto
  then show "m = fmempty \<and> n = fmempty"
    by (metis fmrestrict_fset_dom fmrestrict_fset_null)
qed simp

section \<open>Values set on one of several layers\<close>

text \<open>\<open>or_else\<close> is the idiom \<open>if p != nil \{ return p \}\<close> followed by the next layer, and
  \<open>str_or_else\<close> its analogue for strings, where the empty string is unset.\<close>

definition or_else :: "'a option \<Rightarrow> 'a option \<Rightarrow> 'a option" where
  "or_else a b = (case a of Some x \<Rightarrow> Some x | None \<Rightarrow> b)"

definition str_or_else :: "string \<Rightarrow> string \<Rightarrow> string" where
  "str_or_else a b = (if a \<noteq> [] then a else b)"

lemma or_else_simps [simp]:
  "or_else (Some x) b = Some x" "or_else None b = b" "or_else a None = a"
  by (auto simp: or_else_def split: option.splits)

lemma or_else_assoc: "or_else (or_else a b) c = or_else a (or_else b c)"
  by (cases a) simp_all

lemma str_or_else_simps [simp]:
  "str_or_else [] b = b" "str_or_else (x # a) b = x # a" "str_or_else a [] = a"
  by (simp_all add: str_or_else_def)

lemma str_or_else_assoc: "str_or_else (str_or_else a b) c = str_or_else a (str_or_else b c)"
  by (simp add: str_or_else_def)

section \<open>Strings\<close>

definition has_prefix :: "string \<Rightarrow> string \<Rightarrow> bool" where
  "has_prefix s p \<longleftrightarrow> take (length p) s = p"

definition has_suffix :: "string \<Rightarrow> string \<Rightarrow> bool" where
  "has_suffix s p \<longleftrightarrow> length p \<le> length s \<and> drop (length s - length p) s = p"

definition trim_suffix :: "string \<Rightarrow> string \<Rightarrow> string" where
  "trim_suffix s p = (if has_suffix s p then take (length s - length p) s else s)"

text \<open>\<open>strings.Cut\<close>: the text before and after the first occurrence of the separator, \<open>None\<close> when
  it does not occur.\<close>

fun str_cut :: "string \<Rightarrow> string \<Rightarrow> (string \<times> string) option" where
  "str_cut [] sep = (if sep = [] then Some ([], []) else None)"
| "str_cut (c # s) sep =
     (if has_prefix (c # s) sep then Some ([], drop (length sep) (c # s))
      else map_option (\<lambda>(a, b). (c # a, b)) (str_cut s sep))"

definition str_contains :: "string \<Rightarrow> string \<Rightarrow> bool" where
  "str_contains s sub \<longleftrightarrow> str_cut s sub \<noteq> None"

lemma has_prefix_append [simp]: "has_prefix (p @ s) p"
  by (simp add: has_prefix_def)

lemma has_suffix_append [simp]: "has_suffix (s @ p) p"
  by (simp add: has_suffix_def)

lemma trim_suffix_append [simp]: "trim_suffix (s @ p) p = s"
  by (simp add: trim_suffix_def)

lemma str_cut_append: "str_cut (a @ sep @ b) sep \<noteq> None"
proof (induction a)
  case Nil
  have "has_prefix (sep @ b) sep" by simp
  then show ?case by (cases "sep @ b") auto
next
  case (Cons c a)
  then show ?case by auto
qed

lemma str_contains_append [simp]: "str_contains (a @ sep @ b) sep"
  by (simp add: str_contains_def str_cut_append)

text \<open>\<open>strings.Split\<close> and \<open>strings.Join\<close> with a separator of one character; the second argument of
  \<open>split_on\<close> is the part read so far, reversed.\<close>

fun split_on :: "char \<Rightarrow> string \<Rightarrow> string \<Rightarrow> string list" where
  "split_on sep acc [] = [rev acc]"
| "split_on sep acc (c # cs) = (if c = sep then rev acc # split_on sep [] cs else split_on sep (c # acc) cs)"

fun join_with :: "char \<Rightarrow> string list \<Rightarrow> string" where
  "join_with sep [] = []"
| "join_with sep [x] = x"
| "join_with sep (x # y # xs) = x @ sep # join_with sep (y # xs)"

lemma split_on_no_sep: "x \<in> set (split_on sep acc s) \<Longrightarrow> sep \<notin> set acc \<Longrightarrow> sep \<notin> set x"
  by (induction s arbitrary: acc) (fastforce split: if_splits)+

lemma split_on_append: "sep \<notin> set a \<Longrightarrow> split_on sep acc (a @ sep # b) = (rev acc @ a) # split_on sep [] b"
  by (induction a arbitrary: acc) auto

lemma split_on_single: "sep \<notin> set a \<Longrightarrow> split_on sep acc a = [rev acc @ a]"
  by (induction a arbitrary: acc) auto

lemma split_join:
  "xs \<noteq> [] \<Longrightarrow> \<forall>x\<in>set xs. sep \<notin> set x \<Longrightarrow> split_on sep [] (join_with sep xs) = xs"
  by (induction xs rule: join_with.induct) (auto simp: split_on_append split_on_single)

lemma join_empty: "join_with sep xs = [] \<Longrightarrow> xs = [] \<or> xs = [[]]"
  by (cases "(sep, xs)" rule: join_with.cases) auto

lemma has_prefix_single: "has_prefix s [c] \<longleftrightarrow> (\<exists>t. s = c # t)"
  by (cases s) (auto simp: has_prefix_def)

lemma str_cut_none: "str_cut s [c] = None \<longleftrightarrow> c \<notin> set s"
  by (induction s) (auto simp: has_prefix_single)

lemma str_cut_some: "str_cut s [c] = Some (a, b) \<longleftrightarrow> s = a @ c # b \<and> c \<notin> set a"
proof (induction s arbitrary: a)
  case (Cons x s)
  show ?case
  proof (cases "x = c")
    case True
    then show ?thesis by (cases a) (auto simp: has_prefix_single)
  next
    case False
    then show ?thesis using Cons.IH by (cases a) (auto simp: has_prefix_single)
  qed
qed simp

section \<open>Decimal numbers\<close>

definition digit_char :: "nat \<Rightarrow> char" where
  "digit_char d = char_of (48 + d)"

definition is_digit :: "char \<Rightarrow> bool" where
  "is_digit c \<longleftrightarrow> 48 \<le> (of_char c :: nat) \<and> (of_char c :: nat) \<le> 57"

definition digit_val :: "char \<Rightarrow> nat" where
  "digit_val c = of_char c - 48"

fun nat_digits :: "nat \<Rightarrow> string" where
  "nat_digits n = (if n < 10 then [digit_char n] else nat_digits (n div 10) @ [digit_char (n mod 10)])"

declare nat_digits.simps [simp del]

definition digits_val :: "string \<Rightarrow> nat" where
  "digits_val s = foldl (\<lambda>acc c. acc * 10 + digit_val c) 0 s"

definition itoa :: "int \<Rightarrow> string" where
  "itoa i = (if i < 0 then CHR ''-'' # nat_digits (nat (- i)) else nat_digits (nat i))"

definition in_int64 :: "int \<Rightarrow> bool" where
  "in_int64 i \<longleftrightarrow> - (2 ^ 63) \<le> i \<and> i < 2 ^ 63"

text \<open>Evaluation by the simplifier: digits of an \<open>int\<close>, without unary numbers.\<close>

function int_digits :: "int \<Rightarrow> string" where
  "int_digits i = (if i < 10 then [digit_char (nat i)] else int_digits (i div 10) @ [digit_char (nat (i mod 10))])"
  by auto
termination by (relation "measure nat") auto

declare int_digits.simps [simp del]

lemma nat_digits_int: "nat_digits n = int_digits (int n)"
proof (induction n rule: nat_digits.induct)
  case (1 n)
  then show ?case
    by (subst nat_digits.simps, subst int_digits.simps) (auto simp: zdiv_int nat_mod_distrib)
qed

lemma itoa_code [code]: "itoa i = (if i < 0 then CHR ''-'' # int_digits (- i) else int_digits i)"
  by (simp add: itoa_def nat_digits_int)

text \<open>\<open>strconv.Atoi\<close>: an optional sign and at least one digit, \<open>None\<close> for a syntax error and for a
  value outside the 64-bit range.\<close>

definition atoi_unsigned :: "string \<Rightarrow> nat option" where
  "atoi_unsigned s = (if s \<noteq> [] \<and> list_all is_digit s then Some (digits_val s) else None)"

definition atoi :: "string \<Rightarrow> int option" where
  "atoi s =
     (case (case s of
              [] \<Rightarrow> None
            | c # cs \<Rightarrow>
                if c = CHR ''-'' then map_option (\<lambda>n. - int n) (atoi_unsigned cs)
                else if c = CHR ''+'' then map_option int (atoi_unsigned cs)
                else map_option int (atoi_unsigned s)) of
        None \<Rightarrow> None
      | Some i \<Rightarrow> if in_int64 i then Some i else None)"

lemma of_char_digit_char: "d < 10 \<Longrightarrow> of_char (digit_char d) = (48 + d :: nat)"
  by (simp add: digit_char_def)

lemma digit_char_props:
  assumes "d < 10"
  shows "is_digit (digit_char d)" "digit_val (digit_char d) = d"
  using of_char_digit_char [OF assms] assms by (simp_all add: is_digit_def digit_val_def)

lemma is_digit_not_sign: "is_digit c \<Longrightarrow> c \<noteq> CHR ''-'' \<and> c \<noteq> CHR ''+''"
  by (auto simp: is_digit_def)

lemma nat_digits_props:
  "nat_digits n \<noteq> [] \<and> list_all is_digit (nat_digits n) \<and> digits_val (nat_digits n) = n"
proof (induction n rule: nat_digits.induct)
  case (1 n)
  show ?case
  proof (cases "n < 10")
    case True
    then show ?thesis
      by (subst (1 2 3) nat_digits.simps) (simp add: digit_char_props digits_val_def)
  next
    case False
    with 1 show ?thesis
      by (subst (1 2 3) nat_digits.simps) (simp add: digit_char_props digits_val_def)
  qed
qed

lemma nat_digits_nonempty [simp]: "nat_digits n \<noteq> []"
  by (simp add: nat_digits_props)

lemma atoi_unsigned_nat_digits [simp]: "atoi_unsigned (nat_digits n) = Some n"
  by (simp add: atoi_unsigned_def nat_digits_props)

lemma nat_digits_hd:
  obtains c cs where "nat_digits n = c # cs" "c \<noteq> CHR ''-''" "c \<noteq> CHR ''+''"
proof -
  obtain c cs where "nat_digits n = c # cs" by (cases "nat_digits n") auto
  moreover from this have "is_digit c" using nat_digits_props [of n] by simp
  ultimately show ?thesis using that is_digit_not_sign by blast
qed

lemma atoi_itoa: "in_int64 i \<Longrightarrow> atoi (itoa i) = Some i"
proof (cases "i < 0")
  case True
  assume "in_int64 i"
  with True show ?thesis by (simp add: itoa_def atoi_def)
next
  case False
  assume "in_int64 i"
  obtain c cs where "nat_digits (nat i) = c # cs" "c \<noteq> CHR ''-''" "c \<noteq> CHR ''+''"
    by (rule nat_digits_hd)
  with False \<open>in_int64 i\<close> show ?thesis
    using atoi_unsigned_nat_digits [of "nat i"] by (simp add: itoa_def atoi_def)
qed

lemma itoa_inject_nonneg: "0 \<le> i \<Longrightarrow> 0 \<le> j \<Longrightarrow> itoa i = itoa j \<longleftrightarrow> i = j"
  by (metis itoa_def leD nat_digits_props nat_eq_iff2 int_nat_eq)

section \<open>Times\<close>

type_synonym time = int

definition second :: int where "second = 1000000000"
definition minute :: int where "minute = 60 * second"

text \<open>Times in stored objects have whole seconds.\<close>

definition whole_second :: "time \<Rightarrow> time" where "whole_second t = t div second * second"

section \<open>64-bit integers\<close>

text \<open>Results of \<open>int64\<close> arithmetic, where the operands can be large enough to wrap.\<close>

definition MaxInt64 :: int where "MaxInt64 = 2 ^ 63 - 1"

definition wrap64 :: "int \<Rightarrow> int" where
  "wrap64 i = (i + 2 ^ 63) mod 2 ^ 64 - 2 ^ 63"

end
