(* ===== verification/K8s_Types.thy ===== *)
theory K8s_Types
  imports Go_Prelude
begin

text \<open>
  The Kubernetes, cert-manager and operator API types the engine controller handles, one record
  per Go struct with the fields the sources read or write. A field the operator only copies as a
  whole and compares with \<open>reflect.DeepEqual\<close> is a \<open>k8s\<close> value: its content is never inspected.
  Pointers are \<open>option\<close>, slices \<open>slice\<close>, maps \<open>gomap\<close>; strings, integers and booleans are the Go
  zero value when unset. The custom resources are those of \<open>src/api/v1alpha1\<close>.
\<close>

section \<open>Opaque values, quantities, JSON\<close>

datatype k8s = K8s string

text \<open>A \<open>resource.Quantity\<close>: its value in billionths of the unit and the text it was written in.
  \<open>Equal\<close> and \<open>Cmp\<close> compare values, so \<open>1Gi\<close> and \<open>1024Mi\<close> are the same quantity.\<close>

datatype quantity = Quantity (qval: int) (qtext: string)

definition quantity_equal :: "quantity \<Rightarrow> quantity \<Rightarrow> bool" where
  "quantity_equal a b \<longleftrightarrow> qval a = qval b"

lemma quantity_equal_refl [simp]: "quantity_equal q q"
  by (simp add: quantity_equal_def)

text \<open>Decoded JSON: an object is an association list, a number is kept as its literal text.\<close>

datatype json = JNull | JBool bool | JNum string | JStr string | JArr "json list"
  | JObj "(string \<times> json) list"

section \<open>Pod templates\<close>

datatype int_or_string = IntPort int | NamedPort string

record http_get =
  hg_path :: string
  hg_scheme :: string
  hg_port :: int_or_string
  hg_rest :: k8s

record probe =
  pr_initialDelaySeconds :: int
  pr_timeoutSeconds :: int
  pr_periodSeconds :: int
  pr_successThreshold :: int
  pr_failureThreshold :: int
  pr_httpGet :: "http_get option"
  pr_rest :: k8s

record lifecycle_handler =
  lh_httpGet :: "http_get option"
  lh_exec :: "string list option"
  lh_sleep :: "int option"
  lh_rest :: k8s

record lifecycle =
  lc_postStart :: "lifecycle_handler option"
  lc_preStop :: "lifecycle_handler option"
  lc_rest :: k8s

record field_ref =
  fr_apiVersion :: string
  fr_fieldPath :: string

record env_source =
  vs_fieldRef :: "field_ref option"
  vs_secretKeyRef :: "string option"
  vs_configMapKeyRef :: "string option"
  vs_resourceFieldRef :: "(string \<times> string) option"
  vs_rest :: k8s

record env_var =
  ev_name :: string
  ev_value :: string
  ev_valueFrom :: "env_source option"

text \<open>An environment source reads one key of a Secret or ConfigMap or a whole one; the name is kept. A resource
  reference names a container and one of its limits.\<close>

record env_from =
  ef_secretRef :: "string option"
  ef_configMapRef :: "string option"
  ef_rest :: k8s

record volume_mount =
  vm_name :: string
  vm_mountPath :: string
  vm_subPath :: string
  vm_readOnly :: bool
  vm_rest :: k8s

record resource_requirements =
  rr_requests :: "(string, quantity) gomap"
  rr_limits :: "(string, quantity) gomap"
  rr_claims :: "k8s slice"

record security_context =
  sc_allowPrivilegeEscalation :: "bool option"
  sc_readOnlyRootFilesystem :: "bool option"
  sc_runAsNonRoot :: "bool option"
  sc_runAsUser :: "int option"
  sc_runAsGroup :: "int option"
  sc_capabilitiesDrop :: "string slice"
  sc_rest :: k8s

record port_decl =
  po_name :: string
  po_port :: int

record container =
  c_name :: string
  c_image :: string
  c_imagePullPolicy :: string
  c_command :: "string slice"
  c_args :: "string slice"
  c_workingDir :: string
  c_ports :: "port_decl slice"
  c_env :: "env_var slice"
  c_envFrom :: "env_from slice"
  c_resources :: resource_requirements
  c_resizePolicy :: "k8s slice"
  c_volumeMounts :: "volume_mount slice"
  c_volumeDevices :: "k8s slice"
  c_livenessProbe :: "probe option"
  c_readinessProbe :: "probe option"
  c_startupProbe :: "probe option"
  c_lifecycle :: "lifecycle option"
  c_terminationMessagePath :: string
  c_terminationMessagePolicy :: string
  c_securityContext :: "security_context option"
  c_restartPolicy :: "string option"
  c_stdin :: bool
  c_stdinOnce :: bool
  c_tty :: bool
  c_rest :: k8s

record empty_dir =
  ed_medium :: string
  ed_sizeLimit :: "quantity option"

record host_path =
  hp_path :: string
  hp_type :: "string option"

text \<open>A volume: its name and, for each source that can carry Secret material, what the sources read
  of it. A driver such as CSI is \<open>Some\<close> when the source is set, holding the name of its secret
  reference when it has one. A projected source has the name of its Secret or ConfigMap, the path and lifetime of a
  token, or paths with the fields they hold. \<open>v_items\<close> are the keys a Secret or ConfigMap volume is cut down to, none
  for all; \<open>v_ephemeral\<close> is \<open>Some\<close> when that source is set, holding the claim template when it has one.\<close>

record projected_source =
  pj_secret :: "string option"
  pj_configMap :: "string option"
  pj_serviceAccountToken :: "(string \<times> int) option"
  pj_downwardAPI :: "(string \<times> string) list option"

record claim_spec =
  cl_dataSource :: "k8s option"
  cl_dataSourceRef :: "k8s option"
  cl_rest :: k8s

record volume =
  v_name :: string
  v_emptyDir :: "empty_dir option"
  v_hostPath :: "host_path option"
  v_configMap :: "string option"
  v_secret :: "string option"
  v_items :: "string list"
  v_projected :: "projected_source list option"
  v_persistentVolumeClaim :: "string option"
  v_ephemeral :: "claim_spec option option"
  v_csi :: "string option option"
  v_azureFile :: "string option"
  v_cephFS :: "string option option"
  v_cinder :: "string option option"
  v_flexVolume :: "string option option"
  v_iscsi :: "string option option"
  v_rbd :: "string option option"
  v_scaleIO :: "string option option"
  v_storageOS :: "string option option"
  v_rest :: k8s

record pod_security_context =
  ps_fsGroup :: "int option"
  ps_fsGroupChangePolicy :: "string option"
  ps_rest :: k8s

record pod_spec =
  p_volumes :: "volume slice"
  p_initContainers :: "container slice"
  p_containers :: "container slice"
  p_terminationGracePeriodSeconds :: "int option"
  p_dnsPolicy :: string
  p_nodeSelector :: "(string, string) gomap"
  p_serviceAccountName :: string
  p_automountServiceAccountToken :: "bool option"
  p_securityContext :: "pod_security_context option"
  p_imagePullSecrets :: "k8s slice"
  p_affinity :: "k8s option"
  p_schedulerName :: string
  p_tolerations :: "k8s slice"
  p_hostAliases :: "k8s slice"
  p_priorityClassName :: string
  p_preemptionPolicy :: "string option"
  p_dnsConfig :: "k8s option"
  p_readinessGates :: "k8s slice"
  p_runtimeClassName :: "string option"
  p_enableServiceLinks :: "bool option"
  p_overhead :: "(string, quantity) gomap"
  p_topologySpreadConstraints :: "k8s slice"
  p_os :: "k8s option"
  p_resourceClaims :: "k8s slice"
  p_subdomain :: string
  p_hostname :: string
  p_restartPolicy :: string
  p_activeDeadlineSeconds :: "int option"
  p_hostNetwork :: bool
  p_hostPID :: bool
  p_hostIPC :: bool
  p_shareProcessNamespace :: "bool option"
  p_hostUsers :: "bool option"

text \<open>The metadata of a pod template apart from labels and annotations.\<close>

record template_meta =
  tm_name :: string
  tm_generateName :: string
  tm_namespace :: string
  tm_uid :: string
  tm_resourceVersion :: string
  tm_generation :: int
  tm_creationTimestamp :: "time option"
  tm_deletionTimestamp :: "time option"
  tm_deletionGracePeriodSeconds :: "int option"
  tm_ownerReferences :: "k8s list"
  tm_finalizers :: "string list"
  tm_managedFields :: "k8s list"

record pod_template =
  pt_labels :: "(string, string) gomap"
  pt_annotations :: "(string, string) gomap"
  pt_meta :: template_meta
  pt_spec :: pod_spec

subsection \<open>Zero values\<close>

definition empty_resources :: resource_requirements where
  "empty_resources = \<lparr>rr_requests = None, rr_limits = None, rr_claims = None\<rparr>"

definition empty_container :: container where
  "empty_container = \<lparr>c_name = [], c_image = [], c_imagePullPolicy = [], c_command = None,
     c_args = None, c_workingDir = [], c_ports = None, c_env = None, c_envFrom = None,
     c_resources = empty_resources, c_resizePolicy = None, c_volumeMounts = None,
     c_volumeDevices = None, c_livenessProbe = None, c_readinessProbe = None,
     c_startupProbe = None, c_lifecycle = None, c_terminationMessagePath = [],
     c_terminationMessagePolicy = [], c_securityContext = None, c_restartPolicy = None,
     c_stdin = False, c_stdinOnce = False, c_tty = False, c_rest = K8s []\<rparr>"

definition empty_volume :: volume where
  "empty_volume = \<lparr>v_name = [], v_emptyDir = None, v_hostPath = None, v_configMap = None,
     v_secret = None, v_items = [], v_projected = None, v_persistentVolumeClaim = None,
     v_ephemeral = None, v_csi = None, v_azureFile = None, v_cephFS = None,
     v_cinder = None, v_flexVolume = None, v_iscsi = None, v_rbd = None, v_scaleIO = None,
     v_storageOS = None, v_rest = K8s []\<rparr>"

definition empty_pod_spec :: pod_spec where
  "empty_pod_spec = \<lparr>p_volumes = None, p_initContainers = None, p_containers = None,
     p_terminationGracePeriodSeconds = None, p_dnsPolicy = [], p_nodeSelector = None,
     p_serviceAccountName = [], p_automountServiceAccountToken = None, p_securityContext = None,
     p_imagePullSecrets = None, p_affinity = None, p_schedulerName = [], p_tolerations = None,
     p_hostAliases = None, p_priorityClassName = [], p_preemptionPolicy = None,
     p_dnsConfig = None, p_readinessGates = None, p_runtimeClassName = None,
     p_enableServiceLinks = None, p_overhead = None, p_topologySpreadConstraints = None,
     p_os = None, p_resourceClaims = None, p_subdomain = [], p_hostname = [], p_restartPolicy = [],
     p_activeDeadlineSeconds = None, p_hostNetwork = False, p_hostPID = False, p_hostIPC = False,
     p_shareProcessNamespace = None, p_hostUsers = None\<rparr>"

definition empty_template_meta :: template_meta where
  "empty_template_meta = \<lparr>tm_name = [], tm_generateName = [], tm_namespace = [], tm_uid = [],
     tm_resourceVersion = [], tm_generation = 0, tm_creationTimestamp = None, tm_deletionTimestamp = None,
     tm_deletionGracePeriodSeconds = None, tm_ownerReferences = [], tm_finalizers = [], tm_managedFields = []\<rparr>"

definition empty_pod_template :: pod_template where
  "empty_pod_template = \<lparr>pt_labels = None, pt_annotations = None, pt_meta = empty_template_meta,
     pt_spec = empty_pod_spec\<rparr>"

section \<open>Workload objects\<close>

record claim_template =
  ct_name :: string
  ct_labels :: "(string, string) gomap"
  ct_accessModes :: "string slice"
  ct_requests :: "(string, quantity) gomap"
  ct_storageClassName :: "string option"

record stateful_set =
  sts_name :: string
  sts_namespace :: string
  sts_labels :: "(string, string) gomap"
  sts_annotations :: "(string, string) gomap"
  sts_serviceName :: string
  sts_replicas :: "int option"
  sts_podManagementPolicy :: string
  sts_selector :: "(string, string) gomap"
  sts_volumeClaimTemplates :: "claim_template slice"
  sts_pvcRetention :: "(string \<times> string) option"
  sts_template :: pod_template

record service =
  svc_name :: string
  svc_namespace :: string
  svc_labels :: "(string, string) gomap"
  svc_type :: string
  svc_clusterIP :: string
  svc_publishNotReadyAddresses :: bool
  svc_selector :: "(string, string) gomap"
  svc_ports :: "port_decl slice"

text \<open>A ConfigMap of the operator carries one document; the model keeps the document itself, of
  which the source stores the YAML rendering under the key \<open>config.yaml\<close>.\<close>

record config_map =
  cm_name :: string
  cm_namespace :: string
  cm_labels :: "(string, string) gomap"
  cm_document :: json

record certificate =
  crt_name :: string
  crt_namespace :: string
  crt_labels :: "(string, string) gomap"
  crt_secretName :: string
  crt_secretLabels :: "(string, string) gomap"
  crt_usages :: "string list"
  crt_encoding :: string
  crt_dnsNames :: "string list"
  crt_issuerName :: string
  crt_issuerKind :: string
  crt_duration :: "int option"
  crt_renewBefore :: "int option"
  crt_rotationPolicy :: string
  crt_algorithm :: string
  crt_size :: int

datatype object = OSts stateful_set | OSvc service | OCm config_map | OCrt certificate

section \<open>Custom resources\<close>

record pvc_spec =
  pv_size :: quantity
  pv_accessModes :: "string slice"
  pv_storageClassName :: "string option"

record storage_spec =
  st_pvc :: "pvc_spec option"
  st_emptyDir :: "empty_dir option"
  st_hostPath :: "host_path option"

definition empty_storage :: storage_spec where
  "empty_storage = \<lparr>st_pvc = None, st_emptyDir = None, st_hostPath = None\<rparr>"

record schedule_window =
  sw_start :: string
  sw_end :: string
  sw_days :: "string list"

record auto_stop_spec =
  as_enabled :: bool
  as_activeReplicas :: int
  as_idleReplicas :: "int option"
  as_idleTimeout :: "int option"
  as_pollInterval :: "int option"
  as_schedule :: "schedule_window list"

text \<open>\<open>FireboltEngineSpec\<close>. The rollout strategy is the empty string when unset, as in Go; the custom
  configuration is the decoded payload.\<close>

record engine_spec =
  sp_instanceRef :: string
  sp_engineClassRef :: "string option"
  sp_requirePreset :: "bool option"
  sp_replicas :: int
  sp_template :: "pod_template option"
  sp_uiSidecar :: "bool option"
  sp_drainCheckEnabled :: "bool option"
  sp_drainCheckInterval :: "int option"
  sp_rollout :: string
  sp_metadataEndpointOverride :: "string option"
  sp_storage :: storage_spec
  sp_customEngineConfig :: "json option"
  sp_autoStop :: "auto_stop_spec option"

datatype engine_phase = PhaseUnset | PhaseStable | PhaseCreating | PhaseSwitching
  | PhaseDraining | PhaseCleaning | PhaseStopped | PhaseOther string

record condition =
  cd_type :: string
  cd_status :: string
  cd_reason :: string
  cd_message :: string
  cd_observedGeneration :: int

record engine_status =
  es_observedGeneration :: int
  es_currentGeneration :: int
  es_activeGeneration :: int
  es_drainingGeneration :: "int option"
  es_phase :: engine_phase
  es_lastReconciled :: "time option"
  es_lastActivityTime :: "time option"
  es_lastWakeDemandTime :: "time option"
  es_wakeProtectionUntil :: "time option"
  es_lastScaledAt :: "time option"
  es_autoStopReason :: string
  es_observedAuthHash :: string
  es_observedEngineTLSHash :: string
  es_observedEngineServingCertFP :: string
  es_observedEngineServingCertGen :: int
  es_readyReplicas :: int
  es_appliedPresetName :: string
  es_appliedPresetHash :: string
  es_conditions :: "condition list"

section \<open>Instance authentication and TLS\<close>

record cert_manager_spec =
  cms_issuerName :: string
  cms_issuerKind :: string
  cms_algorithm :: string
  cms_size :: int
  cms_duration :: "int option"
  cms_renewBefore :: "int option"

record signing_key_policy =
  sk_certManager :: cert_manager_spec
  sk_rotationInterval :: "int option"
  sk_retainDuration :: "int option"

record local_auth_spec =
  la_passwordLogin :: string
  la_adminName :: string
  la_adminPasswordName :: string
  la_adminPasswordKey :: string
  la_signingAlgorithm :: string
  la_tokenExpiry :: string
  la_maxTokenAge :: string
  la_clockSkewTolerance :: string
  la_signingKeys :: "signing_key_policy option"

record oidc_provider =
  op_name :: string
  op_title :: string
  op_discoveryURL :: string
  op_target :: "(string \<times> string) option"
  op_exchange :: "string option"
  op_audience :: string
  op_usernameMapping :: string
  op_jit :: "(bool \<times> string list) option"
  op_jwksCacheTTL :: "string option"
  op_discoveryRefreshInterval :: "string option"
  op_roleMapping :: "(string \<times> (string \<times> string) list) option"

record oidc_spec =
  oi_jwt :: "(string \<times> string) option"
  oi_providers :: "oidc_provider list"

record auth_spec =
  au_enabled :: bool
  au_preferredAuthorizationServer :: string
  au_local :: "local_auth_spec option"
  au_oidc :: "oidc_spec option"

datatype signing_key_phase = KeyUnset | KeyActive | KeyValidationOnly | KeyRemoving

record signing_key =
  ky_id :: string
  ky_secretName :: string
  ky_createdAt :: time
  ky_observedFingerprint :: "string option"
  ky_algorithm :: string
  ky_size :: int
  ky_phase :: signing_key_phase
  ky_demotedAt :: "time option"
  ky_retireEligibleAt :: "time option"

end
