(* ===== verification/Engine_Effective.thy ===== *)
theory Engine_Effective
  imports K8s_Types
begin

text \<open>
  The effective-value resolvers of \<open>src/internal/controller/engine_reconcile.go\<close>: every field of the
  engine pod is resolved from the engine's own template, then the engine class (with the namespace
  Preset folded over it, \<open>engine_preset_overlay.go\<close>), then the operator default. The StatefulSet
  builder and the drift comparator both consume these functions.

  Package variables and code outside the repository are fields of \<open>operator_env\<close>, an argument of the
  definitions that use them: the SHA-256 digest in hexadecimal, the container-reference parser of
  \<open>github.com/distribution/reference\<close> (returning tag and digest, \<open>None\<close> on a parse error),
  \<open>encoding/json\<close> on Kubernetes types, the default images and the telemetry switch.
\<close>

section \<open>Names fixed by the operator\<close>

definition LabelEngine :: string where "LabelEngine = ''firebolt.io/engine''"
definition LabelGeneration :: string where "LabelGeneration = ''firebolt.io/generation''"
definition SuffixService :: string where "SuffixService = ''-service''"
definition SuffixGen :: string where "SuffixGen = ''-g''"
definition SuffixHL :: string where "SuffixHL = ''-hl''"
definition SuffixConfig :: string where "SuffixConfig = ''-config''"
definition SuffixEngineTLS :: string where "SuffixEngineTLS = ''-engine-tls''"
definition SuffixAuthSigning :: string where "SuffixAuthSigning = ''-auth-signing''"

definition EngineContainerName :: string where "EngineContainerName = ''engine''"
definition EngineWebContainerName :: string where "EngineWebContainerName = ''engine-web''"
definition EngineConfigVolumeName :: string where "EngineConfigVolumeName = ''engine-config''"
definition EngineRuntimeVolumeName :: string where "EngineRuntimeVolumeName = ''runtime''"
definition EngineAuthAdminVolumeName :: string where "EngineAuthAdminVolumeName = ''auth-admin''"
definition EngineAuthSigningVolumeNamePrefix :: string where
  "EngineAuthSigningVolumeNamePrefix = ''auth-signing-''"
definition EngineTLSVolumeName :: string where "EngineTLSVolumeName = ''tls-engine''"
definition DataVolumeName :: string where "DataVolumeName = ''data''"
definition EngineWebWritableVolumeName :: string where
  "EngineWebWritableVolumeName = ''nginx-writable-dir''"

lemmas operator_names =
  LabelEngine_def LabelGeneration_def EngineContainerName_def EngineWebContainerName_def
  EngineConfigVolumeName_def EngineRuntimeVolumeName_def EngineAuthAdminVolumeName_def
  EngineAuthSigningVolumeNamePrefix_def EngineTLSVolumeName_def DataVolumeName_def
  EngineWebWritableVolumeName_def

section \<open>Inputs of the renderer\<close>

text \<open>What \<open>authHash\<close> marshals: the auth spec and, per signing key, its identifier, its Secret name and
  its public-key fingerprint.\<close>

record auth_hash_input =
  ah_spec :: auth_spec
  ah_signingKeys :: "(string \<times> string \<times> string) list"
  ah_adminSecretVersion :: string

record operator_env =
  oe_sha256hex :: "string \<Rightarrow> string"
  oe_parseReference :: "string \<Rightarrow> (string \<times> string) option"
  oe_marshalTemplate :: "pod_template \<Rightarrow> string"
  oe_marshalAuth :: "auth_hash_input \<Rightarrow> string"
  oe_marshalJson :: "json \<Rightarrow> string"
  oe_engineRepository :: string
  oe_engineTag :: string
  oe_engineWebImage :: string
  oe_telemetryDisabled :: bool

definition contentHash :: "operator_env \<Rightarrow> string \<Rightarrow> string" where
  "contentHash env content = take 16 (oe_sha256hex env content)"

record resolved_auth =
  ra_spec :: auth_spec
  ra_signingKeys :: "signing_key list"
  ra_adminSecretVersion :: string
  ra_fingerprints :: "(string, string) fmap"

record resolved_tls =
  rt_secretName :: string
  rt_certManager :: "cert_manager_spec option"
  rt_servingCertFP :: string

record instance_info =
  ii_metadataEndpoint :: string
  ii_instanceID :: string
  ii_auth :: "resolved_auth option"
  ii_tls :: "resolved_tls option"
  ii_engineTrustBundleReady :: bool
  ii_protectedSecretNames :: "string list"

record class_info =
  ci_name :: string
  ci_template :: "pod_template option"
  ci_uiSidecar :: "bool option"
  ci_storage :: storage_spec
  ci_customEngineConfig :: "json option"
  ci_rollout :: string
  ci_drainCheckEnabled :: "bool option"
  ci_drainCheckInterval :: "int option"
  ci_autoStop :: "auto_stop_spec option"
  ci_hash :: string
  ci_presetName :: string
  ci_presetHash :: string

section \<open>Templates and containers\<close>

definition engineTemplate :: "engine_spec \<Rightarrow> pod_template" where
  "engineTemplate spec = (case sp_template spec of Some t \<Rightarrow> t | None \<Rightarrow> empty_pod_template)"

text \<open>The class template, nil when no class is bound or the class has none.\<close>

definition class_template :: "class_info option \<Rightarrow> pod_template option" where
  "class_template ci = Option.bind ci ci_template"

definition class_pod :: "class_info option \<Rightarrow> pod_spec" where
  "class_pod ci = (case class_template ci of Some t \<Rightarrow> pt_spec t | None \<Rightarrow> empty_pod_spec)"

definition engine_pod :: "engine_spec \<Rightarrow> pod_spec" where
  "engine_pod spec = pt_spec (engineTemplate spec)"

definition EngineContainerInTemplate :: "pod_template option \<Rightarrow> container option" where
  "EngineContainerInTemplate t =
     (case t of
        None \<Rightarrow> None
      | Some t' \<Rightarrow> List.find (\<lambda>c. c_name c = EngineContainerName) (sitems (p_containers (pt_spec t'))))"

definition engineSpecContainer :: "engine_spec \<Rightarrow> container option" where
  "engineSpecContainer spec = EngineContainerInTemplate (sp_template spec)"

definition classEngineContainer :: "class_info option \<Rightarrow> container option" where
  "classEngineContainer ci =
     (case class_template ci of
        None \<Rightarrow> None
      | Some t \<Rightarrow> List.find (\<lambda>c. c_name c = EngineContainerName) (sitems (p_containers (pt_spec t))))"

section \<open>Pod-level resolvers\<close>

text \<open>Concatenation, class first, nil when neither side contributes (tolerations, spread constraints,
  readiness gates, claims, host aliases, pull secrets).\<close>

definition class_then_engine :: "'a slice \<Rightarrow> 'a slice \<Rightarrow> 'a slice" where
  "class_then_engine cls eng =
     (if length (sitems cls) = 0 \<and> length (sitems eng) = 0 then None
      else Some (sitems cls @ sitems eng))"

text \<open>Map merge, engine keys win, nil when neither side contributes.\<close>

definition merge_maps :: "('k, 'v) gomap \<Rightarrow> ('k, 'v) gomap \<Rightarrow> ('k, 'v) gomap" where
  "merge_maps cls eng =
     (if mlen cls = 0 \<and> mlen eng = 0 then None else Some (mitems cls ++\<^sub>f mitems eng))"

definition enginePodServiceAccountName :: "engine_spec \<Rightarrow> string" where
  "enginePodServiceAccountName spec = p_serviceAccountName (engine_pod spec)"

definition effectiveServiceAccountName :: "engine_spec \<Rightarrow> class_info option \<Rightarrow> string" where
  "effectiveServiceAccountName spec ci =
     (if enginePodServiceAccountName spec \<noteq> [] then enginePodServiceAccountName spec
      else p_serviceAccountName (class_pod ci))"

definition effectiveAutomountServiceAccountToken ::
  "engine_spec \<Rightarrow> class_info option \<Rightarrow> bool option" where
  "effectiveAutomountServiceAccountToken spec ci =
     or_else (p_automountServiceAccountToken (engine_pod spec))
       (p_automountServiceAccountToken (class_pod ci))"

definition effectiveNodeSelector :: "engine_spec \<Rightarrow> class_info option \<Rightarrow> (string, string) gomap" where
  "effectiveNodeSelector spec ci =
     merge_maps (p_nodeSelector (class_pod ci)) (p_nodeSelector (engine_pod spec))"

definition effectiveTolerations :: "engine_spec \<Rightarrow> class_info option \<Rightarrow> k8s slice" where
  "effectiveTolerations spec ci =
     class_then_engine (p_tolerations (class_pod ci)) (p_tolerations (engine_pod spec))"

definition effectiveAffinity :: "engine_spec \<Rightarrow> class_info option \<Rightarrow> k8s option" where
  "effectiveAffinity spec ci = or_else (p_affinity (engine_pod spec)) (p_affinity (class_pod ci))"

definition effectiveTopologySpreadConstraints :: "engine_spec \<Rightarrow> class_info option \<Rightarrow> k8s slice" where
  "effectiveTopologySpreadConstraints spec ci =
     class_then_engine (p_topologySpreadConstraints (class_pod ci))
       (p_topologySpreadConstraints (engine_pod spec))"

definition effectivePriorityClassName :: "engine_spec \<Rightarrow> class_info option \<Rightarrow> string" where
  "effectivePriorityClassName spec ci =
     str_or_else (p_priorityClassName (engine_pod spec)) (p_priorityClassName (class_pod ci))"

definition effectiveRuntimeClassName :: "engine_spec \<Rightarrow> class_info option \<Rightarrow> string option" where
  "effectiveRuntimeClassName spec ci =
     or_else (p_runtimeClassName (engine_pod spec)) (p_runtimeClassName (class_pod ci))"

definition effectiveDNSPolicy :: "engine_spec \<Rightarrow> class_info option \<Rightarrow> string" where
  "effectiveDNSPolicy spec ci =
     str_or_else (p_dnsPolicy (engine_pod spec)) (p_dnsPolicy (class_pod ci))"

definition effectiveDNSConfig :: "engine_spec \<Rightarrow> class_info option \<Rightarrow> k8s option" where
  "effectiveDNSConfig spec ci = or_else (p_dnsConfig (engine_pod spec)) (p_dnsConfig (class_pod ci))"

definition storageBackendSet :: "storage_spec \<Rightarrow> bool" where
  "storageBackendSet s \<longleftrightarrow> st_pvc s \<noteq> None \<or> st_emptyDir s \<noteq> None \<or> st_hostPath s \<noteq> None"

definition effectiveStorage :: "engine_spec \<Rightarrow> class_info option \<Rightarrow> storage_spec" where
  "effectiveStorage spec ci =
     (if storageBackendSet (sp_storage spec) then sp_storage spec
      else case ci of
        Some c \<Rightarrow> if storageBackendSet (ci_storage c) then ci_storage c else sp_storage spec
      | None \<Rightarrow> sp_storage spec)"

definition RolloutGraceful :: string where "RolloutGraceful = ''graceful''"
definition RolloutRecreate :: string where "RolloutRecreate = ''recreate''"

definition effectiveRollout :: "engine_spec \<Rightarrow> class_info option \<Rightarrow> string" where
  "effectiveRollout spec ci =
     (if sp_rollout spec \<noteq> [] then sp_rollout spec
      else case ci of
        Some c \<Rightarrow> if ci_rollout c \<noteq> [] then ci_rollout c else RolloutGraceful
      | None \<Rightarrow> RolloutGraceful)"

definition effectiveDrainCheckEnabled :: "engine_spec \<Rightarrow> class_info option \<Rightarrow> bool" where
  "effectiveDrainCheckEnabled spec ci =
     (case or_else (sp_drainCheckEnabled spec) (Option.bind ci ci_drainCheckEnabled) of
        Some b \<Rightarrow> b | None \<Rightarrow> True)"

definition effectiveUISidecarEnabled :: "engine_spec \<Rightarrow> class_info option \<Rightarrow> bool" where
  "effectiveUISidecarEnabled spec ci =
     (case or_else (sp_uiSidecar spec) (Option.bind ci ci_uiSidecar) of
        Some b \<Rightarrow> b | None \<Rightarrow> False)"

definition effectiveAutoStop :: "engine_spec \<Rightarrow> class_info option \<Rightarrow> auto_stop_spec option" where
  "effectiveAutoStop spec ci = or_else (sp_autoStop spec) (Option.bind ci ci_autoStop)"

definition DefaultDrainCheckInterval :: int where "DefaultDrainCheckInterval = 5 * second"

definition getDrainCheckInterval :: "engine_spec \<Rightarrow> class_info option \<Rightarrow> int" where
  "getDrainCheckInterval spec ci =
     (case or_else (sp_drainCheckInterval spec) (Option.bind ci ci_drainCheckInterval) of
        Some d \<Rightarrow> d | None \<Rightarrow> DefaultDrainCheckInterval)"

definition effectiveSchedulerName :: "engine_spec \<Rightarrow> class_info option \<Rightarrow> string" where
  "effectiveSchedulerName spec ci =
     str_or_else (p_schedulerName (engine_pod spec)) (p_schedulerName (class_pod ci))"

definition effectivePreemptionPolicy :: "engine_spec \<Rightarrow> class_info option \<Rightarrow> string option" where
  "effectivePreemptionPolicy spec ci =
     or_else (p_preemptionPolicy (engine_pod spec)) (p_preemptionPolicy (class_pod ci))"

definition effectiveReadinessGates :: "engine_spec \<Rightarrow> class_info option \<Rightarrow> k8s slice" where
  "effectiveReadinessGates spec ci =
     class_then_engine (p_readinessGates (class_pod ci)) (p_readinessGates (engine_pod spec))"

definition effectivePodResourceClaims :: "engine_spec \<Rightarrow> class_info option \<Rightarrow> k8s slice" where
  "effectivePodResourceClaims spec ci =
     class_then_engine (p_resourceClaims (class_pod ci)) (p_resourceClaims (engine_pod spec))"

definition effectiveHostAliases :: "engine_spec \<Rightarrow> class_info option \<Rightarrow> k8s slice" where
  "effectiveHostAliases spec ci =
     class_then_engine (p_hostAliases (class_pod ci)) (p_hostAliases (engine_pod spec))"

definition effectivePodOS :: "engine_spec \<Rightarrow> class_info option \<Rightarrow> k8s option" where
  "effectivePodOS spec ci = or_else (p_os (engine_pod spec)) (p_os (class_pod ci))"

definition effectivePodOverhead ::
  "engine_spec \<Rightarrow> class_info option \<Rightarrow> (string, quantity) gomap" where
  "effectivePodOverhead spec ci =
     (if mlen (p_overhead (engine_pod spec)) > 0 then p_overhead (engine_pod spec)
      else if mlen (p_overhead (class_pod ci)) > 0 then p_overhead (class_pod ci)
      else None)"

definition effectiveImagePullSecrets :: "engine_spec \<Rightarrow> class_info option \<Rightarrow> k8s slice" where
  "effectiveImagePullSecrets spec ci =
     class_then_engine (p_imagePullSecrets (class_pod ci)) (p_imagePullSecrets (engine_pod spec))"

text \<open>User labels never replace the two labels the selectors rest on.\<close>

definition drop_reserved :: "(string, string) fmap \<Rightarrow> (string, string) fmap" where
  "drop_reserved m = fmfilter (\<lambda>k. k \<noteq> LabelEngine \<and> k \<noteq> LabelGeneration) m"

definition base_labels :: "string \<Rightarrow> int \<Rightarrow> (string, string) fmap" where
  "base_labels engineName gen =
     fmupd LabelGeneration (itoa gen) (fmupd LabelEngine engineName fmempty)"

definition class_labels :: "class_info option \<Rightarrow> (string, string) fmap" where
  "class_labels ci =
     (case class_template ci of Some t \<Rightarrow> mitems (pt_labels t) | None \<Rightarrow> fmempty)"

definition effectivePodLabels ::
  "engine_spec \<Rightarrow> string \<Rightarrow> int \<Rightarrow> class_info option \<Rightarrow> (string, string) gomap" where
  "effectivePodLabels spec engineName gen ci =
     Some (base_labels engineName gen ++\<^sub>f drop_reserved (class_labels ci)
             ++\<^sub>f drop_reserved (mitems (pt_labels (engineTemplate spec))))"

definition effectivePodAnnotations ::
  "engine_spec \<Rightarrow> class_info option \<Rightarrow> (string, string) gomap" where
  "effectivePodAnnotations spec ci =
     merge_maps (case class_template ci of Some t \<Rightarrow> pt_annotations t | None \<Rightarrow> None)
       (pt_annotations (engineTemplate spec))"

definition DefaultEngineFSGroup :: int where "DefaultEngineFSGroup = 3473"

definition effectivePodSecurityContext ::
  "engine_spec \<Rightarrow> class_info option \<Rightarrow> pod_security_context" where
  "effectivePodSecurityContext spec ci =
     (let psc = (case or_else (p_securityContext (engine_pod spec)) (p_securityContext (class_pod ci)) of
                   Some s \<Rightarrow> s
                 | None \<Rightarrow> \<lparr>ps_fsGroup = None, ps_fsGroupChangePolicy = None, ps_rest = K8s []\<rparr>);
          psc1 = (if ps_fsGroup psc = None
                  then psc\<lparr>ps_fsGroup := Some DefaultEngineFSGroup\<rparr> else psc)
      in if ps_fsGroupChangePolicy psc1 = None
         then psc1\<lparr>ps_fsGroupChangePolicy := Some ''OnRootMismatch''\<rparr> else psc1)"

section \<open>Images\<close>

definition containerImageDefaultTag :: "operator_env \<Rightarrow> string \<Rightarrow> string" where
  "containerImageDefaultTag env img =
     (case oe_parseReference env img of
        None \<Rightarrow> []
      | Some (tag, digest) \<Rightarrow> if tag = [] \<and> digest = [] then ''latest'' else tag)"

definition resolveContainerImagePullPolicy :: "operator_env \<Rightarrow> string \<Rightarrow> string \<Rightarrow> string" where
  "resolveContainerImagePullPolicy env img policy =
     (if policy \<noteq> [] then policy
      else if containerImageDefaultTag env img = ''latest'' then ''Always''
      else ''IfNotPresent'')"

definition resolveWorkloadImagePullPolicy :: "operator_env \<Rightarrow> string \<Rightarrow> string" where
  "resolveWorkloadImagePullPolicy env img =
     (if containerImageDefaultTag env img = ''dev'' then ''Always''
      else resolveContainerImagePullPolicy env img [])"

text \<open>An \<open>ImageSpec\<close> is a pair of repository and tag, each empty when unset.\<close>

definition resolveImageRef :: "(string \<times> string) option \<Rightarrow> string \<Rightarrow> string \<Rightarrow> string" where
  "resolveImageRef spec defaultRepo defaultTag =
     (let repo = (case spec of Some (r, t) \<Rightarrow> str_or_else r defaultRepo | None \<Rightarrow> defaultRepo);
          tag = (case spec of Some (r, t) \<Rightarrow> str_or_else t defaultTag | None \<Rightarrow> defaultTag)
      in repo @ '':'' @ tag)"

definition engineExplicitPullPolicy :: "engine_spec \<Rightarrow> class_info option \<Rightarrow> string" where
  "engineExplicitPullPolicy spec ci =
     str_or_else (case engineSpecContainer spec of Some c \<Rightarrow> c_imagePullPolicy c | None \<Rightarrow> [])
       (case classEngineContainer ci of Some c \<Rightarrow> c_imagePullPolicy c | None \<Rightarrow> [])"

definition effectiveEngineImage ::
  "operator_env \<Rightarrow> engine_spec \<Rightarrow> class_info option \<Rightarrow> string \<times> string" where
  "effectiveEngineImage env spec ci =
     (let image0 = resolveImageRef None (oe_engineRepository env) (oe_engineTag env);
          image1 = (case classEngineContainer ci of
                      Some c \<Rightarrow> str_or_else (c_image c) image0 | None \<Rightarrow> image0);
          img = (case engineSpecContainer spec of
                     Some c \<Rightarrow> str_or_else (c_image c) image1 | None \<Rightarrow> image1);
          pull = engineExplicitPullPolicy spec ci
      in (img, if pull = [] then resolveWorkloadImagePullPolicy env img else pull))"

definition effectiveEngineWebPullPolicy ::
  "operator_env \<Rightarrow> engine_spec \<Rightarrow> class_info option \<Rightarrow> string" where
  "effectiveEngineWebPullPolicy env spec ci =
     (let p = engineExplicitPullPolicy spec ci
      in if p \<noteq> [] then p else resolveContainerImagePullPolicy env (oe_engineWebImage env) [])"

end
