(* ===== verification/Engine_Containers.thy ===== *)
theory Engine_Containers
  imports Engine_Effective
begin

text \<open>
  Container-level resolvers of \<open>engine_reconcile.go\<close>: the API-server defaults the operator stamps on
  user containers, sidecars and init containers, the engine container's environment, mounts and
  resources, the user volumes with their reserved names and protected Secrets, and the Preset
  overlay of \<open>engine_preset_overlay.go\<close>.
\<close>

section \<open>API-server defaults\<close>

definition defaultTerminationMessagePath :: string where
  "defaultTerminationMessagePath = ''/dev/termination-log''"

definition TerminationMessageReadFile :: string where "TerminationMessageReadFile = ''File''"

definition applyHTTPGetAPIServerDefaults :: "http_get \<Rightarrow> http_get" where
  "applyHTTPGetAPIServerDefaults g =
     g\<lparr>hg_path := str_or_else (hg_path g) ''/'', hg_scheme := str_or_else (hg_scheme g) ''HTTP''\<rparr>"

definition applyHandlerHTTPGetAPIServerDefaults :: "lifecycle_handler \<Rightarrow> lifecycle_handler" where
  "applyHandlerHTTPGetAPIServerDefaults h =
     h\<lparr>lh_httpGet := map_option applyHTTPGetAPIServerDefaults (lh_httpGet h)\<rparr>"

definition applyProbeAPIServerDefaults :: "probe \<Rightarrow> probe" where
  "applyProbeAPIServerDefaults p =
     p\<lparr>pr_timeoutSeconds := (if pr_timeoutSeconds p = 0 then 1 else pr_timeoutSeconds p),
       pr_periodSeconds := (if pr_periodSeconds p = 0 then 10 else pr_periodSeconds p),
       pr_successThreshold := (if pr_successThreshold p = 0 then 1 else pr_successThreshold p),
       pr_failureThreshold := (if pr_failureThreshold p = 0 then 3 else pr_failureThreshold p),
       pr_httpGet := map_option applyHTTPGetAPIServerDefaults (pr_httpGet p)\<rparr>"

definition lifecycle_defaults :: "lifecycle \<Rightarrow> lifecycle" where
  "lifecycle_defaults l =
     l\<lparr>lc_postStart := map_option applyHandlerHTTPGetAPIServerDefaults (lc_postStart l),
       lc_preStop := map_option applyHandlerHTTPGetAPIServerDefaults (lc_preStop l)\<rparr>"

definition applyContainerAPIServerDefaults :: "operator_env \<Rightarrow> container \<Rightarrow> container" where
  "applyContainerAPIServerDefaults env c =
     c\<lparr>c_terminationMessagePath := str_or_else (c_terminationMessagePath c) defaultTerminationMessagePath,
       c_terminationMessagePolicy := str_or_else (c_terminationMessagePolicy c) TerminationMessageReadFile,
       c_imagePullPolicy := str_or_else (c_imagePullPolicy c) (resolveContainerImagePullPolicy env (c_image c) []),
       c_livenessProbe := map_option applyProbeAPIServerDefaults (c_livenessProbe c),
       c_readinessProbe := map_option applyProbeAPIServerDefaults (c_readinessProbe c),
       c_startupProbe := map_option applyProbeAPIServerDefaults (c_startupProbe c),
       c_lifecycle := map_option lifecycle_defaults (c_lifecycle c)\<rparr>"

definition normalizeContainer :: "operator_env \<Rightarrow> container \<Rightarrow> container" where
  "normalizeContainer env c = applyContainerAPIServerDefaults env c"

subsection \<open>Defaulting is idempotent\<close>

lemma str_or_else_idem [simp]: "str_or_else (str_or_else a b) b = str_or_else a b"
  by (simp add: str_or_else_def)

lemma applyHTTPGet_idem [simp]:
  "applyHTTPGetAPIServerDefaults (applyHTTPGetAPIServerDefaults g) = applyHTTPGetAPIServerDefaults g"
  by (simp add: applyHTTPGetAPIServerDefaults_def)

lemma map_option_idem: "(\<And>x. f (f x) = f x) \<Longrightarrow> map_option f (map_option f x) = map_option f x"
  by (cases x) simp_all

lemma applyHandler_idem [simp]:
  "applyHandlerHTTPGetAPIServerDefaults (applyHandlerHTTPGetAPIServerDefaults h)
     = applyHandlerHTTPGetAPIServerDefaults h"
  by (simp add: applyHandlerHTTPGetAPIServerDefaults_def map_option_idem)

lemma applyProbe_idem [simp]:
  "applyProbeAPIServerDefaults (applyProbeAPIServerDefaults p) = applyProbeAPIServerDefaults p"
  by (simp add: applyProbeAPIServerDefaults_def map_option_idem)

lemma lifecycle_defaults_idem [simp]: "lifecycle_defaults (lifecycle_defaults l) = lifecycle_defaults l"
  by (simp add: lifecycle_defaults_def map_option_idem)

lemma applyContainer_idem [simp]:
  "applyContainerAPIServerDefaults env (applyContainerAPIServerDefaults env c)
     = applyContainerAPIServerDefaults env c"
  by (simp add: applyContainerAPIServerDefaults_def map_option_idem)

lemma applyContainer_name [simp]: "c_name (applyContainerAPIServerDefaults env c) = c_name c"
  by (simp add: applyContainerAPIServerDefaults_def)

section \<open>Sidecars and init containers\<close>

definition appendSidecars :: "operator_env \<Rightarrow> container list \<Rightarrow> container list \<Rightarrow> container list" where
  "appendSidecars env dst src =
     dst @ map (applyContainerAPIServerDefaults env)
             (filter (\<lambda>c. c_name c \<noteq> EngineContainerName) src)"

definition effectiveSidecars ::
  "operator_env \<Rightarrow> engine_spec \<Rightarrow> class_info option \<Rightarrow> container slice" where
  "effectiveSidecars env spec ci =
     nil_if_empty
       (appendSidecars env
          (appendSidecars env [] (case class_template ci of
                                    Some t \<Rightarrow> sitems (p_containers (pt_spec t)) | None \<Rightarrow> []))
          (sitems (p_containers (engine_pod spec))))"

definition EngineHTTPQueryPort :: int where "EngineHTTPQueryPort = 3473"
definition HealthPort :: int where "HealthPort = 8122"
definition MetricsPort :: int where "MetricsPort = 9090"
definition EngineWebPort :: int where "EngineWebPort = 9100"
definition DefaultEngineWebD :: int where "DefaultEngineWebD = 3473"
definition DefaultEngineGID :: int where "DefaultEngineGID = 3473"

definition engineWebBackendURL :: "bool \<Rightarrow> string" where
  "engineWebBackendURL tlsEnabled =
     (if tlsEnabled then ''https'' else ''http'') @ ''://localhost:'' @ itoa EngineHTTPQueryPort"

definition hardened_security_context :: security_context where
  "hardened_security_context =
     \<lparr>sc_allowPrivilegeEscalation = Some False, sc_readOnlyRootFilesystem = Some True,
      sc_runAsNonRoot = Some True, sc_runAsUser = Some DefaultEngineWebD,
      sc_runAsGroup = Some DefaultEngineGID, sc_capabilitiesDrop = Some [''ALL''],
      sc_rest = K8s []\<rparr>"

definition defaultEngineContainerSecurityContext :: security_context where
  "defaultEngineContainerSecurityContext = hardened_security_context"

definition mk_mount :: "string \<Rightarrow> string \<Rightarrow> bool \<Rightarrow> volume_mount" where
  "mk_mount name path ro =
     \<lparr>vm_name = name, vm_mountPath = path, vm_subPath = [], vm_readOnly = ro, vm_rest = K8s []\<rparr>"

definition http_probe :: "int \<Rightarrow> int \<Rightarrow> int \<Rightarrow> int \<Rightarrow> string \<Rightarrow> int \<Rightarrow> probe" where
  "http_probe delay period timeout failures path port =
     \<lparr>pr_initialDelaySeconds = delay, pr_timeoutSeconds = timeout, pr_periodSeconds = period,
      pr_successThreshold = 0, pr_failureThreshold = failures,
      pr_httpGet = Some \<lparr>hg_path = path, hg_scheme = [], hg_port = IntPort port, hg_rest = K8s []\<rparr>,
      pr_rest = K8s []\<rparr>"

definition Mi :: int where "Mi = 1048576 * 1000000000"

definition buildEngineWebSidecar :: "operator_env \<Rightarrow> string \<Rightarrow> bool \<Rightarrow> container" where
  "buildEngineWebSidecar env pullPolicy tlsEnabled =
     applyContainerAPIServerDefaults env
       (empty_container\<lparr>
          c_name := EngineWebContainerName,
          c_image := oe_engineWebImage env,
          c_imagePullPolicy := pullPolicy,
          c_env := Some [\<lparr>ev_name = ''FIREBOLT_CORE_URL'', ev_value = engineWebBackendURL tlsEnabled,
                          ev_valueFrom = None\<rparr>],
          c_ports := Some [\<lparr>po_name = ''web-ui'', po_port = EngineWebPort\<rparr>],
          c_readinessProbe := Some (http_probe 1 3 2 3 ''/'' EngineWebPort),
          c_resources := \<lparr>rr_requests = Some (fmupd ''memory'' (Quantity (128 * Mi) ''128Mi'')
                                              (fmupd ''cpu'' (Quantity 25000000 ''25m'') fmempty)),
                          rr_limits = Some (fmupd ''memory'' (Quantity (128 * Mi) ''128Mi'') fmempty),
                          rr_claims = None\<rparr>,
          c_securityContext := Some hardened_security_context,
          c_volumeMounts := Some [mk_mount EngineWebWritableVolumeName ''/var/tmp'' False,
                                  mk_mount EngineWebWritableVolumeName ''/var/cache/nginx'' False,
                                  mk_mount EngineWebWritableVolumeName ''/var/run/nginx'' False]\<rparr>)"

definition buildEngineWebWritableVolume :: volume where
  "buildEngineWebWritableVolume =
     empty_volume\<lparr>v_name := EngineWebWritableVolumeName,
       v_emptyDir := Some \<lparr>ed_medium = [], ed_sizeLimit = None\<rparr>\<rparr>"

definition effectiveSidecarsWithUI ::
  "operator_env \<Rightarrow> engine_spec \<Rightarrow> instance_info \<Rightarrow> class_info option \<Rightarrow> container slice" where
  "effectiveSidecarsWithUI env spec info ci =
     (let sidecars = effectiveSidecars env spec ci
      in if effectiveUISidecarEnabled spec ci
         then Some (sitems sidecars @
                [buildEngineWebSidecar env (effectiveEngineWebPullPolicy env spec ci) (ii_tls info \<noteq> None)])
         else sidecars)"

definition engineClassInitContainers :: "class_info option \<Rightarrow> container slice" where
  "engineClassInitContainers ci =
     (case class_template ci of
        None \<Rightarrow> None
      | Some t \<Rightarrow> nil_if_empty (sitems (p_initContainers (pt_spec t))))"

definition engineInitContainers :: "operator_env \<Rightarrow> engine_spec \<Rightarrow> container slice" where
  "engineInitContainers env spec =
     nil_if_empty (map (applyContainerAPIServerDefaults env) (sitems (p_initContainers (engine_pod spec))))"

definition effectiveInitContainers ::
  "operator_env \<Rightarrow> engine_spec \<Rightarrow> class_info option \<Rightarrow> container slice" where
  "effectiveInitContainers env spec ci =
     class_then_engine (engineClassInitContainers ci) (engineInitContainers env spec)"

section \<open>Engine container fields\<close>

definition HasContainerResources :: "resource_requirements \<Rightarrow> bool" where
  "HasContainerResources r \<longleftrightarrow>
     mlen (rr_requests r) > 0 \<or> mlen (rr_limits r) > 0 \<or> length (sitems (rr_claims r)) > 0"

text \<open>The value a field takes on the engine container of one layer, where the layer declares one.\<close>

definition spec_field :: "engine_spec \<Rightarrow> (container \<Rightarrow> 'a option) \<Rightarrow> 'a option" where
  "spec_field spec f = Option.bind (engineSpecContainer spec) f"

definition class_field :: "class_info option \<Rightarrow> (container \<Rightarrow> 'a option) \<Rightarrow> 'a option" where
  "class_field ci f = Option.bind (classEngineContainer ci) f"

definition spec_string :: "engine_spec \<Rightarrow> (container \<Rightarrow> string) \<Rightarrow> string" where
  "spec_string spec f = (case engineSpecContainer spec of Some c \<Rightarrow> f c | None \<Rightarrow> [])"

definition class_string :: "class_info option \<Rightarrow> (container \<Rightarrow> string) \<Rightarrow> string" where
  "class_string ci f = (case classEngineContainer ci of Some c \<Rightarrow> f c | None \<Rightarrow> [])"

definition effectiveEngineResources ::
  "engine_spec \<Rightarrow> class_info option \<Rightarrow> resource_requirements" where
  "effectiveEngineResources spec ci =
     (case or_else
        (spec_field spec (\<lambda>c. if HasContainerResources (c_resources c) then Some (c_resources c) else None))
        (class_field ci (\<lambda>c. if HasContainerResources (c_resources c) then Some (c_resources c) else None)) of
        Some r \<Rightarrow> r | None \<Rightarrow> empty_resources)"

definition effectiveEngineEnv :: "engine_spec \<Rightarrow> class_info option \<Rightarrow> env_var slice" where
  "effectiveEngineEnv spec ci =
     nil_if_empty (sitems (class_field ci c_env) @ sitems (spec_field spec c_env))"

definition effectiveEngineEnvFrom :: "engine_spec \<Rightarrow> class_info option \<Rightarrow> env_from slice" where
  "effectiveEngineEnvFrom spec ci =
     nil_if_empty (sitems (class_field ci c_envFrom) @ sitems (spec_field spec c_envFrom))"

definition appendUserVolumeMounts :: "volume_mount list \<Rightarrow> volume_mount list \<Rightarrow> volume_mount list" where
  "appendUserVolumeMounts dst src =
     dst @ filter (\<lambda>m. vm_name m \<noteq> EngineConfigVolumeName \<and> vm_name m \<noteq> DataVolumeName) src"

definition effectiveEngineVolumeMounts ::
  "engine_spec \<Rightarrow> class_info option \<Rightarrow> volume_mount slice" where
  "effectiveEngineVolumeMounts spec ci =
     nil_if_empty
       (appendUserVolumeMounts
          (appendUserVolumeMounts [] (sitems (class_field ci c_volumeMounts)))
          (sitems (spec_field spec c_volumeMounts)))"

definition effectiveEngineContainerSecurityContext ::
  "engine_spec \<Rightarrow> class_info option \<Rightarrow> security_context" where
  "effectiveEngineContainerSecurityContext spec ci =
     (case or_else (spec_field spec c_securityContext) (class_field ci c_securityContext) of
        Some s \<Rightarrow> s | None \<Rightarrow> defaultEngineContainerSecurityContext)"

definition DataMountPath :: string where "DataMountPath = ''/var/lib/firebolt''"
definition ConfigMountPath :: string where "ConfigMountPath = ''/var/lib/firebolt/config.yaml''"
definition ConfigFileName :: string where "ConfigFileName = ''config.yaml''"
definition AuthAdminMountPath :: string where "AuthAdminMountPath = ''/secrets/auth/admin''"
definition AuthSigningMountPathBase :: string where "AuthSigningMountPathBase = ''/secrets/auth/signing''"
definition EngineTLSMountPath :: string where "EngineTLSMountPath = ''/secrets/tls/engine''"

definition authSigningVolumeName :: "string \<Rightarrow> string" where
  "authSigningVolumeName kid = EngineAuthSigningVolumeNamePrefix @ kid"

definition secret_volume :: "string \<Rightarrow> string \<Rightarrow> volume" where
  "secret_volume name secret = empty_volume\<lparr>v_name := name, v_secret := Some secret\<rparr>"

text \<open>The admin Secret of a resolved auth block. \<open>ResolvedAuthInfo\<close> exists only for an enabled spec,
  whose \<open>local\<close> block validation requires; the source dereferences it.\<close>

definition auth_admin_secret :: "auth_spec \<Rightarrow> string" where
  "auth_admin_secret a = (case au_local a of Some l \<Rightarrow> la_adminPasswordName l | None \<Rightarrow> [])"

definition buildAuthVolumes :: "resolved_auth option \<Rightarrow> volume list" where
  "buildAuthVolumes auth =
     (case auth of
        None \<Rightarrow> []
      | Some a \<Rightarrow>
          secret_volume EngineAuthAdminVolumeName (auth_admin_secret (ra_spec a)) #
          map (\<lambda>k. secret_volume (authSigningVolumeName (ky_id k)) (ky_secretName k)) (ra_signingKeys a))"

definition buildAuthVolumeMounts :: "resolved_auth option \<Rightarrow> volume_mount list" where
  "buildAuthVolumeMounts auth =
     (case auth of
        None \<Rightarrow> []
      | Some a \<Rightarrow>
          mk_mount EngineAuthAdminVolumeName AuthAdminMountPath True #
          map (\<lambda>k. mk_mount (authSigningVolumeName (ky_id k))
                     (AuthSigningMountPathBase @ ''/'' @ ky_id k) True) (ra_signingKeys a))"

definition buildEngineTLSVolumes :: "resolved_tls option \<Rightarrow> string \<Rightarrow> volume list" where
  "buildEngineTLSVolumes tls secretName =
     (case tls of None \<Rightarrow> [] | Some _ \<Rightarrow> [secret_volume EngineTLSVolumeName secretName])"

definition buildEngineTLSVolumeMounts :: "resolved_tls option \<Rightarrow> volume_mount list" where
  "buildEngineTLSVolumeMounts tls =
     (case tls of None \<Rightarrow> [] | Some _ \<Rightarrow> [mk_mount EngineTLSVolumeName EngineTLSMountPath True])"

definition buildEngineContainerVolumeMounts ::
  "engine_spec \<Rightarrow> instance_info \<Rightarrow> class_info option \<Rightarrow> volume_mount slice" where
  "buildEngineContainerVolumeMounts spec info ci =
     Some ([mk_mount DataVolumeName DataMountPath False,
            (mk_mount EngineConfigVolumeName ConfigMountPath True)\<lparr>vm_subPath := ConfigFileName\<rparr>,
            mk_mount EngineRuntimeVolumeName ''/run/firebolt'' False]
           @ buildAuthVolumeMounts (ii_auth info)
           @ buildEngineTLSVolumeMounts (ii_tls info)
           @ sitems (effectiveEngineVolumeMounts spec ci))"

definition EnginePodIndexEnvKey :: string where "EnginePodIndexEnvKey = ''POD_INDEX''"
definition EngineAwsEC2MetadataClientEnabledEnvKey :: string where
  "EngineAwsEC2MetadataClientEnabledEnvKey = ''FB_AWS_EC2_METADATA_CLIENT_ENABLED''"
definition EngineDoNotTrackEnvKey :: string where "EngineDoNotTrackEnvKey = ''DO_NOT_TRACK''"

definition envContainsName :: "env_var list \<Rightarrow> string \<Rightarrow> bool" where
  "envContainsName es name \<longleftrightarrow> list_ex (\<lambda>e. ev_name e = name) es"

definition pod_index_field :: string where
  "pod_index_field = ''metadata.labels['' @ [CHR 0x27] @ ''apps.kubernetes.io/pod-index'' @ [CHR 0x27] @ '']''"

definition buildEngineContainerEnv ::
  "operator_env \<Rightarrow> engine_spec \<Rightarrow> class_info option \<Rightarrow> env_var slice" where
  "buildEngineContainerEnv env spec ci =
     (let userEnv = sitems (effectiveEngineEnv spec ci);
          own = [\<lparr>ev_name = EnginePodIndexEnvKey, ev_value = [],
                  ev_valueFrom = Some \<lparr>vs_fieldRef = Some \<lparr>fr_apiVersion = ''v1'', fr_fieldPath = pod_index_field\<rparr>,
                                       vs_secretKeyRef = None, vs_configMapKeyRef = None,
                                       vs_resourceFieldRef = None, vs_rest = K8s []\<rparr>\<rparr>,
                 \<lparr>ev_name = EngineAwsEC2MetadataClientEnabledEnvKey, ev_value = ''true'', ev_valueFrom = None\<rparr>];
          track = (if oe_telemetryDisabled env \<and> \<not> envContainsName userEnv EngineDoNotTrackEnvKey
                   then [\<lparr>ev_name = EngineDoNotTrackEnvKey, ev_value = ''1'', ev_valueFrom = None\<rparr>]
                   else [])
      in Some (own @ track @ userEnv))"

definition effectiveEngineLifecycle :: "engine_spec \<Rightarrow> class_info option \<Rightarrow> lifecycle option" where
  "effectiveEngineLifecycle spec ci = or_else (spec_field spec c_lifecycle) (class_field ci c_lifecycle)"

definition effectiveEngineWorkingDir :: "engine_spec \<Rightarrow> class_info option \<Rightarrow> string" where
  "effectiveEngineWorkingDir spec ci =
     str_or_else (spec_string spec c_workingDir) (class_string ci c_workingDir)"

definition effectiveEngineTerminationMessagePath :: "engine_spec \<Rightarrow> class_info option \<Rightarrow> string" where
  "effectiveEngineTerminationMessagePath spec ci =
     str_or_else (spec_string spec c_terminationMessagePath) (class_string ci c_terminationMessagePath)"

definition effectiveEngineTerminationMessagePolicy :: "engine_spec \<Rightarrow> class_info option \<Rightarrow> string" where
  "effectiveEngineTerminationMessagePolicy spec ci =
     str_or_else (spec_string spec c_terminationMessagePolicy) (class_string ci c_terminationMessagePolicy)"

definition effectiveEngineVolumeDevices :: "engine_spec \<Rightarrow> class_info option \<Rightarrow> k8s slice" where
  "effectiveEngineVolumeDevices spec ci =
     class_then_engine (class_field ci c_volumeDevices) (spec_field spec c_volumeDevices)"

definition effectiveEngineResizePolicy :: "engine_spec \<Rightarrow> class_info option \<Rightarrow> k8s slice" where
  "effectiveEngineResizePolicy spec ci =
     class_then_engine (class_field ci c_resizePolicy) (spec_field spec c_resizePolicy)"

section \<open>User volumes\<close>

definition secret_ref :: "string option option \<Rightarrow> string list" where
  "secret_ref r = (case r of Some (Some n) \<Rightarrow> if n = [] then [] else [n] | _ \<Rightarrow> [])"

definition VolumeSecretRefs :: "volume \<Rightarrow> string list" where
  "VolumeSecretRefs v =
     secret_ref (map_option Some (v_secret v))
     @ (case v_projected v of None \<Rightarrow> [] | Some srcs \<Rightarrow> concat (map (\<lambda>s. secret_ref (Some (pj_secret s))) srcs))
     @ secret_ref (v_csi v)
     @ secret_ref (map_option Some (v_azureFile v))
     @ secret_ref (v_cephFS v)
     @ secret_ref (v_cinder v)
     @ secret_ref (v_flexVolume v)
     @ secret_ref (v_iscsi v)
     @ secret_ref (v_rbd v)
     @ secret_ref (v_scaleIO v)
     @ secret_ref (v_storageOS v)"

definition IsSigningKeySecretName :: "string \<Rightarrow> bool" where
  "IsSigningKeySecretName name =
     (case str_cut name SuffixAuthSigning of
        None \<Rightarrow> False
      | Some (base, rest) \<Rightarrow> base \<noteq> [] \<and> (rest = [] \<or> has_prefix rest ''-''))"

definition IsGeneratedEngineTLSSecretName :: "string \<Rightarrow> bool" where
  "IsGeneratedEngineTLSSecretName name \<longleftrightarrow>
     has_suffix name SuffixEngineTLS \<and> str_contains (trim_suffix name SuffixEngineTLS) SuffixGen"

definition engineProtectedSecret :: "instance_info \<Rightarrow> string \<Rightarrow> bool" where
  "engineProtectedSecret info name \<longleftrightarrow>
     name \<noteq> [] \<and>
     (name \<in> set (filter (\<lambda>n. n \<noteq> []) (ii_protectedSecretNames info))
      \<or> IsGeneratedEngineTLSSecretName name \<or> IsSigningKeySecretName name)"

definition aliasesProtectedSecret :: "volume \<Rightarrow> (string \<Rightarrow> bool) \<Rightarrow> bool" where
  "aliasesProtectedSecret v isProtected \<longleftrightarrow> list_ex isProtected (VolumeSecretRefs v)"

definition operatorOwnedPodVolumeNames :: "string list" where
  "operatorOwnedPodVolumeNames =
     [EngineConfigVolumeName, DataVolumeName, EngineWebWritableVolumeName]"

definition appendUserVolumesFrom ::
  "volume list \<Rightarrow> volume list \<Rightarrow> string list \<Rightarrow> (string \<Rightarrow> bool) \<Rightarrow> volume list" where
  "appendUserVolumesFrom dst src reserved isProtected =
     dst @ filter (\<lambda>v. \<not> List.member reserved (v_name v) \<and> \<not> aliasesProtectedSecret v isProtected) src"

definition appendUserPodVolumes ::
  "volume list \<Rightarrow> engine_spec \<Rightarrow> instance_info \<Rightarrow> class_info option \<Rightarrow> volume list" where
  "appendUserPodVolumes operator spec info ci =
     (let reserved = operatorOwnedPodVolumeNames @ map v_name operator;
          isProtected = engineProtectedSecret info;
          out1 = (case class_template ci of
                    Some t \<Rightarrow> appendUserVolumesFrom operator (sitems (p_volumes (pt_spec t))) reserved isProtected
                  | None \<Rightarrow> operator)
      in appendUserVolumesFrom out1 (sitems (p_volumes (engine_pod spec))) reserved isProtected)"

section \<open>The Preset overlay\<close>

record preset_info =
  pi_name :: string
  pi_hash :: string
  pi_template :: "pod_template option"
  pi_storage :: storage_spec
  pi_customEngineConfig :: "json option"

definition zero_engine_spec :: engine_spec where
  "zero_engine_spec = \<lparr>sp_instanceRef = [], sp_engineClassRef = None, sp_requirePreset = None,
     sp_replicas = 0, sp_template = None, sp_uiSidecar = None, sp_drainCheckEnabled = None,
     sp_drainCheckInterval = None, sp_rollout = [], sp_metadataEndpointOverride = None,
     sp_storage = empty_storage, sp_customEngineConfig = None, sp_autoStop = None\<rparr>"

definition presetAsEngineSpec :: "preset_info \<Rightarrow> engine_spec" where
  "presetAsEngineSpec d =
     zero_engine_spec\<lparr>sp_storage := pi_storage d, sp_customEngineConfig := pi_customEngineConfig d,
       sp_template := pi_template d\<rparr>"

definition overlayPresetVolumes :: "engine_spec \<Rightarrow> class_info option \<Rightarrow> volume slice" where
  "overlayPresetVolumes fake class =
     nil_if_empty (sitems (p_volumes (class_pod class)) @ sitems (p_volumes (engine_pod fake)))"

definition overlayPresetEngineContainer :: "engine_spec \<Rightarrow> class_info option \<Rightarrow> container" where
  "overlayPresetEngineContainer fake class =
     empty_container\<lparr>
       c_name := EngineContainerName,
       c_image := str_or_else (spec_string fake c_image) (class_string class c_image),
       c_imagePullPolicy := engineExplicitPullPolicy fake class,
       c_resources := effectiveEngineResources fake class,
       c_env := effectiveEngineEnv fake class,
       c_envFrom := effectiveEngineEnvFrom fake class,
       c_volumeMounts := effectiveEngineVolumeMounts fake class,
       c_securityContext := or_else (spec_field fake c_securityContext) (class_field class c_securityContext),
       c_lifecycle := effectiveEngineLifecycle fake class,
       c_workingDir := effectiveEngineWorkingDir fake class,
       c_terminationMessagePath := effectiveEngineTerminationMessagePath fake class,
       c_terminationMessagePolicy := effectiveEngineTerminationMessagePolicy fake class,
       c_volumeDevices := effectiveEngineVolumeDevices fake class,
       c_resizePolicy := effectiveEngineResizePolicy fake class\<rparr>"

definition overlayPresetPodSpec ::
  "operator_env \<Rightarrow> engine_spec \<Rightarrow> class_info option \<Rightarrow> pod_spec" where
  "overlayPresetPodSpec env fake class =
     empty_pod_spec\<lparr>
       p_serviceAccountName := effectiveServiceAccountName fake class,
       p_automountServiceAccountToken := effectiveAutomountServiceAccountToken fake class,
       p_nodeSelector := effectiveNodeSelector fake class,
       p_tolerations := effectiveTolerations fake class,
       p_affinity := effectiveAffinity fake class,
       p_topologySpreadConstraints := effectiveTopologySpreadConstraints fake class,
       p_priorityClassName := effectivePriorityClassName fake class,
       p_runtimeClassName := effectiveRuntimeClassName fake class,
       p_dnsPolicy := effectiveDNSPolicy fake class,
       p_dnsConfig := effectiveDNSConfig fake class,
       p_schedulerName := effectiveSchedulerName fake class,
       p_preemptionPolicy := effectivePreemptionPolicy fake class,
       p_readinessGates := effectiveReadinessGates fake class,
       p_resourceClaims := effectivePodResourceClaims fake class,
       p_hostAliases := effectiveHostAliases fake class,
       p_os := effectivePodOS fake class,
       p_overhead := effectivePodOverhead fake class,
       p_imagePullSecrets := effectiveImagePullSecrets fake class,
       p_securityContext := or_else (p_securityContext (engine_pod fake)) (p_securityContext (class_pod class)),
       p_initContainers := effectiveInitContainers env fake class,
       p_volumes := overlayPresetVolumes fake class,
       p_containers := Some (overlayPresetEngineContainer fake class # sitems (effectiveSidecars env fake class))\<rparr>"

definition overlayPresetPodTemplate ::
  "operator_env \<Rightarrow> engine_spec \<Rightarrow> class_info option \<Rightarrow> pod_template" where
  "overlayPresetPodTemplate env fake class =
     (let labels = drop_reserved (class_labels class)
                     ++\<^sub>f drop_reserved (mitems (pt_labels (engineTemplate fake)))
      in \<lparr>pt_labels = (if labels = fmempty then None else Some labels),
          pt_annotations = effectivePodAnnotations fake class,
          pt_meta = empty_template_meta,
          pt_spec = overlayPresetPodSpec env fake class\<rparr>)"

end
