(* ===== verification/Engine_Config.thy ===== *)
theory Engine_Config
  imports Engine_Containers "HOL-Library.AList" "HOL-Library.List_Lexorder" "HOL-Library.Char_ord"
begin

text \<open>
  The engine configuration document of \<open>engine_reconcile.go\<close>: the user's \<open>customEngineConfig\<close> layers
  are decoded, stripped of the operator-owned paths (\<open>OperatorOwnedEngineConfigPaths\<close>,
  \<open>api/v1alpha1/operatorauthority.go\<close>), deep-merged and then merged over the operator's own
  document. The theory also holds the content hashes stamped on the StatefulSet, the rendered
  authentication section and the ConfigMap builder.
\<close>

section \<open>JSON objects\<close>

type_synonym jobj = "(string \<times> json) list"

text \<open>Decoding into \<open>map[string]interface\{\}\<close>: of a repeated key the last value is kept.\<close>

definition assign_all :: "jobj \<Rightarrow> jobj" where
  "assign_all kvs = foldl (\<lambda>m (k, v). AList.update k v m) [] kvs"

fun decodeJSON :: "json \<Rightarrow> json" where
  "decodeJSON (JObj kvs) = JObj (assign_all (map (\<lambda>(k, v). (k, decodeJSON v)) kvs))"
| "decodeJSON (JArr xs) = JArr (map decodeJSON xs)"
| "decodeJSON j = j"

text \<open>\<open>json.Marshal\<close> writes the keys of a map in sorted order.\<close>

fun canonicalJSON :: "json \<Rightarrow> json" where
  "canonicalJSON (JObj kvs) = JObj (sort_key fst (map (\<lambda>(k, v). (k, canonicalJSON v)) kvs))"
| "canonicalJSON (JArr xs) = JArr (map canonicalJSON xs)"
| "canonicalJSON j = j"

text \<open>Nested values addressed by a path of keys.\<close>

fun jget :: "string list \<Rightarrow> json \<Rightarrow> json option" where
  "jget [] j = Some j"
| "jget (k # ks) (JObj kvs) = Option.bind (map_of kvs k) (jget ks)"
| "jget (k # ks) _ = None"

lemma distinct_keys_assign_all [simp]: "distinct (map fst (assign_all kvs))"
proof -
  have "distinct (map fst m) \<Longrightarrow> distinct (map fst (foldl (\<lambda>m (k, v). AList.update k v m) m kvs))" for m
    by (induction kvs arbitrary: m) (auto simp: distinct_update)
  then show ?thesis by (simp add: assign_all_def)
qed

section \<open>Deep merge\<close>

fun deepMergeJSON :: "jobj \<Rightarrow> jobj \<Rightarrow> jobj" where
  "deepMergeJSON dst [] = dst"
| "deepMergeJSON dst ((k, srcVal) # src) =
     deepMergeJSON
       (AList.update k
          (case srcVal of
             JObj srcMap \<Rightarrow>
               (case map_of dst k of
                  Some (JObj dstMap) \<Rightarrow> JObj (deepMergeJSON dstMap srcMap)
                | _ \<Rightarrow> srcVal)
           | _ \<Rightarrow> srcVal) dst)
       src"

text \<open>What a key holds after a merge: recursion where both sides are objects, the source otherwise.\<close>

definition merged_value :: "json option \<Rightarrow> json option \<Rightarrow> json option" where
  "merged_value dv sv =
     (case sv of
        None \<Rightarrow> dv
      | Some (JObj s) \<Rightarrow> (case dv of Some (JObj d) \<Rightarrow> Some (JObj (deepMergeJSON d s)) | _ \<Rightarrow> sv)
      | Some _ \<Rightarrow> sv)"

lemma merged_value_None [simp]: "merged_value dv None = dv"
  by (simp add: merged_value_def)

lemma map_of_deepMergeJSON:
  "distinct (map fst src) \<Longrightarrow>
     map_of (deepMergeJSON dst src) k = merged_value (map_of dst k) (map_of src k)"
proof (induction src arbitrary: dst k)
  case Nil
  show ?case by (simp add: merged_value_def)
next
  case (Cons kv src)
  obtain k' v where kv: "kv = (k', v)" by (cases kv)
  from Cons.prems kv have dist: "distinct (map fst src)" and fresh: "k' \<notin> fst ` set src" by auto
  show ?case
  proof (cases "k = k'")
    case True
    from fresh have "map_of src k' = None" by (simp add: map_of_eq_None_iff)
    with True kv show ?thesis
      by (auto simp: Cons.IH [OF dist] update_conv' merged_value_def split: json.splits option.splits)
  next
    case False
    with kv show ?thesis by (simp add: Cons.IH [OF dist] update_conv')
  qed
qed

lemma distinct_deepMergeJSON [simp]:
  "distinct (map fst dst) \<Longrightarrow> distinct (map fst (deepMergeJSON dst src))"
  by (induction dst src rule: deepMergeJSON.induct) (auto simp: distinct_update)

section \<open>Operator-owned paths\<close>

text \<open>Each entry names a top-level section and the keys owned in it; the empty section is the root.\<close>

definition OperatorOwnedEngineConfigPaths :: "(string \<times> string list) list" where
  "OperatorOwnedEngineConfigPaths =
     [([], [''schema_version'', ''endpoints'']),
      (''instance'', [''id'', ''type'', ''multi_engine'', ''auth'']),
      (''engine'', [''id'', ''nodes'', ''termination_grace_period''])]"

definition delete_keys :: "string list \<Rightarrow> jobj \<Rightarrow> jobj" where
  "delete_keys ks m = foldl (\<lambda>m k. AList.delete k m) m ks"

definition strip_section :: "jobj \<Rightarrow> string \<times> string list \<Rightarrow> jobj" where
  "strip_section m owned =
     (case owned of (sec, keys) \<Rightarrow>
        if sec = [] then delete_keys keys m
        else case map_of m sec of
          Some (JObj sub) \<Rightarrow>
            let sub' = delete_keys keys sub
            in if sub' = [] then AList.delete sec m else AList.update sec (JObj sub') m
        | _ \<Rightarrow> AList.delete sec m)"

definition stripProtectedEngineConfigPaths :: "jobj \<Rightarrow> jobj" where
  "stripProtectedEngineConfigPaths m = foldl strip_section m OperatorOwnedEngineConfigPaths"

definition mergeStrippedConfig :: "jobj \<Rightarrow> json option \<Rightarrow> jobj" where
  "mergeStrippedConfig dst raw =
     (case raw of
        None \<Rightarrow> dst
      | Some j \<Rightarrow>
          (case decodeJSON j of
             JObj parsed \<Rightarrow> deepMergeJSON dst (stripProtectedEngineConfigPaths parsed)
           | _ \<Rightarrow> dst))"

definition effectiveCustomEngineConfig :: "engine_spec \<Rightarrow> class_info option \<Rightarrow> jobj" where
  "effectiveCustomEngineConfig spec ci =
     mergeStrippedConfig
       (case ci of Some c \<Rightarrow> mergeStrippedConfig [] (ci_customEngineConfig c) | None \<Rightarrow> [])
       (sp_customEngineConfig spec)"

subsection \<open>No operator-owned path survives the strip\<close>

text \<open>The owned keys of a section are removed; what is left of it is dropped when empty or when it was
  not an object.\<close>

definition strip_sub :: "string list \<Rightarrow> json option \<Rightarrow> json option" where
  "strip_sub keys v =
     (case v of
        Some (JObj sub) \<Rightarrow> if delete_keys keys sub = [] then None else Some (JObj (delete_keys keys sub))
      | _ \<Rightarrow> None)"

lemma map_of_delete_keys: "map_of (delete_keys ks m) k = (if k \<in> set ks then None else map_of m k)"
  unfolding delete_keys_def by (induction ks arbitrary: m) (auto simp: delete_conv')

lemma distinct_delete_keys: "distinct (map fst m) \<Longrightarrow> distinct (map fst (delete_keys ks m))"
  unfolding delete_keys_def by (induction ks arbitrary: m) (auto simp: distinct_delete)

lemma map_of_strip_section:
  "map_of (strip_section m (sec, keys)) k =
     (if sec = [] then (if k \<in> set keys then None else map_of m k)
      else if k = sec then strip_sub keys (map_of m sec) else map_of m k)"
  by (auto simp: strip_section_def strip_sub_def map_of_delete_keys delete_conv' update_conv' Let_def
      split: option.splits json.splits)

lemma distinct_strip_section: "distinct (map fst m) \<Longrightarrow> distinct (map fst (strip_section m owned))"
  by (auto simp: strip_section_def distinct_delete_keys distinct_delete distinct_update Let_def
      split: option.splits json.splits prod.splits)

lemma map_of_stripProtected:
  "map_of (stripProtectedEngineConfigPaths m) k =
     (if k \<in> {''schema_version'', ''endpoints''} then None
      else if k = ''instance'' then strip_sub [''id'', ''type'', ''multi_engine'', ''auth''] (map_of m k)
      else if k = ''engine'' then strip_sub [''id'', ''nodes'', ''termination_grace_period''] (map_of m k)
      else map_of m k)"
  by (simp add: stripProtectedEngineConfigPaths_def OperatorOwnedEngineConfigPaths_def
      map_of_strip_section)

lemma distinct_stripProtected:
  "distinct (map fst m) \<Longrightarrow> distinct (map fst (stripProtectedEngineConfigPaths m))"
  by (simp add: stripProtectedEngineConfigPaths_def OperatorOwnedEngineConfigPaths_def
      distinct_strip_section)

text \<open>A clean contribution: no owned root key, and each owned section absent or an object with distinct
  keys none of which is owned.\<close>

definition section_clean :: "string list \<Rightarrow> json option \<Rightarrow> bool" where
  "section_clean keys v =
     (case v of
        None \<Rightarrow> True
      | Some (JObj sub) \<Rightarrow> distinct (map fst sub) \<and> (\<forall>k \<in> set keys. map_of sub k = None)
      | Some _ \<Rightarrow> False)"

definition config_clean :: "jobj \<Rightarrow> bool" where
  "config_clean m \<longleftrightarrow>
     map_of m ''schema_version'' = None \<and> map_of m ''endpoints'' = None \<and>
     section_clean [''id'', ''type'', ''multi_engine'', ''auth''] (map_of m ''instance'') \<and>
     section_clean [''id'', ''nodes'', ''termination_grace_period''] (map_of m ''engine'')"

definition sections_distinct :: "jobj \<Rightarrow> bool" where
  "sections_distinct m \<longleftrightarrow> distinct (map fst m) \<and> (\<forall>k s. map_of m k = Some (JObj s) \<longrightarrow> distinct (map fst s))"

lemma section_clean_strip_sub:
  "(\<And>s. v = Some (JObj s) \<Longrightarrow> distinct (map fst s)) \<Longrightarrow> section_clean keys (strip_sub keys v)"
  by (auto simp: section_clean_def strip_sub_def map_of_delete_keys distinct_delete_keys
      split: option.splits json.splits)

lemma config_clean_strip: "sections_distinct m \<Longrightarrow> config_clean (stripProtectedEngineConfigPaths m)"
  by (auto simp: config_clean_def map_of_stripProtected sections_distinct_def
      intro!: section_clean_strip_sub)

lemma section_clean_merge:
  assumes "section_clean keys d" and "section_clean keys s"
  shows "section_clean keys (merged_value d s)"
  using assms
  by (auto simp: section_clean_def merged_value_def map_of_deepMergeJSON split: option.splits json.splits)

lemma config_clean_merge:
  "config_clean d \<Longrightarrow> config_clean s \<Longrightarrow> distinct (map fst s) \<Longrightarrow> config_clean (deepMergeJSON d s)"
  by (auto simp: config_clean_def map_of_deepMergeJSON section_clean_merge)

lemma map_of_assign_all_mem: "map_of (assign_all kvs) k = Some v \<Longrightarrow> (k, v) \<in> set kvs"
proof -
  have "map_of (foldl (\<lambda>m (k, v). AList.update k v m) m kvs) k = Some v \<Longrightarrow>
      (k, v) \<in> set kvs \<or> map_of m k = Some v" for m
    by (induction kvs arbitrary: m) (fastforce simp: update_conv' split: if_splits)+
  then show "map_of (assign_all kvs) k = Some v \<Longrightarrow> (k, v) \<in> set kvs"
    by (fastforce simp: assign_all_def)
qed

lemma decode_object_distinct: "decodeJSON j = JObj m \<Longrightarrow> distinct (map fst m)"
  by (cases j) auto

lemma decode_sections_distinct:
  assumes "decodeJSON j = JObj m"
  shows "sections_distinct m"
proof -
  from assms obtain kvs where m: "m = assign_all (map (\<lambda>(k, v). (k, decodeJSON v)) kvs)"
    by (cases j) auto
  have "distinct (map fst s)" if "map_of m k = Some (JObj s)" for k s
  proof -
    from that have "(k, JObj s) \<in> set (map (\<lambda>(k, v). (k, decodeJSON v)) kvs)"
      unfolding m by (rule map_of_assign_all_mem)
    then obtain v where "decodeJSON v = JObj s" by auto
    then show ?thesis by (rule decode_object_distinct)
  qed
  with m show ?thesis by (simp add: sections_distinct_def)
qed

definition contribution_ok :: "jobj \<Rightarrow> bool" where
  "contribution_ok m \<longleftrightarrow> config_clean m \<and> distinct (map fst m)"

lemma contribution_ok_empty [simp]: "contribution_ok []"
  by (simp add: contribution_ok_def config_clean_def section_clean_def)

lemma contribution_ok_mergeStripped:
  "contribution_ok dst \<Longrightarrow> contribution_ok (mergeStrippedConfig dst raw)"
  by (auto simp: mergeStrippedConfig_def contribution_ok_def config_clean_merge config_clean_strip
      decode_sections_distinct distinct_stripProtected decode_object_distinct
      split: option.splits json.splits)

lemma contribution_ok_effective: "contribution_ok (effectiveCustomEngineConfig spec ci)"
  by (auto simp: effectiveCustomEngineConfig_def contribution_ok_mergeStripped split: option.splits)

section \<open>Content hashes\<close>

definition customEngineConfigHash :: "operator_env \<Rightarrow> engine_spec \<Rightarrow> class_info option \<Rightarrow> string" where
  "customEngineConfigHash env spec ci =
     (let merged = effectiveCustomEngineConfig spec ci
      in if length merged = 0 then []
         else contentHash env (oe_marshalJson env (canonicalJSON (JObj merged))))"

text \<open>Rotation scheduling does not reach the engine and is not hashed.\<close>

definition authHashRelevantSpec :: "auth_spec \<Rightarrow> auth_spec" where
  "authHashRelevantSpec spec =
     (case au_local spec of
        None \<Rightarrow> spec
      | Some l \<Rightarrow>
          (case la_signingKeys l of
             None \<Rightarrow> spec
           | Some policy \<Rightarrow>
               if sk_rotationInterval policy = None \<and> sk_retainDuration policy = None then spec
               else spec\<lparr>au_local := Some (l\<lparr>la_signingKeys :=
                       Some (policy\<lparr>sk_rotationInterval := None, sk_retainDuration := None\<rparr>)\<rparr>)\<rparr>))"

definition authHash :: "operator_env \<Rightarrow> resolved_auth option \<Rightarrow> string" where
  "authHash env auth =
     (case auth of
        None \<Rightarrow> []
      | Some a \<Rightarrow>
          contentHash env (oe_marshalAuth env
            \<lparr>ah_spec = authHashRelevantSpec (ra_spec a),
             ah_signingKeys = map (\<lambda>k. (ky_id k, ky_secretName k,
                case fmlookup (ra_fingerprints a) (ky_id k) of Some fp \<Rightarrow> fp | None \<Rightarrow> []))
                (ra_signingKeys a),
             ah_adminSecretVersion = ra_adminSecretVersion a\<rparr>))"

definition tlsHash :: "operator_env \<Rightarrow> resolved_tls option \<Rightarrow> string" where
  "tlsHash env tls =
     (case tls of
        None \<Rightarrow> []
      | Some t \<Rightarrow>
          (let alg = (case rt_certManager t of Some c \<Rightarrow> cms_algorithm c | None \<Rightarrow> []);
               size = (case rt_certManager t of Some c \<Rightarrow> cms_size c | None \<Rightarrow> 0)
           in contentHash env (rt_secretName t @ [CHR 0x00] @ alg @ [CHR 0x00] @ itoa size)))"

section \<open>The Preset folded over the class\<close>

definition overlayPresetOnClass ::
  "operator_env \<Rightarrow> preset_info option \<Rightarrow> class_info option \<Rightarrow> class_info option" where
  "overlayPresetOnClass env defaults class =
     (case defaults of
        None \<Rightarrow> class
      | Some d \<Rightarrow>
          (let fake = presetAsEngineSpec d;
               merged = effectiveCustomEngineConfig fake class
           in Some \<lparr>ci_name = (case class of Some c \<Rightarrow> ci_name c | None \<Rightarrow> []),
                    ci_template = Some (overlayPresetPodTemplate env fake class),
                    ci_uiSidecar = Option.bind class ci_uiSidecar,
                    ci_storage = (if storageBackendSet (pi_storage d) then pi_storage d
                                  else case class of Some c \<Rightarrow> ci_storage c | None \<Rightarrow> empty_storage),
                    ci_customEngineConfig =
                      (if length merged > 0 then Some (canonicalJSON (JObj merged)) else None),
                    ci_rollout = (case class of Some c \<Rightarrow> ci_rollout c | None \<Rightarrow> []),
                    ci_drainCheckEnabled = Option.bind class ci_drainCheckEnabled,
                    ci_drainCheckInterval = Option.bind class ci_drainCheckInterval,
                    ci_autoStop = Option.bind class ci_autoStop,
                    ci_hash = (case class of Some c \<Rightarrow> ci_hash c | None \<Rightarrow> []),
                    ci_presetName = pi_name d,
                    ci_presetHash = pi_hash d\<rparr>))"

section \<open>The authentication section\<close>

definition setIfNonEmpty :: "string \<Rightarrow> string \<Rightarrow> jobj \<Rightarrow> jobj" where
  "setIfNonEmpty key val m = (if val \<noteq> [] then AList.update key (JStr val) m else m)"

definition singleFieldConfig :: "string \<Rightarrow> string \<Rightarrow> jobj" where
  "singleFieldConfig key val = setIfNonEmpty key val []"

definition setIfSome :: "string \<Rightarrow> json option \<Rightarrow> jobj \<Rightarrow> jobj" where
  "setIfSome key val m = (case val of Some v \<Rightarrow> AList.update key v m | None \<Rightarrow> m)"

definition authSigningKeyPrivateKeyPath :: "string \<Rightarrow> string" where
  "authSigningKeyPrivateKeyPath kid = AuthSigningMountPathBase @ ''/'' @ kid @ ''/'' @ ''tls.key''"

definition authAdminPasswordPath :: "string \<Rightarrow> string" where
  "authAdminPasswordPath secretKey = AuthAdminMountPath @ ''/'' @ secretKey"

definition EngineTLSBundlePath :: string where
  "EngineTLSBundlePath = ''/run/firebolt/engine-tls-bundle.crt''"

definition engineTLSCertPath :: string where "engineTLSCertPath = EngineTLSBundlePath"

definition engineTLSKeyPath :: string where "engineTLSKeyPath = EngineTLSMountPath @ ''/'' @ ''tls.key''"

definition renderEndpointsConfig :: json where
  "renderEndpointsConfig =
     JObj [(''http'', JObj [(''listeners'', JArr [JObj
       [(''type'', JStr ''tcp''), (''port'', JNum (itoa EngineHTTPQueryPort)),
        (''tls'', JObj [(''certificate_file'', JStr engineTLSCertPath),
                       (''private_key_file'', JStr engineTLSKeyPath)])]])])]"

definition renderSigningKeys :: "signing_key list \<Rightarrow> json" where
  "renderSigningKeys keys =
     JArr (map (\<lambda>k. JObj [(''id'', JStr (ky_id k)),
                          (''private_key_path'', JStr (authSigningKeyPrivateKeyPath (ky_id k)))]) keys)"

definition renderRoleMapping :: "string \<times> (string \<times> string) list \<Rightarrow> json" where
  "renderRoleMapping rm =
     (case rm of (claim, entries) \<Rightarrow>
        JObj (setIfNonEmpty ''claim'' claim
          [(''map'', JArr (map (\<lambda>(v, r). JObj [(''value'', JStr v), (''role'', JStr r)]) entries))]))"

definition renderLocalJWT :: "local_auth_spec \<Rightarrow> jobj" where
  "renderLocalJWT l =
     setIfNonEmpty ''clock_skew_tolerance'' (la_clockSkewTolerance l)
       (setIfNonEmpty ''max_token_age'' (la_maxTokenAge l)
         (setIfNonEmpty ''token_expiry'' (la_tokenExpiry l) []))"

definition renderOIDCJWT :: "(string \<times> string) option \<Rightarrow> jobj" where
  "renderOIDCJWT jwt =
     (case jwt of
        None \<Rightarrow> []
      | Some (skew, maxAge) \<Rightarrow>
          setIfNonEmpty ''max_token_age'' maxAge (setIfNonEmpty ''clock_skew_tolerance'' skew []))"

definition renderOIDCProvider :: "oidc_provider \<Rightarrow> json" where
  "renderOIDCProvider p =
     JObj
       (setIfSome ''discovery''
          (map_option (\<lambda>i. JObj (singleFieldConfig ''refresh_interval'' i)) (op_discoveryRefreshInterval p))
       (setIfSome ''jwks''
          (map_option (\<lambda>t. JObj (singleFieldConfig ''cache_ttl'' t)) (op_jwksCacheTTL p))
       (setIfSome ''jit_provisioning''
          (map_option (\<lambda>(en, roles).
             JObj (if length roles > 0
                   then [(''enabled'', JBool en), (''default_roles'', JArr (map JStr roles))]
                   else [(''enabled'', JBool en)])) (op_jit p))
       (setIfSome ''role_mapping'' (map_option renderRoleMapping (op_roleMapping p))
       (setIfSome ''exchange''
          (map_option (\<lambda>u. JObj [(''discovery_url'', JStr u)]) (op_exchange p))
       (setIfSome ''target''
          (map_option (\<lambda>(u, m). JObj (setIfNonEmpty ''token_endpoint_auth_method'' m
             [(''discovery_url'', JStr u)])) (op_target p))
       (setIfNonEmpty ''audience'' (op_audience p)
       (setIfNonEmpty ''title'' (op_title p)
       (setIfNonEmpty ''discovery_url'' (op_discoveryURL p)
         [(''name'', JStr (op_name p)), (''username_mapping'', JStr (op_usernameMapping p))])))))))))"

definition renderOIDCConfig :: "oidc_spec \<Rightarrow> json" where
  "renderOIDCConfig oidc =
     (let jwt = renderOIDCJWT (oi_jwt oidc);
          base = [(''providers'', JArr (map renderOIDCProvider (oi_providers oidc)))]
      in JObj (if length jwt > 0 then AList.update ''jwt'' (JObj jwt) base else base))"

text \<open>The source dereferences \<open>spec.local\<close>, which validation requires of an enabled auth block; the
  model takes the block as an argument.\<close>

definition renderAuthConfig :: "auth_spec \<Rightarrow> local_auth_spec \<Rightarrow> signing_key list \<Rightarrow> json" where
  "renderAuthConfig spec l keys =
     (let admin = setIfNonEmpty ''name'' (la_adminName l)
                    [(''password_file'', JStr (authAdminPasswordPath (la_adminPasswordKey l)))];
          jwt = renderLocalJWT l;
          local1 = setIfNonEmpty ''signing_algorithm'' (la_signingAlgorithm l)
                    [(''signing_keys'', renderSigningKeys keys)];
          local = (if length jwt > 0 then AList.update ''jwt'' (JObj jwt) local1 else local1);
          auth1 = setIfNonEmpty ''preferred_authorization_server'' (au_preferredAuthorizationServer spec)
                   (setIfNonEmpty ''password_login'' (la_passwordLogin l)
                     [(''enabled'', JBool True), (''admin'', JObj admin), (''local'', JObj local)])
      in JObj (setIfSome ''oidc'' (map_option renderOIDCConfig (au_oidc spec)) auth1))"

definition rendered_auth :: "resolved_auth option \<Rightarrow> json option" where
  "rendered_auth auth =
     Option.bind auth (\<lambda>a. map_option (\<lambda>l. renderAuthConfig (ra_spec a) l (ra_signingKeys a)) (au_local (ra_spec a)))"

section \<open>The ConfigMap\<close>

definition genResourceName :: "string \<Rightarrow> int \<Rightarrow> string \<Rightarrow> string" where
  "genResourceName engineName gen suffix = engineName @ SuffixGen @ itoa gen @ suffix"

definition DefaultTerminationGracePeriodSeconds :: int where
  "DefaultTerminationGracePeriodSeconds = 60"

definition EngineShutdownMarginSeconds :: int where "EngineShutdownMarginSeconds = 5"

definition getTerminationGracePeriod :: "engine_spec \<Rightarrow> int" where
  "getTerminationGracePeriod spec = DefaultTerminationGracePeriodSeconds"

definition engineShutdownWaitSeconds :: "int \<Rightarrow> int" where
  "engineShutdownWaitSeconds gracePeriod =
     (let w = gracePeriod - EngineShutdownMarginSeconds in if w < 1 then 1 else w)"

definition node_host :: "string \<Rightarrow> string \<Rightarrow> int \<Rightarrow> nat \<Rightarrow> string" where
  "node_host engineName ns gen i =
     genResourceName engineName gen [] @ ''-'' @ itoa (int i) @ ''.'' @
     genResourceName engineName gen SuffixHL @ ''.'' @ ns @ ''.svc.cluster.local''"

definition instance_section :: "engine_spec \<Rightarrow> instance_info \<Rightarrow> jobj" where
  "instance_section spec info =
     setIfSome ''auth'' (rendered_auth (ii_auth info))
       [(''id'', JStr (ii_instanceID info)), (''type'', JStr ''multi_engine''),
        (''multi_engine'', JObj [(''metadata_endpoint'',
           JStr (case sp_metadataEndpointOverride spec of Some e \<Rightarrow> e | None \<Rightarrow> ii_metadataEndpoint info))])]"

definition engine_section :: "engine_spec \<Rightarrow> string \<Rightarrow> string \<Rightarrow> int \<Rightarrow> jobj" where
  "engine_section spec engineName ns gen =
     [(''id'', JStr engineName),
      (''nodes'', JArr (map (\<lambda>i. JObj [(''host'', JStr (node_host engineName ns gen i))])
                          [0 ..< nat (sp_replicas spec)])),
      (''termination_grace_period'',
         JStr (itoa (engineShutdownWaitSeconds (getTerminationGracePeriod spec)) @ ''s''))]"

definition operator_document :: "engine_spec \<Rightarrow> string \<Rightarrow> string \<Rightarrow> int \<Rightarrow> instance_info \<Rightarrow> jobj" where
  "operator_document spec engineName ns gen info =
     setIfSome ''endpoints'' (if ii_tls info \<noteq> None then Some renderEndpointsConfig else None)
       [(''schema_version'', JStr ''1.0''),
        (''instance'', JObj (instance_section spec info)),
        (''engine'', JObj (engine_section spec engineName ns gen)),
        (''logging'', JObj [(''format'', JStr ''json'')])]"

definition buildConfigMap ::
  "engine_spec \<Rightarrow> string \<Rightarrow> string \<Rightarrow> int \<Rightarrow> instance_info \<Rightarrow> class_info option \<Rightarrow> config_map" where
  "buildConfigMap spec engineName ns gen info ci =
     \<lparr>cm_name = genResourceName engineName gen SuffixConfig,
      cm_namespace = ns,
      cm_labels = Some (base_labels engineName gen),
      cm_document = JObj (deepMergeJSON (operator_document spec engineName ns gen info)
                            (effectiveCustomEngineConfig spec ci))\<rparr>"

end
