(* ===== verification/Engine_Build.thy ===== *)
theory Engine_Build
  imports Engine_Config
begin

text \<open>
  The resource builders of \<open>engine_reconcile.go\<close>: headless and routing Services, the per-generation
  TLS certificate, storage resolution and the StatefulSet. All of them are functions of the spec,
  the engine's name and namespace, the generation, the resolved Instance data and the class.
\<close>

section \<open>Services\<close>

definition GetServicePorts :: "port_decl list" where
  "GetServicePorts = [\<lparr>po_name = ''http-query'', po_port = EngineHTTPQueryPort\<rparr>,
     \<lparr>po_name = ''health'', po_port = HealthPort\<rparr>, \<lparr>po_name = ''metrics'', po_port = MetricsPort\<rparr>]"

definition GetContainerPorts :: "port_decl list" where
  "GetContainerPorts = [\<lparr>po_name = ''http-query'', po_port = EngineHTTPQueryPort\<rparr>,
     \<lparr>po_name = ''health'', po_port = HealthPort\<rparr>, \<lparr>po_name = ''metrics'', po_port = MetricsPort\<rparr>]"

definition buildHeadlessService :: "string \<Rightarrow> string \<Rightarrow> int \<Rightarrow> service" where
  "buildHeadlessService engineName ns gen =
     \<lparr>svc_name = genResourceName engineName gen SuffixHL, svc_namespace = ns,
      svc_labels = Some (base_labels engineName gen), svc_type = [], svc_clusterIP = ''None'',
      svc_publishNotReadyAddresses = True, svc_selector = Some (base_labels engineName gen),
      svc_ports = Some GetServicePorts\<rparr>"

definition buildClusterService :: "string \<Rightarrow> string \<Rightarrow> int \<Rightarrow> service" where
  "buildClusterService engineName ns gen =
     \<lparr>svc_name = engineName @ SuffixService, svc_namespace = ns,
      svc_labels = Some (fmupd LabelEngine engineName fmempty), svc_type = ''ClusterIP'',
      svc_clusterIP = ''None'', svc_publishNotReadyAddresses = False,
      svc_selector = Some (base_labels engineName gen), svc_ports = Some GetServicePorts\<rparr>"

section \<open>The per-generation TLS certificate\<close>

definition resolvedCertManagerAlgSize :: "cert_manager_spec \<Rightarrow> string \<times> int" where
  "resolvedCertManagerAlgSize cm =
     (str_or_else (cms_algorithm cm) ''ECDSA'', if cms_size cm = 0 then 384 else cms_size cm)"

definition resolveCertManagerIssuerKind :: "string \<Rightarrow> string" where
  "resolveCertManagerIssuerKind kind = str_or_else kind ''ClusterIssuer''"

definition resolveCertDuration ::
  "cert_manager_spec \<Rightarrow> int \<Rightarrow> int \<Rightarrow> int option \<times> int option" where
  "resolveCertDuration cm defDuration defRenewBefore =
     (let duration = (case cms_duration cm of
                        Some d \<Rightarrow> if d > 0 then d else defDuration | None \<Rightarrow> defDuration);
          renewBefore = (case cms_renewBefore cm of
                        Some d \<Rightarrow> if d > 0 then d else defRenewBefore | None \<Rightarrow> defRenewBefore)
      in if renewBefore \<ge> duration then (Some duration, None)
         else (Some duration, Some renewBefore))"

definition cert_wildcard :: "string \<Rightarrow> string \<Rightarrow> int \<Rightarrow> string" where
  "cert_wildcard engineName ns gen =
     ''*.'' @ genResourceName engineName gen SuffixHL @ ''.'' @ ns @ ''.svc.cluster.local''"

definition hour :: int where "hour = 60 * minute"

definition DefaultCertDurationTLS :: int where "DefaultCertDurationTLS = 90 * 24 * hour"

definition DefaultCertRenewBeforeTLS :: int where "DefaultCertRenewBeforeTLS = 30 * 24 * hour"

text \<open>The source takes the resolved TLS block, whose \<open>CertManager\<close> the caller has checked.\<close>

definition buildGenEngineTLSCertificate ::
  "string \<Rightarrow> string \<Rightarrow> int \<Rightarrow> cert_manager_spec \<Rightarrow> certificate" where
  "buildGenEngineTLSCertificate engineName ns gen cm =
     (let name = genResourceName engineName gen SuffixEngineTLS;
          (alg, size) = resolvedCertManagerAlgSize cm;
          (duration, renewBefore) = resolveCertDuration cm DefaultCertDurationTLS DefaultCertRenewBeforeTLS
      in \<lparr>crt_name = name, crt_namespace = ns, crt_labels = Some (base_labels engineName gen),
          crt_secretName = name, crt_secretLabels = Some (base_labels engineName gen),
          crt_usages = [''server auth''], crt_encoding = ''PKCS8'',
          crt_dnsNames = [cert_wildcard engineName ns gen,
                          engineName @ SuffixService @ ''.'' @ ns @ ''.svc.cluster.local'',
                          ''localhost''],
          crt_issuerName = cms_issuerName cm,
          crt_issuerKind = resolveCertManagerIssuerKind (cms_issuerKind cm),
          crt_duration = duration, crt_renewBefore = renewBefore,
          crt_rotationPolicy = ''Always'',
          crt_algorithm = (if alg = ''ECDSA'' then ''ECDSA'' else ''RSA''),
          crt_size = size\<rparr>)"

section \<open>Storage\<close>

datatype storage_backend = BackendPersistentVolumeClaim | BackendEmptyDir | BackendHostPath

definition resolveStorageBackend :: "storage_spec \<Rightarrow> storage_backend" where
  "resolveStorageBackend s =
     (if st_pvc s \<noteq> None then BackendPersistentVolumeClaim
      else if st_hostPath s \<noteq> None then BackendHostPath
      else BackendEmptyDir)"

definition default_pvc :: pvc_spec where
  "default_pvc = \<lparr>pv_size = Quantity (1024 * Mi) ''1Gi'', pv_accessModes = Some [''ReadWriteOnce''],
     pv_storageClassName = None\<rparr>"

definition resolvePersistentVolumeClaimPreset :: "pvc_spec option \<Rightarrow> pvc_spec" where
  "resolvePersistentVolumeClaimPreset p =
     (case p of
        None \<Rightarrow> default_pvc
      | Some s \<Rightarrow>
          \<lparr>pv_size = (if qval (pv_size s) \<noteq> 0 then pv_size s else pv_size default_pvc),
           pv_accessModes = (if length (sitems (pv_accessModes s)) > 0 then pv_accessModes s
                             else pv_accessModes default_pvc),
           pv_storageClassName = pv_storageClassName s\<rparr>)"

definition bare_empty_dir :: empty_dir where
  "bare_empty_dir = \<lparr>ed_medium = [], ed_sizeLimit = None\<rparr>"

definition data_volume :: "storage_spec \<Rightarrow> volume option" where
  "data_volume s =
     (case resolveStorageBackend s of
        BackendEmptyDir \<Rightarrow>
          Some (empty_volume\<lparr>v_name := DataVolumeName,
            v_emptyDir := Some (case st_emptyDir s of Some ed \<Rightarrow> ed | None \<Rightarrow> bare_empty_dir)\<rparr>)
      | BackendHostPath \<Rightarrow> Some (empty_volume\<lparr>v_name := DataVolumeName, v_hostPath := st_hostPath s\<rparr>)
      | BackendPersistentVolumeClaim \<Rightarrow> None)"

definition data_claims :: "string \<Rightarrow> int \<Rightarrow> storage_spec \<Rightarrow> claim_template slice" where
  "data_claims engineName gen s =
     (case resolveStorageBackend s of
        BackendPersistentVolumeClaim \<Rightarrow>
          (let pvc = resolvePersistentVolumeClaimPreset (st_pvc s)
           in Some [\<lparr>ct_name = DataVolumeName, ct_labels = Some (base_labels engineName gen),
                     ct_accessModes = pv_accessModes pvc,
                     ct_requests = Some (fmupd ''storage'' (pv_size pvc) fmempty),
                     ct_storageClassName = pv_storageClassName pvc\<rparr>])
      | _ \<Rightarrow> None)"

section \<open>The StatefulSet\<close>

definition AnnotationMetadataOverride :: string where
  "AnnotationMetadataOverride = ''firebolt.io/metadata-override''"
definition AnnotationEngineClassHash :: string where
  "AnnotationEngineClassHash = ''firebolt.io/engine-class-hash''"
definition AnnotationEnginePresetHash :: string where
  "AnnotationEnginePresetHash = ''firebolt.io/engine-preset-hash''"
definition AnnotationCustomEngineConfigHash :: string where
  "AnnotationCustomEngineConfigHash = ''firebolt.io/custom-engine-config-hash''"
definition AnnotationAuthHash :: string where "AnnotationAuthHash = ''firebolt.io/auth-hash''"
definition AnnotationEngineTLSHash :: string where
  "AnnotationEngineTLSHash = ''firebolt.io/engine-tls-hash''"

lemmas annotation_keys =
  AnnotationMetadataOverride_def AnnotationEngineClassHash_def AnnotationEnginePresetHash_def
  AnnotationCustomEngineConfigHash_def AnnotationAuthHash_def AnnotationEngineTLSHash_def

definition put_if :: "string \<Rightarrow> string \<Rightarrow> (string, string) fmap \<Rightarrow> (string, string) fmap" where
  "put_if k h m = (if h \<noteq> [] then fmupd k h m else m)"

definition sts_drift_annotations ::
  "operator_env \<Rightarrow> engine_spec \<Rightarrow> instance_info \<Rightarrow> class_info option \<Rightarrow> (string, string) fmap" where
  "sts_drift_annotations env spec info ci =
     (let a0 = (case sp_metadataEndpointOverride spec of
                  Some e \<Rightarrow> fmupd AnnotationMetadataOverride e fmempty | None \<Rightarrow> fmempty);
          a1 = put_if AnnotationCustomEngineConfigHash (customEngineConfigHash env spec ci) a0;
          a2 = put_if AnnotationAuthHash (authHash env (ii_auth info)) a1;
          a3 = put_if AnnotationEngineTLSHash (tlsHash env (ii_tls info)) a2
      in case ci of
           None \<Rightarrow> a3
         | Some c \<Rightarrow> put_if AnnotationEnginePresetHash (ci_presetHash c)
                       (fmupd AnnotationEngineClassHash (ci_hash c) a3))"

definition operator_volumes ::
  "engine_spec \<Rightarrow> string \<Rightarrow> int \<Rightarrow> instance_info \<Rightarrow> class_info option \<Rightarrow> volume list" where
  "operator_volumes spec engineName gen info ci =
     [empty_volume\<lparr>v_name := EngineConfigVolumeName,
        v_configMap := Some (genResourceName engineName gen SuffixConfig)\<rparr>,
      empty_volume\<lparr>v_name := EngineRuntimeVolumeName, v_emptyDir := Some bare_empty_dir\<rparr>]
     @ (case data_volume (effectiveStorage spec ci) of Some v \<Rightarrow> [v] | None \<Rightarrow> [])
     @ buildAuthVolumes (ii_auth info)
     @ buildEngineTLSVolumes (ii_tls info) (genResourceName engineName gen SuffixEngineTLS)"

definition pod_volumes ::
  "engine_spec \<Rightarrow> string \<Rightarrow> int \<Rightarrow> instance_info \<Rightarrow> class_info option \<Rightarrow> volume list" where
  "pod_volumes spec engineName gen info ci =
     appendUserPodVolumes (operator_volumes spec engineName gen info ci) spec info ci
     @ (if effectiveUISidecarEnabled spec ci then [buildEngineWebWritableVolume] else [])"

definition HealthReadyPath :: string where "HealthReadyPath = ''/health/ready''"
definition HealthLivePath :: string where "HealthLivePath = ''/health/live''"

text \<open>The startup script is one string constant of the source; it is an argument here.\<close>

definition engine_container ::
  "operator_env \<Rightarrow> string \<Rightarrow> engine_spec \<Rightarrow> instance_info \<Rightarrow> class_info option \<Rightarrow> container" where
  "engine_container env script spec info ci =
     (let (img, pull) = effectiveEngineImage env spec ci
      in empty_container\<lparr>
       c_name := EngineContainerName,
       c_image := img,
       c_imagePullPolicy := pull,
       c_securityContext := Some (effectiveEngineContainerSecurityContext spec ci),
       c_resources := effectiveEngineResources spec ci,
       c_env := buildEngineContainerEnv env spec ci,
       c_envFrom := effectiveEngineEnvFrom spec ci,
       c_ports := Some GetContainerPorts,
       c_command := Some [''/bin/bash'', ''-c''],
       c_args := Some [script],
       c_volumeMounts := buildEngineContainerVolumeMounts spec info ci,
       c_lifecycle := effectiveEngineLifecycle spec ci,
       c_workingDir := effectiveEngineWorkingDir spec ci,
       c_terminationMessagePath := effectiveEngineTerminationMessagePath spec ci,
       c_terminationMessagePolicy := effectiveEngineTerminationMessagePolicy spec ci,
       c_volumeDevices := effectiveEngineVolumeDevices spec ci,
       c_resizePolicy := effectiveEngineResizePolicy spec ci,
       c_readinessProbe := Some (http_probe 1 3 3 6 HealthReadyPath HealthPort),
       c_livenessProbe := Some (http_probe 2 5 3 6 HealthLivePath HealthPort),
       c_startupProbe := Some (http_probe 0 5 3 30 HealthLivePath HealthPort)\<rparr>)"

definition engine_pod_spec ::
  "operator_env \<Rightarrow> string \<Rightarrow> engine_spec \<Rightarrow> string \<Rightarrow> int \<Rightarrow> instance_info \<Rightarrow> class_info option \<Rightarrow> pod_spec" where
  "engine_pod_spec env script spec engineName gen info ci =
     \<lparr>p_volumes = Some (pod_volumes spec engineName gen info ci),
      p_initContainers = effectiveInitContainers env spec ci,
      p_containers = Some (engine_container env script spec info ci #
                           sitems (effectiveSidecarsWithUI env spec info ci)),
      p_terminationGracePeriodSeconds = Some (getTerminationGracePeriod spec),
      p_dnsPolicy = effectiveDNSPolicy spec ci,
      p_nodeSelector = effectiveNodeSelector spec ci,
      p_serviceAccountName = effectiveServiceAccountName spec ci,
      p_automountServiceAccountToken = effectiveAutomountServiceAccountToken spec ci,
      p_securityContext = Some (effectivePodSecurityContext spec ci),
      p_imagePullSecrets = effectiveImagePullSecrets spec ci,
      p_affinity = effectiveAffinity spec ci,
      p_schedulerName = effectiveSchedulerName spec ci,
      p_tolerations = effectiveTolerations spec ci,
      p_hostAliases = effectiveHostAliases spec ci,
      p_priorityClassName = effectivePriorityClassName spec ci,
      p_preemptionPolicy = effectivePreemptionPolicy spec ci,
      p_dnsConfig = effectiveDNSConfig spec ci,
      p_readinessGates = effectiveReadinessGates spec ci,
      p_runtimeClassName = effectiveRuntimeClassName spec ci,
      p_enableServiceLinks = Some False,
      p_overhead = effectivePodOverhead spec ci,
      p_topologySpreadConstraints = effectiveTopologySpreadConstraints spec ci,
      p_os = effectivePodOS spec ci,
      p_resourceClaims = effectivePodResourceClaims spec ci,
      p_subdomain = [], p_hostname = [], p_restartPolicy = [], p_activeDeadlineSeconds = None, p_hostNetwork = False,
      p_hostPID = False, p_hostIPC = False, p_shareProcessNamespace = None, p_hostUsers = None\<rparr>"

definition buildStatefulSet ::
  "operator_env \<Rightarrow> string \<Rightarrow> engine_spec \<Rightarrow> string \<Rightarrow> string \<Rightarrow> int \<Rightarrow> instance_info \<Rightarrow> class_info option
     \<Rightarrow> stateful_set" where
  "buildStatefulSet env script spec engineName ns gen info ci =
     \<lparr>sts_name = genResourceName engineName gen [],
      sts_namespace = ns,
      sts_labels = Some (base_labels engineName gen),
      sts_annotations = Some (sts_drift_annotations env spec info ci),
      sts_serviceName = genResourceName engineName gen SuffixHL,
      sts_replicas = Some (sp_replicas spec),
      sts_podManagementPolicy = ''Parallel'',
      sts_selector = Some (base_labels engineName gen),
      sts_volumeClaimTemplates = data_claims engineName gen (effectiveStorage spec ci),
      sts_pvcRetention = Some (''Delete'', ''Retain''),
      sts_template =
        \<lparr>pt_labels = effectivePodLabels spec engineName gen ci,
         pt_annotations = effectivePodAnnotations spec ci,
         pt_meta = empty_template_meta,
         pt_spec = engine_pod_spec env script spec engineName gen info ci\<rparr>\<rparr>"

end
