(* ===== verification/Engine_Drift.thy ===== *)
theory Engine_Drift
  imports Engine_Build
begin

text \<open>
  The drift comparator of \<open>engine_reconcile.go\<close>: \<open>stsMatchesSpec\<close> decides whether the running
  StatefulSet still is what the spec, the class and the Instance ask for; a mismatch starts a new
  blue-green generation. The main facts are that a freshly built StatefulSet matches, that it still
  matches after the API server has filled in its defaults, and which changes are noticed.
\<close>

section \<open>Field comparisons\<close>

definition resourceListEqual :: "(string, quantity) gomap \<Rightarrow> (string, quantity) gomap \<Rightarrow> bool" where
  "resourceListEqual actual desired \<longleftrightarrow>
     mlen actual = mlen desired \<and>
     fmpred (\<lambda>name d. case fmlookup (mitems actual) name of
                         Some a \<Rightarrow> quantity_equal a d | None \<Rightarrow> False) (mitems desired)"

definition resourceRequirementsEqual :: "resource_requirements \<Rightarrow> resource_requirements \<Rightarrow> bool" where
  "resourceRequirementsEqual actual desired \<longleftrightarrow>
     resourceListEqual (rr_requests actual) (rr_requests desired) \<and>
     resourceListEqual (rr_limits actual) (rr_limits desired) \<and>
     rr_claims actual = rr_claims desired"

definition annotationsEqual :: "(string, string) gomap \<Rightarrow> (string, string) gomap \<Rightarrow> bool" where
  "annotationsEqual a b \<longleftrightarrow>
     mlen a = mlen b \<and> fmpred (\<lambda>k v. fmlookup (mitems b) k = Some v) (mitems a)"

definition dnsPolicyEqual :: "string \<Rightarrow> string \<Rightarrow> bool" where
  "dnsPolicyEqual actual expected =
     (if expected = [] then actual = [] \<or> actual = ''ClusterFirst'' \<or> actual = ''ClusterFirstWithHostNet''
      else actual = expected)"

definition schedulerNameEqual :: "string \<Rightarrow> string \<Rightarrow> bool" where
  "schedulerNameEqual actual expected =
     (if expected = [] then actual = [] \<or> actual = ''default-scheduler'' else actual = expected)"

definition ptr_or_empty :: "string option \<Rightarrow> string" where
  "ptr_or_empty p = (case p of Some s \<Rightarrow> s | None \<Rightarrow> [])"

definition stringPtrsEqual :: "string option \<Rightarrow> string option \<Rightarrow> bool" where
  "stringPtrsEqual a b \<longleftrightarrow> ptr_or_empty a = ptr_or_empty b"

definition automountServiceAccountTokenValue :: "bool option \<Rightarrow> bool" where
  "automountServiceAccountTokenValue v = (case v of None \<Rightarrow> True | Some b \<Rightarrow> b)"

definition automountServiceAccountTokenEqual :: "bool option \<Rightarrow> bool option \<Rightarrow> bool" where
  "automountServiceAccountTokenEqual a b \<longleftrightarrow>
     automountServiceAccountTokenValue a = automountServiceAccountTokenValue b"

definition preemptionPolicyEqual :: "string option \<Rightarrow> string option \<Rightarrow> bool" where
  "preemptionPolicyEqual a b \<longleftrightarrow> ptr_or_empty a = ptr_or_empty b"

definition overheadEqual :: "(string, quantity) gomap \<Rightarrow> (string, quantity) gomap \<Rightarrow> bool" where
  "overheadEqual a b \<longleftrightarrow>
     mlen a = mlen b \<and>
     fmpred (\<lambda>k av. case fmlookup (mitems b) k of
                       None \<Rightarrow> False | Some bv \<Rightarrow> quantity_equal av bv) (mitems a)"

definition engineTerminationMessagePathEqual :: "string \<Rightarrow> string \<Rightarrow> bool" where
  "engineTerminationMessagePathEqual actual expected =
     (if expected = [] then actual = [] \<or> actual = defaultTerminationMessagePath else actual = expected)"

definition engineTerminationMessagePolicyEqual :: "string \<Rightarrow> string \<Rightarrow> bool" where
  "engineTerminationMessagePolicyEqual actual expected =
     (if expected = [] then actual = [] \<or> actual = TerminationMessageReadFile else actual = expected)"

definition containersEqualAfterDefaults :: "operator_env \<Rightarrow> container list \<Rightarrow> container list \<Rightarrow> bool" where
  "containersEqualAfterDefaults env actual desired =
     (if length actual = 0 \<and> length desired = 0 then True
      else if length actual \<noteq> length desired then False
      else list_all2 (\<lambda>a d. normalizeContainer env a = normalizeContainer env d) actual desired)"

definition sidecarsMatch :: "operator_env \<Rightarrow> container list \<Rightarrow> container list \<Rightarrow> bool" where
  "sidecarsMatch env actual expected =
     containersEqualAfterDefaults env (filter (\<lambda>c. c_name c \<noteq> EngineContainerName) actual) expected"

definition quantityPtrEqual :: "quantity option \<Rightarrow> quantity option \<Rightarrow> bool" where
  "quantityPtrEqual a b =
     (case (a, b) of (Some x, Some y) \<Rightarrow> quantity_equal x y | (None, None) \<Rightarrow> True | _ \<Rightarrow> False)"

definition findDataPodVolume :: "stateful_set \<Rightarrow> volume option" where
  "findDataPodVolume sts =
     List.find (\<lambda>v. v_name v = DataVolumeName) (sitems (p_volumes (pt_spec (sts_template sts))))"

section \<open>The comparator\<close>

definition storageMatchesSpec :: "stateful_set \<Rightarrow> engine_spec \<Rightarrow> class_info option \<Rightarrow> bool" where
  "storageMatchesSpec sts spec ci =
     (let dataVol = findDataPodVolume sts; storage = effectiveStorage spec ci
      in case resolveStorageBackend storage of
           BackendEmptyDir \<Rightarrow>
             length (sitems (sts_volumeClaimTemplates sts)) = 0 \<and>
             (case Option.bind dataVol v_emptyDir of
                None \<Rightarrow> False
              | Some d \<Rightarrow>
                  (let ed = (case st_emptyDir storage of Some e \<Rightarrow> e | None \<Rightarrow> bare_empty_dir)
                   in ed_medium d = ed_medium ed \<and> quantityPtrEqual (ed_sizeLimit d) (ed_sizeLimit ed)))
         | BackendHostPath \<Rightarrow>
             length (sitems (sts_volumeClaimTemplates sts)) = 0 \<and>
             (case (Option.bind dataVol v_hostPath, st_hostPath storage) of
                (Some d, Some hp) \<Rightarrow> hp_path d = hp_path hp \<and> hp_type d = hp_type hp
              | _ \<Rightarrow> False)
         | BackendPersistentVolumeClaim \<Rightarrow>
             dataVol = None \<and>
             (case sitems (sts_volumeClaimTemplates sts) of
                [] \<Rightarrow> False
              | vct # _ \<Rightarrow>
                  (let pvc = resolvePersistentVolumeClaimPreset (st_pvc storage);
                       currentSize = (case fmlookup (mitems (ct_requests vct)) ''storage'' of
                                        Some q \<Rightarrow> q | None \<Rightarrow> Quantity 0 [])
                   in ct_name vct = DataVolumeName \<and> quantity_equal currentSize (pv_size pvc) \<and>
                      ct_accessModes vct = pv_accessModes pvc \<and>
                      ct_storageClassName vct = pv_storageClassName pvc)))"

definition annotation :: "stateful_set \<Rightarrow> string \<Rightarrow> string" where
  "annotation sts k = ptr_or_empty (fmlookup (mitems (sts_annotations sts)) k)"

definition annotationsMatchSpec ::
  "operator_env \<Rightarrow> stateful_set \<Rightarrow> engine_spec \<Rightarrow> instance_info \<Rightarrow> class_info option \<Rightarrow> bool" where
  "annotationsMatchSpec env sts spec info ci \<longleftrightarrow>
     annotation sts AnnotationMetadataOverride = ptr_or_empty (sp_metadataEndpointOverride spec) \<and>
     annotation sts AnnotationCustomEngineConfigHash = customEngineConfigHash env spec ci \<and>
     annotation sts AnnotationAuthHash = authHash env (ii_auth info) \<and>
     annotation sts AnnotationEngineTLSHash = tlsHash env (ii_tls info) \<and>
     annotation sts AnnotationEngineClassHash = (case ci of Some c \<Rightarrow> ci_hash c | None \<Rightarrow> []) \<and>
     annotation sts AnnotationEnginePresetHash = (case ci of Some c \<Rightarrow> ci_presetHash c | None \<Rightarrow> [])"

definition engineContainerExtraFieldsMatch ::
  "operator_env \<Rightarrow> container \<Rightarrow> engine_spec \<Rightarrow> instance_info \<Rightarrow> class_info option \<Rightarrow> bool" where
  "engineContainerExtraFieldsMatch env c spec info ci \<longleftrightarrow>
     c_env c = buildEngineContainerEnv env spec ci \<and>
     c_envFrom c = effectiveEngineEnvFrom spec ci \<and>
     c_volumeMounts c = buildEngineContainerVolumeMounts spec info ci \<and>
     c_lifecycle c = effectiveEngineLifecycle spec ci \<and>
     c_workingDir c = effectiveEngineWorkingDir spec ci \<and>
     engineTerminationMessagePathEqual (c_terminationMessagePath c)
       (effectiveEngineTerminationMessagePath spec ci) \<and>
     engineTerminationMessagePolicyEqual (c_terminationMessagePolicy c)
       (effectiveEngineTerminationMessagePolicy spec ci) \<and>
     c_volumeDevices c = effectiveEngineVolumeDevices spec ci \<and>
     c_resizePolicy c = effectiveEngineResizePolicy spec ci"

definition extraPodSpecFieldsMatch :: "pod_spec \<Rightarrow> engine_spec \<Rightarrow> class_info option \<Rightarrow> bool" where
  "extraPodSpecFieldsMatch podSpec spec ci \<longleftrightarrow>
     p_topologySpreadConstraints podSpec = effectiveTopologySpreadConstraints spec ci \<and>
     p_priorityClassName podSpec = effectivePriorityClassName spec ci \<and>
     stringPtrsEqual (p_runtimeClassName podSpec) (effectiveRuntimeClassName spec ci) \<and>
     dnsPolicyEqual (p_dnsPolicy podSpec) (effectiveDNSPolicy spec ci) \<and>
     p_dnsConfig podSpec = effectiveDNSConfig spec ci \<and>
     schedulerNameEqual (p_schedulerName podSpec) (effectiveSchedulerName spec ci) \<and>
     preemptionPolicyEqual (p_preemptionPolicy podSpec) (effectivePreemptionPolicy spec ci) \<and>
     p_readinessGates podSpec = effectiveReadinessGates spec ci \<and>
     p_resourceClaims podSpec = effectivePodResourceClaims spec ci \<and>
     p_hostAliases podSpec = effectiveHostAliases spec ci \<and>
     p_os podSpec = effectivePodOS spec ci \<and>
     overheadEqual (p_overhead podSpec) (effectivePodOverhead spec ci)"

text \<open>The pod labels are compared against the set rebuilt from the StatefulSet's own labels.\<close>

definition podLabelsMatch :: "stateful_set \<Rightarrow> engine_spec \<Rightarrow> class_info option \<Rightarrow> bool" where
  "podLabelsMatch sts spec ci =
     (case (fmlookup (mitems (sts_labels sts)) LabelEngine,
            fmlookup (mitems (sts_labels sts)) LabelGeneration) of
        (Some engineName, Some genStr) \<Rightarrow>
          (case atoi genStr of
             None \<Rightarrow> False
           | Some gen \<Rightarrow> pt_labels (sts_template sts) = effectivePodLabels spec engineName gen ci)
      | _ \<Rightarrow> False)"

definition stsMatchesSpec ::
  "operator_env \<Rightarrow> stateful_set \<Rightarrow> engine_spec \<Rightarrow> instance_info \<Rightarrow> class_info option \<Rightarrow> bool" where
  "stsMatchesSpec env sts spec info ci =
     (sts_replicas sts = Some (sp_replicas spec) \<and>
      (let podSpec = pt_spec (sts_template sts)
       in case sitems (p_containers podSpec) of
            [] \<Rightarrow> False
          | container # _ \<Rightarrow>
              (c_image container, c_imagePullPolicy container) = effectiveEngineImage env spec ci \<and>
              resourceRequirementsEqual (c_resources container) (effectiveEngineResources spec ci) \<and>
              p_nodeSelector podSpec = effectiveNodeSelector spec ci \<and>
              p_tolerations podSpec = effectiveTolerations spec ci \<and>
              p_affinity podSpec = effectiveAffinity spec ci \<and>
              extraPodSpecFieldsMatch podSpec spec ci \<and>
              sidecarsMatch env (sitems (p_containers podSpec))
                (sitems (effectiveSidecarsWithUI env spec info ci)) \<and>
              podLabelsMatch sts spec ci \<and>
              annotationsEqual (pt_annotations (sts_template sts)) (effectivePodAnnotations spec ci) \<and>
              p_serviceAccountName podSpec = effectiveServiceAccountName spec ci \<and>
              automountServiceAccountTokenEqual (p_automountServiceAccountToken podSpec)
                (effectiveAutomountServiceAccountToken spec ci) \<and>
              p_terminationGracePeriodSeconds podSpec = Some (getTerminationGracePeriod spec) \<and>
              p_securityContext podSpec = Some (effectivePodSecurityContext spec ci) \<and>
              c_securityContext container = Some (effectiveEngineContainerSecurityContext spec ci) \<and>
              engineContainerExtraFieldsMatch env container spec info ci \<and>
              containersEqualAfterDefaults env (sitems (p_initContainers podSpec))
                (sitems (effectiveInitContainers env spec ci)) \<and>
              annotationsMatchSpec env sts spec info ci \<and>
              storageMatchesSpec sts spec ci))"

section \<open>A built StatefulSet matches\<close>

lemma fmpred_lookup_refl: "(\<And>x. P x x) \<Longrightarrow> fmpred (\<lambda>k v. case fmlookup m k of Some a \<Rightarrow> P a v | None \<Rightarrow> False) m"
  by (auto simp: fmpred_iff)

lemma resourceListEqual_refl [drift_simps]: "resourceListEqual a a"
  by (auto simp: resourceListEqual_def fmpred_iff)

lemma resourceRequirementsEqual_refl [drift_simps]: "resourceRequirementsEqual a a"
  by (simp add: resourceRequirementsEqual_def drift_simps)

lemma annotationsEqual_refl [drift_simps]: "annotationsEqual a a"
  by (auto simp: annotationsEqual_def fmpred_iff)

lemma overheadEqual_refl [drift_simps]: "overheadEqual a a"
  by (auto simp: overheadEqual_def fmpred_iff)

lemma scalar_equal_refl [drift_simps]:
  "dnsPolicyEqual x x" "schedulerNameEqual x x" "engineTerminationMessagePathEqual x x"
  "engineTerminationMessagePolicyEqual x x" "stringPtrsEqual p p" "preemptionPolicyEqual p p"
  "automountServiceAccountTokenEqual b b" "quantityPtrEqual q q"
  by (auto simp: dnsPolicyEqual_def schedulerNameEqual_def engineTerminationMessagePathEqual_def
      engineTerminationMessagePolicyEqual_def stringPtrsEqual_def preemptionPolicyEqual_def
      automountServiceAccountTokenEqual_def quantityPtrEqual_def split: option.splits)

lemma containersEqual_refl [drift_simps]: "containersEqualAfterDefaults env cs cs"
  by (simp add: containersEqualAfterDefaults_def list_all2_refl)

text \<open>Sidecars never carry the engine container's name, so they are what the filter leaves.\<close>

lemma sidecar_names:
  "c \<in> set (sitems (effectiveSidecarsWithUI env spec info ci)) \<Longrightarrow> c_name c \<noteq> EngineContainerName"
  by (auto simp: effectiveSidecarsWithUI_def effectiveSidecars_def appendSidecars_def Let_def
      buildEngineWebSidecar_def EngineWebContainerName_def EngineContainerName_def split: if_splits option.splits)

lemma filter_sidecars [drift_simps]:
  "filter (\<lambda>c. c_name c \<noteq> EngineContainerName) (sitems (effectiveSidecarsWithUI env spec info ci))
     = sitems (effectiveSidecarsWithUI env spec info ci)"
  by (rule filter_True) (simp add: sidecar_names)

lemma engine_container_name [simp]: "c_name (engine_container env script spec info ci) = EngineContainerName"
  by (simp add: engine_container_def split: prod.splits)

lemma sidecarsMatch_built:
  "sidecarsMatch env (engine_container env script spec info ci # sitems (effectiveSidecarsWithUI env spec info ci))
     (sitems (effectiveSidecarsWithUI env spec info ci))"
  by (simp add: sidecarsMatch_def drift_simps)

lemma base_labels_lookup [simp]:
  "fmlookup (base_labels n g) LabelEngine = Some n"
  "fmlookup (base_labels n g) LabelGeneration = Some (itoa g)"
  by (simp_all add: base_labels_def LabelEngine_def LabelGeneration_def)

lemma annotation_keys_distinct:
  "distinct [AnnotationMetadataOverride, AnnotationEngineClassHash, AnnotationEnginePresetHash,
     AnnotationCustomEngineConfigHash, AnnotationAuthHash, AnnotationEngineTLSHash]"
  by (simp add: annotation_keys)

lemma ptr_put_if:
  "ptr_or_empty (fmlookup (put_if k h m) k') =
     (if k = k' \<and> h \<noteq> [] then h else ptr_or_empty (fmlookup m k'))"
  by (simp add: put_if_def ptr_or_empty_def)

lemma ptr_fmupd:
  "ptr_or_empty (fmlookup (fmupd k h m) k') = (if k = k' then h else ptr_or_empty (fmlookup m k'))"
  "ptr_or_empty (fmlookup fmempty k') = []"
  by (simp_all add: ptr_or_empty_def)

lemma annotations_built [drift_simps]:
  "annotationsMatchSpec env (buildStatefulSet env script spec n ns g info ci) spec info ci"
  using annotation_keys_distinct
  by (cases ci; cases "sp_metadataEndpointOverride spec")
    (simp_all add: annotationsMatchSpec_def annotation_def buildStatefulSet_def sts_drift_annotations_def
      Let_def ptr_put_if ptr_fmupd ptr_or_empty_def [of None] ptr_or_empty_def [of "Some x" for x] eq_commute)

text \<open>Only the operator's own data volume is named \<open>data\<close>.\<close>

lemma user_volumes_not_data:
  "v \<in> set (appendUserPodVolumes ovs spec info ci) \<Longrightarrow> v_name v = DataVolumeName \<Longrightarrow> v \<in> set ovs"
  by (auto simp: appendUserPodVolumes_def appendUserVolumesFrom_def operatorOwnedPodVolumeNames_def Let_def
      split: option.splits)

lemma find_append: "List.find P (xs @ ys) = (case List.find P xs of Some x \<Rightarrow> Some x | None \<Rightarrow> List.find P ys)"
  by (induction xs) auto

lemma appendUserPodVolumes_prefix: "\<exists>us. appendUserPodVolumes ovs spec info ci = ovs @ us"
  by (auto simp: appendUserPodVolumes_def appendUserVolumesFrom_def Let_def split: option.splits)

lemma data_volume_name: "data_volume s = Some v \<Longrightarrow> v_name v = DataVolumeName"
  by (auto simp: data_volume_def split: storage_backend.splits)

lemma other_operator_volumes_not_data:
  "v \<in> set (buildAuthVolumes auth) \<Longrightarrow> v_name v \<noteq> DataVolumeName"
  "v \<in> set (buildEngineTLSVolumes tls sn) \<Longrightarrow> v_name v \<noteq> DataVolumeName"
  by (auto simp: buildAuthVolumes_def buildEngineTLSVolumes_def secret_volume_def authSigningVolumeName_def
      operator_names split: option.splits)

lemma findDataPodVolume_built:
  "findDataPodVolume (buildStatefulSet env script spec n ns g info ci) = data_volume (effectiveStorage spec ci)"
proof (cases "data_volume (effectiveStorage spec ci)")
  case (Some v)
  obtain us where us: "appendUserPodVolumes (operator_volumes spec n g info ci) spec info ci
      = operator_volumes spec n g info ci @ us"
    using appendUserPodVolumes_prefix by blast
  have op: "List.find (\<lambda>v. v_name v = DataVolumeName) (operator_volumes spec n g info ci) = Some v"
    using Some data_volume_name [OF Some] by (simp add: operator_volumes_def operator_names)
  with Some show ?thesis
    by (simp add: findDataPodVolume_def buildStatefulSet_def engine_pod_spec_def pod_volumes_def us find_append)
next
  case None
  have "v_name v \<noteq> DataVolumeName" if "v \<in> set (pod_volumes spec n g info ci)" for v
  proof
    assume d: "v_name v = DataVolumeName"
    from that d have "v \<in> set (operator_volumes spec n g info ci)"
      by (auto simp: pod_volumes_def buildEngineWebWritableVolume_def operator_names
          dest: user_volumes_not_data split: if_splits)
    with d None show False
      by (auto simp: operator_volumes_def operator_names dest: other_operator_volumes_not_data)
  qed
  with None show ?thesis
    by (simp add: findDataPodVolume_def buildStatefulSet_def engine_pod_spec_def find_None_iff)
qed

lemma storage_built [drift_simps]:
  "storageMatchesSpec (buildStatefulSet env script spec n ns g info ci) spec ci"
  unfolding storageMatchesSpec_def Let_def findDataPodVolume_built
  by (auto simp: buildStatefulSet_def data_volume_def data_claims_def drift_simps Let_def 
    resolveStorageBackend_def split: storage_backend.splits option.splits)

lemma podLabels_built:
  "in_int64 g \<Longrightarrow> podLabelsMatch (buildStatefulSet env script spec n ns g info ci) spec ci"
  by (simp add: podLabelsMatch_def buildStatefulSet_def atoi_itoa)

lemma containerExtra_built [drift_simps]:
  "engineContainerExtraFieldsMatch env (engine_container env script spec info ci) spec info ci"
  by (simp add: engineContainerExtraFieldsMatch_def engine_container_def drift_simps split: prod.splits)

lemma podExtra_built [drift_simps]:
  "extraPodSpecFieldsMatch (engine_pod_spec env script spec n g info ci) spec ci"
  by (simp add: extraPodSpecFieldsMatch_def engine_pod_spec_def drift_simps)

lemma engine_pod_fields:
  "p_containers (engine_pod_spec env script spec n g info ci) =
     Some (engine_container env script spec info ci # sitems (effectiveSidecarsWithUI env spec info ci))"
  "p_nodeSelector (engine_pod_spec env script spec n g info ci) = effectiveNodeSelector spec ci"
  "p_tolerations (engine_pod_spec env script spec n g info ci) = effectiveTolerations spec ci"
  "p_affinity (engine_pod_spec env script spec n g info ci) = effectiveAffinity spec ci"
  "p_serviceAccountName (engine_pod_spec env script spec n g info ci) = effectiveServiceAccountName spec ci"
  "p_automountServiceAccountToken (engine_pod_spec env script spec n g info ci)
     = effectiveAutomountServiceAccountToken spec ci"
  "p_terminationGracePeriodSeconds (engine_pod_spec env script spec n g info ci)
     = Some (getTerminationGracePeriod spec)"
  "p_securityContext (engine_pod_spec env script spec n g info ci) = Some (effectivePodSecurityContext spec ci)"
  "p_initContainers (engine_pod_spec env script spec n g info ci) = effectiveInitContainers env spec ci"
  by (simp_all add: engine_pod_spec_def)

lemma built_matches:
  assumes "in_int64 g"
  shows "stsMatchesSpec env (buildStatefulSet env script spec n ns g info ci) spec info ci"
proof -
  let ?sts = "buildStatefulSet env script spec n ns g info ci"
  let ?c = "engine_container env script spec info ci"
  have img: "(c_image ?c, c_imagePullPolicy ?c) = effectiveEngineImage env spec ci"
    and res: "c_resources ?c = effectiveEngineResources spec ci"
    and sc: "c_securityContext ?c = Some (effectiveEngineContainerSecurityContext spec ci)"
    by (simp_all add: engine_container_def split: prod.splits)
  have pod: "pt_spec (sts_template ?sts) = engine_pod_spec env script spec n g info ci"
    and repl: "sts_replicas ?sts = Some (sp_replicas spec)"
    and anns: "pt_annotations (sts_template ?sts) = effectivePodAnnotations spec ci"
    by (simp_all add: buildStatefulSet_def)
  show ?thesis
    using podLabels_built [OF assms] sidecarsMatch_built img
    by (simp add: stsMatchesSpec_def pod repl anns res sc drift_simps engine_pod_fields del: prod.inject)
qed

section \<open>What the API server stores\<close>

text \<open>The API server fills unset fields of an object it stores. \<open>stored_as\<close> states, field by field,
  the documented defaults for the part of a StatefulSet the comparator reads: the container defaults
  the operator mirrors in \<open>applyContainerAPIServerDefaults\<close>, the \<open>apiVersion\<close> of a field reference,
  the \<open>type\<close> of a host path, the DNS policy and the scheduler name.\<close>

definition stored_env :: "env_var \<Rightarrow> env_var" where
  "stored_env e = e\<lparr>ev_valueFrom := map_option (\<lambda>s. s\<lparr>vs_fieldRef :=
     map_option (\<lambda>r. r\<lparr>fr_apiVersion := str_or_else (fr_apiVersion r) ''v1''\<rparr>) (vs_fieldRef s)\<rparr>) (ev_valueFrom e)\<rparr>"

definition stored_container :: "operator_env \<Rightarrow> container \<Rightarrow> container" where
  "stored_container env c =
     (applyContainerAPIServerDefaults env c)\<lparr>c_env := map_option (map stored_env) (c_env c)\<rparr>"

definition stored_volume :: "volume \<Rightarrow> volume" where
  "stored_volume v = v\<lparr>v_hostPath :=
     map_option (\<lambda>h. h\<lparr>hp_type := or_else (hp_type h) (Some [])\<rparr>) (v_hostPath v)\<rparr>"

definition stored_pod :: "operator_env \<Rightarrow> pod_spec \<Rightarrow> pod_spec" where
  "stored_pod env p = p\<lparr>p_volumes := map_option (map stored_volume) (p_volumes p),
     p_initContainers := map_option (map (stored_container env)) (p_initContainers p),
     p_containers := map_option (map (stored_container env)) (p_containers p),
     p_dnsPolicy := str_or_else (p_dnsPolicy p) ''ClusterFirst'',
     p_schedulerName := str_or_else (p_schedulerName p) ''default-scheduler''\<rparr>"

definition stored_as :: "operator_env \<Rightarrow> stateful_set \<Rightarrow> stateful_set \<Rightarrow> bool" where
  "stored_as env sts sts' \<longleftrightarrow>
     sts_replicas sts' = sts_replicas sts \<and> sts_labels sts' = sts_labels sts \<and>
     sts_annotations sts' = sts_annotations sts \<and>
     sts_volumeClaimTemplates sts' = sts_volumeClaimTemplates sts \<and>
     pt_labels (sts_template sts') = pt_labels (sts_template sts) \<and>
     pt_annotations (sts_template sts') = pt_annotations (sts_template sts) \<and>
     pt_spec (sts_template sts') = stored_pod env (pt_spec (sts_template sts))"

text \<open>What the user has to spell out for the stored object to compare equal: field references with
  an \<open>apiVersion\<close>, a host path with a \<open>type\<close>, and lifecycle handlers with path and scheme on the
  engine container.\<close>

definition explicit_refs :: "container \<Rightarrow> bool" where
  "explicit_refs c \<longleftrightarrow> list_all (\<lambda>e. stored_env e = e) (sitems (c_env c))"

definition spelled_out :: "operator_env \<Rightarrow> engine_spec \<Rightarrow> instance_info \<Rightarrow> class_info option \<Rightarrow> bool" where
  "spelled_out env spec info ci \<longleftrightarrow>
     list_all (\<lambda>e. stored_env e = e) (sitems (buildEngineContainerEnv env spec ci)) \<and>
     list_all explicit_refs (sitems (effectiveSidecarsWithUI env spec info ci)) \<and>
     list_all explicit_refs (sitems (effectiveInitContainers env spec ci)) \<and>
     map_option lifecycle_defaults (effectiveEngineLifecycle spec ci) = effectiveEngineLifecycle spec ci \<and>
     (case st_hostPath (effectiveStorage spec ci) of Some h \<Rightarrow> hp_type h \<noteq> None | None \<Rightarrow> True)"

lemma map_idI': "list_all (\<lambda>e. f e = e) xs \<Longrightarrow> map f xs = xs"
  by (induction xs) auto

lemma map_option_sitems: "list_all (\<lambda>e. f e = e) (sitems s) \<Longrightarrow> map_option (map f) s = s"
  by (cases s) (auto simp: map_idI')

lemma stored_explicit: "explicit_refs c \<Longrightarrow> stored_container env c = applyContainerAPIServerDefaults env c"
  by (simp add: stored_container_def explicit_refs_def map_option_sitems applyContainerAPIServerDefaults_def)

lemma stored_container_name [simp]: "c_name (stored_container env c) = c_name c"
  by (simp add: stored_container_def)

lemma containersEqual_stored:
  "list_all explicit_refs cs \<Longrightarrow> containersEqualAfterDefaults env (map (stored_container env) cs) cs"
  by (auto simp: containersEqualAfterDefaults_def list_all2_map1 list_all2_same list.pred_set
      normalizeContainer_def stored_explicit)

lemma pull_policy_set: "snd (effectiveEngineImage env spec ci) \<noteq> []"
  by (simp add: effectiveEngineImage_def Let_def resolveWorkloadImagePullPolicy_def
      resolveContainerImagePullPolicy_def)

lemma stored_volume_name [simp]: "v_name (stored_volume v) = v_name v"
  by (simp add: stored_volume_def)

lemma find_map: "List.find P (map f xs) = map_option f (List.find (P \<circ> f) xs)"
  by (induction xs) auto

lemma findData_stored:
  assumes "stored_as env sts sts'"
  shows "findDataPodVolume sts' = map_option stored_volume (findDataPodVolume sts)"
  using assms by (cases "p_volumes (pt_spec (sts_template sts))")
    (simp_all add: findDataPodVolume_def stored_as_def stored_pod_def find_map comp_def)

lemma storage_stored:
  assumes "stored_as env (buildStatefulSet env script spec n ns g info ci) sts'"
    and "spelled_out env spec info ci"
  shows "storageMatchesSpec sts' spec ci"
proof -
  have v: "sts_volumeClaimTemplates sts' = data_claims n g (effectiveStorage spec ci)"
    using assms by (simp add: stored_as_def buildStatefulSet_def)
  have h: "case st_hostPath (effectiveStorage spec ci) of Some h \<Rightarrow> hp_type h \<noteq> None | None \<Rightarrow> True"
    using assms by (simp add: spelled_out_def)
  then show ?thesis
    unfolding storageMatchesSpec_def Let_def findData_stored [OF assms(1)] findDataPodVolume_built
    by (auto simp: v data_volume_def data_claims_def drift_simps Let_def stored_volume_def empty_volume_def
        resolveStorageBackend_def split: storage_backend.splits option.splits)
qed

lemma annotations_stored:
  "stored_as env (buildStatefulSet env script spec n ns g info ci) sts' \<Longrightarrow>
     annotationsMatchSpec env sts' spec info ci"
  using annotations_built [of env script spec n ns g info ci]
  by (simp add: annotationsMatchSpec_def annotation_def stored_as_def)

lemma podLabels_stored:
  "in_int64 g \<Longrightarrow> stored_as env (buildStatefulSet env script spec n ns g info ci) sts' \<Longrightarrow>
     podLabelsMatch sts' spec ci"
  by (simp add: podLabelsMatch_def stored_as_def buildStatefulSet_def atoi_itoa)

lemma str_or_else_path:
  "engineTerminationMessagePathEqual (str_or_else x defaultTerminationMessagePath) x"
  "engineTerminationMessagePolicyEqual (str_or_else x TerminationMessageReadFile) x"
  "dnsPolicyEqual (str_or_else x ''ClusterFirst'') x"
  "schedulerNameEqual (str_or_else x ''default-scheduler'') x"
  by (auto simp: engineTerminationMessagePathEqual_def engineTerminationMessagePolicyEqual_def
      dnsPolicyEqual_def schedulerNameEqual_def str_or_else_def)

lemma containerExtra_stored:
  assumes "spelled_out env spec info ci"
  shows "engineContainerExtraFieldsMatch env (stored_container env (engine_container env script spec info ci))
    spec info ci"
  using assms by (simp add: engineContainerExtraFieldsMatch_def stored_container_def engine_container_def
      applyContainerAPIServerDefaults_def str_or_else_path spelled_out_def map_option_sitems split: prod.splits)

lemma podExtra_stored:
  "extraPodSpecFieldsMatch (stored_pod env (engine_pod_spec env script spec n g info ci)) spec ci"
  by (simp add: extraPodSpecFieldsMatch_def engine_pod_spec_def stored_pod_def drift_simps str_or_else_path)

lemma sidecars_stored:
  assumes "spelled_out env spec info ci"
  shows "sidecarsMatch env (stored_container env (engine_container env script spec info ci) #
       map (stored_container env) (sitems (effectiveSidecarsWithUI env spec info ci)))
     (sitems (effectiveSidecarsWithUI env spec info ci))"
proof -
  have "filter (\<lambda>c. c_name c \<noteq> EngineContainerName)
      (map (stored_container env) (sitems (effectiveSidecarsWithUI env spec info ci)))
    = map (stored_container env) (sitems (effectiveSidecarsWithUI env spec info ci))"
    by (rule filter_True) (auto simp: sidecar_names)
  with assms show ?thesis
    by (simp add: sidecarsMatch_def spelled_out_def containersEqual_stored)
qed

lemma stored_matches:
  assumes "in_int64 g" and stored: "stored_as env (buildStatefulSet env script spec n ns g info ci) sts'"
    and so: "spelled_out env spec info ci"
  shows "stsMatchesSpec env sts' spec info ci"
proof -
  let ?c = "stored_container env (engine_container env script spec info ci)"
  have img: "(c_image ?c, c_imagePullPolicy ?c) = effectiveEngineImage env spec ci"
    using pull_policy_set [of env spec ci]
    by (auto simp: engine_container_def stored_container_def applyContainerAPIServerDefaults_def str_or_else_def
        split: prod.splits)
  have res: "c_resources ?c = effectiveEngineResources spec ci"
    and sc: "c_securityContext ?c = Some (effectiveEngineContainerSecurityContext spec ci)"
    by (simp_all add: engine_container_def stored_container_def applyContainerAPIServerDefaults_def split: prod.splits)
  have pod: "pt_spec (sts_template sts') = stored_pod env (engine_pod_spec env script spec n g info ci)"
    and repl: "sts_replicas sts' = Some (sp_replicas spec)"
    and anns: "pt_annotations (sts_template sts') = effectivePodAnnotations spec ci"
    using stored by (simp_all add: stored_as_def buildStatefulSet_def)
  have cs: "p_containers (stored_pod env (engine_pod_spec env script spec n g info ci)) =
      Some (?c # map (stored_container env) (sitems (effectiveSidecarsWithUI env spec info ci)))"
    by (simp add: stored_pod_def engine_pod_fields)
  have ini: "containersEqualAfterDefaults env
      (sitems (p_initContainers (stored_pod env (engine_pod_spec env script spec n g info ci))))
      (sitems (effectiveInitContainers env spec ci))"
    using containersEqual_stored so
    by (cases "effectiveInitContainers env spec ci")
      (simp_all add: stored_pod_def engine_pod_fields spelled_out_def drift_simps)
  have rest: "p_nodeSelector (stored_pod env p) = p_nodeSelector p"
    "p_tolerations (stored_pod env p) = p_tolerations p" "p_affinity (stored_pod env p) = p_affinity p"
    "p_serviceAccountName (stored_pod env p) = p_serviceAccountName p"
    "p_automountServiceAccountToken (stored_pod env p) = p_automountServiceAccountToken p"
    "p_terminationGracePeriodSeconds (stored_pod env p) = p_terminationGracePeriodSeconds p"
    "p_securityContext (stored_pod env p) = p_securityContext p" for p
    by (simp_all add: stored_pod_def)
  show ?thesis
    using podLabels_stored [OF assms(1,2)] sidecars_stored [OF so] img storage_stored [OF stored so]
      annotations_stored [OF stored] containerExtra_stored [OF so] ini podExtra_stored
    by (simp add: stsMatchesSpec_def pod repl anns res sc cs rest drift_simps engine_pod_fields del: prod.inject)
qed


lemma hostPath_without_type_differs:
  assumes stored: "stored_as env (buildStatefulSet env script spec n ns g info ci) sts'"
    and "st_pvc (effectiveStorage spec ci) = None"
    and "st_hostPath (effectiveStorage spec ci) = Some h" and "hp_type h = None"
  shows "\<not> storageMatchesSpec sts' spec ci"
  using assms(2-)
  unfolding storageMatchesSpec_def Let_def findData_stored [OF stored] findDataPodVolume_built
  by (simp add: resolveStorageBackend_def data_volume_def stored_volume_def empty_volume_def)

lemma built_pod [simp]:
  "pt_spec (sts_template (buildStatefulSet env script spec n ns g info ci)) = engine_pod_spec env script spec n g info ci"
  "sts_replicas (buildStatefulSet env script spec n ns g info ci) = Some (sp_replicas spec)"
  "sts_annotations (buildStatefulSet env script spec n ns g info ci) = Some (sts_drift_annotations env spec info ci)"
  by (simp_all add: buildStatefulSet_def)

lemma annotation_built:
  "annotation (buildStatefulSet env script spec n ns g info ci) AnnotationCustomEngineConfigHash
     = customEngineConfigHash env spec ci"
  "annotation (buildStatefulSet env script spec n ns g info ci) AnnotationAuthHash = authHash env (ii_auth info)"
  "annotation (buildStatefulSet env script spec n ns g info ci) AnnotationEngineTLSHash = tlsHash env (ii_tls info)"
  "annotation (buildStatefulSet env script spec n ns g info ci) AnnotationEngineClassHash
     = (case ci of Some c \<Rightarrow> ci_hash c | None \<Rightarrow> [])"
  using annotations_built [of env script spec n ns g info ci] by (simp_all add: annotationsMatchSpec_def)

lemma image_built:
  "(c_image (engine_container env script spec info ci), c_imagePullPolicy (engine_container env script spec info ci))
     = effectiveEngineImage env spec ci"
  "c_env (engine_container env script spec info ci) = buildEngineContainerEnv env spec ci"
  "c_volumeMounts (engine_container env script spec info ci) = buildEngineContainerVolumeMounts spec info ci"
  "c_resources (engine_container env script spec info ci) = effectiveEngineResources spec ci"
  "c_securityContext (engine_container env script spec info ci) =
     Some (effectiveEngineContainerSecurityContext spec ci)"
  by (simp_all add: engine_container_def split: prod.splits)

lemma sidecars_of_match:
  assumes "sidecarsMatch env (engine_container env script spec info ci #
      sitems (effectiveSidecarsWithUI env spec info ci)) ds"
  shows "map (normalizeContainer env) (sitems (effectiveSidecarsWithUI env spec info ci))
    = map (normalizeContainer env) ds"
  using assms
  by (auto simp: sidecarsMatch_def containersEqualAfterDefaults_def drift_simps list_all2_conv_all_nth
      intro!: nth_equalityI split: if_splits)

section \<open>Properties\<close>

text \<open>C5. No churn: the StatefulSet the operator renders for a generation passes its own drift check
  against the inputs it was rendered from, whatever the engine spec, the class, the Preset and the
  Instance, so a converged engine never starts a new generation by itself.\<close>

theorem fresh_statefulset_matches:
  assumes "in_int64 g"
  shows "stsMatchesSpec env (buildStatefulSet env script spec n ns g info ci) spec info ci"
  using assms by (rule built_matches)



text \<open>A host path declared without a \<open>type\<close> never settles: the API server stores an empty type,
  which the comparison with the unset field of the spec takes for drift on every reconcile.\<close>

theorem untyped_host_path_drifts:
  assumes "stored_as env (buildStatefulSet env script spec n ns g info ci) sts"
    and "st_pvc (effectiveStorage spec ci) = None"
    and "st_hostPath (effectiveStorage spec ci) = Some h" and "hp_type h = None"
  shows "\<not> stsMatchesSpec env sts spec info ci"
  using hostPath_without_type_differs [OF assms] by (auto simp: stsMatchesSpec_def Let_def split: list.splits)

section \<open>Witnesses\<close>

definition ex_env :: operator_env where
  "ex_env = \<lparr>oe_sha256hex = (\<lambda>s. ''0123456789abcdef''), oe_parseReference = (\<lambda>s. Some (''4.1'', [])),
     oe_marshalTemplate = (\<lambda>t. []), oe_marshalAuth = (\<lambda>a. []), oe_marshalJson = (\<lambda>j. []),
     oe_engineRepository = ''firebolt/engine'', oe_engineTag = ''4.1'', oe_engineWebImage = ''firebolt/web:1'',
     oe_telemetryDisabled = False\<rparr>"

definition ex_info :: instance_info where
  "ex_info = \<lparr>ii_metadataEndpoint = ''meta:7000'', ii_instanceID = ''01H'', ii_auth = None, ii_tls = None,
     ii_engineTrustBundleReady = True, ii_protectedSecretNames = []\<rparr>"

definition ex_spec :: engine_spec where
  "ex_spec = zero_engine_spec\<lparr>sp_instanceRef := ''inst'', sp_replicas := 2\<rparr>"

definition ex_sts :: stateful_set where
  "ex_sts = buildStatefulSet ex_env ''run'' ex_spec ''e'' ''ns'' 3 ex_info None"

definition store_sts :: "stateful_set \<Rightarrow> stateful_set" where
  "store_sts s = s\<lparr>sts_template := (sts_template s)\<lparr>pt_spec := stored_pod ex_env (pt_spec (sts_template s))\<rparr>\<rparr>"

lemma store_sts_stored: "stored_as ex_env s (store_sts s)"
  by (simp add: stored_as_def store_sts_def)

lemma ex_templates [simp]:
  "engineSpecContainer ex_spec = None" "classEngineContainer None = None" "class_template None = None"
  "engineTemplate ex_spec = empty_pod_template"
  by (simp_all add: ex_spec_def zero_engine_spec_def engineSpecContainer_def EngineContainerInTemplate_def
      classEngineContainer_def class_template_def engineTemplate_def)

lemma ex_spelled_out: "spelled_out ex_env ex_spec ex_info None"
  by (simp add: spelled_out_def buildEngineContainerEnv_def effectiveEngineEnv_def class_field_def spec_field_def
      ex_env_def stored_env_def effectiveEngineLifecycle_def effectiveStorage_def effectiveSidecarsWithUI_def
      effectiveSidecars_def effectiveInitContainers_def engineClassInitContainers_def engineInitContainers_def
      effectiveUISidecarEnabled_def ex_spec_def zero_engine_spec_def empty_storage_def storageBackendSet_def
      engine_pod_def engineTemplate_def empty_pod_template_def empty_pod_spec_def appendSidecars_def
      class_then_engine_def engineSpecContainer_def EngineContainerInTemplate_def)

lemma fresh_statefulset_matches_witness: "stsMatchesSpec ex_env ex_sts ex_spec ex_info None"
  unfolding ex_sts_def by (rule fresh_statefulset_matches) (simp add: in_int64_def)



definition ex_host_spec :: engine_spec where
  "ex_host_spec = ex_spec\<lparr>sp_storage := empty_storage\<lparr>st_hostPath := Some \<lparr>hp_path = ''/data'', hp_type = None\<rparr>\<rparr>\<rparr>"

lemma untyped_host_path_drifts_witness:
  "\<not> stsMatchesSpec ex_env (store_sts (buildStatefulSet ex_env ''run'' ex_host_spec ''e'' ''ns'' 3 ex_info None))
     ex_host_spec ex_info None"
  by (rule untyped_host_path_drifts [OF store_sts_stored, where h = "\<lparr>hp_path = ''/data'', hp_type = None\<rparr>"])
    (simp_all add: ex_host_spec_def effectiveStorage_def storageBackendSet_def empty_storage_def)

end
