(* ===== verification/Engine_State.thy ===== *)
theory Engine_State
  imports Engine_Drift
begin

text \<open>
  The observation layer of the engine controller, \<open>engine_state.go\<close>: which cluster objects a
  reconcile pass reads (\<open>getEngineState\<close>), how they become an \<open>engine_state\<close> (\<open>assembleEngineState\<close>),
  pod readiness, the drain probe with its metric parser and the choice of the event to surface.

  API reads go through a \<open>reader\<close>, an argument: each read yields an error, the object, or \<open>None\<close> for
  NotFound, which the source keeps apart from every other error. All reads of a pass are in the
  engine's namespace. \<open>strconv.ParseFloat\<close> is an argument \<open>pf\<close> giving the value truncated to an
  integer as \<open>int64(v)\<close> does; metric bodies are taken as ASCII text.
\<close>

section \<open>Errors\<close>

datatype engine_error =
    ApiError string
  | ParseError string
  | DrainProbeError int string engine_error
  | MetricsMissing string bool bool
  | Panic string

definition and_then :: "'e + 'a \<Rightarrow> ('a \<Rightarrow> 'e + 'b) \<Rightarrow> 'e + 'b" where
  "and_then r f = (case r of Inl e \<Rightarrow> Inl e | Inr x \<Rightarrow> f x)"

lemma and_then_simps [simp]: "and_then (Inl e) f = Inl e" "and_then (Inr x) f = f x"
  by (simp_all add: and_then_def)

lemma and_then_Inr: "and_then r f = Inr y \<longleftrightarrow> (\<exists>x. r = Inr x \<and> f x = Inr y)"
  by (cases r) simp_all

lemma and_then_Inl: "and_then r f = Inl e \<longleftrightarrow> r = Inl e \<or> (\<exists>x. r = Inr x \<and> f x = Inl e)"
  by (cases r) simp_all

section \<open>Pods\<close>

record pod =
  pod_name :: string
  pod_phase :: string
  pod_conditions :: "(string \<times> string) list"

definition PodRunning :: string where "PodRunning = ''Running''"

definition pod_ready :: "pod \<Rightarrow> bool" where
  "pod_ready p \<longleftrightarrow> pod_phase p = PodRunning \<and>
     list_ex (\<lambda>(t, s). t = ''Ready'' \<and> s = ''True'') (pod_conditions p)"

definition checkPodsReady :: "pod list \<Rightarrow> int \<Rightarrow> bool \<times> nat \<times> nat" where
  "checkPodsReady pods expectedReplicas =
     (let tot = length pods; ready = length (filter pod_ready pods)
      in if int tot \<noteq> expectedReplicas then (False, tot, ready)
         else if ready < tot then (False, tot, ready)
         else (True, tot, ready))"

section \<open>The metric parser\<close>

definition newline :: char where "newline = CHR 0x0A"
definition space_char :: char where "space_char = CHR 0x20"

definition is_space :: "char \<Rightarrow> bool" where
  "is_space c \<longleftrightarrow> of_char c \<in> {9, 10, 11, 12, 13, 32 :: nat}"

definition trim_left :: "string \<Rightarrow> string" where "trim_left s = dropWhile is_space s"

definition trim_space :: "string \<Rightarrow> string" where
  "trim_space s = rev (trim_left (rev (trim_left s)))"

text \<open>\<open>bufio.ScanLines\<close>: lines end at a newline, a trailing carriage return is dropped, a final line
  need not end in a newline and an empty rest is no line.\<close>

fun split_lines :: "string \<Rightarrow> string \<Rightarrow> string list" where
  "split_lines acc [] = (if acc = [] then [] else [rev acc])"
| "split_lines acc (c # cs) =
     (if c = newline then rev acc # split_lines [] cs else split_lines (c # acc) cs)"

definition drop_cr :: "string \<Rightarrow> string" where
  "drop_cr l = (if l \<noteq> [] \<and> last l = CHR 0x0D then butlast l else l)"

definition maxLine :: nat where "maxLine = 1024 * 1024"

text \<open>The scanner stops at a line that does not fit its buffer.\<close>

definition scan_lines :: "string \<Rightarrow> string list" where
  "scan_lines body = map drop_cr (takeWhile (\<lambda>l. length l < maxLine) (split_lines [] body))"

definition sample_value :: "string \<Rightarrow> string" where
  "sample_value rest = takeWhile (\<lambda>c. c \<noteq> space_char) (trim_space rest)"

fun find_sample :: "string \<Rightarrow> string list \<Rightarrow> string option" where
  "find_sample prefix [] = None"
| "find_sample prefix (line # ls) =
     (if line = [] \<or> hd line = CHR ''#'' then find_sample prefix ls
      else if \<not> has_prefix line prefix then find_sample prefix ls
      else Some (sample_value (drop (length prefix) line)))"

definition parsePrometheusGauge :: "(string \<Rightarrow> int option) \<Rightarrow> string \<Rightarrow> string \<Rightarrow> int option" where
  "parsePrometheusGauge pf body name =
     Option.bind (find_sample (name @ [space_char]) (scan_lines body)) pf"

definition MetricRunningQueries :: string where "MetricRunningQueries = ''firebolt_running_queries''"
definition MetricSuspendedQueries :: string where "MetricSuspendedQueries = ''firebolt_suspended_queries''"

section \<open>The drain probe\<close>

definition isPodDrained ::
  "(string \<Rightarrow> int option) \<Rightarrow> (string \<Rightarrow> engine_error + string) \<Rightarrow> pod \<Rightarrow> engine_error + bool" where
  "isPodDrained pf scrape pod =
     (if pod_phase pod \<noteq> PodRunning then Inr True
      else and_then (scrape (pod_name pod)) (\<lambda>raw.
        case (parsePrometheusGauge pf raw MetricRunningQueries,
              parsePrometheusGauge pf raw MetricSuspendedQueries) of
          (Some running, Some suspended) \<Rightarrow> Inr (running = 0 \<and> suspended = 0)
        | (r, s) \<Rightarrow> Inl (MetricsMissing (pod_name pod) (r \<noteq> None) (s \<noteq> None))))"

fun drain_loop ::
  "(string \<Rightarrow> int option) \<Rightarrow> (string \<Rightarrow> engine_error + string) \<Rightarrow> int \<Rightarrow> pod list \<Rightarrow> engine_error + bool" where
  "drain_loop pf scrape gen [] = Inr True"
| "drain_loop pf scrape gen (pod # pods) =
     (if pod_phase pod \<noteq> PodRunning then drain_loop pf scrape gen pods
      else case isPodDrained pf scrape pod of
             Inl e \<Rightarrow> Inl (DrainProbeError gen (pod_name pod) e)
           | Inr False \<Rightarrow> Inr False
           | Inr True \<Rightarrow> drain_loop pf scrape gen pods)"

definition checkDrainComplete ::
  "(string \<Rightarrow> int option) \<Rightarrow> (string \<Rightarrow> engine_error + string) \<Rightarrow> int \<Rightarrow> pod list \<Rightarrow> engine_error + bool" where
  "checkDrainComplete pf scrape gen pods =
     (if length pods = 0 then Inr True else drain_loop pf scrape gen pods)"

section \<open>The event to surface\<close>

text \<open>Timestamps are \<open>None\<close> when zero.\<close>

record k8s_event =
  k_type :: string
  k_message :: string
  k_lastTimestamp :: "time option"
  k_eventTime :: "time option"
  k_creationTimestamp :: "time option"

definition eventLastTime :: "k8s_event \<Rightarrow> time option" where
  "eventLastTime e =
     or_else (k_lastTimestamp e) (or_else (k_eventTime e) (k_creationTimestamp e))"

definition time_after :: "time option \<Rightarrow> time option \<Rightarrow> bool" where
  "time_after a b = (case (a, b) of (None, _) \<Rightarrow> False | (Some _, None) \<Rightarrow> True | (Some x, Some y) \<Rightarrow> y < x)"

fun pick_loop :: "k8s_event option \<Rightarrow> k8s_event list \<Rightarrow> k8s_event option" where
  "pick_loop latest [] = latest"
| "pick_loop latest (e # es) =
     (if k_type e \<noteq> ''Warning'' \<or> trim_space (k_message e) = [] then pick_loop latest es
      else case latest of
             None \<Rightarrow> pick_loop (Some e) es
           | Some l \<Rightarrow> if time_after (eventLastTime e) (eventLastTime l) then pick_loop (Some e) es
                       else pick_loop (Some l) es)"

definition pickLatestWarning :: "k8s_event list \<Rightarrow> k8s_event option" where
  "pickLatestWarning es = pick_loop None es"

section \<open>The observed state\<close>

record raw_engine_resources =
  rw_currentSTS :: "stateful_set option"
  rw_currentConfigMap :: "config_map option"
  rw_currentHeadlessSvc :: "service option"
  rw_currentPodsReady :: bool
  rw_currentPodTotal :: nat
  rw_currentPodReady :: nat
  rw_activeSTS :: "stateful_set option"
  rw_activePodReady :: nat
  rw_drainingSTS :: "stateful_set option"
  rw_drainingConfigMap :: "config_map option"
  rw_drainingHeadlessSvc :: "service option"
  rw_drainingPodsDrained :: bool
  rw_clusterService :: "service option"

record engine_state =
  x_currentSTS :: "stateful_set option"
  x_currentConfigMap :: "config_map option"
  x_currentHeadlessSvc :: "service option"
  x_currentPodsReady :: bool
  x_currentPodTotal :: nat
  x_currentPodReady :: nat
  x_activeSTS :: "stateful_set option"
  x_activePodReady :: nat
  x_drainingSTS :: "stateful_set option"
  x_drainingConfigMap :: "config_map option"
  x_drainingHeadlessSvc :: "service option"
  x_drainingPodsDrained :: bool
  x_clusterService :: "service option"
  x_targetGen :: int

definition empty_state :: engine_state where
  "empty_state = \<lparr>x_currentSTS = None, x_currentConfigMap = None, x_currentHeadlessSvc = None,
     x_currentPodsReady = False, x_currentPodTotal = 0, x_currentPodReady = 0, x_activeSTS = None,
     x_activePodReady = 0, x_drainingSTS = None, x_drainingConfigMap = None,
     x_drainingHeadlessSvc = None, x_drainingPodsDrained = False, x_clusterService = None,
     x_targetGen = -1\<rparr>"

definition empty_raw :: raw_engine_resources where
  "empty_raw = \<lparr>rw_currentSTS = None, rw_currentConfigMap = None, rw_currentHeadlessSvc = None,
     rw_currentPodsReady = False, rw_currentPodTotal = 0, rw_currentPodReady = 0, rw_activeSTS = None,
     rw_activePodReady = 0, rw_drainingSTS = None, rw_drainingConfigMap = None,
     rw_drainingHeadlessSvc = None, rw_drainingPodsDrained = False, rw_clusterService = None\<rparr>"

definition draining_gen :: "engine_status \<Rightarrow> int" where
  "draining_gen status = (case es_drainingGeneration status of Some d \<Rightarrow> d | None \<Rightarrow> -1)"

text \<open>The three guarded sections of \<open>assembleEngineState\<close>, in its order.\<close>

definition assemble_current :: "engine_status \<Rightarrow> raw_engine_resources \<Rightarrow> engine_state \<Rightarrow> engine_state" where
  "assemble_current status raw s =
     (if es_currentGeneration status \<ge> 0 then
        (let s1 = s\<lparr>x_currentSTS := rw_currentSTS raw, x_currentConfigMap := rw_currentConfigMap raw,
                    x_currentHeadlessSvc := rw_currentHeadlessSvc raw\<rparr>
         in if rw_currentSTS raw \<noteq> None
            then s1\<lparr>x_currentPodsReady := rw_currentPodsReady raw,
                    x_currentPodTotal := rw_currentPodTotal raw, x_currentPodReady := rw_currentPodReady raw\<rparr>
            else s1)
      else s)"

definition assemble_active :: "engine_status \<Rightarrow> raw_engine_resources \<Rightarrow> engine_state \<Rightarrow> engine_state" where
  "assemble_active status raw s =
     (if es_activeGeneration status < 0 then s
      else if es_activeGeneration status = es_currentGeneration status
           then s\<lparr>x_activePodReady := x_currentPodReady s\<rparr>
      else if rw_activeSTS raw \<noteq> None
           then s\<lparr>x_activeSTS := rw_activeSTS raw, x_activePodReady := rw_activePodReady raw\<rparr>
      else s)"

definition assemble_draining :: "engine_status \<Rightarrow> raw_engine_resources \<Rightarrow> engine_state \<Rightarrow> engine_state" where
  "assemble_draining status raw s =
     (if draining_gen status \<ge> 0 \<and> draining_gen status \<noteq> es_currentGeneration status
      then s\<lparr>x_drainingSTS := rw_drainingSTS raw, x_drainingConfigMap := rw_drainingConfigMap raw,
             x_drainingHeadlessSvc := rw_drainingHeadlessSvc raw,
             x_drainingPodsDrained := (if rw_drainingSTS raw = None then True
                                       else rw_drainingPodsDrained raw)\<rparr>
      else s)"

definition assembleEngineState ::
  "engine_status \<Rightarrow> raw_engine_resources \<Rightarrow> engine_error + engine_state" where
  "assembleEngineState status raw =
     (let s = assemble_draining status raw (assemble_active status raw (assemble_current status raw empty_state))
      in case rw_clusterService raw of
           None \<Rightarrow> Inr s
         | Some svc \<Rightarrow>
             (let s1 = s\<lparr>x_clusterService := Some svc\<rparr>
              in case fmlookup (mitems (svc_selector svc)) LabelGeneration of
                   None \<Rightarrow> Inr s1
                 | Some genStr \<Rightarrow>
                     (case atoi genStr of
                        None \<Rightarrow> Inl (ParseError genStr)
                      | Some g \<Rightarrow> Inr (s1\<lparr>x_targetGen := g\<rparr>))))"

section \<open>Reading the cluster\<close>

record reader =
  rd_sts :: "string \<Rightarrow> engine_error + stateful_set option"
  rd_cm :: "string \<Rightarrow> engine_error + config_map option"
  rd_svc :: "string \<Rightarrow> engine_error + service option"
  rd_pods :: "string \<Rightarrow> int \<Rightarrow> engine_error + pod list"
  rd_scrape :: "string \<Rightarrow> engine_error + string"

definition getStatefulSet :: "reader \<Rightarrow> string \<Rightarrow> int \<Rightarrow> engine_error + stateful_set option" where
  "getStatefulSet rd engineName gen = rd_sts rd (genResourceName engineName gen [])"

definition getConfigMap :: "reader \<Rightarrow> string \<Rightarrow> int \<Rightarrow> engine_error + config_map option" where
  "getConfigMap rd engineName gen = rd_cm rd (genResourceName engineName gen SuffixConfig)"

definition getHeadlessService :: "reader \<Rightarrow> string \<Rightarrow> int \<Rightarrow> engine_error + service option" where
  "getHeadlessService rd engineName gen = rd_svc rd (genResourceName engineName gen SuffixHL)"

definition read_current ::
  "reader \<Rightarrow> engine_spec \<Rightarrow> string \<Rightarrow> engine_status \<Rightarrow> raw_engine_resources \<Rightarrow> engine_error + raw_engine_resources" where
  "read_current rd spec engineName status raw =
     (let currentGen = es_currentGeneration status
      in if currentGen \<ge> 0 then
           and_then (getStatefulSet rd engineName currentGen) (\<lambda>sts.
           and_then (getConfigMap rd engineName currentGen) (\<lambda>cm.
           and_then (getHeadlessService rd engineName currentGen) (\<lambda>hl.
             let raw1 = raw\<lparr>rw_currentSTS := sts, rw_currentConfigMap := cm, rw_currentHeadlessSvc := hl\<rparr>
             in if sts \<noteq> None then
                  and_then (rd_pods rd engineName currentGen) (\<lambda>pods.
                    case checkPodsReady pods (sp_replicas spec) of (allReady, tot, ready) \<Rightarrow>
                      Inr (raw1\<lparr>rw_currentPodsReady := allReady, rw_currentPodTotal := tot,
                                rw_currentPodReady := ready\<rparr>))
                else Inr raw1)))
         else Inr raw)"

definition read_active ::
  "reader \<Rightarrow> string \<Rightarrow> engine_status \<Rightarrow> raw_engine_resources \<Rightarrow> engine_error + raw_engine_resources" where
  "read_active rd engineName status raw =
     (let activeGen = es_activeGeneration status
      in if activeGen \<ge> 0 \<and> activeGen \<noteq> es_currentGeneration status then
           and_then (getStatefulSet rd engineName activeGen) (\<lambda>sts.
             case sts of
               None \<Rightarrow> Inr raw
             | Some s \<Rightarrow>
                 (let expected = (case sts_replicas s of Some n \<Rightarrow> n | None \<Rightarrow> 0)
                  in and_then (rd_pods rd engineName activeGen) (\<lambda>pods.
                       case checkPodsReady pods expected of (_, _, ready) \<Rightarrow>
                         Inr (raw\<lparr>rw_activeSTS := sts, rw_activePodReady := ready\<rparr>))))
         else Inr raw)"


definition skip_drain :: "engine_spec \<Rightarrow> class_info option \<Rightarrow> bool" where
  "skip_drain spec ci \<longleftrightarrow>
     effectiveRollout spec ci = RolloutRecreate \<or> \<not> effectiveDrainCheckEnabled spec ci"

definition read_draining ::
  "(string \<Rightarrow> int option) \<Rightarrow> reader \<Rightarrow> engine_spec \<Rightarrow> string \<Rightarrow> engine_status \<Rightarrow> class_info option
     \<Rightarrow> raw_engine_resources \<Rightarrow> engine_error + raw_engine_resources" where
  "read_draining pf rd spec engineName status ci raw =
     (let drainingGen = draining_gen status
      in if drainingGen \<ge> 0 \<and> drainingGen \<noteq> es_currentGeneration status then
           and_then (getStatefulSet rd engineName drainingGen) (\<lambda>sts.
           and_then (getConfigMap rd engineName drainingGen) (\<lambda>cm.
           and_then (getHeadlessService rd engineName drainingGen) (\<lambda>hl.
             let raw1 = raw\<lparr>rw_drainingSTS := sts, rw_drainingConfigMap := cm, rw_drainingHeadlessSvc := hl\<rparr>
             in if sts \<noteq> None \<and> \<not> skip_drain spec ci then
                  and_then (rd_pods rd engineName drainingGen) (\<lambda>pods.
                  and_then (checkDrainComplete pf (rd_scrape rd) drainingGen pods) (\<lambda>drained.
                    Inr (raw1\<lparr>rw_drainingPodsDrained := drained\<rparr>)))
                else Inr (raw1\<lparr>rw_drainingPodsDrained := True\<rparr>))))
         else Inr raw)"

definition getEngineState ::
  "(string \<Rightarrow> int option) \<Rightarrow> reader \<Rightarrow> engine_spec \<Rightarrow> string \<Rightarrow> engine_status \<Rightarrow> class_info option
     \<Rightarrow> engine_error + engine_state" where
  "getEngineState pf rd spec engineName status ci =
     and_then (read_current rd spec engineName status empty_raw) (\<lambda>raw1.
     and_then (read_active rd engineName status raw1) (\<lambda>raw2.
     and_then (read_draining pf rd spec engineName status ci raw2) (\<lambda>raw3.
     and_then (rd_svc rd (engineName @ SuffixService)) (\<lambda>svc.
       assembleEngineState status (raw3\<lparr>rw_clusterService := svc\<rparr>)))))"

end
