(* ===== verification/Rollout_Spec.thy ===== *)
theory Rollout_Spec
  imports Go_Prelude
begin

text \<open>
  The blue-green rollout as an abstract machine, the contract the phase machine of
  \<open>engine_reconcile.go\<close> implements: generations are numbered upwards, one serves while at most one newer
  generation is built, traffic is cut over once, and the old generation is retired afterwards. The
  machine knows nothing of objects, specs or pods; \<open>Engine_Apply\<close> shows that every pass of the
  operator, complete, failed or cut short by a crash, is one of its steps.
\<close>

text \<open>\<open>Building a c\<close>: generation \<open>a\<close> serves (-1 for none) and \<open>c\<close> is being built; \<open>Retiring a d\<close>: \<open>a\<close> serves
  and \<open>d\<close> drains.\<close>

datatype rollout =
    Fresh
  | Idle int
  | Building int int
  | Cutover int int
  | Retiring int int
  | Sweeping int int

inductive rollout_step :: "rollout \<Rightarrow> rollout \<Rightarrow> bool" where
  stutter: "rollout_step r r"
| init: "rollout_step Fresh (Building (-1) 0)"
| bump: "rollout_step (Idle g) (Building g (g + 1))"
| abandon: "rollout_step (Building a c) (Building a (c + 1))"
| all_ready: "rollout_step (Building a c) (Cutover a c)"
| first_switch: "a < 0 \<Longrightarrow> rollout_step (Cutover a c) (Idle c)"
| switch: "0 \<le> a \<Longrightarrow> rollout_step (Cutover a c) (Retiring c a)"
| drained: "rollout_step (Retiring a d) (Sweeping a d)"
| swept: "rollout_step (Sweeping a d) (Idle a)"

inductive_cases rollout_stepE: "rollout_step r r'"

inductive_simps rollout_step_simps:
  "rollout_step Fresh r'" "rollout_step (Idle g) r'" "rollout_step (Building a c) r'"
  "rollout_step (Cutover a c) r'" "rollout_step (Retiring a d) r'" "rollout_step (Sweeping a d) r'"

fun rollout_ok :: "rollout \<Rightarrow> bool" where
  "rollout_ok Fresh = True"
| "rollout_ok (Idle g) = (0 \<le> g)"
| "rollout_ok (Building a c) = (-1 \<le> a \<and> a < c)"
| "rollout_ok (Cutover a c) = (-1 \<le> a \<and> a < c)"
| "rollout_ok (Retiring a d) = (0 \<le> d \<and> d < a)"
| "rollout_ok (Sweeping a d) = (0 \<le> d \<and> d < a)"

text \<open>The generation that serves and the newest generation in existence.\<close>

fun serving :: "rollout \<Rightarrow> int" where
  "serving Fresh = -1"
| "serving (Idle g) = g"
| "serving (Building a c) = a"
| "serving (Cutover a c) = a"
| "serving (Retiring a d) = a"
| "serving (Sweeping a d) = a"

fun newest :: "rollout \<Rightarrow> int" where
  "newest Fresh = -1"
| "newest (Idle g) = g"
| "newest (Building a c) = c"
| "newest (Cutover a c) = c"
| "newest (Retiring a d) = a"
| "newest (Sweeping a d) = a"

lemma rollout_step_ok: "rollout_step r r' \<Longrightarrow> rollout_ok r \<Longrightarrow> rollout_ok r'"
  by (induction rule: rollout_step.induct) auto

lemma rollout_step_mono:
  "rollout_step r r' \<Longrightarrow> rollout_ok r \<Longrightarrow> serving r \<le> serving r' \<and> newest r \<le> newest r'"
  by (induction rule: rollout_step.induct) auto

lemma rollout_steps_ok: "rollout_step\<^sup>*\<^sup>* r r' \<Longrightarrow> rollout_ok r \<Longrightarrow> rollout_ok r'"
  by (induction rule: rtranclp_induct) (auto intro: rollout_step_ok)

lemma rollout_steps_mono:
  assumes "rollout_step\<^sup>*\<^sup>* r r'" "rollout_ok r"
  shows "serving r \<le> serving r' \<and> newest r \<le> newest r'"
  using assms
proof (induction rule: rtranclp_induct)
  case (step y z)
  then have "rollout_ok y" by (auto dest: rollout_steps_ok)
  with step show ?case by (auto dest: rollout_step_mono)
qed simp

text \<open>A generation that stops serving is left behind for good.\<close>

lemma never_serves_again:
  assumes "rollout_step\<^sup>*\<^sup>* r r'" "rollout_ok r" "g < serving r"
  shows "serving r' \<noteq> g"
  using rollout_steps_mono [OF assms(1,2)] assms(3) by auto

text \<open>The generations a state holds on to. A later state holds on to no others but the ones that were newest or
  came after.\<close>

fun held :: "rollout \<Rightarrow> int set" where
  "held Fresh = {}"
| "held (Idle g) = {g}"
| "held (Building a c) = {a, c}"
| "held (Cutover a c) = {a, c}"
| "held (Retiring a d) = {a, d}"
| "held (Sweeping a d) = {a, d}"

lemma rollout_step_held: "rollout_step r r' \<Longrightarrow> rollout_ok r \<Longrightarrow> held r' \<subseteq> held r \<union> {g. newest r \<le> g}"
  by (induction rule: rollout_step.induct) auto

lemma rollout_steps_held:
  assumes "rollout_step\<^sup>*\<^sup>* r r'" "rollout_ok r"
  shows "held r' \<subseteq> held r \<union> {g. newest r \<le> g}"
  using assms
proof (induction rule: rtranclp_induct)
  case (step y z)
  then have "rollout_ok y" "newest r \<le> newest y" using rollout_steps_ok rollout_steps_mono by blast+
  with step rollout_step_held [OF step.hyps(2)] show ?case by force
qed auto

section \<open>Implementations\<close>

text \<open>What an implementation has to show: an invariant of its own, and that each of its steps is a step
  of the machine under the abstraction \<open>abs\<close>.\<close>

locale rollout_simulation = invariant_system +
  fixes abs :: "'a \<Rightarrow> rollout"
  assumes abs_ok: "inv s \<Longrightarrow> rollout_ok (abs s)"
    and abs_step: "step s s' \<Longrightarrow> inv s \<Longrightarrow> rollout_step (abs s) (abs s')"
begin

lemma reach_refines: "step\<^sup>*\<^sup>* s s' \<Longrightarrow> inv s \<Longrightarrow> rollout_step\<^sup>*\<^sup>* (abs s) (abs s')"
proof (induction rule: rtranclp_induct)
  case (step y z)
  then have "rollout_step (abs y) (abs z)" using abs_step reach_keeps by blast
  with step show ?case by (meson rtranclp.rtrancl_into_rtrancl)
qed simp

lemma generations_grow:
  assumes "step\<^sup>*\<^sup>* s s'" "inv s"
  shows "serving (abs s) \<le> serving (abs s') \<and> newest (abs s) \<le> newest (abs s')"
  using rollout_steps_mono [OF reach_refines [OF assms] abs_ok [OF assms(2)]] .

lemma later_held:
  assumes "step\<^sup>*\<^sup>* s s'" "inv s"
  shows "held (abs s') \<subseteq> held (abs s) \<union> {g. newest (abs s) \<le> g}"
  using rollout_steps_held [OF reach_refines [OF assms] abs_ok [OF assms(2)]] .

lemma retired_for_good:
  assumes "step\<^sup>*\<^sup>* s s'" "inv s" "g < serving (abs s)"
  shows "serving (abs s') \<noteq> g"
  using never_serves_again [OF reach_refines [OF assms(1,2)] abs_ok [OF assms(2)] assms(3)] .

end

end
