(* ===== verification/Engine_Phases.thy ===== *)
theory Engine_Phases
  imports Engine_State Rollout_Spec
begin

text \<open>
  The phase machine of \<open>engine_reconcile.go\<close>: from the spec, the recorded status and the observed
  state, \<open>computeEngineReconcile\<close> decides the next status, the objects to ensure and the objects to
  delete. It is pure; a panic of the source is the error \<open>Panic\<close>. The lemmas give each handler's
  effect on the four fields that drive the machine (phase, current, active and draining generation)
  and the invariant of the recorded status that every pass keeps.
\<close>

section \<open>Inputs and results\<close>

text \<open>What a pass renders from: the operator's environment, the engine container's start script, the
  engine's name and namespace, the resolved Instance data and the class with its Preset overlay.\<close>

record render_ctx =
  rc_env :: operator_env
  rc_script :: string
  rc_name :: string
  rc_namespace :: string
  rc_info :: instance_info
  rc_class :: "class_info option"

record engine_result =
  r_status :: engine_status
  r_ensureConfigMap :: "config_map option"
  r_ensureHeadlessSvc :: "service option"
  r_ensureStatefulSet :: "stateful_set option"
  r_ensureClusterSvc :: "service option"
  r_ensureEngineTLSCert :: "certificate option"
  r_deleteResources :: "object list"
  r_requeueAfter :: int
  r_requeue :: bool

definition result_of :: "engine_status \<Rightarrow> engine_result" where
  "result_of status = \<lparr>r_status = status, r_ensureConfigMap = None, r_ensureHeadlessSvc = None,
     r_ensureStatefulSet = None, r_ensureClusterSvc = None, r_ensureEngineTLSCert = None,
     r_deleteResources = [], r_requeueAfter = 0, r_requeue = False\<rparr>"

definition terminalPhase :: "engine_spec \<Rightarrow> engine_phase" where
  "terminalPhase spec = (if sp_replicas spec = 0 then PhaseStopped else PhaseStable)"

text \<open>The comparator and the builders at the inputs of the pass.\<close>

definition pass_matches :: "render_ctx \<Rightarrow> engine_spec \<Rightarrow> stateful_set \<Rightarrow> bool" where
  "pass_matches rc spec sts = stsMatchesSpec (rc_env rc) sts spec (rc_info rc) (rc_class rc)"

definition pass_sts :: "render_ctx \<Rightarrow> engine_spec \<Rightarrow> int \<Rightarrow> stateful_set" where
  "pass_sts rc spec gen =
     buildStatefulSet (rc_env rc) (rc_script rc) spec (rc_name rc) (rc_namespace rc) gen (rc_info rc) (rc_class rc)"

definition pass_cm :: "render_ctx \<Rightarrow> engine_spec \<Rightarrow> int \<Rightarrow> config_map" where
  "pass_cm rc spec gen = buildConfigMap spec (rc_name rc) (rc_namespace rc) gen (rc_info rc) (rc_class rc)"

definition pass_hl :: "render_ctx \<Rightarrow> int \<Rightarrow> service" where
  "pass_hl rc gen = buildHeadlessService (rc_name rc) (rc_namespace rc) gen"

definition pass_svc :: "render_ctx \<Rightarrow> int \<Rightarrow> service" where
  "pass_svc rc gen = buildClusterService (rc_name rc) (rc_namespace rc) gen"

section \<open>Stable and stopped\<close>

text \<open>The serving certificate of this generation was re-issued under the running pods.\<close>

definition serving_cert_reissued :: "render_ctx \<Rightarrow> engine_status \<Rightarrow> bool" where
  "serving_cert_reissued rc status =
     (case ii_tls (rc_info rc) of
        None \<Rightarrow> False
      | Some tls \<Rightarrow>
          rt_servingCertFP tls \<noteq> [] \<and>
          es_observedEngineServingCertGen status = es_activeGeneration status \<and>
          es_observedEngineServingCertFP status \<noteq> [] \<and>
          es_observedEngineServingCertFP status \<noteq> rt_servingCertFP tls)"

definition record_serving_cert :: "render_ctx \<Rightarrow> engine_status \<Rightarrow> engine_status" where
  "record_serving_cert rc status =
     (case ii_tls (rc_info rc) of
        Some tls \<Rightarrow> status\<lparr>es_observedEngineServingCertFP := rt_servingCertFP tls,
                          es_observedEngineServingCertGen := es_activeGeneration status\<rparr>
      | None \<Rightarrow> status\<lparr>es_observedEngineServingCertFP := [], es_observedEngineServingCertGen := 0\<rparr>)"

definition bump_generation :: "engine_status \<Rightarrow> engine_status" where
  "bump_generation status =
     status\<lparr>es_currentGeneration := es_currentGeneration status + 1, es_phase := PhaseCreating\<rparr>"

text \<open>The tail of \<open>computeStable\<close>, reached when the observed StatefulSet matches.\<close>

definition settle ::
  "render_ctx \<Rightarrow> engine_spec \<Rightarrow> int \<Rightarrow> stateful_set \<Rightarrow> engine_state \<Rightarrow> engine_status \<Rightarrow> engine_result" where
  "settle rc spec metadataGeneration sts current status =
     (let gen = es_activeGeneration status;
          missing = x_currentConfigMap current = None \<or> x_currentHeadlessSvc current = None
      in (result_of (record_serving_cert rc (status\<lparr>
            es_phase := terminalPhase spec,
            es_observedGeneration := metadataGeneration,
            es_observedAuthHash := annotation sts AnnotationAuthHash,
            es_observedEngineTLSHash := annotation sts AnnotationEngineTLSHash\<rparr>)))\<lparr>
         r_ensureConfigMap := (if x_currentConfigMap current = None then Some (pass_cm rc spec gen) else None),
         r_ensureHeadlessSvc := (if x_currentHeadlessSvc current = None then Some (pass_hl rc gen) else None),
         r_ensureClusterSvc := (if x_clusterService current = None \<or> x_targetGen current \<noteq> gen
                                then Some (pass_svc rc gen) else None),
         r_requeue := missing,
         r_requeueAfter := 30 * second\<rparr>)"

definition computeStable ::
  "render_ctx \<Rightarrow> engine_spec \<Rightarrow> int \<Rightarrow> engine_state \<Rightarrow> engine_status \<Rightarrow> engine_error + engine_result" where
  "computeStable rc spec metadataGeneration current status =
     (if es_activeGeneration status < 0
      then Inl (Panic ''BUG: computeStable reached with a negative ActiveGeneration'')
      else case x_currentSTS current of
             None \<Rightarrow> Inr ((result_of (bump_generation status))\<lparr>r_requeue := True\<rparr>)
           | Some sts \<Rightarrow>
               if \<not> pass_matches rc spec sts
               then Inr ((result_of (bump_generation status))\<lparr>r_requeue := True\<rparr>)
               else if serving_cert_reissued rc status
               then Inr ((result_of (bump_generation status))\<lparr>r_requeue := True\<rparr>)
               else Inr (settle rc spec metadataGeneration sts current status))"

section \<open>Creating\<close>

definition buildGenResources :: "render_ctx \<Rightarrow> engine_spec \<Rightarrow> int \<Rightarrow> engine_result \<Rightarrow> engine_result" where
  "buildGenResources rc spec gen r =
     r\<lparr>r_ensureConfigMap := Some (pass_cm rc spec gen),
       r_ensureHeadlessSvc := Some (pass_hl rc gen),
       r_ensureStatefulSet := Some (pass_sts rc spec gen),
       r_ensureEngineTLSCert :=
         (case Option.bind (ii_tls (rc_info rc)) rt_certManager of
            Some cm \<Rightarrow> Some (buildGenEngineTLSCertificate (rc_name rc) (rc_namespace rc) gen cm)
          | None \<Rightarrow> r_ensureEngineTLSCert r)\<rparr>"

definition opt_list :: "('a \<Rightarrow> object) \<Rightarrow> 'a option \<Rightarrow> object list" where
  "opt_list f x = (case x of Some v \<Rightarrow> [f v] | None \<Rightarrow> [])"

definition drifted :: "render_ctx \<Rightarrow> engine_spec \<Rightarrow> engine_state \<Rightarrow> bool" where
  "drifted rc spec current =
     (case x_currentSTS current of None \<Rightarrow> False | Some sts \<Rightarrow> \<not> pass_matches rc spec sts)"

definition computeCreating ::
  "render_ctx \<Rightarrow> engine_spec \<Rightarrow> engine_state \<Rightarrow> engine_status \<Rightarrow> engine_result" where
  "computeCreating rc spec current status =
     (let gen = es_currentGeneration status
      in if drifted rc spec current then
           (result_of (status\<lparr>es_currentGeneration := gen + 1\<rparr>))\<lparr>
             r_deleteResources := opt_list OSts (x_currentSTS current)
               @ opt_list OSvc (x_currentHeadlessSvc current) @ opt_list OCm (x_currentConfigMap current),
             r_requeue := True\<rparr>
         else
           (let r1 = buildGenResources rc spec gen (result_of status);
                r2 = (if x_clusterService current = None
                      then r1\<lparr>r_ensureClusterSvc := Some (pass_svc rc gen)\<rparr> else r1)
            in if \<not> x_currentPodsReady current then r2\<lparr>r_requeueAfter := 5 * second\<rparr>
               else if ii_tls (rc_info rc) \<noteq> None \<and> \<not> ii_engineTrustBundleReady (rc_info rc)
                    then r2\<lparr>r_requeueAfter := 5 * second\<rparr>
               else r2\<lparr>r_status := status\<lparr>es_phase := PhaseSwitching\<rparr>, r_requeue := True\<rparr>))"

section \<open>Switching, draining, cleaning\<close>

definition computeSwitching ::
  "render_ctx \<Rightarrow> engine_spec \<Rightarrow> engine_state \<Rightarrow> engine_status \<Rightarrow> engine_result" where
  "computeSwitching rc spec current status =
     (let gen = es_currentGeneration status; oldGen = es_activeGeneration status
      in if x_targetGen current \<noteq> gen then
           (result_of status)\<lparr>r_ensureClusterSvc := Some (pass_svc rc gen), r_requeue := True\<rparr>
         else if oldGen \<ge> 0 \<and> oldGen \<noteq> gen then
           (result_of (status\<lparr>es_activeGeneration := gen, es_drainingGeneration := Some oldGen,
                              es_phase := PhaseDraining\<rparr>))\<lparr>r_requeue := True\<rparr>
         else
           (result_of (status\<lparr>es_activeGeneration := gen, es_phase := terminalPhase spec\<rparr>))\<lparr>r_requeue := True\<rparr>)"

definition computeDraining ::
  "render_ctx \<Rightarrow> engine_spec \<Rightarrow> engine_state \<Rightarrow> engine_status \<Rightarrow> engine_result" where
  "computeDraining rc spec current status =
     (if es_drainingGeneration status = None then
        (result_of (status\<lparr>es_phase := terminalPhase spec\<rparr>))\<lparr>r_requeue := True\<rparr>
      else if \<not> x_drainingPodsDrained current then
        (result_of status)\<lparr>r_requeueAfter := getDrainCheckInterval spec (rc_class rc)\<rparr>
      else (result_of (status\<lparr>es_phase := PhaseCleaning\<rparr>))\<lparr>r_requeue := True\<rparr>)"

definition computeCleaning :: "engine_spec \<Rightarrow> engine_state \<Rightarrow> engine_status \<Rightarrow> engine_result" where
  "computeCleaning spec current status =
     (if es_drainingGeneration status = None then
        (result_of (status\<lparr>es_phase := terminalPhase spec\<rparr>))\<lparr>r_requeue := True\<rparr>
      else
        (result_of (status\<lparr>es_drainingGeneration := None, es_phase := terminalPhase spec\<rparr>))\<lparr>
          r_deleteResources := opt_list OSts (x_drainingSTS current)
            @ opt_list OSvc (x_drainingHeadlessSvc current) @ opt_list OCm (x_drainingConfigMap current),
          r_requeue := True\<rparr>)"

section \<open>The dispatcher\<close>

definition phase_step ::
  "render_ctx \<Rightarrow> engine_spec \<Rightarrow> int \<Rightarrow> engine_state \<Rightarrow> engine_status \<Rightarrow> engine_error + engine_result" where
  "phase_step rc spec metadataGeneration current status =
     (case es_phase status of
        PhaseUnset \<Rightarrow> computeStable rc spec metadataGeneration current status
      | PhaseStable \<Rightarrow> computeStable rc spec metadataGeneration current status
      | PhaseStopped \<Rightarrow> computeStable rc spec metadataGeneration current status
      | PhaseCreating \<Rightarrow> Inr (computeCreating rc spec current status)
      | PhaseSwitching \<Rightarrow> Inr (computeSwitching rc spec current status)
      | PhaseDraining \<Rightarrow> Inr (computeDraining rc spec current status)
      | PhaseCleaning \<Rightarrow> Inr (computeCleaning spec current status)
      | PhaseOther _ \<Rightarrow>
          Inr ((result_of (status\<lparr>es_phase := terminalPhase spec\<rparr>))\<lparr>r_requeue := True\<rparr>))"

definition stamp :: "time \<Rightarrow> engine_state \<Rightarrow> engine_result \<Rightarrow> engine_result" where
  "stamp now current r =
     r\<lparr>r_status := (r_status r)\<lparr>es_readyReplicas := int (x_activePodReady current),
                               es_lastReconciled := Some now\<rparr>\<rparr>"

definition computeEngineReconcile ::
  "time \<Rightarrow> render_ctx \<Rightarrow> engine_spec \<Rightarrow> int \<Rightarrow> engine_state \<Rightarrow> engine_status \<Rightarrow> engine_error + engine_result" where
  "computeEngineReconcile now rc spec metadataGeneration current status =
     and_then (phase_step rc spec metadataGeneration current status) (\<lambda>r. Inr (stamp now current r))"

lemmas handler_defs [phase_defs] =
  computeStable_def computeCreating_def computeSwitching_def computeDraining_def computeCleaning_def
  settle_def bump_generation_def buildGenResources_def phase_step_def

section \<open>The invariant of the recorded status\<close>

definition status_inv :: "engine_status \<Rightarrow> bool" where
  "status_inv st =
     (case es_phase st of
        PhaseUnset \<Rightarrow> es_currentGeneration st = 0 \<and> es_drainingGeneration st = None
      | PhaseStable \<Rightarrow> 0 \<le> es_activeGeneration st \<and> es_currentGeneration st = es_activeGeneration st
                       \<and> es_drainingGeneration st = None
      | PhaseStopped \<Rightarrow> 0 \<le> es_activeGeneration st \<and> es_currentGeneration st = es_activeGeneration st
                       \<and> es_drainingGeneration st = None
      | PhaseCreating \<Rightarrow> -1 \<le> es_activeGeneration st \<and> es_activeGeneration st < es_currentGeneration st
                       \<and> es_drainingGeneration st = None
      | PhaseSwitching \<Rightarrow> -1 \<le> es_activeGeneration st \<and> es_activeGeneration st < es_currentGeneration st
                       \<and> es_drainingGeneration st = None
      | PhaseDraining \<Rightarrow> es_drainingGeneration st \<noteq> None \<and> 0 \<le> draining_gen st
                       \<and> draining_gen st < es_activeGeneration st
                       \<and> es_currentGeneration st = es_activeGeneration st
      | PhaseCleaning \<Rightarrow> es_drainingGeneration st \<noteq> None \<and> 0 \<le> draining_gen st
                       \<and> draining_gen st < es_activeGeneration st
                       \<and> es_currentGeneration st = es_activeGeneration st
      | PhaseOther _ \<Rightarrow> False)"

lemma result_of_sel [simp]:
  "r_status (result_of st) = st" "r_deleteResources (result_of st) = []"
  "r_ensureStatefulSet (result_of st) = None" "r_ensureClusterSvc (result_of st) = None"
  "r_ensureConfigMap (result_of st) = None" "r_ensureHeadlessSvc (result_of st) = None"
  "r_ensureEngineTLSCert (result_of st) = None"
  by (simp_all add: result_of_def)

lemma record_serving_cert_core [simp]:
  "es_phase (record_serving_cert rc st) = es_phase st"
  "es_currentGeneration (record_serving_cert rc st) = es_currentGeneration st"
  "es_activeGeneration (record_serving_cert rc st) = es_activeGeneration st"
  "es_drainingGeneration (record_serving_cert rc st) = es_drainingGeneration st"
  by (simp_all add: record_serving_cert_def split: option.splits)

lemma stamp_core [simp]:
  "es_phase (r_status (stamp now x r)) = es_phase (r_status r)"
  "es_currentGeneration (r_status (stamp now x r)) = es_currentGeneration (r_status r)"
  "es_activeGeneration (r_status (stamp now x r)) = es_activeGeneration (r_status r)"
  "es_drainingGeneration (r_status (stamp now x r)) = es_drainingGeneration (r_status r)"
  "r_deleteResources (stamp now x r) = r_deleteResources r"
  "r_ensureStatefulSet (stamp now x r) = r_ensureStatefulSet r"
  "r_ensureClusterSvc (stamp now x r) = r_ensureClusterSvc r"
  "r_ensureConfigMap (stamp now x r) = r_ensureConfigMap r"
  "r_ensureHeadlessSvc (stamp now x r) = r_ensureHeadlessSvc r"
  "r_ensureEngineTLSCert (stamp now x r) = r_ensureEngineTLSCert r"
  by (simp_all add: stamp_def)

lemma terminalPhase_cases: "terminalPhase spec = PhaseStable \<or> terminalPhase spec = PhaseStopped"
  by (simp add: terminalPhase_def)

lemma terminal_inv:
  "es_phase st = terminalPhase spec \<Longrightarrow>
     status_inv st = (0 \<le> es_activeGeneration st \<and> es_currentGeneration st = es_activeGeneration st
                      \<and> es_drainingGeneration st = None)"
  by (auto simp: status_inv_def terminalPhase_def split: if_splits)

lemma phase_step_total:
  assumes "status_inv st" "es_phase st \<noteq> PhaseUnset"
  shows "\<exists>r. phase_step rc spec meta x st = Inr r"
  using assms by (cases "es_phase st") (auto simp: status_inv_def phase_step_def computeStable_def split: option.splits)

lemma computeStable_status:
  assumes "computeStable rc spec meta x st = Inr r"
  shows "es_activeGeneration (r_status r) = es_activeGeneration st
     \<and> es_drainingGeneration (r_status r) = es_drainingGeneration st
     \<and> (es_phase (r_status r) = PhaseCreating \<and> es_currentGeneration (r_status r) = es_currentGeneration st + 1
        \<or> es_phase (r_status r) = terminalPhase spec \<and> es_currentGeneration (r_status r) = es_currentGeneration st)"
  using assms by (auto simp: computeStable_def bump_generation_def settle_def Let_def split: if_splits option.splits)

lemma computeCreating_status:
  "es_activeGeneration (r_status (computeCreating rc spec x st)) = es_activeGeneration st
   \<and> es_drainingGeneration (r_status (computeCreating rc spec x st)) = es_drainingGeneration st
   \<and> (r_status (computeCreating rc spec x st) = st\<lparr>es_currentGeneration := es_currentGeneration st + 1\<rparr> \<and> drifted rc spec x
      \<or> r_status (computeCreating rc spec x st) = st \<and> \<not> drifted rc spec x
      \<or> r_status (computeCreating rc spec x st) = st\<lparr>es_phase := PhaseSwitching\<rparr> \<and> \<not> drifted rc spec x
         \<and> x_currentPodsReady x)"
  by (simp add: computeCreating_def buildGenResources_def Let_def)

lemma computeSwitching_status:
  "r_status (computeSwitching rc spec x st) =
     (if x_targetGen x \<noteq> es_currentGeneration st then st
      else if 0 \<le> es_activeGeneration st \<and> es_activeGeneration st \<noteq> es_currentGeneration st
      then st\<lparr>es_activeGeneration := es_currentGeneration st,
              es_drainingGeneration := Some (es_activeGeneration st), es_phase := PhaseDraining\<rparr>
      else st\<lparr>es_activeGeneration := es_currentGeneration st, es_phase := terminalPhase spec\<rparr>)"
  by (simp add: computeSwitching_def Let_def)

lemma computeDraining_status:
  "r_status (computeDraining rc spec x st) =
     (if es_drainingGeneration st = None then st\<lparr>es_phase := terminalPhase spec\<rparr>
      else if \<not> x_drainingPodsDrained x then st else st\<lparr>es_phase := PhaseCleaning\<rparr>)"
  by (simp add: computeDraining_def)

lemma computeCleaning_status:
  "r_status (computeCleaning spec x st) =
     (if es_drainingGeneration st = None then st\<lparr>es_phase := terminalPhase spec\<rparr>
      else st\<lparr>es_drainingGeneration := None, es_phase := terminalPhase spec\<rparr>)"
  by (simp add: computeCleaning_def)

lemmas handler_status =
  computeStable_status computeCreating_status computeSwitching_status computeDraining_status
  computeCleaning_status

lemma phase_step_inv:
  assumes inv: "status_inv st" and step: "phase_step rc spec meta x st = Inr r"
    and set: "es_phase st \<noteq> PhaseUnset"
  shows "status_inv (r_status r) \<and> es_phase (r_status r) \<noteq> PhaseUnset"
proof (cases "es_phase st")
  case PhaseStable
  with inv step computeStable_status [of rc spec meta x st r] show ?thesis
    by (auto simp: phase_step_def status_inv_def terminalPhase_def split: if_splits)
next
  case PhaseStopped
  with inv step computeStable_status [of rc spec meta x st r] show ?thesis
    by (auto simp: phase_step_def status_inv_def terminalPhase_def split: if_splits)
next
  case PhaseCreating
  with inv step computeCreating_status [of rc spec x st] show ?thesis
    by (auto simp: phase_step_def status_inv_def)
next
  case PhaseSwitching
  with inv step show ?thesis
    by (auto simp: phase_step_def computeSwitching_status status_inv_def terminalPhase_def draining_gen_def
        split: if_splits)
next
  case PhaseDraining
  with inv step show ?thesis
    by (auto simp: phase_step_def computeDraining_status status_inv_def draining_gen_def split: if_splits)
next
  case PhaseCleaning
  with inv step show ?thesis
    by (auto simp: phase_step_def computeCleaning_status status_inv_def terminalPhase_def draining_gen_def split: if_splits)
qed (use inv set in \<open>simp_all add: status_inv_def\<close>)

section \<open>The abstract machine\<close>

definition rollout_of :: "engine_status \<Rightarrow> rollout" where
  "rollout_of st =
     (case es_phase st of
        PhaseUnset \<Rightarrow> Fresh
      | PhaseCreating \<Rightarrow> Building (es_activeGeneration st) (es_currentGeneration st)
      | PhaseSwitching \<Rightarrow> Cutover (es_activeGeneration st) (es_currentGeneration st)
      | PhaseDraining \<Rightarrow> Retiring (es_activeGeneration st) (draining_gen st)
      | PhaseCleaning \<Rightarrow> Sweeping (es_activeGeneration st) (draining_gen st)
      | _ \<Rightarrow> Idle (es_activeGeneration st))"

lemma rollout_of_ok: "status_inv st \<Longrightarrow> rollout_ok (rollout_of st)"
  by (auto simp: status_inv_def rollout_of_def split: engine_phase.splits)

lemma phase_step_refines:
  assumes inv: "status_inv st" and step: "phase_step rc spec meta x st = Inr r"
    and set: "es_phase st \<noteq> PhaseUnset"
  shows "rollout_step (rollout_of st) (rollout_of (r_status r))"
proof (cases "es_phase st")
  case PhaseStable
  with inv step computeStable_status [of rc spec meta x st r] show ?thesis
    by (auto simp: phase_step_def status_inv_def rollout_of_def rollout_step_simps terminalPhase_def split: if_splits)
next
  case PhaseStopped
  with inv step computeStable_status [of rc spec meta x st r] show ?thesis
    by (auto simp: phase_step_def status_inv_def rollout_of_def rollout_step_simps terminalPhase_def split: if_splits)
next
  case PhaseCreating
  with inv step computeCreating_status [of rc spec x st] show ?thesis
    by (auto simp: phase_step_def rollout_of_def rollout_step_simps)
next
  case PhaseSwitching
  with inv step show ?thesis
    by (auto simp: phase_step_def computeSwitching_status status_inv_def rollout_of_def rollout_step_simps
        terminalPhase_def draining_gen_def split: if_splits)
next
  case PhaseDraining
  with inv step show ?thesis
    by (auto simp: phase_step_def computeDraining_status status_inv_def rollout_of_def rollout_step_simps draining_gen_def split: if_splits)
next
  case PhaseCleaning
  with inv step show ?thesis
    by (auto simp: phase_step_def computeCleaning_status status_inv_def rollout_of_def rollout_step_simps terminalPhase_def split: if_splits)
qed (use inv set in \<open>simp_all add: status_inv_def\<close>)

end
