(* ===== verification/Engine_Conditions.thy ===== *)
theory Engine_Conditions
  imports Engine_Phases
begin

text \<open>
  Around the phase machine, \<open>engine_controller.go\<close>: the gates that stop a pass before it renders (class,
  Preset, Instance, validation), the conditions it reports, the Preset it records as applied and the
  merge of requeue delays.

  Condition lists are handled by \<open>apimeta.SetStatusCondition\<close> and \<open>FindStatusCondition\<close> of the API
  machinery, which is not part of the repository: they are the fields of \<open>condition_api\<close>, an argument,
  and \<open>condition_api_ok\<close> states the documented behaviour (a condition is found under its type after it
  is set, the others stay).
\<close>

section \<open>Conditions\<close>

record condition_api =
  ca_set :: "condition \<Rightarrow> condition list \<Rightarrow> condition list"
  ca_find :: "condition list \<Rightarrow> string \<Rightarrow> condition option"

definition condition_api_ok :: "condition_api \<Rightarrow> bool" where
  "condition_api_ok ca \<longleftrightarrow>
     (\<forall>c cs. ca_find ca (ca_set ca c cs) (cd_type c) = Some c) \<and>
     (\<forall>c cs t. t \<noteq> cd_type c \<longrightarrow> ca_find ca (ca_set ca c cs) t = ca_find ca cs t)"

text \<open>The implementation over the list itself has the documented behaviour.\<close>

definition list_conditions :: condition_api where
  "list_conditions =
     \<lparr>ca_set = (\<lambda>c cs. c # filter (\<lambda>d. cd_type d \<noteq> cd_type c) cs), ca_find = (\<lambda>cs t. find (\<lambda>d. cd_type d = t) cs)\<rparr>"

lemma find_filtered: "t \<noteq> u \<Longrightarrow> find (\<lambda>d. f d = t) (filter (\<lambda>d. f d \<noteq> u) cs) = find (\<lambda>d. f d = t) cs"
  by (induction cs) auto

lemma list_conditions_ok: "condition_api_ok list_conditions"
  by (simp add: condition_api_ok_def list_conditions_def find_filtered)

definition ConditionReady :: string where "ConditionReady = ''Ready''"
definition ConditionInstanceReady :: string where "ConditionInstanceReady = ''InstanceReady''"

definition mk_condition :: "string \<Rightarrow> bool \<Rightarrow> string \<Rightarrow> string \<Rightarrow> int \<Rightarrow> condition" where
  "mk_condition t b reason msg gen =
     \<lparr>cd_type = t, cd_status = (if b then ''True'' else ''False''), cd_reason = reason, cd_message = msg,
      cd_observedGeneration = gen\<rparr>"

definition set_condition :: "condition_api \<Rightarrow> condition \<Rightarrow> engine_status \<Rightarrow> engine_status" where
  "set_condition ca c st = st\<lparr>es_conditions := ca_set ca c (es_conditions st)\<rparr>"

definition isInstanceConditionTrue :: "condition_api \<Rightarrow> condition list \<Rightarrow> bool" where
  "isInstanceConditionTrue ca conds =
     (case ca_find ca conds ConditionInstanceReady of None \<Rightarrow> False | Some c \<Rightarrow> cd_status c = ''True'')"

definition phase_name :: "engine_phase \<Rightarrow> string" where
  "phase_name p =
     (case p of PhaseUnset \<Rightarrow> [] | PhaseStable \<Rightarrow> ''stable'' | PhaseCreating \<Rightarrow> ''creating''
      | PhaseSwitching \<Rightarrow> ''switching'' | PhaseDraining \<Rightarrow> ''draining'' | PhaseCleaning \<Rightarrow> ''cleaning''
      | PhaseStopped \<Rightarrow> ''stopped'' | PhaseOther s \<Rightarrow> s)"

definition ready_condition :: "condition_api \<Rightarrow> engine_status \<Rightarrow> engine_state \<Rightarrow> int \<Rightarrow> condition" where
  "ready_condition ca status current generation =
     (if \<not> isInstanceConditionTrue ca (es_conditions status)
      then mk_condition ConditionReady False ''InstanceNotReady'' ''Referenced FireboltInstance is not ready'' generation
      else if es_phase status = PhaseStopped
      then mk_condition ConditionReady False ''Stopped'' ''Engine is stopped (spec.replicas is 0)'' generation
      else if es_phase status \<noteq> PhaseStable
      then mk_condition ConditionReady False ''Rolling''
             (''Engine is in '' @ phase_name (es_phase status) @ '' phase'') generation
      else if \<not> x_currentPodsReady current
      then mk_condition ConditionReady False ''PodsNotReady''
             (''generation '' @ itoa (es_activeGeneration status) @ '' has '' @ itoa (int (x_currentPodReady current))
              @ '' of '' @ itoa (int (x_currentPodTotal current)) @ '' pod(s) ready'') generation
      else mk_condition ConditionReady True ''EngineReady''
             (''Engine is serving traffic on generation '' @ itoa (es_activeGeneration status)) generation)"

definition setReadyCondition ::
  "condition_api \<Rightarrow> engine_status \<Rightarrow> engine_state \<Rightarrow> int \<Rightarrow> engine_status" where
  "setReadyCondition ca status current generation =
     set_condition ca (ready_condition ca status current generation) status"

text \<open>\<open>errors.As\<close> looks through wrapped errors for a drain-probe error; the read layer wraps it once.\<close>

fun drain_probe_error :: "engine_error \<Rightarrow> (int \<times> string) option" where
  "drain_probe_error (DrainProbeError g p e) = Some (g, p)"
| "drain_probe_error e = None"

text \<open>The message is the text of the error; the model names the pod and the generation in it.\<close>

definition setDrainCheckFailingCondition ::
  "condition_api \<Rightarrow> engine_status \<Rightarrow> engine_error \<Rightarrow> int \<Rightarrow> engine_status option" where
  "setDrainCheckFailingCondition ca status e generation =
     map_option (\<lambda>(g, p). set_condition ca
         (mk_condition ConditionReady False ''DrainCheckFailing''
           (''drain probe failed on pod '' @ p @ '' (gen '' @ itoa g @ '')'') generation) status)
       (drain_probe_error e)"

section \<open>Surfacing StatefulSet events\<close>

record sts_event =
  sv_object :: string
  sv_reason :: string
  sv_message :: string
  sv_count :: int

definition reasonStatefulSetWarning :: string where "reasonStatefulSetWarning = ''StatefulSetWarning''"

definition is_letter :: "char \<Rightarrow> bool" where
  "is_letter c \<longleftrightarrow> (65 \<le> (of_char c :: nat) \<and> (of_char c :: nat) \<le> 90) \<or> (97 \<le> (of_char c :: nat) \<and> (of_char c :: nat) \<le> 122)"

fun reason_scan :: "nat \<Rightarrow> string \<Rightarrow> bool" where
  "reason_scan i [] = True"
| "reason_scan i (c # cs) =
     (if is_letter c then reason_scan (Suc i) cs
      else if is_digit c \<or> c = CHR ''_'' \<or> c = CHR '','' \<or> c = CHR '':''
           then if i = 0 then False else reason_scan (Suc i) cs
      else False)"

definition sanitizeConditionReason :: "string \<Rightarrow> string" where
  "sanitizeConditionReason s =
     (if s = [] then reasonStatefulSetWarning
      else if \<not> reason_scan 0 s then reasonStatefulSetWarning
      else if last s = CHR '','' \<or> last s = CHR '':'' then reasonStatefulSetWarning
      else s)"

definition shouldSurfaceStatefulSetEvent :: "condition_api \<Rightarrow> engine_status \<Rightarrow> engine_state \<Rightarrow> int \<Rightarrow> bool" where
  "shouldSurfaceStatefulSetEvent ca status current expectedReplicas =
     (if x_currentSTS current = None then False
      else if int (x_currentPodTotal current) \<ge> expectedReplicas then False
      else case ca_find ca (es_conditions status) ConditionReady of
             None \<Rightarrow> False
           | Some c \<Rightarrow> cd_status c = ''False'' \<and> (cd_reason c = ''Rolling'' \<or> cd_reason c = ''PodsNotReady''))"

definition applyStatefulSetEventToReadyCondition ::
  "condition_api \<Rightarrow> engine_status \<Rightarrow> sts_event \<Rightarrow> int \<Rightarrow> engine_status" where
  "applyStatefulSetEventToReadyCondition ca status ev generation =
     (let base = ''StatefulSet '' @ sv_object ev @ '': '' @ trim_space (sv_message ev);
          msg = (if sv_count ev > 1 then base @ '' (x'' @ itoa (sv_count ev) @ '')'' else base)
      in set_condition ca (mk_condition ConditionReady False (sanitizeConditionReason (sv_reason ev)) msg generation) status)"

definition decorateReadyConditionWithSTSEvent ::
  "condition_api \<Rightarrow> engine_status \<Rightarrow> engine_state \<Rightarrow> int \<Rightarrow> sts_event option \<Rightarrow> int \<Rightarrow> engine_status" where
  "decorateReadyConditionWithSTSEvent ca status current replicas ev generation =
     (if \<not> shouldSurfaceStatefulSetEvent ca status current replicas then status
      else case ev of None \<Rightarrow> status | Some v \<Rightarrow> applyStatefulSetEventToReadyCondition ca status v generation)"

section \<open>The applied Preset\<close>

definition FireboltEnginePresetDefaultName :: string where "FireboltEnginePresetDefaultName = ''firebolt''"

definition syncAppliedPresetStatus :: "engine_status \<Rightarrow> stateful_set option \<Rightarrow> engine_status" where
  "syncAppliedPresetStatus status activeSTS =
     (let hash = (case activeSTS of Some s \<Rightarrow> annotation s AnnotationEnginePresetHash | None \<Rightarrow> [])
      in if hash = [] then status\<lparr>es_appliedPresetName := [], es_appliedPresetHash := []\<rparr>
         else status\<lparr>es_appliedPresetName := FireboltEnginePresetDefaultName, es_appliedPresetHash := hash\<rparr>)"

definition appliedPresetStatefulSet :: "engine_status \<Rightarrow> engine_status \<Rightarrow> engine_state \<Rightarrow> stateful_set option" where
  "appliedPresetStatefulSet observed computed current =
     (if es_activeGeneration computed < 0 then None
      else if es_activeGeneration computed = es_currentGeneration observed then x_currentSTS current
      else x_activeSTS current)"

definition syncAppliedPresetFromCluster :: "reader \<Rightarrow> string \<Rightarrow> engine_status \<Rightarrow> engine_status" where
  "syncAppliedPresetFromCluster rd engineName status =
     (if es_activeGeneration status < 0 then syncAppliedPresetStatus status None
      else case getStatefulSet rd engineName (es_activeGeneration status) of
             Inl e \<Rightarrow> status
           | Inr sts \<Rightarrow> syncAppliedPresetStatus status sts)"

section \<open>Gates\<close>

definition engineNeedsRender :: "engine_phase \<Rightarrow> bool" where
  "engineNeedsRender p \<longleftrightarrow> p = PhaseStable \<or> p = PhaseStopped \<or> p = PhaseCreating"

text \<open>What the lookups of class and Preset may give. An unready class still yields its data.\<close>

datatype class_outcome =
    ClassFound "class_info option"
  | ClassUnready "class_info option" string
  | ClassNotFound string
  | ClassReadError string

datatype preset_outcome =
    PresetFound "preset_info option"
  | PresetRequired string
  | PresetUnready string
  | PresetReadError string

datatype overlay_outcome =
    OverlayOk "class_info option"
  | OverlayBlocked string string
  | OverlayFailed string

definition reasonFireboltEngineClassUnready :: string where
  "reasonFireboltEngineClassUnready = ''FireboltEngineClassUnready''"
definition reasonFireboltEnginePresetRequired :: string where
  "reasonFireboltEnginePresetRequired = ''FireboltEnginePresetRequired''"
definition reasonFireboltEnginePresetUnready :: string where
  "reasonFireboltEnginePresetUnready = ''FireboltEnginePresetUnready''"

definition handleFireboltEngineClassError :: "class_outcome \<Rightarrow> overlay_outcome" where
  "handleFireboltEngineClassError c =
     (case c of
        ClassNotFound m \<Rightarrow> OverlayFailed m
      | ClassUnready _ m \<Rightarrow> OverlayBlocked reasonFireboltEngineClassUnready m
      | ClassReadError m \<Rightarrow> OverlayFailed m
      | ClassFound ci \<Rightarrow> OverlayOk ci)"

definition handleFireboltEnginePresetError :: "preset_outcome \<Rightarrow> overlay_outcome" where
  "handleFireboltEnginePresetError p =
     (case p of
        PresetRequired m \<Rightarrow> OverlayBlocked reasonFireboltEnginePresetRequired m
      | PresetUnready m \<Rightarrow> OverlayBlocked reasonFireboltEnginePresetUnready m
      | PresetReadError m \<Rightarrow> OverlayFailed m
      | PresetFound d \<Rightarrow> OverlayOk None)"

definition resolveEngineOverlays ::
  "operator_env \<Rightarrow> bool \<Rightarrow> class_outcome \<Rightarrow> preset_outcome \<Rightarrow> overlay_outcome" where
  "resolveEngineOverlays env needsRender cls pre =
     (let with_class = (\<lambda>ci.
            if \<not> needsRender then OverlayOk ci
            else case pre of
                   PresetFound d \<Rightarrow> OverlayOk (overlayPresetOnClass env d ci)
                 | _ \<Rightarrow> handleFireboltEnginePresetError pre)
      in case cls of
           ClassFound ci \<Rightarrow> with_class ci
         | ClassUnready ci m \<Rightarrow> if needsRender then handleFireboltEngineClassError cls else with_class ci
         | ClassNotFound m \<Rightarrow> if needsRender then handleFireboltEngineClassError cls else with_class None
         | ClassReadError m \<Rightarrow> handleFireboltEngineClassError cls)"

section \<open>Requeue delays\<close>

definition soonestRequeue :: "int \<Rightarrow> int \<Rightarrow> int" where
  "soonestRequeue a b = (if a = 0 then b else if b = 0 then a else min a b)"

definition GCBacklogRequeue :: int where "GCBacklogRequeue = 2 * second"

definition applyGCBacklogRequeue :: "bool \<times> int \<Rightarrow> bool \<Rightarrow> bool \<times> int" where
  "applyGCBacklogRequeue res backlogged =
     (case res of (requeue, after) \<Rightarrow>
        if \<not> backlogged \<or> (requeue \<and> after = 0) then res
        else (requeue, soonestRequeue after GCBacklogRequeue))"

section \<open>Writing the status\<close>

text \<open>What the API answers to the status write, to the read after a conflict and to the second write.\<close>

datatype update_outcome = Updated | Conflict | UpdateError engine_error

record status_api =
  sa_update :: update_outcome
  sa_get :: "engine_error option"
  sa_retry :: "engine_error option"

definition updateStatus :: "status_api \<Rightarrow> time \<Rightarrow> engine_status \<Rightarrow> engine_error + engine_status" where
  "updateStatus sa now st =
     (let st' = st\<lparr>es_lastReconciled := Some now\<rparr>
      in case sa_update sa of
           Updated \<Rightarrow> Inr st'
         | UpdateError e \<Rightarrow> Inl e
         | Conflict \<Rightarrow>
             (case sa_get sa of
                Some e \<Rightarrow> Inl e
              | None \<Rightarrow> (case sa_retry sa of Some e \<Rightarrow> Inl e | None \<Rightarrow> Inr st')))"

definition willing_status :: status_api where
  "willing_status = \<lparr>sa_update = Updated, sa_get = None, sa_retry = None\<rparr>"

lemma updateStatus_willing [simp]: "updateStatus willing_status now st = Inr (st\<lparr>es_lastReconciled := Some now\<rparr>)"
  by (simp add: updateStatus_def willing_status_def)

section \<open>Only reporting fields change\<close>

text \<open>Two statuses that agree on everything but the conditions, the applied Preset and the time of the last
  write.\<close>

definition decorated :: "engine_status \<Rightarrow> engine_status \<Rightarrow> bool" where
  "decorated st st' \<longleftrightarrow>
     st' = st\<lparr>es_conditions := es_conditions st', es_appliedPresetName := es_appliedPresetName st',
             es_appliedPresetHash := es_appliedPresetHash st', es_lastReconciled := es_lastReconciled st'\<rparr>"

lemma decorated_refl [simp]: "decorated st st"
  by (simp add: decorated_def)

lemma decorated_trans: "decorated a b \<Longrightarrow> decorated b c \<Longrightarrow> decorated a c"
  by (cases a; cases b; cases c) (simp add: decorated_def)

lemma decorated_set_condition [simp]: "decorated st (set_condition ca c st)"
  by (simp add: decorated_def set_condition_def)

lemma decorated_setReady [simp]: "decorated st (setReadyCondition ca st x g)"
  by (simp add: setReadyCondition_def)

lemma decorated_sync [simp]: "decorated st (syncAppliedPresetStatus st s)"
  by (simp add: decorated_def syncAppliedPresetStatus_def Let_def)

lemma decorated_sync_cluster [simp]: "decorated st (syncAppliedPresetFromCluster rd n st)"
  by (simp add: syncAppliedPresetFromCluster_def split: sum.splits)

lemma decorated_drain_failing: "setDrainCheckFailingCondition ca st e g = Some st' \<Longrightarrow> decorated st st'"
  by (auto simp: setDrainCheckFailingCondition_def)

lemma decorated_event [simp]: "decorated st (decorateReadyConditionWithSTSEvent ca st x r ev g)"
  by (simp add: decorateReadyConditionWithSTSEvent_def applyStatefulSetEventToReadyCondition_def Let_def
      split: option.splits)

lemma decorated_updateStatus: "updateStatus sa now st = Inr st' \<Longrightarrow> decorated st st'"
  by (auto simp: updateStatus_def decorated_def Let_def split: update_outcome.splits option.splits)

lemma decorated_core:
  assumes "decorated st st'"
  shows "es_phase st' = es_phase st" "es_currentGeneration st' = es_currentGeneration st"
    "es_activeGeneration st' = es_activeGeneration st" "es_drainingGeneration st' = es_drainingGeneration st"
    "es_observedEngineServingCertFP st' = es_observedEngineServingCertFP st"
    "es_observedEngineServingCertGen st' = es_observedEngineServingCertGen st"
    "es_observedGeneration st' = es_observedGeneration st"
    "draining_gen st' = draining_gen st"
proof -
  obtain cs a h t where st': "st' = st\<lparr>es_conditions := cs, es_appliedPresetName := a, es_appliedPresetHash := h,
      es_lastReconciled := t\<rparr>"
    using assms unfolding decorated_def by blast
  show "es_phase st' = es_phase st" "es_currentGeneration st' = es_currentGeneration st"
    "es_activeGeneration st' = es_activeGeneration st" "es_drainingGeneration st' = es_drainingGeneration st"
    "es_observedEngineServingCertFP st' = es_observedEngineServingCertFP st"
    "es_observedEngineServingCertGen st' = es_observedEngineServingCertGen st"
    "es_observedGeneration st' = es_observedGeneration st" "draining_gen st' = draining_gen st"
    by (simp_all add: st' draining_gen_def)
qed

end
