(* ===== verification/Engine_Apply.thy ===== *)
theory Engine_Apply
  imports Engine_Conditions
begin

text \<open>
  Writing a reconcile result to the cluster (\<open>engine_apply.go\<close>) and the closed system of operator and
  cluster. A pass issues its writes one by one, TLS certificate first and status last; any of them may
  fail, and a crash of the operator between two writes leaves the same cluster as a failure there.
  The step relation \<open>sys_step\<close> interleaves passes with spec edits, pod changes, status bookkeeping and
  the orphan sweep; \<open>hostile_step\<close> adds the loss of arbitrary objects.

  An object of the cluster is found under its name; all are in the engine's namespace. Server-side
  apply is an upsert of the object, stored through \<open>srv\<close>, an argument standing for the API server's
  defaulting. A foreground deletion is one step.
\<close>

section \<open>Cluster and writes\<close>

record cluster =
  cl_sts :: "string \<rightharpoonup> stateful_set"
  cl_cm :: "string \<rightharpoonup> config_map"
  cl_svc :: "string \<rightharpoonup> service"
  cl_crt :: "string \<rightharpoonup> certificate"

datatype api_write = Ensure object | Delete object

fun ensure_object :: "(stateful_set \<Rightarrow> stateful_set) \<Rightarrow> object \<Rightarrow> cluster \<Rightarrow> cluster" where
  "ensure_object srv (OSts s) c = c\<lparr>cl_sts := (cl_sts c)(sts_name s \<mapsto> srv s)\<rparr>"
| "ensure_object srv (OCm m) c = c\<lparr>cl_cm := (cl_cm c)(cm_name m \<mapsto> m)\<rparr>"
| "ensure_object srv (OSvc s) c = c\<lparr>cl_svc := (cl_svc c)(svc_name s \<mapsto> s)\<rparr>"
| "ensure_object srv (OCrt t) c = c\<lparr>cl_crt := (cl_crt c)(crt_name t \<mapsto> t)\<rparr>"

text \<open>NotFound is success, so deletion is total.\<close>

fun deleteIfExists :: "object \<Rightarrow> cluster \<Rightarrow> cluster" where
  "deleteIfExists (OSts s) c = c\<lparr>cl_sts := (cl_sts c)(sts_name s := None)\<rparr>"
| "deleteIfExists (OCm m) c = c\<lparr>cl_cm := (cl_cm c)(cm_name m := None)\<rparr>"
| "deleteIfExists (OSvc s) c = c\<lparr>cl_svc := (cl_svc c)(svc_name s := None)\<rparr>"
| "deleteIfExists (OCrt t) c = c\<lparr>cl_crt := (cl_crt c)(crt_name t := None)\<rparr>"

fun exec_write :: "(stateful_set \<Rightarrow> stateful_set) \<Rightarrow> api_write \<Rightarrow> cluster \<Rightarrow> cluster" where
  "exec_write srv (Ensure ob) c = ensure_object srv ob c"
| "exec_write srv (Delete ob) c = deleteIfExists ob c"

definition result_writes :: "engine_result \<Rightarrow> api_write list" where
  "result_writes r =
     map Ensure (opt_list OCrt (r_ensureEngineTLSCert r) @ opt_list OCm (r_ensureConfigMap r)
       @ opt_list OSvc (r_ensureHeadlessSvc r) @ opt_list OSts (r_ensureStatefulSet r)
       @ opt_list OSvc (r_ensureClusterSvc r))
     @ map Delete (r_deleteResources r)"

fun run_writes ::
  "(api_write \<Rightarrow> engine_error option) \<Rightarrow> (stateful_set \<Rightarrow> stateful_set) \<Rightarrow> api_write list \<Rightarrow> cluster
     \<Rightarrow> cluster \<times> engine_error option" where
  "run_writes outcome srv [] c = (c, None)"
| "run_writes outcome srv (w # ws) c =
     (case outcome w of
        Some e \<Rightarrow> (c, Some e)
      | None \<Rightarrow> run_writes outcome srv ws (exec_write srv w c))"

definition terminal :: "engine_phase \<Rightarrow> bool" where
  "terminal p \<longleftrightarrow> p = PhaseStable \<or> p = PhaseStopped"

text \<open>The status that ends up persisted is the third component; the guard panics before it is written.\<close>

definition applyEngineState ::
  "(api_write \<Rightarrow> engine_error option) \<Rightarrow> status_api \<Rightarrow> time \<Rightarrow> (stateful_set \<Rightarrow> stateful_set)
     \<Rightarrow> engine_result \<Rightarrow> cluster \<Rightarrow> engine_status \<Rightarrow> engine_error option \<times> cluster \<times> engine_status" where
  "applyEngineState outcome statusOutcome now srv r c status =
     (case run_writes outcome srv (result_writes r) c of
        (c1, Some e) \<Rightarrow> (Some e, c1, status)
      | (c1, None) \<Rightarrow>
          if terminal (es_phase (r_status r)) \<and>
             es_currentGeneration (r_status r) \<noteq> es_activeGeneration (r_status r)
          then (Some (Panic ''BUG: terminal phase with CurrentGeneration != ActiveGeneration''), c1, status)
          else case updateStatus statusOutcome now (r_status r) of
                 Inl e \<Rightarrow> (Some e, c1, status)
               | Inr st \<Rightarrow> (None, c1, st))"

section \<open>The closed system\<close>

record sys =
  sy_spec :: engine_spec
  sy_meta :: int
  sy_status :: engine_status
  sy_cluster :: cluster
  sy_pods :: "int \<Rightarrow> pod list"
  sy_scrape :: "string \<Rightarrow> engine_error + string"

definition reader_of :: "sys \<Rightarrow> reader" where
  "reader_of s =
     \<lparr>rd_sts = (\<lambda>n. Inr (cl_sts (sy_cluster s) n)), rd_cm = (\<lambda>n. Inr (cl_cm (sy_cluster s) n)),
      rd_svc = (\<lambda>n. Inr (cl_svc (sy_cluster s) n)), rd_pods = (\<lambda>n g. Inr (sy_pods s g)),
      rd_scrape = sy_scrape s\<rparr>"

definition init_status :: "engine_status \<Rightarrow> engine_status" where
  "init_status st = st\<lparr>es_phase := PhaseCreating, es_activeGeneration := -1\<rparr>"

text \<open>What a pass gets from the outside: the outcomes of the class, Preset and Instance lookups, of the
  validation of the templates and resources (reason and message of a rejection), and the latest warning
  recorded on the StatefulSet.\<close>

record pass_inputs =
  pa_class :: class_outcome
  pa_preset :: preset_outcome
  pa_instance :: "string + instance_info"
  pa_rejected :: "(string \<times> string) option"
  pa_event :: "sts_event option"

definition empty_info :: instance_info where
  "empty_info = \<lparr>ii_metadataEndpoint = [], ii_instanceID = [], ii_auth = None, ii_tls = None,
     ii_engineTrustBundleReady = False, ii_protectedSecretNames = []\<rparr>"

definition persist :: "status_api \<Rightarrow> time \<Rightarrow> sys \<Rightarrow> engine_status \<Rightarrow> engine_error option \<times> sys" where
  "persist statusOutcome now s st =
     (case updateStatus statusOutcome now st of Inl e \<Rightarrow> (Some e, s) | Inr st' \<Rightarrow> (None, s\<lparr>sy_status := st'\<rparr>))"

definition ready_false :: "condition_api \<Rightarrow> sys \<Rightarrow> string \<Rightarrow> string \<Rightarrow> engine_status \<Rightarrow> engine_status" where
  "ready_false ca s reason msg st = set_condition ca (mk_condition ConditionReady False reason msg (sy_meta s)) st"

text \<open>The end of a pass: compute, derive the conditions, apply.\<close>

definition report_result ::
  "condition_api \<Rightarrow> pass_inputs \<Rightarrow> sys \<Rightarrow> engine_state \<Rightarrow> engine_status \<Rightarrow> engine_result \<Rightarrow> engine_result" where
  "report_result ca pa s current status r =
     (let st1 = syncAppliedPresetStatus (r_status r) (appliedPresetStatefulSet status (r_status r) current);
          st2 = setReadyCondition ca st1 current (sy_meta s);
          st3 = decorateReadyConditionWithSTSEvent ca st2 current (sp_replicas (sy_spec s)) (pa_event pa) (sy_meta s)
      in r\<lparr>r_status := st3\<rparr>)"

definition finish_pass ::
  "condition_api \<Rightarrow> (stateful_set \<Rightarrow> stateful_set) \<Rightarrow> (api_write \<Rightarrow> engine_error option) \<Rightarrow> status_api
     \<Rightarrow> time \<Rightarrow> pass_inputs \<Rightarrow> render_ctx \<Rightarrow> sys \<Rightarrow> engine_state \<Rightarrow> engine_status \<Rightarrow> engine_error option \<times> sys" where
  "finish_pass ca srv outcome statusOutcome now pa rc s current status =
     (case computeEngineReconcile now rc (sy_spec s) (sy_meta s) current status of
        Inl e \<Rightarrow> (Some e, s)
      | Inr r \<Rightarrow>
          (case applyEngineState outcome statusOutcome now srv (report_result ca pa s current status r)
                  (sy_cluster s) (sy_status s) of
             (err, c, st) \<Rightarrow> (err, s\<lparr>sy_cluster := c, sy_status := st\<rparr>)))"

text \<open>The part of \<open>Reconcile\<close> after the observation: the Instance gate and the rejection gate, both
  only in the phases that render, then the computation. \<open>rc\<close> brings the operator's environment, script and
  the engine's name; Instance data and class are filled in from the lookups, the Instance data only in the
  phases that render.\<close>

definition MaxEngineReplicas :: int where "MaxEngineReplicas = 256"

definition reasonResourceBoundsExceeded :: string where "reasonResourceBoundsExceeded = ''ResourceBoundsExceeded''"

definition gate_rejection :: "pass_inputs \<Rightarrow> engine_spec \<Rightarrow> (string \<times> string) option" where
  "gate_rejection pa spec =
     (case pa_rejected pa of
        Some rej \<Rightarrow> Some rej
      | None \<Rightarrow> if sp_replicas spec > MaxEngineReplicas
                then Some (reasonResourceBoundsExceeded, ''spec.replicas: Invalid value: '' @ itoa (sp_replicas spec)
                             @ '': must be at most '' @ itoa MaxEngineReplicas)
                else None)"

definition pass_gated ::
  "condition_api \<Rightarrow> (stateful_set \<Rightarrow> stateful_set) \<Rightarrow> (api_write \<Rightarrow> engine_error option) \<Rightarrow> status_api
     \<Rightarrow> time \<Rightarrow> pass_inputs \<Rightarrow> render_ctx \<Rightarrow> sys \<Rightarrow> class_info option \<Rightarrow> engine_state \<Rightarrow> engine_error option \<times> sys" where
  "pass_gated ca srv outcome statusOutcome now pa rc s ci current =
     (let st1 = syncAppliedPresetStatus (sy_status s) (appliedPresetStatefulSet (sy_status s) (sy_status s) current)
      in if engineNeedsRender (es_phase (sy_status s)) then
           (case pa_instance pa of
              Inl reason \<Rightarrow>
                persist statusOutcome now s (setReadyCondition ca (set_condition ca
                  (mk_condition ConditionInstanceReady False ''InstanceNotReady'' reason (sy_meta s)) st1)
                  current (sy_meta s))
            | Inr info \<Rightarrow>
                (let st2 = set_condition ca (mk_condition ConditionInstanceReady True ''InstanceReady''
                             ''Referenced FireboltInstance is ready'' (sy_meta s)) st1
                 in case gate_rejection pa (sy_spec s) of
                      Some (reason, m) \<Rightarrow> persist statusOutcome now s (ready_false ca s reason m st2)
                    | None \<Rightarrow> finish_pass ca srv outcome statusOutcome now pa
                        (rc\<lparr>rc_info := info, rc_class := ci\<rparr>) s current st2))
         else finish_pass ca srv outcome statusOutcome now pa
                (rc\<lparr>rc_info := empty_info, rc_class := ci\<rparr>) s current st1)"

text \<open>The observation; a failed drain probe is recorded as a condition.\<close>

definition pass_observed ::
  "condition_api \<Rightarrow> (string \<Rightarrow> int option) \<Rightarrow> (stateful_set \<Rightarrow> stateful_set) \<Rightarrow> (api_write \<Rightarrow> engine_error option)
     \<Rightarrow> status_api \<Rightarrow> time \<Rightarrow> pass_inputs \<Rightarrow> render_ctx \<Rightarrow> sys \<Rightarrow> class_info option \<Rightarrow> engine_error option \<times> sys" where
  "pass_observed ca pf srv outcome statusOutcome now pa rc s ci =
     (case getEngineState pf (reader_of s) (sy_spec s) (rc_name rc) (sy_status s) ci of
        Inl e \<Rightarrow>
          (case setDrainCheckFailingCondition ca (sy_status s) e (sy_meta s) of
             None \<Rightarrow> (Some e, s)
           | Some st' \<Rightarrow> (Some e, snd (persist statusOutcome now s st')))
      | Inr current \<Rightarrow> pass_gated ca srv outcome statusOutcome now pa rc s ci current)"

text \<open>One pass of \<open>Reconcile\<close> over an engine that has its finalizer and is not being deleted, up to the
  auto-stop step.\<close>

definition reconcile_pass ::
  "condition_api \<Rightarrow> (string \<Rightarrow> int option) \<Rightarrow> (stateful_set \<Rightarrow> stateful_set) \<Rightarrow> (api_write \<Rightarrow> engine_error option)
     \<Rightarrow> status_api \<Rightarrow> time \<Rightarrow> pass_inputs \<Rightarrow> render_ctx \<Rightarrow> sys \<Rightarrow> engine_error option \<times> sys" where
  "reconcile_pass ca pf srv outcome statusOutcome now pa rc s =
     (if es_phase (sy_status s) = PhaseUnset then
        persist statusOutcome now s (set_condition ca (mk_condition ConditionReady False ''Initializing''
          ''Engine status has not yet been populated'' (sy_meta s)) (init_status (sy_status s)))
      else
        case resolveEngineOverlays (rc_env rc) (engineNeedsRender (es_phase (sy_status s))) (pa_class pa) (pa_preset pa) of
          OverlayFailed m \<Rightarrow> (Some (ApiError m), s)
        | OverlayBlocked reason m \<Rightarrow>
            persist statusOutcome now s (ready_false ca s reason m
              (syncAppliedPresetFromCluster (reader_of s) (rc_name rc) (sy_status s)))
        | OverlayOk ci \<Rightarrow> pass_observed ca pf srv outcome statusOutcome now pa rc s ci)"

section \<open>Names\<close>

lemma genResourceName_inject:
  "0 \<le> g \<Longrightarrow> 0 \<le> h \<Longrightarrow> genResourceName n g suf = genResourceName n h suf \<longleftrightarrow> g = h"
  by (simp add: genResourceName_def itoa_inject_nonneg)

lemma headless_not_service: "genResourceName n g suf \<noteq> n @ SuffixService"
  by (simp add: genResourceName_def SuffixGen_def SuffixService_def)

lemma atoi_itoa_eq:
  assumes "0 \<le> g" "atoi (itoa g) = Some h"
  shows "h = g"
proof -
  obtain c cs where "nat_digits (nat g) = c # cs" "c \<noteq> CHR ''-''" "c \<noteq> CHR ''+''" by (rule nat_digits_hd)
  with assms show ?thesis
    using atoi_unsigned_nat_digits [of "nat g"] by (auto simp: itoa_def atoi_def split: if_splits)
qed

section \<open>What a pass observes\<close>

lemma read_current_reader:
  "read_current (reader_of s) spec n st raw =
     Inr (if 0 \<le> es_currentGeneration st then
       (let sts = cl_sts (sy_cluster s) (genResourceName n (es_currentGeneration st) []);
            raw1 = raw\<lparr>rw_currentSTS := sts,
                      rw_currentConfigMap := cl_cm (sy_cluster s) (genResourceName n (es_currentGeneration st) SuffixConfig),
                      rw_currentHeadlessSvc := cl_svc (sy_cluster s) (genResourceName n (es_currentGeneration st) SuffixHL)\<rparr>
        in if sts \<noteq> None then
             (case checkPodsReady (sy_pods s (es_currentGeneration st)) (sp_replicas spec) of (a, b, d) \<Rightarrow>
                raw1\<lparr>rw_currentPodsReady := a, rw_currentPodTotal := b, rw_currentPodReady := d\<rparr>)
           else raw1)
     else raw)"
  by (auto simp: read_current_def reader_of_def getStatefulSet_def getConfigMap_def getHeadlessService_def Let_def
      split: prod.splits)

lemma read_active_reader:
  "\<exists>a b. read_active (reader_of s) n st raw = Inr (raw\<lparr>rw_activeSTS := a, rw_activePodReady := b\<rparr>)"
proof -
  have "\<exists>a b. raw = raw\<lparr>rw_activeSTS := a, rw_activePodReady := b\<rparr>"
    by (rule exI [of _ "rw_activeSTS raw"], rule exI [of _ "rw_activePodReady raw"]) simp
  then show ?thesis
    by (auto simp: read_active_def reader_of_def getStatefulSet_def Let_def split: prod.splits option.splits)
qed

lemma read_draining_reader:
  assumes "read_draining pf (reader_of s) spec n st ci raw = Inr raw'"
  shows "\<exists>b. raw' = (if 0 \<le> draining_gen st \<and> draining_gen st \<noteq> es_currentGeneration st
     then raw\<lparr>rw_drainingSTS := cl_sts (sy_cluster s) (genResourceName n (draining_gen st) []),
              rw_drainingConfigMap := cl_cm (sy_cluster s) (genResourceName n (draining_gen st) SuffixConfig),
              rw_drainingHeadlessSvc := cl_svc (sy_cluster s) (genResourceName n (draining_gen st) SuffixHL),
              rw_drainingPodsDrained := b\<rparr>
     else raw)"
  using assms
  by (auto simp: read_draining_def reader_of_def getStatefulSet_def getConfigMap_def getHeadlessService_def Let_def
      and_then_Inr split: if_splits)

lemma assemble_shape:
  assumes "assembleEngineState st raw = Inr x"
  shows "x = (assemble_draining st raw (assemble_active st raw (assemble_current st raw empty_state)))\<lparr>
     x_clusterService := rw_clusterService raw,
     x_targetGen := (case Option.bind (rw_clusterService raw) (\<lambda>svc. fmlookup (mitems (svc_selector svc)) LabelGeneration) of
        None \<Rightarrow> -1 | Some str \<Rightarrow> (case atoi str of Some g \<Rightarrow> g | None \<Rightarrow> -1))\<rparr>"
proof -
  define s where "s = assemble_draining st raw (assemble_active st raw (assemble_current st raw empty_state))"
  have "x_targetGen s = -1" "x_clusterService s = None"
    by (simp_all add: s_def assemble_draining_def assemble_active_def assemble_current_def empty_state_def Let_def)
  with assms show ?thesis
    unfolding assembleEngineState_def Let_def s_def [symmetric] by (auto split: option.splits)
qed

lemma assemble_active_frame [simp]:
  "x_currentSTS (assemble_active st raw s) = x_currentSTS s"
  "x_currentConfigMap (assemble_active st raw s) = x_currentConfigMap s"
  "x_currentHeadlessSvc (assemble_active st raw s) = x_currentHeadlessSvc s"
  "x_currentPodsReady (assemble_active st raw s) = x_currentPodsReady s"
  "x_drainingSTS (assemble_active st raw s) = x_drainingSTS s"
  "x_drainingConfigMap (assemble_active st raw s) = x_drainingConfigMap s"
  "x_drainingHeadlessSvc (assemble_active st raw s) = x_drainingHeadlessSvc s"
  "x_drainingPodsDrained (assemble_active st raw s) = x_drainingPodsDrained s"
  by (simp_all add: assemble_active_def)

lemma assemble_current_fields:
  "x_currentSTS (assemble_current st raw empty_state) = (if 0 \<le> es_currentGeneration st then rw_currentSTS raw else None)"
  "x_currentConfigMap (assemble_current st raw empty_state)
     = (if 0 \<le> es_currentGeneration st then rw_currentConfigMap raw else None)"
  "x_currentHeadlessSvc (assemble_current st raw empty_state)
     = (if 0 \<le> es_currentGeneration st then rw_currentHeadlessSvc raw else None)"
  "x_currentPodsReady (assemble_current st raw empty_state)
     = (0 \<le> es_currentGeneration st \<and> rw_currentSTS raw \<noteq> None \<and> rw_currentPodsReady raw)"
  "x_drainingSTS (assemble_current st raw empty_state) = None"
  "x_drainingConfigMap (assemble_current st raw empty_state) = None"
  "x_drainingHeadlessSvc (assemble_current st raw empty_state) = None"
  "x_drainingPodsDrained (assemble_current st raw empty_state) = False"
  by (simp_all add: assemble_current_def empty_state_def Let_def)

lemma assemble_draining_fields:
  "x_currentSTS (assemble_draining st raw s) = x_currentSTS s"
  "x_currentConfigMap (assemble_draining st raw s) = x_currentConfigMap s"
  "x_currentHeadlessSvc (assemble_draining st raw s) = x_currentHeadlessSvc s"
  "x_currentPodsReady (assemble_draining st raw s) = x_currentPodsReady s"
  "x_drainingSTS (assemble_draining st raw s) = (if 0 \<le> draining_gen st \<and> draining_gen st \<noteq> es_currentGeneration st
     then rw_drainingSTS raw else x_drainingSTS s)"
  "x_drainingConfigMap (assemble_draining st raw s) = (if 0 \<le> draining_gen st \<and> draining_gen st \<noteq> es_currentGeneration st
     then rw_drainingConfigMap raw else x_drainingConfigMap s)"
  "x_drainingHeadlessSvc (assemble_draining st raw s) = (if 0 \<le> draining_gen st \<and> draining_gen st \<noteq> es_currentGeneration st
     then rw_drainingHeadlessSvc raw else x_drainingHeadlessSvc s)"
  "x_drainingPodsDrained (assemble_draining st raw s) = (if 0 \<le> draining_gen st \<and> draining_gen st \<noteq> es_currentGeneration st
     then (if rw_drainingSTS raw = None then True else rw_drainingPodsDrained raw) else x_drainingPodsDrained s)"
  by (simp_all add: assemble_draining_def)

lemmas assemble_fields = assemble_draining_fields assemble_active_frame assemble_current_fields

text \<open>The observation a successful read yields, in terms of the cluster.\<close>

lemma observed:
  assumes "getEngineState pf (reader_of s) spec n st ci = Inr x"
  shows observed_sts: "0 \<le> es_currentGeneration st \<Longrightarrow>
      x_currentSTS x = cl_sts (sy_cluster s) (genResourceName n (es_currentGeneration st) [])"
    and observed_cm: "0 \<le> es_currentGeneration st \<Longrightarrow>
      x_currentConfigMap x = cl_cm (sy_cluster s) (genResourceName n (es_currentGeneration st) SuffixConfig)"
    and observed_hl: "0 \<le> es_currentGeneration st \<Longrightarrow>
      x_currentHeadlessSvc x = cl_svc (sy_cluster s) (genResourceName n (es_currentGeneration st) SuffixHL)"
    and observed_ready: "x_currentPodsReady x \<Longrightarrow> x_currentSTS x \<noteq> None \<and>
      fst (checkPodsReady (sy_pods s (es_currentGeneration st)) (sp_replicas spec))"
    and observed_draining: "\<And>d. x_drainingSTS x = Some d \<Longrightarrow>
      cl_sts (sy_cluster s) (genResourceName n (draining_gen st) []) = Some d"
      "\<And>h. x_drainingHeadlessSvc x = Some h \<Longrightarrow>
      cl_svc (sy_cluster s) (genResourceName n (draining_gen st) SuffixHL) = Some h"
      "\<And>m. x_drainingConfigMap x = Some m \<Longrightarrow>
      cl_cm (sy_cluster s) (genResourceName n (draining_gen st) SuffixConfig) = Some m"
    and observed_svc: "x_clusterService x = cl_svc (sy_cluster s) (n @ SuffixService)"
    and observed_target: "x_targetGen x =
       (case Option.bind (cl_svc (sy_cluster s) (n @ SuffixService))
               (\<lambda>svc. fmlookup (mitems (svc_selector svc)) LabelGeneration) of
          None \<Rightarrow> -1 | Some str \<Rightarrow> (case atoi str of Some g \<Rightarrow> g | None \<Rightarrow> -1))"
proof -
  obtain raw1 raw2 raw3 where r: "read_current (reader_of s) spec n st empty_raw = Inr raw1"
    "read_active (reader_of s) n st raw1 = Inr raw2"
    "read_draining pf (reader_of s) spec n st ci raw2 = Inr raw3"
    "assembleEngineState st (raw3\<lparr>rw_clusterService := cl_svc (sy_cluster s) (n @ SuffixService)\<rparr>) = Inr x"
    using assms by (auto simp: getEngineState_def and_then_Inr reader_of_def)
  note f = assemble_shape [OF r(4)] assemble_fields
  obtain a b where "raw2 = raw1\<lparr>rw_activeSTS := a, rw_activePodReady := b\<rparr>"
    using read_active_reader [of s n st raw1] r(2) by auto
  moreover obtain e where "raw3 = (if 0 \<le> draining_gen st \<and> draining_gen st \<noteq> es_currentGeneration st
     then raw2\<lparr>rw_drainingSTS := cl_sts (sy_cluster s) (genResourceName n (draining_gen st) []),
              rw_drainingConfigMap := cl_cm (sy_cluster s) (genResourceName n (draining_gen st) SuffixConfig),
              rw_drainingHeadlessSvc := cl_svc (sy_cluster s) (genResourceName n (draining_gen st) SuffixHL),
              rw_drainingPodsDrained := e\<rparr>
     else raw2)"
    using read_draining_reader [OF r(3)] by auto
  ultimately have raw3: "rw_currentSTS raw3 = rw_currentSTS raw1" "rw_currentConfigMap raw3 = rw_currentConfigMap raw1"
    "rw_currentHeadlessSvc raw3 = rw_currentHeadlessSvc raw1" "rw_currentPodsReady raw3 = rw_currentPodsReady raw1"
    "0 \<le> draining_gen st \<and> draining_gen st \<noteq> es_currentGeneration st \<Longrightarrow>
      rw_drainingSTS raw3 = cl_sts (sy_cluster s) (genResourceName n (draining_gen st) [])"
    "0 \<le> draining_gen st \<and> draining_gen st \<noteq> es_currentGeneration st \<Longrightarrow>
      rw_drainingConfigMap raw3 = cl_cm (sy_cluster s) (genResourceName n (draining_gen st) SuffixConfig)"
    "0 \<le> draining_gen st \<and> draining_gen st \<noteq> es_currentGeneration st \<Longrightarrow>
      rw_drainingHeadlessSvc raw3 = cl_svc (sy_cluster s) (genResourceName n (draining_gen st) SuffixHL)"
    by auto
  have raw1: "0 \<le> es_currentGeneration st \<Longrightarrow>
      rw_currentSTS raw1 = cl_sts (sy_cluster s) (genResourceName n (es_currentGeneration st) [])"
    "0 \<le> es_currentGeneration st \<Longrightarrow>
      rw_currentConfigMap raw1 = cl_cm (sy_cluster s) (genResourceName n (es_currentGeneration st) SuffixConfig)"
    "0 \<le> es_currentGeneration st \<Longrightarrow>
      rw_currentHeadlessSvc raw1 = cl_svc (sy_cluster s) (genResourceName n (es_currentGeneration st) SuffixHL)"
    "0 \<le> es_currentGeneration st \<Longrightarrow> rw_currentSTS raw1 \<noteq> None \<Longrightarrow>
      rw_currentPodsReady raw1 = fst (checkPodsReady (sy_pods s (es_currentGeneration st)) (sp_replicas spec))"
    using r(1) by (auto simp: read_current_reader Let_def split: prod.splits if_splits)
  show "0 \<le> es_currentGeneration st \<Longrightarrow>
      x_currentSTS x = cl_sts (sy_cluster s) (genResourceName n (es_currentGeneration st) [])"
    "0 \<le> es_currentGeneration st \<Longrightarrow>
      x_currentConfigMap x = cl_cm (sy_cluster s) (genResourceName n (es_currentGeneration st) SuffixConfig)"
    "0 \<le> es_currentGeneration st \<Longrightarrow>
      x_currentHeadlessSvc x = cl_svc (sy_cluster s) (genResourceName n (es_currentGeneration st) SuffixHL)"
    by (simp_all add: f raw3 raw1)
  show "x_currentPodsReady x \<Longrightarrow> x_currentSTS x \<noteq> None \<and>
      fst (checkPodsReady (sy_pods s (es_currentGeneration st)) (sp_replicas spec))"
    using raw1(4) by (simp add: f raw3)
  show "\<And>d. x_drainingSTS x = Some d \<Longrightarrow>
      cl_sts (sy_cluster s) (genResourceName n (draining_gen st) []) = Some d"
    "\<And>h. x_drainingHeadlessSvc x = Some h \<Longrightarrow>
      cl_svc (sy_cluster s) (genResourceName n (draining_gen st) SuffixHL) = Some h"
    "\<And>m. x_drainingConfigMap x = Some m \<Longrightarrow>
      cl_cm (sy_cluster s) (genResourceName n (draining_gen st) SuffixConfig) = Some m"
    by (auto simp: f raw3 split: if_splits)
  show "x_clusterService x = cl_svc (sy_cluster s) (n @ SuffixService)" by (simp add: f)
  show "x_targetGen x =
       (case Option.bind (cl_svc (sy_cluster s) (n @ SuffixService))
               (\<lambda>svc. fmlookup (mitems (svc_selector svc)) LabelGeneration) of
          None \<Rightarrow> -1 | Some str \<Rightarrow> (case atoi str of Some g \<Rightarrow> g | None \<Rightarrow> -1))"
    by (simp add: f)
qed

section \<open>The invariant of status and cluster\<close>

definition keyed :: "cluster \<Rightarrow> bool" where
  "keyed c \<longleftrightarrow>
     (\<forall>k s. cl_sts c k = Some s \<longrightarrow> sts_name s = k) \<and> (\<forall>k m. cl_cm c k = Some m \<longrightarrow> cm_name m = k) \<and>
     (\<forall>k v. cl_svc c k = Some v \<longrightarrow> svc_name v = k) \<and> (\<forall>k t. cl_crt c k = Some t \<longrightarrow> crt_name t = k)"

definition has_sts :: "string \<Rightarrow> cluster \<Rightarrow> int \<Rightarrow> bool" where
  "has_sts n c g \<longleftrightarrow> cl_sts c (genResourceName n g []) \<noteq> None"

text \<open>The generations that must have their StatefulSet: the serving one, the new one while switching,
  the old one while draining.\<close>

definition needed_gens :: "engine_status \<Rightarrow> int set" where
  "needed_gens st =
     {g. 0 \<le> g \<and> (es_phase st \<noteq> PhaseUnset \<and> g = es_activeGeneration st
         \<or> es_phase st = PhaseSwitching \<and> g = es_currentGeneration st
         \<or> es_phase st = PhaseDraining \<and> g = draining_gen st)}"

text \<open>The routing Service is the operator's own and selects some generation there has been; once a
  generation serves it exists and selects that generation, or the new one while switching.\<close>

definition route_ok :: "string \<Rightarrow> string \<Rightarrow> engine_status \<Rightarrow> service option \<Rightarrow> bool" where
  "route_ok n ns st v =
     (case v of
        None \<Rightarrow> es_phase st = PhaseUnset \<or> es_activeGeneration st < 0
      | Some svc \<Rightarrow> \<exists>g. 0 \<le> g \<and> g \<le> es_currentGeneration st \<and> svc = buildClusterService n ns g \<and>
          (es_phase st = PhaseUnset \<or> es_activeGeneration st < 0 \<or> g = es_activeGeneration st
           \<or> es_phase st = PhaseSwitching \<and> g = es_currentGeneration st))"

definition cluster_inv :: "string \<Rightarrow> string \<Rightarrow> engine_status \<Rightarrow> cluster \<Rightarrow> bool" where
  "cluster_inv n ns st c \<longleftrightarrow>
     keyed c \<and> route_ok n ns st (cl_svc c (n @ SuffixService)) \<and> (\<forall>g\<in>needed_gens st. has_sts n c g)"

text \<open>Writes that keep the invariant for the status in force.\<close>

fun safe_write :: "string \<Rightarrow> string \<Rightarrow> engine_status \<Rightarrow> api_write \<Rightarrow> bool" where
  "safe_write n ns st (Ensure (OSvc v)) \<longleftrightarrow> svc_name v = n @ SuffixService \<longrightarrow> route_ok n ns st (Some v)"
| "safe_write n ns st (Ensure ob) \<longleftrightarrow> True"
| "safe_write n ns st (Delete (OSts s)) \<longleftrightarrow> (\<forall>g\<in>needed_gens st. sts_name s \<noteq> genResourceName n g [])"
| "safe_write n ns st (Delete (OSvc v)) \<longleftrightarrow> svc_name v \<noteq> n @ SuffixService"
| "safe_write n ns st (Delete ob) \<longleftrightarrow> True"

lemma svc_name_build [simp]:
  "svc_name (buildClusterService n ns g) = n @ SuffixService"
  "svc_name (buildHeadlessService n ns g) = genResourceName n g SuffixHL"
  by (simp_all add: buildClusterService_def buildHeadlessService_def)

lemma keyed_write:
  "(\<And>s. sts_name (srv s) = sts_name s) \<Longrightarrow> keyed c \<Longrightarrow> keyed (exec_write srv w c)"
  by (cases "(srv, w, c)" rule: exec_write.cases; cases "(srv, case w of Ensure ob \<Rightarrow> ob | Delete ob \<Rightarrow> ob, c)" rule: ensure_object.cases)
    (auto simp: keyed_def)

lemma safe_write_keeps:
  assumes srv: "\<And>s. sts_name (srv s) = sts_name s"
    and ok: "cluster_inv n ns st c" and safe: "safe_write n ns st w"
  shows "cluster_inv n ns st (exec_write srv w c)"
proof -
  have "route_ok n ns st (cl_svc (exec_write srv w c) (n @ SuffixService))"
    using ok safe by (cases "(n, ns, st, w)" rule: safe_write.cases) (auto simp: cluster_inv_def)
  moreover have "\<forall>g\<in>needed_gens st. has_sts n (exec_write srv w c) g"
    using ok safe by (cases "(n, ns, st, w)" rule: safe_write.cases) (auto simp: cluster_inv_def has_sts_def)
  ultimately show ?thesis
    using keyed_write [OF srv] ok by (simp add: cluster_inv_def)
qed

lemma run_writes_keeps:
  assumes srv: "\<And>s. sts_name (srv s) = sts_name s"
  shows "list_all (safe_write n ns st) ws \<Longrightarrow> cluster_inv n ns st c \<Longrightarrow>
    cluster_inv n ns st (fst (run_writes outcome srv ws c))"
proof (induction ws arbitrary: c)
  case (Cons w ws)
  then show ?case
    using safe_write_keeps [OF srv] by (auto split: option.splits)
qed simp

lemma run_writes_sts:
  assumes "\<And>s. Delete (OSts s) \<in> set ws \<Longrightarrow> sts_name s \<noteq> k"
  shows "cl_sts c k \<noteq> None \<Longrightarrow> cl_sts (fst (run_writes outcome srv ws c)) k \<noteq> None"
  using assms
proof (induction ws arbitrary: c)
  case (Cons w ws)
  have "cl_sts (exec_write srv w c) k \<noteq> None"
  proof (cases w)
    case (Ensure ob)
    with Cons.prems(1) show ?thesis by (cases ob) auto
  next
    case (Delete ob)
    with Cons.prems show ?thesis by (cases ob) auto
  qed
  with Cons show ?case by (auto split: option.splits)
qed simp

subsection \<open>A pass issues safe writes only\<close>

lemma opt_list_set [simp]: "w \<in> set (opt_list f v) \<longleftrightarrow> (\<exists>a. v = Some a \<and> w = f a)"
  by (auto simp: opt_list_def split: option.splits)

lemma set_result_writes:
  "set (result_writes r) =
     Ensure ` ({OCrt t | t. r_ensureEngineTLSCert r = Some t} \<union> {OCm m | m. r_ensureConfigMap r = Some m}
       \<union> {OSvc v | v. r_ensureHeadlessSvc r = Some v} \<union> {OSts s | s. r_ensureStatefulSet r = Some s}
       \<union> {OSvc v | v. r_ensureClusterSvc r = Some v})
     \<union> Delete ` set (r_deleteResources r)"
  by (auto simp: result_writes_def)

lemma pass_objects [simp]:
  "svc_name (pass_hl rc g) = genResourceName (rc_name rc) g SuffixHL"
  "svc_name (pass_svc rc g) = rc_name rc @ SuffixService"
  "sts_name (pass_sts rc spec g) = genResourceName (rc_name rc) g []"
  by (simp_all add: pass_hl_def pass_svc_def pass_sts_def buildStatefulSet_def)

lemma result_safe:
  assumes "\<And>v. r_ensureHeadlessSvc r = Some v \<Longrightarrow> svc_name v \<noteq> n @ SuffixService"
    and "\<And>v. r_ensureClusterSvc r = Some v \<Longrightarrow> route_ok n ns st (Some v)"
    and "\<And>ob. ob \<in> set (r_deleteResources r) \<Longrightarrow> safe_write n ns st (Delete ob)"
  shows "list_all (safe_write n ns st) (result_writes r)"
  using assms by (auto simp: list_all_iff set_result_writes)

lemma route_ok_intro:
  "0 \<le> g \<Longrightarrow> g \<le> es_currentGeneration st \<Longrightarrow> es_activeGeneration st < 0 \<or> g = es_activeGeneration st
     \<or> es_phase st = PhaseSwitching \<and> g = es_currentGeneration st \<Longrightarrow>
   rc_name rc = n \<Longrightarrow> rc_namespace rc = ns \<Longrightarrow> route_ok n ns st (Some (pass_svc rc g))"
  by (auto simp: route_ok_def pass_svc_def)

lemma keyedD:
  assumes "keyed c"
  shows "cl_sts c k = Some s \<Longrightarrow> sts_name s = k" "cl_svc c k = Some v \<Longrightarrow> svc_name v = k"
  using assms by (auto simp: keyed_def)

lemma inv_nonneg: "status_inv st \<Longrightarrow> 0 \<le> es_currentGeneration st"
  by (auto simp: status_inv_def split: engine_phase.splits)

lemma safe_delete_gen:
  assumes inv: "status_inv st" and key: "keyed c" and g: "0 \<le> g" "g \<notin> needed_gens st"
    and ob: "ob \<in> set (opt_list OSts (cl_sts c (genResourceName n g []))
      @ opt_list OSvc (cl_svc c (genResourceName n g SuffixHL)) @ opt_list OCm m)"
  shows "safe_write n ns st (Delete ob)"
proof -
  have "sts_name s = genResourceName n g []" if "cl_sts c (genResourceName n g []) = Some s" for s
    using keyedD(1) [OF key that] .
  moreover have "svc_name v = genResourceName n g SuffixHL" if "cl_svc c (genResourceName n g SuffixHL) = Some v" for v
    using keyedD(2) [OF key that] .
  ultimately show ?thesis
    using ob g by (auto simp: needed_gens_def genResourceName_inject headless_not_service)
qed

lemma pass_writes_safe:
  assumes inv: "status_inv st" and set: "es_phase st \<noteq> PhaseUnset" and c: "cluster_inv n ns st (sy_cluster s)"
    and obs: "getEngineState pf (reader_of s) spec n st ci = Inr x"
    and rc: "rc_name rc = n" "rc_namespace rc = ns"
    and step: "phase_step rc spec meta x st = Inr r"
  shows "list_all (safe_write n ns st) (result_writes r)"
proof -
  have key: "keyed (sy_cluster s)" and route: "route_ok n ns st (x_clusterService x)"
    using c by (simp_all add: cluster_inv_def observed_svc [OF obs])
  note cur = inv_nonneg [OF inv]
  show ?thesis
  proof (cases "es_phase st")
    case PhaseStable
    with inv step rc show ?thesis
      by (intro result_safe)
        (auto simp: phase_step_def computeStable_def settle_def status_inv_def Let_def headless_not_service
          intro!: route_ok_intro split: option.splits if_splits)
  next
    case PhaseStopped
    with inv step rc show ?thesis
      by (intro result_safe)
        (auto simp: phase_step_def computeStable_def settle_def status_inv_def Let_def headless_not_service
          intro!: route_ok_intro split: option.splits if_splits)
  next
    case PhaseCreating
    have "es_currentGeneration st \<notin> needed_gens st"
      using inv PhaseCreating by (auto simp: needed_gens_def status_inv_def)
    note del = safe_delete_gen [OF inv key cur this]
    have r: "r = computeCreating rc spec x st" using step PhaseCreating by (simp add: phase_step_def)
    show ?thesis
    proof (rule result_safe)
      show "svc_name v \<noteq> n @ SuffixService" if "r_ensureHeadlessSvc r = Some v" for v
        using that rc by (auto simp: r computeCreating_def buildGenResources_def Let_def headless_not_service split: if_splits)
      show "route_ok n ns st (Some v)" if "r_ensureClusterSvc r = Some v" for v
        using that rc route PhaseCreating cur
        by (auto simp: r computeCreating_def buildGenResources_def Let_def route_ok_def [of _ _ _ None]
            intro!: route_ok_intro split: if_splits)
      show "safe_write n ns st (Delete ob)" if "ob \<in> set (r_deleteResources r)" for ob
        using that rc
        by (intro del [where m = "x_currentConfigMap x"])
          (auto simp: r computeCreating_def buildGenResources_def Let_def observed_sts [OF obs cur]
            observed_hl [OF obs cur] split: if_splits)
    qed
  next
    case PhaseSwitching
    with inv step rc cur show ?thesis
      by (intro result_safe) (auto simp: phase_step_def computeSwitching_def Let_def intro!: route_ok_intro split: if_splits)
  next
    case PhaseDraining
    with step show ?thesis
      by (intro result_safe) (auto simp: phase_step_def computeDraining_def split: if_splits)
  next
    case PhaseCleaning
    have d: "0 \<le> draining_gen st" "draining_gen st \<notin> needed_gens st"
      using inv PhaseCleaning by (auto simp: needed_gens_def status_inv_def)
    have r: "r = computeCleaning spec x st" using step PhaseCleaning by (simp add: phase_step_def)
    show ?thesis
    proof (rule result_safe)
      show "safe_write n ns st (Delete ob)" if "ob \<in> set (r_deleteResources r)" for ob
        using that rc observed_draining [OF obs]
        by (intro safe_delete_gen [OF inv key d, where m = "x_drainingConfigMap x"])
          (auto simp: r computeCleaning_def split: if_splits)
    qed (auto simp: r computeCleaning_def split: if_splits)
  qed (use inv set in \<open>simp_all add: status_inv_def\<close>)
qed

subsection \<open>The new status keeps the invariant\<close>

lemma routed_generation:
  assumes route: "route_ok n ns st (cl_svc (sy_cluster s) (n @ SuffixService))"
    and obs: "getEngineState pf (reader_of s) spec n st ci = Inr x" and t: "x_targetGen x = g" "0 \<le> g"
  shows "cl_svc (sy_cluster s) (n @ SuffixService) = Some (buildClusterService n ns g)"
proof (cases "cl_svc (sy_cluster s) (n @ SuffixService)")
  case None
  with t show ?thesis by (simp add: observed_target [OF obs])
next
  case (Some svc)
  with route obtain h where h: "0 \<le> h" "svc = buildClusterService n ns h" by (auto simp: route_ok_def)
  with t Some have "atoi (itoa h) = Some g"
    by (simp add: observed_target [OF obs] buildClusterService_def split: option.splits)
  with h Some show ?thesis using atoi_itoa_eq by blast
qed

lemma cluster_inv_mono:
  assumes "cluster_inv n ns st c" "es_phase st \<noteq> PhaseUnset" "es_phase st' \<noteq> PhaseUnset"
    "es_activeGeneration st' = es_activeGeneration st" "es_currentGeneration st \<le> es_currentGeneration st'" "es_phase st \<noteq> PhaseSwitching"
    "\<And>g. g \<in> needed_gens st' \<Longrightarrow> g \<in> needed_gens st \<or> has_sts n c g"
  shows "cluster_inv n ns st' c"
  using assms by (fastforce simp: cluster_inv_def route_ok_def split: option.splits)

lemma pass_keeps_cluster:
  assumes inv: "status_inv st" and set: "es_phase st \<noteq> PhaseUnset" and c: "cluster_inv n ns st (sy_cluster s)"
    and obs: "getEngineState pf (reader_of s) spec n st ci = Inr x"
    and rc: "rc_name rc = n" "rc_namespace rc = ns" and srv: "\<And>t. sts_name (srv t) = sts_name t"
    and step: "phase_step rc spec meta x st = Inr r"
  shows "cluster_inv n ns (r_status r) (fst (run_writes outcome srv (result_writes r) (sy_cluster s)))"
proof -
  let ?c = "fst (run_writes outcome srv (result_writes r) (sy_cluster s))"
  have c1: "cluster_inv n ns st ?c"
    by (rule run_writes_keeps [OF srv pass_writes_safe [OF inv set c obs rc step] c])
  have set': "es_phase (r_status r) \<noteq> PhaseUnset" using phase_step_inv [OF inv step set] by simp
  show ?thesis
  proof (cases "es_phase st")
    case PhaseStable
    with c1 inv set' step computeStable_status [of rc spec meta x st r] show ?thesis
      by (intro cluster_inv_mono [OF c1 set])
        (auto simp: phase_step_def needed_gens_def terminalPhase_def split: if_splits)
  next
    case PhaseStopped
    with c1 inv set' step computeStable_status [of rc spec meta x st r] show ?thesis
      by (intro cluster_inv_mono [OF c1 set])
        (auto simp: phase_step_def needed_gens_def terminalPhase_def split: if_splits)
  next
    case PhaseCreating
    have r: "r = computeCreating rc spec x st" using step PhaseCreating by (simp add: phase_step_def)
    have "has_sts n ?c (es_currentGeneration st)" if "es_phase (r_status r) = PhaseSwitching"
    proof -
      have "x_currentPodsReady x \<and> \<not> drifted rc spec x"
        using that PhaseCreating computeCreating_status [of rc spec x st] unfolding r by auto
      then have "cl_sts (sy_cluster s) (genResourceName n (es_currentGeneration st) []) \<noteq> None"
        and nd: "r_deleteResources r = []"
        using observed_ready [OF obs] observed_sts [OF obs inv_nonneg [OF inv]]
        by (auto simp: r computeCreating_def buildGenResources_def Let_def)
      then show ?thesis
        unfolding has_sts_def by (intro run_writes_sts) (auto simp: set_result_writes nd)
    qed
    with c1 set' PhaseCreating computeCreating_status [of rc spec x st] show ?thesis
      unfolding r [symmetric] by (intro cluster_inv_mono [OF c1 set]) (auto simp: needed_gens_def)
  next
    case PhaseSwitching
    have r: "r = computeSwitching rc spec x st" using step PhaseSwitching by (simp add: phase_step_def)
    show ?thesis
    proof (cases "x_targetGen x = es_currentGeneration st")
      case False
      with c1 show ?thesis by (simp add: r computeSwitching_status)
    next
      case True
      with c have v: "cl_svc (sy_cluster s) (n @ SuffixService) = Some (buildClusterService n ns (es_currentGeneration st))"
        by (intro routed_generation [OF _ obs]) (simp_all add: cluster_inv_def inv_nonneg [OF inv])
      have none: "result_writes r = []"
        using True by (simp add: r computeSwitching_def result_writes_def opt_list_def Let_def)
      have sts: "has_sts n (sy_cluster s) g"
        if "g = es_currentGeneration st \<or> 0 \<le> g \<and> g = es_activeGeneration st" for g
        using that c PhaseSwitching inv_nonneg [OF inv] by (auto simp: cluster_inv_def needed_gens_def)
      have st': "es_activeGeneration (r_status r) = es_currentGeneration st"
        "es_currentGeneration (r_status r) = es_currentGeneration st"
        "es_phase (r_status r) \<noteq> PhaseUnset" "es_phase (r_status r) \<noteq> PhaseSwitching"
        "es_phase (r_status r) = PhaseDraining \<Longrightarrow> draining_gen (r_status r) = es_activeGeneration st"
        using True by (auto simp: r computeSwitching_status terminalPhase_def draining_gen_def split: if_splits)
      have "has_sts n (sy_cluster s) g" if "g \<in> needed_gens (r_status r)" for g
        using that st' by (intro sts) (auto simp: needed_gens_def)
      then have "cluster_inv n ns (r_status r) (sy_cluster s)"
        using c v st' inv_nonneg [OF inv] by (auto simp: cluster_inv_def route_ok_def)
      then show ?thesis by (simp add: none)
    qed
  next
    case PhaseDraining
    with c1 inv set' step show ?thesis
      by (intro cluster_inv_mono [OF c1 set])
        (auto simp: phase_step_def computeDraining_status needed_gens_def status_inv_def split: if_splits)
  next
    case PhaseCleaning
    with c1 inv set' step show ?thesis
      by (intro cluster_inv_mono [OF c1 set])
        (auto simp: phase_step_def computeCleaning_status needed_gens_def status_inv_def terminalPhase_def split: if_splits)
  qed (use inv set in \<open>simp_all add: status_inv_def\<close>)
qed

section \<open>Steps of the closed system\<close>

definition same_core :: "engine_status \<Rightarrow> engine_status \<Rightarrow> bool" where
  "same_core st st' \<longleftrightarrow>
     es_phase st' = es_phase st \<and> es_currentGeneration st' = es_currentGeneration st \<and>
     es_activeGeneration st' = es_activeGeneration st \<and> es_drainingGeneration st' = es_drainingGeneration st"

text \<open>What a sweep of abandoned generations may do: remove objects, never those of a generation the
  status records and never the routing Service. \<open>Engine_GC\<close> shows this of \<open>gcOrphanedResources\<close>.\<close>

definition recorded_gens :: "engine_status \<Rightarrow> int set" where
  "recorded_gens st =
     {es_currentGeneration st, es_activeGeneration st} \<union> set_option (es_drainingGeneration st)"

definition sweep_ok :: "string \<Rightarrow> engine_status \<Rightarrow> cluster \<Rightarrow> cluster \<Rightarrow> bool" where
  "sweep_ok n st c c' \<longleftrightarrow>
     (\<forall>k. cl_sts c' k = cl_sts c k \<or> cl_sts c' k = None) \<and> (\<forall>k. cl_cm c' k = cl_cm c k \<or> cl_cm c' k = None) \<and>
     (\<forall>k. cl_svc c' k = cl_svc c k \<or> cl_svc c' k = None) \<and> (\<forall>k. cl_crt c' k = cl_crt c k \<or> cl_crt c' k = None) \<and>
     cl_svc c' (n @ SuffixService) = cl_svc c (n @ SuffixService) \<and>
     (\<forall>g\<in>recorded_gens st. 0 \<le> g \<longrightarrow> cl_sts c' (genResourceName n g []) = cl_sts c (genResourceName n g []))"

inductive sys_step ::
  "string \<Rightarrow> string \<Rightarrow> (string \<Rightarrow> int option) \<Rightarrow> (stateful_set \<Rightarrow> stateful_set) \<Rightarrow> sys \<Rightarrow> sys \<Rightarrow> bool"
  for n ns pf srv where
  edit: "sys_step n ns pf srv s (s\<lparr>sy_spec := spec, sy_meta := meta\<rparr>)"
| pods: "sys_step n ns pf srv s (s\<lparr>sy_pods := ps, sy_scrape := sc\<rparr>)"
| bookkeeping: "same_core (sy_status s) st \<Longrightarrow> sys_step n ns pf srv s (s\<lparr>sy_status := st\<rparr>)"
| sweep: "sweep_ok n (sy_status s) (sy_cluster s) c \<Longrightarrow> sys_step n ns pf srv s (s\<lparr>sy_cluster := c\<rparr>)"
| pass: "rc_name rc = n \<Longrightarrow> rc_namespace rc = ns \<Longrightarrow>
    sys_step n ns pf srv s (snd (reconcile_pass ca pf srv outcome statusOutcome now pa rc s))"

text \<open>The same with an environment that may change the objects in any way.\<close>

inductive hostile_step ::
  "string \<Rightarrow> string \<Rightarrow> (string \<Rightarrow> int option) \<Rightarrow> (stateful_set \<Rightarrow> stateful_set) \<Rightarrow> sys \<Rightarrow> sys \<Rightarrow> bool"
  for n ns pf srv where
  cooperative: "sys_step n ns pf srv s s' \<Longrightarrow> hostile_step n ns pf srv s s'"
| interfere: "hostile_step n ns pf srv s (s\<lparr>sy_cluster := c\<rparr>)"

definition fresh_sys :: "string \<Rightarrow> sys \<Rightarrow> bool" where
  "fresh_sys n s \<longleftrightarrow>
     es_phase (sy_status s) = PhaseUnset \<and> es_currentGeneration (sy_status s) = 0 \<and>
     es_drainingGeneration (sy_status s) = None \<and> keyed (sy_cluster s) \<and>
     cl_svc (sy_cluster s) (n @ SuffixService) = None"

subsection \<open>Status\<close>

lemma same_core_inv: "same_core st st' \<Longrightarrow> status_inv st' = status_inv st"
  by (cases "es_phase st") (simp_all add: same_core_def status_inv_def draining_gen_def)

lemma same_core_rollout: "same_core st st' \<Longrightarrow> rollout_of st' = rollout_of st"
  by (cases "es_phase st") (simp_all add: same_core_def rollout_of_def draining_gen_def)

lemma stamp_same_core: "same_core (r_status r) (r_status (stamp now x r))"
  by (simp add: same_core_def)

lemma same_core_trans: "same_core a b \<Longrightarrow> same_core b c \<Longrightarrow> same_core a c"
  by (simp add: same_core_def)

lemma decorated_same_core: "decorated st st' \<Longrightarrow> same_core st st'"
  by (simp add: same_core_def decorated_core)

lemma init_status_inv: "status_inv st \<Longrightarrow> es_phase st = PhaseUnset \<Longrightarrow> status_inv (init_status st)"
  by (simp add: status_inv_def init_status_def)

lemma init_status_rollout:
  "status_inv st \<Longrightarrow> es_phase st = PhaseUnset \<Longrightarrow> rollout_step (rollout_of st) (rollout_of (init_status st))"
  by (simp add: status_inv_def init_status_def rollout_of_def rollout_step_simps)

lemma report_result_frame [simp]:
  "result_writes (report_result ca pa s x st r) = result_writes r"
  "decorated (r_status r) (r_status (report_result ca pa s x st r))"
  by (simp_all add: report_result_def Let_def result_writes_def)
    (meson decorated_event decorated_setReady decorated_sync decorated_trans)

text \<open>The state a pass is computed on: the recorded one up to its reporting fields.\<close>

lemma getEngineState_decorated:
  assumes "decorated st st'"
  shows "getEngineState pf rd spec n st' ci = getEngineState pf rd spec n st ci"
  unfolding getEngineState_def read_current_def read_active_def read_draining_def assembleEngineState_def
      assemble_current_def assemble_active_def assemble_draining_def decorated_core [OF assms] ..

text \<open>What a pass renders with when the gates let it through: class and Preset resolved and, in the phases that
  render, the Instance ready and nothing rejected.\<close>

definition admitted :: "pass_inputs \<Rightarrow> render_ctx \<Rightarrow> sys \<Rightarrow> render_ctx \<Rightarrow> bool" where
  "admitted pa rc s rc' \<longleftrightarrow>
     (\<exists>i ci. rc' = rc\<lparr>rc_info := i, rc_class := ci\<rparr> \<and>
        resolveEngineOverlays (rc_env rc) (engineNeedsRender (es_phase (sy_status s))) (pa_class pa) (pa_preset pa) = OverlayOk ci \<and>
        (engineNeedsRender (es_phase (sy_status s)) \<longrightarrow> pa_instance pa = Inr i \<and> gate_rejection pa (sy_spec s) = None))"

lemma admitted_names: "admitted pa rc s rc' \<Longrightarrow> rc_name rc' = rc_name rc \<and> rc_namespace rc' = rc_namespace rc"
  by (auto simp: admitted_def)

text \<open>What a pass does to the recorded status and the cluster: it reports and leaves the cluster alone, it
  initialises, or a handler ran on a decorated copy of the status.\<close>

definition handler_ran ::
  "(string \<Rightarrow> int option) \<Rightarrow> (stateful_set \<Rightarrow> stateful_set) \<Rightarrow> (api_write \<Rightarrow> engine_error option) \<Rightarrow> time
     \<Rightarrow> pass_inputs \<Rightarrow> render_ctx \<Rightarrow> sys \<Rightarrow> sys \<Rightarrow> bool" where
  "handler_ran pf srv outcome now pa rc s s' \<longleftrightarrow>
     (\<exists>rc' st x r. admitted pa rc s rc' \<and>
        es_phase (sy_status s) \<noteq> PhaseUnset \<and> decorated (sy_status s) st \<and>
        getEngineState pf (reader_of s) (sy_spec s) (rc_name rc) st (rc_class rc') = Inr x \<and>
        phase_step rc' (sy_spec s) (sy_meta s) x st = Inr r \<and>
        sy_cluster s' = fst (run_writes outcome srv (result_writes r) (sy_cluster s)) \<and>
        (sy_status s' = sy_status s \<or> decorated (r_status (stamp now x r)) (sy_status s')))"

lemma finish_pass_ran:
  assumes "finish_pass ca srv outcome so now pa rc' s x st = (err, s')"
    and "admitted pa rc s rc'"
    and "es_phase (sy_status s) \<noteq> PhaseUnset" "decorated (sy_status s) st"
    and "getEngineState pf (reader_of s) (sy_spec s) (rc_name rc) (sy_status s) (rc_class rc') = Inr x"
  shows "s' = s \<or> handler_ran pf srv outcome now pa rc s s'"
proof (cases "computeEngineReconcile now rc' (sy_spec s) (sy_meta s) x st")
  case (Inl e)
  with assms(1) show ?thesis by (simp add: finish_pass_def)
next
  case (Inr r)
  then obtain r0 where step: "phase_step rc' (sy_spec s) (sy_meta s) x st = Inr r0" and r: "r = stamp now x r0"
    by (auto simp: computeEngineReconcile_def and_then_Inr)
  have w: "result_writes r = result_writes r0" by (simp add: r result_writes_def)
  from assms(1) Inr have "sy_cluster s' = fst (run_writes outcome srv (result_writes r0) (sy_cluster s))
      \<and> (sy_status s' = sy_status s \<or> decorated (r_status (report_result ca pa s x st r)) (sy_status s'))"
    by (auto simp: finish_pass_def applyEngineState_def w dest: decorated_updateStatus
        split: prod.splits option.splits sum.splits if_splits)
  moreover have "decorated (r_status r) (r_status (report_result ca pa s x st r))" by simp
  ultimately have "sy_cluster s' = fst (run_writes outcome srv (result_writes r0) (sy_cluster s))
      \<and> (sy_status s' = sy_status s \<or> decorated (r_status (stamp now x r0)) (sy_status s'))"
    unfolding r using decorated_trans by blast
  moreover have "getEngineState pf (reader_of s) (sy_spec s) (rc_name rc) st (rc_class rc') = Inr x"
    using assms(5) getEngineState_decorated [OF assms(4)] by simp
  ultimately show ?thesis
    unfolding handler_ran_def using assms(2-4) step by blast
qed

lemma persist_cases:
  "persist so now s st = (err, s') \<Longrightarrow> s' = s \<or> (\<exists>st'. decorated st st' \<and> s' = s\<lparr>sy_status := st'\<rparr>)"
  by (auto simp: persist_def dest: decorated_updateStatus split: sum.splits)

text \<open>What the part after the status has been initialised can do.\<close>

definition pass_effect ::
  "(string \<Rightarrow> int option) \<Rightarrow> (stateful_set \<Rightarrow> stateful_set) \<Rightarrow> (api_write \<Rightarrow> engine_error option) \<Rightarrow> time
     \<Rightarrow> pass_inputs \<Rightarrow> render_ctx \<Rightarrow> sys \<Rightarrow> sys \<Rightarrow> bool" where
  "pass_effect pf srv outcome now pa rc s s' \<longleftrightarrow>
     (\<exists>st. decorated (sy_status s) st \<and> s' = s\<lparr>sy_status := st\<rparr>) \<or> handler_ran pf srv outcome now pa rc s s'"

lemma unchanged_effect: "pass_effect pf srv outcome now pa rc s s"
proof -
  have "decorated (sy_status s) (sy_status s) \<and> s = s\<lparr>sy_status := sy_status s\<rparr>" by simp
  then show ?thesis unfolding pass_effect_def by blast
qed

lemma persist_effect:
  "decorated (sy_status s) st \<Longrightarrow> persist so now s st = (err, s') \<Longrightarrow> pass_effect pf srv outcome now pa rc s s'"
  using persist_cases [of so now s st err s'] unchanged_effect decorated_trans unfolding pass_effect_def by metis

lemma decorated_ready_false [simp]: "decorated st (ready_false ca s reason m st)"
  by (simp add: ready_false_def)

lemma gated_effect:
  assumes set: "es_phase (sy_status s) \<noteq> PhaseUnset"
    and ov: "resolveEngineOverlays (rc_env rc) (engineNeedsRender (es_phase (sy_status s))) (pa_class pa) (pa_preset pa) = OverlayOk ci"
    and obs: "getEngineState pf (reader_of s) (sy_spec s) (rc_name rc) (sy_status s) ci = Inr x"
    and gated: "pass_gated ca srv outcome so now pa rc s ci x = (err, s')"
  shows "pass_effect pf srv outcome now pa rc s s'"
proof -
  define st1 where "st1 = syncAppliedPresetStatus (sy_status s) (appliedPresetStatefulSet (sy_status s) (sy_status s) x)"
  note gated' = gated [unfolded pass_gated_def Let_def, folded st1_def]
  have d1: "decorated (sy_status s) st1" by (simp add: st1_def)
  note d = decorated_trans [OF d1]
  have ran: "pass_effect pf srv outcome now pa rc s s'"
    if "admitted pa rc s (rc\<lparr>rc_info := i, rc_class := ci\<rparr>)" "finish_pass ca srv outcome so now pa (rc\<lparr>rc_info := i, rc_class := ci\<rparr>) s x st = (err, s')"
      "decorated (sy_status s) st" for i st
  proof -
    have "s' = s \<or> handler_ran pf srv outcome now pa rc s s'"
      by (rule finish_pass_ran [OF that(2,1) set that(3)]) (simp add: obs)
    then show ?thesis
      using unchanged_effect [of pf srv outcome now pa rc s] unfolding pass_effect_def by (elim disjE) simp_all
  qed
  show ?thesis
  proof (cases "engineNeedsRender (es_phase (sy_status s))")
    case False
    with gated' ov show ?thesis by (intro ran [OF _ _ d1]) (auto simp: admitted_def)
  next
    case render: True
    show ?thesis
    proof (cases "pa_instance pa")
      case (Inl reason)
      have "persist so now s (setReadyCondition ca (set_condition ca
          (mk_condition ConditionInstanceReady False ''InstanceNotReady'' reason (sy_meta s)) st1) x (sy_meta s)) = (err, s')"
        using gated' render Inl by simp
      then show ?thesis
        by (rule persist_effect [OF d [OF decorated_trans [OF decorated_set_condition decorated_setReady]]])
    next
      case (Inr info)
      let ?st2 = "set_condition ca (mk_condition ConditionInstanceReady True ''InstanceReady''
          ''Referenced FireboltInstance is ready'' (sy_meta s)) st1"
      have d2: "decorated (sy_status s) ?st2" by (rule d) simp
      show ?thesis
      proof (cases "gate_rejection pa (sy_spec s)")
        case None
        with Inr ov have "admitted pa rc s (rc\<lparr>rc_info := info, rc_class := ci\<rparr>)" by (auto simp: admitted_def)
        then show ?thesis by (rule ran [OF _ _ d2]) (use gated' render Inr None in simp)
      next
        case (Some rm)
        obtain reason m where rm: "rm = (reason, m)" by (cases rm)
        have "persist so now s (ready_false ca s reason m ?st2) = (err, s')"
          using gated' render Inr Some rm by simp
        then show ?thesis by (rule persist_effect [OF decorated_trans [OF d2 decorated_ready_false]])
      qed
    qed
  qed
qed

lemma observed_effect:
  assumes set: "es_phase (sy_status s) \<noteq> PhaseUnset"
    and ov: "resolveEngineOverlays (rc_env rc) (engineNeedsRender (es_phase (sy_status s))) (pa_class pa) (pa_preset pa) = OverlayOk ci"
    and p: "pass_observed ca pf srv outcome so now pa rc s ci = (err, s')"
  shows "pass_effect pf srv outcome now pa rc s s'"
proof (cases "getEngineState pf (reader_of s) (sy_spec s) (rc_name rc) (sy_status s) ci")
  case (Inr x)
  with p show ?thesis by (intro gated_effect [OF set ov Inr]) (simp add: pass_observed_def)
next
  case (Inl e)
  show ?thesis
  proof (cases "setDrainCheckFailingCondition ca (sy_status s) e (sy_meta s)")
    case None
    with p Inl show ?thesis by (simp add: pass_observed_def unchanged_effect)
  next
    case (Some st)
    with p Inl have "persist so now s st = (fst (persist so now s st), s')" by (auto simp: pass_observed_def prod_eq_iff)
    then show ?thesis by (rule persist_effect [OF decorated_drain_failing [OF Some]])
  qed
qed

lemma pass_cases:
  assumes "reconcile_pass ca pf srv outcome so now pa rc s = (err, s')"
  obtains (report) st where "decorated (sy_status s) st" "s' = s\<lparr>sy_status := st\<rparr>"
  | (start) st where "es_phase (sy_status s) = PhaseUnset" "decorated (init_status (sy_status s)) st"
      "s' = s\<lparr>sy_status := st\<rparr>"
  | (handler) "handler_ran pf srv outcome now pa rc s s'"
proof -
  have eff: thesis if "pass_effect pf srv outcome now pa rc s s'"
    using that report handler unfolding pass_effect_def by blast
  show thesis
  proof (cases "es_phase (sy_status s) = PhaseUnset")
    case True
    with assms have "persist so now s (set_condition ca (mk_condition ConditionReady False ''Initializing''
        ''Engine status has not yet been populated'' (sy_meta s)) (init_status (sy_status s))) = (err, s')"
      by (simp add: reconcile_pass_def)
    from persist_cases [OF this] show thesis
    proof
      assume "s' = s"
      then show thesis using eff unchanged_effect by blast
    next
      assume "\<exists>st'. decorated (set_condition ca (mk_condition ConditionReady False ''Initializing''
        ''Engine status has not yet been populated'' (sy_meta s)) (init_status (sy_status s))) st' \<and> s' = s\<lparr>sy_status := st'\<rparr>"
      then show thesis using start [OF True decorated_trans [OF decorated_set_condition]] by blast
    qed
  next
    case False
    note p = assms [unfolded reconcile_pass_def if_not_P [OF False]]
    show thesis
    proof (cases "resolveEngineOverlays (rc_env rc) (engineNeedsRender (es_phase (sy_status s))) (pa_class pa) (pa_preset pa)")
      case (OverlayFailed m)
      from p [unfolded OverlayFailed overlay_outcome.case] have "s' = s" by simp
      then show thesis using eff unchanged_effect by blast
    next
      case (OverlayBlocked reason m)
      from p [unfolded OverlayBlocked overlay_outcome.case] show thesis
        by (rule eff [OF persist_effect [OF decorated_trans [OF decorated_sync_cluster decorated_ready_false]]])
    next
      case (OverlayOk ci)
      from p [unfolded OverlayOk overlay_outcome.case] show thesis
        by (rule eff [OF observed_effect [OF False OverlayOk]])
    qed
  qed
qed

lemma pass_status_inv:
  assumes "status_inv (sy_status s)" "reconcile_pass ca pf srv outcome so now pa rc s = (err, s')"
  shows "status_inv (sy_status s')"
  using assms(2)
proof (cases rule: pass_cases)
  case (report st)
  then show ?thesis using assms(1) same_core_inv [OF decorated_same_core] by simp
next
  case (start st)
  then show ?thesis using assms(1) init_status_inv same_core_inv [OF decorated_same_core] by simp
next
  case handler
  then obtain rc' st x r where h: "es_phase (sy_status s) \<noteq> PhaseUnset" "decorated (sy_status s) st"
    "phase_step rc' (sy_spec s) (sy_meta s) x st = Inr r"
    "sy_status s' = sy_status s \<or> decorated (r_status (stamp now x r)) (sy_status s')"
    by (auto simp: handler_ran_def)
  have "status_inv st" "es_phase st \<noteq> PhaseUnset"
    using assms(1) h same_core_inv [OF decorated_same_core [OF h(2)]] by (simp_all add: decorated_core)
  with phase_step_inv h(3) have "status_inv (r_status (stamp now x r))" using same_core_inv [OF stamp_same_core] by blast
  with h(4) assms(1) show ?thesis using same_core_inv [OF decorated_same_core] by auto
qed

lemma pass_refines:
  assumes "status_inv (sy_status s)" "reconcile_pass ca pf srv outcome so now pa rc s = (err, s')"
  shows "rollout_step (rollout_of (sy_status s)) (rollout_of (sy_status s'))"
  using assms(2)
proof (cases rule: pass_cases)
  case (report st)
  then show ?thesis using same_core_rollout [OF decorated_same_core] by (auto intro: rollout_step.stutter)
next
  case (start st)
  then show ?thesis using init_status_rollout [OF assms(1)] same_core_rollout [OF decorated_same_core] by simp
next
  case handler
  then obtain rc' st x r where h: "es_phase (sy_status s) \<noteq> PhaseUnset" "decorated (sy_status s) st"
    "phase_step rc' (sy_spec s) (sy_meta s) x st = Inr r"
    "sy_status s' = sy_status s \<or> decorated (r_status (stamp now x r)) (sy_status s')"
    by (auto simp: handler_ran_def)
  have "status_inv st" "es_phase st \<noteq> PhaseUnset"
    using assms(1) h same_core_inv [OF decorated_same_core [OF h(2)]] by (simp_all add: decorated_core)
  from phase_step_refines [OF this(1) h(3) this(2)] h(2,4) show ?thesis
    using same_core_rollout [OF stamp_same_core [of r now x]] same_core_rollout [OF decorated_same_core]
    by (auto intro: rollout_step.stutter)
qed

text \<open>Neither guard of the source fires: not the one of \<open>computeStable\<close>, not the one before the status
  write.\<close>

lemma terminal_guard_silent:
  assumes "status_inv st" "phase_step rc spec meta x st = Inr r" "es_phase st \<noteq> PhaseUnset"
  shows "\<not> (terminal (es_phase (r_status (stamp now x r)))
     \<and> es_currentGeneration (r_status (stamp now x r)) \<noteq> es_activeGeneration (r_status (stamp now x r)))"
  using phase_step_inv [OF assms] by (auto simp: terminal_def status_inv_def)

lemma step_status_inv: "hostile_step n ns pf srv s s' \<Longrightarrow> status_inv (sy_status s) \<Longrightarrow> status_inv (sy_status s')"
  by (auto elim!: hostile_step.cases sys_step.cases simp: same_core_inv intro: pass_status_inv prod.collapse [symmetric])

lemma step_refines:
  "hostile_step n ns pf srv s s' \<Longrightarrow> status_inv (sy_status s) \<Longrightarrow>
     rollout_step (rollout_of (sy_status s)) (rollout_of (sy_status s'))"
  by (auto elim!: hostile_step.cases sys_step.cases simp: same_core_rollout
      intro: pass_refines prod.collapse [symmetric] rollout_step.stutter)

lemma fresh_status_inv: "fresh_sys n s \<Longrightarrow> status_inv (sy_status s)"
  by (simp add: fresh_sys_def status_inv_def)

interpretation engine: rollout_simulation "hostile_step n ns pf srv" "\<lambda>s. status_inv (sy_status s)"
    "\<lambda>s. rollout_of (sy_status s)" for n ns pf srv
  by unfold_locales (auto intro: step_status_inv rollout_of_ok step_refines)

subsection \<open>Cluster\<close>

lemma same_core_cluster: "same_core st st' \<Longrightarrow> cluster_inv n ns st' c = cluster_inv n ns st c"
  by (cases "cl_svc c (n @ SuffixService)")
    (simp_all add: same_core_def cluster_inv_def route_ok_def needed_gens_def draining_gen_def)

lemma needed_recorded: "status_inv st \<Longrightarrow> needed_gens st \<subseteq> recorded_gens st"
  by (auto simp: needed_gens_def recorded_gens_def status_inv_def draining_gen_def split: option.splits)

lemma sweep_keeps:
  assumes "sweep_ok n st c c'" "status_inv st" "cluster_inv n ns st c"
  shows "cluster_inv n ns st c'"
proof -
  have sub: "\<And>k s. cl_sts c' k = Some s \<Longrightarrow> cl_sts c k = Some s" "\<And>k m. cl_cm c' k = Some m \<Longrightarrow> cl_cm c k = Some m"
    "\<And>k v. cl_svc c' k = Some v \<Longrightarrow> cl_svc c k = Some v" "\<And>k t. cl_crt c' k = Some t \<Longrightarrow> cl_crt c k = Some t"
    using assms(1) unfolding sweep_ok_def by (metis option.distinct(1))+
  have "keyed c'"
    using assms(3) by (auto simp: cluster_inv_def keyed_def dest: sub)
  moreover have "has_sts n c' g" if "g \<in> needed_gens st" for g
  proof -
    from that have "0 \<le> g" "g \<in> recorded_gens st"
      using needed_recorded [OF assms(2)] by (auto simp: needed_gens_def)
    with that assms show ?thesis by (simp add: sweep_ok_def cluster_inv_def has_sts_def)
  qed
  ultimately show ?thesis using assms by (simp add: sweep_ok_def cluster_inv_def)
qed

lemma init_status_cluster:
  "status_inv st \<Longrightarrow> es_phase st = PhaseUnset \<Longrightarrow> cluster_inv n ns st c \<Longrightarrow> cluster_inv n ns (init_status st) c"
  by (auto simp: cluster_inv_def init_status_def route_ok_def needed_gens_def split: option.splits)

text \<open>Whatever of its writes went through, what the status before the pass relied on is still there.\<close>

lemma pass_keeps_old:
  assumes inv: "status_inv (sy_status s)" and c: "cluster_inv n ns (sy_status s) (sy_cluster s)"
    and rc: "rc_name rc = n" "rc_namespace rc = ns" and srv: "\<And>t. sts_name (srv t) = sts_name t"
    and p: "reconcile_pass ca pf srv outcome so now pa rc s = (err, s')"
  shows "cluster_inv n ns (sy_status s) (sy_cluster s')"
  using p
proof (cases rule: pass_cases)
  case handler
  then obtain rc' st x r where h: "rc_name rc' = n" "rc_namespace rc' = ns" "es_phase (sy_status s) \<noteq> PhaseUnset"
    "decorated (sy_status s) st" "getEngineState pf (reader_of s) (sy_spec s) n st (rc_class rc') = Inr x"
    "phase_step rc' (sy_spec s) (sy_meta s) x st = Inr r"
    "sy_cluster s' = fst (run_writes outcome srv (result_writes r) (sy_cluster s))"
    by (auto simp: handler_ran_def rc dest: admitted_names)
  have st: "status_inv st" "es_phase st \<noteq> PhaseUnset" "cluster_inv n ns st (sy_cluster s)"
    using inv h(3) c same_core_inv [OF decorated_same_core [OF h(4)]] same_core_cluster [OF decorated_same_core [OF h(4)]]
    by (simp_all add: decorated_core [OF h(4)])
  have "cluster_inv n ns st (sy_cluster s')"
    using run_writes_keeps [OF srv pass_writes_safe [OF st h(5,1,2,6)] st(3), of outcome] by (simp add: h(7))
  then show ?thesis using same_core_cluster [OF decorated_same_core [OF h(4)]] by simp
qed (use c in simp_all)

lemma pass_cluster_inv:
  assumes inv: "status_inv (sy_status s)" and c: "cluster_inv n ns (sy_status s) (sy_cluster s)"
    and rc: "rc_name rc = n" "rc_namespace rc = ns" and srv: "\<And>t. sts_name (srv t) = sts_name t"
    and p: "reconcile_pass ca pf srv outcome so now pa rc s = (err, s')"
  shows "cluster_inv n ns (sy_status s') (sy_cluster s')"
  using p
proof (cases rule: pass_cases)
  case (report st)
  then show ?thesis using c same_core_cluster [OF decorated_same_core] by simp
next
  case (start st)
  then show ?thesis using c init_status_cluster [OF inv] same_core_cluster [OF decorated_same_core] by simp
next
  case handler
  then obtain rc' st x r where h: "rc_name rc' = n" "rc_namespace rc' = ns" "es_phase (sy_status s) \<noteq> PhaseUnset"
    "decorated (sy_status s) st" "getEngineState pf (reader_of s) (sy_spec s) n st (rc_class rc') = Inr x"
    "phase_step rc' (sy_spec s) (sy_meta s) x st = Inr r"
    "sy_cluster s' = fst (run_writes outcome srv (result_writes r) (sy_cluster s))"
    "sy_status s' = sy_status s \<or> decorated (r_status (stamp now x r)) (sy_status s')"
    by (auto simp: handler_ran_def rc dest: admitted_names)
  have st: "status_inv st" "es_phase st \<noteq> PhaseUnset" "cluster_inv n ns st (sy_cluster s)"
    using inv h(3) c same_core_inv [OF decorated_same_core [OF h(4)]] same_core_cluster [OF decorated_same_core [OF h(4)]]
    by (simp_all add: decorated_core [OF h(4)])
  have keep: "cluster_inv n ns (sy_status s) (sy_cluster s')" by (rule pass_keeps_old [OF inv c rc srv p])
  have move: "cluster_inv n ns (r_status r) (sy_cluster s')"
    using pass_keeps_cluster [OF st h(5,1,2) srv h(6), of outcome] by (simp add: h(7))
  from h(8) show ?thesis
  proof
    assume "sy_status s' = sy_status s"
    with keep show ?thesis by simp
  next
    assume "decorated (r_status (stamp now x r)) (sy_status s')"
    with move show ?thesis
      using same_core_cluster [OF stamp_same_core] same_core_cluster [OF decorated_same_core] by blast
  qed
qed

definition sys_inv :: "string \<Rightarrow> string \<Rightarrow> sys \<Rightarrow> bool" where
  "sys_inv n ns s \<longleftrightarrow> status_inv (sy_status s) \<and> cluster_inv n ns (sy_status s) (sy_cluster s)"

lemma fresh_sys_inv: "fresh_sys n s \<Longrightarrow> sys_inv n ns s"
  by (auto simp: sys_inv_def fresh_status_inv fresh_sys_def cluster_inv_def route_ok_def needed_gens_def)

lemma step_sys_inv:
  assumes "\<And>t. sts_name (srv t) = sts_name t" "sys_step n ns pf srv s s'" "sys_inv n ns s"
  shows "sys_inv n ns s'"
proof -
  have "status_inv (sy_status s')"
    using assms by (auto simp: sys_inv_def intro: step_status_inv hostile_step.cooperative)
  moreover from assms(2) have "cluster_inv n ns (sy_status s') (sy_cluster s')"
  proof cases
    case (pass rc ca outcome so now pa)
    then show ?thesis
      using assms(3) pass_cluster_inv [OF _ _ _ _ assms(1)] unfolding sys_inv_def by (metis prod.collapse)
  qed (use assms(3) sweep_keeps in \<open>auto simp: sys_inv_def same_core_cluster\<close>)
  ultimately show ?thesis by (simp add: sys_inv_def)
qed

text \<open>An API server that renames what it stores is not one; with any other the invariant holds.\<close>

definition named_store :: "(stateful_set \<Rightarrow> stateful_set) \<Rightarrow> stateful_set \<Rightarrow> stateful_set" where
  "named_store srv t = (srv t)\<lparr>sts_name := sts_name t\<rparr>"

lemma named_store_id:
  assumes "\<And>t. sts_name (srv t) = sts_name t"
  shows "named_store srv = srv"
proof
  fix t
  have "named_store srv t = (srv t)\<lparr>sts_name := sts_name (srv t)\<rparr>" by (simp add: named_store_def assms)
  then show "named_store srv t = srv t" by simp
qed

interpretation fleet: invariant_system "sys_step n ns pf (named_store srv)" "sys_inv n ns" for n ns pf srv
  by unfold_locales (rule step_sys_inv, auto simp: named_store_def)

lemma reachable_sys_inv:
  assumes "(sys_step n ns pf srv)\<^sup>*\<^sup>* s s'" "fresh_sys n s" "\<And>t. sts_name (srv t) = sts_name t"
  shows "sys_inv n ns s'"
  using fleet.reach_keeps [of n ns pf srv] assms fresh_sys_inv by (simp add: named_store_id)

end
