(* ===== verification/Engine_Converge.thy ===== *)
theory Engine_Converge
  imports Engine_Apply
begin

text \<open>
  Convergence of the engine controller: from any state the system can be in, a bounded number of
  undisturbed passes brings the engine to rest in the phase its spec asks for, on a StatefulSet that
  matches the spec. Undisturbed means that the API accepts the writes, that pods become ready and drain,
  that the gateway trusts the new certificate, and that spec, class and Instance stay as they are. The
  measure \<open>rank\<close> counts the passes that are left.
\<close>

section \<open>Undisturbed passes\<close>

text \<open>The inputs of a pass in which every lookup succeeds: the class and the Instance data of \<open>rc\<close>, no Preset,
  nothing rejected; a warning event may be there.\<close>

definition undisturbed :: "render_ctx \<Rightarrow> sts_event option \<Rightarrow> pass_inputs" where
  "undisturbed rc ev = \<lparr>pa_class = ClassFound (rc_class rc), pa_preset = PresetFound None,
     pa_instance = Inr (rc_info rc), pa_rejected = None, pa_event = ev\<rparr>"

definition full_pass ::
  "condition_api \<Rightarrow> sts_event option \<Rightarrow> (string \<Rightarrow> int option) \<Rightarrow> (stateful_set \<Rightarrow> stateful_set) \<Rightarrow> time \<Rightarrow> render_ctx
     \<Rightarrow> sys \<Rightarrow> sys" where
  "full_pass ca ev pf srv now rc s = snd (reconcile_pass ca pf srv (\<lambda>_. None) willing_status now (undisturbed rc ev) rc s)"

text \<open>The same pass without its reporting: no conditions, no applied Preset.\<close>

definition core_pass ::
  "(string \<Rightarrow> int option) \<Rightarrow> (stateful_set \<Rightarrow> stateful_set) \<Rightarrow> time \<Rightarrow> render_ctx \<Rightarrow> sys \<Rightarrow> sys" where
  "core_pass pf srv now rc s =
     (if es_phase (sy_status s) = PhaseUnset then s\<lparr>sy_status := init_status (sy_status s)\<rparr>
      else case and_then (getEngineState pf (reader_of s) (sy_spec s) (rc_name rc) (sy_status s) (rc_class rc))
                  (\<lambda>x. computeEngineReconcile now rc (sy_spec s) (sy_meta s) x (sy_status s)) of
             Inl e \<Rightarrow> s
           | Inr r \<Rightarrow> s\<lparr>sy_cluster := fold (exec_write srv) (result_writes r) (sy_cluster s), sy_status := r_status r\<rparr>)"

definition obliging ::
  "(string \<Rightarrow> int option) \<Rightarrow> (stateful_set \<Rightarrow> stateful_set) \<Rightarrow> render_ctx \<Rightarrow> sys \<Rightarrow> bool" where
  "obliging pf srv rc s \<longleftrightarrow>
     sp_replicas (sy_spec s) \<le> MaxEngineReplicas \<and>
     (\<forall>g. fst (checkPodsReady (sy_pods s g) (sp_replicas (sy_spec s)))) \<and>
     (\<forall>g. checkDrainComplete pf (sy_scrape s) g (sy_pods s g) = Inr True) \<and>
     (ii_tls (rc_info rc) = None \<or> ii_engineTrustBundleReady (rc_info rc)) \<and>
     (\<forall>g. in_int64 g \<longrightarrow> pass_matches rc (sy_spec s) (srv (pass_sts rc (sy_spec s) g)))"

text \<open>No certificate re-issue is pending: a recorded fingerprint is the live one.\<close>

definition fingerprint_current :: "render_ctx \<Rightarrow> engine_status \<Rightarrow> bool" where
  "fingerprint_current rc st =
     (case ii_tls (rc_info rc) of
        None \<Rightarrow> True
      | Some t \<Rightarrow> es_observedEngineServingCertFP st = [] \<or> es_observedEngineServingCertFP st = rt_servingCertFP t)"

text \<open>No StatefulSet of a generation that has not begun.\<close>

definition no_future :: "string \<Rightarrow> sys \<Rightarrow> bool" where
  "no_future n s \<longleftrightarrow> (\<forall>g > es_currentGeneration (sy_status s). \<not> has_sts n (sy_cluster s) g)"

definition fits :: "render_ctx \<Rightarrow> sys \<Rightarrow> bool" where
  "fits rc s =
     (case cl_sts (sy_cluster s) (genResourceName (rc_name rc) (es_currentGeneration (sy_status s)) []) of
        None \<Rightarrow> False | Some t \<Rightarrow> pass_matches rc (sy_spec s) t)"

definition routed :: "render_ctx \<Rightarrow> sys \<Rightarrow> bool" where
  "routed rc s \<longleftrightarrow> cl_svc (sy_cluster s) (rc_name rc @ SuffixService) = Some (pass_svc rc (es_currentGeneration (sy_status s)))"

definition rank :: "render_ctx \<Rightarrow> sys \<Rightarrow> nat" where
  "rank rc s =
     (let again = (if fits rc s then 0 else 7)
      in case es_phase (sy_status s) of
           PhaseUnset \<Rightarrow> 8
         | PhaseCreating \<Rightarrow> if fits rc s then 5
                            else if has_sts (rc_name rc) (sy_cluster s) (es_currentGeneration (sy_status s)) then 7 else 6
         | PhaseSwitching \<Rightarrow> again + (if routed rc s then 3 else 4)
         | PhaseDraining \<Rightarrow> again + 2
         | PhaseCleaning \<Rightarrow> again + 1
         | _ \<Rightarrow> again)"

lemma rank_bound: "rank rc s \<le> 11"
  by (simp add: rank_def Let_def split: engine_phase.splits)

section \<open>A pass, computed\<close>

lemma run_all: "run_writes (\<lambda>_. None) srv ws c = (fold (exec_write srv) ws c, None)"
  by (induction ws arbitrary: c) auto

lemma core_pass_eq:
  assumes set: "es_phase (sy_status s) \<noteq> PhaseUnset"
    and obs: "getEngineState pf (reader_of s) (sy_spec s) (rc_name rc) (sy_status s) (rc_class rc) = Inr x"
    and step: "phase_step rc (sy_spec s) (sy_meta s) x (sy_status s) = Inr r"
  shows "core_pass pf srv now rc s =
    s\<lparr>sy_cluster := fold (exec_write srv) (result_writes r) (sy_cluster s), sy_status := r_status (stamp now x r)\<rparr>"
proof -
  have w: "result_writes (stamp now x r) = result_writes r" by (simp add: result_writes_def)
  show ?thesis using set by (simp add: core_pass_def obs computeEngineReconcile_def step w)
qed

lemma read_draining_ok:
  assumes "\<And>g. checkDrainComplete pf (sy_scrape s) g (sy_pods s g) = Inr True"
  shows "read_draining pf (reader_of s) spec n st ci raw =
     Inr (if 0 \<le> draining_gen st \<and> draining_gen st \<noteq> es_currentGeneration st
       then raw\<lparr>rw_drainingSTS := cl_sts (sy_cluster s) (genResourceName n (draining_gen st) []),
                rw_drainingConfigMap := cl_cm (sy_cluster s) (genResourceName n (draining_gen st) SuffixConfig),
                rw_drainingHeadlessSvc := cl_svc (sy_cluster s) (genResourceName n (draining_gen st) SuffixHL),
                rw_drainingPodsDrained := True\<rparr>
       else raw)"
  using assms by (simp add: read_draining_def reader_of_def getStatefulSet_def getConfigMap_def getHeadlessService_def Let_def)

lemma observe_ok:
  assumes inv: "sys_inv n ns s" and set: "es_phase (sy_status s) \<noteq> PhaseUnset" and ob: "obliging pf srv rc s"
    and range: "in_int64 (es_currentGeneration (sy_status s))" and rc: "rc_name rc = n" "rc_namespace rc = ns"
  obtains x where "getEngineState pf (reader_of s) (sy_spec s) n (sy_status s) ci = Inr x"
    "x_currentPodsReady x = (x_currentSTS x \<noteq> None)"
    "es_phase (sy_status s) = PhaseDraining \<Longrightarrow> x_drainingPodsDrained x"
    "(x_targetGen x = es_currentGeneration (sy_status s)) = routed rc s"
proof -
  let ?st = "sy_status s" and ?svc = "cl_svc (sy_cluster s) (n @ SuffixService)"
  have st: "status_inv ?st" and route: "route_ok n ns ?st ?svc" using inv by (simp_all add: sys_inv_def cluster_inv_def)
  have pods: "fst (checkPodsReady (sy_pods s g) (sp_replicas (sy_spec s)))"
    "checkDrainComplete pf (sy_scrape s) g (sy_pods s g) = Inr True" for g
    using ob by (simp_all add: obliging_def)
  define raw1 where "raw1 = (if 0 \<le> es_currentGeneration ?st then
       (let sts = cl_sts (sy_cluster s) (genResourceName n (es_currentGeneration ?st) []);
            raw1 = empty_raw\<lparr>rw_currentSTS := sts,
                      rw_currentConfigMap := cl_cm (sy_cluster s) (genResourceName n (es_currentGeneration ?st) SuffixConfig),
                      rw_currentHeadlessSvc := cl_svc (sy_cluster s) (genResourceName n (es_currentGeneration ?st) SuffixHL)\<rparr>
        in if sts \<noteq> None then
             (case checkPodsReady (sy_pods s (es_currentGeneration ?st)) (sp_replicas (sy_spec s)) of (a, b, d) \<Rightarrow>
                raw1\<lparr>rw_currentPodsReady := a, rw_currentPodTotal := b, rw_currentPodReady := d\<rparr>)
           else raw1)
     else empty_raw)"
  obtain a b where act: "read_active (reader_of s) n ?st raw1 = Inr (raw1\<lparr>rw_activeSTS := a, rw_activePodReady := b\<rparr>)"
    using read_active_reader by blast
  define raw3 where "raw3 = (let raw2 = raw1\<lparr>rw_activeSTS := a, rw_activePodReady := b\<rparr>
     in if 0 \<le> draining_gen ?st \<and> draining_gen ?st \<noteq> es_currentGeneration ?st
       then raw2\<lparr>rw_drainingSTS := cl_sts (sy_cluster s) (genResourceName n (draining_gen ?st) []),
                rw_drainingConfigMap := cl_cm (sy_cluster s) (genResourceName n (draining_gen ?st) SuffixConfig),
                rw_drainingHeadlessSvc := cl_svc (sy_cluster s) (genResourceName n (draining_gen ?st) SuffixHL),
                rw_drainingPodsDrained := True\<rparr>
       else raw2)"
  have dr: "read_draining pf (reader_of s) (sy_spec s) n ?st ci (raw1\<lparr>rw_activeSTS := a, rw_activePodReady := b\<rparr>) = Inr raw3"
    unfolding read_draining_ok [OF pods(2)] raw3_def Let_def ..
  have drained: "0 \<le> draining_gen ?st \<and> draining_gen ?st \<noteq> es_currentGeneration ?st \<Longrightarrow> rw_drainingPodsDrained raw3"
    and same: "rw_currentPodsReady raw3 = rw_currentPodsReady raw1" "rw_currentSTS raw3 = rw_currentSTS raw1"
    by (simp_all add: raw3_def Let_def)
  have get: "getEngineState pf (reader_of s) (sy_spec s) n ?st ci = assembleEngineState ?st (raw3\<lparr>rw_clusterService := ?svc\<rparr>)"
    unfolding getEngineState_def read_current_reader raw1_def [symmetric] by (simp add: act dr) (simp add: reader_of_def)
  have small: "in_int64 g" if "0 \<le> g" "g \<le> es_currentGeneration ?st" for g
    using that range by (simp add: in_int64_def)
  have "?svc = None \<or> (\<exists>g. in_int64 g \<and> ?svc = Some (buildClusterService n ns g))"
  proof (cases ?svc)
    case (Some svc)
    with route obtain g where "0 \<le> g" "g \<le> es_currentGeneration ?st" "svc = buildClusterService n ns g"
      by (auto simp: route_ok_def)
    with Some small show ?thesis by blast
  qed simp
  then have "\<exists>x. assembleEngineState ?st (raw3\<lparr>rw_clusterService := ?svc\<rparr>) = Inr x"
    by (auto simp: assembleEngineState_def Let_def buildClusterService_def atoi_itoa)
  then obtain x where x: "assembleEngineState ?st (raw3\<lparr>rw_clusterService := ?svc\<rparr>) = Inr x" by blast
  with get have obs: "getEngineState pf (reader_of s) (sy_spec s) n ?st ci = Inr x" by simp
  note f = assemble_shape [OF x] assemble_fields
  have ready: "x_currentPodsReady x = (x_currentSTS x \<noteq> None)"
    using pods(1) by (auto simp: f same raw1_def Let_def split: prod.splits) (metis fst_conv)+
  have dp: "x_drainingPodsDrained x" if "es_phase ?st = PhaseDraining"
    using that st drained by (auto simp: f status_inv_def)
  have "(x_targetGen x = es_currentGeneration ?st) = routed rc s"
  proof
    assume "x_targetGen x = es_currentGeneration ?st"
    then show "routed rc s"
      using routed_generation [OF route obs] inv_nonneg [OF st] rc by (simp add: routed_def pass_svc_def)
  next
    assume "routed rc s"
    then show "x_targetGen x = es_currentGeneration ?st"
      using range rc by (simp add: observed_target [OF obs] routed_def pass_svc_def buildClusterService_def atoi_itoa)
  qed
  with obs ready dp show thesis by (rule that)
qed

section \<open>Each pass brings the engine nearer\<close>

definition sts_write_at :: "string \<Rightarrow> api_write \<Rightarrow> bool" where
  "sts_write_at k w \<longleftrightarrow> (\<exists>t. (w = Ensure (OSts t) \<or> w = Delete (OSts t)) \<and> sts_name t = k)"

lemma exec_untouched: "\<not> sts_write_at k w \<Longrightarrow> cl_sts (exec_write srv w c) k = cl_sts c k"
proof (cases w)
  case (Ensure ob)
  moreover assume "\<not> sts_write_at k w"
  ultimately show ?thesis by (cases ob) (auto simp: sts_write_at_def)
next
  case (Delete ob)
  moreover assume "\<not> sts_write_at k w"
  ultimately show ?thesis by (cases ob) (auto simp: sts_write_at_def)
qed

lemma fold_untouched:
  "(\<And>w. w \<in> set ws \<Longrightarrow> \<not> sts_write_at k w) \<Longrightarrow> cl_sts (fold (exec_write srv) ws c) k = cl_sts c k"
  by (induction ws arbitrary: c) (auto simp: exec_untouched)

lemma fold_ensured:
  assumes "Ensure (OSts t) \<in> set ws" "\<And>w. w \<in> set ws \<Longrightarrow> sts_write_at (sts_name t) w \<Longrightarrow> w = Ensure (OSts t)"
  shows "cl_sts (fold (exec_write srv) ws c) (sts_name t) = Some (srv t)"
  using assms
proof (induction ws arbitrary: c)
  case (Cons w ws)
  show ?case
  proof (cases "Ensure (OSts t) \<in> set ws")
    case False
    then have "cl_sts (fold (exec_write srv) ws d) (sts_name t) = cl_sts d (sts_name t)" for d
      using Cons.prems(2) by (intro fold_untouched) auto
    with False Cons.prems(1) show ?thesis by auto
  qed (use Cons in auto)
qed simp

lemma fold_created:
  assumes "cl_sts (fold (exec_write srv) ws c) k \<noteq> None"
  shows "cl_sts c k \<noteq> None \<or> (\<exists>t. Ensure (OSts t) \<in> set ws \<and> sts_name t = k)"
proof (rule ccontr)
  assume a: "\<not> ?thesis"
  have "cl_sts (fold (exec_write srv) ws c) k = None"
    if "cl_sts c k = None" "\<And>t. Ensure (OSts t) \<in> set ws \<Longrightarrow> sts_name t \<noteq> k" for c
    using that
  proof (induction ws arbitrary: c)
    case (Cons w ws)
    then have "cl_sts (exec_write srv w c) k = None"
    proof (cases w)
      case (Ensure ob)
      with Cons.prems show ?thesis by (cases ob) auto
    next
      case (Delete ob)
      with Cons.prems show ?thesis by (cases ob) auto
    qed
    with Cons show ?case by auto
  qed simp
  with a assms show False by auto
qed

lemma core_pass_frame:
  "sy_spec (core_pass pf srv now rc s) = sy_spec s" "sy_pods (core_pass pf srv now rc s) = sy_pods s"
  "sy_scrape (core_pass pf srv now rc s) = sy_scrape s"
  by (auto simp: core_pass_def split: sum.splits)

lemma core_pass_obliging: "obliging pf srv rc (core_pass pf srv now rc s) = obliging pf srv rc s"
  by (simp add: obliging_def core_pass_frame)

lemma ensured_sts:
  assumes "phase_step rc spec meta x st = Inr r" "r_ensureStatefulSet r = Some t"
  shows "t = pass_sts rc spec (es_currentGeneration st)"
  using assms
  by (auto simp: phase_step_def computeStable_def settle_def computeCreating_def computeSwitching_def
      computeDraining_def computeCleaning_def buildGenResources_def Let_def
      split: engine_phase.splits option.splits if_splits)

lemma fingerprint_stamp [simp]: "fingerprint_current rc (r_status (stamp now x r)) = fingerprint_current rc (r_status r)"
  by (simp add: fingerprint_current_def stamp_def split: option.splits)

lemma fingerprint_update [simp]:
  "fingerprint_current rc (st\<lparr>es_currentGeneration := g\<rparr>) = fingerprint_current rc st"
  "fingerprint_current rc (st\<lparr>es_phase := p\<rparr>) = fingerprint_current rc st"
  "fingerprint_current rc (st\<lparr>es_activeGeneration := g\<rparr>) = fingerprint_current rc st"
  "fingerprint_current rc (st\<lparr>es_drainingGeneration := d\<rparr>) = fingerprint_current rc st"
  "fingerprint_current rc (record_serving_cert rc st)"
  by (simp_all add: fingerprint_current_def record_serving_cert_def split: option.splits)

lemma computeStable_fingerprint:
  "computeStable rc spec meta x st = Inr r \<Longrightarrow> fingerprint_current rc st \<Longrightarrow> fingerprint_current rc (r_status r)"
  by (auto simp: computeStable_def settle_def bump_generation_def Let_def split: option.splits if_splits)

lemma computeCreating_fingerprint:
  "fingerprint_current rc (r_status (computeCreating rc spec x st)) = fingerprint_current rc st"
  using computeCreating_status [of rc spec x st] by auto

lemma step_fingerprint:
  assumes "phase_step rc spec meta x st = Inr r" "fingerprint_current rc st"
  shows "fingerprint_current rc (r_status (stamp now x r))"
  using assms computeStable_fingerprint
  by (cases "es_phase st")
    (auto simp: phase_step_def computeCreating_fingerprint computeSwitching_status computeDraining_status
      computeCleaning_status)

lemma no_reissue: "fingerprint_current rc st \<Longrightarrow> \<not> serving_cert_reissued rc st"
  by (auto simp: fingerprint_current_def serving_cert_reissued_def split: option.splits)

lemma step_current_grows:
  assumes "phase_step rc spec meta x st = Inr r"
  shows "es_currentGeneration st \<le> es_currentGeneration (r_status r)
    \<and> es_currentGeneration (r_status r) \<le> es_currentGeneration st + 1"
proof -
  have "es_currentGeneration (r_status (computeCreating rc spec x st)) \<in> {es_currentGeneration st, es_currentGeneration st + 1}"
    using computeCreating_status [of rc spec x st] by auto
  then show ?thesis
    using assms computeStable_status [of rc spec meta x st r]
    by (auto simp: phase_step_def computeSwitching_status computeDraining_status computeCleaning_status
        split: engine_phase.splits if_splits)
qed

lemma step_no_future:
  assumes nf: "no_future n s" and rc: "rc_name rc = n" and inv: "status_inv (sy_status s)"
    and step: "phase_step rc (sy_spec s) (sy_meta s) x (sy_status s) = Inr r"
  shows "no_future n (s\<lparr>sy_cluster := fold (exec_write srv) (result_writes r) (sy_cluster s),
      sy_status := r_status (stamp now x r)\<rparr>)"
proof -
  have "\<not> has_sts n (fold (exec_write srv) (result_writes r) (sy_cluster s)) g"
    if g: "es_currentGeneration (r_status r) < g" for g
  proof
    assume "has_sts n (fold (exec_write srv) (result_writes r) (sy_cluster s)) g"
    then consider "has_sts n (sy_cluster s) g"
      | t where "Ensure (OSts t) \<in> set (result_writes r)" "sts_name t = genResourceName n g []"
      unfolding has_sts_def using fold_created by blast
    then show False
    proof cases
      case 1
      with nf g step_current_grows [OF step] show False by (auto simp: no_future_def)
    next
      case 2
      then have "t = pass_sts rc (sy_spec s) (es_currentGeneration (sy_status s))"
        using ensured_sts [OF step] by (auto simp: set_result_writes)
      with 2 rc have "genResourceName n (es_currentGeneration (sy_status s)) [] = genResourceName n g []" by simp
      then have "g = es_currentGeneration (sy_status s)"
        using genResourceName_inject inv_nonneg [OF inv] step_current_grows [OF step] g by auto
      with g step_current_grows [OF step] show False by simp
    qed
  qed
  then show ?thesis by (simp add: no_future_def)
qed

definition live ::
  "string \<Rightarrow> string \<Rightarrow> (string \<Rightarrow> int option) \<Rightarrow> (stateful_set \<Rightarrow> stateful_set) \<Rightarrow> render_ctx \<Rightarrow> sys \<Rightarrow> bool" where
  "live n ns pf srv rc s \<longleftrightarrow>
     sys_inv n ns s \<and> obliging pf srv rc s \<and> fingerprint_current rc (sy_status s) \<and> no_future n s \<and>
     es_currentGeneration (sy_status s) + int (rank rc s) < 2 ^ 63"

lemma live_range: "live n ns pf srv rc s \<Longrightarrow> in_int64 (es_currentGeneration (sy_status s))"
  using inv_nonneg [of "sy_status s"] by (simp add: live_def in_int64_def sys_inv_def)

lemma fits_observed:
  assumes "getEngineState pf (reader_of s) (sy_spec s) (rc_name rc) (sy_status s) ci = Inr x" "status_inv (sy_status s)"
  shows "fits rc s \<longleftrightarrow> (\<exists>t. x_currentSTS x = Some t \<and> pass_matches rc (sy_spec s) t)"
    and "drifted rc (sy_spec s) x \<longleftrightarrow> x_currentSTS x \<noteq> None \<and> \<not> fits rc s"
    and "has_sts (rc_name rc) (sy_cluster s) (es_currentGeneration (sy_status s)) \<longleftrightarrow> x_currentSTS x \<noteq> None"
  using observed_sts [OF assms(1)] inv_nonneg [OF assms(2)]
  by (auto simp: fits_def drifted_def has_sts_def split: option.splits)

lemma created_fits:
  assumes "obliging pf srv rc s" "in_int64 g" "es_currentGeneration st = g"
    and "r_ensureStatefulSet r = Some (pass_sts rc (sy_spec s) g)" "r_deleteResources r = []"
  shows "fits rc (s\<lparr>sy_cluster := fold (exec_write srv) (result_writes r) (sy_cluster s), sy_status := st\<rparr>)"
proof -
  have "cl_sts (fold (exec_write srv) (result_writes r) (sy_cluster s)) (sts_name (pass_sts rc (sy_spec s) g))
      = Some (srv (pass_sts rc (sy_spec s) g))"
    using assms by (intro fold_ensured) (auto simp: set_result_writes sts_write_at_def)
  with assms show ?thesis by (simp add: fits_def obliging_def)
qed

lemma fits_kept:
  assumes "\<And>w. w \<in> set (result_writes r) \<Longrightarrow> \<not> sts_write_at (genResourceName (rc_name rc) g []) w"
    and "es_currentGeneration st = g" "es_currentGeneration (sy_status s) = g"
  shows "fits rc (s\<lparr>sy_cluster := fold (exec_write srv) (result_writes r) (sy_cluster s), sy_status := st\<rparr>) = fits rc s"
  using fold_untouched [OF assms(1)] assms(2,3) by (simp add: fits_def cong: option.case_cong)

lemma missing_rank:
  assumes "no_future n s" "rc_name rc = n" "es_phase (sy_status s) = PhaseCreating"
    "\<not> has_sts n (sy_cluster s) (es_currentGeneration (sy_status s))"
  shows "rank rc s = 6"
  using assms by (simp add: rank_def fits_def has_sts_def)

lemma terminal_rank:
  "es_phase (sy_status s) = terminalPhase spec \<Longrightarrow> rank rc s = (if fits rc s then 0 else 7)"
  by (simp add: rank_def terminalPhase_def split: if_splits)

lemma new_generation_rank:
  assumes nf: "no_future n s" and rc: "rc_name rc = n" and st: "es_phase st = PhaseCreating"
    and "es_currentGeneration st = es_currentGeneration (sy_status s) + 1" and ns: "r_ensureStatefulSet r = None"
  shows "rank rc (s\<lparr>sy_cluster := fold (exec_write srv) (result_writes r) (sy_cluster s), sy_status := st\<rparr>) = 6"
proof -
  have "\<not> has_sts n (fold (exec_write srv) (result_writes r) (sy_cluster s)) (es_currentGeneration (sy_status s) + 1)"
    using nf fold_created [of srv "result_writes r"] ns unfolding has_sts_def no_future_def
    by (auto simp: set_result_writes) force
  with assms show ?thesis by (simp add: rank_def fits_def has_sts_def)
qed

lemma pass_ranks_down:
  assumes live: "live n ns pf srv rc s" and rc: "rc_name rc = n" "rc_namespace rc = ns" and pos: "rank rc s > 0"
  shows "rank rc (core_pass pf srv now rc s) < rank rc s"
proof (cases "es_phase (sy_status s) = PhaseUnset")
  case True
  then show ?thesis
    by (simp add: core_pass_def rank_def init_status_def Let_def fits_def)
next
  case set: False
  let ?st = "sy_status s" and ?g = "es_currentGeneration (sy_status s)"
  have inv: "status_inv ?st" and ob: "obliging pf srv rc s" and nf: "no_future n s"
    and fp: "fingerprint_current rc ?st" and key: "keyed (sy_cluster s)"
    using live by (simp_all add: live_def sys_inv_def cluster_inv_def)
  obtain x where obs: "getEngineState pf (reader_of s) (sy_spec s) n ?st (rc_class rc) = Inr x"
    and ready: "x_currentPodsReady x = (x_currentSTS x \<noteq> None)"
    and drained: "es_phase ?st = PhaseDraining \<Longrightarrow> x_drainingPodsDrained x"
    and target: "(x_targetGen x = ?g) = routed rc s"
    using observe_ok [OF _ set ob live_range [OF live] rc] live by (auto simp: live_def)
  note f = fits_observed [OF obs [folded rc(1)] inv, unfolded rc(1)]
  obtain r where step: "phase_step rc (sy_spec s) (sy_meta s) x ?st = Inr r" using phase_step_total [OF inv set] by blast
  have pass: "core_pass pf srv now rc s =
    s\<lparr>sy_cluster := fold (exec_write srv) (result_writes r) (sy_cluster s), sy_status := r_status (stamp now x r)\<rparr>"
    using core_pass_eq [OF set _ step] obs rc by blast
  show ?thesis
  proof (cases "terminal (es_phase ?st)")
    case True
    with pos have nfit: "\<not> fits rc s" and rank: "rank rc s = 7"
      by (auto simp: rank_def terminal_def Let_def split: if_splits)
    from True step nfit f(1) inv have "r_status r = bump_generation ?st" "r_ensureStatefulSet r = None"
      by (auto simp: terminal_def phase_step_def computeStable_def status_inv_def split: option.splits if_splits)
    with rank show ?thesis
      unfolding pass using new_generation_rank [OF nf rc(1)] by (simp add: bump_generation_def)
  next
    case nt: False
    show ?thesis
    proof (cases "es_phase ?st")
      case PhaseCreating
      have r: "r = computeCreating rc (sy_spec s) x ?st" using step PhaseCreating by (simp add: phase_step_def)
      have tls: "\<not> (ii_tls (rc_info rc) \<noteq> None \<and> \<not> ii_engineTrustBundleReady (rc_info rc))"
        using ob by (auto simp: obliging_def)
      consider (fit) "fits rc s" | (drift) "x_currentSTS x \<noteq> None" "\<not> fits rc s" | (none) "x_currentSTS x = None" by blast
      then show ?thesis
      proof cases
        case fit
        with f ready tls have nd: "\<not> drifted rc (sy_spec s) x" "x_currentPodsReady x" by auto
        then have "r_status r = ?st\<lparr>es_phase := PhaseSwitching\<rparr>" "r_deleteResources r = []"
          "r_ensureStatefulSet r = Some (pass_sts rc (sy_spec s) ?g)"
          using tls by (auto simp: r computeCreating_def buildGenResources_def Let_def)
        moreover from this have "fits rc (core_pass pf srv now rc s)"
          unfolding pass by (intro created_fits [OF ob live_range [OF live]]) auto
        ultimately have "rank rc (core_pass pf srv now rc s) \<le> 4"
          by (simp add: rank_def) (simp add: pass)
        moreover have "rank rc s = 5" using fit PhaseCreating by (simp add: rank_def)
        ultimately show ?thesis by simp
      next
        case drift
        then have "r_status r = ?st\<lparr>es_currentGeneration := ?g + 1\<rparr>" "r_ensureStatefulSet r = None"
          using f(2) by (auto simp: r computeCreating_def Let_def)
        then have "rank rc (core_pass pf srv now rc s) = 6"
          unfolding pass using PhaseCreating by (intro new_generation_rank [OF nf rc(1)]) auto
        moreover have "rank rc s = 7" using drift f(3) rc PhaseCreating by (simp add: rank_def)
        ultimately show ?thesis by simp
      next
        case none
        then have nd: "\<not> drifted rc (sy_spec s) x" "\<not> x_currentPodsReady x" using f(2) ready by auto
        then have "r_status r = ?st" "r_deleteResources r = []"
          "r_ensureStatefulSet r = Some (pass_sts rc (sy_spec s) ?g)"
          by (auto simp: r computeCreating_def buildGenResources_def Let_def)
        moreover from this have "fits rc (core_pass pf srv now rc s)"
          unfolding pass by (intro created_fits [OF ob live_range [OF live]]) auto
        ultimately have "rank rc (core_pass pf srv now rc s) = 5"
          using PhaseCreating by (simp add: rank_def) (simp add: pass)
        moreover have "rank rc s = 6" using none f rc PhaseCreating by (simp add: rank_def)
        ultimately show ?thesis by simp
      qed
    next
      case PhaseSwitching
      have r: "r = computeSwitching rc (sy_spec s) x ?st" using step PhaseSwitching by (simp add: phase_step_def)
      have w: "\<not> sts_write_at k v" if "v \<in> set (result_writes r)" for k v
        using that by (auto simp: r computeSwitching_def set_result_writes sts_write_at_def Let_def split: if_splits)
      have g: "es_currentGeneration (r_status (stamp now x r)) = ?g" by (simp add: r computeSwitching_status)
      have fit: "fits rc (core_pass pf srv now rc s) = fits rc s"
        unfolding pass using w g by (intro fits_kept) auto
      show ?thesis
      proof (cases "routed rc s")
        case True
        then have "es_phase (r_status r) \<in> {PhaseDraining, PhaseStable, PhaseStopped}"
          using target by (auto simp: r computeSwitching_status terminalPhase_def)
        then have "rank rc (core_pass pf srv now rc s) \<le> (if fits rc s then 0 else 7) + 2"
          using fit by (auto simp: rank_def Let_def) (auto simp: pass)
        moreover have "rank rc s = (if fits rc s then 0 else 7) + 3" using True PhaseSwitching by (simp add: rank_def)
        ultimately show ?thesis by simp
      next
        case False
        then have st': "r_status r = ?st" and "result_writes r = [Ensure (OSvc (pass_svc rc ?g))]"
          using target by (auto simp: r computeSwitching_def result_writes_def opt_list_def Let_def)
        then have "routed rc (core_pass pf srv now rc s)" by (simp add: pass routed_def rc)
        then have "rank rc (core_pass pf srv now rc s) = (if fits rc s then 0 else 7) + 3"
          using fit PhaseSwitching st' by (simp add: rank_def Let_def) (simp add: pass)
        moreover have "rank rc s = (if fits rc s then 0 else 7) + 4" using False PhaseSwitching by (simp add: rank_def)
        ultimately show ?thesis by simp
      qed
    next
      case PhaseDraining
      have r: "r = computeDraining rc (sy_spec s) x ?st" using step PhaseDraining by (simp add: phase_step_def)
      have "es_drainingGeneration ?st \<noteq> None" using inv PhaseDraining by (simp add: status_inv_def)
      then have st': "r_status r = ?st\<lparr>es_phase := PhaseCleaning\<rparr>" and "result_writes r = []"
        using drained PhaseDraining by (auto simp: r computeDraining_def result_writes_def opt_list_def)
      then have "fits rc (core_pass pf srv now rc s) = fits rc s" unfolding pass by (intro fits_kept) auto
      with PhaseDraining st' show ?thesis by (simp add: rank_def Let_def) (simp add: pass)
    next
      case PhaseCleaning
      have r: "r = computeCleaning (sy_spec s) x ?st" using step PhaseCleaning by (simp add: phase_step_def)
      have d: "0 \<le> draining_gen ?st" "draining_gen ?st < ?g" "es_drainingGeneration ?st \<noteq> None"
        using inv PhaseCleaning by (simp_all add: status_inv_def)
      have w: "\<not> sts_write_at (genResourceName (rc_name rc) ?g []) v" if "v \<in> set (result_writes r)" for v
      proof
        assume "sts_write_at (genResourceName (rc_name rc) ?g []) v"
        with that d obtain t where t: "x_drainingSTS x = Some t" "sts_name t = genResourceName n ?g []"
          by (auto simp: r computeCleaning_def set_result_writes sts_write_at_def rc)
        from keyedD(1) [OF key observed_draining(1) [OF obs t(1)]] t(2) d
        show False by (simp add: genResourceName_inject)
      qed
      have st': "es_phase (r_status r) = terminalPhase (sy_spec s)" "es_currentGeneration (r_status r) = ?g"
        by (simp_all add: r computeCleaning_status)
      have "fits rc (core_pass pf srv now rc s) = fits rc s" unfolding pass using w st' by (intro fits_kept) auto
      moreover have "es_phase (sy_status (core_pass pf srv now rc s)) = terminalPhase (sy_spec s)"
        using st' by (simp add: pass)
      ultimately have "rank rc (core_pass pf srv now rc s) = (if fits rc s then 0 else 7)"
        by (simp add: terminal_rank)
      moreover have "rank rc s = (if fits rc s then 0 else 7) + 1" using PhaseCleaning by (simp add: rank_def)
      ultimately show ?thesis by simp
    qed (use inv set nt in \<open>simp_all add: status_inv_def terminal_def\<close>)
  qed
qed


lemma core_pass_kept:
  assumes live: "live n ns pf srv rc s" and rc: "rc_name rc = n" "rc_namespace rc = ns"
  shows "fingerprint_current rc (sy_status (core_pass pf srv now rc s)) \<and> no_future n (core_pass pf srv now rc s)
     \<and> es_currentGeneration (sy_status (core_pass pf srv now rc s)) \<le> es_currentGeneration (sy_status s) + 1"
proof -
  have inv: "status_inv (sy_status s)" and ob: "obliging pf srv rc s" and nf: "no_future n s"
    and fp: "fingerprint_current rc (sy_status s)"
    using live by (simp_all add: live_def sys_inv_def)
  show ?thesis
  proof (cases "es_phase (sy_status s) = PhaseUnset")
    case True
    with fp nf show ?thesis by (simp add: core_pass_def init_status_def no_future_def)
  next
    case set: False
    obtain x where obs: "getEngineState pf (reader_of s) (sy_spec s) n (sy_status s) (rc_class rc) = Inr x"
      using observe_ok [OF _ set ob live_range [OF live] rc, of "rc_class rc"] live unfolding live_def by metis
    obtain r where step: "phase_step rc (sy_spec s) (sy_meta s) x (sy_status s) = Inr r"
      using phase_step_total [OF inv set] by blast
    have pass: "core_pass pf srv now rc s = s\<lparr>sy_cluster := fold (exec_write srv) (result_writes r) (sy_cluster s),
        sy_status := r_status (stamp now x r)\<rparr>"
      using core_pass_eq [OF set _ step] obs rc by blast
    show ?thesis
      unfolding pass using step_fingerprint [OF step fp] step_no_future [OF nf rc(1) inv step] step_current_grows [OF step]
      by simp
  qed
qed

section \<open>Reporting does not matter\<close>

definition redecorate :: "condition list \<Rightarrow> string \<Rightarrow> string \<Rightarrow> time option \<Rightarrow> engine_status \<Rightarrow> engine_status" where
  "redecorate cs p h t st =
     st\<lparr>es_conditions := cs, es_appliedPresetName := p, es_appliedPresetHash := h, es_lastReconciled := t\<rparr>"

lemma decorated_iff: "decorated st st' \<longleftrightarrow> (\<exists>cs p h t. st' = redecorate cs p h t st)"
  by (cases st; cases st') (auto simp: decorated_def redecorate_def)

lemma redecorate_fields [simp]:
  "es_phase (redecorate cs p h t st) = es_phase st" "es_currentGeneration (redecorate cs p h t st) = es_currentGeneration st"
  "es_activeGeneration (redecorate cs p h t st) = es_activeGeneration st"
  "es_drainingGeneration (redecorate cs p h t st) = es_drainingGeneration st"
  "es_observedEngineServingCertFP (redecorate cs p h t st) = es_observedEngineServingCertFP st"
  "es_observedEngineServingCertGen (redecorate cs p h t st) = es_observedEngineServingCertGen st"
  by (simp_all add: redecorate_def)

definition redecorate_result :: "condition list \<Rightarrow> string \<Rightarrow> string \<Rightarrow> time option \<Rightarrow> engine_result \<Rightarrow> engine_result" where
  "redecorate_result cs p h t r = r\<lparr>r_status := redecorate cs p h t (r_status r)\<rparr>"

lemma settle_redecorate:
  "settle rc spec meta sts x (redecorate cs p h t st) = redecorate_result cs p h t (settle rc spec meta sts x st)"
  by (simp add: settle_def Let_def redecorate_result_def redecorate_def record_serving_cert_def result_of_def split: option.splits)

lemma computeCreating_redecorate:
  "computeCreating rc spec x (redecorate cs p h t st) = redecorate_result cs p h t (computeCreating rc spec x st)"
  by (auto simp: computeCreating_def Let_def redecorate_result_def redecorate_def result_of_def buildGenResources_def
      split: option.splits)

lemma computeSwitching_redecorate:
  "computeSwitching rc spec x (redecorate cs p h t st) = redecorate_result cs p h t (computeSwitching rc spec x st)"
  by (simp add: computeSwitching_def Let_def redecorate_result_def redecorate_def result_of_def)

lemma computeDraining_redecorate:
  "computeDraining rc spec x (redecorate cs p h t st) = redecorate_result cs p h t (computeDraining rc spec x st)"
  by (simp add: computeDraining_def redecorate_result_def redecorate_def result_of_def)

lemma computeCleaning_redecorate:
  "computeCleaning spec x (redecorate cs p h t st) = redecorate_result cs p h t (computeCleaning spec x st)"
  by (simp add: computeCleaning_def redecorate_result_def redecorate_def result_of_def)

lemma computeStable_redecorate:
  "computeStable rc spec meta x (redecorate cs p h t st)
     = and_then (computeStable rc spec meta x st) (\<lambda>r. Inr (redecorate_result cs p h t r))"
proof -
  have "serving_cert_reissued rc (redecorate cs p h t st) = serving_cert_reissued rc st"
    by (simp add: serving_cert_reissued_def split: option.splits)
  moreover have "(result_of (bump_generation (redecorate cs p h t st)))\<lparr>r_requeue := True\<rparr>
      = redecorate_result cs p h t ((result_of (bump_generation st))\<lparr>r_requeue := True\<rparr>)"
    by (simp add: redecorate_result_def redecorate_def bump_generation_def result_of_def)
  ultimately show ?thesis
    by (simp add: computeStable_def settle_redecorate split: option.splits)
qed

lemma phase_step_redecorate:
  "phase_step rc spec meta x (redecorate cs p h t st)
     = and_then (phase_step rc spec meta x st) (\<lambda>r. Inr (redecorate_result cs p h t r))"
  by (cases "es_phase st")
    (simp_all add: phase_step_def computeStable_redecorate computeCreating_redecorate computeSwitching_redecorate
      computeDraining_redecorate computeCleaning_redecorate,
     simp add: redecorate_result_def redecorate_def result_of_def)

lemma phase_step_info:
  "\<not> engineNeedsRender (es_phase st) \<Longrightarrow> es_phase st \<noteq> PhaseUnset \<Longrightarrow>
     phase_step (rc\<lparr>rc_info := i\<rparr>) spec meta x st = phase_step rc spec meta x st"
  by (cases "es_phase st")
    (simp_all add: engineNeedsRender_def phase_step_def computeSwitching_def computeDraining_def pass_svc_def Let_def)

text \<open>Two systems that differ in the reporting fields of the status only.\<close>

definition report_equal :: "sys \<Rightarrow> sys \<Rightarrow> bool" where
  "report_equal s s' \<longleftrightarrow> (\<exists>st. decorated (sy_status s) st \<and> s' = s\<lparr>sy_status := st\<rparr>)"

lemma report_equal_fits: "report_equal s s' \<Longrightarrow> fits rc s' = fits rc s"
  by (auto simp: report_equal_def fits_def decorated_core split: option.splits)

lemma report_equal_routed: "report_equal s s' \<Longrightarrow> routed rc s' = routed rc s"
  by (auto simp: report_equal_def routed_def decorated_core)

lemma report_equal_rank: "report_equal s s' \<Longrightarrow> rank rc s' = rank rc s"
  unfolding rank_def Let_def by (simp add: report_equal_fits report_equal_routed) (auto simp: report_equal_def decorated_core)

lemma report_equal_no_future: "report_equal s s' \<Longrightarrow> no_future n s' = no_future n s"
  by (auto simp: report_equal_def no_future_def decorated_core)

lemma report_equal_fingerprint:
  "report_equal s s' \<Longrightarrow> fingerprint_current rc (sy_status s') = fingerprint_current rc (sy_status s)"
  by (auto simp: report_equal_def fingerprint_current_def decorated_core split: option.splits)

lemma report_equal_obliging: "report_equal s s' \<Longrightarrow> obliging pf srv rc s' = obliging pf srv rc s"
  by (auto simp: report_equal_def obliging_def)

lemma finish_pass_core:
  assumes inv: "status_inv (sy_status s)" and set: "es_phase (sy_status s) \<noteq> PhaseUnset"
    and step: "phase_step rc (sy_spec s) (sy_meta s) x (sy_status s) = Inr r" and dec: "decorated (sy_status s) st"
  shows "report_equal (s\<lparr>sy_cluster := fold (exec_write srv) (result_writes r) (sy_cluster s), sy_status := r_status (stamp now x r)\<rparr>)
     (snd (finish_pass ca srv (\<lambda>_. None) willing_status now pa rc s x st))"
proof -
  obtain cs p h t where st: "st = redecorate cs p h t (sy_status s)" using dec by (auto simp: decorated_iff)
  define q where "q = stamp now x (redecorate_result cs p h t r)"
  have comp: "computeEngineReconcile now rc (sy_spec s) (sy_meta s) x st = Inr q"
    by (simp add: computeEngineReconcile_def st phase_step_redecorate step q_def)
  have "decorated (r_status (stamp now x r)) (r_status q)"
    by (auto simp: q_def decorated_def redecorate_result_def redecorate_def stamp_def)
  then have d: "decorated (r_status (stamp now x r)) (r_status (report_result ca pa s x st q))"
    using report_result_frame(2) decorated_trans by blast
  have w: "result_writes q = result_writes r"
    by (simp add: q_def result_writes_def redecorate_result_def)
  have guard: "\<not> (terminal (es_phase (r_status (report_result ca pa s x st q)))
      \<and> es_currentGeneration (r_status (report_result ca pa s x st q)) \<noteq> es_activeGeneration (r_status (report_result ca pa s x st q)))"
    using terminal_guard_silent [OF inv step set, of now] by (simp add: decorated_core [OF d])
  have "snd (finish_pass ca srv (\<lambda>_. None) willing_status now pa rc s x st)
      = s\<lparr>sy_cluster := fold (exec_write srv) (result_writes r) (sy_cluster s),
          sy_status := (r_status (report_result ca pa s x st q))\<lparr>es_lastReconciled := Some now\<rparr>\<rparr>"
    unfolding finish_pass_def comp using guard by (auto simp: applyEngineState_def w run_all)
  moreover have "decorated (r_status (stamp now x r)) ((r_status (report_result ca pa s x st q))\<lparr>es_lastReconciled := Some now\<rparr>)"
    by (rule decorated_trans [OF d]) (simp add: decorated_def)
  ultimately show ?thesis by (auto simp: report_equal_def)
qed

lemma full_pass_core:
  assumes live: "live n ns pf srv rc s" and rc: "rc_name rc = n" "rc_namespace rc = ns"
  shows "report_equal (core_pass pf srv now rc s) (full_pass ca ev pf srv now rc s)"
proof (cases "es_phase (sy_status s) = PhaseUnset")
  case True
  let ?st = "(set_condition ca (mk_condition ConditionReady False ''Initializing''
      ''Engine status has not yet been populated'' (sy_meta s)) (init_status (sy_status s)))\<lparr>es_lastReconciled := Some now\<rparr>"
  from True have "full_pass ca ev pf srv now rc s = s\<lparr>sy_status := ?st\<rparr>"
    by (simp add: full_pass_def reconcile_pass_def persist_def)
  moreover have "decorated (init_status (sy_status s)) ?st" by (simp add: decorated_def set_condition_def)
  ultimately show ?thesis
    using True unfolding report_equal_def core_pass_def by (intro exI conjI) auto
next
  case set: False
  have inv: "status_inv (sy_status s)" and ob: "obliging pf srv rc s"
    using live by (simp_all add: live_def sys_inv_def)
  obtain x where obs: "getEngineState pf (reader_of s) (sy_spec s) (rc_name rc) (sy_status s) (rc_class rc) = Inr x"
    using observe_ok [OF _ set ob live_range [OF live] rc, of "rc_class rc"] live rc unfolding live_def by metis
  obtain r where step: "phase_step rc (sy_spec s) (sy_meta s) x (sy_status s) = Inr r"
    using phase_step_total [OF inv set] by blast
  have ov: "resolveEngineOverlays (rc_env rc) b (ClassFound (rc_class rc)) (PresetFound None) = OverlayOk (rc_class rc)" for b
    by (simp add: resolveEngineOverlays_def overlayPresetOnClass_def)
  define st1 where "st1 = syncAppliedPresetStatus (sy_status s) (appliedPresetStatefulSet (sy_status s) (sy_status s) x)"
  have d1: "decorated (sy_status s) st1" by (simp add: st1_def)
  have pass: "full_pass ca ev pf srv now rc s = snd (pass_gated ca srv (\<lambda>_. None) willing_status now (undisturbed rc ev) rc s (rc_class rc) x)"
    using set by (simp add: full_pass_def reconcile_pass_def pass_observed_def obs ov undisturbed_def)
  note core = core_pass_eq [OF set obs step]
  show ?thesis
  proof (cases "engineNeedsRender (es_phase (sy_status s))")
    case True
    then have "full_pass ca ev pf srv now rc s = snd (finish_pass ca srv (\<lambda>_. None) willing_status now (undisturbed rc ev) rc s x
        (set_condition ca (mk_condition ConditionInstanceReady True ''InstanceReady''
           ''Referenced FireboltInstance is ready'' (sy_meta s)) st1))"
      using ob by (simp add: pass pass_gated_def st1_def [symmetric] undisturbed_def gate_rejection_def obliging_def)
    then show ?thesis
      unfolding core using finish_pass_core [OF inv set step decorated_trans [OF d1 decorated_set_condition]] by simp
  next
    case False
    have "phase_step (rc\<lparr>rc_info := empty_info\<rparr>) (sy_spec s) (sy_meta s) x (sy_status s) = Inr r"
      using phase_step_info [OF False set] step by simp
    from finish_pass_core [OF inv set this d1] False show ?thesis
      unfolding core by (simp add: pass pass_gated_def st1_def [symmetric])
  qed
qed

section \<open>Each full pass brings the engine nearer\<close>

lemma full_pass_ranks_down:
  assumes "live n ns pf srv rc s" "rc_name rc = n" "rc_namespace rc = ns" "rank rc s > 0"
  shows "rank rc (full_pass ca ev pf srv now rc s) < rank rc s"
  using report_equal_rank [OF full_pass_core [OF assms(1-3)]] pass_ranks_down [OF assms] by simp

lemma full_pass_frame:
  assumes "live n ns pf srv rc s" "rc_name rc = n" "rc_namespace rc = ns"
  shows "sy_spec (full_pass ca ev pf srv now rc s) = sy_spec s" "sy_meta (full_pass ca ev pf srv now rc s) = sy_meta s"
  using full_pass_core [OF assms, of now ca ev] by (auto simp: report_equal_def core_pass_def split: sum.splits)

lemma pass_stays_live:
  assumes live: "live n ns pf srv rc s" and rc: "rc_name rc = n" "rc_namespace rc = ns"
    and srv: "\<And>t. sts_name (srv t) = sts_name t" and pos: "rank rc s > 0"
  shows "live n ns pf srv rc (full_pass ca ev pf srv now rc s)"
proof -
  let ?s = "full_pass ca ev pf srv now rc s"
  note eq = full_pass_core [OF live rc, of now ca ev]
  have "sys_step n ns pf srv s ?s" unfolding full_pass_def using rc by (rule sys_step.pass)
  moreover have "sys_inv n ns s" using live by (simp add: live_def)
  ultimately have inv': "sys_inv n ns ?s" by (rule step_sys_inv [OF srv])
  have "es_currentGeneration (sy_status ?s) = es_currentGeneration (sy_status (core_pass pf srv now rc s))"
    using eq by (auto simp: report_equal_def decorated_core)
  with inv' live core_pass_kept [OF live rc, of now] full_pass_ranks_down [OF live rc pos, of ca ev now] show ?thesis
    by (auto simp: live_def core_pass_obliging report_equal_obliging [OF eq] report_equal_fingerprint [OF eq]
        report_equal_no_future [OF eq])
qed

lemma converges_in:
  assumes "live n ns pf srv rc s" "rc_name rc = n" "rc_namespace rc = ns" "\<And>t. sts_name (srv t) = sts_name t"
  shows "\<exists>k \<le> rank rc s. rank rc ((full_pass ca ev pf srv now rc ^^ k) s) = 0
    \<and> live n ns pf srv rc ((full_pass ca ev pf srv now rc ^^ k) s)"
  using assms(1)
proof (induction "rank rc s" arbitrary: s rule: less_induct)
  case less
  show ?case
  proof (cases "rank rc s = 0")
    case True
    with less.prems show ?thesis by (intro exI [of _ 0]) simp
  next
    case False
    then have pos: "rank rc s > 0" by simp
    note down = full_pass_ranks_down [OF less.prems assms(2,3) pos, of ca ev now]
    from less.hyps [OF down pass_stays_live [OF less.prems assms(2-4) pos]]
    obtain k where "k \<le> rank rc (full_pass ca ev pf srv now rc s)"
      "rank rc ((full_pass ca ev pf srv now rc ^^ k) (full_pass ca ev pf srv now rc s)) = 0"
      "live n ns pf srv rc ((full_pass ca ev pf srv now rc ^^ k) (full_pass ca ev pf srv now rc s))" by blast
    with down show ?thesis by (intro exI [of _ "Suc k"]) (simp add: funpow_swap1)
  qed
qed

text \<open>At rank 0 the engine rests on a matching StatefulSet.\<close>

lemma at_rest:
  assumes "rank rc s = 0" "status_inv (sy_status s)"
  shows "terminal (es_phase (sy_status s)) \<and> fits rc s"
  using assms by (auto simp: rank_def Let_def terminal_def status_inv_def split: engine_phase.splits if_splits)

lemma rest_pass:
  assumes live: "live n ns pf srv rc s" and rc: "rc_name rc = n" "rc_namespace rc = ns" and zero: "rank rc s = 0"
  shows "es_phase (sy_status (core_pass pf srv now rc s)) = terminalPhase (sy_spec s)
    \<and> es_currentGeneration (sy_status (core_pass pf srv now rc s)) = es_currentGeneration (sy_status s)
    \<and> es_activeGeneration (sy_status (core_pass pf srv now rc s)) = es_activeGeneration (sy_status s)
    \<and> es_observedGeneration (sy_status (core_pass pf srv now rc s)) = sy_meta s
    \<and> cl_sts (sy_cluster (core_pass pf srv now rc s)) = cl_sts (sy_cluster s)
    \<and> routed rc (core_pass pf srv now rc s)"
proof -
  have inv: "status_inv (sy_status s)" and ob: "obliging pf srv rc s" and fp: "fingerprint_current rc (sy_status s)"
    using live by (simp_all add: live_def sys_inv_def)
  have t: "terminal (es_phase (sy_status s))" and fit: "fits rc s" using at_rest [OF zero inv] by auto
  then have set: "es_phase (sy_status s) \<noteq> PhaseUnset" by (auto simp: terminal_def)
  obtain x where obs: "getEngineState pf (reader_of s) (sy_spec s) n (sy_status s) (rc_class rc) = Inr x"
    and target: "(x_targetGen x = es_currentGeneration (sy_status s)) = routed rc s"
    using observe_ok [OF _ set ob live_range [OF live] rc, of "rc_class rc"] live unfolding live_def by metis
  from fit fits_observed(1) [OF obs [folded rc(1)] inv] obtain sts where
    sts: "x_currentSTS x = Some sts" "pass_matches rc (sy_spec s) sts" by auto
  have gen: "es_currentGeneration (sy_status s) = es_activeGeneration (sy_status s)" "0 \<le> es_activeGeneration (sy_status s)"
    using inv t by (auto simp: terminal_def status_inv_def)
  have step: "phase_step rc (sy_spec s) (sy_meta s) x (sy_status s)
      = Inr (settle rc (sy_spec s) (sy_meta s) sts x (sy_status s))" (is "_ = Inr ?r")
    using t sts gen no_reissue [OF fp] by (auto simp: terminal_def phase_step_def computeStable_def)
  have pass: "core_pass pf srv now rc s = s\<lparr>sy_cluster := fold (exec_write srv) (result_writes ?r) (sy_cluster s),
      sy_status := r_status (stamp now x ?r)\<rparr>"
    using core_pass_eq [OF set _ step] obs rc by blast
  have sts': "cl_sts (fold (exec_write srv) (result_writes ?r) (sy_cluster s)) k = cl_sts (sy_cluster s) k" for k
    by (rule fold_untouched) (auto simp: settle_def set_result_writes sts_write_at_def Let_def)
  have svc: "routed rc (s\<lparr>sy_cluster := fold (exec_write srv) (result_writes ?r) (sy_cluster s), sy_status := r_status (stamp now x ?r)\<rparr>)"
    using target gen
    by (auto simp: headless_not_service headless_not_service [THEN not_sym] settle_def result_writes_def opt_list_def routed_def Let_def rc observed_svc [OF obs]
        pass_svc_def [symmetric] split: if_splits option.splits)
  show ?thesis
    unfolding pass using svc by (simp add: fun_eq_iff sts') (simp add: settle_def Let_def stamp_def record_serving_cert_def split: option.splits)
qed

section \<open>Properties\<close>

lemma obliging_intro:
  assumes "\<And>g. stored_as (rc_env rc) (pass_sts rc (sy_spec s) g) (srv (pass_sts rc (sy_spec s) g))"
    and "spelled_out (rc_env rc) (sy_spec s) (rc_info rc) (rc_class rc)"
    and "\<And>g. fst (checkPodsReady (sy_pods s g) (sp_replicas (sy_spec s)))"
    and "\<And>g. checkDrainComplete pf (sy_scrape s) g (sy_pods s g) = Inr True"
    and "ii_tls (rc_info rc) = None \<or> ii_engineTrustBundleReady (rc_info rc)"
    and "sp_replicas (sy_spec s) \<le> MaxEngineReplicas"
  shows "obliging pf srv rc s"
  using assms(3-6) stored_matches [OF _ assms(1) [unfolded pass_sts_def] assms(2)]
  by (simp add: obliging_def pass_matches_def pass_sts_def)


text \<open>Rest: once the newest generation serves and matches, a further pass keeps phase (in the form the
  spec asks for), generations and every StatefulSet, acknowledges the observed spec generation and
  leaves the routing Service on that generation.\<close>

theorem settled_engine_rests:
  assumes "sys_inv n ns s" and "no_future n s" and "fingerprint_current rc (sy_status s)"
    and "rc_name rc = n" and "rc_namespace rc = ns" and "obliging pf srv rc s"
    and "terminal (es_phase (sy_status s))" and "fits rc s"
    and "es_currentGeneration (sy_status s) < 2 ^ 63"
  shows "let s' = full_pass ca ev pf srv now rc s in
      es_phase (sy_status s') = terminalPhase (sy_spec s) \<and>
      es_currentGeneration (sy_status s') = es_currentGeneration (sy_status s) \<and>
      es_activeGeneration (sy_status s') = es_activeGeneration (sy_status s) \<and>
      es_observedGeneration (sy_status s') = sy_meta s \<and>
      cl_sts (sy_cluster s') = cl_sts (sy_cluster s) \<and> routed rc s'"
proof -
  have zero: "rank rc s = 0" using assms(7,8) by (auto simp: terminal_def rank_def)
  with assms have "live n ns pf srv rc s" by (simp add: live_def)
  from full_pass_core [OF this assms(4,5), of now ca ev] rest_pass [OF this assms(4,5) zero, of now] show ?thesis
    using report_equal_routed [OF full_pass_core [OF \<open>live n ns pf srv rc s\<close> assms(4,5), of now ca ev]]
    by (auto simp: Let_def report_equal_def decorated_core)
qed

section \<open>Witnesses\<close>

definition ex_rc :: render_ctx where
  "ex_rc = \<lparr>rc_env = ex_env, rc_script = ''run'', rc_name = ''e'', rc_namespace = ''ns'', rc_info = ex_info,
     rc_class = None\<rparr>"

definition ex_pods :: "int \<Rightarrow> pod list" where
  "ex_pods g = [\<lparr>pod_name = ''p0'', pod_phase = ''Running'', pod_conditions = [(''Ready'', ''True'')]\<rparr>,
     \<lparr>pod_name = ''p1'', pod_phase = ''Running'', pod_conditions = [(''Ready'', ''True'')]\<rparr>]"

definition ex_scrape :: "string \<Rightarrow> engine_error + string" where
  "ex_scrape p = Inr (''firebolt_running_queries 0'' @ [newline] @ ''firebolt_suspended_queries 0'')"

definition ex_pf :: "string \<Rightarrow> int option" where
  "ex_pf v = atoi v"

definition ex_status :: engine_status where
  "ex_status = \<lparr>es_observedGeneration = 0, es_currentGeneration = 0, es_activeGeneration = 0,
     es_drainingGeneration = None, es_phase = PhaseUnset, es_lastReconciled = None, es_lastActivityTime = None,
     es_lastWakeDemandTime = None, es_wakeProtectionUntil = None, es_lastScaledAt = None,
     es_autoStopReason = [], es_observedAuthHash = [], es_observedEngineTLSHash = [],
     es_observedEngineServingCertFP = [], es_observedEngineServingCertGen = 0, es_readyReplicas = 0,
     es_appliedPresetName = [], es_appliedPresetHash = [], es_conditions = []\<rparr>"

definition empty_cluster :: cluster where
  "empty_cluster = \<lparr>cl_sts = (\<lambda>_. None), cl_cm = (\<lambda>_. None), cl_svc = (\<lambda>_. None), cl_crt = (\<lambda>_. None)\<rparr>"

definition ex_sys :: sys where
  "ex_sys = \<lparr>sy_spec = ex_spec, sy_meta = 1, sy_status = ex_status, sy_cluster = empty_cluster,
     sy_pods = ex_pods, sy_scrape = ex_scrape\<rparr>"

lemma ex_fresh: "fresh_sys ''e'' ex_sys"
  by (simp add: fresh_sys_def ex_sys_def ex_status_def empty_cluster_def keyed_def)

lemma ex_no_future: "no_future n ex_sys"
  by (simp add: no_future_def ex_sys_def empty_cluster_def has_sts_def)

lemma ex_fingerprint: "fingerprint_current ex_rc (sy_status ex_sys)"
  by (simp add: fingerprint_current_def ex_rc_def ex_info_def)

lemma ex_zero: "atoi ''0'' = Some 0"
  by (simp add: atoi_def atoi_unsigned_def is_digit_def digits_val_def digit_val_def in_int64_def)

lemma ex_gauges:
  "parsePrometheusGauge ex_pf (''firebolt_running_queries 0'' @ [newline] @ ''firebolt_suspended_queries 0'')
     MetricRunningQueries = Some 0"
  "parsePrometheusGauge ex_pf (''firebolt_running_queries 0'' @ [newline] @ ''firebolt_suspended_queries 0'')
     MetricSuspendedQueries = Some 0"
  by (simp_all add: parsePrometheusGauge_def scan_lines_def newline_def maxLine_def drop_cr_def space_char_def
      MetricRunningQueries_def MetricSuspendedQueries_def has_prefix_def sample_value_def trim_space_def trim_left_def
      is_space_def ex_pf_def ex_zero)

lemma ex_drain: "checkDrainComplete ex_pf ex_scrape g (ex_pods g) = Inr True"
  by (simp add: checkDrainComplete_def ex_pods_def isPodDrained_def PodRunning_def ex_scrape_def
      ex_gauges [simplified])

lemma ex_info_tls [simp]: "ii_tls ex_info = None"
  by (simp add: ex_info_def)

lemma ex_ready: "fst (checkPodsReady (ex_pods g) 2)"
  by (simp add: checkPodsReady_def ex_pods_def pod_ready_def PodRunning_def)

lemma ex_replicas [simp]: "sp_replicas ex_spec = 2"
  by (simp add: ex_spec_def)

lemma store_sts_name [simp]: "sts_name (store_sts t) = sts_name t"
  by (simp add: store_sts_def)

lemma ex_obliging: "obliging ex_pf store_sts ex_rc ex_sys"
  by (intro obliging_intro) (auto simp: ex_rc_def ex_sys_def ex_spelled_out ex_ready ex_drain store_sts_stored MaxEngineReplicas_def)


definition ex_settled :: sys where
  "ex_settled = ex_sys\<lparr>sy_status := ex_status\<lparr>es_phase := PhaseStable\<rparr>,
     sy_cluster := empty_cluster\<lparr>cl_sts := [''e-g0'' \<mapsto> store_sts (pass_sts ex_rc ex_spec 0)],
       cl_svc := [''e-service'' \<mapsto> pass_svc ex_rc 0]\<rparr>\<rparr>"

lemma ex_names:
  "genResourceName ''e'' 0 [] = ''e-g0''" "''e'' @ SuffixService = ''e-service''" "SuffixService = ''-service''"
  by (code_simp, simp_all add: SuffixService_def)

lemma ex_settled_inv: "sys_inv ''e'' ''ns'' ex_settled"
  by (auto simp: sys_inv_def ex_settled_def ex_status_def status_inv_def cluster_inv_def keyed_def empty_cluster_def
      route_ok_def needed_gens_def has_sts_def ex_names pass_svc_def ex_rc_def pass_sts_def buildStatefulSet_def
      buildClusterService_def)

lemma settled_engine_rests_witness:
  "let s' = full_pass list_conditions None ex_pf store_sts 5 ex_rc ex_settled in
      es_phase (sy_status s') = terminalPhase (sy_spec ex_settled) \<and>
      es_currentGeneration (sy_status s') = es_currentGeneration (sy_status ex_settled) \<and>
      es_activeGeneration (sy_status s') = es_activeGeneration (sy_status ex_settled) \<and>
      es_observedGeneration (sy_status s') = sy_meta ex_settled \<and>
      cl_sts (sy_cluster s') = cl_sts (sy_cluster ex_settled) \<and> routed ex_rc s'"
proof (rule settled_engine_rests [OF ex_settled_inv])
  show "obliging ex_pf store_sts ex_rc ex_settled" using ex_obliging by (simp add: obliging_def ex_settled_def)
  then show "fits ex_rc ex_settled"
    by (simp add: obliging_def fits_def ex_settled_def ex_status_def ex_sys_def ex_names in_int64_def)
      (simp add: ex_rc_def ex_names)
  show "no_future ''e'' ex_settled"
  proof -
    have "genResourceName ''e'' g [] \<noteq> ''e-g0''" if "0 < g" for g
      using genResourceName_inject [of g 0 "''e''" "[]"] that by (simp add: ex_names)
    then show ?thesis by (auto simp: no_future_def ex_settled_def ex_status_def has_sts_def empty_cluster_def)
  qed
qed (simp_all add: ex_settled_def ex_status_def ex_rc_def terminal_def fingerprint_current_def ex_info_def)

end
