(* ===== verification/Engine_Safety.thy ===== *)
theory Engine_Safety
  imports Engine_Converge
begin

text \<open>
  Safety of the engine controller over all reachable states of the closed system: no panic, the
  blue-green contract, traffic only to generations that exist, deletions that spare what serves, and
  the gates of cut-over and clean-up. The invariants of \<open>src/formal/FireboltEngine.tla\<close> are among them.
\<close>

section \<open>Readiness and drain, characterised\<close>

lemma filter_all_length: "length (filter P xs) < length xs \<longleftrightarrow> \<not> list_all P xs"
  by (induction xs) (auto simp: less_Suc_eq_le length_filter_le)

lemma checkPodsReady_iff:
  "fst (checkPodsReady pods n) \<longleftrightarrow> int (length pods) = n \<and> list_all pod_ready pods"
  by (auto simp: checkPodsReady_def Let_def filter_all_length)

text \<open>A pod holds no query: it does not run, or both gauges were read and are zero.\<close>

definition pod_quiet :: "(string \<Rightarrow> int option) \<Rightarrow> (string \<Rightarrow> engine_error + string) \<Rightarrow> pod \<Rightarrow> bool" where
  "pod_quiet pf scrape p \<longleftrightarrow> pod_phase p \<noteq> PodRunning \<or>
     (\<exists>raw. scrape (pod_name p) = Inr raw \<and> parsePrometheusGauge pf raw MetricRunningQueries = Some 0
        \<and> parsePrometheusGauge pf raw MetricSuspendedQueries = Some 0)"

lemma isPodDrained_iff: "isPodDrained pf scrape p = Inr True \<longleftrightarrow> pod_quiet pf scrape p"
  by (auto simp: isPodDrained_def pod_quiet_def and_then_Inr split: option.splits)

lemma drain_loop_iff: "drain_loop pf scrape g pods = Inr True \<longleftrightarrow> list_all (pod_quiet pf scrape) pods"
proof (induction pods)
  case (Cons p pods)
  show ?case
  proof (cases "pod_phase p = PodRunning")
    case True
    with Cons isPodDrained_iff [of pf scrape p] show ?thesis
      by (auto split: sum.splits bool.splits)
  qed (simp add: Cons pod_quiet_def)
qed simp

lemma checkDrainComplete_iff: "checkDrainComplete pf scrape g pods = Inr True \<longleftrightarrow> list_all (pod_quiet pf scrape) pods"
  by (simp add: checkDrainComplete_def drain_loop_iff)

lemma observed_drained:
  assumes obs: "getEngineState pf (reader_of s) spec n st ci = Inr x" and d: "x_drainingPodsDrained x"
  shows "cl_sts (sy_cluster s) (genResourceName n (draining_gen st) []) = None \<or> skip_drain spec ci
     \<or> list_all (pod_quiet pf (sy_scrape s)) (sy_pods s (draining_gen st))"
proof -
  obtain raw1 raw2 raw3 where r: "read_current (reader_of s) spec n st empty_raw = Inr raw1"
    "read_active (reader_of s) n st raw1 = Inr raw2"
    "read_draining pf (reader_of s) spec n st ci raw2 = Inr raw3"
    "assembleEngineState st (raw3\<lparr>rw_clusterService := cl_svc (sy_cluster s) (n @ SuffixService)\<rparr>) = Inr x"
    using obs by (auto simp: getEngineState_def and_then_Inr reader_of_def)
  from d have "0 \<le> draining_gen st \<and> draining_gen st \<noteq> es_currentGeneration st"
    and "rw_drainingSTS raw3 = None \<or> rw_drainingPodsDrained raw3"
    by (auto simp: assemble_shape [OF r(4)] assemble_fields split: if_splits)
  with r(3) show ?thesis
    by (auto simp: read_draining_def reader_of_def getStatefulSet_def getConfigMap_def getHeadlessService_def Let_def
        and_then_Inr checkDrainComplete_iff split: if_splits)
qed

section \<open>No panic\<close>

lemma drain_loop_no_panic: "drain_loop pf scrape g pods \<noteq> Inl (Panic m)"
  by (induction pods) (auto split: sum.splits bool.splits)

lemma getEngineState_no_panic: "getEngineState pf (reader_of s) spec n st ci \<noteq> Inl (Panic m)"
proof
  assume err: "getEngineState pf (reader_of s) spec n st ci = Inl (Panic m)"
  obtain raw1 where r1: "read_current (reader_of s) spec n st empty_raw = Inr raw1" using read_current_reader by blast
  obtain raw2 where r2: "read_active (reader_of s) n st raw1 = Inr raw2" using read_active_reader by blast
  have r3: "read_draining pf (reader_of s) spec n st ci raw2 \<noteq> Inl (Panic m)"
    using drain_loop_no_panic [of pf "sy_scrape s"]
    by (auto simp: read_draining_def reader_of_def getStatefulSet_def getConfigMap_def getHeadlessService_def Let_def
        and_then_def checkDrainComplete_def split: sum.splits if_splits)
  have r4: "assembleEngineState st raw \<noteq> Inl (Panic m)" for raw
    by (simp add: assembleEngineState_def Let_def split: option.splits)
  have svc: "rd_svc (reader_of s) k = Inr (cl_svc (sy_cluster s) k)" for k by (simp add: reader_of_def)
  from err r3 r4 show False
    by (cases "read_draining pf (reader_of s) spec n st ci raw2") (auto simp: getEngineState_def r1 r2 svc)
qed

lemma finish_pass_no_panic:
  assumes inv: "status_inv (sy_status s)" and set: "es_phase (sy_status s) \<noteq> PhaseUnset" and dec: "decorated (sy_status s) st"
    and out: "\<forall>w m. outcome w \<noteq> Some (Panic m)" "\<forall>m st. updateStatus so now st \<noteq> Inl (Panic m)"
  shows "fst (finish_pass ca srv outcome so now pa rc s x st) \<noteq> Some (Panic m)"
proof -
  have st: "status_inv st" "es_phase st \<noteq> PhaseUnset"
    using inv set same_core_inv [OF decorated_same_core [OF dec]] by (simp_all add: decorated_core [OF dec])
  obtain r where r: "phase_step rc (sy_spec s) (sy_meta s) x st = Inr r" using phase_step_total [OF st] by blast
  let ?q = "report_result ca pa s x st (stamp now x r)"
  have w: "snd (run_writes outcome srv ws c) \<noteq> Some (Panic m)" for ws c
    using out(1) by (induction ws arbitrary: c) (auto split: option.splits)
  have guard: "\<not> (terminal (es_phase (r_status ?q)) \<and> es_currentGeneration (r_status ?q) \<noteq> es_activeGeneration (r_status ?q))"
    using terminal_guard_silent [OF st(1) r st(2), of now]
    by (simp add: decorated_core [OF report_result_frame(2)] del: stamp_core)
  obtain c e where run: "run_writes outcome srv (result_writes (stamp now x r)) (sy_cluster s) = (c, e)" by force
  with w [of "result_writes (stamp now x r)" "sy_cluster s"] have "e \<noteq> Some (Panic m)" by (metis snd_conv)
  then show ?thesis
    using guard out(2)
    by (auto simp: finish_pass_def computeEngineReconcile_def r applyEngineState_def run split: option.splits sum.splits)
qed

lemma pass_no_panic:
  assumes inv: "status_inv (sy_status s)" and out: "\<forall>w m. outcome w \<noteq> Some (Panic m)" "\<forall>m st. updateStatus so now st \<noteq> Inl (Panic m)"
  shows "fst (reconcile_pass ca pf srv outcome so now pa rc s) \<noteq> Some (Panic m)"
proof -
  have per: "fst (persist so now s' st) \<noteq> Some (Panic m)" for s' st using out(2) by (auto simp: persist_def split: sum.splits)
  have gated: "fst (pass_gated ca srv outcome so now pa rc s ci x) \<noteq> Some (Panic m)"
    if "es_phase (sy_status s) \<noteq> PhaseUnset" for ci x
    using per finish_pass_no_panic [OF inv that _ out]
    by (simp add: pass_gated_def Let_def decorated_trans [OF decorated_sync decorated_set_condition]
        split: sum.splits option.splits prod.splits)
  have obs: "fst (pass_observed ca pf srv outcome so now pa rc s ci) \<noteq> Some (Panic m)"
    if "es_phase (sy_status s) \<noteq> PhaseUnset" for ci
    using gated [OF that] getEngineState_no_panic
    by (auto simp: pass_observed_def split: sum.splits option.splits)
  show ?thesis
    using per obs by (simp add: reconcile_pass_def split: overlay_outcome.splits)
qed

lemma finish_pass_failed: "finish_pass ca srv outcome so now pa rc s x st = (Some e, s') \<Longrightarrow> sy_status s' = sy_status s"
  by (auto simp: finish_pass_def applyEngineState_def split: sum.splits option.splits prod.splits if_splits)

lemma persist_failed: "persist so now s st = (Some e, s') \<Longrightarrow> s' = s"
  by (auto simp: persist_def split: sum.splits)

lemma gated_failed: "pass_gated ca srv outcome so now pa rc s ci x = (Some e, s') \<Longrightarrow> sy_status s' = sy_status s"
  by (auto simp: pass_gated_def Let_def dest: finish_pass_failed persist_failed split: if_splits sum.splits option.splits prod.splits)

lemma observed_failed:
  assumes "pass_observed ca pf srv outcome so now pa rc s ci = (Some e, s')"
  shows "sy_status s' = sy_status s \<or> drain_probe_error e \<noteq> None \<and> decorated (sy_status s) (sy_status s')"
proof (cases "getEngineState pf (reader_of s) (sy_spec s) (rc_name rc) (sy_status s) ci")
  case (Inl err)
  show ?thesis
  proof (cases "setDrainCheckFailingCondition ca (sy_status s) err (sy_meta s)")
    case None
    with Inl assms show ?thesis by (simp add: pass_observed_def)
  next
    case (Some st)
    then have "drain_probe_error err \<noteq> None" by (auto simp: setDrainCheckFailingCondition_def)
    with Some Inl assms show ?thesis
      using decorated_drain_failing [OF Some]
      by (auto simp: pass_observed_def persist_def dest: decorated_updateStatus decorated_trans split: sum.splits)
  qed
next
  case (Inr x)
  with assms show ?thesis by (simp add: pass_observed_def gated_failed)
qed

lemma pass_failed_status:
  assumes "reconcile_pass ca pf srv outcome so now pa rc s = (Some e, s')"
  shows "sy_status s' = sy_status s \<or> drain_probe_error e \<noteq> None \<and> decorated (sy_status s) (sy_status s')"
proof (cases "es_phase (sy_status s) = PhaseUnset")
  case True
  with assms show ?thesis by (auto simp: reconcile_pass_def dest: persist_failed)
next
  case False
  note p = assms [unfolded reconcile_pass_def if_not_P [OF False]]
  show ?thesis
  proof (cases "resolveEngineOverlays (rc_env rc) (engineNeedsRender (es_phase (sy_status s))) (pa_class pa) (pa_preset pa)")
    case (OverlayFailed m)
    from p [unfolded OverlayFailed overlay_outcome.case] show ?thesis by simp
  next
    case (OverlayBlocked reason m)
    from persist_failed [OF p [unfolded OverlayBlocked overlay_outcome.case]] show ?thesis by simp
  next
    case (OverlayOk ci)
    from observed_failed [OF p [unfolded OverlayOk overlay_outcome.case]] show ?thesis .
  qed
qed

lemma pass_moved:
  assumes "reconcile_pass ca pf srv outcome so now pa rc s = (err, s')"
    and "es_phase (sy_status s) \<noteq> PhaseUnset" "es_phase (sy_status s') \<noteq> es_phase (sy_status s)"
  obtains rc' st x r where "admitted pa rc s rc'" "decorated (sy_status s) st"
    "getEngineState pf (reader_of s) (sy_spec s) (rc_name rc) st (rc_class rc') = Inr x"
    "phase_step rc' (sy_spec s) (sy_meta s) x st = Inr r" "es_phase (sy_status s') = es_phase (r_status r)"
  using assms(1)
proof (cases rule: pass_cases)
  case (report st)
  with assms(3) show thesis by (simp add: decorated_core [OF report(1)])
next
  case handler
  then obtain rc' st x r where h: "admitted pa rc s rc'" "decorated (sy_status s) st"
    "getEngineState pf (reader_of s) (sy_spec s) (rc_name rc) st (rc_class rc') = Inr x"
    "phase_step rc' (sy_spec s) (sy_meta s) x st = Inr r"
    "sy_status s' = sy_status s \<or> decorated (r_status (stamp now x r)) (sy_status s')"
    unfolding handler_ran_def by blast
  with assms(3) have "es_phase (sy_status s') = es_phase (r_status r)"
    using decorated_core(1) [of "r_status (stamp now x r)"] by auto
  with h show thesis by (intro that)
qed (use assms(2) in simp)

section \<open>Properties\<close>


text \<open>C8. The status invariants: in a terminal phase current and active generation coincide and nothing
  drains; while creating or switching the new generation is newer than the serving one; a generation
  drains only in the draining and cleaning phases and is older than the serving one.\<close>

theorem reachable_status_shape:
  assumes "(hostile_step n ns pf srv)\<^sup>*\<^sup>* s s'" and "fresh_sys n s"
  shows "let st = sy_status s' in
    (terminal (es_phase st) \<longrightarrow> es_currentGeneration st = es_activeGeneration st \<and> es_drainingGeneration st = None
       \<and> 0 \<le> es_activeGeneration st) \<and>
    (es_phase st \<in> {PhaseCreating, PhaseSwitching} \<longrightarrow>
       -1 \<le> es_activeGeneration st \<and> es_activeGeneration st < es_currentGeneration st) \<and>
    (\<forall>d. es_drainingGeneration st = Some d \<longrightarrow> es_phase st \<in> {PhaseDraining, PhaseCleaning} \<and> 0 \<le> d \<and> d < es_activeGeneration st)"
  using engine.reach_keeps [OF assms(1) fresh_status_inv [OF assms(2)]]
  by (auto simp: Let_def status_inv_def terminal_def draining_gen_def split: engine_phase.splits)

text \<open>C4. Refinement: the recorded statuses along any run are a run of the abstract blue-green machine,
  so the serving generation and the newest generation never go back, also across crashes and when
  objects are lost or altered.\<close>

theorem engine_refines_rollout:
  assumes "(hostile_step n ns pf srv)\<^sup>*\<^sup>* s s'" and "status_inv (sy_status s)"
  shows "rollout_step\<^sup>*\<^sup>* (rollout_of (sy_status s)) (rollout_of (sy_status s')) \<and>
    serving (rollout_of (sy_status s)) \<le> serving (rollout_of (sy_status s')) \<and>
    newest (rollout_of (sy_status s)) \<le> newest (rollout_of (sy_status s'))"
  using engine.reach_refines [OF assms] engine.generations_grow [OF assms] by simp

text \<open>C1. Traffic: once a generation serves, its StatefulSet exists, and the routing Service exists and
  selects the serving generation or, while switching, the new one; the selected generation has a
  StatefulSet. While draining the old generation keeps its StatefulSet.\<close>

theorem traffic_reaches_existing_generation:
  assumes "(sys_step n ns pf srv)\<^sup>*\<^sup>* s s'" and "fresh_sys n s" and "\<forall>t. sts_name (srv t) = sts_name t"
    and "es_phase (sy_status s') \<noteq> PhaseUnset" and "0 \<le> es_activeGeneration (sy_status s')"
  shows "has_sts n (sy_cluster s') (es_activeGeneration (sy_status s')) \<and>
    (es_phase (sy_status s') = PhaseDraining \<longrightarrow> has_sts n (sy_cluster s') (draining_gen (sy_status s'))) \<and>
    (\<exists>g. cl_svc (sy_cluster s') (n @ SuffixService) = Some (buildClusterService n ns g) \<and>
       has_sts n (sy_cluster s') g \<and>
       (g = es_activeGeneration (sy_status s') \<or>
        es_phase (sy_status s') = PhaseSwitching \<and> g = es_currentGeneration (sy_status s')))"
proof -
  have "sys_inv n ns s'" using reachable_sys_inv [OF assms(1,2)] assms(3) by blast
  then have inv: "status_inv (sy_status s')" and c: "cluster_inv n ns (sy_status s') (sy_cluster s')"
    by (simp_all add: sys_inv_def)
  from c assms(4,5) obtain g where g: "cl_svc (sy_cluster s') (n @ SuffixService) = Some (buildClusterService n ns g)"
    "0 \<le> g" "g = es_activeGeneration (sy_status s') \<or> es_phase (sy_status s') = PhaseSwitching \<and> g = es_currentGeneration (sy_status s')"
    by (auto simp: cluster_inv_def route_ok_def split: option.splits)
  have "has_sts n (sy_cluster s') h" if "h \<in> needed_gens (sy_status s')" for h
    using c that by (simp add: cluster_inv_def)
  moreover have "es_activeGeneration (sy_status s') \<in> needed_gens (sy_status s')" "g \<in> needed_gens (sy_status s')"
    "es_phase (sy_status s') = PhaseDraining \<Longrightarrow> draining_gen (sy_status s') \<in> needed_gens (sy_status s')"
    using g assms(4,5) inv by (auto simp: needed_gens_def status_inv_def)
  ultimately show ?thesis using g by blast
qed

text \<open>C9. A pass never takes away what serves, wherever its writes stop: the StatefulSets of the serving
  generation, of the new generation while switching and of the old one while it drains outlast the pass,
  and so does the routing Service once a generation serves, still selecting one of them.\<close>

theorem pass_spares_serving_generation:
  assumes "(sys_step n ns pf srv)\<^sup>*\<^sup>* s s'" and "fresh_sys n s" and "\<forall>t. sts_name (srv t) = sts_name t"
    and "es_phase (sy_status s') \<noteq> PhaseUnset" and "rc_name rc = n" and "rc_namespace rc = ns"
    and "reconcile_pass ca pf srv outcome so now pa rc s' = (err, s'')"
  shows "(\<forall>g\<in>needed_gens (sy_status s'). has_sts n (sy_cluster s'') g) \<and>
    (0 \<le> es_activeGeneration (sy_status s') \<longrightarrow>
      (\<exists>g\<in>needed_gens (sy_status s'). cl_svc (sy_cluster s'') (n @ SuffixService) = Some (buildClusterService n ns g)))"
proof -
  have "sys_inv n ns s'" using reachable_sys_inv [OF assms(1,2)] assms(3) by blast
  then have c: "cluster_inv n ns (sy_status s') (sy_cluster s'')" and inv: "status_inv (sy_status s')"
    using pass_keeps_old [OF _ _ assms(5,6) _ assms(7)] assms(3) by (auto simp: sys_inv_def)
  moreover have "\<exists>g\<in>needed_gens (sy_status s'). cl_svc (sy_cluster s'') (n @ SuffixService) = Some (buildClusterService n ns g)"
    if "0 \<le> es_activeGeneration (sy_status s')"
    using c that assms(4) inv_nonneg [OF inv]
    by (auto simp: cluster_inv_def route_ok_def needed_gens_def split: option.splits)
  ultimately show ?thesis by (simp add: cluster_inv_def)
qed

text \<open>C10. The cut-over gate: a pass leaves the creating phase for the switching phase only when class, Preset
  and Instance were resolved and nothing was rejected, the StatefulSet of the new generation exists and
  matches what they and the spec ask for, exactly the requested number of pods exist, each of them Ready,
  and the gateway trusts the certificate where TLS is on.\<close>

theorem cutover_waits_for_readiness:
  assumes "reconcile_pass ca pf srv outcome so now pa rc s = (err, s')" and "0 \<le> es_currentGeneration (sy_status s)"
    and "es_phase (sy_status s) = PhaseCreating" and "es_phase (sy_status s') = PhaseSwitching"
  shows "let g = es_currentGeneration (sy_status s) in
    (\<exists>rc' t. admitted pa rc s rc' \<and> cl_sts (sy_cluster s) (genResourceName (rc_name rc) g []) = Some t \<and>
       pass_matches rc' (sy_spec s) t \<and> (ii_tls (rc_info rc') = None \<or> ii_engineTrustBundleReady (rc_info rc'))) \<and>
    int (length (sy_pods s g)) = sp_replicas (sy_spec s) \<and> list_all pod_ready (sy_pods s g)"
proof -
  obtain rc' st x r where h: "admitted pa rc s rc'" "decorated (sy_status s) st"
    "getEngineState pf (reader_of s) (sy_spec s) (rc_name rc) st (rc_class rc') = Inr x"
    "phase_step rc' (sy_spec s) (sy_meta s) x st = Inr r" "es_phase (sy_status s') = es_phase (r_status r)"
    by (rule pass_moved [OF assms(1)]) (use assms(3,4) in simp_all)
  note st = decorated_core [OF h(2)]
  have r: "r = computeCreating rc' (sy_spec s) x st"
    using h(4) assms(3) st by (simp add: phase_step_def)
  have "\<not> drifted rc' (sy_spec s) x" "x_currentPodsReady x"
    "ii_tls (rc_info rc') = None \<or> ii_engineTrustBundleReady (rc_info rc')"
    using assms(3,4) h(5) st by (auto simp: r computeCreating_def buildGenResources_def Let_def split: if_splits)
  with observed_ready [OF h(3)] observed_sts [OF h(3)] assms(2) st h(1) show ?thesis
    by (auto simp: Let_def drifted_def checkPodsReady_iff split: option.splits)
qed

text \<open>C11. The drain gate: a pass leaves the draining phase for the cleaning phase only when the old
  StatefulSet is gone, the rollout skips the drain, or every running pod of the old generation was
  probed and reported neither running nor suspended queries.\<close>

theorem cleanup_waits_for_drain:
  assumes "reconcile_pass ca pf srv outcome so now pa rc s = (err, s')"
    and "es_phase (sy_status s) = PhaseDraining" and "es_phase (sy_status s') = PhaseCleaning"
  shows "let d = draining_gen (sy_status s) in
    cl_sts (sy_cluster s) (genResourceName (rc_name rc) d []) = None \<or>
    (\<exists>ci. resolveEngineOverlays (rc_env rc) False (pa_class pa) (pa_preset pa) = OverlayOk ci \<and> skip_drain (sy_spec s) ci) \<or>
    list_all (pod_quiet pf (sy_scrape s)) (sy_pods s d)"
proof -
  obtain rc' st x r where h: "admitted pa rc s rc'" "decorated (sy_status s) st"
    "getEngineState pf (reader_of s) (sy_spec s) (rc_name rc) st (rc_class rc') = Inr x"
    "phase_step rc' (sy_spec s) (sy_meta s) x st = Inr r" "es_phase (sy_status s') = es_phase (r_status r)"
    by (rule pass_moved [OF assms(1)]) (use assms(2,3) in simp_all)
  note st = decorated_core [OF h(2)]
  have r: "r = computeDraining rc' (sy_spec s) x st"
    using h(4) assms(2) st by (simp add: phase_step_def)
  then have "x_drainingPodsDrained x"
    using assms(2,3) h(5) st by (auto simp: computeDraining_def terminalPhase_def split: if_splits)
  with observed_drained [OF h(3)] h(1) assms(2) show ?thesis
    by (auto simp: Let_def st admitted_def engineNeedsRender_def)
qed

text \<open>A pass that fails or is cut short at any write leaves the recorded status as it was, so the next
  pass resumes the same phase; only a failed drain probe is recorded, in the conditions.\<close>

theorem failed_pass_keeps_status:
  assumes "reconcile_pass ca pf srv outcome so now pa rc s = (Some e, s')"
  shows "sy_status s' = sy_status s \<or> drain_probe_error e \<noteq> None \<and> decorated (sy_status s) (sy_status s')"
  using assms pass_failed_status by blast

text \<open>When the routing Service is lost while a new generation is being created, the pass recreates it
  with a selector on the new generation, whatever the state of its pods, although the serving
  generation is running.\<close>

theorem lost_service_is_pointed_at_new_generation:
  assumes "es_phase st = PhaseCreating" and "x_clusterService x = None" and "x_currentSTS x = None"
    and "es_activeGeneration st < es_currentGeneration st"
  shows "\<exists>r. computeEngineReconcile now rc spec meta x st = Inr r \<and>
    r_ensureClusterSvc r = Some (buildClusterService (rc_name rc) (rc_namespace rc) (es_currentGeneration st)) \<and>
    es_activeGeneration (r_status r) \<noteq> es_currentGeneration (r_status r)"
  using assms
  by (auto simp: computeEngineReconcile_def phase_step_def computeCreating_def buildGenResources_def drifted_def
      Let_def pass_svc_def)

section \<open>Witnesses\<close>

definition ex_started :: sys where
  "ex_started = ex_sys\<lparr>sy_status := set_condition list_conditions (mk_condition ConditionReady False ''Initializing''
      ''Engine status has not yet been populated'' 1) (init_status ex_status\<lparr>es_lastReconciled := Some 5\<rparr>)\<rparr>"

lemma ex_started_step: "sys_step ''e'' ''ns'' ex_pf store_sts ex_sys ex_started"
proof -
  have "snd (reconcile_pass list_conditions ex_pf store_sts (\<lambda>_. None) willing_status 5 (undisturbed ex_rc None) ex_rc ex_sys) = ex_started"
    by (simp add: reconcile_pass_def ex_sys_def ex_status_def ex_started_def persist_def set_condition_def init_status_def)
  moreover have "rc_name ex_rc = ''e''" "rc_namespace ex_rc = ''ns''" by (simp_all add: ex_rc_def)
  ultimately show ?thesis using sys_step.pass by metis
qed

lemma ex_started_hostile: "(hostile_step ''e'' ''ns'' ex_pf store_sts)\<^sup>*\<^sup>* ex_sys ex_started"
  using ex_started_step by (blast intro: hostile_step.cooperative)

lemma ex_started_phase [simp]: "es_phase (sy_status ex_started) = PhaseCreating"
  by (simp add: ex_started_def init_status_def set_condition_def)


lemma reachable_status_shape_witness:
  "-1 \<le> es_activeGeneration (sy_status ex_started) \<and>
   es_activeGeneration (sy_status ex_started) < es_currentGeneration (sy_status ex_started)"
  using reachable_status_shape [OF ex_started_hostile ex_fresh] by (simp add: Let_def)

lemma engine_refines_rollout_witness:
  "rollout_step\<^sup>*\<^sup>* (rollout_of (sy_status ex_sys)) (rollout_of (sy_status ex_started)) \<and>
    serving (rollout_of (sy_status ex_sys)) \<le> serving (rollout_of (sy_status ex_started)) \<and>
    newest (rollout_of (sy_status ex_sys)) \<le> newest (rollout_of (sy_status ex_started))"
  by (rule engine_refines_rollout [OF ex_started_hostile fresh_status_inv [OF ex_fresh]])

lemma reach_passes:
  assumes "rc_name rc = n" "rc_namespace rc = ns"
  shows "(sys_step n ns pf srv)\<^sup>*\<^sup>* s ((full_pass ca ev pf srv now rc ^^ k) s)"
proof (induction k)
  case (Suc k)
  have "sys_step n ns pf srv ((full_pass ca ev pf srv now rc ^^ k) s) ((full_pass ca ev pf srv now rc ^^ Suc k) s)"
    using sys_step.pass [OF assms] by (simp add: full_pass_def)
  with Suc show ?case by (meson rtranclp.rtrancl_into_rtrancl)
qed simp

lemma ex_live: "live ''e'' ''ns'' ex_pf store_sts ex_rc ex_sys"
  using fresh_sys_inv [OF ex_fresh] ex_obliging ex_no_future ex_fingerprint rank_bound [of ex_rc ex_sys]
  by (simp add: live_def) (simp add: ex_sys_def ex_status_def)

lemma ex_reach_terminal:
  "\<exists>s'. (sys_step ''e'' ''ns'' ex_pf store_sts)\<^sup>*\<^sup>* ex_sys s' \<and> terminal (es_phase (sy_status s')) \<and> 0 \<le> es_activeGeneration (sy_status s')"
proof -
  have rc: "rc_name ex_rc = ''e''" "rc_namespace ex_rc = ''ns''" by (simp_all add: ex_rc_def)
  from converges_in [OF ex_live rc store_sts_name, of list_conditions None 5] obtain k where
    "rank ex_rc ((full_pass list_conditions None ex_pf store_sts 5 ex_rc ^^ k) ex_sys) = 0"
    "live ''e'' ''ns'' ex_pf store_sts ex_rc ((full_pass list_conditions None ex_pf store_sts 5 ex_rc ^^ k) ex_sys)" by blast
  then obtain s' where reach: "(sys_step ''e'' ''ns'' ex_pf store_sts)\<^sup>*\<^sup>* ex_sys s'"
    and k: "rank ex_rc s' = 0" "live ''e'' ''ns'' ex_pf store_sts ex_rc s'"
    using reach_passes [OF rc] by blast
  have inv: "status_inv (sy_status s')" using k(2) by (simp add: live_def sys_inv_def)
  with at_rest [OF k(1)] have t: "terminal (es_phase (sy_status s'))" by simp
  then have "0 \<le> es_activeGeneration (sy_status s')" using inv by (auto simp: terminal_def status_inv_def)
  with t reach show ?thesis by blast
qed

lemma traffic_reaches_existing_generation_witness:
  "\<exists>s'. (sys_step ''e'' ''ns'' ex_pf store_sts)\<^sup>*\<^sup>* ex_sys s' \<and> terminal (es_phase (sy_status s')) \<and>
     has_sts ''e'' (sy_cluster s') (es_activeGeneration (sy_status s'))"
proof -
  obtain s' where s': "(sys_step ''e'' ''ns'' ex_pf store_sts)\<^sup>*\<^sup>* ex_sys s'" "terminal (es_phase (sy_status s'))"
    "0 \<le> es_activeGeneration (sy_status s')" using ex_reach_terminal by blast
  then have "es_phase (sy_status s') \<noteq> PhaseUnset" by (auto simp: terminal_def)
  from traffic_reaches_existing_generation [OF s'(1) ex_fresh _ this s'(3)] s' show ?thesis by auto
qed

lemma pass_spares_serving_generation_witness:
  "\<exists>s'. (sys_step ''e'' ''ns'' ex_pf store_sts)\<^sup>*\<^sup>* ex_sys s' \<and> terminal (es_phase (sy_status s')) \<and>
     has_sts ''e'' (sy_cluster (full_pass list_conditions None ex_pf store_sts 5 ex_rc s')) (es_activeGeneration (sy_status s'))"
proof -
  obtain s' where s': "(sys_step ''e'' ''ns'' ex_pf store_sts)\<^sup>*\<^sup>* ex_sys s'" "terminal (es_phase (sy_status s'))"
    "0 \<le> es_activeGeneration (sy_status s')" using ex_reach_terminal by blast
  then have set: "es_phase (sy_status s') \<noteq> PhaseUnset" by (auto simp: terminal_def)
  with s'(3) have "es_activeGeneration (sy_status s') \<in> needed_gens (sy_status s')" by (simp add: needed_gens_def)
  moreover have "reconcile_pass list_conditions ex_pf store_sts (\<lambda>_. None) willing_status 5 (undisturbed ex_rc None) ex_rc s'
      = (fst (reconcile_pass list_conditions ex_pf store_sts (\<lambda>_. None) willing_status 5 (undisturbed ex_rc None) ex_rc s'),
         full_pass list_conditions None ex_pf store_sts 5 ex_rc s')" by (simp add: full_pass_def)
  moreover have "rc_name ex_rc = ''e''" "rc_namespace ex_rc = ''ns''" by (simp_all add: ex_rc_def)
  ultimately show ?thesis
    using pass_spares_serving_generation [OF s'(1) ex_fresh _ set] s' store_sts_name by blast
qed

definition ex_creating :: sys where
  "ex_creating = ex_settled\<lparr>sy_status := init_status ex_status\<rparr>"

lemma ex_creating_sts: "cl_sts (sy_cluster ex_creating) ''e-g0'' = Some (store_sts (pass_sts ex_rc ex_spec 0))"
  by (simp add: ex_creating_def ex_settled_def)

lemma ex_creating_inv: "sys_inv ''e'' ''ns'' ex_creating"
  by (auto simp: sys_inv_def ex_creating_def ex_settled_def ex_status_def init_status_def status_inv_def cluster_inv_def
      keyed_def empty_cluster_def route_ok_def needed_gens_def has_sts_def ex_names pass_svc_def ex_rc_def pass_sts_def
      buildStatefulSet_def buildClusterService_def)

lemma ex_no_later: "0 < g \<Longrightarrow> genResourceName ''e'' g [] \<noteq> ''e-g0''"
  using genResourceName_inject [of g 0 "''e''" "[]"] by (simp add: ex_names)

lemma ex_live_intro:
  assumes "sys_inv ''e'' ''ns'' s" "no_future ''e'' s" "obliging ex_pf store_sts ex_rc s" "es_currentGeneration (sy_status s) \<le> 1"
  shows "live ''e'' ''ns'' ex_pf store_sts ex_rc s"
proof -
  have "int (rank ex_rc s) \<le> 11" using rank_bound [of ex_rc s] by linarith
  moreover have "fingerprint_current ex_rc (sy_status s)" by (simp add: fingerprint_current_def ex_rc_def)
  ultimately show ?thesis using assms by (simp add: live_def)
qed

lemma live_pass:
  assumes live: "live ''e'' ''ns'' ex_pf store_sts ex_rc s" and set: "es_phase (sy_status s) \<noteq> PhaseUnset"
  shows "\<exists>x r err. getEngineState ex_pf (reader_of s) (sy_spec s) ''e'' (sy_status s) None = Inr x \<and>
    x_currentPodsReady x = (x_currentSTS x \<noteq> None) \<and> (es_phase (sy_status s) = PhaseDraining \<longrightarrow> x_drainingPodsDrained x) \<and>
    phase_step ex_rc (sy_spec s) (sy_meta s) x (sy_status s) = Inr r \<and>
    es_phase (sy_status (full_pass list_conditions None ex_pf store_sts 5 ex_rc s)) = es_phase (r_status r) \<and>
    reconcile_pass list_conditions ex_pf store_sts (\<lambda>_. None) willing_status 5 (undisturbed ex_rc None) ex_rc s
       = (err, full_pass list_conditions None ex_pf store_sts 5 ex_rc s)"
proof -
  have rc: "rc_name ex_rc = ''e''" "rc_namespace ex_rc = ''ns''" "rc_class ex_rc = None" by (simp_all add: ex_rc_def)
  have inv: "sys_inv ''e'' ''ns'' s" "status_inv (sy_status s)" and ob: "obliging ex_pf store_sts ex_rc s"
    using live by (simp_all add: live_def sys_inv_def)
  obtain x where x: "getEngineState ex_pf (reader_of s) (sy_spec s) ''e'' (sy_status s) None = Inr x"
    "x_currentPodsReady x = (x_currentSTS x \<noteq> None)" "es_phase (sy_status s) = PhaseDraining \<Longrightarrow> x_drainingPodsDrained x"
    using observe_ok [OF inv(1) set ob live_range [OF live] rc(1,2)] by metis
  obtain r where r: "phase_step ex_rc (sy_spec s) (sy_meta s) x (sy_status s) = Inr r"
    using phase_step_total [OF inv(2) set] by blast
  have "es_phase (sy_status (full_pass list_conditions None ex_pf store_sts 5 ex_rc s)) = es_phase (r_status r)"
    using full_pass_core [OF live rc(1,2), of 5 list_conditions None] core_pass_eq [OF set _ r] x(1) rc
    by (auto simp: report_equal_def decorated_core)
  moreover have "\<exists>err. reconcile_pass list_conditions ex_pf store_sts (\<lambda>_. None) willing_status 5 (undisturbed ex_rc None) ex_rc s
      = (err, full_pass list_conditions None ex_pf store_sts 5 ex_rc s)"
    by (metis full_pass_def prod.collapse)
  ultimately show ?thesis using x r by blast
qed

lemma cutover_waits_for_readiness_witness:
  "es_phase (sy_status (full_pass list_conditions None ex_pf store_sts 5 ex_rc ex_creating)) = PhaseSwitching \<and>
     list_all pod_ready (sy_pods ex_creating 0)"
proof -
  have st: "es_phase (sy_status ex_creating) = PhaseCreating" "es_currentGeneration (sy_status ex_creating) = 0"
    "sy_spec ex_creating = ex_spec" "ii_tls (rc_info ex_rc) = None"
    by (simp_all add: ex_creating_def init_status_def ex_status_def ex_settled_def ex_sys_def ex_rc_def)
  have ob: "obliging ex_pf store_sts ex_rc ex_creating" using ex_obliging by (simp add: obliging_def ex_creating_def ex_settled_def)
  have "no_future ''e'' ex_creating"
    using ex_no_later by (auto simp: no_future_def st has_sts_def) (simp add: ex_creating_def ex_settled_def empty_cluster_def)
  then have live: "live ''e'' ''ns'' ex_pf store_sts ex_rc ex_creating"
    using ex_creating_inv ob by (intro ex_live_intro) (simp_all add: st)
  obtain x r err where
    x: "getEngineState ex_pf (reader_of ex_creating) ex_spec ''e'' (sy_status ex_creating) None = Inr x"
    "x_currentPodsReady x = (x_currentSTS x \<noteq> None)"
    and r: "phase_step ex_rc ex_spec (sy_meta ex_creating) x (sy_status ex_creating) = Inr r"
    and pass: "es_phase (sy_status (full_pass list_conditions None ex_pf store_sts 5 ex_rc ex_creating)) = es_phase (r_status r)"
    "reconcile_pass list_conditions ex_pf store_sts (\<lambda>_. None) willing_status 5 (undisturbed ex_rc None) ex_rc ex_creating
       = (err, full_pass list_conditions None ex_pf store_sts 5 ex_rc ex_creating)"
    using live_pass [OF live] unfolding st(1,3) by auto
  have "x_currentSTS x = Some (store_sts (pass_sts ex_rc ex_spec 0))"
    using observed_sts [OF x(1)] ex_creating_sts st by (simp add: ex_names)
  moreover have "pass_matches ex_rc ex_spec (store_sts (pass_sts ex_rc ex_spec 0))"
    using ob st by (simp add: obliging_def in_int64_def)
  ultimately have "es_phase (r_status r) = PhaseSwitching"
    using r x(2) st by (auto simp: phase_step_def computeCreating_def drifted_def buildGenResources_def Let_def)
  with pass cutover_waits_for_readiness [OF pass(2)] st show ?thesis by (auto simp: Let_def)
qed

definition ex_draining :: sys where
  "ex_draining = ex_sys\<lparr>sy_status := ex_status\<lparr>es_phase := PhaseDraining, es_currentGeneration := 1,
     es_activeGeneration := 1, es_drainingGeneration := Some 0\<rparr>,
     sy_cluster := empty_cluster\<lparr>cl_sts := [''e-g0'' \<mapsto> store_sts (pass_sts ex_rc ex_spec 0), ''e-g1'' \<mapsto> store_sts (pass_sts ex_rc ex_spec 1)],
       cl_svc := [''e-service'' \<mapsto> pass_svc ex_rc 1]\<rparr>\<rparr>"

lemma ex_name1: "genResourceName ''e'' 1 [] = ''e-g1''"
  by code_simp

lemma ex_draining_inv: "sys_inv ''e'' ''ns'' ex_draining"
  by (auto simp: sys_inv_def ex_draining_def ex_sys_def ex_status_def status_inv_def cluster_inv_def draining_gen_def
      keyed_def empty_cluster_def route_ok_def needed_gens_def has_sts_def ex_names ex_name1 pass_svc_def ex_rc_def pass_sts_def
      buildStatefulSet_def buildClusterService_def)

lemma cleanup_waits_for_drain_witness:
  "es_phase (sy_status (full_pass list_conditions None ex_pf store_sts 5 ex_rc ex_draining)) = PhaseCleaning \<and>
    (cl_sts (sy_cluster ex_draining) ''e-g0'' = None \<or> skip_drain ex_spec None \<or>
     list_all (pod_quiet ex_pf (sy_scrape ex_draining)) (sy_pods ex_draining 0))"
proof -
  have st: "es_phase (sy_status ex_draining) = PhaseDraining" "draining_gen (sy_status ex_draining) = 0"
    "es_drainingGeneration (sy_status ex_draining) \<noteq> None" "es_currentGeneration (sy_status ex_draining) = 1"
    "sy_spec ex_draining = ex_spec" "rc_name ex_rc = ''e''"
    by (simp_all add: ex_draining_def draining_gen_def ex_sys_def ex_rc_def)
  have ob: "obliging ex_pf store_sts ex_rc ex_draining" using ex_obliging by (simp add: obliging_def ex_draining_def)
  have "genResourceName ''e'' g [] \<noteq> ''e-g1''" if "1 < g" for g
    using genResourceName_inject [of g 1 "''e''" "[]"] that by (simp add: ex_name1)
  then have "no_future ''e'' ex_draining"
    using ex_no_later by (auto simp: no_future_def st has_sts_def) (simp add: ex_draining_def empty_cluster_def)
  then have live: "live ''e'' ''ns'' ex_pf store_sts ex_rc ex_draining"
    using ex_draining_inv ob by (intro ex_live_intro) (simp_all add: st)
  obtain x r err where "x_drainingPodsDrained x"
    "phase_step ex_rc ex_spec (sy_meta ex_draining) x (sy_status ex_draining) = Inr r"
    and pass: "es_phase (sy_status (full_pass list_conditions None ex_pf store_sts 5 ex_rc ex_draining)) = es_phase (r_status r)"
    "reconcile_pass list_conditions ex_pf store_sts (\<lambda>_. None) willing_status 5 (undisturbed ex_rc None) ex_rc ex_draining
       = (err, full_pass list_conditions None ex_pf store_sts 5 ex_rc ex_draining)"
    using live_pass [OF live] unfolding st(1,5) by auto
  then have "es_phase (r_status r) = PhaseCleaning"
    using st by (auto simp: phase_step_def computeDraining_def)
  with pass cleanup_waits_for_drain [OF pass(2) st(1)] st show ?thesis
    by (auto simp: Let_def ex_names resolveEngineOverlays_def undisturbed_def) (auto simp: ex_rc_def)
qed

lemma failed_pass_keeps_status_witness:
  "sy_status (snd (reconcile_pass list_conditions ex_pf store_sts (\<lambda>_. None) (willing_status\<lparr>sa_update := Conflict, sa_retry := Some (ApiError ''409'')\<rparr>) 5
      (undisturbed ex_rc None) ex_rc ex_sys)) = sy_status ex_sys"
proof -
  have "reconcile_pass list_conditions ex_pf store_sts (\<lambda>_. None) (willing_status\<lparr>sa_update := Conflict, sa_retry := Some (ApiError ''409'')\<rparr>) 5 (undisturbed ex_rc None) ex_rc ex_sys
      = (Some (ApiError ''409''), ex_sys)"
    by (simp add: reconcile_pass_def ex_sys_def ex_status_def persist_def updateStatus_def willing_status_def)
  from failed_pass_keeps_status [OF this] this show ?thesis by simp
qed

lemma lost_service_is_pointed_at_new_generation_witness:
  "\<exists>r. computeEngineReconcile 5 ex_rc ex_spec 1 empty_state
      (ex_status\<lparr>es_phase := PhaseCreating, es_activeGeneration := 3, es_currentGeneration := 4\<rparr>) = Inr r \<and>
    r_ensureClusterSvc r = Some (buildClusterService ''e'' ''ns'' 4) \<and> es_activeGeneration (r_status r) = 3"
proof -
  let ?st = "ex_status\<lparr>es_phase := PhaseCreating, es_activeGeneration := 3, es_currentGeneration := 4\<rparr>"
  obtain r where r: "computeEngineReconcile 5 ex_rc ex_spec 1 empty_state ?st = Inr r"
    "r_ensureClusterSvc r = Some (buildClusterService ''e'' ''ns'' 4)"
    using lost_service_is_pointed_at_new_generation [of ?st empty_state 5 ex_rc ex_spec 1]
    by (auto simp: empty_state_def ex_rc_def)
  then have "es_activeGeneration (r_status r) = 3"
    using computeCreating_status [of ex_rc ex_spec empty_state ?st]
    by (auto simp: computeEngineReconcile_def phase_step_def)
  with r show ?thesis by blast
qed

end
