(* ===== verification/Engine_Report.thy ===== *)
theory Engine_Report
  imports Engine_Safety
begin

text \<open>
  What a pass reports about the engine and which of its gates can stop it: the Ready condition tells the
  truth about the serving generation, the reasons written are accepted by the API server, and a rollout
  that has begun to move traffic finishes without the Instance, the Preset and the validation.
\<close>

section \<open>Condition reasons\<close>

text \<open>The pattern the API machinery demands of a reason, \<open>^[A-Za-z]([A-Za-z0-9_,:]*[A-Za-z0-9_])?$\<close>.\<close>

definition reason_char :: "char \<Rightarrow> bool" where
  "reason_char c \<longleftrightarrow> is_letter c \<or> is_digit c \<or> c \<in> {CHR ''_'', CHR '','', CHR '':''}"

definition valid_reason :: "string \<Rightarrow> bool" where
  "valid_reason s \<longleftrightarrow>
     s \<noteq> [] \<and> is_letter (hd s) \<and> list_all reason_char s \<and> (is_letter (last s) \<or> is_digit (last s) \<or> last s = CHR ''_'')"

lemma reason_scan_later: "0 < i \<Longrightarrow> reason_scan i s = list_all reason_char s"
  by (induction s arbitrary: i) (auto simp: reason_char_def)

lemma reason_scan_start: "s \<noteq> [] \<Longrightarrow> reason_scan 0 s \<longleftrightarrow> is_letter (hd s) \<and> list_all reason_char s"
  by (cases s) (auto simp: reason_scan_later reason_char_def)

lemma separators: "\<not> is_letter (CHR '','')" "\<not> is_digit (CHR '','')" "\<not> is_letter (CHR '':'')" "\<not> is_digit (CHR '':'')"
  by (simp_all add: is_letter_def is_digit_def)

text \<open>The reason taken over from an event is the event's own whenever the API server would accept it, and
  otherwise a fixed acceptable one, so that the status write is never refused for its reason.\<close>

lemma sanitized_reason_is_valid:
  "sanitizeConditionReason s = (if valid_reason s then s else reasonStatefulSetWarning) \<and>
   valid_reason reasonStatefulSetWarning"
proof -
  have "valid_reason s \<longleftrightarrow> s \<noteq> [] \<and> reason_scan 0 s \<and> last s \<noteq> CHR '','' \<and> last s \<noteq> CHR '':''" if "s \<noteq> []" for s
  proof -
    have "list_all reason_char s \<Longrightarrow> reason_char (last s)" using that by (simp add: list_all_iff)
    then show ?thesis
      using that separators by (auto simp: valid_reason_def reason_scan_start reason_char_def)
  qed
  then have "sanitizeConditionReason s = (if valid_reason s then s else reasonStatefulSetWarning)"
    by (cases "s = []") (auto simp: sanitizeConditionReason_def, simp add: valid_reason_def)
  moreover have "valid_reason reasonStatefulSetWarning"
    by (simp add: valid_reason_def reasonStatefulSetWarning_def reason_char_def is_letter_def)
  ultimately show ?thesis ..
qed

section \<open>The Ready condition\<close>

definition ready_of :: "condition_api \<Rightarrow> engine_status \<Rightarrow> condition option" where
  "ready_of ca st = ca_find ca (es_conditions st) ConditionReady"

definition ready_true :: "condition_api \<Rightarrow> engine_status \<Rightarrow> bool" where
  "ready_true ca st \<longleftrightarrow> (\<exists>c. ready_of ca st = Some c \<and> cd_status c = ''True'')"

lemma find_set:
  "condition_api_ok ca \<Longrightarrow> cd_type c = t \<Longrightarrow> ca_find ca (es_conditions (set_condition ca c st)) t = Some c"
  unfolding condition_api_ok_def set_condition_def by auto

lemma ready_true_set:
  "condition_api_ok ca \<Longrightarrow> cd_type c = ConditionReady \<Longrightarrow> ready_true ca (set_condition ca c st) \<longleftrightarrow> cd_status c = ''True''"
  by (simp add: ready_true_def ready_of_def find_set)

lemma mk_condition_fields [simp]:
  "cd_type (mk_condition t b r m g) = t" "cd_status (mk_condition t b r m g) = (if b then ''True'' else ''False'')"
  by (simp_all add: mk_condition_def)

lemma ready_false_reported: "condition_api_ok ca \<Longrightarrow> \<not> ready_true ca (ready_false ca s reason m st)"
  by (simp add: ready_false_def ready_true_set)

lemma setReady_true:
  assumes "condition_api_ok ca"
  shows "ready_true ca (setReadyCondition ca st x g) \<longleftrightarrow>
    isInstanceConditionTrue ca (es_conditions st) \<and> es_phase st = PhaseStable \<and> x_currentPodsReady x"
  using assms unfolding setReadyCondition_def
  by (subst ready_true_set) (auto simp: ready_condition_def)

lemma event_true:
  assumes "condition_api_ok ca" "ready_true ca (decorateReadyConditionWithSTSEvent ca st x n ev g)"
  shows "ready_true ca st"
  using assms
  by (auto simp: decorateReadyConditionWithSTSEvent_def applyStatefulSetEventToReadyCondition_def Let_def ready_true_set
      split: if_splits option.splits)

lemma sync_true [simp]: "isInstanceConditionTrue ca (es_conditions (syncAppliedPresetStatus st t)) = isInstanceConditionTrue ca (es_conditions st)"
  by (simp add: syncAppliedPresetStatus_def Let_def)

lemma report_true:
  assumes ok: "condition_api_ok ca" and t: "ready_true ca (r_status (report_result ca pa s x st r))"
  shows "isInstanceConditionTrue ca (es_conditions (r_status r)) \<and> es_phase (r_status r) = PhaseStable \<and> x_currentPodsReady x"
proof -
  let ?st = "syncAppliedPresetStatus (r_status r) (appliedPresetStatefulSet st (r_status r) x)"
  have "ready_true ca (setReadyCondition ca ?st x (sy_meta s))"
    by (rule event_true [OF ok]) (use t in \<open>simp add: report_result_def Let_def\<close>)
  moreover have "es_phase ?st = es_phase (r_status r)" by (rule decorated_core(1)) simp
  ultimately show ?thesis by (simp add: setReady_true [OF ok])
qed

lemma updateStatus_true: "updateStatus sa now st = Inr st' \<Longrightarrow> ready_true ca st' = ready_true ca st"
  by (auto simp: updateStatus_def ready_true_def ready_of_def Let_def split: update_outcome.splits option.splits)

lemma persist_true: "persist so now s st = (None, s') \<Longrightarrow> ready_true ca (sy_status s') = ready_true ca st"
  by (auto simp: persist_def updateStatus_true split: sum.splits)

text \<open>A status write that puts the engine to rest leaves the current generation alone.\<close>

lemma stable_keeps_current:
  assumes "phase_step rc spec meta x st = Inr r" "es_phase (r_status r) = PhaseStable"
  shows "es_currentGeneration (r_status r) = es_currentGeneration st"
  using assms computeStable_status [of rc spec meta x st r] computeCreating_status [of rc spec x st]
  by (cases "es_phase st")
    (auto simp: phase_step_def computeSwitching_status computeDraining_status computeCleaning_status split: if_splits)

lemma finish_true:
  assumes "condition_api_ok ca" "finish_pass ca srv outcome so now pa rc s x st = (None, s')"
    and "ready_true ca (sy_status s')" "decorated (sy_status s) st"
  shows "es_phase (sy_status s') = PhaseStable \<and> es_currentGeneration (sy_status s') = es_currentGeneration (sy_status s)
    \<and> x_currentPodsReady x"
proof -
  from assms(2) obtain r0 where step: "phase_step rc (sy_spec s) (sy_meta s) x st = Inr r0"
    and u: "updateStatus so now (r_status (report_result ca pa s x st (stamp now x r0))) = Inr (sy_status s')"
    by (auto simp: finish_pass_def computeEngineReconcile_def and_then_def applyEngineState_def
        split: sum.splits option.splits prod.splits if_splits)
  have "ready_true ca (r_status (report_result ca pa s x st (stamp now x r0)))"
    using assms(3) updateStatus_true [OF u] by simp
  from report_true [OF assms(1) this] have "es_phase (r_status (stamp now x r0)) = PhaseStable" "x_currentPodsReady x"
    by simp_all
  moreover have "decorated (r_status (stamp now x r0)) (sy_status s')"
    using decorated_updateStatus [OF u] report_result_frame(2) decorated_trans by blast
  ultimately show ?thesis
    using stable_keeps_current [OF step] decorated_core(1,2) [of "r_status (stamp now x r0)"] decorated_core(2) [OF assms(4)] by simp
qed

lemma gated_true:
  assumes ok: "condition_api_ok ca" and p: "pass_gated ca srv outcome so now pa rc s ci x = (None, s')"
    and t: "ready_true ca (sy_status s')"
  shows "es_phase (sy_status s') = PhaseStable \<and> es_currentGeneration (sy_status s') = es_currentGeneration (sy_status s)
    \<and> x_currentPodsReady x"
proof -
  define st1 where "st1 = syncAppliedPresetStatus (sy_status s) (appliedPresetStatefulSet (sy_status s) (sy_status s) x)"
  have d1: "decorated (sy_status s) st1" by (simp add: st1_def)
  have inst: "\<not> ready_true ca (setReadyCondition ca (set_condition ca
      (mk_condition ConditionInstanceReady False ''InstanceNotReady'' m (sy_meta s)) st1) x (sy_meta s))" for m
    by (simp add: setReady_true [OF ok] isInstanceConditionTrue_def find_set [OF ok])
  from p [unfolded pass_gated_def Let_def, folded st1_def] consider
      (stop) st where "persist so now s st = (None, s')" "\<not> ready_true ca st"
    | (run) i st where "finish_pass ca srv outcome so now pa (rc\<lparr>rc_info := i, rc_class := ci\<rparr>) s x st = (None, s')"
        "decorated (sy_status s) st"
    using inst ready_false_reported [OF ok] d1 decorated_trans [OF d1 decorated_set_condition]
    by (auto split: if_splits sum.splits option.splits prod.splits)
  then show ?thesis
  proof cases
    case stop
    with t show ?thesis using persist_true by blast
  next
    case run
    from finish_true [OF ok run(1) t run(2)] show ?thesis .
  qed
qed

lemma pass_true:
  assumes ok: "condition_api_ok ca" and set: "es_phase (sy_status s) \<noteq> PhaseUnset"
    and pass: "reconcile_pass ca pf srv outcome so now pa rc s = (None, s')" and t: "ready_true ca (sy_status s')"
  shows "\<exists>ci x. getEngineState pf (reader_of s) (sy_spec s) (rc_name rc) (sy_status s) ci = Inr x \<and> x_currentPodsReady x \<and>
    es_phase (sy_status s') = PhaseStable \<and> es_currentGeneration (sy_status s') = es_currentGeneration (sy_status s)"
proof (cases "resolveEngineOverlays (rc_env rc) (engineNeedsRender (es_phase (sy_status s))) (pa_class pa) (pa_preset pa)")
  case (OverlayFailed m)
  with pass set show ?thesis by (simp add: reconcile_pass_def)
next
  case (OverlayBlocked reason m)
  with pass set have "persist so now s (ready_false ca s reason m
      (syncAppliedPresetFromCluster (reader_of s) (rc_name rc) (sy_status s))) = (None, s')" by (simp add: reconcile_pass_def)
  with t show ?thesis using persist_true ready_false_reported [OF ok] by blast
next
  case (OverlayOk ci)
  with pass set have obs: "pass_observed ca pf srv outcome so now pa rc s ci = (None, s')" by (simp add: reconcile_pass_def)
  show ?thesis
  proof (cases "getEngineState pf (reader_of s) (sy_spec s) (rc_name rc) (sy_status s) ci")
    case (Inl e)
    with obs show ?thesis by (auto simp: pass_observed_def split: option.splits)
  next
    case (Inr x)
    with obs have "pass_gated ca srv outcome so now pa rc s ci x = (None, s')" by (simp add: pass_observed_def)
    from gated_true [OF ok this t] Inr show ?thesis by blast
  qed
qed

text \<open>C12. Ready tells the truth: when a pass over an initialised engine succeeds and leaves Ready=True, the engine
  is stable and exactly the requested pods of its newest generation, which is the serving one, exist, all of
  them Ready.\<close>

theorem ready_true_is_truthful:
  assumes "condition_api_ok ca" and "es_phase (sy_status s) \<noteq> PhaseUnset" and "status_inv (sy_status s)"
    and "reconcile_pass ca pf srv outcome so now pa rc s = (None, s')" and "ready_true ca (sy_status s')"
  shows "es_phase (sy_status s') = PhaseStable \<and>
    es_activeGeneration (sy_status s') = es_currentGeneration (sy_status s') \<and>
    int (length (sy_pods s (es_activeGeneration (sy_status s')))) = sp_replicas (sy_spec s) \<and>
    list_all pod_ready (sy_pods s (es_activeGeneration (sy_status s')))"
proof -
  obtain ci x where x: "getEngineState pf (reader_of s) (sy_spec s) (rc_name rc) (sy_status s) ci = Inr x" "x_currentPodsReady x"
    and st: "es_phase (sy_status s') = PhaseStable" "es_currentGeneration (sy_status s') = es_currentGeneration (sy_status s)"
    using pass_true [OF assms(1,2,4,5)] by blast
  have "status_inv (sy_status s')" by (rule pass_status_inv [OF assms(3,4)])
  with st observed_ready [OF x(1,2)] show ?thesis by (simp add: status_inv_def checkPodsReady_iff)
qed

section \<open>Gates\<close>

text \<open>C13. A rollout that has begun to move traffic runs to its end: while switching, draining or cleaning a pass
  does not depend on the Preset, the Instance or the validation, and an unready or missing class stops it as
  little as an admissible one; only a failed read of the class does.\<close>

theorem rollout_finishes_without_gates:
  assumes "es_phase (sy_status s) \<in> {PhaseSwitching, PhaseDraining, PhaseCleaning}"
  shows "reconcile_pass ca pf srv outcome so now (pa\<lparr>pa_preset := p, pa_instance := i, pa_rejected := rej\<rparr>) rc s
      = reconcile_pass ca pf srv outcome so now pa rc s
    \<and> reconcile_pass ca pf srv outcome so now (pa\<lparr>pa_class := ClassUnready ci m\<rparr>) rc s
      = reconcile_pass ca pf srv outcome so now (pa\<lparr>pa_class := ClassFound ci\<rparr>) rc s
    \<and> reconcile_pass ca pf srv outcome so now (pa\<lparr>pa_class := ClassNotFound m\<rparr>) rc s
      = reconcile_pass ca pf srv outcome so now (pa\<lparr>pa_class := ClassFound None\<rparr>) rc s"
proof -
  have nr: "\<not> engineNeedsRender (es_phase (sy_status s))" "es_phase (sy_status s) \<noteq> PhaseUnset"
    using assms by (auto simp: engineNeedsRender_def)
  have fin: "finish_pass ca srv outcome so now q rc' s x st = finish_pass ca srv outcome so now pa rc' s x st"
    if "pa_event q = pa_event pa" for q rc' x st
    unfolding finish_pass_def report_result_def that ..
  have obs: "pass_observed ca pf srv outcome so now q rc s c = pass_observed ca pf srv outcome so now pa rc s c"
    if "pa_event q = pa_event pa" for q c
    unfolding pass_observed_def pass_gated_def fin [OF that] if_not_P [OF nr(1)] ..
  have ov: "resolveEngineOverlays (rc_env rc) False c p = resolveEngineOverlays (rc_env rc) False c q" for c q
    by (simp add: resolveEngineOverlays_def)
  note obs' = obs [of "pa\<lparr>pa_preset := p, pa_instance := i, pa_rejected := rej\<rparr>", simplified]
    obs [of "pa\<lparr>pa_class := c\<rparr>" for c, simplified]
  show ?thesis
    unfolding reconcile_pass_def obs' using nr
    by (auto simp: resolveEngineOverlays_def Let_def handleFireboltEngineClassError_def obs'
        split: class_outcome.splits)
qed

section \<open>Witnesses\<close>

lemma rollout_finishes_without_gates_witness:
  "reconcile_pass list_conditions ex_pf store_sts (\<lambda>_. None) willing_status 5
     (undisturbed ex_rc None\<lparr>pa_preset := PresetUnready ''p'', pa_instance := Inl ''i'', pa_rejected := None\<rparr>) ex_rc ex_draining
   = reconcile_pass list_conditions ex_pf store_sts (\<lambda>_. None) willing_status 5 (undisturbed ex_rc None) ex_rc ex_draining"
proof -
  have "es_phase (sy_status ex_draining) \<in> {PhaseSwitching, PhaseDraining, PhaseCleaning}" by (simp add: ex_draining_def)
  from rollout_finishes_without_gates [OF this] show ?thesis by blast
qed

text \<open>An undisturbed pass over a settled engine does report Ready=True.\<close>

lemma finish_pass_willing:
  assumes "status_inv st" "es_phase st \<noteq> PhaseUnset" "phase_step rc (sy_spec s) (sy_meta s) x st = Inr r"
  shows "finish_pass ca srv (\<lambda>_. None) willing_status now pa rc s x st =
    (None, s\<lparr>sy_cluster := fold (exec_write srv) (result_writes r) (sy_cluster s),
       sy_status := (r_status (report_result ca pa s x st (stamp now x r)))\<lparr>es_lastReconciled := Some now\<rparr>\<rparr>)"
proof -
  let ?q = "report_result ca pa s x st (stamp now x r)"
  have "\<not> (terminal (es_phase (r_status ?q)) \<and> es_currentGeneration (r_status ?q) \<noteq> es_activeGeneration (r_status ?q))"
    using terminal_guard_silent [OF assms(1,3,2), of now]
    by (simp add: decorated_core [OF report_result_frame(2)] del: stamp_core)
  moreover have "result_writes (stamp now x r) = result_writes r" by (simp add: result_writes_def)
  ultimately show ?thesis
    by (auto simp: finish_pass_def computeEngineReconcile_def assms(3) applyEngineState_def run_all)
qed

lemma stable_report_ready:
  assumes ok: "condition_api_ok ca" and "isInstanceConditionTrue ca (es_conditions (r_status r))"
    and "es_phase (r_status r) = PhaseStable" "x_currentPodsReady x"
  shows "ready_true ca (r_status (report_result ca pa s x st r))"
proof -
  let ?st = "setReadyCondition ca (syncAppliedPresetStatus (r_status r) (appliedPresetStatefulSet st (r_status r) x)) x (sy_meta s)"
  have t: "ready_true ca ?st"
    using assms decorated_core(1) [OF decorated_sync] by (simp add: setReady_true [OF ok])
  then have "\<not> shouldSurfaceStatefulSetEvent ca ?st x n" for n
    by (auto simp: shouldSurfaceStatefulSetEvent_def ready_true_def ready_of_def)
  with t show ?thesis by (simp add: report_result_def Let_def decorateReadyConditionWithSTSEvent_def)
qed

lemma settled_pass_ready:
  assumes ok: "condition_api_ok ca" and inv: "status_inv (sy_status s)" and fp: "fingerprint_current rc (sy_status s)"
    and ph: "es_phase (sy_status s) = PhaseStable" "terminalPhase (sy_spec s) = PhaseStable"
    and lim: "sp_replicas (sy_spec s) \<le> MaxEngineReplicas"
    and obs: "getEngineState pf (reader_of s) (sy_spec s) (rc_name rc) (sy_status s) (rc_class rc) = Inr x"
    and sts: "x_currentSTS x = Some t" "pass_matches rc (sy_spec s) t" and ready: "x_currentPodsReady x"
  shows "\<exists>s'. reconcile_pass ca pf srv (\<lambda>_. None) willing_status now (undisturbed rc ev) rc s = (None, s')
    \<and> ready_true ca (sy_status s')"
proof -
  define st where "st = set_condition ca (mk_condition ConditionInstanceReady True ''InstanceReady''
      ''Referenced FireboltInstance is ready'' (sy_meta s))
      (syncAppliedPresetStatus (sy_status s) (appliedPresetStatefulSet (sy_status s) (sy_status s) x))"
  have dec: "decorated (sy_status s) st" unfolding st_def by (rule decorated_trans [OF decorated_sync decorated_set_condition])
  note core = decorated_core [OF dec]
  let ?r = "settle rc (sy_spec s) (sy_meta s) t x st"
  have "\<not> serving_cert_reissued rc st"
    using no_reissue [OF fp] by (simp add: serving_cert_reissued_def core split: option.splits)
  then have step: "phase_step rc (sy_spec s) (sy_meta s) x st = Inr ?r"
    using ph inv sts by (simp add: core phase_step_def computeStable_def status_inv_def)
  have r: "es_phase (r_status ?r) = PhaseStable" "es_conditions (r_status ?r) = es_conditions st"
    using ph by (simp_all add: settle_def Let_def record_serving_cert_def split: option.splits)
  have "isInstanceConditionTrue ca (es_conditions st)"
    unfolding st_def isInstanceConditionTrue_def by (simp add: find_set [OF ok])
  with r ready have "ready_true ca (r_status (report_result ca (undisturbed rc ev) s x st (stamp now x ?r)))"
    by (intro stable_report_ready [OF ok]) (simp_all add: stamp_def)
  moreover have "status_inv st" "es_phase st \<noteq> PhaseUnset"
    using inv ph same_core_inv [OF decorated_same_core [OF dec]] by (simp_all add: core)
  moreover have "reconcile_pass ca pf srv (\<lambda>_. None) willing_status now (undisturbed rc ev) rc s
      = finish_pass ca srv (\<lambda>_. None) willing_status now (undisturbed rc ev) rc s x st"
    using ph lim
    by (simp add: reconcile_pass_def pass_observed_def pass_gated_def obs engineNeedsRender_def undisturbed_def
        resolveEngineOverlays_def overlayPresetOnClass_def gate_rejection_def st_def)
  ultimately show ?thesis
    by (simp add: finish_pass_willing [OF _ _ step]) (simp add: ready_true_def ready_of_def)
qed

lemma ready_true_is_truthful_witness:
  "\<exists>s'. reconcile_pass list_conditions ex_pf store_sts (\<lambda>_. None) willing_status 5 (undisturbed ex_rc None) ex_rc ex_settled = (None, s')
     \<and> ready_true list_conditions (sy_status s') \<and> es_phase (sy_status s') = PhaseStable"
proof -
  have st: "es_phase (sy_status ex_settled) = PhaseStable" "es_currentGeneration (sy_status ex_settled) = 0" "sy_spec ex_settled = ex_spec"
    "fingerprint_current ex_rc (sy_status ex_settled)" "rc_name ex_rc = ''e''" "rc_class ex_rc = None"
    by (simp_all add: ex_settled_def ex_status_def ex_sys_def fingerprint_current_def ex_rc_def)
  have inv: "status_inv (sy_status ex_settled)" using ex_settled_inv by (simp add: sys_inv_def)
  have ob: "obliging ex_pf store_sts ex_rc ex_settled" using ex_obliging by (simp add: obliging_def ex_settled_def)
  obtain x where x: "getEngineState ex_pf (reader_of ex_settled) (sy_spec ex_settled) (rc_name ex_rc) (sy_status ex_settled) (rc_class ex_rc) = Inr x"
    "x_currentPodsReady x = (x_currentSTS x \<noteq> None)"
    using observe_ok [OF ex_settled_inv _ ob, of "rc_class ex_rc"] st by (force simp: in_int64_def ex_rc_def)
  have sts: "x_currentSTS x = Some (store_sts (pass_sts ex_rc ex_spec 0))"
    using observed_sts [OF x(1)] st by (simp add: ex_names ex_settled_def)
  moreover have "pass_matches ex_rc (sy_spec ex_settled) (store_sts (pass_sts ex_rc ex_spec 0))"
    using ob st by (simp add: obliging_def in_int64_def)
  moreover have "terminalPhase (sy_spec ex_settled) = PhaseStable" "sp_replicas (sy_spec ex_settled) \<le> MaxEngineReplicas"
    by (simp_all add: st terminalPhase_def MaxEngineReplicas_def)
  ultimately obtain s' where s': "reconcile_pass list_conditions ex_pf store_sts (\<lambda>_. None) willing_status 5 (undisturbed ex_rc None) ex_rc ex_settled = (None, s')"
    "ready_true list_conditions (sy_status s')"
    using settled_pass_ready [OF list_conditions_ok inv st(4,1)] x by (metis option.distinct(1))
  have "es_phase (sy_status s') = PhaseStable"
    using ready_true_is_truthful [OF list_conditions_ok _ inv s'] st by simp
  with s' show ?thesis by blast
qed

end
