(* ===== verification/Engine_GC.thy ===== *)
theory Engine_GC
  imports Engine_Converge
begin

text \<open>
  Reclaiming what a rollout leaves behind: the sweep of abandoned generations at the end of every pass
  (\<open>engine_gc.go\<close>) and the clean-up when the engine itself is deleted (\<open>reconcileDelete\<close>).

  Both work on what \<open>client.Object\<close> shows of a listed child, the record \<open>child\<close>. The API is an argument:
  what a read or a list gives, and for each child whether its deletion is refused. A result lists the
  deletions that were issued, with their outcome.
\<close>

section \<open>Children\<close>

datatype child_kind = KStatefulSet | KService | KConfigMap | KCertificate | KSecret

record child =
  ch_kind :: child_kind
  ch_name :: string
  ch_labels :: "(string, string) gomap"
  ch_annotations :: "(string, string) gomap"
  ch_owners :: "(bool option \<times> string) list"
  ch_deleting :: bool
  ch_finalizers :: "string list"

datatype listing = Listed "child list" | ListFailed engine_error | KindUnavailable engine_error

definition label_of :: "child \<Rightarrow> string \<Rightarrow> string" where
  "label_of ch k = (case fmlookup (mitems (ch_labels ch)) k of Some v \<Rightarrow> v | None \<Rightarrow> [])"

definition CertificateNameKey :: string where "CertificateNameKey = ''cert-manager.io/certificate-name''"

definition engineOwnedSecret :: "child \<Rightarrow> string \<Rightarrow> bool" where
  "engineOwnedSecret secret engineName =
     (let certName = (case fmlookup (mitems (ch_annotations secret)) CertificateNameKey of Some v \<Rightarrow> v | None \<Rightarrow> [])
      in if certName = [] then False
         else has_prefix certName (engineName @ SuffixGen) \<and> has_suffix certName SuffixEngineTLS)"

definition engineOwnsForGC :: "string \<Rightarrow> string \<Rightarrow> child \<Rightarrow> bool" where
  "engineOwnsForGC engineName engineUID ch \<longleftrightarrow>
     list_ex (\<lambda>(controller, uid). controller = Some True \<and> uid = engineUID) (ch_owners ch) \<or>
     (ch_kind ch = KSecret \<and> engineOwnedSecret ch engineName)"

section \<open>The keep set\<close>

record generationKeepSet =
  ks_gens :: "string set"
  ks_newest :: int

definition empty_keep :: generationKeepSet where
  "empty_keep = \<lparr>ks_gens = {}, ks_newest = 0\<rparr>"

definition keep_add :: "int \<Rightarrow> generationKeepSet \<Rightarrow> generationKeepSet" where
  "keep_add gen k =
     \<lparr>ks_gens = insert (itoa gen) (ks_gens k), ks_newest = (if gen > ks_newest k then gen else ks_newest k)\<rparr>"

definition addExact :: "string \<Rightarrow> generationKeepSet \<Rightarrow> generationKeepSet" where
  "addExact gen k = (case atoi gen of None \<Rightarrow> k | Some _ \<Rightarrow> k\<lparr>ks_gens := insert gen (ks_gens k)\<rparr>)"

definition protects :: "generationKeepSet \<Rightarrow> string \<Rightarrow> bool" where
  "protects k gen =
     (if gen = [] \<or> gen \<in> ks_gens k then True
      else case atoi gen of None \<Rightarrow> True | Some n \<Rightarrow> n \<ge> ks_newest k)"

definition newerThanNewest :: "generationKeepSet \<Rightarrow> string \<Rightarrow> bool" where
  "newerThanNewest k gen = (case atoi gen of None \<Rightarrow> False | Some n \<Rightarrow> n > ks_newest k)"

definition status_keep :: "engine_status \<Rightarrow> generationKeepSet" where
  "status_keep status =
     (let k1 = keep_add (es_currentGeneration status) empty_keep;
          k2 = (if es_activeGeneration status \<ge> 0 then keep_add (es_activeGeneration status) k1 else k1)
      in case es_drainingGeneration status of None \<Rightarrow> k2 | Some d \<Rightarrow> keep_add d k2)"

section \<open>The sweep\<close>

definition GCMaxDeletesPerPass :: int where "GCMaxDeletesPerPass = 100"
definition GCMaxKindFailuresPerPass :: int where "GCMaxKindFailuresPerPass = 3"

record orphanSweep =
  os_budget :: int
  os_retry :: bool
  os_kindFailures :: int
  os_loggedStaleView :: bool

text \<open>A deletion with its outcome; NotFound counts as success, as in \<open>deleteIfExists\<close>.\<close>

type_synonym deletion = "child \<times> engine_error option"

definition sweepOrphan ::
  "(child \<Rightarrow> engine_error option) \<Rightarrow> string \<Rightarrow> string \<Rightarrow> generationKeepSet \<Rightarrow> child \<Rightarrow> orphanSweep \<Rightarrow> orphanSweep \<times> deletion list" where
  "sweepOrphan del name uid keep ch sweep =
     (let gen = label_of ch LabelGeneration
      in if protects keep gen \<or> ch_deleting ch then
           (if newerThanNewest keep gen \<and> \<not> os_loggedStaleView sweep then sweep\<lparr>os_loggedStaleView := True\<rparr> else sweep, [])
         else if \<not> engineOwnsForGC name uid ch then (sweep, [])
         else
           (let sweep1 = sweep\<lparr>os_budget := os_budget sweep - 1\<rparr>
            in case del ch of
                 None \<Rightarrow> (sweep1, [(ch, None)])
               | Some e \<Rightarrow> (sweep1\<lparr>os_retry := True, os_kindFailures := os_kindFailures sweep1 + 1\<rparr>, [(ch, Some e)])))"

fun sweep_loop ::
  "(child \<Rightarrow> engine_error option) \<Rightarrow> string \<Rightarrow> string \<Rightarrow> generationKeepSet \<Rightarrow> child list \<Rightarrow> orphanSweep
     \<Rightarrow> bool \<times> orphanSweep \<times> deletion list" where
  "sweep_loop del name uid keep [] sweep = (True, sweep, [])"
| "sweep_loop del name uid keep (ch # chs) sweep =
     (if os_budget sweep \<le> 0 then (False, sweep\<lparr>os_retry := True\<rparr>, [])
      else if os_kindFailures sweep \<ge> GCMaxKindFailuresPerPass then (True, sweep, [])
      else case sweepOrphan del name uid keep ch sweep of
             (sweep1, ds) \<Rightarrow>
               (case sweep_loop del name uid keep chs sweep1 of (ok, sweep2, ds2) \<Rightarrow> (ok, sweep2, ds @ ds2)))"

definition sweepKind ::
  "(child \<Rightarrow> engine_error option) \<Rightarrow> string \<Rightarrow> string \<Rightarrow> generationKeepSet \<Rightarrow> child list \<Rightarrow> orphanSweep
     \<Rightarrow> bool \<times> orphanSweep \<times> deletion list" where
  "sweepKind del name uid keep chs sweep = sweep_loop del name uid keep chs (sweep\<lparr>os_kindFailures := 0\<rparr>)"

text \<open>The five kinds in the order of the source: a failed list ends the pass with a backlog, except that the
  Certificate kind may be unknown to the cluster.\<close>

fun sweep_kinds ::
  "(child \<Rightarrow> engine_error option) \<Rightarrow> string \<Rightarrow> string \<Rightarrow> generationKeepSet \<Rightarrow> (child_kind \<Rightarrow> listing) \<Rightarrow> child_kind list
     \<Rightarrow> orphanSweep \<Rightarrow> bool \<times> deletion list" where
  "sweep_kinds del name uid keep ls [] sweep = (os_retry sweep, [])"
| "sweep_kinds del name uid keep ls (kd # kds) sweep =
     (case ls kd of
        ListFailed e \<Rightarrow> (True, [])
      | KindUnavailable e \<Rightarrow>
          if kd = KCertificate then sweep_kinds del name uid keep ls kds sweep else (True, [])
      | Listed chs \<Rightarrow>
          (case sweepKind del name uid keep chs sweep of
             (False, sweep1, ds) \<Rightarrow> (os_retry sweep1, ds)
           | (True, sweep1, ds) \<Rightarrow>
               (case sweep_kinds del name uid keep ls kds sweep1 of (b, ds2) \<Rightarrow> (b, ds @ ds2))))"

datatype status_read = StatusIs engine_status | EngineGone | StatusUnreadable
datatype selector_read = SelectorIs "(string, string) gomap" | ServiceGone | ServiceUnreadable

definition sweepStatus :: "bool \<Rightarrow> engine_status \<Rightarrow> status_read \<Rightarrow> engine_status option \<times> bool" where
  "sweepStatus hasAPIReader handed apiRead =
     (if \<not> hasAPIReader then (Some handed, False)
      else case apiRead of
             StatusIs st \<Rightarrow> (Some st, False)
           | EngineGone \<Rightarrow> (None, False)
           | StatusUnreadable \<Rightarrow> (None, True))"

definition fresh_sweep :: orphanSweep where
  "fresh_sweep = \<lparr>os_budget = GCMaxDeletesPerPass, os_retry = False, os_kindFailures = 0, os_loggedStaleView = False\<rparr>"

definition sweep_order :: "child_kind list" where
  "sweep_order = [KStatefulSet, KService, KConfigMap, KCertificate, KSecret]"

record gc_reads =
  gr_hasAPIReader :: bool
  gr_live :: status_read
  gr_selector :: selector_read
  gr_list :: "child_kind \<Rightarrow> listing"

definition gcOrphanedResources ::
  "(child \<Rightarrow> engine_error option) \<Rightarrow> gc_reads \<Rightarrow> string \<Rightarrow> string \<Rightarrow> engine_status \<Rightarrow> bool \<times> deletion list" where
  "gcOrphanedResources del rd name uid handed =
     (case sweepStatus (gr_hasAPIReader rd) handed (gr_live rd) of
        (None, unreadable) \<Rightarrow> (unreadable, [])
      | (Some status, _) \<Rightarrow>
          (case gr_selector rd of
             ServiceUnreadable \<Rightarrow> (True, [])
           | ServiceGone \<Rightarrow> sweep_kinds del name uid (status_keep status) (gr_list rd) sweep_order fresh_sweep
           | SelectorIs sel \<Rightarrow>
               (let keep = (case fmlookup (mitems sel) LabelGeneration of
                              Some gen \<Rightarrow> addExact gen (status_keep status) | None \<Rightarrow> status_keep status)
                in sweep_kinds del name uid keep (gr_list rd) sweep_order fresh_sweep)))"

section \<open>What a sweep deletes\<close>

definition orphan :: "string \<Rightarrow> string \<Rightarrow> generationKeepSet \<Rightarrow> child \<Rightarrow> bool" where
  "orphan name uid keep ch \<longleftrightarrow>
     \<not> protects keep (label_of ch LabelGeneration) \<and> \<not> ch_deleting ch \<and> engineOwnsForGC name uid ch"

lemma sweepOrphan_spared:
  assumes "\<not> orphan name uid keep ch" "sweepOrphan del name uid keep ch sweep = (sweep1, ds)"
  shows "ds = [] \<and> os_budget sweep1 = os_budget sweep \<and> os_retry sweep1 = os_retry sweep \<and> os_kindFailures sweep1 = os_kindFailures sweep"
  using assms by (auto simp: orphan_def sweepOrphan_def Let_def split: if_splits)

lemma sweepOrphan_taken:
  assumes "orphan name uid keep ch" "sweepOrphan del name uid keep ch sweep = (sweep1, ds)"
  shows "ds = [(ch, del ch)] \<and> os_budget sweep1 = os_budget sweep - 1 \<and>
    os_retry sweep1 = (os_retry sweep \<or> del ch \<noteq> None) \<and>
    os_kindFailures sweep1 = os_kindFailures sweep + (if del ch = None then 0 else 1)"
  using assms by (auto simp: orphan_def sweepOrphan_def Let_def split: if_splits option.splits)

lemmas sweepOrphan_effect = sweepOrphan_spared sweepOrphan_taken

lemma sweepOrphan_cases:
  assumes "sweepOrphan del name uid keep ch sweep = (sweep1, ds)"
  obtains (spared) "\<not> orphan name uid keep ch" "ds = []" "os_budget sweep1 = os_budget sweep"
      "os_retry sweep1 = os_retry sweep" "os_kindFailures sweep1 = os_kindFailures sweep"
  | (deleted) "orphan name uid keep ch" "ds = [(ch, None)]" "del ch = None" "os_budget sweep1 = os_budget sweep - 1"
      "os_retry sweep1 = os_retry sweep" "os_kindFailures sweep1 = os_kindFailures sweep"
  | (refused) e where "orphan name uid keep ch" "ds = [(ch, Some e)]" "del ch = Some e" "os_budget sweep1 = os_budget sweep - 1"
      "os_retry sweep1" "os_kindFailures sweep1 = os_kindFailures sweep + 1"
  using sweepOrphan_effect [OF _ assms] by (cases "orphan name uid keep ch"; cases "del ch") (auto intro: that)

text \<open>A kind: what was deleted were orphans of the list, the budget is charged one for each, failures are
  bounded, and without a backlog every orphan of the list was deleted.\<close>

definition failures :: "deletion list \<Rightarrow> nat" where
  "failures ds = length (filter (\<lambda>d. snd d \<noteq> None) ds)"

lemma sweep_loop_effect:
  assumes "sweep_loop del name uid keep chs sweep = (ok, sweep1, ds)"
  shows "set ds \<subseteq> {(c, del c) |c. c \<in> set chs \<and> orphan name uid keep c}
    \<and> os_budget sweep1 = os_budget sweep - int (length ds)
    \<and> os_kindFailures sweep1 = os_kindFailures sweep + int (failures ds)
    \<and> (0 \<le> os_budget sweep \<longrightarrow> 0 \<le> os_budget sweep1)
    \<and> (os_kindFailures sweep \<le> GCMaxKindFailuresPerPass \<longrightarrow> os_kindFailures sweep1 \<le> GCMaxKindFailuresPerPass)
    \<and> (os_retry sweep \<or> failures ds \<noteq> 0 \<longrightarrow> os_retry sweep1)
    \<and> (\<not> ok \<longrightarrow> os_retry sweep1)"
  using assms
proof (induction chs arbitrary: sweep ds)
  case (Cons ch chs)
  show ?case
  proof (cases "os_budget sweep \<le> 0 \<or> os_kindFailures sweep \<ge> GCMaxKindFailuresPerPass")
    case True
    with Cons.prems show ?thesis by (auto simp: failures_def split: if_splits)
  next
    case False
    obtain sweep0 ds1 where one: "sweepOrphan del name uid keep ch sweep = (sweep0, ds1)" by force
    from False Cons.prems obtain ds2 where rest: "sweep_loop del name uid keep chs sweep0 = (ok, sweep1, ds2)" "ds = ds1 @ ds2"
      by (auto simp: one split: prod.splits)
    from one show ?thesis
    proof (cases rule: sweepOrphan_cases)
      case spared
      with Cons.IH [OF rest(1)] rest(2) show ?thesis by auto
    next
      case deleted
      with Cons.IH [OF rest(1)] rest(2) False show ?thesis by (auto simp: failures_def)
    next
      case (refused e)
      with Cons.IH [OF rest(1)] rest(2) False show ?thesis by (auto simp: failures_def)
    qed
  qed
qed (simp add: failures_def)

lemma sweep_loop_complete:
  assumes "sweep_loop del name uid keep chs sweep = (ok, sweep1, ds)" "\<not> os_retry sweep1" "c \<in> set chs" "orphan name uid keep c"
    "os_kindFailures sweep < GCMaxKindFailuresPerPass"
  shows "(c, None) \<in> set ds"
  using assms
proof (induction chs arbitrary: sweep ds)
  case (Cons ch chs)
  obtain sweep0 ds1 where one: "sweepOrphan del name uid keep ch sweep = (sweep0, ds1)" by force
  have "\<not> os_budget sweep \<le> 0" using Cons.prems(1,2) by (auto split: if_splits)
  with Cons.prems obtain ds2 where rest: "sweep_loop del name uid keep chs sweep0 = (ok, sweep1, ds2)" "ds = ds1 @ ds2"
    by (auto simp: one split: prod.splits)
  from one show ?case
  proof (cases rule: sweepOrphan_cases)
    case (refused e)
    with sweep_loop_effect [OF rest(1)] Cons.prems(2) show ?thesis by simp
  qed (use Cons.IH [OF rest(1)] Cons.prems rest(2) in auto)
qed simp

lemma sweep_kinds_effect:
  assumes "sweep_kinds del name uid keep ls kds sweep = (b, ds)" "0 \<le> os_budget sweep"
  shows "set ds \<subseteq> {(c, del c) |c. \<exists>kd chs. kd \<in> set kds \<and> ls kd = Listed chs \<and> c \<in> set chs \<and> orphan name uid keep c}
    \<and> int (length ds) \<le> os_budget sweep"
  using assms
proof (induction kds arbitrary: sweep b ds)
  case (Cons kd kds)
  show ?case
  proof (cases "ls kd")
    case (Listed chs)
    obtain ok sweep1 ds1 where one: "sweepKind del name uid keep chs sweep = (ok, sweep1, ds1)" using prod_cases3 by blast
    note eff = sweep_loop_effect [OF one [unfolded sweepKind_def]]
    show ?thesis
    proof (cases ok)
      case False
      with Cons.prems Listed one have "ds = ds1" by simp
      with eff Listed Cons.prems(2) show ?thesis by fastforce
    next
      case True
      obtain b2 ds2 where rest: "sweep_kinds del name uid keep ls kds sweep1 = (b2, ds2)" by force
      with True Cons.prems Listed one have "ds = ds1 @ ds2" by simp
      with eff Listed Cons.IH [OF rest] Cons.prems(2) show ?thesis by fastforce
    qed
  qed (use Cons in \<open>fastforce split: if_splits\<close>)+
qed simp

text \<open>No backlog means that nothing is left: every list succeeded and every orphan was deleted.\<close>

lemma sweep_kinds_retry:
  assumes "sweep_kinds del name uid keep ls kds sweep = (False, ds)"
  shows "\<not> os_retry sweep"
  using assms
proof (induction kds arbitrary: sweep ds)
  case (Cons kd kds)
  show ?case
  proof (cases "ls kd")
    case (Listed chs)
    obtain ok sweep1 ds1 where one: "sweepKind del name uid keep chs sweep = (ok, sweep1, ds1)" using prod_cases3 by blast
    note eff = sweep_loop_effect [OF one [unfolded sweepKind_def]]
    obtain b2 ds2 where rest: "sweep_kinds del name uid keep ls kds sweep1 = (b2, ds2)" by force
    with Cons.prems Listed one have "\<not> os_retry sweep1" using Cons.IH [of sweep1 ds2] by (cases ok) auto
    with eff show ?thesis by auto
  qed (use Cons in \<open>auto split: if_splits\<close>)
qed auto

lemma sweep_kinds_complete:
  assumes "sweep_kinds del name uid keep ls kds sweep = (False, ds)" "kd \<in> set kds" "ls kd = Listed chs"
    "c \<in> set chs" "orphan name uid keep c"
  shows "(c, None) \<in> set ds"
  using assms(1,2)
proof (induction kds arbitrary: sweep ds)
  case (Cons k kds)
  show ?case
  proof (cases "ls k")
    case (Listed ys)
    obtain ok sweep1 ds1 where one: "sweepKind del name uid keep ys sweep = (ok, sweep1, ds1)" using prod_cases3 by blast
    obtain b2 ds2 where rest: "sweep_kinds del name uid keep ls kds sweep1 = (b2, ds2)" by force
    have eff: "\<not> ok \<longrightarrow> os_retry sweep1" using sweep_loop_effect [OF one [unfolded sweepKind_def]] by simp
    with Cons.prems(1) Listed one rest have all: "ok" "b2 = False" "ds = ds1 @ ds2" by (auto split: bool.splits)
    have "\<not> os_retry sweep1" using sweep_kinds_retry rest all(2) by blast
    then have "(c, None) \<in> set ds1" if "kd = k"
      using that Listed assms(3-5) sweep_loop_complete [OF one [unfolded sweepKind_def]] by (simp add: GCMaxKindFailuresPerPass_def)
    with all Cons.IH [OF rest [unfolded all(2)]] Cons.prems(2) show ?thesis by auto
  qed (use Cons assms(3) in \<open>auto split: if_splits\<close>)
qed simp

section \<open>The keep set protects what the status records\<close>

lemma keep_add_simps [simp]:
  "ks_gens (keep_add g k) = insert (itoa g) (ks_gens k)" "ks_newest (keep_add g k) = max g (ks_newest k)"
  by (auto simp: keep_add_def)

lemma addExact_simps [simp]: "ks_newest (addExact gen k) = ks_newest k" "ks_gens k \<subseteq> ks_gens (addExact gen k)"
  by (auto simp: addExact_def split: option.splits)

lemma status_keep_gens: "g \<in> recorded_gens st \<Longrightarrow> 0 \<le> g \<Longrightarrow> itoa g \<in> ks_gens (status_keep st)"
  by (auto simp: status_keep_def recorded_gens_def Let_def split: option.splits)

lemma status_keep_newest:
  assumes "status_inv st" "es_phase st \<noteq> PhaseUnset"
  shows "ks_newest (status_keep st) = es_currentGeneration st"
  using assms
  by (cases "es_phase st") (auto simp: status_keep_def empty_keep_def status_inv_def draining_gen_def Let_def split: option.splits)

lemma protects_recorded:
  assumes "g \<in> recorded_gens st" "0 \<le> g" "ks_gens (status_keep st) \<subseteq> ks_gens k"
  shows "protects k (itoa g)"
  using status_keep_gens [OF assms(1,2)] assms(3) by (auto simp: protects_def)

lemma protects_floor:
  assumes "ks_newest k \<le> g" "0 \<le> g"
  shows "protects k (itoa g)"
  using assms atoi_itoa_eq [OF assms(2)] by (auto simp: protects_def split: option.splits)

text \<open>The keep set of a sweep, from the status and the selector it read.\<close>

definition sweep_keep :: "engine_status \<Rightarrow> selector_read \<Rightarrow> generationKeepSet" where
  "sweep_keep status sel =
     (case sel of
        SelectorIs m \<Rightarrow> (case fmlookup (mitems m) LabelGeneration of
           Some gen \<Rightarrow> addExact gen (status_keep status) | None \<Rightarrow> status_keep status)
      | _ \<Rightarrow> status_keep status)"

lemma sweep_keep_simps [simp]:
  "ks_newest (sweep_keep st sel) = ks_newest (status_keep st)" "ks_gens (status_keep st) \<subseteq> ks_gens (sweep_keep st sel)"
  using addExact_simps by (auto simp: sweep_keep_def split: selector_read.splits option.splits)

lemma gc_runs:
  assumes "gcOrphanedResources del rd name uid handed = (b, ds)"
    and "sweepStatus (gr_hasAPIReader rd) handed (gr_live rd) = (Some st, u)" "gr_selector rd \<noteq> ServiceUnreadable"
  shows "sweep_kinds del name uid (sweep_keep st (gr_selector rd)) (gr_list rd) sweep_order fresh_sweep = (b, ds)"
  using assms by (auto simp: gcOrphanedResources_def sweep_keep_def Let_def split: selector_read.splits option.splits)

lemma gc_deletion:
  assumes gc: "gcOrphanedResources del rd name uid handed = (b, ds)" and d: "(c, out) \<in> set ds"
  obtains st u where "sweepStatus (gr_hasAPIReader rd) handed (gr_live rd) = (Some st, u)" "gr_selector rd \<noteq> ServiceUnreadable"
    "orphan name uid (sweep_keep st (gr_selector rd)) c" "out = del c"
    "\<exists>kd chs. gr_list rd kd = Listed chs \<and> c \<in> set chs"
proof -
  obtain o1 u where s: "sweepStatus (gr_hasAPIReader rd) handed (gr_live rd) = (o1, u)" by force
  with gc d obtain st where st: "o1 = Some st" "gr_selector rd \<noteq> ServiceUnreadable"
    by (auto simp: gcOrphanedResources_def split: option.splits selector_read.splits)
  have "0 \<le> os_budget fresh_sweep" by (simp add: fresh_sweep_def GCMaxDeletesPerPass_def)
  from sweep_kinds_effect [OF gc_runs [OF gc s [unfolded st(1)] st(2)] this] d
  have "out = del c" "\<exists>kd chs. gr_list rd kd = Listed chs \<and> c \<in> set chs" "orphan name uid (sweep_keep st (gr_selector rd)) c"
    by blast+
  with s st show thesis by (intro that) auto
qed

section \<open>Properties of the sweep\<close>

text \<open>C31. What a sweep deletes: children of the engine, shown by a controller reference or by the provenance of
  a certificate Secret, that are not being deleted already and whose generation label is a number below the
  newest generation of the status it read, none of the generations that status records and not the one the
  routing Service selects.\<close>

theorem gc_deletes_only_orphans:
  assumes "gcOrphanedResources del rd name uid handed = (b, ds)" and "(c, out) \<in> set ds"
    and "sweepStatus (gr_hasAPIReader rd) handed (gr_live rd) = (Some st, u)"
    and "status_inv st" and "es_phase st \<noteq> PhaseUnset"
  shows "\<not> ch_deleting c \<and> engineOwnsForGC name uid c \<and>
    (\<exists>g. atoi (label_of c LabelGeneration) = Some g \<and> g < es_currentGeneration st) \<and>
    (\<forall>g\<in>recorded_gens st. 0 \<le> g \<longrightarrow> label_of c LabelGeneration \<noteq> itoa g) \<and>
    (\<forall>sel. gr_selector rd = SelectorIs sel \<longrightarrow> fmlookup (mitems sel) LabelGeneration \<noteq> Some (label_of c LabelGeneration))"
proof -
  obtain o: "orphan name uid (sweep_keep st (gr_selector rd)) c"
    using gc_deletion [OF assms(1,2)] assms(3) by (metis Pair_inject option.inject)
  then have np: "\<not> protects (sweep_keep st (gr_selector rd)) (label_of c LabelGeneration)" by (simp add: orphan_def)
  then have "\<exists>g. atoi (label_of c LabelGeneration) = Some g \<and> g < es_currentGeneration st"
    using status_keep_newest [OF assms(4,5)] by (auto simp: protects_def split: if_splits option.splits)
  moreover have "label_of c LabelGeneration \<noteq> itoa g" if "g \<in> recorded_gens st" "0 \<le> g" for g
    using protects_recorded [OF that] np sweep_keep_simps(2) by metis
  moreover have "fmlookup (mitems sel) LabelGeneration \<noteq> Some (label_of c LabelGeneration)" if "gr_selector rd = SelectorIs sel" for sel
    using np that calculation(1) by (auto simp: protects_def sweep_keep_def addExact_def split: if_splits option.splits)
  ultimately show ?thesis using o by (auto simp: orphan_def)
qed

lemma recorded_held:
  assumes "status_inv st" "es_phase st \<noteq> PhaseUnset" "g \<in> recorded_gens st"
  shows "g \<in> held (rollout_of st)"
  using assms
  by (cases "es_phase st") (auto simp: recorded_gens_def rollout_of_def status_inv_def draining_gen_def split: option.splits)

lemma held_recorded:
  assumes "status_inv st" "g \<in> held (rollout_of st)"
  shows "g \<in> recorded_gens st"
  using assms
  by (cases "es_phase st") (auto simp: recorded_gens_def rollout_of_def status_inv_def draining_gen_def split: option.splits)

lemma newest_current:
  "status_inv st \<Longrightarrow> es_phase st \<noteq> PhaseUnset \<Longrightarrow> newest (rollout_of st) = es_currentGeneration st"
  by (cases "es_phase st") (auto simp: rollout_of_def status_inv_def)

text \<open>C30. A sweep is safe on a stale view: even if the status it read has been overtaken by later passes,
  whatever else happened to the objects meanwhile, it deletes nothing of a generation the status records
  now.\<close>

theorem gc_safe_on_stale_status:
  assumes "(hostile_step n ns pf srv)\<^sup>*\<^sup>* s s'" and "status_inv (sy_status s)" and "es_phase (sy_status s) \<noteq> PhaseUnset"
    and "sweepStatus (gr_hasAPIReader rd) handed (gr_live rd) = (Some (sy_status s), u)"
    and "gcOrphanedResources del rd name uid handed = (b, ds)" and "(c, out) \<in> set ds"
    and "g \<in> recorded_gens (sy_status s')" and "0 \<le> g"
  shows "label_of c LabelGeneration \<noteq> itoa g"
proof
  assume l: "label_of c LabelGeneration = itoa g"
  let ?k = "sweep_keep (sy_status s) (gr_selector rd)"
  have np: "\<not> protects ?k (itoa g)"
    using gc_deletion [OF assms(5,6)] assms(4) l by (metis Pair_inject option.inject orphan_def)
  have inv': "status_inv (sy_status s')" by (rule engine.reach_keeps [OF assms(1,2)])
  have "es_phase (sy_status s') \<noteq> PhaseUnset" using assms(1,3)
  proof (induction rule: rtranclp_induct)
    case (step y z)
    then have "status_inv (sy_status y)" using engine.reach_keeps [OF _ assms(2)] by blast
    then have "rollout_step (rollout_of (sy_status y)) (rollout_of (sy_status z))" using step_refines step by blast
    with step show ?case by (auto simp: rollout_of_def elim!: rollout_stepE split: engine_phase.splits)
  qed
  with assms(7) inv' have "g \<in> held (rollout_of (sy_status s'))" by (intro recorded_held)
  then have "g \<in> held (rollout_of (sy_status s)) \<or> newest (rollout_of (sy_status s)) \<le> g"
    using engine.later_held [OF assms(1,2)] by auto
  then show False
  proof
    assume "g \<in> held (rollout_of (sy_status s))"
    with np show False using protects_recorded [OF held_recorded [OF assms(2)] assms(8)] by simp
  next
    assume "newest (rollout_of (sy_status s)) \<le> g"
    with np show False
      using protects_floor [of ?k g] assms(8) status_keep_newest [OF assms(2,3)] newest_current [OF assms(2,3)] by simp
  qed
qed

text \<open>A sweep issues at most a hundred deletions, whatever it finds.\<close>

lemma gc_deletes_bounded: "length (snd (gcOrphanedResources del rd name uid handed)) \<le> 100"
proof -
  obtain b ds where gc: "gcOrphanedResources del rd name uid handed = (b, ds)" by force
  have "length ds \<le> 100"
  proof (cases ds)
    case (Cons d ds')
    obtain c out where "(c, out) \<in> set ds" using Cons by (cases d) auto
    then obtain st u where "sweepStatus (gr_hasAPIReader rd) handed (gr_live rd) = (Some st, u)" "gr_selector rd \<noteq> ServiceUnreadable"
      by (rule gc_deletion [OF gc])
    from sweep_kinds_effect [OF gc_runs [OF gc this]] show ?thesis by (simp add: fresh_sweep_def GCMaxDeletesPerPass_def)
  qed simp
  with gc show ?thesis by simp
qed

text \<open>A sweep that reports no backlog has left no orphan standing: every child in a list it read that the
  keep set does not protect, that the engine owns and that is not being deleted has been deleted.\<close>

theorem gc_complete_without_backlog:
  assumes "gcOrphanedResources del rd name uid handed = (False, ds)"
    and "sweepStatus (gr_hasAPIReader rd) handed (gr_live rd) = (Some st, u)"
    and "gr_list rd kd = Listed chs" and "c \<in> set chs" and "orphan name uid (sweep_keep st (gr_selector rd)) c"
  shows "(c, None) \<in> set ds"
proof -
  have "gr_selector rd \<noteq> ServiceUnreadable" using assms(1,2) by (auto simp: gcOrphanedResources_def)
  note run = gc_runs [OF assms(1,2) this]
  have "kd \<in> set sweep_order" by (cases kd) (simp_all add: sweep_order_def)
  from sweep_kinds_complete [OF run this assms(3-5)] show ?thesis .
qed

section \<open>The sweep as a step of the system\<close>

text \<open>Removing what was deleted from the cluster; Secrets are not part of it.\<close>

definition remove_child :: "child \<Rightarrow> cluster \<Rightarrow> cluster" where
  "remove_child ch c =
     (case ch_kind ch of
        KStatefulSet \<Rightarrow> c\<lparr>cl_sts := (cl_sts c)(ch_name ch := None)\<rparr>
      | KService \<Rightarrow> c\<lparr>cl_svc := (cl_svc c)(ch_name ch := None)\<rparr>
      | KConfigMap \<Rightarrow> c\<lparr>cl_cm := (cl_cm c)(ch_name ch := None)\<rparr>
      | KCertificate \<Rightarrow> c\<lparr>cl_crt := (cl_crt c)(ch_name ch := None)\<rparr>
      | KSecret \<Rightarrow> c)"

fun after_sweep :: "deletion list \<Rightarrow> cluster \<Rightarrow> cluster" where
  "after_sweep [] c = c"
| "after_sweep ((ch, out) # ds) c = after_sweep ds (if out = None then remove_child ch c else c)"

text \<open>The lists show the labels of the objects in the cluster, and a StatefulSet is labelled with its
  generation, as \<open>buildStatefulSet\<close> writes it.\<close>

definition lists_cluster :: "(child_kind \<Rightarrow> listing) \<Rightarrow> cluster \<Rightarrow> bool" where
  "lists_cluster ls c \<longleftrightarrow>
     (\<forall>kd chs ch. ls kd = Listed chs \<longrightarrow> ch \<in> set chs \<longrightarrow>
        (\<forall>t. ch_kind ch = KStatefulSet \<longrightarrow> cl_sts c (ch_name ch) = Some t \<longrightarrow> ch_labels ch = sts_labels t) \<and>
        (\<forall>v. ch_kind ch = KService \<longrightarrow> cl_svc c (ch_name ch) = Some v \<longrightarrow> ch_labels ch = svc_labels v))"

definition labelled :: "string \<Rightarrow> cluster \<Rightarrow> bool" where
  "labelled n c \<longleftrightarrow>
     (\<forall>g t. 0 \<le> g \<longrightarrow> cl_sts c (genResourceName n g []) = Some t \<longrightarrow>
        fmlookup (mitems (sts_labels t)) LabelGeneration = Some (itoa g))"

lemma after_sweep_removes:
  "(cl_sts (after_sweep ds c) k = cl_sts c k \<or> cl_sts (after_sweep ds c) k = None) \<and>
   (cl_cm (after_sweep ds c) k = cl_cm c k \<or> cl_cm (after_sweep ds c) k = None) \<and>
   (cl_svc (after_sweep ds c) k = cl_svc c k \<or> cl_svc (after_sweep ds c) k = None) \<and>
   (cl_crt (after_sweep ds c) k = cl_crt c k \<or> cl_crt (after_sweep ds c) k = None)"
proof (induction ds c rule: after_sweep.induct)
  case (2 ch out ds c)
  moreover have "(cl_sts (remove_child ch c) k = cl_sts c k \<or> cl_sts (remove_child ch c) k = None) \<and>
   (cl_cm (remove_child ch c) k = cl_cm c k \<or> cl_cm (remove_child ch c) k = None) \<and>
   (cl_svc (remove_child ch c) k = cl_svc c k \<or> cl_svc (remove_child ch c) k = None) \<and>
   (cl_crt (remove_child ch c) k = cl_crt c k \<or> cl_crt (remove_child ch c) k = None)"
    by (cases "ch_kind ch") (auto simp: remove_child_def)
  ultimately show ?case by (cases out) auto
qed simp

lemma after_sweep_sts:
  assumes "\<forall>(ch, out)\<in>set ds. ch_kind ch = KStatefulSet \<longrightarrow> ch_name ch \<noteq> k"
  shows "cl_sts (after_sweep ds c) k = cl_sts c k"
  using assms
proof (induction ds c rule: after_sweep.induct)
  case (2 ch out ds c)
  then have "cl_sts (if out = None then remove_child ch c else c) k = cl_sts c k"
    by (cases "ch_kind ch") (auto simp: remove_child_def)
  with 2 show ?case by auto
qed simp

lemma after_sweep_svc:
  assumes "\<forall>(ch, out)\<in>set ds. ch_kind ch = KService \<longrightarrow> ch_name ch \<noteq> k"
  shows "cl_svc (after_sweep ds c) k = cl_svc c k"
  using assms
proof (induction ds c rule: after_sweep.induct)
  case (2 ch out ds c)
  then have "cl_svc (if out = None then remove_child ch c else c) k = cl_svc c k"
    by (cases "ch_kind ch") (auto simp: remove_child_def)
  with 2 show ?case by auto
qed simp

lemma after_sweep_missing: "cl_sts c k = None \<Longrightarrow> cl_sts (after_sweep ds c) k = None" "cl_svc c k = None \<Longrightarrow> cl_svc (after_sweep ds c) k = None"
  using after_sweep_removes [of ds c k] by auto

lemma gc_sweep_ok:
  assumes inv: "sys_inv n ns s" and ls: "lists_cluster (gr_list rd) (sy_cluster s)" and lab: "labelled n (sy_cluster s)"
    and live: "sweepStatus (gr_hasAPIReader rd) handed (gr_live rd) = (Some (sy_status s), u)"
    and gc: "gcOrphanedResources del rd n uid handed = (b, ds)"
  shows "sweep_ok n (sy_status s) (sy_cluster s) (after_sweep ds (sy_cluster s))"
proof -
  let ?c = "sy_cluster s" and ?k = "sweep_keep (sy_status s) (gr_selector rd)"
  have del: "\<not> protects ?k (label_of ch LabelGeneration)" if "(ch, out) \<in> set ds" for ch out
    using gc_deletion [OF gc that] live by (metis Pair_inject option.inject orphan_def)
  have listed: "(\<forall>t. ch_kind ch = KStatefulSet \<longrightarrow> cl_sts ?c (ch_name ch) = Some t \<longrightarrow> ch_labels ch = sts_labels t) \<and>
      (\<forall>v. ch_kind ch = KService \<longrightarrow> cl_svc ?c (ch_name ch) = Some v \<longrightarrow> ch_labels ch = svc_labels v)"
    if "(ch, out) \<in> set ds" for ch out
    using gc_deletion [OF gc that] ls unfolding lists_cluster_def by metis
  have sts: "cl_sts (after_sweep ds ?c) (genResourceName n g []) = cl_sts ?c (genResourceName n g [])"
    if g: "g \<in> recorded_gens (sy_status s)" "0 \<le> g" for g
  proof (cases "cl_sts ?c (genResourceName n g [])")
    case (Some t)
    with lab g have "fmlookup (mitems (sts_labels t)) LabelGeneration = Some (itoa g)" by (simp add: labelled_def)
    moreover have "protects ?k (itoa g)" using protects_recorded [OF g] by simp
    moreover have "ch_labels ch = sts_labels t" if "(ch, out) \<in> set ds" "ch_kind ch = KStatefulSet" "ch_name ch = genResourceName n g []" for ch out
      using listed [OF that(1)] that Some by simp
    ultimately have "ch_name ch \<noteq> genResourceName n g []" if "(ch, out) \<in> set ds" "ch_kind ch = KStatefulSet" for ch out
      using that del [OF that(1)] by (auto simp: label_of_def)
    then show ?thesis by (intro after_sweep_sts) auto
  qed (simp add: after_sweep_missing)
  have svc: "cl_svc (after_sweep ds ?c) (n @ SuffixService) = cl_svc ?c (n @ SuffixService)"
  proof (cases "cl_svc ?c (n @ SuffixService)")
    case (Some v)
    with inv obtain g where "v = buildClusterService n ns g"
      by (auto simp: sys_inv_def cluster_inv_def route_ok_def)
    then have "fmlookup (mitems (svc_labels v)) LabelGeneration = None"
      by (simp add: buildClusterService_def LabelEngine_def LabelGeneration_def)
    moreover have "ch_labels ch = svc_labels v" if "(ch, out) \<in> set ds" "ch_kind ch = KService" "ch_name ch = n @ SuffixService" for ch out
      using listed [OF that(1)] that Some by simp
    ultimately have "ch_name ch \<noteq> n @ SuffixService" if "(ch, out) \<in> set ds" "ch_kind ch = KService" for ch out
      using that del [OF that(1)] by (auto simp: label_of_def protects_def)
    then show ?thesis by (intro after_sweep_svc) auto
  qed (simp add: after_sweep_missing)
  show ?thesis
    unfolding sweep_ok_def by (intro conjI allI ballI impI) (simp_all add: after_sweep_removes sts svc)
qed

text \<open>The sweep is one of the steps the safety of the engine is proved for: run on the status that is
  recorded, with lists that show the cluster, it is a \<open>sweep\<close> step, so traffic, routing and every later
  pass keep their guarantees.\<close>

theorem gc_is_a_safe_step:
  assumes "sys_inv n ns s" and "lists_cluster (gr_list rd) (sy_cluster s)" and "labelled n (sy_cluster s)"
    and "sweepStatus (gr_hasAPIReader rd) handed (gr_live rd) = (Some (sy_status s), u)"
    and "gcOrphanedResources del rd n uid handed = (b, ds)"
  shows "sys_step n ns pf srv s (s\<lparr>sy_cluster := after_sweep ds (sy_cluster s)\<rparr>) \<and>
    sys_inv n ns (s\<lparr>sy_cluster := after_sweep ds (sy_cluster s)\<rparr>)"
proof -
  have ok: "sweep_ok n (sy_status s) (sy_cluster s) (after_sweep ds (sy_cluster s))" by (rule gc_sweep_ok [OF assms])
  then have "sys_step n ns pf srv s (s\<lparr>sy_cluster := after_sweep ds (sy_cluster s)\<rparr>)" by (rule sys_step.sweep)
  moreover have "sys_inv n ns (s\<lparr>sy_cluster := after_sweep ds (sy_cluster s)\<rparr>)"
    using sweep_keeps [OF ok] assms(1) by (simp add: sys_inv_def)
  ultimately show ?thesis ..
qed

section \<open>Deleting the engine\<close>

record externalFinalizerEntry =
  ef_kind :: child_kind
  ef_name :: string
  ef_finalizers :: "string list"

definition appendExternalFinalizer :: "externalFinalizerEntry list \<Rightarrow> child_kind \<Rightarrow> child \<Rightarrow> externalFinalizerEntry list" where
  "appendExternalFinalizer externals kd ch =
     (if ch_finalizers ch = [] then externals
      else externals @ [\<lparr>ef_kind = kd, ef_name = ch_name ch, ef_finalizers = ch_finalizers ch\<rparr>])"

fun kind_name :: "child_kind \<Rightarrow> string" where
  "kind_name KStatefulSet = ''StatefulSet''"
| "kind_name KService = ''Service''"
| "kind_name KConfigMap = ''ConfigMap''"
| "kind_name KCertificate = ''Certificate''"
| "kind_name KSecret = ''Secret''"

fun join :: "string \<Rightarrow> string list \<Rightarrow> string" where
  "join sep [] = []"
| "join sep [x] = x"
| "join sep (x # y # xs) = x @ sep @ join sep (y # xs)"

definition formatExternalFinalizerMessage :: "externalFinalizerEntry list \<Rightarrow> string" where
  "formatExternalFinalizerMessage externals =
     ''External finalizers on owned resources (engine CR will be garbage-collected; the listed resources will linger until their finalizers are removed by their owners):''
     @ concat (map (\<lambda>e. newline # ''  - '' @ kind_name (ef_kind e) @ ''/'' @ ef_name e @ '': '' @ join '', '' (ef_finalizers e)) externals)"

text \<open>One kind: the errors met, the deletions issued and the foreign finalizers seen. Only a Secret has to show
  its provenance; foreign finalizers are reported for the first three kinds.\<close>

definition cleanup_kind ::
  "(child \<Rightarrow> engine_error option) \<Rightarrow> string \<Rightarrow> child_kind \<Rightarrow> listing
     \<Rightarrow> engine_error list \<times> deletion list \<times> externalFinalizerEntry list" where
  "cleanup_kind del name kd l =
     (case l of
        ListFailed e \<Rightarrow> ([e], [], [])
      | KindUnavailable e \<Rightarrow> if kd = KCertificate then ([], [], []) else ([e], [], [])
      | Listed chs \<Rightarrow>
          (let ds = map (\<lambda>c. (c, del c)) (if kd = KSecret then filter (\<lambda>c. engineOwnedSecret c name) chs else chs)
           in (List.map_filter snd ds, ds,
               if kd \<in> {KStatefulSet, KService, KConfigMap}
               then fold (\<lambda>c ex. appendExternalFinalizer ex kd c) chs [] else [])))"

record delete_result =
  dr_error :: "engine_error option"
  dr_deletions :: "deletion list"
  dr_report :: "string option"
  dr_finalizerRemoved :: bool

definition reconcileDelete ::
  "(child \<Rightarrow> engine_error option) \<Rightarrow> engine_error option \<Rightarrow> (child_kind \<Rightarrow> listing) \<Rightarrow> string \<Rightarrow> delete_result" where
  "reconcileDelete del upd ls name =
     (let rs = map (\<lambda>kd. cleanup_kind del name kd (ls kd)) sweep_order;
          errs = concat (map fst rs);
          ds = concat (map (fst \<circ> snd) rs);
          externals = concat (map (snd \<circ> snd) rs);
          report = (if externals = [] then None else Some (formatExternalFinalizerMessage externals))
      in case errs of
           e # _ \<Rightarrow> \<lparr>dr_error = Some e, dr_deletions = ds, dr_report = None, dr_finalizerRemoved = False\<rparr>
         | [] \<Rightarrow> \<lparr>dr_error = upd, dr_deletions = ds, dr_report = report, dr_finalizerRemoved = (upd = None)\<rparr>)"

lemma cleanup_kind_clean:
  assumes "fst (cleanup_kind del name kd l) = []" "l = Listed chs" "c \<in> set chs" "kd = KSecret \<longrightarrow> engineOwnedSecret c name"
  shows "(c, None) \<in> set (fst (snd (cleanup_kind del name kd l)))"
proof -
  let ?cs = "if kd = KSecret then filter (\<lambda>c. engineOwnedSecret c name) chs else chs"
  have mf: "List.map_filter snd ds = [] \<longleftrightarrow> (\<forall>d\<in>set ds. snd d = None)" for ds :: "deletion list"
    by (induction ds) (auto simp: map_filter_simps split: option.splits)
  have "c \<in> set ?cs" using assms(3,4) by auto
  moreover have "del d = None" if "d \<in> set ?cs" for d
    using assms(1,2) that by (simp add: cleanup_kind_def Let_def mf)
  ultimately show ?thesis using assms(2) by (auto simp: cleanup_kind_def Let_def image_iff)
qed

lemma reconcileDelete_kind:
  assumes "dr_finalizerRemoved (reconcileDelete del upd ls name)"
  shows "fst (cleanup_kind del name kd (ls kd)) = [] \<and>
    set (fst (snd (cleanup_kind del name kd (ls kd)))) \<subseteq> set (dr_deletions (reconcileDelete del upd ls name))"
proof -
  have "concat (map fst (map (\<lambda>kd. cleanup_kind del name kd (ls kd)) sweep_order)) = []"
    using assms by (auto simp: reconcileDelete_def Let_def split: list.splits)
  moreover have "kd \<in> set sweep_order" by (cases kd) (simp_all add: sweep_order_def)
  ultimately show ?thesis by (auto simp: reconcileDelete_def Let_def split: list.splits)
qed


section \<open>Witnesses\<close>

definition ex_child :: "int \<Rightarrow> child" where
  "ex_child g = \<lparr>ch_kind = KStatefulSet, ch_name = genResourceName ''e'' g [],
     ch_labels = Some (base_labels ''e'' g), ch_annotations = None,
     ch_owners = [(Some True, ''uid'')], ch_deleting = False, ch_finalizers = []\<rparr>"

definition ex_gc_status :: engine_status where
  "ex_gc_status = ex_status\<lparr>es_phase := PhaseStable, es_currentGeneration := 2, es_activeGeneration := 2\<rparr>"

definition ex_reads :: gc_reads where
  "ex_reads = \<lparr>gr_hasAPIReader = True, gr_live = StatusIs ex_gc_status, gr_selector = ServiceGone,
     gr_list = (\<lambda>kd. if kd = KStatefulSet then Listed [ex_child 1, ex_child 2] else Listed [])\<rparr>"

lemma ex_label [simp]: "label_of (ex_child g) LabelGeneration = itoa g"
  by (simp add: label_of_def ex_child_def base_labels_def LabelEngine_def LabelGeneration_def)

lemma ex_numbers: "itoa 1 = ''1''" "itoa 2 = ''2''" "atoi ''1'' = Some 1"
  by (code_simp, code_simp, code_simp)

lemma ex_gc: "gcOrphanedResources (\<lambda>_. None) ex_reads ''e'' ''uid'' ex_status = (False, [(ex_child 1, None)])"
proof -
  have k: "status_keep ex_gc_status = \<lparr>ks_gens = {''2''}, ks_newest = 2\<rparr>"
    by (simp add: status_keep_def ex_gc_status_def ex_status_def keep_add_def empty_keep_def ex_numbers)
  have p: "protects (status_keep ex_gc_status) ''2''" "\<not> protects (status_keep ex_gc_status) ''1''"
    by (simp_all add: k protects_def ex_numbers)
  have o: "engineOwnsForGC ''e'' ''uid'' (ex_child 1)" "\<not> ch_deleting (ex_child 1)"
    by (simp_all add: engineOwnsForGC_def ex_child_def)
  show ?thesis
    by (simp add: gcOrphanedResources_def sweepStatus_def ex_reads_def sweep_order_def sweepKind_def sweepOrphan_def Let_def
        p o ex_numbers fresh_sweep_def GCMaxDeletesPerPass_def GCMaxKindFailuresPerPass_def newerThanNewest_def split: option.splits)
qed

lemma ex_gc_live: "sweepStatus (gr_hasAPIReader ex_reads) ex_status (gr_live ex_reads) = (Some ex_gc_status, False)"
  by (simp add: sweepStatus_def ex_reads_def)

lemma ex_gc_inv: "status_inv ex_gc_status" "es_phase ex_gc_status \<noteq> PhaseUnset"
  by (simp_all add: status_inv_def ex_gc_status_def ex_status_def)

lemma gc_deletes_only_orphans_witness:
  "engineOwnsForGC ''e'' ''uid'' (ex_child 1) \<and> (\<exists>g. atoi (itoa 1) = Some g \<and> g < es_currentGeneration ex_gc_status)"
  using gc_deletes_only_orphans [OF ex_gc _ ex_gc_live ex_gc_inv, of "ex_child 1" None] by simp

definition ex_gc_sys :: sys where
  "ex_gc_sys = ex_sys\<lparr>sy_status := ex_gc_status,
     sy_cluster := empty_cluster\<lparr>cl_sts := [''e-g2'' \<mapsto> store_sts (pass_sts ex_rc ex_spec 2)],
       cl_svc := [''e-service'' \<mapsto> pass_svc ex_rc 2]\<rparr>\<rparr>"

lemma gc_safe_on_stale_status_witness:
  "label_of (ex_child 1) LabelGeneration \<noteq> itoa (es_activeGeneration (sy_status ex_gc_sys))"
proof -
  have st: "sy_status ex_gc_sys = ex_gc_status" by (simp add: ex_gc_sys_def)
  have "(hostile_step ''e'' ''ns'' ex_pf store_sts)\<^sup>*\<^sup>* ex_gc_sys ex_gc_sys" by simp
  from gc_safe_on_stale_status [OF this, unfolded st, OF ex_gc_inv ex_gc_live ex_gc, of "ex_child 1" None "es_activeGeneration ex_gc_status"]
  show ?thesis by (simp add: st recorded_gens_def) (simp add: ex_gc_status_def)
qed

lemma gc_complete_without_backlog_witness:
  "(ex_child 1, None) \<in> set (snd (gcOrphanedResources (\<lambda>_. None) ex_reads ''e'' ''uid'' ex_status))"
proof -
  have l: "gr_list ex_reads KStatefulSet = Listed [ex_child 1, ex_child 2]" by (simp add: ex_reads_def)
  have k: "sweep_keep ex_gc_status (gr_selector ex_reads) = \<lparr>ks_gens = {''2''}, ks_newest = 2\<rparr>"
    by (simp add: sweep_keep_def ex_reads_def status_keep_def ex_gc_status_def ex_status_def keep_add_def empty_keep_def ex_numbers)
  have "orphan ''e'' ''uid'' (sweep_keep ex_gc_status (gr_selector ex_reads)) (ex_child 1)"
    by (simp add: orphan_def k protects_def ex_numbers) (simp add: engineOwnsForGC_def ex_child_def)
  from gc_complete_without_backlog [OF ex_gc ex_gc_live l _ this] show ?thesis by (simp add: ex_gc)
qed

lemma ex_name2: "genResourceName ''e'' 2 [] = ''e-g2''"
  by code_simp

lemma ex_gc_sys_inv: "sys_inv ''e'' ''ns'' ex_gc_sys"
  by (auto simp: sys_inv_def ex_gc_sys_def ex_gc_status_def ex_sys_def ex_status_def status_inv_def cluster_inv_def
      keyed_def empty_cluster_def route_ok_def needed_gens_def has_sts_def ex_names ex_name2 pass_svc_def ex_rc_def pass_sts_def
      buildStatefulSet_def buildClusterService_def)

lemma gc_is_a_safe_step_witness:
  "sys_inv ''e'' ''ns'' (ex_gc_sys\<lparr>sy_cluster := after_sweep [(ex_child 1, None)] (sy_cluster ex_gc_sys)\<rparr>)"
proof -
  have lab: "sts_labels (store_sts (pass_sts ex_rc ex_spec 2)) = Some (base_labels ''e'' 2)"
    by (simp add: store_sts_def pass_sts_def buildStatefulSet_def ex_rc_def Let_def)
  have names: "genResourceName ''e'' 1 [] \<noteq> ''e-g2''" using genResourceName_inject [of 1 2 "''e''" "[]"] by (simp add: ex_name2)
  have "lists_cluster (gr_list ex_reads) (sy_cluster ex_gc_sys)"
    using names lab
    by (auto simp: lists_cluster_def ex_reads_def ex_gc_sys_def empty_cluster_def ex_child_def split: if_splits)
  moreover have "labelled ''e'' (sy_cluster ex_gc_sys)"
    unfolding labelled_def
  proof (intro allI impI)
    fix g t assume g: "0 \<le> g" "cl_sts (sy_cluster ex_gc_sys) (genResourceName ''e'' g []) = Some t"
    then have "genResourceName ''e'' g [] = genResourceName ''e'' 2 []" "t = store_sts (pass_sts ex_rc ex_spec 2)"
      by (auto simp: ex_gc_sys_def ex_name2 empty_cluster_def split: if_splits)
    with g show "fmlookup (mitems (sts_labels t)) LabelGeneration = Some (itoa g)"
      using genResourceName_inject [of g 2] lab by (simp add: base_labels_def LabelEngine_def LabelGeneration_def)
  qed
  moreover have "sweepStatus (gr_hasAPIReader ex_reads) ex_status (gr_live ex_reads) = (Some (sy_status ex_gc_sys), False)"
    using ex_gc_live by (simp add: ex_gc_sys_def)
  ultimately show ?thesis using gc_is_a_safe_step [OF ex_gc_sys_inv _ _ _ ex_gc] by blast
qed


end
