(* ===== verification/Wake_Agent.thy ===== *)
theory Wake_Agent
  imports Engine_State "HOL-Library.Finite_Map" "HOL-Library.List_Lexorder" "HOL-Library.Char_ord"
begin

text \<open>
  The wake agent (\<open>internal/wakeagent\<close>), the gateway sidecar that parks queries for a stopped engine: the demand
  it records and reports, its view of endpoint readiness, the cap on parked requests, and \<open>handleHold\<close>.

  The agent serves requests concurrently. A critical section under one of its locks is one step, so
  \<open>handleHold\<close> is a small program per request, \<open>hold_next\<close>, whose steps interleave with those of other
  requests and with the readiness informer. A channel is a number, allocated in order; a set holds the closed
  ones.
\<close>

section \<open>Engine names\<close>

definition name_char :: "char \<Rightarrow> bool" where
  "name_char c \<longleftrightarrow> (CHR ''a'' \<le> c \<and> c \<le> CHR ''z'') \<or> (CHR ''0'' \<le> c \<and> c \<le> CHR ''9'') \<or> c = CHR ''-''"

definition isValidEngineName :: "string \<Rightarrow> bool" where
  "isValidEngineName s =
     (if s = [] \<or> length s > 63 then False
      else if hd s = CHR ''-'' \<or> last s = CHR ''-'' then False
      else list_all name_char s)"

section \<open>Demand\<close>

definition MetricLastDemand :: string where "MetricLastDemand = ''firebolt_gateway_wake_last_demand_timestamp_seconds''"
definition MetricPendingHolds :: string where "MetricPendingHolds = ''firebolt_gateway_wake_pending_holds''"
definition MetricSheddedTotal :: string where "MetricSheddedTotal = ''firebolt_gateway_wake_shed_total''"
definition MetricDemandDroppedTotal :: string where "MetricDemandDroppedTotal = ''firebolt_gateway_wake_demand_dropped_total''"

definition maxTrackedEngines :: nat where "maxTrackedEngines = 4096"

record demandTracker =
  dt_last :: "(string, time) fmap"
  dt_pending :: "(string, int) fmap"
  dt_shed :: "(string, int) fmap"
  dt_dropped :: int
  dt_retention :: int

definition newDemandTracker :: "int \<Rightarrow> demandTracker" where
  "newDemandTracker retention =
     \<lparr>dt_last = fmempty, dt_pending = fmempty, dt_shed = fmempty, dt_dropped = 0, dt_retention = retention\<rparr>"

text \<open>Reading a map of numbers gives zero for a missing key.\<close>

definition count_at :: "(string, int) fmap \<Rightarrow> string \<Rightarrow> int" where
  "count_at m k = (case fmlookup m k of Some n \<Rightarrow> n | None \<Rightarrow> 0)"

definition Stamp :: "time \<Rightarrow> string \<Rightarrow> demandTracker \<Rightarrow> demandTracker" where
  "Stamp now engine d =
     (if fmlookup (dt_last d) engine = None \<and> fcard (fmdom (dt_last d)) \<ge> maxTrackedEngines
      then d\<lparr>dt_dropped := dt_dropped d + 1\<rparr>
      else d\<lparr>dt_last := fmupd engine now (dt_last d)\<rparr>)"

definition PendingTotal :: "demandTracker \<Rightarrow> int" where
  "PendingTotal d = (\<Sum>e\<in>fset (fmdom (dt_pending d)). count_at (dt_pending d) e)"

definition AcquireHold :: "string \<Rightarrow> int \<Rightarrow> demandTracker \<Rightarrow> bool \<times> demandTracker" where
  "AcquireHold engine limit d =
     (if limit \<ge> 0 \<and> PendingTotal d \<ge> limit then
        (False, if fmlookup (dt_last d) engine \<noteq> None
                then d\<lparr>dt_shed := fmupd engine (count_at (dt_shed d) engine + 1) (dt_shed d)\<rparr> else d)
      else (True, d\<lparr>dt_pending := fmupd engine (count_at (dt_pending d) engine + 1) (dt_pending d)\<rparr>))"

definition ReleaseHold :: "string \<Rightarrow> demandTracker \<Rightarrow> demandTracker" where
  "ReleaseHold engine d =
     (if count_at (dt_pending d) engine \<le> 1 then d\<lparr>dt_pending := fmdrop engine (dt_pending d)\<rparr>
      else d\<lparr>dt_pending := fmupd engine (count_at (dt_pending d) engine - 1) (dt_pending d)\<rparr>)"

record snapshot =
  sn_engine :: string
  sn_last :: time
  sn_pending :: int
  sn_shed :: int

definition stale :: "time \<Rightarrow> demandTracker \<Rightarrow> string \<Rightarrow> bool" where
  "stale now d engine =
     (case fmlookup (dt_last d) engine of
        Some ts \<Rightarrow> ts < now - dt_retention d \<and> count_at (dt_pending d) engine = 0
      | None \<Rightarrow> False)"

text \<open>The rows are sorted by name, so the order in which the map is visited does not matter.\<close>

definition Snapshot :: "time \<Rightarrow> demandTracker \<Rightarrow> snapshot list \<times> demandTracker" where
  "Snapshot now d =
     (let last' = fmfilter (\<lambda>e. \<not> stale now d e) (dt_last d);
          d' = d\<lparr>dt_last := last', dt_shed := fmfilter (\<lambda>e. \<not> stale now d e) (dt_shed d)\<rparr>;
          row = (\<lambda>e. \<lparr>sn_engine = e, sn_last = the (fmlookup last' e), sn_pending = count_at (dt_pending d) e,
                      sn_shed = count_at (dt_shed d) e\<rparr>)
      in (map row (sorted_list_of_set (fset (fmdom last'))), d'))"

text \<open>\<open>%q\<close> on bytes below 128; an engine name needs no escape.\<close>

definition quote_char :: "char \<Rightarrow> string" where
  "quote_char c =
     (if c = CHR 0x22 then [CHR 0x5C, CHR 0x22] else if c = CHR 0x5C then [CHR 0x5C, CHR 0x5C]
      else if c = CHR 7 then [CHR 0x5C, CHR ''a''] else if c = CHR 8 then [CHR 0x5C, CHR ''b'']
      else if c = CHR 12 then [CHR 0x5C, CHR ''f''] else if c = CHR 10 then [CHR 0x5C, CHR ''n'']
      else if c = CHR 13 then [CHR 0x5C, CHR ''r''] else if c = CHR 9 then [CHR 0x5C, CHR ''t'']
      else if c = CHR 11 then [CHR 0x5C, CHR ''v'']
      else if CHR 0x20 \<le> c \<and> c < CHR 0x7F then [c]
      else
        (let hex = (\<lambda>n. ''0123456789abcdef'' ! n)
         in [CHR 0x5C, CHR ''x'', hex (of_char c div 16), hex (of_char c mod 16)]))"

definition quote :: "string \<Rightarrow> string" where
  "quote s = CHR 0x22 # concat (map quote_char s) @ [CHR 0x22]"

definition metric_head :: "string \<Rightarrow> string \<Rightarrow> string \<Rightarrow> string" where
  "metric_head name help kind =
     ''# HELP '' @ name @ help @ [newline] @ ''# TYPE '' @ name @ kind @ [newline]"

definition metric_row :: "string \<Rightarrow> string \<Rightarrow> int \<Rightarrow> string" where
  "metric_row name engine v = name @ ''{engine='' @ quote engine @ ''} '' @ itoa v @ [newline]"

definition Render :: "time \<Rightarrow> demandTracker \<Rightarrow> string \<times> demandTracker" where
  "Render now d =
     (case Snapshot now d of
        (rows, d') \<Rightarrow>
          (metric_head MetricLastDemand '' Unix timestamp of the most recent gateway request for a stopped engine.'' '' gauge''
             @ concat (map (\<lambda>r. metric_row MetricLastDemand (sn_engine r) (sn_last r div second)) rows)
           @ metric_head MetricPendingHolds '' Requests currently held waiting for an engine to become ready.'' '' gauge''
             @ concat (map (\<lambda>r. metric_row MetricPendingHolds (sn_engine r) (sn_pending r)) rows)
           @ metric_head MetricSheddedTotal '' Requests rejected because the gateway's hold capacity was reached.'' '' counter''
             @ concat (map (\<lambda>r. metric_row MetricSheddedTotal (sn_engine r) (sn_shed r)) rows)
           @ metric_head MetricDemandDroppedTotal '' Demand stamps dropped because the tracker was at its size cap.'' '' counter''
             @ MetricDemandDroppedTotal @ '' '' @ itoa (dt_dropped d') @ [newline], d'))"

section \<open>Readiness\<close>

record readinessTracker =
  rt_ready :: "string set"
  rt_waiters :: "(string, nat) fmap"
  rt_refs :: "(string, int) fmap"
  rt_synced :: bool
  rt_next :: nat
  rt_closed :: "nat set"

definition newReadinessTracker :: readinessTracker where
  "newReadinessTracker = \<lparr>rt_ready = {}, rt_waiters = fmempty, rt_refs = fmempty, rt_synced = False, rt_next = 0, rt_closed = {}\<rparr>"

definition MarkSynced :: "readinessTracker \<Rightarrow> readinessTracker" where
  "MarkSynced t = t\<lparr>rt_synced := True\<rparr>"

definition IsReady :: "readinessTracker \<Rightarrow> string \<Rightarrow> bool" where
  "IsReady t engine \<longleftrightarrow> engine \<in> rt_ready t"

definition WaitChan :: "string \<Rightarrow> readinessTracker \<Rightarrow> nat \<times> readinessTracker" where
  "WaitChan engine t =
     (if engine \<in> rt_ready t then
        (rt_next t, t\<lparr>rt_next := rt_next t + 1, rt_closed := insert (rt_next t) (rt_closed t)\<rparr>)
      else case fmlookup (rt_waiters t) engine of
             Some ch \<Rightarrow> (ch, t\<lparr>rt_refs := fmupd engine (count_at (rt_refs t) engine + 1) (rt_refs t)\<rparr>)
           | None \<Rightarrow> (rt_next t, t\<lparr>rt_next := rt_next t + 1, rt_waiters := fmupd engine (rt_next t) (rt_waiters t),
                                  rt_refs := fmupd engine 1 (rt_refs t)\<rparr>))"

definition DoneWaiting :: "string \<Rightarrow> nat \<Rightarrow> readinessTracker \<Rightarrow> readinessTracker" where
  "DoneWaiting engine ch t =
     (if fmlookup (rt_waiters t) engine \<noteq> Some ch then t
      else case fmlookup (rt_refs t) engine of
             None \<Rightarrow> t
           | Some n \<Rightarrow>
               if n \<le> 1 then t\<lparr>rt_refs := fmdrop engine (rt_refs t), rt_waiters := fmdrop engine (rt_waiters t)\<rparr>
               else t\<lparr>rt_refs := fmupd engine (n - 1) (rt_refs t)\<rparr>)"

definition setReady :: "string \<Rightarrow> bool \<Rightarrow> readinessTracker \<Rightarrow> readinessTracker" where
  "setReady engine ready t =
     (if \<not> ready then t\<lparr>rt_ready := rt_ready t - {engine}\<rparr>
      else
        (let t1 = t\<lparr>rt_ready := insert engine (rt_ready t)\<rparr>
         in case fmlookup (rt_waiters t1) engine of
              None \<Rightarrow> t1
            | Some ch \<Rightarrow> t1\<lparr>rt_closed := insert ch (rt_closed t1), rt_waiters := fmdrop engine (rt_waiters t1),
                            rt_refs := fmdrop engine (rt_refs t1)\<rparr>))"

text \<open>An EndpointSlice: its labels and, for each endpoint, the ready condition, nil meaning ready.\<close>

record endpoint_slice =
  sl_labels :: "(string, string) fmap"
  sl_endpoints :: "bool option list"

definition ServiceSuffix :: string where "ServiceSuffix = ''-service''"
definition serviceNameLabel :: string where "serviceNameLabel = ''kubernetes.io/service-name''"

definition engineFromSliceLabels :: "(string, string) fmap \<Rightarrow> string" where
  "engineFromSliceLabels labels =
     (let svc = (case fmlookup labels serviceNameLabel of Some v \<Rightarrow> v | None \<Rightarrow> [])
      in if svc = [] \<or> \<not> has_suffix svc ServiceSuffix then [] else trim_suffix svc ServiceSuffix)"

definition sliceHasReadyEndpoint :: "endpoint_slice \<Rightarrow> bool" where
  "sliceHasReadyEndpoint slice \<longleftrightarrow> list_ex (\<lambda>cond. cond = None \<or> cond = Some True) (sl_endpoints slice)"

definition recomputeEngine :: "endpoint_slice list \<Rightarrow> string \<Rightarrow> bool" where
  "recomputeEngine store engine \<longleftrightarrow>
     list_ex (\<lambda>s. engineFromSliceLabels (sl_labels s) = engine \<and> sliceHasReadyEndpoint s) store"

definition onChange :: "endpoint_slice list \<Rightarrow> endpoint_slice \<Rightarrow> readinessTracker \<Rightarrow> readinessTracker" where
  "onChange store slice t =
     (let engine = engineFromSliceLabels (sl_labels slice)
      in if engine = [] then t else setReady engine (recomputeEngine store engine) t)"

section \<open>Capacity\<close>

record capacityLimiter =
  cl_memoryLimit :: int
  cl_perHold :: int
  cl_fallbackCap :: int
  cl_allocated :: int
  cl_lastRead :: "time option"

definition maxIntCap :: int where "maxIntCap = 100000"

text \<open>A quarter of the limit: \<open>float64\<close> is exact on limits below \<open>2 ^ 53\<close> bytes, and the conversion truncates.\<close>

definition steadyStateEstimate :: "capacityLimiter \<Rightarrow> int" where
  "steadyStateEstimate c = cl_memoryLimit c div 4"

definition Cap :: "capacityLimiter \<Rightarrow> int" where
  "Cap c =
     (if cl_memoryLimit c \<le> 0 \<or> cl_perHold c \<le> 0 then cl_fallbackCap c
      else
        (let budget0 = cl_memoryLimit c div 4;
             headroom = wrap64 (budget0 - wrap64 (cl_allocated c - steadyStateEstimate c));
             budget = (if cl_lastRead c \<noteq> None \<and> headroom < budget0 then headroom else budget0)
         in if budget \<le> 0 then 0
            else (let holds = budget div cl_perHold c in if holds > maxIntCap then maxIntCap else holds)))"

definition parseEnvoyStat :: "string \<Rightarrow> string \<Rightarrow> int option" where
  "parseEnvoyStat body name =
     (let hits = filter (\<lambda>line. case str_cut line '':'' of None \<Rightarrow> False | Some (key, value) \<Rightarrow> trim_space key = name)
                   (split_on newline [] body)
      in case hits of
           [] \<Rightarrow> None
         | line # _ \<Rightarrow> Option.bind (str_cut line '':'') (\<lambda>(key, value). atoi (trim_space value)))"

definition Refresh :: "string option \<Rightarrow> time \<Rightarrow> capacityLimiter \<Rightarrow> capacityLimiter" where
  "Refresh body now c =
     (case Option.bind body (\<lambda>b. parseEnvoyStat b ''server.memory_allocated'') of
        None \<Rightarrow> c
      | Some n \<Rightarrow> c\<lparr>cl_allocated := n, cl_lastRead := Some now\<rparr>)"

section \<open>Holding a request\<close>

datatype decision = DecisionReady | DecisionReleased | DecisionShed | DecisionTimeout | DecisionRejected | DecisionUnsynced

text \<open>What \<open>awaitRoutable\<close> sees before its deadline: a probe that Envoy answered, one it did not. \<open>Gone\<close> is a client
  that hung up. Where the source selects among several ready channels the model may take any.\<close>

datatype hold_event = Run | Fires | Gone | ProbeOk | ProbeFailed

text \<open>The points of \<open>handleHold\<close> between two critical sections. The number is the channel the request is parked on;
  a response that was never written is \<open>None\<close>. Leaving runs the deferred \<open>DoneWaiting\<close> and then \<open>ReleaseHold\<close>.\<close>

datatype hold_pc =
    Arrived | Checked | NotReady | Stamped | Acquired
  | Waiting nat | Woken nat | Probing nat | Expired nat
  | Leaving nat "decision option" | Releasing "decision option" | Done "decision option"

record agent =
  ag_demand :: demandTracker
  ag_readiness :: readinessTracker
  ag_capacity :: capacityLimiter
  ag_probing :: bool
  ag_requests :: "(nat, string \<times> hold_pc) fmap"

definition answerHoldDeadline :: "agent \<Rightarrow> string \<Rightarrow> decision" where
  "answerHoldDeadline ag engine = (if IsReady (ag_readiness ag) engine then DecisionReleased else DecisionTimeout)"

definition hold_next :: "time \<Rightarrow> hold_event \<Rightarrow> string \<Rightarrow> hold_pc \<Rightarrow> agent \<Rightarrow> (hold_pc \<times> agent) option" where
  "hold_next now ev engine pc ag =
     (case (pc, ev) of
        (Arrived, Run) \<Rightarrow>
          Some (if \<not> isValidEngineName engine then Done (Some DecisionRejected)
                else if \<not> rt_synced (ag_readiness ag) then Done (Some DecisionUnsynced) else Checked, ag)
      | (Checked, Run) \<Rightarrow> Some (if IsReady (ag_readiness ag) engine then Done (Some DecisionReady) else NotReady, ag)
      | (NotReady, Run) \<Rightarrow> Some (Stamped, ag\<lparr>ag_demand := Stamp now engine (ag_demand ag)\<rparr>)
      | (Stamped, Run) \<Rightarrow>
          (case AcquireHold engine (Cap (ag_capacity ag)) (ag_demand ag) of
             (ok, d) \<Rightarrow> Some (if ok then Acquired else Done (Some DecisionShed), ag\<lparr>ag_demand := d\<rparr>))
      | (Acquired, Run) \<Rightarrow>
          (case WaitChan engine (ag_readiness ag) of (ch, t) \<Rightarrow> Some (Waiting ch, ag\<lparr>ag_readiness := t\<rparr>))
      | (Waiting ch, Run) \<Rightarrow> if ch \<in> rt_closed (ag_readiness ag) then Some (Woken ch, ag) else None
      | (Waiting ch, Fires) \<Rightarrow> Some (Expired ch, ag)
      | (Waiting ch, Gone) \<Rightarrow> Some (Leaving ch None, ag)
      | (Woken ch, Run) \<Rightarrow>
          Some (if \<not> IsReady (ag_readiness ag) engine then Leaving ch (Some DecisionTimeout)
                else if ag_probing ag then Probing ch else Leaving ch (Some DecisionReleased), ag)
      | (Probing ch, ProbeOk) \<Rightarrow> Some (Leaving ch (Some DecisionReleased), ag)
      | (Probing ch, ProbeFailed) \<Rightarrow> Some (Probing ch, ag)
      | (Probing ch, Fires) \<Rightarrow> Some (Expired ch, ag)
      | (Probing ch, Gone) \<Rightarrow> Some (Leaving ch None, ag)
      | (Expired ch, Run) \<Rightarrow> Some (Leaving ch (Some (answerHoldDeadline ag engine)), ag)
      | (Leaving ch d, Run) \<Rightarrow> Some (Releasing d, ag\<lparr>ag_readiness := DoneWaiting engine ch (ag_readiness ag)\<rparr>)
      | (Releasing d, Run) \<Rightarrow> Some (Done d, ag\<lparr>ag_demand := ReleaseHold engine (ag_demand ag)\<rparr>)
      | _ \<Rightarrow> None)"

text \<open>Requests arrive under fresh numbers and move on; the informer reports slices, the operator scrapes, the timer
  prunes, and the limiter rereads Envoy's statistics.\<close>

inductive agent_step :: "agent \<Rightarrow> agent \<Rightarrow> bool" where
  arrive: "fmlookup (ag_requests ag) i = None \<Longrightarrow>
     agent_step ag (ag\<lparr>ag_requests := fmupd i (engine, Arrived) (ag_requests ag)\<rparr>)"
| move: "fmlookup (ag_requests ag) i = Some (engine, pc) \<Longrightarrow> hold_next now ev engine pc ag = Some (pc', ag') \<Longrightarrow>
     agent_step ag (ag'\<lparr>ag_requests := fmupd i (engine, pc') (ag_requests ag')\<rparr>)"
| synced: "agent_step ag (ag\<lparr>ag_readiness := MarkSynced (ag_readiness ag)\<rparr>)"
| slice: "agent_step ag (ag\<lparr>ag_readiness := onChange store sl (ag_readiness ag)\<rparr>)"
| scrape: "agent_step ag (ag\<lparr>ag_demand := snd (Render now (ag_demand ag))\<rparr>)"
| refresh: "agent_step ag (ag\<lparr>ag_capacity := Refresh body now (ag_capacity ag)\<rparr>)"

definition new_agent :: "int \<Rightarrow> int \<Rightarrow> int \<Rightarrow> int \<Rightarrow> bool \<Rightarrow> agent" where
  "new_agent retention memoryLimit perHold fallbackCap probing =
     \<lparr>ag_demand = newDemandTracker retention, ag_readiness = newReadinessTracker,
      ag_capacity = \<lparr>cl_memoryLimit = memoryLimit, cl_perHold = perHold, cl_fallbackCap = fallbackCap,
        cl_allocated = 0, cl_lastRead = None\<rparr>,
      ag_probing = probing, ag_requests = fmempty\<rparr>"

section \<open>The registry of parked requests\<close>

fun channel :: "hold_pc \<Rightarrow> nat option" where
  "channel (Waiting ch) = Some ch"
| "channel (Woken ch) = Some ch"
| "channel (Probing ch) = Some ch"
| "channel (Expired ch) = Some ch"
| "channel (Leaving ch d) = Some ch"
| "channel _ = None"

definition holding :: "hold_pc \<Rightarrow> bool" where
  "holding pc \<longleftrightarrow> pc = Acquired \<or> channel pc \<noteq> None \<or> (\<exists>d. pc = Releasing d)"

definition holders :: "(nat, string \<times> hold_pc) fmap \<Rightarrow> string \<Rightarrow> nat set" where
  "holders rs e = {i. \<exists>pc. fmlookup rs i = Some (e, pc) \<and> holding pc}"

definition parked :: "(nat, string \<times> hold_pc) fmap \<Rightarrow> string \<Rightarrow> nat \<Rightarrow> nat set" where
  "parked rs e ch = {i. \<exists>pc. fmlookup rs i = Some (e, pc) \<and> channel pc = Some ch}"

text \<open>Pending counts are the requests that hold. Every parked request waits on a channel that is closed or still
  registered for its engine; a registered channel is open, was allocated, and its count is the requests parked
  on it, at least one.\<close>

definition pending_ok :: "(nat, string \<times> hold_pc) fmap \<Rightarrow> (string, int) fmap \<Rightarrow> bool" where
  "pending_ok rs p \<longleftrightarrow> (\<forall>e. fmlookup p e = (if holders rs e = {} then None else Some (int (card (holders rs e)))))"

definition waiters_ok :: "(nat, string \<times> hold_pc) fmap \<Rightarrow> readinessTracker \<Rightarrow> bool" where
  "waiters_ok rs t \<longleftrightarrow>
     (\<forall>e ch. parked rs e ch \<noteq> {} \<longrightarrow>
        ch < rt_next t \<and> (ch \<in> rt_closed t \<or> fmlookup (rt_waiters t) e = Some ch)) \<and>
     (\<forall>e. fmlookup (rt_refs t) e = map_option (\<lambda>ch. int (card (parked rs e ch))) (fmlookup (rt_waiters t) e)) \<and>
     (\<forall>e ch. fmlookup (rt_waiters t) e = Some ch \<longrightarrow> ch \<notin> rt_closed t \<and> ch < rt_next t \<and> parked rs e ch \<noteq> {}) \<and>
     (\<forall>e e' ch. fmlookup (rt_waiters t) e = Some ch \<longrightarrow> fmlookup (rt_waiters t) e' = Some ch \<longrightarrow> e = e') \<and>
     (\<forall>ch\<in>rt_closed t. ch < rt_next t)"

lemma finite_holders [simp]: "finite (holders rs e)"
  by (rule finite_subset [of _ "fset (fmdom rs)"]) (auto simp: holders_def fmdomI)

lemma finite_parked [simp]: "finite (parked rs e ch)"
  by (rule finite_subset [of _ "fset (fmdom rs)"]) (auto simp: parked_def fmdomI)

lemma holders_upd: "holders (fmupd i (e, pc) rs) x = (if x = e \<and> holding pc then insert i (holders rs x) else holders rs x - {i})"
  by (auto simp: holders_def split: if_splits)

lemma parked_upd: "parked (fmupd i (e, pc) rs) x ch = (if x = e \<and> channel pc = Some ch then insert i (parked rs x ch) else parked rs x ch - {i})"
  by (auto simp: parked_def split: if_splits)

lemma holders_mem: "fmlookup rs i = Some (e, pc) \<Longrightarrow> i \<in> holders rs x \<longleftrightarrow> x = e \<and> holding pc"
  by (auto simp: holders_def)

lemma parked_mem: "fmlookup rs i = Some (e, pc) \<Longrightarrow> i \<in> parked rs x ch \<longleftrightarrow> x = e \<and> channel pc = Some ch"
  by (auto simp: parked_def)

lemma holders_new: "fmlookup rs i = None \<Longrightarrow> i \<notin> holders rs x"
  by (auto simp: holders_def)

lemma parked_new: "fmlookup rs i = None \<Longrightarrow> i \<notin> parked rs x ch"
  by (auto simp: parked_def)

lemma same_holders:
  assumes "fmlookup rs i = Some (e, pc)" "holding pc' = holding pc"
  shows "holders (fmupd i (e, pc') rs) x = holders rs x"
  using holders_mem [OF assms(1), of x] assms(2) by (auto simp: holders_upd)

lemma same_parked:
  assumes "fmlookup rs i = Some (e, pc)" "channel pc' = channel pc"
  shows "parked (fmupd i (e, pc') rs) x ch = parked rs x ch"
  using parked_mem [OF assms(1), of x ch] assms(2) by (auto simp: parked_upd)

lemma pending_move: "fmlookup rs i = Some (e, pc) \<Longrightarrow> holding pc' = holding pc \<Longrightarrow> pending_ok (fmupd i (e, pc') rs) p = pending_ok rs p"
  by (simp add: pending_ok_def same_holders)

lemma waiters_move: "fmlookup rs i = Some (e, pc) \<Longrightarrow> channel pc' = channel pc \<Longrightarrow> waiters_ok (fmupd i (e, pc') rs) t = waiters_ok rs t"
  by (simp add: waiters_ok_def same_parked)

lemma pending_arrive: "fmlookup rs i = None \<Longrightarrow> pending_ok (fmupd i (e, Arrived) rs) p = pending_ok rs p"
  by (simp add: pending_ok_def holders_upd holding_def holders_new)

lemma waiters_arrive: "fmlookup rs i = None \<Longrightarrow> waiters_ok (fmupd i (e, Arrived) rs) t = waiters_ok rs t"
  by (simp add: waiters_ok_def parked_upd parked_new)

lemma pending_count: "pending_ok rs p \<Longrightarrow> count_at p e = int (card (holders rs e))"
  by (simp add: pending_ok_def count_at_def)

lemma pending_acquire:
  assumes "pending_ok rs p" "fmlookup rs i = Some (e, pc)" "\<not> holding pc"
  shows "pending_ok (fmupd i (e, Acquired) rs) (fmupd e (count_at p e + 1) p)"
proof -
  have "i \<notin> holders rs e" using holders_mem [OF assms(2)] assms(3) by simp
  then have "card (insert i (holders rs e)) = Suc (card (holders rs e))" by simp
  moreover have "holders rs x - {i} = holders rs x" if "x \<noteq> e" for x using holders_mem [OF assms(2), of x] that by auto
  ultimately show ?thesis
    using assms(1) pending_count [OF assms(1), of e]
    by (auto simp: pending_ok_def holders_upd holding_def)
qed

lemma card_remove_int: "finite S \<Longrightarrow> i \<in> S \<Longrightarrow> int (card (S - {i})) = int (card S) - 1"
  by (metis One_nat_def Suc_leI card_Diff_singleton card_gt_0_iff emptyE of_nat_1 of_nat_diff)

lemma card_one_iff: "finite S \<Longrightarrow> i \<in> S \<Longrightarrow> int (card S) \<le> 1 \<longleftrightarrow> S - {i} = {}"
  by (simp add: card_le_Suc0_iff_eq) blast

lemma pending_release:
  assumes "pending_ok rs (dt_pending d)" "fmlookup rs i = Some (e, pc)" "holding pc" "\<not> holding pc'"
  shows "pending_ok (fmupd i (e, pc') rs) (dt_pending (ReleaseHold e d))"
proof -
  have i: "i \<in> holders rs e" using holders_mem [OF assms(2)] assms(3) by simp
  have other: "holders rs x - {i} = holders rs x" if "x \<noteq> e" for x using holders_mem [OF assms(2), of x] that by auto
  have one: "count_at (dt_pending d) e \<le> 1 \<longleftrightarrow> holders rs e - {i} = {}"
    using pending_count [OF assms(1), of e] card_one_iff [OF finite_holders i] by simp
  have "int (card (holders rs e - {i})) = count_at (dt_pending d) e - 1"
    using pending_count [OF assms(1), of e] card_remove_int [OF finite_holders i] by simp
  then show ?thesis
    unfolding pending_ok_def holders_upd using assms(4)
  proof (intro allI)
    fix x
    show "fmlookup (dt_pending (ReleaseHold e d)) x = (if (if x = e \<and> holding pc' then insert i (holders rs x) else holders rs x - {i}) = {} then None
        else Some (int (card (if x = e \<and> holding pc' then insert i (holders rs x) else holders rs x - {i}))))"
    proof (cases "x = e")
      case False
      with other [OF False] assms(1) show ?thesis by (simp add: pending_ok_def ReleaseHold_def)
    next
      case True
      then show ?thesis using one assms(4) \<open>int (card (holders rs e - {i})) = count_at (dt_pending d) e - 1\<close> by (simp add: ReleaseHold_def)
    qed
  qed
qed

lemma waiters_okI:
  assumes "\<And>e ch i. i \<in> parked rs e ch \<Longrightarrow> ch < rt_next t \<and> (ch \<in> rt_closed t \<or> fmlookup (rt_waiters t) e = Some ch)"
    and "\<And>e. fmlookup (rt_refs t) e = map_option (\<lambda>ch. int (card (parked rs e ch))) (fmlookup (rt_waiters t) e)"
    and "\<And>e ch. fmlookup (rt_waiters t) e = Some ch \<Longrightarrow> ch \<notin> rt_closed t \<and> ch < rt_next t \<and> parked rs e ch \<noteq> {}"
    and "\<And>e e' ch. fmlookup (rt_waiters t) e = Some ch \<Longrightarrow> fmlookup (rt_waiters t) e' = Some ch \<Longrightarrow> e = e'"
    and "\<And>ch. ch \<in> rt_closed t \<Longrightarrow> ch < rt_next t"
  shows "waiters_ok rs t"
  using assms unfolding waiters_ok_def by blast

lemma waiters_okD:
  assumes "waiters_ok rs t"
  shows "i \<in> parked rs e ch \<Longrightarrow> ch < rt_next t \<and> (ch \<in> rt_closed t \<or> fmlookup (rt_waiters t) e = Some ch)"
    and "fmlookup (rt_refs t) e = map_option (\<lambda>ch. int (card (parked rs e ch))) (fmlookup (rt_waiters t) e)"
    and "fmlookup (rt_waiters t) e = Some ch \<Longrightarrow> ch \<notin> rt_closed t \<and> ch < rt_next t \<and> parked rs e ch \<noteq> {}"
    and "fmlookup (rt_waiters t) e = Some ch \<Longrightarrow> fmlookup (rt_waiters t) e' = Some ch \<Longrightarrow> e = e'"
    and "ch \<in> rt_closed t \<Longrightarrow> ch < rt_next t"
  using assms unfolding waiters_ok_def by blast+

lemma waiters_wait:
  assumes ok: "waiters_ok rs t" and pc: "fmlookup rs i = Some (e, pc)" "channel pc = None" and w: "WaitChan e t = (ch, t')"
  shows "waiters_ok (fmupd i (e, Waiting ch) rs) t'"
proof -
  note D = waiters_okD [OF ok]
  have i: "i \<notin> parked rs x c" for x c using parked_mem [OF pc(1), of x c] pc(2) by simp
  have fresh: "parked rs x (rt_next t) = {}" for x using D(1) by blast
  have no: "fmlookup (rt_waiters t) x \<noteq> Some (rt_next t)" for x using D(3) by blast
  consider (ready) "e \<in> rt_ready t" | (join) c where "e \<notin> rt_ready t" "fmlookup (rt_waiters t) e = Some c"
    | (first) "e \<notin> rt_ready t" "fmlookup (rt_waiters t) e = None" by (cases "fmlookup (rt_waiters t) e") auto
  then show ?thesis
  proof cases
    case ready
    with w have t': "ch = rt_next t" "t' = t\<lparr>rt_next := rt_next t + 1, rt_closed := insert (rt_next t) (rt_closed t)\<rparr>"
      by (auto simp: WaitChan_def)
    show ?thesis
    proof (rule waiters_okI)
      fix x show "fmlookup (rt_refs t') x = map_option (\<lambda>c. int (card (parked (fmupd i (e, Waiting ch) rs) x c))) (fmlookup (rt_waiters t') x)"
        using D(2) [of x] no [of x] i by (cases "fmlookup (rt_waiters t) x") (auto simp: t' parked_upd)
    next
      fix x c j assume "j \<in> parked (fmupd i (e, Waiting ch) rs) x c"
      then show "c < rt_next t' \<and> (c \<in> rt_closed t' \<or> fmlookup (rt_waiters t') x = Some c)"
        using D(1) [of j x c] by (auto simp: t' parked_upd split: if_splits)
    next
      fix x c assume "fmlookup (rt_waiters t') x = Some c"
      then show "c \<notin> rt_closed t' \<and> c < rt_next t' \<and> parked (fmupd i (e, Waiting ch) rs) x c \<noteq> {}"
        using D(3) [of x c] no [of x] i by (auto simp: t' parked_upd)
    qed (use D(4,5) in \<open>auto simp: t' less_SucI\<close>)
  next
    case join
    with w have t': "ch = c" "t' = t\<lparr>rt_refs := fmupd e (count_at (rt_refs t) e + 1) (rt_refs t)\<rparr>"
      by (auto simp: WaitChan_def)
    have n: "count_at (rt_refs t) e = int (card (parked rs e c))" using D(2) [of e] join by (simp add: count_at_def)
    show ?thesis
    proof (rule waiters_okI)
      fix x show "fmlookup (rt_refs t') x = map_option (\<lambda>c. int (card (parked (fmupd i (e, Waiting ch) rs) x c))) (fmlookup (rt_waiters t') x)"
        using D(2) [of x] n i join by (cases "fmlookup (rt_waiters t) x") (auto simp: t' parked_upd)
    next
      fix x k j assume "j \<in> parked (fmupd i (e, Waiting ch) rs) x k"
      then show "k < rt_next t' \<and> (k \<in> rt_closed t' \<or> fmlookup (rt_waiters t') x = Some k)"
        using D(1) [of j x k] D(3) [OF join(2)] join by (auto simp: t' parked_upd split: if_splits)
    next
      fix x k assume "fmlookup (rt_waiters t') x = Some k"
      then show "k \<notin> rt_closed t' \<and> k < rt_next t' \<and> parked (fmupd i (e, Waiting ch) rs) x k \<noteq> {}"
        using D(3) [of x k] i by (auto simp: t' parked_upd)
    qed (use D(4,5) in \<open>auto simp: t'\<close>)
  next
    case first
    with w have t': "ch = rt_next t" "t' = t\<lparr>rt_next := rt_next t + 1, rt_waiters := fmupd e (rt_next t) (rt_waiters t), rt_refs := fmupd e 1 (rt_refs t)\<rparr>"
      by (auto simp: WaitChan_def)
    have c: "rt_next t \<notin> rt_closed t" using D(5) by blast
    show ?thesis
    proof (rule waiters_okI)
      fix x show "fmlookup (rt_refs t') x = map_option (\<lambda>c. int (card (parked (fmupd i (e, Waiting ch) rs) x c))) (fmlookup (rt_waiters t') x)"
        using D(2) [of x] i fresh [of e] by (cases "fmlookup (rt_waiters t) x") (auto simp: t' parked_upd)
    next
      fix x c j assume "j \<in> parked (fmupd i (e, Waiting ch) rs) x c"
      then show "c < rt_next t' \<and> (c \<in> rt_closed t' \<or> fmlookup (rt_waiters t') x = Some c)"
        using D(1) [of j x c] first by (auto simp: t' parked_upd split: if_splits)
    next
      fix x k assume "fmlookup (rt_waiters t') x = Some k"
      then show "k \<notin> rt_closed t' \<and> k < rt_next t' \<and> parked (fmupd i (e, Waiting ch) rs) x k \<noteq> {}"
        using D(3) [of x k] c i by (auto simp: t' parked_upd split: if_splits)
    next
      fix x x' k assume "fmlookup (rt_waiters t') x = Some k" "fmlookup (rt_waiters t') x' = Some k"
      then show "x = x'" using D(4) [of x k x'] no by (auto simp: t' split: if_splits)
    qed (use D(5) in \<open>auto simp: t' less_SucI\<close>)
  qed
qed

lemma waiters_done:
  assumes ok: "waiters_ok rs t" and pc: "fmlookup rs i = Some (e, pc)" "channel pc = Some ch" "channel pc' = None"
  shows "waiters_ok (fmupd i (e, pc') rs) (DoneWaiting e ch t)"
proof -
  note D = waiters_okD [OF ok]
  have i: "i \<in> parked rs x c \<longleftrightarrow> x = e \<and> c = ch" for x c using parked_mem [OF pc(1), of x c] pc(2) by auto
  have P: "parked (fmupd i (e, pc') rs) x c = parked rs x c - {i}" for x c using pc(3) by (simp add: parked_upd)
  show ?thesis
  proof (cases "fmlookup (rt_waiters t) e = Some ch")
    case False
    then have t': "DoneWaiting e ch t = t" by (simp add: DoneWaiting_def)
    have same: "parked rs x c - {i} = parked rs x c" if "fmlookup (rt_waiters t) x = Some c" for x c using i [of x c] that False by auto
    show ?thesis unfolding t'
    proof (rule waiters_okI)
      fix x show "fmlookup (rt_refs t) x = map_option (\<lambda>c. int (card (parked (fmupd i (e, pc') rs) x c))) (fmlookup (rt_waiters t) x)"
        using D(2) [of x] same [of x] by (cases "fmlookup (rt_waiters t) x") (auto simp: P)
    qed (use D(1,3,4,5) same in \<open>auto simp: P\<close>)
  next
    case True
    have n: "fmlookup (rt_refs t) e = Some (int (card (parked rs e ch)))" using D(2) [of e] True by simp
    have mem: "i \<in> parked rs e ch" using i by simp
    note one = card_one_iff [OF finite_parked mem] and dec = card_remove_int [OF finite_parked mem]
    have other: "parked rs x c - {i} = parked rs x c" if "x \<noteq> e" for x c using i [of x c] that by auto
    have t': "DoneWaiting e ch t = (if parked rs e ch - {i} = {} then t\<lparr>rt_refs := fmdrop e (rt_refs t), rt_waiters := fmdrop e (rt_waiters t)\<rparr>
        else t\<lparr>rt_refs := fmupd e (int (card (parked rs e ch - {i}))) (rt_refs t)\<rparr>)"
      using True n one dec by (simp add: DoneWaiting_def)
    show ?thesis
    proof (rule waiters_okI)
      fix x show "fmlookup (rt_refs (DoneWaiting e ch t)) x =
          map_option (\<lambda>c. int (card (parked (fmupd i (e, pc') rs) x c))) (fmlookup (rt_waiters (DoneWaiting e ch t)) x)"
        using D(2) [of x] True other [of x] by (cases "fmlookup (rt_waiters t) x") (auto simp: t' P)
    next
      fix x c j assume "j \<in> parked (fmupd i (e, pc') rs) x c"
      then have j: "j \<in> parked rs x c" "j \<noteq> i" by (auto simp: P)
      then show "c < rt_next (DoneWaiting e ch t) \<and> (c \<in> rt_closed (DoneWaiting e ch t) \<or> fmlookup (rt_waiters (DoneWaiting e ch t)) x = Some c)"
        using D(1) [OF j(1)] True by (auto simp: t')
    next
      fix x c assume "fmlookup (rt_waiters (DoneWaiting e ch t)) x = Some c"
      then show "c \<notin> rt_closed (DoneWaiting e ch t) \<and> c < rt_next (DoneWaiting e ch t) \<and> parked (fmupd i (e, pc') rs) x c \<noteq> {}"
        using D(3) [of x c] True other [of x c] by (cases "x = e") (auto simp: t' P split: if_splits)
    next
      fix x x' c assume "fmlookup (rt_waiters (DoneWaiting e ch t)) x = Some c" "fmlookup (rt_waiters (DoneWaiting e ch t)) x' = Some c"
      then show "x = x'" using D(4) by (auto simp: t' split: if_splits)
    qed (use D(5) in \<open>auto simp: t' split: if_splits\<close>)
  qed
qed

lemma waiters_setReady:
  assumes ok: "waiters_ok rs t"
  shows "waiters_ok rs (setReady e b t)"
proof (cases "b \<and> fmlookup (rt_waiters t) e \<noteq> None")
  case True
  then obtain c where c: "fmlookup (rt_waiters t) e = Some c" by auto
  note D = waiters_okD [OF ok]
  have t': "setReady e b t = t\<lparr>rt_ready := insert e (rt_ready t), rt_closed := insert c (rt_closed t), rt_waiters := fmdrop e (rt_waiters t),
      rt_refs := fmdrop e (rt_refs t)\<rparr>"
    using True c by (simp add: setReady_def Let_def)
  show ?thesis unfolding t'
  proof (rule waiters_okI, goal_cases)
    case (1 x ch j)
    then show ?case using D(1) [OF 1] c by auto
  next
    case (2 x)
    then show ?case using D(2) [of x] by auto
  next
    case (3 x ch)
    then show ?case using D(3) [of x ch] D(4) [of x ch e] c by (auto split: if_splits)
  next
    case (4 x x' ch)
    then show ?case using D(4) by (auto split: if_splits)
  next
    case (5 ch)
    then show ?case using D(5) D(3) [OF c] by auto
  qed
qed (use ok in \<open>auto simp: setReady_def waiters_ok_def Let_def split: option.splits\<close>)

section \<open>The tracker stays small\<close>

definition total_of :: "(string, int) fmap \<Rightarrow> int" where
  "total_of p = (\<Sum>e\<in>fset (fmdom p). count_at p e)"

lemma PendingTotal_of: "PendingTotal d = total_of (dt_pending d)"
  by (simp add: PendingTotal_def total_of_def)

lemma total_split: "total_of p = count_at p e + (\<Sum>x\<in>fset (fmdom p) - {e}. count_at p x)"
proof (cases "e |\<in>| fmdom p")
  case True
  then show ?thesis by (simp add: total_of_def sum.remove)
next
  case False
  then have "count_at p e = 0" by (auto simp: count_at_def dest: fmdom_notD)
  with False show ?thesis by (simp add: total_of_def)
qed

lemma total_upd: "total_of (fmupd e v p) = total_of p - count_at p e + v"
proof -
  have "(\<Sum>x\<in>fset (fmdom (fmupd e v p)) - {e}. count_at (fmupd e v p) x) = (\<Sum>x\<in>fset (fmdom p) - {e}. count_at p x)"
    by (rule sum.cong) (auto simp: count_at_def)
  moreover have "count_at (fmupd e v p) e = v" by (simp add: count_at_def)
  ultimately show ?thesis using total_split [of "fmupd e v p" e] total_split [of p e] by simp
qed

lemma total_drop: "total_of (fmdrop e p) = total_of p - count_at p e"
proof -
  have "(\<Sum>x\<in>fset (fmdom (fmdrop e p)) - {e}. count_at (fmdrop e p) x) = (\<Sum>x\<in>fset (fmdom p) - {e}. count_at p x)"
    by (rule sum.cong) (auto simp: count_at_def)
  moreover have "count_at (fmdrop e p) e = 0" by (simp add: count_at_def)
  ultimately show ?thesis using total_split [of "fmdrop e p" e] total_split [of p e] by simp
qed

lemma Cap_bounds:
  assumes "0 \<le> cl_fallbackCap c"
  shows "0 \<le> Cap c \<and> Cap c \<le> max (cl_fallbackCap c) maxIntCap"
proof -
  have "0 \<le> b div cl_perHold c" if "0 < b" "\<not> cl_perHold c \<le> 0" for b :: int
    using that by (simp add: pos_imp_zdiv_nonneg_iff)
  then show ?thesis using assms by (auto simp: Cap_def Let_def maxIntCap_def)
qed

definition passed :: "hold_pc \<Rightarrow> bool" where
  "passed pc \<longleftrightarrow> pc \<noteq> Arrived \<and> (\<forall>d. pc \<noteq> Done d)"

definition tracker_ok :: "(nat, string \<times> hold_pc) fmap \<Rightarrow> demandTracker \<Rightarrow> capacityLimiter \<Rightarrow> bool" where
  "tracker_ok rs d c \<longleftrightarrow>
     fcard (fmdom (dt_last d)) \<le> maxTrackedEngines \<and> fmdom (dt_shed d) |\<subseteq>| fmdom (dt_last d) \<and>
     (\<forall>e. e |\<in>| fmdom (dt_last d) \<longrightarrow> isValidEngineName e) \<and>
     (\<forall>i e pc. fmlookup rs i = Some (e, pc) \<longrightarrow> passed pc \<longrightarrow> isValidEngineName e) \<and>
     0 \<le> cl_fallbackCap c \<and> PendingTotal d \<le> max (cl_fallbackCap c) maxIntCap"

definition agent_inv :: "agent \<Rightarrow> bool" where
  "agent_inv ag \<longleftrightarrow>
     pending_ok (ag_requests ag) (dt_pending (ag_demand ag)) \<and> waiters_ok (ag_requests ag) (ag_readiness ag) \<and>
     tracker_ok (ag_requests ag) (ag_demand ag) (ag_capacity ag)"

lemma Stamp_frame: "dt_pending (Stamp now e d) = dt_pending d" "dt_shed (Stamp now e d) = dt_shed d"
  by (simp_all add: Stamp_def)

lemma Stamp_dom: "fmdom (dt_last (Stamp now e d)) |\<subseteq>| finsert e (fmdom (dt_last d))"
  "fmdom (dt_last d) |\<subseteq>| fmdom (dt_last (Stamp now e d))"
  by (auto simp: Stamp_def)

lemma Stamp_card: "fcard (fmdom (dt_last d)) \<le> maxTrackedEngines \<Longrightarrow> fcard (fmdom (dt_last (Stamp now e d))) \<le> maxTrackedEngines"
  by (auto simp: Stamp_def fcard_finsert_if fmdomI)

lemma AcquireHold_frame:
  assumes "AcquireHold e l d = (ok, d')"
  shows "dt_last d' = dt_last d" "fmdom (dt_shed d') |\<subseteq>| finsert e (fmdom (dt_shed d))"
    "fmlookup (dt_last d) e = None \<longrightarrow> dt_shed d' = dt_shed d"
    "ok \<longrightarrow> dt_pending d' = fmupd e (count_at (dt_pending d) e + 1) (dt_pending d)" "\<not> ok \<longrightarrow> dt_pending d' = dt_pending d"
    "ok \<longleftrightarrow> l < 0 \<or> PendingTotal d < l"
  using assms by (auto simp: AcquireHold_def split: if_splits)

lemma AcquireHold_total:
  assumes "AcquireHold e l d = (ok, d')"
  shows "PendingTotal d' = PendingTotal d + (if ok then 1 else 0)"
  using AcquireHold_frame(4,5) [OF assms] by (simp add: PendingTotal_of total_upd)

lemma ReleaseHold_frame: "dt_last (ReleaseHold e d) = dt_last d" "dt_shed (ReleaseHold e d) = dt_shed d"
  by (simp_all add: ReleaseHold_def)

lemma ReleaseHold_total: "0 \<le> count_at (dt_pending d) e \<Longrightarrow> PendingTotal (ReleaseHold e d) \<le> PendingTotal d"
  by (simp add: ReleaseHold_def PendingTotal_of total_upd total_drop)

lemma Snapshot_frame:
  assumes "Snapshot now d = (rows, d')"
  shows "dt_pending d' = dt_pending d" "dt_last d' = fmfilter (\<lambda>e. \<not> stale now d e) (dt_last d)"
    "dt_shed d' = fmfilter (\<lambda>e. \<not> stale now d e) (dt_shed d)"
  using assms by (auto simp: Snapshot_def Let_def)

lemma Render_snapshot: "snd (Render now d) = snd (Snapshot now d)"
  by (simp add: Render_def split: prod.splits)

lemma tracker_scrape:
  assumes "tracker_ok rs d c"
  shows "tracker_ok rs (snd (Render now d)) c"
proof -
  obtain rows d' where s: "Snapshot now d = (rows, d')" by force
  note f = Snapshot_frame [OF s]
  have "fmdom (dt_last d') |\<subseteq>| fmdom (dt_last d)" by (auto simp: f(2))
  then have "fcard (fmdom (dt_last d')) \<le> fcard (fmdom (dt_last d))" by (rule fcard_mono)
  moreover have "fmdom (dt_shed d') |\<subseteq>| fmdom (dt_last d')"
    using assms by (auto simp: f(2,3) tracker_ok_def)
  ultimately show ?thesis
    using assms \<open>fmdom (dt_last d') |\<subseteq>| fmdom (dt_last d)\<close> by (auto simp: Render_snapshot s tracker_ok_def PendingTotal_def f(1))
qed

lemma Refresh_frame: "cl_fallbackCap (Refresh body now c) = cl_fallbackCap c"
  by (simp add: Refresh_def split: option.splits)

section \<open>The invariant of the agent\<close>

lemma hold_next_cases:
  assumes "hold_next now ev engine pc ag = Some (pc', ag')"
  obtains (stay) "ag' = ag" "holding pc' = holding pc" "channel pc' = channel pc" "passed pc' \<longrightarrow> passed pc \<or> isValidEngineName engine"
  | (stamp) "pc = NotReady" "pc' = Stamped" "ag' = ag\<lparr>ag_demand := Stamp now engine (ag_demand ag)\<rparr>"
  | (acquire) ok d where "pc = Stamped" "AcquireHold engine (Cap (ag_capacity ag)) (ag_demand ag) = (ok, d)"
      "pc' = (if ok then Acquired else Done (Some DecisionShed))" "ag' = ag\<lparr>ag_demand := d\<rparr>"
  | (wait) ch t where "pc = Acquired" "WaitChan engine (ag_readiness ag) = (ch, t)" "pc' = Waiting ch" "ag' = ag\<lparr>ag_readiness := t\<rparr>"
  | (leave) ch d where "pc = Leaving ch d" "pc' = Releasing d" "ag' = ag\<lparr>ag_readiness := DoneWaiting engine ch (ag_readiness ag)\<rparr>"
  | (release) d where "pc = Releasing d" "pc' = Done d" "ag' = ag\<lparr>ag_demand := ReleaseHold engine (ag_demand ag)\<rparr>"
  using assms unfolding hold_next_def
  by (cases pc; cases ev) (auto simp: holding_def passed_def split: if_splits prod.splits)

lemma tracker_move:
  assumes "tracker_ok rs d c" "fmlookup rs i = Some (e, pc)" "passed pc' \<longrightarrow> isValidEngineName e"
  shows "tracker_ok (fmupd i (e, pc') rs) d c"
  using assms by (auto simp: tracker_ok_def split: if_splits)

lemma tracker_stamp:
  assumes "tracker_ok rs d c" "isValidEngineName e"
  shows "tracker_ok rs (Stamp now e d) c"
proof -
  have "fcard (fmdom (dt_last (Stamp now e d))) \<le> maxTrackedEngines" using assms(1) by (intro Stamp_card) (simp add: tracker_ok_def)
  moreover have "fmdom (dt_shed d) |\<subseteq>| fmdom (dt_last (Stamp now e d))"
    using assms(1) Stamp_dom(2) [of d now e] unfolding tracker_ok_def by (meson fsubset_trans)
  moreover have "isValidEngineName x" if "x |\<in>| fmdom (dt_last (Stamp now e d))" for x
    using fsubsetD [OF Stamp_dom(1) that] assms by (auto simp: tracker_ok_def)
  ultimately show ?thesis using assms(1) by (simp add: tracker_ok_def Stamp_frame PendingTotal_def)
qed

lemma tracker_acquire:
  assumes "tracker_ok rs d c" "AcquireHold e (Cap c) d = (ok, d')"
  shows "tracker_ok rs d' c"
proof -
  note f = AcquireHold_frame [OF assms(2)]
  have cap: "0 \<le> Cap c" "Cap c \<le> max (cl_fallbackCap c) maxIntCap" using Cap_bounds assms(1) by (auto simp: tracker_ok_def)
  have "fmdom (dt_shed d') |\<subseteq>| fmdom (dt_last d)"
  proof (cases "fmlookup (dt_last d) e = None")
    case True
    with f(3) assms(1) show ?thesis by (simp add: tracker_ok_def)
  next
    case False
    then have "e |\<in>| fmdom (dt_last d)" by (auto intro: fmdomI)
    with f(2) assms(1) show ?thesis unfolding tracker_ok_def by auto
  qed
  moreover have "PendingTotal d' \<le> max (cl_fallbackCap c) maxIntCap"
    using AcquireHold_total [OF assms(2)] f(6) cap assms(1) by (auto simp: tracker_ok_def)
  ultimately show ?thesis using assms(1) by (simp add: tracker_ok_def f(1))
qed

lemma tracker_release: "tracker_ok rs d c \<Longrightarrow> 0 \<le> count_at (dt_pending d) e \<Longrightarrow> tracker_ok rs (ReleaseHold e d) c"
  using ReleaseHold_total [of d e] by (auto simp: tracker_ok_def ReleaseHold_frame)

lemma move_keeps:
  assumes inv: "agent_inv ag" and req: "fmlookup (ag_requests ag) i = Some (e, pc)" and nx: "hold_next now ev e pc ag = Some (pc', ag')"
  shows "agent_inv (ag'\<lparr>ag_requests := fmupd i (e, pc') (ag_requests ag')\<rparr>)"
proof -
  note D = inv [unfolded agent_inv_def]
  have valid: "passed pc \<longrightarrow> isValidEngineName e" using D req unfolding tracker_ok_def by metis
  from nx show ?thesis
  proof (cases rule: hold_next_cases)
    case stay
    then show ?thesis
      using D valid by (auto simp: agent_inv_def pending_move [OF req] waiters_move [OF req] intro!: tracker_move [OF _ req])
  next
    case stamp
    with valid have v: "isValidEngineName e" by (simp add: passed_def)
    from stamp show ?thesis
      using D v tracker_stamp [OF tracker_move [OF _ req, of _ _ Stamped]]
      by (simp add: agent_inv_def pending_move [OF req] waiters_move [OF req] holding_def Stamp_frame)
  next
    case (acquire ok d)
    with valid have v: "isValidEngineName e" by (simp add: passed_def)
    note f = AcquireHold_frame [OF acquire(2)]
    have "tracker_ok (fmupd i (e, pc') (ag_requests ag)) d (ag_capacity ag)"
      using tracker_acquire [OF tracker_move [OF _ req] acquire(2)] D v by blast
    moreover have "pending_ok (fmupd i (e, pc') (ag_requests ag)) (dt_pending d)"
      using D f(4,5) acquire(1,3) req pending_acquire [OF _ req] by (cases ok) (auto simp: pending_move [OF req] holding_def)
    ultimately show ?thesis
      using D acquire by (simp add: agent_inv_def waiters_move [OF req])
  next
    case (wait ch t)
    with valid have v: "isValidEngineName e" by (simp add: passed_def)
    from wait show ?thesis
      using D v waiters_wait [OF _ req _ wait(2)] tracker_move [OF _ req]
      by (simp add: agent_inv_def pending_move [OF req] holding_def)
  next
    case (leave ch d)
    with valid have v: "isValidEngineName e" by (simp add: passed_def)
    from leave show ?thesis
      using D v waiters_done [OF _ req] tracker_move [OF _ req]
      by (simp add: agent_inv_def pending_move [OF req] holding_def)
  next
    case (release d)
    have "0 \<le> count_at (dt_pending (ag_demand ag)) e" using pending_count D by (metis of_nat_0_le_iff)
    with release show ?thesis
      using D pending_release [OF _ req] tracker_release [OF tracker_move [OF _ req]]
      by (simp add: agent_inv_def waiters_move [OF req] holding_def passed_def)
  qed
qed

lemma step_keeps_agent:
  assumes "agent_step ag ag'" "agent_inv ag"
  shows "agent_inv ag'"
  using assms
proof (cases rule: agent_step.cases)
  case (arrive i engine)
  with assms(2) show ?thesis
    by (auto simp: agent_inv_def pending_arrive waiters_arrive tracker_ok_def passed_def split: if_splits)
next
  case (move i engine pc now ev pc' ag2)
  with assms(2) show ?thesis using move_keeps by blast
next
  case synced
  with assms(2) show ?thesis by (simp add: agent_inv_def waiters_ok_def MarkSynced_def)
next
  case (slice store sl)
  with assms(2) show ?thesis by (auto simp: agent_inv_def onChange_def Let_def intro: waiters_setReady)
next
  case (scrape now)
  with assms(2) tracker_scrape show ?thesis by (auto simp: agent_inv_def Render_snapshot Snapshot_def Let_def)
next
  case (refresh body now)
  with assms(2) show ?thesis by (simp add: agent_inv_def tracker_ok_def Refresh_frame)
qed

interpretation wake: invariant_system agent_step agent_inv
  by unfold_locales (rule step_keeps_agent)

lemma new_agent_inv: "0 \<le> fallback \<Longrightarrow> agent_inv (new_agent retention limit per fallback probing)"
  by (simp add: agent_inv_def new_agent_def newDemandTracker_def newReadinessTracker_def pending_ok_def waiters_ok_def tracker_ok_def
      holders_def parked_def PendingTotal_def maxTrackedEngines_def maxIntCap_def fcard_fempty)

section \<open>Properties of the agent\<close>

lemma fmap_empty_iff: "(\<And>k. fmlookup m k = None) \<Longrightarrow> m = fmempty"
  by (simp add: fmap_ext)

text \<open>C38. No request is stranded and nothing leaks: wherever the agent can get to, by any interleaving of requests,
  informer events, scrapes and refreshes, the next ready report of an engine closes the channel of every
  request parked for it, so each of them can go on; and once every request has been answered, no hold count,
  channel or reference is left.\<close>

theorem parked_requests_are_released:
  assumes "agent_step\<^sup>*\<^sup>* (new_agent retention limit per fallback probing) ag" and "0 \<le> fallback"
  shows "(\<forall>i e ch. fmlookup (ag_requests ag) i = Some (e, Waiting ch) \<longrightarrow>
      hold_next now Run e (Waiting ch) (ag\<lparr>ag_readiness := setReady e True (ag_readiness ag)\<rparr>) =
        Some (Woken ch, ag\<lparr>ag_readiness := setReady e True (ag_readiness ag)\<rparr>)) \<and>
    ((\<forall>i e pc. fmlookup (ag_requests ag) i = Some (e, pc) \<longrightarrow> (\<exists>d. pc = Done d)) \<longrightarrow>
      dt_pending (ag_demand ag) = fmempty \<and> rt_waiters (ag_readiness ag) = fmempty \<and> rt_refs (ag_readiness ag) = fmempty)"
proof -
  from wake.reach_keeps [OF assms(1)] new_agent_inv [OF assms(2)]
  have p: "pending_ok (ag_requests ag) (dt_pending (ag_demand ag))" and w: "waiters_ok (ag_requests ag) (ag_readiness ag)"
    by (auto simp: agent_inv_def)
  have "ch \<in> rt_closed (setReady e True (ag_readiness ag))" if "fmlookup (ag_requests ag) i = Some (e, Waiting ch)" for i e ch
  proof -
    have "i \<in> parked (ag_requests ag) e ch" using that by (simp add: parked_def)
    from waiters_okD(1) [OF w this] show ?thesis by (auto simp: setReady_def Let_def split: option.splits)
  qed
  moreover have "dt_pending (ag_demand ag) = fmempty \<and> rt_waiters (ag_readiness ag) = fmempty \<and> rt_refs (ag_readiness ag) = fmempty"
    if fin: "\<forall>i e pc. fmlookup (ag_requests ag) i = Some (e, pc) \<longrightarrow> (\<exists>d. pc = Done d)"
  proof -
    have "holders (ag_requests ag) e = {}" "parked (ag_requests ag) e ch = {}" for e ch
      using fin by (fastforce simp: holders_def parked_def holding_def)+
    then have "fmlookup (dt_pending (ag_demand ag)) e = None" "fmlookup (rt_waiters (ag_readiness ag)) e = None"
      "fmlookup (rt_refs (ag_readiness ag)) e = None" for e
      using p waiters_okD(2,3) [OF w, of e] by (auto simp: pending_ok_def) (metis option.exhaust)+
    then show ?thesis by (simp add: fmap_empty_iff)
  qed
  ultimately show ?thesis by (simp add: hold_next_def)
qed


section \<open>Witnesses\<close>

definition ex_agent :: agent where
  "ex_agent = new_agent (600 * second) 0 0 256 True"

lemma ex_valid: "isValidEngineName ''db''"
  by (simp add: isValidEngineName_def name_char_def less_eq_char_def)

lemma step_trans: "agent_step a b \<Longrightarrow> agent_step\<^sup>*\<^sup>* b c \<Longrightarrow> agent_step\<^sup>*\<^sup>* a c"
  by (rule converse_rtranclp_into_rtranclp)

text \<open>A request for the stopped engine \<open>db\<close> on its way to being parked.\<close>

definition ex_at :: "hold_pc \<Rightarrow> agent" where
  "ex_at pc = ex_agent\<lparr>ag_readiness := MarkSynced newReadinessTracker,
     ag_demand := (case pc of
       Stamped \<Rightarrow> (newDemandTracker (600 * second))\<lparr>dt_last := fmupd ''db'' 5 fmempty\<rparr>
     | Acquired \<Rightarrow> (newDemandTracker (600 * second))\<lparr>dt_last := fmupd ''db'' 5 fmempty, dt_pending := fmupd ''db'' 1 fmempty\<rparr>
     | _ \<Rightarrow> newDemandTracker (600 * second)),
     ag_requests := fmupd 0 (''db'', pc) fmempty\<rparr>"

lemma ex_move:
  assumes "hold_next 5 Run ''db'' pc (ex_at pc) = Some (pc', ag)" "ag\<lparr>ag_requests := fmupd 0 (''db'', pc') (ag_requests ag)\<rparr> = ag2"
  shows "agent_step (ex_at pc) ag2"
proof -
  have "fmlookup (ag_requests (ex_at pc)) 0 = Some (''db'', pc)" by (simp add: ex_at_def)
  from agent_step.move [OF this assms(1)] assms(2) show ?thesis by simp
qed

lemma ex_replace: "fmupd k v (fmupd k w m) = fmupd k v m"
  by (rule fmap_ext) simp

lemmas ex_agent_defs = ex_at_def ex_agent_def new_agent_def newReadinessTracker_def newDemandTracker_def MarkSynced_def hold_next_def IsReady_def ex_replace

definition ex_parked :: agent where
  "ex_parked = (ex_at Acquired)\<lparr>ag_readiness := (MarkSynced newReadinessTracker)\<lparr>rt_next := 1, rt_waiters := fmupd ''db'' 0 fmempty,
     rt_refs := fmupd ''db'' 1 fmempty\<rparr>, ag_requests := fmupd 0 (''db'', Waiting 0) fmempty\<rparr>"

lemma ex_reached: "agent_step\<^sup>*\<^sup>* ex_agent ex_parked"
proof -
  have 0: "agent_step ex_agent (ex_agent\<lparr>ag_readiness := MarkSynced newReadinessTracker\<rparr>)"
    using agent_step.synced [of ex_agent] by (simp add: ex_agent_def new_agent_def)
  have 1: "agent_step (ex_agent\<lparr>ag_readiness := MarkSynced newReadinessTracker\<rparr>) (ex_at Arrived)"
    using agent_step.arrive [of "ex_agent\<lparr>ag_readiness := MarkSynced newReadinessTracker\<rparr>" 0 "''db''"] by (simp add: ex_agent_defs)
  have 2: "agent_step (ex_at Arrived) (ex_at Checked)" by (rule ex_move, simp add: ex_agent_defs ex_valid, simp add: ex_agent_defs ex_valid)
  have 3: "agent_step (ex_at Checked) (ex_at NotReady)" by (rule ex_move, simp add: ex_agent_defs, simp add: ex_agent_defs)
  have 4: "agent_step (ex_at NotReady) (ex_at Stamped)" by (rule ex_move, simp add: ex_agent_defs Stamp_def fcard_fempty maxTrackedEngines_def, simp add: ex_agent_defs Stamp_def fcard_fempty maxTrackedEngines_def)
  have 5: "agent_step (ex_at Stamped) (ex_at Acquired)"
    by (rule ex_move, simp add: ex_agent_defs AcquireHold_def Cap_def PendingTotal_def count_at_def, simp add: ex_agent_defs AcquireHold_def Cap_def PendingTotal_def count_at_def)
  have 6: "agent_step (ex_at Acquired) ex_parked"
    by (rule ex_move, simp add: ex_agent_defs ex_parked_def WaitChan_def, simp add: ex_agent_defs ex_parked_def WaitChan_def)
  from 0 1 2 3 4 5 6 show ?thesis by (meson r_into_rtranclp step_trans)
qed

lemma parked_requests_are_released_witness:
  "hold_next 5 Run ''db'' (Waiting 0) (ex_parked\<lparr>ag_readiness := setReady ''db'' True (ag_readiness ex_parked)\<rparr>) =
     Some (Woken 0, ex_parked\<lparr>ag_readiness := setReady ''db'' True (ag_readiness ex_parked)\<rparr>)"
proof -
  have "fmlookup (ag_requests ex_parked) 0 = Some (''db'', Waiting 0)" by (simp add: ex_parked_def)
  with parked_requests_are_released [OF ex_reached [unfolded ex_agent_def], of 5] show ?thesis by simp
qed


end
