(* ===== verification/Go_Duration.thy ===== *)
theory Go_Duration
  imports Go_Prelude
begin

text \<open>
  Floating point and durations of the Go library, as far as the operator uses them: rounding to the 53 bits of a
  \<open>float64\<close>, \<open>strconv.ParseFloat\<close> on decimal numbers, \<open>time.ParseDuration\<close>, and on top of them the parser of
  \<open>src/api/v1alpha1/fireboltinstance_webhook.go\<close> for the durations of \<open>spec.auth\<close>, which knows days.

  Strings are bytes. A nonnegative float is a pair \<open>(m, e)\<close> for \<open>m * 2 ^ e\<close>. Below the normal range the model keeps
  53 bits where a \<open>float64\<close> has fewer; such a number of hours is less than a nanosecond either way. The language
  leaves open what converting a float beyond \<open>int64\<close> gives, so this is an argument (\<open>huge\<close>).
\<close>

section \<open>Floats\<close>

fun bit_len :: "nat \<Rightarrow> nat" where
  "bit_len n = (if n = 0 then 0 else Suc (bit_len (n div 2)))"

declare bit_len.simps [simp del]

definition round_float :: "int \<Rightarrow> int \<Rightarrow> int \<times> int" where
  "round_float m e =
     (let k = bit_len (nat m) - 53; q = m div 2 ^ k; r = m mod 2 ^ k
      in if k = 0 then (m, e)
         else (if 2 * r > 2 ^ k \<or> (2 * r = 2 ^ k \<and> odd q) then q + 1 else q, e + int k))"

text \<open>Evaluation by the simplifier: the bits of an \<open>int\<close>, without unary numbers.\<close>

function int_bits :: "int \<Rightarrow> nat" where
  "int_bits i = (if i \<le> 0 then 0 else Suc (int_bits (i div 2)))"
  by auto
termination by (relation "measure nat") auto

declare int_bits.simps [simp del]

lemma bit_len_nat: "bit_len (nat i) = int_bits i"
proof (induction i rule: int_bits.induct)
  case (1 i)
  have "nat i div 2 = nat (i div 2)" by (simp add: nat_div_distrib)
  then show ?case using 1 by (cases "i \<le> 0") (simp_all add: bit_len.simps [of "nat i"] bit_len.simps [of 0] int_bits.simps [of i])
qed

lemma round_float_code [code]:
  "round_float m e =
     (let k = int_bits m - 53; q = m div 2 ^ k; r = m mod 2 ^ k
      in if k = 0 then (m, e)
         else (if 2 * r > 2 ^ k \<or> (2 * r = 2 ^ k \<and> odd q) then q + 1 else q, e + int k))"
  by (simp add: round_float_def bit_len_nat)

definition digits_int :: "string \<Rightarrow> int" where
  "digits_int s = foldl (\<lambda>acc c. acc * 10 + int (digit_val c)) 0 s"

definition trunc_float :: "int \<Rightarrow> int \<Rightarrow> int" where
  "trunc_float m e = (if 0 \<le> e then m * 2 ^ nat e else m div 2 ^ nat (- e))"

text \<open>The float nearest to \<open>p / q\<close>: enough bits of the quotient, and one that says whether anything is left.\<close>

definition float_ratio :: "int \<Rightarrow> int \<Rightarrow> int \<times> int" where
  "float_ratio p q =
     (let s = (55 + int_bits q) - int_bits p; t = (p * 2 ^ s) div q
      in round_float (2 * t + (if (p * 2 ^ s) mod q = 0 then 0 else 1)) (- int s - 1))"

definition float_mult :: "int \<times> int \<Rightarrow> int \<times> int \<Rightarrow> int \<times> int" where
  "float_mult a b = round_float (fst a * fst b) (snd a + snd b)"

text \<open>\<open>strconv.ParseFloat\<close> of a string of digits and points; \<open>None\<close> is an error of syntax or range.\<close>

definition float_overflows :: "int \<times> int \<Rightarrow> bool" where
  "float_overflows a \<longleftrightarrow> 1024 < int (int_bits (fst a)) + snd a"

definition parse_decimal :: "string \<Rightarrow> (int \<times> int) option" where
  "parse_decimal num =
     (let whole = takeWhile is_digit num; rest = dropWhile is_digit num;
          frac = (case rest of [] \<Rightarrow> [] | c # cs \<Rightarrow> cs);
          v = float_ratio (digits_int (whole @ frac)) (10 ^ length frac)
      in if (rest \<noteq> [] \<and> hd rest \<noteq> CHR ''.'') \<or> \<not> list_all is_digit frac \<or> whole @ frac = [] \<or> float_overflows v
         then None else Some v)"

section \<open>Durations\<close>

definition isDurationNumByte :: "char \<Rightarrow> bool" where
  "isDurationNumByte b \<longleftrightarrow> is_digit b \<or> b = CHR ''.''"

text \<open>The units of \<open>time.ParseDuration\<close>; the micro sign has two encodings.\<close>

definition unit_map :: "string \<Rightarrow> int option" where
  "unit_map u =
     (if u = ''ns'' then Some 1
      else if u = ''us'' \<or> u = [CHR 0xC2, CHR 0xB5, CHR ''s''] \<or> u = [CHR 0xCE, CHR 0xBC, CHR ''s''] then Some 1000
      else if u = ''ms'' then Some 1000000
      else if u = ''s'' then Some second
      else if u = ''m'' then Some minute
      else if u = ''h'' then Some (60 * minute)
      else None)"

text \<open>The digits of a fraction, as many as fit, with the power of ten they are over.\<close>

fun leading_fraction :: "int \<Rightarrow> int \<Rightarrow> string \<Rightarrow> int \<times> int" where
  "leading_fraction x scale [] = (x, scale)"
| "leading_fraction x scale (c # cs) =
     (let y = 10 * x + int (digit_val c)
      in if (2 ^ 63 - 1) div 10 < x \<or> 2 ^ 63 < y then (x, scale) else leading_fraction y (10 * scale) cs)"

definition float_of_int :: "int \<Rightarrow> int \<times> int" where "float_of_int i = round_float i 0"

text \<open>\<open>uint64(float64(f) * (float64(unit) / scale))\<close>.\<close>

definition fraction_of :: "int \<Rightarrow> int \<Rightarrow> int \<Rightarrow> int" where
  "fraction_of f scale u =
     (let (m, e) = float_mult (float_of_int f) (float_ratio u scale) in trunc_float m e)"

text \<open>One component of a duration: its value and what follows it.\<close>

definition duration_component :: "string \<Rightarrow> (int \<times> string) option" where
  "duration_component s =
     (let whole = takeWhile is_digit s; v = digits_int whole; s1 = dropWhile is_digit s;
          point = (s1 \<noteq> [] \<and> hd s1 = CHR ''.'');
          frac = (if point then takeWhile is_digit (tl s1) else []);
          s2 = (if point then dropWhile is_digit (tl s1) else s1);
          unit = takeWhile (\<lambda>c. \<not> isDurationNumByte c) s2; s3 = dropWhile (\<lambda>c. \<not> isDurationNumByte c) s2;
          (f, scale) = leading_fraction 0 1 frac
      in if s = [] \<or> \<not> isDurationNumByte (hd s) \<or> 2 ^ 63 < v \<or> (whole = [] \<and> frac = []) \<or> unit = [] then None
         else case unit_map unit of
                None \<Rightarrow> None
              | Some u \<Rightarrow>
                  if 2 ^ 63 div u < v then None
                  else (let w = v * u + (if 0 < f then fraction_of f scale u else 0)
                        in if 2 ^ 63 < w then None else Some (w, s3)))"

lemma duration_component_shorter: "duration_component s = Some (v, t) \<Longrightarrow> length t < length s"
proof -
  assume a: "duration_component s = Some (v, t)"
  let ?s1 = "dropWhile is_digit s"
  define p where "p = (?s1 \<noteq> [] \<and> hd ?s1 = CHR ''.'')"
  define s2 where "s2 = (if p then dropWhile is_digit (tl ?s1) else ?s1)"
  have t: "t = dropWhile (\<lambda>c. \<not> isDurationNumByte c) s2" "takeWhile (\<lambda>c. \<not> isDurationNumByte c) s2 \<noteq> []"
    using a by (auto simp: duration_component_def Let_def p_def s2_def split: prod.splits option.splits if_splits)
  have "length s2 \<le> length s"
    using length_dropWhile_le [of is_digit s] length_dropWhile_le [of is_digit "tl ?s1"] by (auto simp: s2_def)
  moreover have "length t < length s2"
    using t by (metis length_append length_greater_0_conv less_add_same_cancel2 takeWhile_dropWhile_id)
  ultimately show ?thesis by simp
qed

function duration_sum :: "int \<Rightarrow> string \<Rightarrow> int option" where
  "duration_sum d s =
     (if s = [] then Some d
      else case duration_component s of
             None \<Rightarrow> None
           | Some (v, t) \<Rightarrow> (let d' = (d + v) mod 2 ^ 64 in if 2 ^ 63 < d' then None else duration_sum d' t))"
  by pat_completeness auto
termination by (relation "measure (length \<circ> snd)") (auto dest: duration_component_shorter)

declare duration_sum.simps [simp del]

definition signed :: "string \<Rightarrow> bool \<times> string" where
  "signed s = (case s of [] \<Rightarrow> (False, []) | c # t \<Rightarrow> if c = CHR ''-'' then (True, t) else if c = CHR ''+'' then (False, t) else (False, s))"

definition ParseDuration :: "string \<Rightarrow> int option" where
  "ParseDuration orig =
     (let (neg, s) = signed orig
      in if s = ''0'' then Some 0
         else if s = [] then None
         else case duration_sum 0 s of
                None \<Rightarrow> None
              | Some d \<Rightarrow> if neg then Some (- d) else if MaxInt64 < d then None else Some d)"

section \<open>Durations of the engine\<close>

text \<open>The units; what follows the number of a component decides.\<close>

definition engine_unit :: "string \<Rightarrow> int option" where
  "engine_unit u = (if u = ''d'' then Some (24 * (60 * minute)) else unit_map u)"

text \<open>\<open>time.Duration(n * float64(scale))\<close>.\<close>

definition scaled_duration :: "int \<Rightarrow> int \<times> int \<Rightarrow> int \<Rightarrow> int" where
  "scaled_duration huge n scale =
     (let (m, e) = float_mult n (float_of_int scale); d = trunc_float m e in if 2 ^ 63 \<le> d then huge else d)"

function engine_duration_loop :: "int \<Rightarrow> int \<Rightarrow> string \<Rightarrow> int option" where
  "engine_duration_loop huge acc body =
     (if body = [] then Some acc
      else (let num = takeWhile isDurationNumByte body; rest = dropWhile isDurationNumByte body;
                unit = takeWhile (\<lambda>c. \<not> isDurationNumByte c) rest; body' = dropWhile (\<lambda>c. \<not> isDurationNumByte c) rest
            in if num = [] \<or> unit = [] then None
               else case engine_unit unit of
                      None \<Rightarrow> None
                    | Some scale \<Rightarrow>
                        (case parse_decimal num of
                           None \<Rightarrow> None
                         | Some n \<Rightarrow> engine_duration_loop huge (wrap64 (acc + scaled_duration huge n scale)) body')))"
  by pat_completeness auto
termination
proof (relation "measure (length \<circ> snd \<circ> snd)", goal_cases)
  case (2 huge acc body num rest unit body' scale n)
  then have "length num + length rest = length body" "length body' \<le> length rest" "0 < length num"
    using takeWhile_dropWhile_id [of isDurationNumByte body] length_dropWhile_le
    by (auto simp flip: length_append)
  then show ?case by (simp del: length_greater_0_conv)
qed simp

declare engine_duration_loop.simps [simp del]

definition parseEngineDuration :: "int \<Rightarrow> string \<Rightarrow> int option" where
  "parseEngineDuration huge s =
     (case ParseDuration s of
        Some d \<Rightarrow> Some d
      | None \<Rightarrow>
          (let (neg, body) = signed s
           in if body = [] then None
              else map_option (\<lambda>acc. if neg then wrap64 (- acc) else acc) (engine_duration_loop huge 0 body)))"

section \<open>Exact floats\<close>


lemma int_bits_bounds: "0 < m \<Longrightarrow> 2 ^ (int_bits m - 1) \<le> m \<and> m < 2 ^ int_bits m"
proof (induction m rule: int_bits.induct)
  case (1 i)
  show ?case
  proof (cases "i div 2 \<le> 0")
    case True
    then have "i = 1" using 1(2) by linarith
    then show ?thesis by (simp add: int_bits.simps)
  next
    case False
    then have ih: "2 ^ (int_bits (i div 2) - 1) \<le> i div 2" "i div 2 < 2 ^ int_bits (i div 2)" using 1 by auto
    have "int_bits (i div 2) \<noteq> 0" using False by (simp add: int_bits.simps [of "i div 2"])
    then obtain b where b: "int_bits (i div 2) = Suc b" using not0_implies_Suc by blast
    have "2 * 2 ^ b \<le> i" "i < 4 * 2 ^ b" using ih by (simp_all add: b)
    then show ?thesis using 1(2) b by (simp add: int_bits.simps [of i])
  qed
qed

lemma int_bits_shift:
  assumes "0 \<le> a" "a < 2 ^ 53"
  shows "int_bits (a * 2 ^ t) - 53 \<le> t"
proof (cases "a = 0")
  case True
  then show ?thesis by (simp add: int_bits.simps)
next
  case False
  let ?b = "int_bits (a * 2 ^ t)"
  have "2 ^ (?b - 1) \<le> a * 2 ^ t" using int_bits_bounds [of "a * 2 ^ t"] False assms by simp
  also have "\<dots> < 2 ^ (53 + t)" using assms by (simp add: power_add)
  finally have "?b - 1 < 53 + t" by (rule power_less_imp_less_exp [rotated]) simp
  then show ?thesis by simp
qed

text \<open>A number of at most 53 significant bits is not rounded.\<close>

lemma round_float_exact:
  assumes "0 \<le> a" "a < 2 ^ 53"
  shows "\<exists>k \<le> t. round_float (a * 2 ^ t) e = (a * 2 ^ (t - k), e + int k)"
proof -
  let ?k = "int_bits (a * 2 ^ t) - 53"
  have k: "?k \<le> t" by (rule int_bits_shift [OF assms])
  have "a * 2 ^ t = (a * 2 ^ (t - ?k)) * 2 ^ ?k" using k by (simp flip: power_add add: mult.assoc)
  then have "(a * 2 ^ t) mod 2 ^ ?k = 0" "(a * 2 ^ t) div 2 ^ ?k = a * 2 ^ (t - ?k)"
    by (metis mod_mult_self2_is_0, metis nonzero_mult_div_cancel_right power_not_zero zero_neq_numeral)
  then show ?thesis using k by (auto simp: round_float_code Let_def intro!: exI [of _ ?k])
qed

lemma trunc_float_exact: "trunc_float (v * 2 ^ j) (- int j) = v"
proof (cases "j = 0")
  case False
  then show ?thesis by (simp add: trunc_float_def)
qed (simp add: trunc_float_def)

lemma trunc_float_exact': "trunc_float v (int j) = v * 2 ^ j"
  by (simp add: trunc_float_def)

lemma float_ratio_one:
  assumes "0 \<le> n" "n < 2 ^ 53"
  shows "\<exists>j. float_ratio n 1 = (n * 2 ^ j, - int j)"
proof -
  define s where "s = (55 + int_bits 1) - int_bits n"
  obtain k where k: "k \<le> Suc s" "round_float (n * 2 ^ Suc s) (- int s - 1) = (n * 2 ^ (Suc s - k), (- int s - 1) + int k)"
    using round_float_exact [OF assms, of "Suc s" "- int s - 1"] by blast
  have "float_ratio n 1 = round_float (n * 2 ^ Suc s) (- int s - 1)"
    by (simp add: float_ratio_def Let_def s_def [symmetric] mult.left_commute)
  then show ?thesis using k by (intro exI [of _ "Suc s - k"]) (simp add: of_nat_diff)
qed

text \<open>A whole number of a unit, as long as its odd part has 53 bits.\<close>

lemma scaled_whole:
  assumes n: "0 \<le> n" "n < 2 ^ 53" and a: "n * scale = a * 2 ^ t" "a < 2 ^ 53" and sc: "0 < scale" "scale < 2 ^ 53"
    and r: "n * scale < 2 ^ 63"
  shows "scaled_duration huge (float_ratio n 1) scale = n * scale"
proof -
  obtain j where j: "float_ratio n 1 = (n * 2 ^ j, - int j)" using float_ratio_one [OF n] by blast
  have f: "float_of_int scale = (scale, 0)"
    using round_float_exact [of scale 0 0] sc by (auto simp: float_of_int_def)
  have a0: "0 \<le> a" using a n sc by (metis mult_nonneg_nonneg order_less_imp_le zero_le_mult_iff zero_less_numeral zero_less_power not_less)
  have p: "n * 2 ^ j * scale = a * 2 ^ (t + j)" using a(1) by (simp add: power_add algebra_simps)
  obtain k where k: "k \<le> t + j" "round_float (a * 2 ^ (t + j)) (- int j) = (a * 2 ^ (t + j - k), - int j + int k)"
    using round_float_exact [OF a0 a(2)] by blast
  have "trunc_float (a * 2 ^ (t + j - k)) (- int j + int k) = a * 2 ^ t"
  proof (cases "j \<le> k")
    case True
    then show ?thesis using trunc_float_exact' [of _ "k - j"] k(1) by (simp add: of_nat_diff algebra_simps flip: power_add)
  next
    case False
    then have "a * 2 ^ (t + j - k) = (a * 2 ^ t) * 2 ^ (j - k)" "- int j + int k = - int (j - k)"
      by (simp_all flip: power_add add: mult.assoc)
    then show ?thesis by (simp only: trunc_float_exact)
  qed
  then show ?thesis using r by (simp add: scaled_duration_def float_mult_def j f p k(2) a(1))
qed


section \<open>Printing\<close>

text \<open>A duration as components: a whole number and its unit.\<close>

definition print_component :: "int \<times> string \<Rightarrow> string" where
  "print_component c = itoa (fst c) @ snd c"

definition component_value :: "int \<times> string \<Rightarrow> int" where
  "component_value c = fst c * (case engine_unit (snd c) of Some u \<Rightarrow> u | None \<Rightarrow> 0)"

definition component_ok :: "int \<times> string \<Rightarrow> bool" where
  "component_ok c \<longleftrightarrow> 0 \<le> fst c \<and> fst c \<le> 6000000 \<and> engine_unit (snd c) \<noteq> None"

lemmas unit_defs = engine_unit_def unit_map_def second_def minute_def

lemma engine_unit_chars:
  assumes "engine_unit u = Some scale"
  shows "u \<noteq> [] \<and> list_all (\<lambda>c. \<not> isDurationNumByte c) u"
  using assms by (auto simp: unit_defs isDurationNumByte_def is_digit_def split: if_splits)

lemma engine_unit_scale:
  assumes "engine_unit u = Some scale" "0 \<le> n" "n \<le> 6000000"
  shows "0 < scale" "scale < 2 ^ 53" "\<exists>a t. n * scale = a * 2 ^ t \<and> a < 2 ^ 53"
proof -
  show "0 < scale" "scale < 2 ^ 53" using assms(1) by (auto simp: unit_defs split: if_splits)
  have "scale = 1 \<or> scale = 1000 \<or> scale = 1000000 \<or> scale = 1953125 * 2 ^ 9 \<or> scale = 29296875 * 2 ^ 11
      \<or> scale = 439453125 * 2 ^ 13 \<or> scale = 1318359375 * 2 ^ 16"
    using assms(1) by (auto simp: unit_defs split: if_splits)
  then consider (small) "scale \<le> 1000000" | (big) b t where "scale = b * 2 ^ t" "b \<le> 1318359375" by fastforce
  then show "\<exists>a t. n * scale = a * 2 ^ t \<and> a < 2 ^ 53"
  proof cases
    case small
    then have "n * scale \<le> 6000000 * 1000000" using assms \<open>0 < scale\<close> by (intro mult_mono) auto
    then show ?thesis by (intro exI [of _ "n * scale"] exI [of _ 0]) simp
  next
    case big
    have "0 \<le> b" using big(1) \<open>0 < scale\<close> by (simp add: zero_less_mult_iff)
    then have "n * b \<le> 6000000 * 1318359375" using assms big by (intro mult_mono) auto
    then show ?thesis using big(1) by (intro exI [of _ "n * b"] exI [of _ t]) simp
  qed
qed

lemma digits_int_val: "digits_int s = int (digits_val s)"
proof -
  have "foldl (\<lambda>acc c. acc * 10 + int (digit_val c)) (int a) s = int (foldl (\<lambda>acc c. acc * 10 + digit_val c) a s)" for a
  proof (induction s arbitrary: a)
    case (Cons c s)
    have "int a * 10 + int (digit_val c) = int (a * 10 + digit_val c)" by simp
    then show ?case using Cons [of "a * 10 + digit_val c"] by (simp only: foldl.simps)
  qed simp
  from this [of 0] show ?thesis by (simp add: digits_int_def digits_val_def)
qed

lemma itoa_digits:
  assumes "0 \<le> n"
  shows "itoa n \<noteq> []" "list_all is_digit (itoa n)" "digits_int (itoa n) = n"
  using assms nat_digits_props [of "nat n"] by (simp_all add: itoa_def digits_int_val)

lemma parse_decimal_itoa:
  assumes "0 \<le> n" "n \<le> 6000000"
  shows "parse_decimal (itoa n) = Some (float_ratio n 1)"
proof -
  have d: "takeWhile is_digit (itoa n) = itoa n" "dropWhile is_digit (itoa n) = []"
    using itoa_digits(2) [OF assms(1)] by (auto simp: list_all_iff)
  obtain j where j: "float_ratio n 1 = (n * 2 ^ j, - int j)" using float_ratio_one [of n] assms by auto
  have "int_bits (n * 2 ^ j) - 53 \<le> j" using int_bits_shift [of n j] assms by simp
  then have "\<not> float_overflows (float_ratio n 1)" by (simp add: j float_overflows_def)
  then show ?thesis using itoa_digits [OF assms(1)] by (simp add: parse_decimal_def d Let_def)
qed

text \<open>What the scanners see of a printed component with more after it.\<close>

definition starts_number :: "string \<Rightarrow> bool" where
  "starts_number s \<longleftrightarrow> s = [] \<or> is_digit (hd s)"

lemma scan_component:
  assumes "0 \<le> n" "engine_unit u = Some scale" "starts_number rest"
  shows "takeWhile isDurationNumByte (itoa n @ u @ rest) = itoa n" "dropWhile isDurationNumByte (itoa n @ u @ rest) = u @ rest"
    "takeWhile is_digit (itoa n @ u @ rest) = itoa n" "dropWhile is_digit (itoa n @ u @ rest) = u @ rest"
    "takeWhile (\<lambda>c. \<not> isDurationNumByte c) (u @ rest) = u" "dropWhile (\<lambda>c. \<not> isDurationNumByte c) (u @ rest) = rest"
proof -
  have u: "u \<noteq> []" "list_all (\<lambda>c. \<not> isDurationNumByte c) u" using engine_unit_chars [OF assms(2)] by auto
  have h: "\<not> isDurationNumByte (hd (u @ rest))" using u by (cases u) auto
  have d: "list_all is_digit (itoa n)" using itoa_digits [OF assms(1)] by blast
  have n: "list_all isDurationNumByte (itoa n)" using d by (auto simp: list_all_iff isDurationNumByte_def)
  have r: "rest = [] \<or> isDurationNumByte (hd rest)" using assms(3) by (auto simp: starts_number_def isDurationNumByte_def)
  show "takeWhile isDurationNumByte (itoa n @ u @ rest) = itoa n" "dropWhile isDurationNumByte (itoa n @ u @ rest) = u @ rest"
    using n h u by (cases u; simp add: list_all_iff)+
  show "takeWhile is_digit (itoa n @ u @ rest) = itoa n" "dropWhile is_digit (itoa n @ u @ rest) = u @ rest"
    using d h u by (cases u; simp add: list_all_iff isDurationNumByte_def)+
  show "takeWhile (\<lambda>c. \<not> isDurationNumByte c) (u @ rest) = u" "dropWhile (\<lambda>c. \<not> isDurationNumByte c) (u @ rest) = rest"
    using u r by (cases rest; simp add: list_all_iff)+
qed

lemma starts_printed:
  "list_all component_ok cs \<Longrightarrow> starts_number (concat (map print_component cs))"
proof (cases cs)
  case (Cons c r)
  assume "list_all component_ok cs"
  then have "0 \<le> fst c" by (simp add: Cons component_ok_def)
  then show ?thesis using itoa_digits [of "fst c"] by (cases "itoa (fst c)") (auto simp: Cons starts_number_def print_component_def)
qed (simp add: starts_number_def)


abbreviation (input) printed :: "(int \<times> string) list \<Rightarrow> string" where
  "printed cs \<equiv> concat (map print_component cs)"

lemma component_value_bounds:
  assumes "list_all component_ok cs"
  shows "0 \<le> sum_list (map component_value cs)"
proof -
  have "0 \<le> component_value c" if "component_ok c" for c
    using that engine_unit_scale(1) by (fastforce simp: component_ok_def component_value_def)
  then show ?thesis using assms by (intro sum_list_nonneg) (auto simp: list_all_iff)
qed

lemma wrap64_id: "in_int64 i \<Longrightarrow> wrap64 i = i"
  by (simp add: wrap64_def in_int64_def)

lemma loop_printed:
  assumes "list_all component_ok cs" "0 \<le> acc" "acc + sum_list (map component_value cs) \<le> MaxInt64"
  shows "engine_duration_loop huge acc (printed cs) = Some (acc + sum_list (map component_value cs))"
  using assms
proof (induction cs arbitrary: acc)
  case (Cons c cs)
  obtain n u where c: "c = (n, u)" by fastforce
  obtain scale where u: "engine_unit u = Some scale" using Cons.prems(1) by (auto simp: component_ok_def c)
  have n: "0 \<le> n" "n \<le> 6000000" using Cons.prems(1) by (auto simp: component_ok_def c)
  have v: "component_value c = n * scale" by (simp add: component_value_def c u)
  have rest: "0 \<le> sum_list (map component_value cs)" using Cons.prems(1) component_value_bounds by simp
  have pos: "0 \<le> n * scale" using n engine_unit_scale(1) [OF u n] by simp
  have le: "acc + n * scale \<le> MaxInt64" using Cons.prems(3) rest v by simp
  have scaled: "scaled_duration huge (float_ratio n 1) scale = n * scale"
    using engine_unit_scale [OF u n] n le Cons.prems(2) by (auto intro!: scaled_whole simp: MaxInt64_def)
  have ne: "itoa n \<noteq> []" "u \<noteq> []" using itoa_digits [OF n(1)] engine_unit_chars [OF u] by auto
  note scan = scan_component [OF n(1) u starts_printed, of cs]
  have wr: "wrap64 (acc + n * scale) = acc + n * scale"
    using le pos Cons.prems(2) by (intro wrap64_id) (simp add: in_int64_def MaxInt64_def)
  have "engine_duration_loop huge acc (printed (c # cs)) = engine_duration_loop huge (acc + n * scale) (printed cs)"
    using Cons.prems(1) ne
    by (subst engine_duration_loop.simps) (simp add: c print_component_def scan u parse_decimal_itoa [OF n] scaled wr)
  also have "\<dots> = Some (acc + n * scale + sum_list (map component_value cs))"
    using Cons.prems pos v by (intro Cons.IH) auto
  finally show ?case by (simp add: v)
qed (simp add: engine_duration_loop.simps)

lemma unit_map_day: "unit_map ''d'' = None"
  by (simp add: unit_map_def)

lemma duration_sum_printed:
  assumes "list_all component_ok cs" "0 \<le> acc" "acc + sum_list (map component_value cs) \<le> MaxInt64"
    "duration_sum acc (printed cs) = Some d"
  shows "d = acc + sum_list (map component_value cs)"
  using assms
proof (induction cs arbitrary: acc)
  case (Cons c cs)
  obtain n u where c: "c = (n, u)" by fastforce
  obtain scale where u: "engine_unit u = Some scale" using Cons.prems(1) by (auto simp: component_ok_def c)
  have n: "0 \<le> n" "n \<le> 6000000" using Cons.prems(1) by (auto simp: component_ok_def c)
  have v: "component_value c = n * scale" by (simp add: component_value_def c u)
  have rest: "0 \<le> sum_list (map component_value cs)" using Cons.prems(1) component_value_bounds by simp
  have pos: "0 \<le> n * scale" using n engine_unit_scale(1) [OF u n] by simp
  have le: "acc + n * scale \<le> MaxInt64" using Cons.prems(3) rest v by simp
  have h: "hd u \<noteq> CHR ''.''" "u \<noteq> []" using engine_unit_chars [OF u] by (cases u; auto simp: isDurationNumByte_def)+
  note scan = scan_component [OF n(1) u starts_printed, of cs]
  note dig = itoa_digits [OF n(1)]
  have comp: "duration_component (printed (c # cs)) = None \<or> duration_component (printed (c # cs)) = Some (n * scale, printed cs)"
    using Cons.prems(1) u dig(3) h unit_map_day
    by (auto simp: c print_component_def duration_component_def scan Let_def engine_unit_def hd_append split: if_splits option.splits)
  have m: "(acc + n * scale) mod 2 ^ 64 = acc + n * scale"
    using le pos Cons.prems(2) by (simp add: MaxInt64_def)
  have ne: "printed (c # cs) \<noteq> []" using dig by (simp add: c print_component_def)
  have "duration_sum (acc + n * scale) (printed cs) = Some d"
    using Cons.prems(4) comp ne m le
    by (subst (asm) duration_sum.simps) (auto simp: Let_def MaxInt64_def split: if_splits)
  then have "d = acc + n * scale + sum_list (map component_value cs)"
    using Cons.prems pos v by (intro Cons.IH) auto
  then show ?case by (simp add: v)
qed (simp add: duration_sum.simps)

lemma printed_shape:
  assumes "list_all component_ok cs" "cs \<noteq> []"
  shows "signed (printed cs) = (False, printed cs)" "printed cs \<noteq> []" "printed cs \<noteq> ''0''"
proof -
  obtain n u r where c: "cs = (n, u) # r" using assms(2) by (cases cs) auto
  have n: "0 \<le> n" using assms(1) by (simp add: c component_ok_def)
  have u: "u \<noteq> []" using assms(1) engine_unit_chars by (auto simp: c component_ok_def)
  obtain x xs where x: "itoa n = x # xs" "is_digit x" using itoa_digits [OF n] by (cases "itoa n") auto
  then show "signed (printed cs) = (False, printed cs)" "printed cs \<noteq> []" "printed cs \<noteq> ''0''"
    using is_digit_not_sign [of x] u by (auto simp: c print_component_def signed_def)
qed

lemma parse_printed:
  assumes cs: "list_all component_ok cs" "cs \<noteq> []" and le: "sum_list (map component_value cs) \<le> MaxInt64"
  shows "parseEngineDuration huge (printed cs) = Some (sum_list (map component_value cs))"
  using loop_printed [OF cs(1), of 0 huge] duration_sum_printed [OF cs(1), of 0] le printed_shape(2) [OF cs]
  by (auto simp: parseEngineDuration_def ParseDuration_def printed_shape(1,3) [OF cs] split: option.splits)

lemma parse_printed_negative:
  assumes cs: "list_all component_ok cs" "cs \<noteq> []" and le: "sum_list (map component_value cs) \<le> MaxInt64"
  shows "parseEngineDuration huge (CHR ''-'' # printed cs) = Some (- sum_list (map component_value cs))"
proof -
  have s: "signed (CHR ''-'' # printed cs) = (True, printed cs)" by (simp add: signed_def)
  have p: "printed cs \<noteq> []" "printed cs \<noteq> ''0''" using printed_shape [OF cs] by auto
  have "wrap64 (- sum_list (map component_value cs)) = - sum_list (map component_value cs)"
    using le component_value_bounds [OF cs(1)] by (intro wrap64_id) (simp add: in_int64_def MaxInt64_def)
  then show ?thesis
    using loop_printed [OF cs(1), of 0 huge] duration_sum_printed [OF cs(1), of 0] le p(1)
    by (auto simp: parseEngineDuration_def ParseDuration_def s p(2) split: option.splits)
qed



text \<open>Beyond the largest duration the sum wraps instead of failing: this one, of 213504 days, is read as 25 minutes.\<close>

lemma long_duration_wraps: "parseEngineDuration huge ''106751d106751d2d'' = Some 1526290448384"
proof -
  have "parseEngineDuration huge ''106751d106751d2d'' = parseEngineDuration 0 ''106751d106751d2d''"
    by code_simp
  also have "\<dots> = Some 1526290448384" by code_simp
  finally show ?thesis .
qed

end
