(* ===== verification/Auto_Stop.thy ===== *)
theory Auto_Stop
  imports Engine_Converge Go_Duration
begin

text \<open>
  Stopping idle engines and waking them (\<open>engine_autostop.go\<close>): the always-on schedule, the decision, the
  scrape of the idle metric over the serving generation's pods, and the step \<open>runAutoStop\<close> that ends a pass
  and writes \<open>spec.replicas\<close>.

  Times and durations are nanoseconds; \<open>time_sub\<close> is \<open>Time.Sub\<close>, which saturates, and \<open>wrap64\<close> a 64-bit
  subtraction. The API server is an argument: what a write answers.
\<close>

section \<open>Constants\<close>

definition time_sub :: "time \<Rightarrow> time \<Rightarrow> int" where
  "time_sub a b = max (- (2 ^ 63)) (min MaxInt64 (a - b))"

definition DefaultAutoStopIdleTimeout :: int where "DefaultAutoStopIdleTimeout = 30 * minute"
definition DefaultAutoStopPollInterval :: int where "DefaultAutoStopPollInterval = minute"
definition DefaultAutoStopIdleReplicas :: int where "DefaultAutoStopIdleReplicas = 0"
definition MinimumAutoStopDeadlineRequeue :: int where "MinimumAutoStopDeadlineRequeue = second"
definition DefaultAutoStopWakeTTL :: int where "DefaultAutoStopWakeTTL = 5 * minute"
definition WakeProtectionMultiplier :: int where "WakeProtectionMultiplier = 6"

definition AutoStopReasonDisabled :: string where "AutoStopReasonDisabled = ''Disabled''"
definition AutoStopReasonScheduleActive :: string where "AutoStopReasonScheduleActive = ''ScheduleActive''"
definition AutoStopReasonStopped :: string where "AutoStopReasonStopped = ''Stopped''"
definition AutoStopReasonActivity :: string where "AutoStopReasonActivity = ''ActivityObserved''"
definition AutoStopReasonScrapeFailed :: string where "AutoStopReasonScrapeFailed = ''ScrapeFailed''"
definition AutoStopReasonIdle :: string where "AutoStopReasonIdle = ''Idle''"
definition AutoStopReasonWakeRequested :: string where "AutoStopReasonWakeRequested = ''WakeRequested''"
definition AutoStopReasonInitializing :: string where "AutoStopReasonInitializing = ''Initializing''"

lemmas autostop_reasons =
  AutoStopReasonDisabled_def AutoStopReasonScheduleActive_def AutoStopReasonStopped_def AutoStopReasonActivity_def
  AutoStopReasonScrapeFailed_def AutoStopReasonIdle_def AutoStopReasonWakeRequested_def AutoStopReasonInitializing_def

section \<open>The schedule\<close>

definition parseHHMM :: "string \<Rightarrow> int option" where
  "parseHHMM s =
     (case s of
        [a, b, c, d, e] \<Rightarrow>
          if c \<noteq> CHR '':'' then None
          else if \<not> (is_digit a \<and> is_digit b \<and> is_digit d \<and> is_digit e) then None
          else
            (let h = int (digit_val a) * 10 + int (digit_val b);
                 m = int (digit_val d) * 10 + int (digit_val e)
             in if h > 23 \<or> m > 59 then None else Some (h * 60 + m))
      | _ \<Rightarrow> None)"

definition windowContains :: "int \<Rightarrow> int \<Rightarrow> int \<Rightarrow> bool" where
  "windowContains start stop m =
     (if start = stop then False
      else if start < stop then m \<ge> start \<and> m < stop
      else m \<ge> start \<or> m < stop)"

text \<open>\<open>time.Weekday\<close> counts from Sunday; the epoch was a Thursday.\<close>

definition day :: int where "day = 1440 * minute"

definition weekday :: "time \<Rightarrow> int" where "weekday t = (t div day + 4) mod 7"

definition weekdayCode :: "int \<Rightarrow> string" where
  "weekdayCode d =
     (if d = 1 then ''Mon'' else if d = 2 then ''Tue'' else if d = 3 then ''Wed'' else if d = 4 then ''Thu''
      else if d = 5 then ''Fri'' else if d = 6 then ''Sat'' else if d = 0 then ''Sun'' else [])"

definition dayMatches :: "string list \<Rightarrow> string \<Rightarrow> bool" where
  "dayMatches days today \<longleftrightarrow> days = [] \<or> today \<in> set days"

definition windowActive :: "string \<Rightarrow> string \<Rightarrow> int \<Rightarrow> schedule_window \<Rightarrow> bool" where
  "windowActive today yesterday m w =
     (case parseHHMM (sw_start w) of
        None \<Rightarrow> False
      | Some startMin \<Rightarrow>
          (case parseHHMM (sw_end w) of
             None \<Rightarrow> False
           | Some endMin \<Rightarrow>
               if \<not> windowContains startMin endMin m then False
               else dayMatches (sw_days w) (if endMin < startMin \<and> m < endMin then yesterday else today)))"

definition scheduleActive :: "schedule_window list \<Rightarrow> time \<Rightarrow> bool" where
  "scheduleActive windows now =
     (if windows = [] then False
      else
        (let today = weekdayCode (weekday now);
             yesterday = weekdayCode (weekday (now - day));
             m = now mod day div (60 * minute) * 60 + now mod (60 * minute) div minute
         in list_ex (windowActive today yesterday m) windows))"

section \<open>The decision\<close>

record AutoStopObservation =
  ob_activeQueries :: int
  ob_scrapeFailed :: bool
  ob_wakeRequestedAt :: "time option"

record AutoStopDecision =
  dn_desiredReplicas :: int
  dn_scaleAction :: bool
  dn_reason :: string
  dn_requeueAfter :: int
  dn_newLastActivityTime :: "time option"
  dn_newLastWakeDemandTime :: "time option"
  dn_newWakeProtectionUntil :: "time option"

definition mk_decision :: "int \<Rightarrow> bool \<Rightarrow> string \<Rightarrow> int \<Rightarrow> time option \<Rightarrow> AutoStopDecision" where
  "mk_decision desired scale reason requeue activity =
     \<lparr>dn_desiredReplicas = desired, dn_scaleAction = scale, dn_reason = reason, dn_requeueAfter = requeue,
      dn_newLastActivityTime = activity, dn_newLastWakeDemandTime = None, dn_newWakeProtectionUntil = None\<rparr>"

definition decisionWithScale :: "int \<Rightarrow> int \<Rightarrow> string \<Rightarrow> int \<Rightarrow> AutoStopDecision" where
  "decisionWithScale current desired reason requeue = mk_decision desired (desired \<noteq> current) reason requeue None"

text \<open>A demand that still needs durable acceptance. A recorded demand without a deadline was never accepted
  and is retried.\<close>

definition freshWakeDemand :: "engine_status \<Rightarrow> time option \<Rightarrow> time \<Rightarrow> time option" where
  "freshWakeDemand status demand now =
     (let wake = es_lastWakeDemandTime status;
          deadline = es_wakeProtectionUntil status;
          demand1 = (case wake of
                       Some w \<Rightarrow> if deadline = None \<and> (case demand of None \<Rightarrow> True | Some d \<Rightarrow> d < w) then Some w else demand
                     | None \<Rightarrow> demand)
      in case demand1 of
           None \<Rightarrow> None
         | Some d \<Rightarrow>
             if d \<le> now \<and> time_sub now d < DefaultAutoStopWakeTTL \<and>
                (case wake of None \<Rightarrow> True | Some w \<Rightarrow> w < d \<or> (deadline = None \<and> d = w))
             then Some d else None)"

definition wakeProtectionDuration :: "int \<Rightarrow> int" where
  "wakeProtectionDuration idleTimeout =
     (if idleTimeout > MaxInt64 div WakeProtectionMultiplier then MaxInt64
      else WakeProtectionMultiplier * idleTimeout)"

definition positive_or :: "int option \<Rightarrow> int \<Rightarrow> int" where
  "positive_or v dflt = (case v of Some d \<Rightarrow> if d > 0 then d else dflt | None \<Rightarrow> dflt)"

text \<open>The end of a protection, rounded up to the whole seconds an API object keeps.\<close>

definition protection_end :: "time \<Rightarrow> int \<Rightarrow> time" where
  "protection_end asked protection =
     (let expires = asked + protection
      in if expires mod second \<noteq> 0 then expires div second * second + second else expires)"

definition protected_at :: "time option \<Rightarrow> time option \<Rightarrow> time \<Rightarrow> bool" where
  "protected_at wake deadline now =
     (case (wake, deadline) of (Some w, Some u) \<Rightarrow> \<not> now < w \<and> now < u | _ \<Rightarrow> False)"

text \<open>The cases after a demand has been taken or not, in the order of the source.\<close>

definition autostop_policy ::
  "engine_spec \<Rightarrow> auto_stop_spec \<Rightarrow> engine_status \<Rightarrow> AutoStopObservation \<Rightarrow> bool \<Rightarrow> time option \<Rightarrow> time option \<Rightarrow> time
     \<Rightarrow> AutoStopDecision" where
  "autostop_policy spec as status obs newDemand wake deadline now =
     (let pollInterval = positive_or (as_pollInterval as) DefaultAutoStopPollInterval;
          idleReplicas = (case as_idleReplicas as of Some r \<Rightarrow> r | None \<Rightarrow> DefaultAutoStopIdleReplicas);
          idleTimeout = positive_or (as_idleTimeout as) DefaultAutoStopIdleTimeout;
          protected = protected_at wake deadline now
      in if scheduleActive (as_schedule as) now then
           decisionWithScale (sp_replicas spec) (as_activeReplicas as) AutoStopReasonScheduleActive pollInterval
         else if sp_replicas spec = 0 then
           (if newDemand \<or> protected then
              decisionWithScale 0 (as_activeReplicas as) AutoStopReasonWakeRequested pollInterval
            else mk_decision 0 False AutoStopReasonStopped pollInterval None)
         else if ob_scrapeFailed obs then
           mk_decision (sp_replicas spec) False AutoStopReasonScrapeFailed pollInterval (Some now)
         else if ob_activeQueries obs > 0 then
           mk_decision (sp_replicas spec) False AutoStopReasonActivity pollInterval (Some now)
         else if protected then
           decisionWithScale (sp_replicas spec) (sp_replicas spec) AutoStopReasonWakeRequested
             (min pollInterval (case deadline of Some u \<Rightarrow> time_sub u now | None \<Rightarrow> 0))
         else case es_lastActivityTime status of
                None \<Rightarrow> mk_decision (sp_replicas spec) False AutoStopReasonInitializing pollInterval (Some now)
              | Some t \<Rightarrow>
                  if time_sub now t \<ge> idleTimeout \<and> sp_replicas spec > idleReplicas then
                    decisionWithScale (sp_replicas spec) idleReplicas AutoStopReasonIdle pollInterval
                  else mk_decision (sp_replicas spec) False AutoStopReasonActivity pollInterval None)"

definition computeAutoStopDecision ::
  "engine_spec \<Rightarrow> auto_stop_spec option \<Rightarrow> engine_status \<Rightarrow> AutoStopObservation \<Rightarrow> time \<Rightarrow> AutoStopDecision" where
  "computeAutoStopDecision spec autoStop status obs now =
     (case autoStop of
        None \<Rightarrow> mk_decision (sp_replicas spec) False AutoStopReasonDisabled 0 None
      | Some as \<Rightarrow>
          if \<not> as_enabled as then mk_decision (sp_replicas spec) False AutoStopReasonDisabled 0 None
          else
            (let protection = wakeProtectionDuration (positive_or (as_idleTimeout as) DefaultAutoStopIdleTimeout)
             in case freshWakeDemand status (ob_wakeRequestedAt obs) now of
                  None \<Rightarrow> autostop_policy spec as status obs False (es_lastWakeDemandTime status)
                            (es_wakeProtectionUntil status) now
                | Some asked \<Rightarrow>
                    (let until = protection_end asked protection
                     in (autostop_policy spec as status obs True (Some asked) (Some until) now)
                          \<lparr>dn_newLastWakeDemandTime := Some asked, dn_newWakeProtectionUntil := Some until\<rparr>)))"

definition observed_activity :: "engine_status \<Rightarrow> int option \<Rightarrow> time \<Rightarrow> time option" where
  "observed_activity status idleDuration now =
     (case idleDuration of
        None \<Rightarrow> None
      | Some idle \<Rightarrow>
          if (case es_lastActivityTime status of None \<Rightarrow> True | Some t \<Rightarrow> t < now - idle) then Some (now - idle) else None)"

definition deadline_requeue ::
  "auto_stop_spec \<Rightarrow> int option \<Rightarrow> time option \<Rightarrow> time \<Rightarrow> AutoStopDecision \<Rightarrow> AutoStopDecision" where
  "deadline_requeue autoStop idleDuration lastActivity now decision =
     (case lastActivity of
        Some t \<Rightarrow>
          if idleDuration \<noteq> None \<and> dn_reason decision = AutoStopReasonActivity then
            (let remaining = wrap64 (positive_or (as_idleTimeout autoStop) DefaultAutoStopIdleTimeout - time_sub now t)
             in if remaining > 0 then
                  (let deadlineRequeue = max remaining MinimumAutoStopDeadlineRequeue
                   in if dn_requeueAfter decision = 0 \<or> deadlineRequeue < dn_requeueAfter decision
                      then decision\<lparr>dn_requeueAfter := deadlineRequeue\<rparr> else decision)
                else decision)
          else decision
      | None \<Rightarrow> decision)"

definition decideAutoStopWithEngineIdle ::
  "engine_spec \<Rightarrow> auto_stop_spec \<Rightarrow> engine_status \<Rightarrow> AutoStopObservation \<Rightarrow> int option \<Rightarrow> time \<Rightarrow> AutoStopDecision" where
  "decideAutoStopWithEngineIdle spec autoStop status obs idleDuration now =
     (let observedLastActivity = observed_activity status idleDuration now;
          decisionStatus = status\<lparr>es_lastActivityTime := or_else observedLastActivity (es_lastActivityTime status)\<rparr>;
          decision0 = computeAutoStopDecision spec (Some autoStop) decisionStatus obs now;
          decision = (if observedLastActivity \<noteq> None then decision0\<lparr>dn_newLastActivityTime := observedLastActivity\<rparr>
                      else decision0)
      in deadline_requeue autoStop idleDuration (es_lastActivityTime decisionStatus) now decision)"

section \<open>The idle metric\<close>

text \<open>\<open>float64\<close>: \<open>Fin m e\<close> is \<open>m * 2 ^ e\<close>. \<open>time.Duration(idleSeconds * float64(time.Second))\<close> rounds the
  product to 53 bits, half to even, and truncates it. \<open>strconv.ParseFloat\<close> is an argument.\<close>

datatype float64 = NaN | Inf bool | Fin int int

definition float_le :: "int \<Rightarrow> int \<Rightarrow> int \<Rightarrow> int \<Rightarrow> bool" where
  "float_le m e m' e' = (let k = min e e' in m * 2 ^ nat (e - k) \<le> m' * 2 ^ nat (e' - k))"

text \<open>\<open>float64(math.MaxInt64) / float64(time.Second)\<close>, a constant: the float nearest to \<open>2 ^ 63 / 10 ^ 9\<close>.\<close>

definition maxSeconds_mantissa :: int where "maxSeconds_mantissa = 4835703278458517"

definition seconds_to_duration :: "int \<Rightarrow> int \<Rightarrow> int" where
  "seconds_to_duration m e = (case round_float (m * second) e of (m', e') \<Rightarrow> trunc_float m' e')"

definition parsePrometheusValue :: "(string \<Rightarrow> float64 option) \<Rightarrow> string \<Rightarrow> string \<Rightarrow> float64 option" where
  "parsePrometheusValue pd body name = Option.bind (find_sample (name @ [space_char]) (scan_lines body)) pd"

definition MetricAutoStopIdleSeconds :: string where
  "MetricAutoStopIdleSeconds = ''firebolt_auto_stop_idle_seconds''"

definition scrapePodAutoStopIdle ::
  "(string \<Rightarrow> float64 option) \<Rightarrow> (string \<Rightarrow> engine_error + string) \<Rightarrow> pod \<Rightarrow> engine_error + int" where
  "scrapePodAutoStopIdle pd scrape pod =
     and_then (scrape (pod_name pod)) (\<lambda>raw.
       case parsePrometheusValue pd raw MetricAutoStopIdleSeconds of
         Some (Fin m e) \<Rightarrow>
           if m < 0 \<or> float_le maxSeconds_mantissa (-19) m e then Inl (MetricsMissing (pod_name pod) False False)
           else Inr (seconds_to_duration m e)
       | _ \<Rightarrow> Inl (MetricsMissing (pod_name pod) False False))"

definition minimumIdleDuration :: "int \<Rightarrow> int \<Rightarrow> int" where
  "minimumIdleDuration current sample = (if sample < current then sample else current)"

text \<open>The loop over the pods: the shortest idle time and whether a running pod was seen; \<open>None\<close> is a failed
  scrape.\<close>

fun idle_loop ::
  "(string \<Rightarrow> float64 option) \<Rightarrow> (string \<Rightarrow> engine_error + string) \<Rightarrow> pod list \<Rightarrow> int \<Rightarrow> bool \<Rightarrow> (int \<times> bool) option" where
  "idle_loop pd scrape [] shortest seen = Some (shortest, seen)"
| "idle_loop pd scrape (p # ps) shortest seen =
     (if pod_phase p \<noteq> PodRunning then idle_loop pd scrape ps shortest seen
      else case scrapePodAutoStopIdle pd scrape p of
             Inl e \<Rightarrow> None
           | Inr idle \<Rightarrow> idle_loop pd scrape ps (minimumIdleDuration shortest idle) True)"

text \<open>\<open>None\<close> stands for \<open>(0, true)\<close>.\<close>

definition scrapeAutoStopIdle ::
  "(string \<Rightarrow> float64 option) \<Rightarrow> reader \<Rightarrow> string \<Rightarrow> engine_status \<Rightarrow> int option" where
  "scrapeAutoStopIdle pd rd name status =
     (if es_activeGeneration status < 0 then None
      else case rd_pods rd name (es_activeGeneration status) of
             Inl e \<Rightarrow> None
           | Inr pods \<Rightarrow>
               (case idle_loop pd (rd_scrape rd) pods MaxInt64 False of
                  None \<Rightarrow> None
                | Some (shortest, seen) \<Rightarrow> if seen then Some shortest else None))"

section \<open>The step at the end of a pass\<close>

record autoStopStepResult =
  ar_decision :: AutoStopDecision
  ar_patched :: bool
  ar_requeueAfter :: int

definition no_step :: autoStopStepResult where
  "no_step = \<lparr>ar_decision = mk_decision 0 False [] 0 None, ar_patched = False, ar_requeueAfter = 0\<rparr>"

text \<open>What the step gets from the outside: the demand the wake agents reported, the answer to the write of the
  accepted demand (the status as the server returns it), to the write of the spec and to the status update.\<close>

record autostop_api =
  aa_demand :: "time option"
  aa_persist :: "engine_status \<Rightarrow> engine_error + engine_status"
  aa_update :: "engine_spec \<Rightarrow> engine_error option"
  aa_status :: status_api

definition cleared :: "engine_status \<Rightarrow> engine_status" where
  "cleared st = st\<lparr>es_autoStopReason := AutoStopReasonDisabled, es_lastActivityTime := None,
     es_lastWakeDemandTime := None, es_wakeProtectionUntil := None\<rparr>"

definition autostop_off :: "autostop_api \<Rightarrow> time \<Rightarrow> sys \<Rightarrow> engine_error option \<times> sys" where
  "autostop_off api later s =
     (if cleared (sy_status s) \<noteq> sy_status s then persist (aa_status api) later s (cleared (sy_status s)) else (None, s))"

text \<open>The accepted demand is written first and read back.\<close>

definition autostop_accept :: "autostop_api \<Rightarrow> AutoStopDecision \<Rightarrow> sys \<Rightarrow> engine_error option \<times> sys" where
  "autostop_accept api d s =
     (if dn_newLastWakeDemandTime d = None then (None, s)
      else case aa_persist api ((sy_status s)\<lparr>es_lastWakeDemandTime := dn_newLastWakeDemandTime d,
                  es_wakeProtectionUntil := dn_newWakeProtectionUntil d\<rparr>) of
             Inl e \<Rightarrow> (Some e, s)
           | Inr st \<Rightarrow>
               (if es_lastWakeDemandTime st \<noteq> dn_newLastWakeDemandTime d \<or> es_wakeProtectionUntil st \<noteq> dn_newWakeProtectionUntil d
                then Some (ApiError ''autoStop: wake demand was not persisted; update the FireboltEngine CRD'') else None,
                s\<lparr>sy_status := st\<rparr>))"

text \<open>A write that changes the spec raises its generation; the answer carries the stored status.\<close>

definition autostop_scale :: "autostop_api \<Rightarrow> AutoStopDecision \<Rightarrow> sys \<Rightarrow> engine_error option \<times> sys" where
  "autostop_scale api d s =
     (if \<not> dn_scaleAction d then (None, s)
      else
        (let spec = (sy_spec s)\<lparr>sp_replicas := dn_desiredReplicas d\<rparr>
         in case aa_update api spec of
              Some e \<Rightarrow> (Some e, s)
            | None \<Rightarrow> (None, s\<lparr>sy_spec := spec, sy_meta := sy_meta s + 1\<rparr>)))"

definition autostop_note :: "autostop_api \<Rightarrow> time \<Rightarrow> AutoStopDecision \<Rightarrow> sys \<Rightarrow> engine_error option \<times> sys" where
  "autostop_note api later d s =
     (let st0 = sy_status s;
          st1 = st0\<lparr>es_autoStopReason := dn_reason d\<rparr>;
          st2 = (case dn_newLastActivityTime d of None \<Rightarrow> st1 | Some t \<Rightarrow> st1\<lparr>es_lastActivityTime := Some t\<rparr>);
          st3 = (if dn_scaleAction d then st2\<lparr>es_lastScaledAt := Some later\<rparr> else st2)
      in if es_autoStopReason st0 \<noteq> dn_reason d \<or> dn_newLastActivityTime d \<noteq> None \<or> dn_scaleAction d
         then persist (aa_status api) later s st3 else (None, s))"

definition autostop_decision ::
  "(string \<Rightarrow> float64 option) \<Rightarrow> reader \<Rightarrow> autostop_api \<Rightarrow> time \<Rightarrow> string \<Rightarrow> auto_stop_spec \<Rightarrow> sys \<Rightarrow> AutoStopDecision" where
  "autostop_decision pd rd api now name as s =
     (let idle = (if sp_replicas (sy_spec s) > 0 then scrapeAutoStopIdle pd rd name (sy_status s) else None);
          obs = \<lparr>ob_activeQueries = 0, ob_scrapeFailed = (sp_replicas (sy_spec s) > 0 \<and> idle = None),
                 ob_wakeRequestedAt = aa_demand api\<rparr>
      in decideAutoStopWithEngineIdle (sy_spec s) as (sy_status s) obs idle now)"

definition runAutoStop ::
  "(string \<Rightarrow> float64 option) \<Rightarrow> reader \<Rightarrow> autostop_api \<Rightarrow> time \<Rightarrow> time \<Rightarrow> string \<Rightarrow> class_info option \<Rightarrow> sys
     \<Rightarrow> engine_error option \<times> autoStopStepResult \<times> sys" where
  "runAutoStop pd rd api now later name ci s =
     (case effectiveAutoStop (sy_spec s) ci of
        None \<Rightarrow> (case autostop_off api later s of (err, s1) \<Rightarrow> (err, no_step, s1))
      | Some as \<Rightarrow>
          if \<not> as_enabled as then (case autostop_off api later s of (err, s1) \<Rightarrow> (err, no_step, s1))
          else if es_phase (sy_status s) \<noteq> PhaseStable \<and> es_phase (sy_status s) \<noteq> PhaseStopped then (None, no_step, s)
          else
            (let d = autostop_decision pd rd api now name as s;
                 result = \<lparr>ar_decision = d, ar_patched = False, ar_requeueAfter = dn_requeueAfter d\<rparr>
             in case autostop_accept api d s of
                  (Some e, s1) \<Rightarrow> (Some e, result, s1)
                | (None, s1) \<Rightarrow>
                    (case autostop_scale api d s1 of
                       (Some e, s2) \<Rightarrow> (Some e, result, s2)
                     | (None, s2) \<Rightarrow>
                         (case autostop_note api later d s2 of
                            (err, s3) \<Rightarrow> (err, result\<lparr>ar_patched := dn_scaleAction d\<rparr>, s3)))))"

section \<open>The schedule is the calendar's\<close>

text \<open>Two decimal digits and the clock time of a minute of the day.\<close>

definition two_digits :: "nat \<Rightarrow> string" where
  "two_digits n = [digit_char (n div 10), digit_char (n mod 10)]"

definition hhmm :: "int \<Rightarrow> string" where
  "hhmm t = two_digits (nat t div 60) @ CHR '':'' # two_digits (nat t mod 60)"

lemma digit_char_val: "is_digit c \<Longrightarrow> digit_char (digit_val c) = c"
  by (simp add: is_digit_def digit_val_def digit_char_def)

lemma digit_val_less: "is_digit c \<Longrightarrow> digit_val c < 10"
  by (simp add: is_digit_def digit_val_def) linarith

lemma two_digits_val:
  assumes "is_digit a" "is_digit b"
  shows "two_digits (digit_val a * 10 + digit_val b) = [a, b]"
  using digit_char_val [OF assms(1)] digit_char_val [OF assms(2)] digit_val_less [OF assms(2)]
  by (simp add: two_digits_def)

lemma digits_of: "int (n div 10) * 10 + int (n mod 10) = int n"
  by (metis div_mult_mod_eq of_nat_add of_nat_mult of_nat_numeral)

lemma split_minutes:
  fixes h m :: nat
  assumes "m \<le> 59"
  shows "(h * 60 + m) div 60 = h" "(h * 60 + m) mod 60 = m"
  using assms by simp_all

lemma parseHHMM_iff: "parseHHMM s = Some t \<longleftrightarrow> 0 \<le> t \<and> t < 1440 \<and> s = hhmm t"
proof
  assume "parseHHMM s = Some t"
  then obtain a b d e where s: "s = [a, b, CHR '':'', d, e]" and dig: "is_digit a" "is_digit b" "is_digit d" "is_digit e"
    and t: "t = int ((digit_val a * 10 + digit_val b) * 60 + (digit_val d * 10 + digit_val e))"
    and le: "digit_val a * 10 + digit_val b \<le> 23" "digit_val d * 10 + digit_val e \<le> 59"
    by (auto simp: parseHHMM_def Let_def split: list.splits if_splits)
  have "nat t = (digit_val a * 10 + digit_val b) * 60 + (digit_val d * 10 + digit_val e)" unfolding t by (rule nat_int)
  then have "nat t div 60 = digit_val a * 10 + digit_val b" "nat t mod 60 = digit_val d * 10 + digit_val e"
    using le by (metis (no_types) split_minutes, metis (no_types) split_minutes)
  then show "0 \<le> t \<and> t < 1440 \<and> s = hhmm t"
    using s t le by (simp add: hhmm_def two_digits_val dig)
next
  assume t: "0 \<le> t \<and> t < 1440 \<and> s = hhmm t"
  define h m where "h = nat t div 60" and "m = nat t mod 60"
  have "nat t < 24 * 60" using t by linarith
  then have le: "h < 24" "m < 60" by (simp_all add: h_def m_def less_mult_imp_div_less)
  then have "h div 10 < 10" "m div 10 < 10" by linarith+
  then have "parseHHMM (two_digits h @ CHR '':'' # two_digits m) = Some (int h * 60 + int m)"
    using le digits_of [of h] digits_of [of m] by (simp add: parseHHMM_def two_digits_def digit_char_props Let_def)
  moreover have "int (h * 60 + m) = t" using t by (simp add: h_def m_def del: of_nat_add of_nat_mult)
  ultimately show "parseHHMM s = Some t" using t by (simp add: hhmm_def flip: h_def m_def)
qed

text \<open>Clock times are read exactly: \<open>parseHHMM\<close> accepts the 1440 strings \<open>HH:MM\<close> of a day and no other, and
  gives the minute each one names.\<close>

theorem parseHHMM_exact: "parseHHMM s = Some t \<longleftrightarrow> 0 \<le> t \<and> t < 1440 \<and> s = hhmm t"
  by (rule parseHHMM_iff)

text \<open>Minutes since the epoch: a window of day \<open>d\<close> runs from its start on that day to its end, on the next day
  if the end is not after the start; it is empty if both coincide.\<close>

definition in_window :: "time \<Rightarrow> int \<Rightarrow> schedule_window \<Rightarrow> bool" where
  "in_window now d w \<longleftrightarrow>
     (\<exists>a b. parseHHMM (sw_start w) = Some a \<and> parseHHMM (sw_end w) = Some b \<and> a \<noteq> b \<and>
        d * 1440 + a \<le> now div minute \<and> now div minute < d * 1440 + (if a < b then b else b + 1440))"

lemma clock:
  "now mod day div (60 * minute) * 60 + now mod (60 * minute) div minute = now div minute - now div day * 1440"
proof -
  have arith: "q mod 1440 div 60 * 60 + q mod 60 = q - q div 1440 * 1440" for q :: int
  proof -
    have "q mod 1440 mod 60 = q mod 60" by (rule mod_mod_cancel) simp
    then show ?thesis using div_mult_mod_eq [of "q mod 1440" 60] minus_div_mult_eq_mod [of q 1440] by simp
  qed
  let ?q = "now div minute" and ?r = "now mod minute"
  have now: "now = ?q * minute + ?r" "0 \<le> ?r" "?r < minute" by (simp_all add: minute_def second_def)
  have 1: "now div day = ?q div 1440" by (simp add: day_def div_mult2_eq minute_def second_def zdiv_zmult2_eq)
  have 2: "now mod day = minute * (?q mod 1440) + ?r"
    using zmod_zmult2_eq [of 1440 now minute] by (simp add: day_def mult.commute)
  have 3: "now mod (60 * minute) = minute * (?q mod 60) + ?r"
    using zmod_zmult2_eq [of 60 now minute] by (simp add: mult.commute)
  have m: "0 < minute" by (simp add: minute_def second_def)
  have "now mod (60 * minute) div minute = ?q mod 60" using 3 now m by simp
  moreover have "now mod day div (60 * minute) = ?q mod 1440 div 60"
  proof -
    have "now mod day div (60 * minute) = now mod day div minute div 60"
      using zdiv_zmult2_eq [of 60 "now mod day" minute] by (simp add: mult.commute)
    also have "now mod day div minute = ?q mod 1440" using 2 now m by simp
    finally show ?thesis .
  qed
  ultimately show ?thesis unfolding 1 using arith [of ?q] by simp
qed

lemma day_shift: "(now - day) div day = now div day - 1"
  using div_mult_self1 [of day now "-1"] by (simp add: day_def minute_def second_def)

lemma minute_of_day: "0 \<le> now div minute - now div day * 1440 \<and> now div minute - now div day * 1440 < 1440"
proof -
  have "now div day = now div minute div 1440" by (simp add: day_def minute_def second_def zdiv_zmult2_eq)
  then show ?thesis by (simp add: minus_div_mult_eq_mod)
qed

lemma windowActive_calendar:
  "windowActive (weekdayCode (weekday now)) (weekdayCode (weekday (now - day))) (now div minute - now div day * 1440) w
     \<longleftrightarrow> (\<exists>d. in_window now d w \<and> dayMatches (sw_days w) (weekdayCode ((d + 4) mod 7)))"
proof (cases "parseHHMM (sw_start w) = None \<or> parseHHMM (sw_end w) = None")
  case False
  then obtain a b where p: "parseHHMM (sw_start w) = Some a" "parseHHMM (sw_end w) = Some b" by auto
  then have r: "0 \<le> a" "a < 1440" "0 \<le> b" "b < 1440" by (auto simp: parseHHMM_iff)
  define T D where "T = now div minute" and "D = now div day"
  have m: "0 \<le> T - D * 1440" "T - D * 1440 < 1440" using minute_of_day by (simp_all add: T_def D_def)
  have days: "weekday now = (D + 4) mod 7" "weekday (now - day) = (D - 1 + 4) mod 7"
    by (simp_all only: weekday_def D_def day_shift)
  have "in_window now d w \<longleftrightarrow> a \<noteq> b \<and> (d = D \<and> a \<le> T - D * 1440 \<and> (b < a \<or> T - D * 1440 < b) \<or>
      d = D - 1 \<and> b < a \<and> T - D * 1440 < b)" for d
  proof -
    consider "d \<le> D - 2" | "d = D - 1" | "d = D" | "d \<ge> D + 1" by linarith
    then have "d * 1440 + a \<le> T \<and> T < d * 1440 + (if a < b then b else b + 1440) \<longleftrightarrow>
        d = D \<and> a \<le> T - D * 1440 \<and> (b \<le> a \<or> T - D * 1440 < b) \<or> d = D - 1 \<and> b \<le> a \<and> T - D * 1440 < b"
      by cases (use m r in \<open>auto split: if_splits\<close>)
    then show ?thesis by (auto simp: in_window_def p T_def)
  qed
  then show ?thesis
    unfolding T_def [symmetric] D_def [symmetric] windowActive_def p option.case days windowContains_def
    using m r by auto
qed (auto simp: windowActive_def in_window_def split: option.splits)

text \<open>C35. The schedule follows the calendar: the engine is pinned exactly when some window, started on a day that
  the window names, has begun and not ended, in minutes since the epoch. A window past midnight therefore
  belongs to the day it started on, and a malformed or empty window pins nothing.\<close>

theorem schedule_follows_calendar:
  "scheduleActive windows now \<longleftrightarrow>
     (\<exists>w\<in>set windows. \<exists>d. in_window now d w \<and> dayMatches (sw_days w) (weekdayCode ((d + 4) mod 7)))"
  unfolding scheduleActive_def Let_def clock list_ex_iff by (auto simp: windowActive_calendar)

section \<open>Protection\<close>

lemma wakeProtection_min: "0 \<le> d \<Longrightarrow> wakeProtectionDuration d = min (6 * d) MaxInt64"
  by (auto simp: wakeProtectionDuration_def WakeProtectionMultiplier_def MaxInt64_def)

lemma protection_end_bounds: "asked + p \<le> protection_end asked p \<and> protection_end asked p < asked + p + second \<and> protection_end asked p mod second = 0"
proof (cases "(asked + p) mod second = 0")
  case False
  have "(asked + p) div second * second + (asked + p) mod second = asked + p" by (rule div_mult_mod_eq)
  moreover have "0 \<le> (asked + p) mod second" "(asked + p) mod second < second" by (simp_all add: second_def)
  moreover have "protection_end asked p = (asked + p) div second * second + second" using False by (simp add: protection_end_def Let_def)
  ultimately show ?thesis using False by (intro conjI) (linarith, linarith, simp)
qed (simp add: protection_end_def Let_def second_def)

text \<open>An accepted demand protects the engine for six idle timeouts, without overflow: the deadline is a whole
  second, at least six idle timeouts (or the largest duration, if that is less) after the demand and less than
  a second more.\<close>

lemma protection_lasts_six_timeouts:
  assumes "0 \<le> idle"
  shows "asked + min (6 * idle) MaxInt64 \<le> protection_end asked (wakeProtectionDuration idle) \<and>
    protection_end asked (wakeProtectionDuration idle) < asked + min (6 * idle) MaxInt64 + second \<and>
    protection_end asked (wakeProtectionDuration idle) mod second = 0"
  using protection_end_bounds [of asked "wakeProtectionDuration idle"] unfolding wakeProtection_min [OF assms] .

lemma protection_lasts_six_timeouts_witness:
  "protection_end 1000000000 (wakeProtectionDuration 25000000000) mod second = 0"
  using protection_lasts_six_timeouts [of 25000000000 1000000000] by simp

section \<open>The decision\<close>

lemma mk_decision_sel [simp]:
  "dn_desiredReplicas (mk_decision r b m q a) = r" "dn_scaleAction (mk_decision r b m q a) = b"
  "dn_reason (mk_decision r b m q a) = m" "dn_requeueAfter (mk_decision r b m q a) = q"
  "dn_newLastActivityTime (mk_decision r b m q a) = a" "dn_newLastWakeDemandTime (mk_decision r b m q a) = None"
  "dn_newWakeProtectionUntil (mk_decision r b m q a) = None"
  by (simp_all add: mk_decision_def)

lemma decisionWithScale_sel [simp]:
  "dn_desiredReplicas (decisionWithScale c r m q) = r" "dn_scaleAction (decisionWithScale c r m q) = (r \<noteq> c)"
  "dn_reason (decisionWithScale c r m q) = m" "dn_newLastActivityTime (decisionWithScale c r m q) = None"
  "dn_newLastWakeDemandTime (decisionWithScale c r m q) = None" "dn_newWakeProtectionUntil (decisionWithScale c r m q) = None"
  by (simp_all add: decisionWithScale_def)

lemma policy_takes_no_demand [simp]:
  "dn_newLastWakeDemandTime (autostop_policy spec as st obs nd w u now) = None"
  "dn_newWakeProtectionUntil (autostop_policy spec as st obs nd w u now) = None"
  by (simp_all add: autostop_policy_def Let_def split: option.splits)

lemma policy_scale: "dn_scaleAction (autostop_policy spec as st obs nd w u now)
    \<longleftrightarrow> dn_desiredReplicas (autostop_policy spec as st obs nd w u now) \<noteq> sp_replicas spec"
  by (simp add: autostop_policy_def Let_def split: option.splits)

text \<open>Only three rules move the replicas.\<close>

lemma policy_cases:
  assumes "dn_desiredReplicas (autostop_policy spec as st obs nd w u now) \<noteq> sp_replicas spec"
  obtains (schedule) "scheduleActive (as_schedule as) now"
      "dn_desiredReplicas (autostop_policy spec as st obs nd w u now) = as_activeReplicas as"
  | (wake) "\<not> scheduleActive (as_schedule as) now" "sp_replicas spec = 0" "nd \<or> protected_at w u now"
      "dn_desiredReplicas (autostop_policy spec as st obs nd w u now) = as_activeReplicas as"
  | (idle) t where "\<not> scheduleActive (as_schedule as) now" "\<not> ob_scrapeFailed obs" "ob_activeQueries obs \<le> 0"
      "\<not> protected_at w u now" "es_lastActivityTime st = Some t"
      "positive_or (as_idleTimeout as) DefaultAutoStopIdleTimeout \<le> time_sub now t"
  using assms by (auto simp: autostop_policy_def Let_def split: if_splits option.splits)

text \<open>The last activity a decision is based on: the later of the recorded one and the reported one.\<close>

definition effective_activity :: "engine_status \<Rightarrow> int option \<Rightarrow> time \<Rightarrow> time option" where
  "effective_activity st idle now =
     (case idle of None \<Rightarrow> es_lastActivityTime st
      | Some i \<Rightarrow> Some (case es_lastActivityTime st of None \<Rightarrow> now - i | Some t \<Rightarrow> max t (now - i)))"

lemma decide_compute:
  fixes spec as st obs idle now
  defines "d \<equiv> decideAutoStopWithEngineIdle spec as st obs idle now"
    and "c \<equiv> computeAutoStopDecision spec (Some as) (st\<lparr>es_lastActivityTime := effective_activity st idle now\<rparr>) obs now"
  shows "dn_desiredReplicas d = dn_desiredReplicas c" "dn_scaleAction d = dn_scaleAction c"
    "dn_newLastWakeDemandTime d = dn_newLastWakeDemandTime c" "dn_newWakeProtectionUntil d = dn_newWakeProtectionUntil c"
    "dn_reason d = dn_reason c"
proof -
  have eq: "or_else (observed_activity st idle now) (es_lastActivityTime st) = effective_activity st idle now"
    by (auto simp: observed_activity_def effective_activity_def or_else_def max_def split: option.splits)
  have "d = deadline_requeue as idle (effective_activity st idle now) now
      (if observed_activity st idle now \<noteq> None then c\<lparr>dn_newLastActivityTime := observed_activity st idle now\<rparr> else c)"
    unfolding d_def c_def decideAutoStopWithEngineIdle_def Let_def eq by simp
  then show "dn_desiredReplicas d = dn_desiredReplicas c" "dn_scaleAction d = dn_scaleAction c"
    "dn_newLastWakeDemandTime d = dn_newLastWakeDemandTime c" "dn_newWakeProtectionUntil d = dn_newWakeProtectionUntil c"
    "dn_reason d = dn_reason c"
    by (simp_all add: deadline_requeue_def Let_def split: option.splits)
qed

lemma fresh_activity [simp]: "freshWakeDemand (st\<lparr>es_lastActivityTime := a\<rparr>) x now = freshWakeDemand st x now"
  by (simp add: freshWakeDemand_def)

definition granted :: "auto_stop_spec \<Rightarrow> time \<Rightarrow> time" where
  "granted as d = protection_end d (wakeProtectionDuration (positive_or (as_idleTimeout as) DefaultAutoStopIdleTimeout))"

lemma decision_demand:
  assumes "as_enabled as"
  shows "dn_newLastWakeDemandTime (decideAutoStopWithEngineIdle spec as st obs idle now) = freshWakeDemand st (ob_wakeRequestedAt obs) now"
    "dn_newWakeProtectionUntil (decideAutoStopWithEngineIdle spec as st obs idle now) =
       map_option (granted as) (freshWakeDemand st (ob_wakeRequestedAt obs) now)"
  using assms
  by (simp_all add: decide_compute computeAutoStopDecision_def granted_def Let_def split: option.splits)

definition wake_after :: "engine_status \<Rightarrow> time option \<Rightarrow> time \<Rightarrow> time option" where
  "wake_after st demand now = or_else (freshWakeDemand st demand now) (es_lastWakeDemandTime st)"

definition until_after :: "auto_stop_spec \<Rightarrow> engine_status \<Rightarrow> time option \<Rightarrow> time \<Rightarrow> time option" where
  "until_after as st demand now =
     or_else (map_option (granted as) (freshWakeDemand st demand now)) (es_wakeProtectionUntil st)"

lemma decide_policy:
  assumes "as_enabled as"
  shows "dn_desiredReplicas (decideAutoStopWithEngineIdle spec as st obs idle now) =
       dn_desiredReplicas (autostop_policy spec as (st\<lparr>es_lastActivityTime := effective_activity st idle now\<rparr>) obs
         (freshWakeDemand st (ob_wakeRequestedAt obs) now \<noteq> None)
         (wake_after st (ob_wakeRequestedAt obs) now) (until_after as st (ob_wakeRequestedAt obs) now) now)"
    and "dn_scaleAction (decideAutoStopWithEngineIdle spec as st obs idle now) \<longleftrightarrow>
       dn_desiredReplicas (decideAutoStopWithEngineIdle spec as st obs idle now) \<noteq> sp_replicas spec"
  using assms
  by (simp_all add: decide_compute computeAutoStopDecision_def wake_after_def until_after_def policy_scale granted_def Let_def split: option.splits)

section \<open>The scrape\<close>

lemma idle_loop_spec:
  "idle_loop pd scrape ps shortest seen = Some (t, seen') \<Longrightarrow>
     t \<le> shortest \<and> (seen' \<longrightarrow> seen \<or> (\<exists>p\<in>set ps. pod_phase p = PodRunning)) \<and>
     (\<forall>p\<in>set ps. pod_phase p = PodRunning \<longrightarrow> (\<exists>i. scrapePodAutoStopIdle pd scrape p = Inr i \<and> t \<le> i))"
proof (induction ps arbitrary: shortest seen)
  case (Cons p ps)
  show ?case
  proof (cases "pod_phase p = PodRunning")
    case True
    with Cons.prems obtain i where "scrapePodAutoStopIdle pd scrape p = Inr i"
      "idle_loop pd scrape ps (minimumIdleDuration shortest i) True = Some (t, seen')"
      by (auto split: sum.splits)
    with Cons.IH [OF this(2)] True show ?thesis by (auto simp: minimumIdleDuration_def split: if_splits)
  qed (use Cons in auto)
qed simp

text \<open>Every running pod of the serving generation has been idle for \<open>d\<close>, and there is one.\<close>

definition pods_idle :: "(string \<Rightarrow> float64 option) \<Rightarrow> reader \<Rightarrow> string \<Rightarrow> engine_status \<Rightarrow> int \<Rightarrow> bool" where
  "pods_idle pd rd name st d \<longleftrightarrow>
     0 \<le> es_activeGeneration st \<and>
     (\<exists>pods. rd_pods rd name (es_activeGeneration st) = Inr pods \<and> (\<exists>p\<in>set pods. pod_phase p = PodRunning) \<and>
        (\<forall>p\<in>set pods. pod_phase p = PodRunning \<longrightarrow> (\<exists>i. scrapePodAutoStopIdle pd (rd_scrape rd) p = Inr i \<and> d \<le> i)))"

lemma scrape_idle: "scrapeAutoStopIdle pd rd name st = Some t \<Longrightarrow> d \<le> t \<Longrightarrow> pods_idle pd rd name st d"
  unfolding scrapeAutoStopIdle_def pods_idle_def
  by (auto split: if_splits sum.splits option.splits dest!: idle_loop_spec)

section \<open>The step\<close>

lemma time_sub_idle:
  assumes "0 < d" "d \<le> time_sub now t"
  shows "d \<le> now - t"
  using assms by (auto simp: time_sub_def max_def split: if_splits)

lemma persist_frame:
  assumes "persist sa now s st = (err, s')"
  shows "sy_spec s' = sy_spec s" "sy_meta s' = sy_meta s" "s' = s \<or> s' = s\<lparr>sy_status := st\<lparr>es_lastReconciled := Some now\<rparr>\<rparr>"
  using assms by (auto simp: persist_def updateStatus_def Let_def split: sum.splits update_outcome.splits option.splits)

lemma note_frame:
  assumes "autostop_note api later d s = (err, s')"
  shows "sy_spec s' = sy_spec s" "sy_meta s' = sy_meta s" "sy_cluster s' = sy_cluster s"
    "es_lastWakeDemandTime (sy_status s') = es_lastWakeDemandTime (sy_status s)"
    "es_wakeProtectionUntil (sy_status s') = es_wakeProtectionUntil (sy_status s)"
    "same_core (sy_status s) (sy_status s')" "s' = s\<lparr>sy_status := sy_status s'\<rparr>"
  using assms
  by (auto simp: autostop_note_def same_core_def Let_def split: if_splits option.splits dest!: persist_frame(3))

lemma off_frame:
  assumes "autostop_off api later s = (err, s')"
  shows "sy_spec s' = sy_spec s" "same_core (sy_status s) (sy_status s')" "s' = s\<lparr>sy_status := sy_status s'\<rparr>"
  using assms by (auto simp: autostop_off_def cleared_def same_core_def split: if_splits dest!: persist_frame(3))

lemma accept_frame:
  assumes "autostop_accept api d s = (err, s')"
  shows "sy_spec s' = sy_spec s" "sy_meta s' = sy_meta s" "s' = s\<lparr>sy_status := sy_status s'\<rparr>"
    "err = None \<longrightarrow> dn_newLastWakeDemandTime d \<noteq> None \<longrightarrow>
       es_lastWakeDemandTime (sy_status s') = dn_newLastWakeDemandTime d \<and>
       es_wakeProtectionUntil (sy_status s') = dn_newWakeProtectionUntil d"
    "dn_newLastWakeDemandTime d = None \<longrightarrow> s' = s"
  using assms by (auto simp: autostop_accept_def split: if_splits sum.splits)

lemma scale_frame:
  assumes "autostop_scale api d s = (err, s')"
  shows "sy_status s' = sy_status s"
    "s' = s \<or> err = None \<and> dn_scaleAction d \<and>
       s' = s\<lparr>sy_spec := (sy_spec s)\<lparr>sp_replicas := dn_desiredReplicas d\<rparr>, sy_meta := sy_meta s + 1\<rparr>"
    "err = None \<longrightarrow> dn_scaleAction d \<longrightarrow> sp_replicas (sy_spec s') = dn_desiredReplicas d"
  using assms by (auto simp: autostop_scale_def Let_def split: if_splits option.splits)

text \<open>The ways a step can go: nothing to do, stopped at one of its three writes, or through.\<close>

lemma runAutoStop_cases:
  assumes "runAutoStop pd rd api now later name ci s = (err, r, s')"
  obtains (off) "(case effectiveAutoStop (sy_spec s) ci of None \<Rightarrow> True | Some as \<Rightarrow> \<not> as_enabled as)"
      "autostop_off api later s = (err, s')" "r = no_step"
  | (rolling) "s' = s" "err = None" "r = no_step" "es_phase (sy_status s) \<noteq> PhaseStable" "es_phase (sy_status s) \<noteq> PhaseStopped"
  | (refused) as where "effectiveAutoStop (sy_spec s) ci = Some as" "as_enabled as" "terminal (es_phase (sy_status s))"
      "ar_decision r = autostop_decision pd rd api now name as s" "err \<noteq> None"
      "autostop_accept api (ar_decision r) s = (err, s')"
  | (accepted) as e1 s1 s2 where "effectiveAutoStop (sy_spec s) ci = Some as" "as_enabled as" "terminal (es_phase (sy_status s))"
      "ar_decision r = autostop_decision pd rd api now name as s"
      "autostop_accept api (ar_decision r) s = (None, s1)" "autostop_scale api (ar_decision r) s1 = (e1, s2)"
      "e1 \<noteq> None \<and> err = e1 \<and> s' = s2 \<or> e1 = None \<and> autostop_note api later (ar_decision r) s2 = (err, s')"
proof (cases "effectiveAutoStop (sy_spec s) ci")
  case None
  with assms off show thesis by (auto simp: runAutoStop_def split: prod.splits)
next
  case (Some as)
  let ?d = "autostop_decision pd rd api now name as s"
  obtain e0 s1 where 1: "autostop_accept api ?d s = (e0, s1)" by force
  obtain e1 s2 where 2: "autostop_scale api ?d s1 = (e1, s2)" by force
  obtain e2 s3 where 3: "autostop_note api later ?d s2 = (e2, s3)" by force
  show thesis
  proof (cases "as_enabled as \<and> terminal (es_phase (sy_status s))")
    case True
    then have t: "as_enabled as" "\<not> (es_phase (sy_status s) \<noteq> PhaseStable \<and> es_phase (sy_status s) \<noteq> PhaseStopped)"
      by (auto simp: terminal_def)
    have r: "ar_decision r = ?d" using assms t by (auto simp: runAutoStop_def Some Let_def 1 2 3 split: option.splits)
    show thesis
    proof (cases e0)
      case None
      then show thesis
        using assms t True by (intro accepted [OF Some _ _ r, of s1 e1 s2]) (auto simp: r runAutoStop_def Some Let_def 1 2 3 split: option.splits)
    next
      case (Some e)
      then show thesis
        using assms t True by (intro refused [OF \<open>effectiveAutoStop (sy_spec s) ci = Some as\<close> _ _ r])
          (auto simp: r runAutoStop_def \<open>effectiveAutoStop (sy_spec s) ci = Some as\<close> Let_def 1 split: option.splits)
    qed
  next
    case False
    with assms off rolling show thesis by (auto simp: runAutoStop_def Some terminal_def split: prod.splits if_splits)
  qed
qed

lemma step_spec:
  assumes "runAutoStop pd rd api now later name ci s = (err, r, s')" "sy_spec s' \<noteq> sy_spec s"
  obtains as s1 where "effectiveAutoStop (sy_spec s) ci = Some as" "as_enabled as" "terminal (es_phase (sy_status s))"
    "ar_decision r = autostop_decision pd rd api now name as s"
    "dn_scaleAction (ar_decision r)" "sp_replicas (sy_spec s') = dn_desiredReplicas (ar_decision r)"
    "autostop_accept api (ar_decision r) s = (None, s1)"
    "es_lastWakeDemandTime (sy_status s') = es_lastWakeDemandTime (sy_status s1)"
    "es_wakeProtectionUntil (sy_status s') = es_wakeProtectionUntil (sy_status s1)"
  using assms(1)
proof (cases rule: runAutoStop_cases)
  case off
  with off_frame(1) assms(2) show thesis by blast
next
  case rolling
  with assms(2) show thesis by simp
next
  case (refused as)
  with accept_frame(1) assms(2) show thesis by blast
next
  case (accepted as e1 s1 s2)
  note a = accept_frame [OF accepted(5)] and sc = scale_frame [OF accepted(6)]
  have keep: "sy_spec s' = sy_spec s2" "es_lastWakeDemandTime (sy_status s') = es_lastWakeDemandTime (sy_status s2)"
    "es_wakeProtectionUntil (sy_status s') = es_wakeProtectionUntil (sy_status s2)"
    using accepted(7) note_frame by metis+
  from keep(1) assms(2) a(1) have "s2 \<noteq> s1" by auto
  with sc(2) have "dn_scaleAction (ar_decision r)" "sp_replicas (sy_spec s2) = dn_desiredReplicas (ar_decision r)" by auto
  then show thesis using accepted(1-5) keep sc(1) by (intro that) auto
qed

lemma decision_obs:
  "autostop_decision pd rd api now name as s =
     decideAutoStopWithEngineIdle (sy_spec s) as (sy_status s)
       \<lparr>ob_activeQueries = 0, ob_scrapeFailed = (sp_replicas (sy_spec s) > 0 \<and> scrapeAutoStopIdle pd rd name (sy_status s) = None),
        ob_wakeRequestedAt = aa_demand api\<rparr>
       (if sp_replicas (sy_spec s) > 0 then scrapeAutoStopIdle pd rd name (sy_status s) else None) now"
  by (simp add: autostop_decision_def Let_def)

text \<open>C33. An engine is stopped only for a reason: outside its schedule, a step that lowers the replicas found auto-stop
  enabled and the engine settled, scraped every running pod of the serving generation, found at least one, got
  from each an idle time of at least the timeout, and no accepted demand, old or just taken, protected the
  engine. So a failed scrape, a pod without the metric or an unfinished rollout never stops an engine.\<close>

theorem idle_stop_is_justified:
  assumes "runAutoStop pd rd api now later name ci s = (err, r, s')"
    and "sp_replicas (sy_spec s') < sp_replicas (sy_spec s)" and "0 \<le> sp_replicas (sy_spec s')"
    and "\<forall>as. effectiveAutoStop (sy_spec s) ci = Some as \<longrightarrow> \<not> scheduleActive (as_schedule as) now"
  shows "\<exists>as. effectiveAutoStop (sy_spec s) ci = Some as \<and> as_enabled as \<and> terminal (es_phase (sy_status s)) \<and>
    pods_idle pd rd name (sy_status s) (positive_or (as_idleTimeout as) DefaultAutoStopIdleTimeout) \<and>
    \<not> protected_at (wake_after (sy_status s) (aa_demand api) now) (until_after as (sy_status s) (aa_demand api) now) now"
proof -
  from assms(2) have "sy_spec s' \<noteq> sy_spec s" by auto
  with assms(1) obtain as where as: "effectiveAutoStop (sy_spec s) ci = Some as" "as_enabled as" "terminal (es_phase (sy_status s))"
    "sp_replicas (sy_spec s') = dn_desiredReplicas (autostop_decision pd rd api now name as s)"
    by (metis step_spec)
  let ?t = "positive_or (as_idleTimeout as) DefaultAutoStopIdleTimeout" and ?i = "scrapeAutoStopIdle pd rd name (sy_status s)"
  have run: "0 < sp_replicas (sy_spec s)" using assms(2,3) by simp
  have pos: "0 < ?t" by (simp add: positive_or_def DefaultAutoStopIdleTimeout_def minute_def second_def split: option.splits)
  note d = as(4) [unfolded decision_obs decide_policy(1) [OF as(2)]]
  have "sp_replicas (sy_spec s') \<noteq> sp_replicas (sy_spec s)" using assms(2) by simp
  then show ?thesis
    unfolding d
  proof (cases rule: policy_cases)
    case (idle t)
    from idle(2) run obtain i where i: "?i = Some i" by auto
    from idle(5) run i have "now - t \<le> i" by (auto simp: effective_activity_def split: option.splits)
    moreover have "?t \<le> now - t" using time_sub_idle [OF pos idle(6)] .
    ultimately have "pods_idle pd rd name (sy_status s) ?t" by (intro scrape_idle [OF i]) simp
    with as idle(4) show ?thesis by auto
  qed (use assms(4) as(1) run in auto)
qed

text \<open>Capacity follows the record: a step that changes the replicas because of, or besides, a newly accepted demand
  has stored that demand and its deadline before, and they are still stored when the step ends, even with an
  error; if storing them fails or does not stick, the spec is not touched.\<close>

theorem replicas_wait_for_stored_demand:
  assumes "runAutoStop pd rd api now later name ci s = (err, r, s')"
    and "sy_spec s' \<noteq> sy_spec s" and "dn_newLastWakeDemandTime (ar_decision r) = Some d"
  shows "es_lastWakeDemandTime (sy_status s') = Some d \<and> es_wakeProtectionUntil (sy_status s') = dn_newWakeProtectionUntil (ar_decision r)"
proof -
  obtain s1 where "autostop_accept api (ar_decision r) s = (None, s1)"
    "es_lastWakeDemandTime (sy_status s') = es_lastWakeDemandTime (sy_status s1)"
    "es_wakeProtectionUntil (sy_status s') = es_wakeProtectionUntil (sy_status s1)"
    using step_spec [OF assms(1,2)] by metis
  with accept_frame(4) [OF this(1)] assms(3) show ?thesis by auto
qed

lemma fresh_after_record:
  assumes "freshWakeDemand st demand now = Some d" "es_wakeProtectionUntil st \<noteq> None" "es_lastWakeDemandTime st = Some w"
  shows "w < d"
  using assms by (auto simp: freshWakeDemand_def Let_def split: if_splits option.splits)

lemma step_demand:
  assumes "runAutoStop pd rd api now later name ci s = (err, r, s')" "dn_newLastWakeDemandTime (ar_decision r) = Some d"
  obtains as where "effectiveAutoStop (sy_spec s) ci = Some as" "as_enabled as" "freshWakeDemand (sy_status s) (aa_demand api) now = Some d"
    "dn_newWakeProtectionUntil (ar_decision r) = Some (granted as d)"
    "err = None \<longrightarrow> es_lastWakeDemandTime (sy_status s') = Some d \<and> es_wakeProtectionUntil (sy_status s') = Some (granted as d)"
  using assms(1)
proof (cases rule: runAutoStop_cases)
  case (refused as)
  with assms(2) show thesis by (intro that [of as]) (auto simp: decision_obs decision_demand)
next
  case (accepted as e1 s1 s2)
  have d: "freshWakeDemand (sy_status s) (aa_demand api) now = Some d" "dn_newWakeProtectionUntil (ar_decision r) = Some (granted as d)"
    using accepted(2,4) assms(2) by (auto simp: decision_obs decision_demand)
  have "err = None \<longrightarrow> es_lastWakeDemandTime (sy_status s') = Some d \<and> es_wakeProtectionUntil (sy_status s') = Some (granted as d)"
    using accepted(7) note_frame(4,5) accept_frame(4) [OF accepted(5)] scale_frame(1) [OF accepted(6)] d(2) assms(2) by fastforce
  with accepted(1,2) d show thesis by (rule that)
qed (use assms(2) in \<open>auto simp: no_step_def\<close>)

text \<open>A demand is accepted once: after a step that took a demand and succeeded, as long as the recorded pair
  stays, any demand a later step takes is strictly newer. A replayed or cached request never renews the
  protection.\<close>

theorem demand_accepted_once:
  assumes "runAutoStop pd rd api now later name ci s = (None, r, s1)" and "dn_newLastWakeDemandTime (ar_decision r) = Some d"
    and "es_lastWakeDemandTime (sy_status s2) = es_lastWakeDemandTime (sy_status s1)"
    and "es_wakeProtectionUntil (sy_status s2) = es_wakeProtectionUntil (sy_status s1)"
    and "runAutoStop pd2 rd2 api2 now2 later2 name ci2 s2 = (err2, r2, s3)" and "dn_newLastWakeDemandTime (ar_decision r2) = Some d2"
  shows "d < d2"
proof -
  have "es_lastWakeDemandTime (sy_status s2) = Some d" "es_wakeProtectionUntil (sy_status s2) \<noteq> None"
    using step_demand [OF assms(1,2)] assms(3,4) by (metis option.distinct(1))+
  moreover have "freshWakeDemand (sy_status s2) (aa_demand api2) now2 = Some d2" using step_demand [OF assms(5,6)] by metis
  ultimately show ?thesis using fresh_after_record by blast
qed

lemma protection_end_mono:
  assumes "a \<le> b"
  shows "protection_end a p \<le> protection_end b p"
proof (rule ccontr)
  assume "\<not> ?thesis"
  then have less: "protection_end b p < protection_end a p" by simp
  note A = protection_end_bounds [of a p] and B = protection_end_bounds [of b p]
  from A B obtain x y where xy: "protection_end a p = second * x" "protection_end b p = second * y"
    by (metis dvdE mod_eq_0_iff_dvd)
  with less have "y + 1 \<le> x" by (simp add: second_def)
  then have "second * y + second \<le> second * x" by (simp add: second_def)
  with A B xy assms show False by linarith
qed

text \<open>An accepted demand keeps the engine up: from the demand until the deadline it was granted, outside the
  schedule, no step changes the replicas of a running engine, whatever the idle metric says and whatever
  further demands arrive.\<close>

theorem accepted_demand_protects:
  assumes "runAutoStop pd rd api now later name ci s = (err, r, s')"
    and "effectiveAutoStop (sy_spec s) ci = Some as" and "\<not> scheduleActive (as_schedule as) now"
    and "es_lastWakeDemandTime (sy_status s) = Some w" and "es_wakeProtectionUntil (sy_status s) = Some (granted as w)"
    and "w \<le> now" and "now < granted as w" and "sp_replicas (sy_spec s) \<noteq> 0"
  shows "sy_spec s' = sy_spec s"
proof (rule ccontr)
  assume "sy_spec s' \<noteq> sy_spec s"
  with assms(1,2) obtain en: "as_enabled as" and sc: "dn_scaleAction (autostop_decision pd rd api now name as s)"
    by (metis option.inject step_spec)
  let ?f = "freshWakeDemand (sy_status s) (aa_demand api) now"
  have "granted as w \<le> granted as d" "d \<le> now" if "?f = Some d" for d
    using fresh_after_record [OF that] assms(4,5) that protection_end_mono
    by (auto simp: granted_def freshWakeDemand_def Let_def split: if_splits option.splits)
  then have prot: "protected_at (wake_after (sy_status s) (aa_demand api) now) (until_after as (sy_status s) (aa_demand api) now) now"
    using assms(4-7) by (cases ?f) (fastforce simp: protected_at_def wake_after_def until_after_def)+
  note sc [unfolded decision_obs decide_policy(2) [OF en], unfolded decide_policy(1) [OF en]]
  then show False by (cases rule: policy_cases) (use assms(3,8) prot in auto)
qed

text \<open>What the API server keeps of a status: times in whole seconds.\<close>

definition whole_seconds :: "engine_status \<Rightarrow> engine_status" where
  "whole_seconds st = st\<lparr>es_lastReconciled := map_option whole_second (es_lastReconciled st),
     es_lastActivityTime := map_option whole_second (es_lastActivityTime st),
     es_lastWakeDemandTime := map_option whole_second (es_lastWakeDemandTime st),
     es_wakeProtectionUntil := map_option whole_second (es_wakeProtectionUntil st),
     es_lastScaledAt := map_option whole_second (es_lastScaledAt st)\<rparr>"

definition willing_api :: "time option \<Rightarrow> autostop_api" where
  "willing_api demand = \<lparr>aa_demand = demand, aa_persist = (\<lambda>st. Inr (whole_seconds st)), aa_update = (\<lambda>_. None),
     aa_status = willing_status\<rparr>"

lemma whole_second_id: "t mod second = 0 \<Longrightarrow> whole_second t = t"
  using div_mult_mod_eq [of t second] by (simp add: whole_second_def)

lemma persist_willing: "persist willing_status now s st = (None, s\<lparr>sy_status := st\<lparr>es_lastReconciled := Some now\<rparr>\<rparr>)"
  by (simp add: persist_def)

lemma accept_willing:
  assumes "\<forall>d. dn_newLastWakeDemandTime dn = Some d \<longrightarrow> d mod second = 0"
    and "\<forall>u. dn_newWakeProtectionUntil dn = Some u \<longrightarrow> u mod second = 0"
  shows "fst (autostop_accept (willing_api demand) dn s) = None"
proof -
  have "map_option whole_second (dn_newLastWakeDemandTime dn) = dn_newLastWakeDemandTime dn"
    "map_option whole_second (dn_newWakeProtectionUntil dn) = dn_newWakeProtectionUntil dn"
    using assms whole_second_id by (metis map_option_cong map_option_eq_Some not_None_eq)+
  then show ?thesis by (simp add: autostop_accept_def willing_api_def whole_seconds_def)
qed

lemma note_willing: "fst (autostop_note (willing_api demand) later dn s) = None"
  by (simp add: autostop_note_def willing_api_def persist_willing Let_def)

lemma run_willing:
  assumes "effectiveAutoStop (sy_spec s) ci = Some as" "as_enabled as" "terminal (es_phase (sy_status s))"
    and "\<forall>d. freshWakeDemand (sy_status s) demand now = Some d \<longrightarrow> d mod second = 0"
  shows "\<exists>r s'. runAutoStop pd rd (willing_api demand) now later name ci s = (None, r, s') \<and>
    ar_decision r = autostop_decision pd rd (willing_api demand) now name as s \<and>
    sp_replicas (sy_spec s') = dn_desiredReplicas (autostop_decision pd rd (willing_api demand) now name as s)"
proof -
  let ?api = "willing_api demand" let ?d = "autostop_decision pd rd ?api now name as s"
  have dem: "aa_demand ?api = demand" by (simp add: willing_api_def)
  have f: "dn_newLastWakeDemandTime ?d = freshWakeDemand (sy_status s) demand now"
    "dn_newWakeProtectionUntil ?d = map_option (granted as) (freshWakeDemand (sy_status s) demand now)"
    by (simp_all add: decision_obs decision_demand [OF assms(2)] dem)
  have "granted as d mod second = 0" for d using protection_end_bounds by (simp add: granted_def)
  with f assms(4) have "fst (autostop_accept ?api ?d s) = None" by (intro accept_willing) auto
  then obtain s1 where 1: "autostop_accept ?api ?d s = (None, s1)" by (metis prod.collapse)
  obtain s2 where 2: "autostop_scale ?api ?d s1 = (None, s2)"
    by (cases "dn_scaleAction ?d") (simp_all add: autostop_scale_def willing_api_def Let_def)
  obtain s3 where 3: "autostop_note ?api later ?d s2 = (None, s3)"
    using note_willing by (metis prod.collapse)
  have t: "\<not> (es_phase (sy_status s) \<noteq> PhaseStable \<and> es_phase (sy_status s) \<noteq> PhaseStopped)" using assms(3) by (auto simp: terminal_def)
  have "runAutoStop pd rd ?api now later name ci s =
      (None, \<lparr>ar_decision = ?d, ar_patched = dn_scaleAction ?d, ar_requeueAfter = dn_requeueAfter ?d\<rparr>, s3)"
    using assms(1,2) t by (auto simp: runAutoStop_def 1 2 3 Let_def)
  moreover have "sp_replicas (sy_spec s3) = dn_desiredReplicas ?d"
  proof (cases "dn_scaleAction ?d")
    case False
    then have "dn_desiredReplicas ?d = sp_replicas (sy_spec s)" by (simp add: decision_obs decide_policy(2) [OF assms(2)])
    then show ?thesis using note_frame(1) [OF 3] scale_frame(2) [OF 2] accept_frame(1) [OF 1] False by auto
  qed (use note_frame(1) [OF 3] scale_frame(3) [OF 2] in auto)
  ultimately show ?thesis by auto
qed

lemma demand_wakes:
  assumes "effectiveAutoStop (sy_spec s) ci = Some as" and "as_enabled as" and "terminal (es_phase (sy_status s))"
    and "sp_replicas (sy_spec s) = 0"
    and "freshWakeDemand (sy_status s) demand now \<noteq> None \<or>
      protected_at (es_lastWakeDemandTime (sy_status s)) (es_wakeProtectionUntil (sy_status s)) now"
    and "\<forall>d. freshWakeDemand (sy_status s) demand now = Some d \<longrightarrow> d mod second = 0"
  shows "\<exists>r s'. runAutoStop pd rd (willing_api demand) now later name ci s = (None, r, s') \<and>
    sp_replicas (sy_spec s') = as_activeReplicas as \<and>
    (\<forall>d. freshWakeDemand (sy_status s) demand now = Some d \<longrightarrow>
       es_lastWakeDemandTime (sy_status s') = Some d \<and> es_wakeProtectionUntil (sy_status s') = Some (granted as d))"
proof -
  let ?f = "freshWakeDemand (sy_status s) demand now" let ?d = "autostop_decision pd rd (willing_api demand) now name as s"
  have dem: "aa_demand (willing_api demand) = demand" by (simp add: willing_api_def)
  obtain r s' where run: "runAutoStop pd rd (willing_api demand) now later name ci s = (None, r, s')"
    "ar_decision r = ?d" "sp_replicas (sy_spec s') = dn_desiredReplicas ?d"
    using run_willing [OF assms(1-3,6)] by metis
  have "?f \<noteq> None \<or> protected_at (wake_after (sy_status s) demand now) (until_after as (sy_status s) demand now) now"
    using assms(5) by (cases ?f) (auto simp: wake_after_def until_after_def)
  then have "dn_desiredReplicas ?d = as_activeReplicas as"
    unfolding decision_obs decide_policy(1) [OF assms(2)] using assms(4) by (auto simp: dem autostop_policy_def Let_def)
  moreover have "es_lastWakeDemandTime (sy_status s') = Some d \<and> es_wakeProtectionUntil (sy_status s') = Some (granted as d)" if "?f = Some d" for d
  proof -
    have "dn_newLastWakeDemandTime (ar_decision r) = Some d" using that run(2) by (simp add: decision_obs decision_demand [OF assms(2)] dem)
    from step_demand [OF run(1) this] assms(1) show ?thesis by (metis option.inject)
  qed
  ultimately show ?thesis using run by auto
qed

text \<open>A query for a stopped engine wakes it: on a settled engine at zero replicas with auto-stop enabled and a
  demand that is fresh, or one whose protection runs, a step against a server that accepts its writes succeeds
  and asks for the active replicas; a fresh demand is then on record with its deadline. The demand has to be a
  whole second, the precision a status keeps.\<close>

theorem demand_wakes_stopped_engine:
  assumes "effectiveAutoStop (sy_spec s) ci = Some as" and "as_enabled as" and "terminal (es_phase (sy_status s))"
    and "sp_replicas (sy_spec s) = 0"
    and "freshWakeDemand (sy_status s) demand now \<noteq> None \<or>
      protected_at (es_lastWakeDemandTime (sy_status s)) (es_wakeProtectionUntil (sy_status s)) now"
    and "\<forall>d. freshWakeDemand (sy_status s) demand now = Some d \<longrightarrow> d mod second = 0"
  shows "\<exists>r s'. runAutoStop pd rd (willing_api demand) now later name ci s = (None, r, s') \<and>
    sp_replicas (sy_spec s') = as_activeReplicas as \<and>
    (\<forall>d. freshWakeDemand (sy_status s) demand now = Some d \<longrightarrow>
       es_lastWakeDemandTime (sy_status s') = Some d \<and> es_wakeProtectionUntil (sy_status s') = Some (granted as d))"
  by (rule demand_wakes [OF assms])

lemma status_only: "b = a\<lparr>sy_status := st\<rparr> \<Longrightarrow> sy_cluster b = sy_cluster a"
  by simp

text \<open>Auto-stop never endangers the engine: whatever its writes answer, a step is made of edits of the spec and
  bookkeeping in the status, so it keeps the invariant of traffic and rollout, and it edits the spec only on
  a settled engine with auto-stop enabled.\<close>

theorem auto_stop_is_safe:
  assumes "runAutoStop pd rd api now later name ci s = (err, r, s')" and "sys_inv n ns s"
    and "\<forall>st st'. aa_persist api st = Inr st' \<longrightarrow> same_core st st'"
  shows "(sys_step n ns pf srv)\<^sup>*\<^sup>* s s' \<and> sys_inv n ns s' \<and>
    (sy_spec s' \<noteq> sy_spec s \<longrightarrow> terminal (es_phase (sy_status s)) \<and> (\<exists>as. effectiveAutoStop (sy_spec s) ci = Some as \<and> as_enabled as))"
proof -
  have book: "(sys_step n ns pf srv)\<^sup>*\<^sup>* a b" if "same_core (sy_status a) (sy_status b)" "b = a\<lparr>sy_status := sy_status b\<rparr>" for a b
    using sys_step.bookkeeping [OF that(1), of n ns pf srv] that(2) by simp
  have acc: "same_core (sy_status a) (sy_status b)" if "autostop_accept api d a = (e, b)" for a b d e
    using that assms(3) by (fastforce simp: autostop_accept_def same_core_def split: if_splits sum.splits)
  have "(sys_step n ns pf srv)\<^sup>*\<^sup>* s s' \<and> same_core (sy_status s) (sy_status s') \<and> sy_cluster s' = sy_cluster s"
    using assms(1)
  proof (cases rule: runAutoStop_cases)
    case off
    then show ?thesis using off_frame(2,3) book status_only by metis
  next
    case rolling
    then show ?thesis by (simp add: same_core_def)
  next
    case (refused as)
    then show ?thesis using acc accept_frame(3) book status_only by metis
  next
    case (accepted as e1 s1 s2)
    note 1 = accept_frame(3) [OF accepted(5)] acc [OF accepted(5)]
    note 2 = scale_frame [OF accepted(6)]
    have 3: "same_core (sy_status s2) (sy_status s')" "s' = s2\<lparr>sy_status := sy_status s'\<rparr>"
      using accepted(7) note_frame(6,7) by (auto simp: same_core_def)
    have "(sys_step n ns pf srv)\<^sup>*\<^sup>* s1 s2" using 2(2) sys_step.edit by auto
    then have "(sys_step n ns pf srv)\<^sup>*\<^sup>* s s'" using book 1 3 by (meson rtranclp_trans)
    moreover have "sy_cluster s1 = sy_cluster s" "sy_cluster s2 = sy_cluster s1" "sy_cluster s' = sy_cluster s2"
      using status_only [OF 1(1)] status_only [OF 3(2)] 2(2) by auto
    ultimately show ?thesis using 1(2) 2(1) 3(1) same_core_trans by metis
  qed
  moreover have "terminal (es_phase (sy_status s)) \<and> (\<exists>as. effectiveAutoStop (sy_spec s) ci = Some as \<and> as_enabled as)"
    if "sy_spec s' \<noteq> sy_spec s" using step_spec [OF assms(1) that] by metis
  ultimately show ?thesis using assms(2) same_core_inv same_core_cluster by (auto simp: sys_inv_def)
qed

section \<open>The idle metric does not overflow\<close>

lemma bit_len_bounds: "0 < n \<Longrightarrow> 2 ^ (bit_len n - 1) \<le> n \<and> n < 2 ^ bit_len n \<and> 0 < bit_len n"
proof (induction n rule: bit_len.induct)
  case (1 n)
  show ?case
  proof (cases "n div 2 = 0")
    case True
    with 1(2) have "n = 1" by auto
    then show ?thesis by (simp add: bit_len.simps)
  next
    case False
    with 1 have IH: "2 ^ (bit_len (n div 2) - 1) \<le> n div 2" "n div 2 < 2 ^ bit_len (n div 2)" "0 < bit_len (n div 2)" by auto
    have b: "bit_len n = Suc (bit_len (n div 2))" using 1(2) by (subst bit_len.simps) simp
    obtain c where c: "bit_len (n div 2) = Suc c" using IH(3) by (cases "bit_len (n div 2)") auto
    from IH c have "2 ^ c \<le> n div 2" "n div 2 < 2 * 2 ^ c" by auto
    then have "2 * 2 ^ c \<le> n" "n < 4 * 2 ^ c" by linarith+
    then show ?thesis by (simp add: b c)
  qed
qed

lemma int_div_less: "(P :: int) < x * d \<Longrightarrow> 0 < d \<Longrightarrow> P div d < x"
proof (rule ccontr)
  assume "P < x * d" "0 < d" "\<not> P div d < x"
  then have "x * d \<le> P div d * d" by (intro mult_right_mono) auto
  also have "\<dots> \<le> P" using div_mult_mod_eq [of P d] pos_mod_sign [OF \<open>0 < d\<close>, of P] by linarith
  finally show False using \<open>P < x * d\<close> by simp
qed

lemma round_float_bound:
  assumes P: "0 \<le> P" "P * 2 ^ nat e < (2 ^ 63 - 1332) * 2 ^ nat (- e)" and r: "round_float P e = (q', e')"
  shows "0 \<le> trunc_float q' e' \<and> trunc_float q' e' \<le> MaxInt64"
proof (cases "bit_len (nat P) - 53 = 0")
  case True
  with r have e: "q' = P" "e' = e" by (simp_all add: round_float_def Let_def)
  show ?thesis
  proof (cases "0 \<le> e")
    case False
    then have "P < (2 ^ 63 - 1332) * 2 ^ nat (- e)" using P by simp
    then have "P div 2 ^ nat (- e) < 2 ^ 63 - 1332" by (intro int_div_less) auto
    with False P show ?thesis by (simp add: e trunc_float_def MaxInt64_def pos_imp_zdiv_nonneg_iff)
  qed (use P in \<open>simp add: e trunc_float_def MaxInt64_def\<close>)
next
  case False
  define k where "k = bit_len (nat P) - 53"
  define q where "q = P div 2 ^ k"
  define rem where "rem = P mod 2 ^ k"
  have k: "0 < k" "bit_len (nat P) = 53 + k" using False by (auto simp: k_def)
  then have "0 < nat P" by (metis bit_len.simps gr0I add_is_0 zero_neq_numeral)
  from bit_len_bounds [OF this] k have len: "2 ^ (52 + k) \<le> nat P" "nat P < 2 ^ (53 + k)" by auto
  then have lo: "2 ^ (52 + k) \<le> P" and hi: "P < 2 ^ (53 + k)"
    using P(1) by (simp_all add: nat_less_iff le_nat_iff del: power_add)
  have Pq: "P = q * 2 ^ k + rem" "0 \<le> rem" "rem < 2 ^ k"
    unfolding q_def rem_def by (rule div_mult_mod_eq [symmetric]) simp_all
  have q': "q' = (if 2 * rem > 2 ^ k \<or> (2 * rem = 2 ^ k \<and> odd q) then q + 1 else q)" and e': "e' = e + int k"
    using r k(1) by (auto simp: round_float_def Let_def k_def [symmetric] q_def rem_def split: if_splits)
  have "q < 2 ^ 53" unfolding q_def by (rule int_div_less) (use hi in \<open>simp_all add: power_add\<close>)
  then have q_le: "q' \<le> 2 ^ 53" by (auto simp: q')
  have q_ge: "0 \<le> q'" using P(1) by (auto simp: q' q_def pos_imp_zdiv_nonneg_iff)
  have exps: "k + nat e = nat e' + nat (- e)" if "0 \<le> e'" using that e' by auto
  consider "e' < 0" | "0 \<le> e'" "e' \<le> 9" | "10 \<le> e'" by linarith
  then show ?thesis
  proof cases
    case 1
    have "q' div 2 ^ nat (- e') \<le> q'" using zdiv_mono2 [OF q_ge, of 1 "2 ^ nat (- e')"] by simp
    with 1 q_le q_ge show ?thesis by (simp add: trunc_float_def MaxInt64_def pos_imp_zdiv_nonneg_iff)
  next
    case 2
    then have "(2 :: int) ^ nat e' \<le> 2 ^ 9" by (intro power_increasing) auto
    then have "q' * 2 ^ nat e' \<le> 2 ^ 53 * 2 ^ 9" using q_le q_ge by (intro mult_mono) auto
    with 2 q_ge show ?thesis by (simp add: trunc_float_def MaxInt64_def)
  next
    case 3
    then have ex: "k + nat e = nat e' + nat (- e)" using exps by simp
    have "(2 :: int) ^ (52 + nat e' + nat (- e)) = 2 ^ (52 + k) * 2 ^ nat e" by (simp add: ex add.assoc flip: power_add)
    also have "\<dots> \<le> P * 2 ^ nat e" using lo by (intro mult_right_mono) auto
    also have "\<dots> < 2 ^ 63 * 2 ^ nat (- e)" using P(2) by (rule less_le_trans) (intro mult_right_mono, auto)
    finally have "(2 :: int) ^ (52 + nat e' + nat (- e)) < 2 ^ (63 + nat (- e))" by (simp add: power_add)
    then have "52 + nat e' + nat (- e) < 63 + nat (- e)" by (rule power_less_imp_less_exp [rotated]) simp
    with 3 have ten: "nat e' = 10" by simp
    have "q' < 2 ^ 53"
    proof (rule ccontr)
      assume "\<not> ?thesis"
      with q_le \<open>q < 2 ^ 53\<close> have "q = 2 ^ 53 - 1" "2 ^ k \<le> 2 * rem" by (auto simp: q' split: if_splits)
      with Pq have "(2 ^ 54 - 1) * 2 ^ k \<le> 2 * P" by simp
      then have "(2 ^ 54 - 1) * 2 ^ k * 2 ^ nat e \<le> 2 * P * 2 ^ nat e" by (intro mult_right_mono) auto
      moreover have "(2 ^ 54 - 1) * 2 ^ k * 2 ^ nat e = (2 ^ 54 - 1) * 2 ^ 10 * (2 :: int) ^ nat (- e)"
        unfolding mult.assoc power_add [symmetric] ex ten ..
      ultimately have "(2 ^ 54 - 1) * 2 ^ 10 * (2 :: int) ^ nat (- e) < 2 * ((2 ^ 63 - 1332) * 2 ^ nat (- e))" using P(2) by linarith
      then show False by simp
    qed
    with ten 3 q_ge show ?thesis by (simp add: trunc_float_def MaxInt64_def)
  qed
qed

lemma idle_scaled:
  assumes m: "0 \<le> m" "m < 2 ^ 53" and less: "\<not> float_le maxSeconds_mantissa (-19) m e"
  shows "m * second * 2 ^ nat e < (2 ^ 63 - 1332) * 2 ^ nat (- e)"
proof -
  consider "e < - 19" | n where "e = - int n" "n \<le> 19" | "0 < e"
    by (cases "e < -19"; cases "0 < e") (auto intro: that(2) [of "nat (- e)"])
  then show ?thesis
  proof cases
    case 1
    then have "(2 :: int) ^ 20 \<le> 2 ^ nat (- e)" by (intro power_increasing) auto
    then have "(2 ^ 63 - 1332) * 2 ^ 20 \<le> (2 ^ 63 - 1332) * (2 :: int) ^ nat (- e)" by (intro mult_left_mono) auto
    moreover have "m * second < (2 ^ 63 - 1332) * 2 ^ 20" using m(2) by (simp add: second_def)
    ultimately show ?thesis using 1 by simp
  next
    case (2 n)
    then have "m * 2 ^ (19 - n) < maxSeconds_mantissa"
      using less by (auto simp: float_le_def Let_def min_def nat_diff_distrib' split: if_splits)
    then have "m * 2 ^ (19 - n) * second < (2 ^ 63 - 1332) * (2 ^ n * 2 ^ (19 - n))"
      using 2 by (simp add: second_def maxSeconds_mantissa_def flip: power_add)
    then have "(m * second) * 2 ^ (19 - n) < ((2 ^ 63 - 1332) * 2 ^ n) * 2 ^ (19 - n)" by (simp add: mult_ac)
    then have "m * second < (2 ^ 63 - 1332) * 2 ^ n" by (simp add: mult_less_cancel_right)
    with 2 show ?thesis by simp
  next
    case 3
    then have "m * 2 ^ nat (e + 19) < maxSeconds_mantissa" using less by (simp add: float_le_def Let_def min_def)
    moreover have "nat (e + 19) = nat e + 19" using 3 by simp
    ultimately have "m * 2 ^ nat e * 2 ^ 19 < maxSeconds_mantissa" by (simp add: power_add mult.assoc)
    with 3 show ?thesis by (simp add: second_def maxSeconds_mantissa_def mult_ac)
  qed
qed

text \<open>The reported idle time never overflows: whatever number a pod reports, the duration the scrape accepts is
  between zero and the largest \<open>time.Duration\<close>, rounding of the product included. The parser gives floats, whose
  mantissas have 53 bits.\<close>

theorem idle_time_in_range:
  assumes "\<forall>v m e. pd v = Some (Fin m e) \<longrightarrow> \<bar>m\<bar> < 2 ^ 53" and "scrapePodAutoStopIdle pd scrape pod = Inr d"
  shows "0 \<le> d \<and> d \<le> MaxInt64"
proof -
  from assms(2) obtain raw m e where v: "parsePrometheusValue pd raw MetricAutoStopIdleSeconds = Some (Fin m e)"
    "0 \<le> m" "\<not> float_le maxSeconds_mantissa (-19) m e" "d = seconds_to_duration m e"
    by (auto simp: scrapePodAutoStopIdle_def and_then_def split: sum.splits option.splits float64.splits if_splits)
  from v(1) assms(1) have "m < 2 ^ 53"
    by (auto simp: parsePrometheusValue_def bind_eq_Some_conv) (metis abs_less_iff)
  with v(2,3) have "m * second * 2 ^ nat e < (2 ^ 63 - 1332) * 2 ^ nat (- e)" by (intro idle_scaled)
  moreover have "0 \<le> m * second" using v(2) by (simp add: second_def)
  ultimately show ?thesis using round_float_bound v(4) by (auto simp: seconds_to_duration_def split: prod.splits)
qed

section \<open>Witnesses\<close>

definition ex_policy :: auto_stop_spec where
  "ex_policy = \<lparr>as_enabled = True, as_activeReplicas = 2, as_idleReplicas = None, as_idleTimeout = None,
     as_pollInterval = None, as_schedule = []\<rparr>"

definition ex_running :: sys where
  "ex_running = ex_settled\<lparr>sy_spec := ex_spec\<lparr>sp_autoStop := Some ex_policy\<rparr>\<rparr>"

definition ex_stopped :: sys where
  "ex_stopped = ex_settled\<lparr>sy_spec := ex_spec\<lparr>sp_autoStop := Some ex_policy, sp_replicas := 0\<rparr>,
     sy_status := ex_status\<lparr>es_phase := PhaseStopped\<rparr>\<rparr>"

definition ex_pd :: "string \<Rightarrow> float64 option" where "ex_pd v = Some (Fin 7200 0)"

definition ex_idle_reader :: reader where
  "ex_idle_reader = (reader_of ex_settled)\<lparr>rd_scrape := (\<lambda>_. Inr ''firebolt_auto_stop_idle_seconds 7200'')\<rparr>"

lemma ex_settings [simp]:
  "effectiveAutoStop (sy_spec ex_running) None = Some ex_policy" "effectiveAutoStop (sy_spec ex_stopped) None = Some ex_policy"
  "as_enabled ex_policy" "terminal (es_phase (sy_status ex_running))" "terminal (es_phase (sy_status ex_stopped))"
  "sp_replicas (sy_spec ex_running) = 2" "sp_replicas (sy_spec ex_stopped) = 0"
  "\<not> scheduleActive (as_schedule ex_policy) now"
  by (simp_all add: effectiveAutoStop_def ex_running_def ex_stopped_def ex_policy_def ex_settled_def ex_sys_def ex_status_def ex_spec_def
      terminal_def scheduleActive_def)

lemma ex_wake [simp]:
  "freshWakeDemand (sy_status ex_stopped) (Some (100 * second)) (130 * second) = Some (100 * second)"
  "freshWakeDemand (sy_status ex_running) None now = None"
  "freshWakeDemand (sy_status ex_running) (Some (100 * second)) (130 * second) = Some (100 * second)"
  by (simp_all add: freshWakeDemand_def ex_stopped_def ex_running_def ex_settled_def ex_status_def time_sub_def DefaultAutoStopWakeTTL_def
      MaxInt64_def minute_def second_def)

lemma ex_woken:
  "\<exists>r s'. runAutoStop pd rd (willing_api (Some (100 * second))) (130 * second) later n None ex_stopped = (None, r, s') \<and>
    ar_decision r = autostop_decision pd rd (willing_api (Some (100 * second))) (130 * second) n ex_policy ex_stopped \<and>
    sp_replicas (sy_spec s') = 2"
proof -
  have "dn_desiredReplicas (autostop_decision pd rd (willing_api (Some (100 * second))) (130 * second) n ex_policy ex_stopped) = 2"
    unfolding decision_obs decide_policy(1) [OF ex_settings(3)]
    by (simp add: autostop_policy_def willing_api_def Let_def) (simp add: ex_policy_def)
  then show ?thesis
    using run_willing [OF ex_settings(2,3,5), of "Some (100 * second)" "130 * second" pd rd later n] by simp
qed

lemma demand_wakes_stopped_engine_witness:
  "\<exists>r s'. runAutoStop ex_pd ex_idle_reader (willing_api (Some (100 * second))) (130 * second) (131 * second) ''e'' None ex_stopped = (None, r, s') \<and>
     sp_replicas (sy_spec s') = 2"
proof -
  have "as_activeReplicas ex_policy = 2" by (simp add: ex_policy_def)
  then show ?thesis
    using demand_wakes_stopped_engine [OF ex_settings(2,3,5,7), of "Some (100 * second)" "130 * second" ex_pd ex_idle_reader "131 * second" "''e''"]
    by auto
qed

lemma ex_demand: "dn_newLastWakeDemandTime (autostop_decision pd rd (willing_api (Some (100 * second))) (130 * second) n ex_policy ex_stopped) = Some (100 * second)"
  unfolding decision_obs decision_demand [OF ex_settings(3)] by (simp add: willing_api_def)

lemma replicas_wait_for_stored_demand_witness:
  "\<exists>r s'. runAutoStop ex_pd ex_idle_reader (willing_api (Some (100 * second))) (130 * second) (131 * second) ''e'' None ex_stopped = (None, r, s') \<and>
     es_lastWakeDemandTime (sy_status s') = Some (100 * second)"
proof -
  obtain r s' where run: "runAutoStop ex_pd ex_idle_reader (willing_api (Some (100 * second))) (130 * second) (131 * second) ''e'' None ex_stopped = (None, r, s')"
    "ar_decision r = autostop_decision ex_pd ex_idle_reader (willing_api (Some (100 * second))) (130 * second) ''e'' ex_policy ex_stopped"
    "sp_replicas (sy_spec s') = 2"
    using ex_woken by metis
  then have "sy_spec s' \<noteq> sy_spec ex_stopped" by auto
  with replicas_wait_for_stored_demand [OF run(1) this, of "100 * second"] run(1,2) show ?thesis by (auto simp: ex_demand)
qed

lemma demand_accepted_once_witness:
  "\<exists>r s1 r2 s3. runAutoStop ex_pd ex_idle_reader (willing_api (Some (100 * second))) (130 * second) (131 * second) ''e'' None ex_stopped = (None, r, s1) \<and>
     runAutoStop ex_pd ex_idle_reader (willing_api (Some (200 * second))) (230 * second) (231 * second) ''e'' None
       (ex_stopped\<lparr>sy_status := sy_status s1\<rparr>) = (None, r2, s3) \<and> 100 * second < 200 * second"
proof -
  obtain r s1 where run: "runAutoStop ex_pd ex_idle_reader (willing_api (Some (100 * second))) (130 * second) (131 * second) ''e'' None ex_stopped = (None, r, s1)"
    "ar_decision r = autostop_decision ex_pd ex_idle_reader (willing_api (Some (100 * second))) (130 * second) ''e'' ex_policy ex_stopped"
    using ex_woken by metis
  let ?s2 = "ex_stopped\<lparr>sy_status := sy_status s1\<rparr>"
  have d: "dn_newLastWakeDemandTime (ar_decision r) = Some (100 * second)" using run(2) ex_demand by simp
  have rec: "es_lastWakeDemandTime (sy_status s1) = Some (100 * second)" "es_wakeProtectionUntil (sy_status s1) = Some (granted ex_policy (100 * second))"
    using step_demand [OF run(1) d] by (metis ex_settings(2) option.inject)+
  have "same_core (sy_status ex_stopped) (sy_status s1)"
    using run(1)
  proof (cases rule: runAutoStop_cases)
    case off
    then show ?thesis using off_frame(2) by blast
  next
    case (accepted as e1 t1 t2)
    have "same_core (sy_status ex_stopped) (sy_status t1)"
      using accepted(5) by (auto simp: autostop_accept_def willing_api_def whole_seconds_def same_core_def split: if_splits)
    then show ?thesis using accepted(7) note_frame(6) scale_frame(1) [OF accepted(6)] same_core_trans by metis
  qed (auto simp: same_core_def)
  then have t: "terminal (es_phase (sy_status ?s2))" using ex_settings(5) by (simp add: same_core_def)
  have f: "freshWakeDemand (sy_status ?s2) (Some (200 * second)) (230 * second) = Some (200 * second)"
    using rec by (simp add: freshWakeDemand_def time_sub_def DefaultAutoStopWakeTTL_def MaxInt64_def minute_def second_def)
  have eff: "effectiveAutoStop (sy_spec ?s2) None = Some ex_policy" using ex_settings(2) by simp
  obtain r2 s3 where run2: "runAutoStop ex_pd ex_idle_reader (willing_api (Some (200 * second))) (230 * second) (231 * second) ''e'' None ?s2 = (None, r2, s3)"
    "ar_decision r2 = autostop_decision ex_pd ex_idle_reader (willing_api (Some (200 * second))) (230 * second) ''e'' ex_policy ?s2"
    using run_willing [OF eff ex_settings(3) t, of "Some (200 * second)" "230 * second" ex_pd ex_idle_reader "231 * second" "''e''"] f by auto
  have "dn_newLastWakeDemandTime (ar_decision r2) = Some (200 * second)"
    unfolding run2(2) decision_obs decision_demand [OF ex_settings(3)] using f by (simp add: willing_api_def)
  from demand_accepted_once [OF run(1) d _ _ run2(1) this] run(1) run2(1) show ?thesis by auto
qed

lemma accepted_demand_protects_witness:
  "\<exists>w. sy_spec (snd (snd (runAutoStop ex_pd ex_idle_reader (willing_api None) (130 * second) (131 * second) ''e'' None
     (ex_running\<lparr>sy_status := (sy_status ex_running)\<lparr>es_lastWakeDemandTime := Some w,
        es_wakeProtectionUntil := Some (granted ex_policy w)\<rparr>\<rparr>)))) = sy_spec ex_running"
proof -
  let ?s = "ex_running\<lparr>sy_status := (sy_status ex_running)\<lparr>es_lastWakeDemandTime := Some (100 * second),
        es_wakeProtectionUntil := Some (granted ex_policy (100 * second))\<rparr>\<rparr>"
  obtain err r s' where run: "runAutoStop ex_pd ex_idle_reader (willing_api None) (130 * second) (131 * second) ''e'' None ?s = (err, r, s')"
    by (metis prod_cases3)
  have "130 * second < granted ex_policy (100 * second)"
    using protection_end_bounds [of "100 * second" "wakeProtectionDuration DefaultAutoStopIdleTimeout"]
    by (simp add: granted_def ex_policy_def positive_or_def wakeProtectionDuration_def DefaultAutoStopIdleTimeout_def WakeProtectionMultiplier_def
        MaxInt64_def minute_def second_def)
  with accepted_demand_protects [OF run, of ex_policy "100 * second"] have "sy_spec s' = sy_spec ex_running"
    by (simp add: second_def)
  with run show ?thesis by (intro exI [of _ "100 * second"]) simp
qed

lemma bit_len_le: "n < 2 ^ b \<Longrightarrow> bit_len n \<le> b"
proof (rule ccontr)
  assume "n < 2 ^ b" "\<not> bit_len n \<le> b"
  moreover from this have "0 < n" by (metis bit_len.simps gr0I le0)
  moreover have "(2::nat) ^ b \<le> 2 ^ (bit_len n - 1)" using calculation(2) by (intro power_increasing) auto
  ultimately show False using bit_len_bounds [of n] by linarith
qed

lemma ex_pod_idle: "scrapePodAutoStopIdle ex_pd (rd_scrape ex_idle_reader) p = Inr (7200 * second)"
proof -
  have "bit_len 7200000000000 \<le> 53" by (rule bit_len_le) simp
  then show ?thesis
    by (simp add: scrapePodAutoStopIdle_def ex_idle_reader_def parsePrometheusValue_def scan_lines_def newline_def maxLine_def drop_cr_def
        space_char_def MetricAutoStopIdleSeconds_def has_prefix_def ex_pd_def float_le_def maxSeconds_mantissa_def Let_def
        seconds_to_duration_def round_float_def trunc_float_def second_def)
qed

lemma idle_time_in_range_witness: "0 \<le> 7200 * second \<and> 7200 * second \<le> MaxInt64"
  using idle_time_in_range [OF _ ex_pod_idle] by (simp add: ex_pd_def)

lemma ex_idle: "scrapeAutoStopIdle ex_pd ex_idle_reader ''e'' (sy_status ex_running) = Some (7200 * second)"
proof -
  have "rd_pods ex_idle_reader n g = Inr (ex_pods g)" for n g
    by (simp add: ex_idle_reader_def reader_of_def ex_settled_def ex_sys_def)
  then show ?thesis
    by (simp add: scrapeAutoStopIdle_def ex_running_def ex_settled_def ex_status_def ex_pods_def PodRunning_def ex_pod_idle minimumIdleDuration_def
        MaxInt64_def second_def)
qed

lemma idle_stop_is_justified_witness: "pods_idle ex_pd ex_idle_reader ''e'' (sy_status ex_running) (30 * minute)"
proof -
  have "dn_desiredReplicas (autostop_decision ex_pd ex_idle_reader (willing_api None) (9000 * second) ''e'' ex_policy ex_running) = 0"
    unfolding decision_obs decide_policy(1) [OF ex_settings(3)] ex_idle
    by (simp add: autostop_policy_def willing_api_def Let_def effective_activity_def ex_running_def ex_settled_def ex_status_def ex_spec_def
        wake_after_def until_after_def freshWakeDemand_def protected_at_def)
      (simp add: ex_policy_def positive_or_def DefaultAutoStopIdleTimeout_def DefaultAutoStopIdleReplicas_def time_sub_def MaxInt64_def minute_def second_def
        scheduleActive_def)
  then obtain r s' where "runAutoStop ex_pd ex_idle_reader (willing_api None) (9000 * second) (9001 * second) ''e'' None ex_running = (None, r, s')"
    "sp_replicas (sy_spec s') = 0"
    using run_willing [OF ex_settings(1,3,4), of None "9000 * second" ex_pd ex_idle_reader "9001 * second" "''e''"] by auto
  from idle_stop_is_justified [OF this(1)] this(2) show ?thesis
    by (auto simp: ex_policy_def positive_or_def DefaultAutoStopIdleTimeout_def scheduleActive_def)
qed

lemma auto_stop_is_safe_witness:
  "\<exists>s'. s' = snd (snd (runAutoStop ex_pd ex_idle_reader (willing_api (Some (100 * second))) (130 * second) (131 * second) ''e'' None ex_running))
     \<and> sys_inv ''e'' ''ns'' s'"
proof -
  obtain err r s' where run: "runAutoStop ex_pd ex_idle_reader (willing_api (Some (100 * second))) (130 * second) (131 * second) ''e'' None ex_running = (err, r, s')"
    by (metis prod_cases3)
  have "sys_inv ''e'' ''ns'' ex_running" using ex_settled_inv by (simp add: sys_inv_def ex_running_def)
  from auto_stop_is_safe [OF run this] have "sys_inv ''e'' ''ns'' s'" by (auto simp: willing_api_def whole_seconds_def same_core_def)
  with run show ?thesis by simp
qed

end
