(* ===== verification/Wake_Demand.thy ===== *)
theory Wake_Demand
  imports Wake_Agent Auto_Stop
begin

text \<open>
  The operator's side of waking (\<open>wake_demand.go\<close>): reading the agents' demand, keeping the latest stamp of
  every stopped engine, and the way from a query at a gateway to the replicas of the engine.

  Scrapes run concurrently and add to one map under a lock; the model takes them in any order and shows that
  the order does not matter. The cluster is an argument: the engines, the gateway pods of a namespace and what
  a scrape answers.
\<close>

section \<open>Reading an exposition\<close>

definition maxDemandResponseBytes :: nat where "maxDemandResponseBytes = 1048576"

definition cut_prefix :: "string \<Rightarrow> string \<Rightarrow> string option" where
  "cut_prefix s p = (if has_prefix s p then Some (drop (length p) s) else None)"

definition parseLabeledSample :: "string \<Rightarrow> string \<Rightarrow> string \<Rightarrow> (string \<times> string) option" where
  "parseLabeledSample line name label =
     Option.bind (cut_prefix line (name @ ''{'' @ label @ ''='' @ [CHR 0x22])) (\<lambda>rest.
     Option.bind (str_cut rest [CHR 0x22]) (\<lambda>(labelValue, rest1).
       if labelValue = [] then None
       else Option.bind (cut_prefix rest1 ''}'') (\<lambda>rest2.
         let sampleValue = trim_space rest2
         in if sampleValue = [] then None else Some (labelValue, sampleValue))))"

definition demand_line :: "string \<Rightarrow> (string \<times> time) option" where
  "demand_line raw =
     (let line = trim_space raw
      in if line = [] \<or> has_prefix line ''#'' then None
         else if \<not> has_prefix line (MetricLastDemand @ ''{'') then None
         else Option.bind (parseLabeledSample line MetricLastDemand ''engine'') (\<lambda>(engine, v).
                map_option (\<lambda>secs. (engine, secs * second)) (atoi v)))"

definition parseWakeDemand :: "string \<Rightarrow> (string, time) fmap" where
  "parseWakeDemand body =
     fold (\<lambda>line out. case demand_line line of None \<Rightarrow> out | Some (engine, ts) \<Rightarrow> fmupd engine ts out)
       (split_on newline [] body) fmempty"

section \<open>The poll\<close>

type_synonym demandKey = "string \<times> string"

record WakeDemandTracker =
  wt_namespaces :: "string list"
  wt_demand :: "(demandKey, time) fmap"

definition LastDemand :: "WakeDemandTracker \<Rightarrow> string \<Rightarrow> string \<Rightarrow> time option" where
  "LastDemand t namespace engine = fmlookup (wt_demand t) (namespace, engine)"

definition watches :: "WakeDemandTracker \<Rightarrow> string \<Rightarrow> bool" where
  "watches t namespace = (if wt_namespaces t = [] then True else namespace \<in> set (wt_namespaces t))"

record listed_engine =
  le_namespace :: string
  le_name :: string
  le_replicas :: int

definition stoppedEngines :: "WakeDemandTracker \<Rightarrow> listed_engine list \<Rightarrow> demandKey list" where
  "stoppedEngines t engines =
     map (\<lambda>e. (le_namespace e, le_name e)) (filter (\<lambda>e. \<not> (le_replicas e \<noteq> 0 \<or> \<not> watches t (le_namespace e))) engines)"

record gateway_pod =
  gp_phase :: string
  gp_podIP :: string
  gp_scrape :: "engine_error + string"

definition gatewayPods :: "engine_error + gateway_pod list \<Rightarrow> engine_error + gateway_pod list" where
  "gatewayPods ls = and_then ls (\<lambda>pods. Inr (filter (\<lambda>p. \<not> (gp_phase p \<noteq> PodRunning \<or> gp_podIP p = [])) pods))"

text \<open>One scrape: the body, cut at the limit of the reader, is merged into the map.\<close>

definition merge_entry :: "demandKey list \<Rightarrow> string \<Rightarrow> string \<times> time \<Rightarrow> (demandKey, time) fmap \<Rightarrow> (demandKey, time) fmap" where
  "merge_entry stopped ns = (\<lambda>(engine, ts) fresh.
     if (ns, engine) \<notin> set stopped then fresh
     else case fmlookup fresh (ns, engine) of
            None \<Rightarrow> fmupd (ns, engine) ts fresh
          | Some prev \<Rightarrow> if prev < ts then fmupd (ns, engine) ts fresh else fresh)"

definition entries :: "(string, time) fmap \<Rightarrow> (string \<times> time) list" where
  "entries m = map (\<lambda>e. (e, the (fmlookup m e))) (sorted_list_of_set (fset (fmdom m)))"

definition scrapeAgent :: "gateway_pod \<Rightarrow> string option" where
  "scrapeAgent p = (case gp_scrape p of Inl e \<Rightarrow> None | Inr body \<Rightarrow> Some (take maxDemandResponseBytes body))"

definition merge_scrape :: "demandKey list \<Rightarrow> string \<times> gateway_pod \<Rightarrow> (demandKey, time) fmap \<Rightarrow> (demandKey, time) fmap" where
  "merge_scrape stopped = (\<lambda>(ns, pod) fresh.
     case scrapeAgent pod of
       None \<Rightarrow> fresh
     | Some body \<Rightarrow> fold (merge_entry stopped ns) (entries (parseWakeDemand body)) fresh)"

text \<open>The announcements: the engines whose stamp is new or newer.\<close>

definition replace :: "(demandKey, time) fmap \<Rightarrow> WakeDemandTracker \<Rightarrow> WakeDemandTracker \<times> demandKey set" where
  "replace fresh t =
     (t\<lparr>wt_demand := fresh\<rparr>,
      {k. \<exists>ts. fmlookup fresh k = Some ts \<and> (case fmlookup (wt_demand t) k of Some prev \<Rightarrow> prev < ts | None \<Rightarrow> True)})"

definition poll_targets :: "(string \<Rightarrow> engine_error + gateway_pod list) \<Rightarrow> demandKey list \<Rightarrow> (string \<times> gateway_pod) list" where
  "poll_targets pods stopped =
     concat (map (\<lambda>ns. case gatewayPods (pods ns) of Inl e \<Rightarrow> [] | Inr ps \<Rightarrow> map (Pair ns) ps) (remdups (map fst stopped)))"

text \<open>\<open>order\<close> is the order in which the scrapes finish.\<close>

definition pollOnce ::
  "((string \<times> gateway_pod) list \<Rightarrow> (string \<times> gateway_pod) list) \<Rightarrow> (engine_error + listed_engine list)
     \<Rightarrow> (string \<Rightarrow> engine_error + gateway_pod list) \<Rightarrow> WakeDemandTracker \<Rightarrow> WakeDemandTracker \<times> demandKey set" where
  "pollOnce order engines pods t =
     (case engines of
        Inl e \<Rightarrow> (t, {})
      | Inr es \<Rightarrow>
          (let stopped = stoppedEngines t es
           in if stopped = [] then replace fmempty t
              else replace (fold (merge_scrape stopped) (order (poll_targets pods stopped)) fmempty) t))"

section \<open>The exposition survives the wire\<close>

lemma split_on_lines:
  "newline \<notin> set l \<Longrightarrow> split_on newline acc (l @ newline # rest) = (rev acc @ l) # split_on newline [] rest"
  by (induction l arbitrary: acc) auto

lemma split_on_all: "newline \<notin> set l \<Longrightarrow> split_on newline acc l = [rev acc @ l]"
  by (induction l arbitrary: acc) auto

definition as_lines :: "string list \<Rightarrow> string" where
  "as_lines ls = concat (map (\<lambda>l. l @ [newline]) ls)"

lemma as_lines_simps [simp]: "as_lines [] = []" "as_lines (l # ls) = l @ newline # as_lines ls" "as_lines (xs @ ys) = as_lines xs @ as_lines ys"
  by (simp_all add: as_lines_def)

lemma split_as_lines:
  "\<forall>l\<in>set ls. newline \<notin> set l \<Longrightarrow> split_on newline [] (as_lines ls @ rest) = ls @ split_on newline [] rest"
  by (induction ls) (auto simp: split_on_lines)

lemma split_truncated:
  assumes "\<forall>l\<in>set ls. newline \<notin> set l" "x \<in> set (split_on newline [] (take k (as_lines ls)))"
  shows "x = [] \<or> (\<exists>l\<in>set ls. \<exists>n. x = take n l)"
  using assms
proof (induction ls arbitrary: k)
  case (Cons l ls)
  show ?case
  proof (cases "k \<le> length l")
    case True
    then have "take k (as_lines (l # ls)) = take k l" by simp
    moreover have "newline \<notin> set (take k l)" using Cons.prems(1) by (auto dest: in_set_takeD)
    ultimately show ?thesis using Cons.prems(2) by (auto simp: split_on_all)
  next
    case False
    then obtain m where "k = Suc (length l + m)" by (metis add_Suc_right less_natE not_le)
    then have "take k (as_lines (l # ls)) = l @ newline # take m (as_lines ls)" by simp
    then have "x = l \<or> x \<in> set (split_on newline [] (take m (as_lines ls)))"
      using Cons.prems by (auto simp: split_on_lines)
    moreover have "l = take (length l) l" by simp
    ultimately show ?thesis using Cons.IH Cons.prems(1) by (metis list.set_intros)
  qed
qed simp

lemma trim_left_prefix: "\<exists>p. s = p @ trim_left s"
  by (metis takeWhile_dropWhile_id trim_left_def)

lemma trim_space_head:
  assumes "\<not> is_space c"
  shows "\<exists>n. trim_space (c # cs) = c # take n cs"
proof -
  have "trim_left (c # cs) = c # cs" using assms by (simp add: trim_left_def)
  then have t: "trim_space (c # cs) = rev (trim_left (rev (c # cs)))" by (simp add: trim_space_def)
  obtain p where "rev (c # cs) = p @ trim_left (rev (c # cs))" using trim_left_prefix by blast
  then have "c # cs = trim_space (c # cs) @ rev p" by (metis rev_append rev_rev_ident t)
  moreover have "trim_space (c # cs) \<noteq> []"
  proof
    assume "trim_space (c # cs) = []"
    then have "trim_left (rev cs @ [c]) = []" using t by simp
    then show False using assms by (auto simp: trim_left_def dropWhile_eq_Nil_conv)
  qed
  ultimately obtain ys where y: "trim_space (c # cs) = c # ys" "cs = ys @ rev p" by (cases "trim_space (c # cs)") auto
  then have "ys = take (length ys) cs" by simp
  with y show ?thesis by metis
qed

lemma trim_space_id: "s \<noteq> [] \<Longrightarrow> \<not> is_space (hd s) \<Longrightarrow> \<not> is_space (last s) \<Longrightarrow> trim_space s = s"
proof -
  assume s: "s \<noteq> []" "\<not> is_space (hd s)" "\<not> is_space (last s)"
  have "trim_left x = x" if "x \<noteq> []" "\<not> is_space (hd x)" for x using that by (cases x) (auto simp: trim_left_def)
  with s show ?thesis by (simp add: trim_space_def hd_rev)
qed

lemma has_prefix_take: "has_prefix (take n s) p \<Longrightarrow> has_prefix s p"
  by (simp add: has_prefix_def) (metis length_take min.cobounded2 take_all_iff take_take min.absorb_iff1 length_take min_def nle_le)

text \<open>A line, even cut, that starts otherwise is no sample.\<close>

lemma foreign_line:
  assumes "l \<noteq> []" "\<not> is_space (hd l)" "\<not> has_prefix l (MetricLastDemand @ ''{'')"
  shows "demand_line (take n l) = None"
proof (cases n)
  case 0
  then show ?thesis by (simp add: demand_line_def trim_space_def trim_left_def)
next
  case (Suc k)
  obtain c cs where l: "l = c # cs" using assms(1) by (cases l) auto
  obtain m where "trim_space (take n l) = c # take m (take k cs)" using trim_space_head [of c "take k cs"] assms(2) l Suc by auto
  then have "trim_space (take n l) = take (Suc (min m k)) l" by (simp add: l)
  then have "\<not> has_prefix (trim_space (take n l)) (MetricLastDemand @ ''{'')" using assms(3) has_prefix_take by metis
  then show ?thesis by (simp add: demand_line_def Let_def)
qed

lemma str_cut_char: "c \<notin> set a \<Longrightarrow> str_cut (a @ c # b) [c] = Some (a, b)"
  by (induction a) (auto simp: has_prefix_def)

lemma is_digit_not_space: "is_digit c \<Longrightarrow> \<not> is_space c"
  by (auto simp: is_digit_def is_space_def)

lemma itoa_last: "itoa i \<noteq> [] \<and> is_digit (last (itoa i))"
proof -
  have "is_digit (last (nat_digits n))" for n using nat_digits_props [of n] by (simp add: list_all_iff)
  then show ?thesis by (simp add: itoa_def)
qed

lemma itoa_hd: "\<not> is_space (hd (itoa i))"
proof -
  have "is_digit (hd (nat_digits n))" for n using nat_digits_props [of n] by (simp add: list_all_iff)
  then have "\<not> is_space (hd (nat_digits n))" for n by (simp add: is_digit_not_space)
  moreover have "\<not> is_space CHR ''-''" by (simp add: is_space_def)
  ultimately show ?thesis by (simp add: itoa_def)
qed

lemma itoa_chars: "c \<in> set (itoa i) \<Longrightarrow> is_digit c \<or> c = CHR ''-''"
  using nat_digits_props by (auto simp: itoa_def list_all_iff split: if_splits)

lemma name_char_facts:
  assumes "name_char c"
  shows "c \<noteq> CHR 0x22" "c \<noteq> newline" "quote_char c = [c]"
proof -
  have "of_char c = (45::nat) \<or> (48 \<le> (of_char c :: nat) \<and> (of_char c :: nat) \<le> 57) \<or> (97 \<le> (of_char c :: nat) \<and> (of_char c :: nat) \<le> 122)"
    using assms by (auto simp: name_char_def less_eq_char_def)
  then have b: "(45::nat) \<le> of_char c" "of_char c < (127::nat)" "of_char c \<noteq> (92::nat)" by auto
  have ne: "c \<noteq> d" if "of_char d < (45::nat) \<or> of_char d = (92::nat)" for d using b that by auto
  show "c \<noteq> CHR 0x22" "c \<noteq> newline" by (rule ne; simp add: newline_def)+
  have "CHR 0x20 \<le> c" "c < CHR 0x7F" using b by (simp_all add: less_eq_char_def less_char_def)
  then show "quote_char c = [c]" by (simp add: quote_char_def ne)
qed

lemma quote_name: "isValidEngineName e \<Longrightarrow> quote e = CHR 0x22 # e @ [CHR 0x22]"
proof -
  assume "isValidEngineName e"
  then have "list_all name_char e" by (simp add: isValidEngineName_def split: if_splits)
  then have "concat (map quote_char e) = e" by (induction e) (auto simp: name_char_facts)
  then show ?thesis by (simp add: quote_def)
qed

text \<open>A row as a line.\<close>

definition row_line :: "string \<Rightarrow> string \<Rightarrow> int \<Rightarrow> string" where
  "row_line name e v = name @ ''{engine='' @ quote e @ ''} '' @ itoa v"

lemma metric_row_line: "metric_row name e v = row_line name e v @ [newline]"
  by (simp add: metric_row_def row_line_def)

lemma digits_no_newline: "newline \<notin> set (itoa i)"
  by (auto simp: is_digit_def newline_def dest!: itoa_chars)

lemma row_no_newline:
  assumes "isValidEngineName e" "newline \<notin> set name"
  shows "newline \<notin> set (row_line name e v)"
proof -
  have "newline \<notin> set e" using assms(1) name_char_facts(2) by (auto simp: isValidEngineName_def list_all_iff split: if_splits)
  with assms show ?thesis by (simp add: row_line_def quote_name digits_no_newline) (simp add: newline_def)
qed

lemma demand_row:
  assumes "isValidEngineName e" "in_int64 v"
  shows "demand_line (row_line MetricLastDemand e v) = Some (e, v * second)"
proof -
  let ?l = "row_line MetricLastDemand e v"
  have q: "CHR 0x22 \<notin> set e" "e \<noteq> []" using assms(1) name_char_facts(1) by (auto simp: isValidEngineName_def list_all_iff split: if_splits)
  have l: "?l = (MetricLastDemand @ ''{engine='' @ [CHR 0x22]) @ e @ CHR 0x22 # ''} '' @ itoa v"
    by (simp add: row_line_def quote_name [OF assms(1)])
  have "trim_space ?l = ?l"
  proof (rule trim_space_id)
    show "\<not> is_space (last ?l)" using itoa_last [of v] by (simp add: l is_digit_not_space)
  qed (unfold l, simp_all add: MetricLastDemand_def is_space_def)
  moreover have "parseLabeledSample ?l MetricLastDemand ''engine'' = Some (e, itoa v)"
  proof -
    have c: "cut_prefix ?l (MetricLastDemand @ ''{'' @ ''engine'' @ ''='' @ [CHR 0x22]) = Some (e @ CHR 0x22 # ''} '' @ itoa v)"
      unfolding cut_prefix_def l by (simp add: has_prefix_def)
    have "trim_space ('' '' @ itoa v) = itoa v"
    proof -
      have "is_space CHR 0x20" by (simp add: is_space_def)
      then have "trim_space ('' '' @ itoa v) = trim_space (itoa v)" by (simp add: trim_space_def trim_left_def)
      then show ?thesis using trim_space_id [of "itoa v"] itoa_last [of v] itoa_hd [of v] by (simp add: is_digit_not_space)
    qed
    then show ?thesis
      unfolding parseLabeledSample_def c using q itoa_last [of v] by (simp add: str_cut_char cut_prefix_def has_prefix_def Let_def)
  qed
  moreover have "has_prefix ?l (MetricLastDemand @ ''{'')" "\<not> has_prefix ?l ''#''" "?l \<noteq> []"
    unfolding l by (simp_all add: has_prefix_def MetricLastDemand_def)
  ultimately show ?thesis using atoi_itoa [OF assms(2)] by (simp add: demand_line_def Let_def)
qed

definition head_lines :: "string \<Rightarrow> string \<Rightarrow> string \<Rightarrow> string list" where
  "head_lines name help kind = [''# HELP '' @ name @ help, ''# TYPE '' @ name @ kind]"

definition demand_lines :: "snapshot list \<Rightarrow> string list" where
  "demand_lines rows =
     head_lines MetricLastDemand '' Unix timestamp of the most recent gateway request for a stopped engine.'' '' gauge''
     @ map (\<lambda>r. row_line MetricLastDemand (sn_engine r) (sn_last r div second)) rows"

definition other_lines :: "snapshot list \<Rightarrow> int \<Rightarrow> string list" where
  "other_lines rows dropped =
     head_lines MetricPendingHolds '' Requests currently held waiting for an engine to become ready.'' '' gauge''
     @ map (\<lambda>r. row_line MetricPendingHolds (sn_engine r) (sn_pending r)) rows
     @ head_lines MetricSheddedTotal '' Requests rejected because the gateway's hold capacity was reached.'' '' counter''
     @ map (\<lambda>r. row_line MetricSheddedTotal (sn_engine r) (sn_shed r)) rows
     @ head_lines MetricDemandDroppedTotal '' Demand stamps dropped because the tracker was at its size cap.'' '' counter''
     @ [MetricDemandDroppedTotal @ '' '' @ itoa dropped]"

lemma rows_as_lines: "concat (map (\<lambda>r. metric_row name (f r) (g r)) rows) = as_lines (map (\<lambda>r. row_line name (f r) (g r)) rows)"
  by (induction rows) (auto simp: metric_row_line)

lemma Render_lines:
  assumes "Snapshot now d = (rows, d')"
  shows "Render now d = (as_lines (demand_lines rows) @ as_lines (other_lines rows (dt_dropped d')), d')"
  by (simp add: Render_def assms metric_head_def head_lines_def demand_lines_def other_lines_def rows_as_lines)

lemmas metric_names = MetricLastDemand_def MetricPendingHolds_def MetricSheddedTotal_def MetricDemandDroppedTotal_def

definition one_line :: "string \<Rightarrow> bool" where "one_line l \<longleftrightarrow> newline \<notin> set l"

lemma one_line_simps:
  "one_line []" "one_line (c # l) \<longleftrightarrow> c \<noteq> CHR 0x0A \<and> one_line l" "one_line (a @ b) \<longleftrightarrow> one_line a \<and> one_line b" "one_line (itoa i)"
  by (auto simp: one_line_def newline_def digits_no_newline [unfolded newline_def])

lemma one_line_metrics:
  "one_line MetricLastDemand" "one_line MetricPendingHolds" "one_line MetricSheddedTotal" "one_line MetricDemandDroppedTotal"
  by (simp_all add: metric_names one_line_simps)

lemma one_line_row: "isValidEngineName e \<Longrightarrow> one_line name \<Longrightarrow> one_line (row_line name e v)"
  by (simp add: one_line_def row_no_newline)

lemma demand_lines_clean:
  assumes "\<forall>r\<in>set rows. isValidEngineName (sn_engine r)"
  shows "\<forall>l\<in>set (demand_lines rows). newline \<notin> set l"
  unfolding one_line_def [symmetric] demand_lines_def head_lines_def
  using assms by (auto simp: one_line_simps one_line_metrics one_line_row)

lemma has_prefix_nth: "has_prefix s p \<Longrightarrow> i < length p \<Longrightarrow> s ! i = p ! i"
  by (metis has_prefix_def nth_take)

lemma foreign_name:
  assumes "name \<in> {''# '', MetricPendingHolds, MetricSheddedTotal, MetricDemandDroppedTotal}"
  shows "name @ rest \<noteq> [] \<and> \<not> is_space (hd (name @ rest)) \<and> \<not> has_prefix (name @ rest) (MetricLastDemand @ ''{'')"
proof -
  have "\<exists>i < length name. i < length MetricLastDemand \<and> name ! i \<noteq> MetricLastDemand ! i"
    using assms by (elim insertE emptyE; intro exI [of _ "if name = ''# '' then 0 else 22"]) (simp_all add: metric_names)
  then obtain i where i: "i < length name" "i < length MetricLastDemand" "name ! i \<noteq> MetricLastDemand ! i" by blast
  have "\<not> has_prefix (name @ rest) (MetricLastDemand @ ''{'')"
  proof
    assume "has_prefix (name @ rest) (MetricLastDemand @ ''{'')"
    from has_prefix_nth [OF this, of i] i show False by (simp add: nth_append)
  qed
  moreover have "name @ rest \<noteq> [] \<and> \<not> is_space (hd (name @ rest))" using assms by (auto simp: metric_names is_space_def)
  ultimately show ?thesis by blast
qed

definition harmless :: "string \<Rightarrow> bool" where
  "harmless l \<longleftrightarrow> one_line l \<and> l \<noteq> [] \<and> \<not> is_space (hd l) \<and> \<not> has_prefix l (MetricLastDemand @ ''{'')"

lemma harmless_name: "name \<in> {''# '', MetricPendingHolds, MetricSheddedTotal, MetricDemandDroppedTotal} \<Longrightarrow> one_line (name @ rest) \<Longrightarrow> harmless (name @ rest)"
  using foreign_name unfolding harmless_def by blast

lemma harmless_head: "one_line name \<Longrightarrow> one_line help \<Longrightarrow> one_line kind \<Longrightarrow> list_all harmless (head_lines name help kind)"
  using harmless_name [of "''# ''" "''HELP '' @ name @ help"] harmless_name [of "''# ''" "''TYPE '' @ name @ kind"]
  by (simp add: head_lines_def one_line_simps)

lemma harmless_rows:
  assumes "\<forall>r\<in>set rows. isValidEngineName (sn_engine r)" "name \<in> {MetricPendingHolds, MetricSheddedTotal}"
  shows "list_all harmless (map (\<lambda>r. row_line name (sn_engine r) (f r)) rows)"
proof -
  have "harmless (row_line name (sn_engine r) (f r))" if "r \<in> set rows" for r
  proof -
    have "one_line name" using assms(2) one_line_metrics by auto
    then have "one_line (row_line name (sn_engine r) (f r))" using assms(1) that by (intro one_line_row) auto
    then show ?thesis using assms(2) harmless_name unfolding row_line_def by blast
  qed
  then show ?thesis by (simp add: list_all_iff)
qed

lemma other_lines_clean:
  assumes "\<forall>r\<in>set rows. isValidEngineName (sn_engine r)"
  shows "list_all harmless (other_lines rows n)"
  unfolding other_lines_def list_all_append
proof (intro conjI)
  show "list_all harmless [MetricDemandDroppedTotal @ '' '' @ itoa n]"
    using harmless_name [of MetricDemandDroppedTotal "'' '' @ itoa n"] by (simp add: one_line_simps one_line_metrics)
qed (rule harmless_head harmless_rows [OF assms]; simp add: one_line_simps one_line_metrics)+

lemma head_demand: "l \<in> set (head_lines name help kind) \<Longrightarrow> demand_line l = None"
proof -
  assume "l \<in> set (head_lines name help kind)"
  then obtain cs where l: "l = CHR ''#'' # cs" by (auto simp: head_lines_def)
  have "\<not> is_space (hd l)" "\<not> has_prefix l (MetricLastDemand @ ''{'')" by (simp_all add: l is_space_def has_prefix_def metric_names)
  from foreign_line [OF _ this, of "length l"] l show ?thesis by simp
qed

definition take_line :: "string \<Rightarrow> (string, time) fmap \<Rightarrow> (string, time) fmap" where
  "take_line line out = (case demand_line line of None \<Rightarrow> out | Some (engine, ts) \<Rightarrow> fmupd engine ts out)"

lemma parse_fold: "parseWakeDemand body = fold take_line (split_on newline [] body) fmempty"
  by (simp add: parseWakeDemand_def take_line_def [abs_def])

lemma fold_no_demand: "\<forall>l\<in>set ls. demand_line l = None \<Longrightarrow> fold take_line ls m = m"
  by (induction ls) (auto simp: take_line_def)

lemma fold_rows:
  assumes "\<forall>r\<in>set rows. isValidEngineName (sn_engine r) \<and> in_int64 (sn_last r div second)"
  shows "fold take_line (map (\<lambda>r. row_line MetricLastDemand (sn_engine r) (sn_last r div second)) rows) m =
    fold (\<lambda>r. fmupd (sn_engine r) (sn_last r div second * second)) rows m"
  using assms by (induction rows arbitrary: m) (auto simp: take_line_def demand_row)

lemma fold_upd_lookup:
  "distinct (map k rs) \<Longrightarrow> r \<in> set rs \<Longrightarrow> fmlookup (fold (\<lambda>r. fmupd (k r) (v r)) rs m) (k r) = Some (v r)"
proof (induction rs arbitrary: m)
  case (Cons x rs)
  have other: "fmlookup (fold (\<lambda>r. fmupd (k r) (v r)) rs m) y = fmlookup m y" if "y \<notin> k ` set rs" for m y
    using that by (induction rs arbitrary: m) auto
  show ?case using Cons other [of "k x"] by auto
qed simp

lemma fold_upd_other: "y \<notin> k ` set rs \<Longrightarrow> fmlookup (fold (\<lambda>r. fmupd (k r) (v r)) rs m) y = fmlookup m y"
  by (induction rs arbitrary: m) auto

text \<open>Even with 4096 of the longest names, the samples the operator reads fit below the limit of its reader.\<close>

lemma nat_digits_length: "n < 10 ^ k \<Longrightarrow> 0 < k \<Longrightarrow> length (nat_digits n) \<le> k"
proof (induction n arbitrary: k rule: nat_digits.induct)
  case (1 n)
  show ?case
  proof (cases "n < 10")
    case True
    then show ?thesis using 1(3) by (subst nat_digits.simps) simp
  next
    case False
    with 1(2,3) obtain j where k: "k = Suc j" "0 < j" by (cases k; cases "k - 1") auto
    have "n div 10 < 10 ^ j" using 1(2) k by (simp add: less_mult_imp_div_less mult.commute)
    with 1(1) False k show ?thesis by (subst nat_digits.simps) simp
  qed
qed

lemma itoa_length: "in_int64 i \<Longrightarrow> length (itoa i) \<le> 20"
proof -
  assume i: "in_int64 i"
  then have "i < 10 ^ 19" "- i < 10 ^ 19" by (simp_all add: in_int64_def)
  then have "nat i < 10 ^ 19" "nat (- i) < 10 ^ 19" by (simp_all add: nat_less_iff)
  then have "length (nat_digits (nat i)) \<le> 19" "length (nat_digits (nat (- i))) \<le> 19"
    using nat_digits_length [of "nat i" 19] nat_digits_length [of "nat (- i)" 19] by simp_all
  then show ?thesis by (simp add: itoa_def)
qed

lemma demand_lines_length:
  assumes "\<forall>r\<in>set rows. isValidEngineName (sn_engine r) \<and> in_int64 (sn_last r div second)" "length rows \<le> 4096"
  shows "length (as_lines (demand_lines rows)) \<le> maxDemandResponseBytes"
proof -
  have one: "length (row_line MetricLastDemand (sn_engine r) (sn_last r div second)) \<le> 146" if "r \<in> set rows" for r
  proof -
    have "length (sn_engine r) \<le> 63" using assms(1) that by (auto simp: isValidEngineName_def split: if_splits)
    moreover have "length (itoa (sn_last r div second)) \<le> 20" using itoa_length assms(1) that by blast
    ultimately show ?thesis using assms(1) that by (simp add: row_line_def quote_name metric_names)
  qed
  have "length (as_lines (map (\<lambda>r. row_line MetricLastDemand (sn_engine r) (sn_last r div second)) rows)) \<le> 147 * length rows"
    using one by (induction rows) fastforce+
  also have "\<dots> \<le> 147 * 4096" using assms(2) by simp
  finally show ?thesis by (simp add: demand_lines_def head_lines_def metric_names maxDemandResponseBytes_def)
qed

text \<open>What an exposition says of an engine.\<close>

definition reported :: "time \<Rightarrow> demandTracker \<Rightarrow> string \<Rightarrow> time option" where
  "reported now d e = (if stale now d e then None else map_option whole_second (fmlookup (dt_last d) e))"

lemma exposition_read:
  assumes ok: "tracker_ok rs d c" and stamps: "\<forall>e ts. fmlookup (dt_last d) e = Some ts \<longrightarrow> in_int64 (ts div second)"
  shows "fmlookup (parseWakeDemand (take maxDemandResponseBytes (fst (Render now d)))) e = reported now d e"
proof -
  obtain rows d' where sn: "Snapshot now d = (rows, d')" by force
  let ?keys = "sorted_list_of_set (fset (fmdom (dt_last d')))"
  have last': "dt_last d' = fmfilter (\<lambda>e. \<not> stale now d e) (dt_last d)" by (rule Snapshot_frame(2) [OF sn])
  have rows: "map sn_engine rows = ?keys" "\<forall>r\<in>set rows. fmlookup (dt_last d') (sn_engine r) = Some (sn_last r)"
    using sn by (auto simp: Snapshot_def Let_def comp_def fmlookup_dom_iff)
  have keys: "set ?keys = fset (fmdom (dt_last d'))" by simp
  have good: "\<forall>r\<in>set rows. isValidEngineName (sn_engine r) \<and> in_int64 (sn_last r div second)"
  proof
    fix r assume "r \<in> set rows"
    with rows(2) have "fmlookup (dt_last d) (sn_engine r) = Some (sn_last r)" by (auto simp: last' split: if_splits)
    with ok stamps show "isValidEngineName (sn_engine r) \<and> in_int64 (sn_last r div second)" by (auto simp: tracker_ok_def intro: fmdomI)
  qed
  have len: "length rows \<le> 4096"
  proof -
    have "length rows = card (fset (fmdom (dt_last d')))" using rows(1) by (metis length_map length_sorted_list_of_set)
    also have "\<dots> \<le> fcard (fmdom (dt_last d))" unfolding fcard.rep_eq by (rule card_mono) (auto simp: last')
    finally show ?thesis using ok by (simp add: tracker_ok_def maxTrackedEngines_def)
  qed
  let ?S = "as_lines (demand_lines rows)" and ?O = "as_lines (other_lines rows (dt_dropped d'))"
  have body: "take maxDemandResponseBytes (fst (Render now d)) = ?S @ take (maxDemandResponseBytes - length ?S) ?O"
    using demand_lines_length [OF good len] by (simp add: Render_lines [OF sn])
  let ?rest = "split_on newline [] (take (maxDemandResponseBytes - length ?S) ?O)"
  have valid: "\<forall>r\<in>set rows. isValidEngineName (sn_engine r)" using good by blast
  have "demand_line x = None" if "x \<in> set ?rest" for x
  proof -
    have "x = [] \<or> (\<exists>l\<in>set (other_lines rows (dt_dropped d')). \<exists>n. x = take n l)"
      using split_truncated [OF _ that] other_lines_clean [OF valid] unfolding list_all_iff harmless_def one_line_def by blast
    moreover have "demand_line (take n l) = None" if "l \<in> set (other_lines rows (dt_dropped d'))" for l n
      using other_lines_clean [OF valid] that foreign_line unfolding list_all_iff harmless_def by blast
    moreover have "demand_line [] = None" by (simp add: demand_line_def trim_space_def trim_left_def)
    ultimately show ?thesis by (elim disjE bexE exE) simp_all
  qed
  then have "parseWakeDemand (take maxDemandResponseBytes (fst (Render now d))) = fold take_line (demand_lines rows) fmempty"
    unfolding parse_fold body split_as_lines [OF demand_lines_clean [OF valid]] by (simp add: fold_no_demand)
  also have "\<dots> = fold (\<lambda>r. fmupd (sn_engine r) (sn_last r div second * second)) rows fmempty"
  proof -
    have "fold take_line (head_lines MetricLastDemand h k) m = m" for h k m using fold_no_demand head_demand by blast
    then show ?thesis unfolding demand_lines_def fold_append comp_def by (simp only: fold_rows [OF good])
  qed
  finally have parse: "parseWakeDemand (take maxDemandResponseBytes (fst (Render now d))) =
      fold (\<lambda>r. fmupd (sn_engine r) (sn_last r div second * second)) rows fmempty" .
  show ?thesis
  proof (cases "e \<in> sn_engine ` set rows")
    case True
    then obtain r where r: "r \<in> set rows" "e = sn_engine r" by auto
    have "distinct (map sn_engine rows)" unfolding rows(1) by simp
    note up = fold_upd_lookup [OF this r(1), of "\<lambda>r. sn_last r div second * second" fmempty]
    have "fmlookup (dt_last d) e = Some (sn_last r)" "\<not> stale now d e" using rows(2) r by (auto simp: last' split: if_splits)
    then show ?thesis unfolding parse using up r(2) by (simp add: reported_def whole_second_def)
  next
    case False
    then have "e \<notin> fset (fmdom (dt_last d'))" using rows(1) keys by (metis image_set)
    then have "fmlookup (dt_last d') e = None" by (auto dest: fmdom_notD)
    then have "reported now d e = None" by (auto simp: reported_def last' split: if_splits)
    with fold_upd_other [OF False, of "\<lambda>r. sn_last r div second * second" fmempty] show ?thesis unfolding parse by simp
  qed
qed

text \<open>What an agent reports is what the operator reads: for a tracker in a reachable state, reading the rendered
  exposition, cut at the operator's limit of a mebibyte, gives for every engine the second of its last demand,
  and nothing for an engine that is not tracked or whose demand has expired. Other series, long names and a
  full tracker do not disturb it.\<close>

theorem demand_roundtrip:
  assumes "tracker_ok rs d c" and "\<forall>e ts. fmlookup (dt_last d) e = Some ts \<longrightarrow> in_int64 (ts div second)"
  shows "fmlookup (parseWakeDemand (take maxDemandResponseBytes (fst (Render now d)))) e =
    (if stale now d e then None else map_option whole_second (fmlookup (dt_last d) e))"
  unfolding exposition_read [OF assms] reported_def ..

section \<open>The poll keeps the latest demand\<close>

definition keep_latest :: "demandKey list \<Rightarrow> demandKey \<times> time \<Rightarrow> (demandKey, time) fmap \<Rightarrow> (demandKey, time) fmap" where
  "keep_latest stopped kt fresh = merge_entry stopped (fst (fst kt)) (snd (fst kt), snd kt) fresh"

lemma keep_latest_lookup:
  "fmlookup (keep_latest stopped (k', ts) m) k =
     (if k' = k \<and> k \<in> set stopped then Some (case fmlookup m k of None \<Rightarrow> ts | Some p \<Rightarrow> max p ts) else fmlookup m k)"
  by (cases k'; cases k) (auto simp: keep_latest_def merge_entry_def max_def split: option.splits)

text \<open>The stamps a map and a list of reports have for a key.\<close>

definition stamps :: "(demandKey, time) fmap \<Rightarrow> (demandKey \<times> time) list \<Rightarrow> demandKey \<Rightarrow> time set" where
  "stamps m xs k = set_option (fmlookup m k) \<union> {ts. (k, ts) \<in> set xs}"

lemma fold_latest:
  assumes "k \<in> set stopped"
  shows "fmlookup (fold (keep_latest stopped) xs m) k = Some t \<longleftrightarrow> t \<in> stamps m xs k \<and> (\<forall>t'\<in>stamps m xs k. t' \<le> t)"
proof (induction xs arbitrary: m)
  case Nil
  then show ?case by (auto simp: stamps_def)
next
  case (Cons x xs)
  obtain k' ts where x: "x = (k', ts)" by (metis surj_pair)
  have "t \<in> stamps (keep_latest stopped (k', ts) m) xs k \<and> (\<forall>t'\<in>stamps (keep_latest stopped (k', ts) m) xs k. t' \<le> t)
    \<longleftrightarrow> t \<in> stamps m (x # xs) k \<and> (\<forall>t'\<in>stamps m (x # xs) k. t' \<le> t)"
  proof (cases "k' = k")
    case True
    then show ?thesis using assms by (cases "fmlookup m k") (auto simp: stamps_def keep_latest_lookup x max_def split: if_splits)
  next
    case False
    then show ?thesis by (auto simp: stamps_def keep_latest_lookup x)
  qed
  then show ?case using Cons.IH [of "keep_latest stopped (k', ts) m"] by (simp add: x)
qed

lemma fold_unstopped: "k \<notin> set stopped \<Longrightarrow> fmlookup (fold (keep_latest stopped) xs m) k = fmlookup m k"
proof (induction xs arbitrary: m)
  case (Cons x xs)
  then show ?case by (cases x) (simp add: keep_latest_lookup)
qed simp

definition reports_of :: "string \<times> gateway_pod \<Rightarrow> (demandKey \<times> time) list" where
  "reports_of = (\<lambda>(ns, pod). case scrapeAgent pod of None \<Rightarrow> []
     | Some body \<Rightarrow> map (\<lambda>(e, ts). ((ns, e), ts)) (entries (parseWakeDemand body)))"

lemma fold_map_entries: "fold (merge_entry stopped ns) es m = fold (keep_latest stopped) (map (\<lambda>(e, ts). ((ns, e), ts)) es) m"
  by (induction es arbitrary: m) (auto simp: keep_latest_def)

lemma merge_scrape_reports: "merge_scrape stopped x m = fold (keep_latest stopped) (reports_of x) m"
  by (cases x) (simp add: merge_scrape_def reports_of_def fold_map_entries split: option.splits)

lemma fold_scrapes: "fold (merge_scrape stopped) xs m = fold (keep_latest stopped) (concat (map reports_of xs)) m"
  by (induction xs arbitrary: m) (auto simp: merge_scrape_reports)

lemma entries_iff: "(e, ts) \<in> set (entries m) \<longleftrightarrow> fmlookup m e = Some ts"
  by (auto simp: entries_def fmlookup_dom_iff image_iff)

text \<open>A running gateway pod of the namespace reports a stamp for the engine.\<close>

definition pod_reports :: "(string \<Rightarrow> engine_error + gateway_pod list) \<Rightarrow> string \<Rightarrow> string \<Rightarrow> time \<Rightarrow> bool" where
  "pod_reports pods ns e ts \<longleftrightarrow>
     (\<exists>ps p body. gatewayPods (pods ns) = Inr ps \<and> p \<in> set ps \<and> scrapeAgent p = Some body \<and> fmlookup (parseWakeDemand body) e = Some ts)"

lemma target_reports:
  assumes "(ns, e) \<in> set stopped"
  shows "((ns, e), ts) \<in> set (concat (map reports_of (poll_targets pods stopped))) \<longleftrightarrow> pod_reports pods ns e ts"
proof -
  have mem: "(ns', p) \<in> set (poll_targets pods stopped) \<longleftrightarrow>
      ns' \<in> fst ` set stopped \<and> (\<exists>ps. gatewayPods (pods ns') = Inr ps \<and> p \<in> set ps)" for ns' p
  proof (cases "gatewayPods (pods ns')")
    case (Inl x)
    then show ?thesis by (auto simp: poll_targets_def split: sum.splits)
  next
    case (Inr ps)
    then show ?thesis by (force simp: poll_targets_def split: sum.splits)
  qed
  have rep: "((ns, e), ts) \<in> set (reports_of (ns', p)) \<longleftrightarrow> ns' = ns \<and> (\<exists>body. scrapeAgent p = Some body \<and> fmlookup (parseWakeDemand body) e = Some ts)" for ns' p
    by (cases "scrapeAgent p") (auto simp: reports_of_def entries_iff image_iff Bex_def)
  have all: "((ns, e), ts) \<in> set (concat (map reports_of T)) \<longleftrightarrow> (\<exists>ns' p. (ns', p) \<in> set T \<and> ((ns, e), ts) \<in> set (reports_of (ns', p)))" for T
    by auto
  have "ns \<in> fst ` set stopped" using assms by force
  then show ?thesis unfolding all mem rep pod_reports_def by blast
qed

lemma poll_lookup:
  assumes "\<forall>xs. set (order xs) = set xs"
  shows "LastDemand (fst (pollOnce order (Inr es) pods t)) ns e = Some ts \<longleftrightarrow>
    (ns, e) \<in> set (stoppedEngines t es) \<and> pod_reports pods ns e ts \<and> (\<forall>ts'. pod_reports pods ns e ts' \<longrightarrow> ts' \<le> ts)"
proof -
  let ?st = "stoppedEngines t es"
  let ?xs = "concat (map reports_of (order (poll_targets pods ?st)))"
  have look: "LastDemand (fst (pollOnce order (Inr es) pods t)) ns e = (if ?st = [] then None else fmlookup (fold (keep_latest ?st) ?xs fmempty) (ns, e))"
    by (simp add: pollOnce_def LastDemand_def replace_def fold_scrapes Let_def)
  show ?thesis
  proof (cases "(ns, e) \<in> set ?st")
    case True
    have "stamps fmempty ?xs (ns, e) = {ts. pod_reports pods ns e ts}"
      using target_reports [OF True] assms by (auto simp: stamps_def)
    with True look fold_latest [OF True, of ?xs fmempty ts] show ?thesis by auto
  next
    case False
    with look fold_unstopped [OF False, of ?xs fmempty] show ?thesis by auto
  qed
qed

text \<open>C40. The poll keeps the latest demand: in whatever order the concurrent scrapes finish, an engine's cached demand is
  the newest stamp that any running gateway pod of its namespace reported, provided the engine is at zero
  replicas in a watched namespace; no other engine has one.\<close>

theorem poll_keeps_latest_demand:
  assumes "\<forall>xs. set (order xs) = set xs"
  shows "LastDemand (fst (pollOnce order (Inr es) pods t)) ns e = Some ts \<longleftrightarrow>
    (\<exists>en\<in>set es. le_namespace en = ns \<and> le_name en = e \<and> le_replicas en = 0 \<and> watches t ns) \<and>
    pod_reports pods ns e ts \<and> (\<forall>ts'. pod_reports pods ns e ts' \<longrightarrow> ts' \<le> ts)"
  using poll_lookup [OF assms] by (auto simp: stoppedEngines_def)

section \<open>From a query to the replicas\<close>

lemma parsed_whole: "fmlookup (parseWakeDemand body) e = Some ts \<Longrightarrow> ts mod second = 0"
proof -
  have *: "fmlookup (fold take_line ls m) e = Some ts \<Longrightarrow> (\<And>k v. fmlookup m k = Some v \<Longrightarrow> v mod second = 0) \<Longrightarrow> ts mod second = 0" for ls m
  proof (induction ls arbitrary: m)
    case (Cons l ls)
    have "v mod second = 0" if "fmlookup (take_line l m) k = Some v" for k v
      using that Cons.prems(2) by (auto simp: take_line_def demand_line_def Let_def bind_eq_Some_conv split: option.splits if_splits)
    with Cons show ?case by simp
  qed simp
  show "fmlookup (parseWakeDemand body) e = Some ts \<Longrightarrow> ts mod second = 0"
    using * [of "split_on newline [] body" fmempty] by (simp add: parse_fold)
qed

lemma finite_reports: "finite {ts. pod_reports pods ns e ts}"
proof (cases "gatewayPods (pods ns)")
  case (Inr ps)
  have "{ts. pod_reports pods ns e ts} \<subseteq> (\<lambda>p. the (fmlookup (parseWakeDemand (the (scrapeAgent p))) e)) ` set ps"
    by (force simp: pod_reports_def Inr)
  then show ?thesis by (rule finite_subset) simp
qed (simp add: pod_reports_def)

text \<open>C34. A query at a gateway wakes its engine: an agent in a reachable state has a demand for the engine on record; a
  poll reads that agent among any other pods, some of which may fail or report anything not in the future; then
  the next auto-stop step on the stopped engine, within the time a demand is honoured and against a server that
  accepts its writes, asks for the active replicas.\<close>

theorem query_wakes_engine:
  assumes "tracker_ok rs d c" and "\<forall>e ts. fmlookup (dt_last d) e = Some ts \<longrightarrow> in_int64 (ts div second)"
    and "fmlookup (dt_last d) e = Some asked" and "\<not> stale scraped d e"
    and "gatewayPods (pods ns) = Inr ps" and "p \<in> set ps" and "gp_scrape p = Inr (fst (Render scraped d))"
    and "(ns, e) \<in> set (stoppedEngines t es)" and "\<forall>xs. set (order xs) = set xs"
    and "\<forall>ts. pod_reports pods ns e ts \<longrightarrow> ts \<le> now" and "now - whole_second asked < DefaultAutoStopWakeTTL"
    and "\<forall>w. es_lastWakeDemandTime (sy_status s) = Some w \<longrightarrow> w < whole_second asked"
    and "effectiveAutoStop (sy_spec s) ci = Some as" and "as_enabled as" and "terminal (es_phase (sy_status s))"
    and "sp_replicas (sy_spec s) = 0"
  shows "\<exists>r s'. runAutoStop pd rd (willing_api (LastDemand (fst (pollOnce order (Inr es) pods t)) ns e)) now later e ci s = (None, r, s') \<and>
    sp_replicas (sy_spec s') = as_activeReplicas as"
proof -
  have "pod_reports pods ns e (whole_second asked)"
    unfolding pod_reports_def
    using assms(3-7) exposition_read [OF assms(1,2), of scraped e] by (auto simp: scrapeAgent_def reported_def)
  then have ne: "{ts. pod_reports pods ns e ts} \<noteq> {}" by auto
  define ts where "ts = Max {ts. pod_reports pods ns e ts}"
  have mx: "pod_reports pods ns e ts" "\<forall>ts'. pod_reports pods ns e ts' \<longrightarrow> ts' \<le> ts"
    using Max_in [OF finite_reports ne] Max_ge [OF finite_reports] by (auto simp: ts_def)
  have last: "LastDemand (fst (pollOnce order (Inr es) pods t)) ns e = Some ts"
    using poll_lookup [OF assms(9)] assms(8) mx by blast
  have le: "whole_second asked \<le> ts" "ts \<le> now" using mx assms(10) \<open>pod_reports pods ns e (whole_second asked)\<close> by auto
  have ttl: "time_sub now ts < DefaultAutoStopWakeTTL"
    using le assms(11) by (auto simp: time_sub_def DefaultAutoStopWakeTTL_def minute_def second_def max_def min_def split: if_splits)
  have fresh: "freshWakeDemand (sy_status s) (Some ts) now = Some ts"
    using le ttl assms(12) by (fastforce simp: freshWakeDemand_def Let_def split: option.splits)
  have "ts mod second = 0" using mx(1) parsed_whole by (auto simp: pod_reports_def)
  with fresh have "\<forall>x. freshWakeDemand (sy_status s) (Some ts) now = Some x \<longrightarrow> x mod second = 0" by simp
  from demand_wakes [OF assms(13-16) _ this] fresh show ?thesis unfolding last by blast
qed

section \<open>Witnesses\<close>

definition ex_tracker :: demandTracker where
  "ex_tracker = (newDemandTracker (600 * second))\<lparr>dt_last := fmupd ''db'' (100 * second) fmempty\<rparr>"

definition ex_limiter :: capacityLimiter where
  "ex_limiter = \<lparr>cl_memoryLimit = 0, cl_perHold = 0, cl_fallbackCap = 256, cl_allocated = 0, cl_lastRead = None\<rparr>"

lemma ex_tracker_ok: "tracker_ok fmempty ex_tracker ex_limiter"
  by (simp add: tracker_ok_def ex_tracker_def newDemandTracker_def ex_limiter_def ex_valid PendingTotal_def maxTrackedEngines_def maxIntCap_def
      fcard_finsert_if fcard_fempty)

lemma ex_stamp: "\<forall>e ts. fmlookup (dt_last ex_tracker) e = Some ts \<longrightarrow> in_int64 (ts div second)"
  by (simp add: ex_tracker_def newDemandTracker_def in_int64_def second_def)

lemma ex_not_stale: "\<not> stale (120 * second) ex_tracker ''db''"
  by (simp add: stale_def ex_tracker_def newDemandTracker_def second_def)

lemma ex_whole: "whole_second (100 * second) = 100 * second"
  by (simp add: whole_second_def second_def)

lemma demand_roundtrip_witness:
  "fmlookup (parseWakeDemand (take maxDemandResponseBytes (fst (Render (120 * second) ex_tracker)))) ''db'' = Some (100 * second)"
proof -
  have "fmlookup (dt_last ex_tracker) ''db'' = Some (100 * second)" by (simp add: ex_tracker_def)
  with demand_roundtrip [OF ex_tracker_ok ex_stamp, of "120 * second" "''db''"] ex_not_stale show ?thesis by (simp add: ex_whole)
qed

definition ex_gateways :: "string \<Rightarrow> engine_error + gateway_pod list" where
  "ex_gateways ns = Inr [\<lparr>gp_phase = ''Running'', gp_podIP = ''10.0.0.1'', gp_scrape = Inr (fst (Render (120 * second) ex_tracker))\<rparr>,
     \<lparr>gp_phase = ''Running'', gp_podIP = ''10.0.0.2'', gp_scrape = Inl (ApiError ''timeout'')\<rparr>]"

definition ex_engines :: "listed_engine list" where
  "ex_engines = [\<lparr>le_namespace = ''ns'', le_name = ''db'', le_replicas = 0\<rparr>]"

definition ex_poller :: WakeDemandTracker where
  "ex_poller = \<lparr>wt_namespaces = [], wt_demand = fmempty\<rparr>"

lemma ex_pods_listed: "gatewayPods (ex_gateways ns) = ex_gateways ns"
  by (simp add: gatewayPods_def ex_gateways_def PodRunning_def)

lemma ex_reports: "pod_reports ex_gateways ns ''db'' ts \<longleftrightarrow> ts = 100 * second"
proof -
  have "fmlookup (dt_last ex_tracker) ''db'' = Some (100 * second)" by (simp add: ex_tracker_def)
  with exposition_read [OF ex_tracker_ok ex_stamp, of "120 * second" "''db''"] ex_not_stale
  have "fmlookup (parseWakeDemand (take maxDemandResponseBytes (fst (Render (120 * second) ex_tracker)))) ''db'' = Some (100 * second)"
    by (simp add: reported_def ex_whole)
  then show ?thesis by (auto simp: pod_reports_def ex_pods_listed [unfolded ex_gateways_def] ex_gateways_def scrapeAgent_def)
qed

lemma poll_keeps_latest_demand_witness:
  "LastDemand (fst (pollOnce rev (Inr ex_engines) ex_gateways ex_poller)) ''ns'' ''db'' = Some (100 * second)"
  using poll_keeps_latest_demand [of rev ex_engines ex_gateways ex_poller "''ns''" "''db''" "100 * second"]
  by (simp add: ex_reports ex_engines_def ex_poller_def watches_def)

lemma query_wakes_engine_witness:
  "\<exists>r s'. runAutoStop ex_pd ex_idle_reader (willing_api (LastDemand (fst (pollOnce rev (Inr ex_engines) ex_gateways ex_poller)) ''ns'' ''db''))
     (130 * second) (131 * second) ''db'' None ex_stopped = (None, r, s') \<and> sp_replicas (sy_spec s') = 2"
proof -
  let ?p = "\<lparr>gp_phase = ''Running'', gp_podIP = ''10.0.0.1'', gp_scrape = Inr (fst (Render (120 * second) ex_tracker))\<rparr>"
  have ps: "gatewayPods (ex_gateways ''ns'') = Inr [?p, \<lparr>gp_phase = ''Running'', gp_podIP = ''10.0.0.2'', gp_scrape = Inl (ApiError ''timeout'')\<rparr>]"
    by (simp add: ex_pods_listed) (simp add: ex_gateways_def)
  have st: "(''ns'', ''db'') \<in> set (stoppedEngines ex_poller ex_engines)" by (simp add: stoppedEngines_def ex_engines_def ex_poller_def watches_def)
  have reps: "\<forall>ts. pod_reports ex_gateways ''ns'' ''db'' ts \<longrightarrow> ts \<le> 130 * second" by (simp add: ex_reports second_def)
  have ttl: "130 * second - whole_second (100 * second) < DefaultAutoStopWakeTTL"
    unfolding ex_whole by (simp add: DefaultAutoStopWakeTTL_def minute_def second_def)
  have fresh: "\<forall>w. es_lastWakeDemandTime (sy_status ex_stopped) = Some w \<longrightarrow> w < whole_second (100 * second)"
    by (simp add: ex_stopped_def ex_status_def)
  have asked: "fmlookup (dt_last ex_tracker) ''db'' = Some (100 * second)" by (simp add: ex_tracker_def)
  have "as_activeReplicas ex_policy = 2" by (simp add: ex_policy_def)
  with query_wakes_engine [OF ex_tracker_ok ex_stamp asked ex_not_stale ps _ _ st _ reps ttl fresh ex_settings(2,3,5,7), of ?p rev ex_pd ex_idle_reader "131 * second"]
  show ?thesis by simp
qed

end
