(* ===== verification/Operator_Authority.thy ===== *)
theory Operator_Authority
  imports Engine_Config
begin

text \<open>
  The fields the operator owns (\<open>src/api/v1alpha1/operatorauthority.go\<close>): the rules a user-supplied pod template
  is checked against for each component, the walk over a template, and the references to Secrets a template can
  make. The gates of \<open>engine_controller.go\<close> that run these checks on the templates of one engine close the theory.

  An error keeps its kind and the path of the field; the explanation is left out.
\<close>

section \<open>Errors and paths\<close>

datatype field_error = Forbidden string | Required string | Invalid string | Duplicate string
  | NotSupported string | NotFound string | InternalError string

definition path_child :: "string \<Rightarrow> string \<Rightarrow> string" where "path_child p n = p @ ''.'' @ n"
definition path_key :: "string \<Rightarrow> string \<Rightarrow> string" where "path_key p k = p @ ''['' @ k @ '']''"
definition path_index :: "string \<Rightarrow> nat \<Rightarrow> string" where "path_index p i = path_key p (itoa (int i))"

definition forbid :: "bool \<Rightarrow> string \<Rightarrow> field_error list" where
  "forbid b p = (if b then [Forbidden p] else [])"

lemma forbid_empty [simp]: "forbid b p = [] \<longleftrightarrow> \<not> b"
  by (simp add: forbid_def)

text \<open>A check of each element of a slice at its index.\<close>

definition at_each :: "(string \<Rightarrow> 'a \<Rightarrow> field_error list) \<Rightarrow> string \<Rightarrow> 'a list \<Rightarrow> field_error list" where
  "at_each f base xs = concat (map (\<lambda>(i, x). f (path_index base i) x) (List.enumerate 0 xs))"

lemma at_each_empty: "at_each f base xs = [] \<longleftrightarrow> (\<forall>i < length xs. f (path_index base i) (xs ! i) = [])"
  by (simp add: at_each_def all_set_conv_all_nth nth_enumerate_eq)

section \<open>Names\<close>

definition ReservedFireboltKeyPrefix :: string where "ReservedFireboltKeyPrefix = ''firebolt.io/''"
definition GatewayContainerName :: string where "GatewayContainerName = ''envoy''"
definition MetadataContainerName :: string where "MetadataContainerName = ''metadata''"
definition GatewayWakeAgentContainerName :: string where "GatewayWakeAgentContainerName = ''wake-agent''"

definition operatorOwnedEngineEnvKeys :: "string list" where
  "operatorOwnedEngineEnvKeys = [EnginePodIndexEnvKey, EngineAwsEC2MetadataClientEnabledEnvKey]"

definition operatorOwnedMetadataEnvKeys :: "string list" where
  "operatorOwnedMetadataEnvKeys =
     [''POSTGRES_USERNAME_FILE'', ''POSTGRES_PASSWORD_FILE'', ''PGSSLMODE'', ''PGSSLROOTCERT'']"

definition operatorOwnedEngineVolumeNames :: "string list" where
  "operatorOwnedEngineVolumeNames =
     [EngineConfigVolumeName, DataVolumeName, EngineRuntimeVolumeName, EngineAuthAdminVolumeName, EngineTLSVolumeName]"

definition operatorOwnedEngineSecretVolumeNames :: "string list" where
  "operatorOwnedEngineSecretVolumeNames = [EngineAuthAdminVolumeName, EngineTLSVolumeName]"

definition GatewayConfigVolumeName :: string where "GatewayConfigVolumeName = ''config-volume''"
definition GatewayTmpVolumeName :: string where "GatewayTmpVolumeName = ''tmp''"
definition GatewayEngineCAVolumeName :: string where "GatewayEngineCAVolumeName = ''engine-ca''"
definition GatewayTLSVolumeName :: string where "GatewayTLSVolumeName = ''tls-gateway''"
definition GatewayClientCAVolumeName :: string where "GatewayClientCAVolumeName = ''client-ca''"
definition GatewayEngineCRLVolumeName :: string where "GatewayEngineCRLVolumeName = ''engine-crl''"
definition GatewayClientCRLVolumeName :: string where "GatewayClientCRLVolumeName = ''client-crl''"
definition GatewayWakeAgentTokenVolumeName :: string where "GatewayWakeAgentTokenVolumeName = ''wake-agent-token''"

lemmas gateway_volume_names =
  GatewayConfigVolumeName_def GatewayTmpVolumeName_def GatewayEngineCAVolumeName_def GatewayTLSVolumeName_def
  GatewayClientCAVolumeName_def GatewayEngineCRLVolumeName_def GatewayClientCRLVolumeName_def
  GatewayWakeAgentTokenVolumeName_def

definition operatorOwnedGatewaySecretVolumeNames :: "string list" where
  "operatorOwnedGatewaySecretVolumeNames =
     [GatewayEngineCAVolumeName, GatewayTLSVolumeName, GatewayClientCAVolumeName, GatewayEngineCRLVolumeName,
      GatewayClientCRLVolumeName, GatewayWakeAgentTokenVolumeName]"

definition operatorOwnedGatewayVolumeNames :: "string list" where
  "operatorOwnedGatewayVolumeNames =
     [GatewayConfigVolumeName, GatewayTmpVolumeName, GatewayEngineCAVolumeName, GatewayTLSVolumeName,
      GatewayClientCAVolumeName, GatewayEngineCRLVolumeName, GatewayClientCRLVolumeName, GatewayWakeAgentTokenVolumeName]"

definition operatorOwnedMetadataVolumeNames :: "string list" where
  "operatorOwnedMetadataVolumeNames = [''config'', ''postgres-creds'', ''postgres-ca'', ''tmp'']"

definition operatorOwnedMetadataSecretVolumeNames :: "string list" where
  "operatorOwnedMetadataSecretVolumeNames = [''postgres-creds'', ''postgres-ca'']"

section \<open>Rules\<close>

record primary_container_fields =
  pf_image :: bool
  pf_resources :: bool
  pf_env :: bool
  pf_envFrom :: bool
  pf_volumeMounts :: bool
  pf_securityContext :: bool
  pf_lifecycle :: bool
  pf_workingDir :: bool
  pf_terminationMessagePath :: bool
  pf_terminationMessagePolicy :: bool
  pf_volumeDevices :: bool
  pf_resizePolicy :: bool

record pod_template_rules =
  tr_component :: string
  tr_primaryContainerName :: string
  tr_allowedPrimaryFields :: primary_container_fields
  tr_reservedPrimaryEnvKeys :: "string list"
  tr_reservedPrimaryVolumeMountNames :: "string list"
  tr_secretBackedVolumeMountNames :: "string list"
  tr_allowSidecars :: bool
  tr_allowInitContainers :: bool
  tr_reservedContainerNames :: "string list"

definition FireboltEngineClassPodTemplateRules :: pod_template_rules where
  "FireboltEngineClassPodTemplateRules =
     \<lparr>tr_component = ''engine'', tr_primaryContainerName = EngineContainerName,
      tr_allowedPrimaryFields = \<lparr>pf_image = True, pf_resources = True, pf_env = True, pf_envFrom = True,
        pf_volumeMounts = True, pf_securityContext = True, pf_lifecycle = True, pf_workingDir = True,
        pf_terminationMessagePath = True, pf_terminationMessagePolicy = True, pf_volumeDevices = True,
        pf_resizePolicy = True\<rparr>,
      tr_reservedPrimaryEnvKeys = operatorOwnedEngineEnvKeys,
      tr_reservedPrimaryVolumeMountNames = operatorOwnedEngineVolumeNames,
      tr_secretBackedVolumeMountNames = operatorOwnedEngineSecretVolumeNames,
      tr_allowSidecars = True, tr_allowInitContainers = True, tr_reservedContainerNames = [EngineWebContainerName]\<rparr>"

text \<open>Gateway and metadata allow only image and resources on their own container.\<close>

definition image_and_resources :: primary_container_fields where
  "image_and_resources =
     \<lparr>pf_image = True, pf_resources = True, pf_env = False, pf_envFrom = False, pf_volumeMounts = False,
      pf_securityContext = False, pf_lifecycle = False, pf_workingDir = False, pf_terminationMessagePath = False,
      pf_terminationMessagePolicy = False, pf_volumeDevices = False, pf_resizePolicy = False\<rparr>"

definition GatewayPodTemplateRules :: pod_template_rules where
  "GatewayPodTemplateRules =
     \<lparr>tr_component = ''gateway'', tr_primaryContainerName = GatewayContainerName,
      tr_allowedPrimaryFields = image_and_resources, tr_reservedPrimaryEnvKeys = [],
      tr_reservedPrimaryVolumeMountNames = operatorOwnedGatewayVolumeNames,
      tr_secretBackedVolumeMountNames = operatorOwnedGatewaySecretVolumeNames,
      tr_allowSidecars = True, tr_allowInitContainers = True,
      tr_reservedContainerNames = [GatewayWakeAgentContainerName]\<rparr>"

definition MetadataPodTemplateRules :: pod_template_rules where
  "MetadataPodTemplateRules =
     \<lparr>tr_component = ''metadata'', tr_primaryContainerName = MetadataContainerName,
      tr_allowedPrimaryFields = image_and_resources,
      tr_reservedPrimaryEnvKeys = operatorOwnedMetadataEnvKeys,
      tr_reservedPrimaryVolumeMountNames = operatorOwnedMetadataVolumeNames,
      tr_secretBackedVolumeMountNames = operatorOwnedMetadataSecretVolumeNames,
      tr_allowSidecars = True, tr_allowInitContainers = True, tr_reservedContainerNames = []\<rparr>"

section \<open>The walk\<close>

definition isReservedKey :: "string \<Rightarrow> string list \<Rightarrow> bool" where
  "isReservedKey name reserved \<longleftrightarrow> List.member reserved name"

definition isReservedVolumeMountName :: "string \<Rightarrow> string list \<Rightarrow> bool" where
  "isReservedVolumeMountName name reserved \<longleftrightarrow>
     has_prefix name EngineAuthSigningVolumeNamePrefix \<or> isReservedKey name reserved"

definition ValidateReservedKeyPrefix :: "string \<Rightarrow> (string, string) gomap \<Rightarrow> field_error list" where
  "ValidateReservedKeyPrefix path m =
     map (\<lambda>k. Forbidden (path_key path k))
       (filter (\<lambda>k. has_prefix k ReservedFireboltKeyPrefix) (sorted_list_of_fset (fmdom (mitems m))))"

definition validatePodTemplateMetadata :: "template_meta \<Rightarrow> string \<Rightarrow> field_error list" where
  "validatePodTemplateMetadata meta base =
     forbid (tm_name meta \<noteq> []) (path_child base ''name'')
     @ forbid (tm_generateName meta \<noteq> []) (path_child base ''generateName'')
     @ forbid (tm_namespace meta \<noteq> []) (path_child base ''namespace'')
     @ forbid (tm_uid meta \<noteq> []) (path_child base ''uid'')
     @ forbid (tm_resourceVersion meta \<noteq> []) (path_child base ''resourceVersion'')
     @ forbid (tm_generation meta \<noteq> 0) (path_child base ''generation'')
     @ forbid (tm_creationTimestamp meta \<noteq> None) (path_child base ''creationTimestamp'')
     @ forbid (tm_deletionTimestamp meta \<noteq> None) (path_child base ''deletionTimestamp'')
     @ forbid (tm_deletionGracePeriodSeconds meta \<noteq> None) (path_child base ''deletionGracePeriodSeconds'')
     @ forbid (tm_ownerReferences meta \<noteq> []) (path_child base ''ownerReferences'')
     @ forbid (tm_finalizers meta \<noteq> []) (path_child base ''finalizers'')
     @ forbid (tm_managedFields meta \<noteq> []) (path_child base ''managedFields'')"

definition validateUniversalPodFields :: "pod_spec \<Rightarrow> string \<Rightarrow> field_error list" where
  "validateUniversalPodFields spec base =
     forbid (p_terminationGracePeriodSeconds spec \<noteq> None) (path_child base ''terminationGracePeriodSeconds'')
     @ forbid (p_subdomain spec \<noteq> []) (path_child base ''subdomain'')
     @ forbid (p_hostname spec \<noteq> []) (path_child base ''hostname'')
     @ forbid (p_restartPolicy spec \<noteq> []) (path_child base ''restartPolicy'')
     @ forbid (p_activeDeadlineSeconds spec \<noteq> None) (path_child base ''activeDeadlineSeconds'')
     @ forbid (p_hostNetwork spec) (path_child base ''hostNetwork'')
     @ forbid (p_hostPID spec) (path_child base ''hostPID'')
     @ forbid (p_hostIPC spec) (path_child base ''hostIPC'')
     @ forbid (p_shareProcessNamespace spec \<noteq> None) (path_child base ''shareProcessNamespace'')
     @ forbid (p_hostUsers spec \<noteq> None) (path_child base ''hostUsers'')"

definition validatePrimaryHardcodedRejects :: "container \<Rightarrow> string \<Rightarrow> field_error list" where
  "validatePrimaryHardcodedRejects c base =
     forbid (sitems (c_command c) \<noteq> []) (path_child base ''command'')
     @ forbid (sitems (c_args c) \<noteq> []) (path_child base ''args'')
     @ forbid (sitems (c_ports c) \<noteq> []) (path_child base ''ports'')
     @ forbid (c_readinessProbe c \<noteq> None) (path_child base ''readinessProbe'')
     @ forbid (c_livenessProbe c \<noteq> None) (path_child base ''livenessProbe'')
     @ forbid (c_startupProbe c \<noteq> None) (path_child base ''startupProbe'')"

definition validatePrimaryInteractiveRejects :: "container \<Rightarrow> string \<Rightarrow> field_error list" where
  "validatePrimaryInteractiveRejects c base =
     forbid (c_restartPolicy c \<noteq> None) (path_child base ''restartPolicy'')
     @ forbid (c_stdin c) (path_child base ''stdin'')
     @ forbid (c_stdinOnce c) (path_child base ''stdinOnce'')
     @ forbid (c_tty c) (path_child base ''tty'')"

definition validatePrimaryAllowlistedScalars ::
  "container \<Rightarrow> string \<Rightarrow> pod_template_rules \<Rightarrow> field_error list" where
  "validatePrimaryAllowlistedScalars c base rules =
     (let allowed = tr_allowedPrimaryFields rules
      in forbid (\<not> pf_image allowed \<and> (c_image c \<noteq> [] \<or> c_imagePullPolicy c \<noteq> [])) (path_child base ''image'')
         @ forbid (\<not> pf_resources allowed \<and> HasContainerResources (c_resources c)) (path_child base ''resources'')
         @ forbid (\<not> pf_securityContext allowed \<and> c_securityContext c \<noteq> None) (path_child base ''securityContext'')
         @ forbid (\<not> pf_lifecycle allowed \<and> c_lifecycle c \<noteq> None) (path_child base ''lifecycle''))"

definition validatePrimaryAllowlistedSlices ::
  "container \<Rightarrow> string \<Rightarrow> pod_template_rules \<Rightarrow> field_error list" where
  "validatePrimaryAllowlistedSlices c base rules =
     (let allowed = tr_allowedPrimaryFields rules
      in (if pf_env allowed
          then at_each (\<lambda>p e. forbid (isReservedKey (ev_name e) (tr_reservedPrimaryEnvKeys rules)) (path_child p ''name''))
                 (path_child base ''env'') (sitems (c_env c))
          else forbid (sitems (c_env c) \<noteq> []) (path_child base ''env''))
         @ forbid (\<not> pf_envFrom allowed \<and> sitems (c_envFrom c) \<noteq> []) (path_child base ''envFrom'')
         @ (if pf_volumeMounts allowed
            then at_each (\<lambda>p m. forbid (isReservedVolumeMountName (vm_name m) (tr_reservedPrimaryVolumeMountNames rules))
                                 (path_child p ''name''))
                   (path_child base ''volumeMounts'') (sitems (c_volumeMounts c))
            else forbid (sitems (c_volumeMounts c) \<noteq> []) (path_child base ''volumeMounts'')))"

definition validatePrimaryAllowlistedExtras ::
  "container \<Rightarrow> string \<Rightarrow> pod_template_rules \<Rightarrow> field_error list" where
  "validatePrimaryAllowlistedExtras c base rules =
     (let allowed = tr_allowedPrimaryFields rules
      in forbid (\<not> pf_workingDir allowed \<and> c_workingDir c \<noteq> []) (path_child base ''workingDir'')
         @ forbid (\<not> pf_terminationMessagePath allowed \<and> c_terminationMessagePath c \<noteq> [])
             (path_child base ''terminationMessagePath'')
         @ forbid (\<not> pf_terminationMessagePolicy allowed \<and> c_terminationMessagePolicy c \<noteq> [])
             (path_child base ''terminationMessagePolicy'')
         @ forbid (\<not> pf_volumeDevices allowed \<and> sitems (c_volumeDevices c) \<noteq> []) (path_child base ''volumeDevices'')
         @ forbid (\<not> pf_resizePolicy allowed \<and> sitems (c_resizePolicy c) \<noteq> []) (path_child base ''resizePolicy''))"

definition validatePrimaryContainerFields ::
  "container \<Rightarrow> string \<Rightarrow> pod_template_rules \<Rightarrow> field_error list" where
  "validatePrimaryContainerFields c base rules =
     validatePrimaryHardcodedRejects c base @ validatePrimaryInteractiveRejects c base
     @ validatePrimaryAllowlistedScalars c base rules @ validatePrimaryAllowlistedSlices c base rules
     @ validatePrimaryAllowlistedExtras c base rules"

definition validateReservedVolumeMounts :: "container \<Rightarrow> string \<Rightarrow> pod_template_rules \<Rightarrow> field_error list" where
  "validateReservedVolumeMounts c base rules =
     at_each (\<lambda>p m. forbid (isReservedVolumeMountName (vm_name m) (tr_secretBackedVolumeMountNames rules))
                     (path_child p ''name''))
       (path_child base ''volumeMounts'') (sitems (c_volumeMounts c))"

fun containers_loop ::
  "pod_template_rules \<Rightarrow> string \<Rightarrow> nat \<Rightarrow> bool \<Rightarrow> container list \<Rightarrow> field_error list" where
  "containers_loop rules base i primarySeen [] = []"
| "containers_loop rules base i primarySeen (c # cs) =
     (let path = path_index base i
      in if c_name c = tr_primaryContainerName rules then
           (if primarySeen then Duplicate (path_child path ''name'') # containers_loop rules base (Suc i) True cs
            else validatePrimaryContainerFields c path rules @ containers_loop rules base (Suc i) True cs)
         else (if List.member (tr_reservedContainerNames rules) (c_name c) then [Forbidden (path_child path ''name'')]
               else if \<not> tr_allowSidecars rules then [Forbidden path]
               else validateReservedVolumeMounts c path rules)
              @ containers_loop rules base (Suc i) primarySeen cs)"

definition validateContainersAgainstRules ::
  "container list \<Rightarrow> string \<Rightarrow> pod_template_rules \<Rightarrow> field_error list" where
  "validateContainersAgainstRules containers base rules = containers_loop rules base 0 False containers"

definition validateInitContainersAgainstRules ::
  "container list \<Rightarrow> string \<Rightarrow> pod_template_rules \<Rightarrow> field_error list" where
  "validateInitContainersAgainstRules initContainers base rules =
     at_each (\<lambda>path c.
       if \<not> tr_allowInitContainers rules then [Forbidden path]
       else (if c_name c = tr_primaryContainerName rules then [Forbidden (path_child path ''name'')]
             else if List.member (tr_reservedContainerNames rules) (c_name c) then [Forbidden (path_child path ''name'')]
             else []) @ validateReservedVolumeMounts c path rules) base initContainers"

definition ValidatePodTemplate :: "pod_template option \<Rightarrow> string \<Rightarrow> pod_template_rules \<Rightarrow> field_error list" where
  "ValidatePodTemplate template base rules =
     (case template of
        None \<Rightarrow> []
      | Some t \<Rightarrow>
          (let metaPath = path_child base ''metadata''; specPath = path_child base ''spec''
           in validatePodTemplateMetadata (pt_meta t) metaPath
              @ ValidateReservedKeyPrefix (path_child metaPath ''labels'') (pt_labels t)
              @ ValidateReservedKeyPrefix (path_child metaPath ''annotations'') (pt_annotations t)
              @ validateUniversalPodFields (pt_spec t) specPath
              @ validateContainersAgainstRules (sitems (p_containers (pt_spec t))) (path_child specPath ''containers'') rules
              @ validateInitContainersAgainstRules (sitems (p_initContainers (pt_spec t)))
                  (path_child specPath ''initContainers'') rules))"

definition ValidateOperatorOwnedPodTemplate :: "pod_template option \<Rightarrow> string \<Rightarrow> field_error list" where
  "ValidateOperatorOwnedPodTemplate template base =
     ValidatePodTemplate template base FireboltEngineClassPodTemplateRules"

section \<open>References to Secrets\<close>

definition ContainerSecretRefs :: "container \<Rightarrow> string list" where
  "ContainerSecretRefs c =
     concat (map (\<lambda>e. secret_ref (map_option vs_secretKeyRef (ev_valueFrom e))) (sitems (c_env c)))
     @ concat (map (\<lambda>e. secret_ref (Some (ef_secretRef e))) (sitems (c_envFrom c)))"

definition ValidateNoSecretAliasVolumes ::
  "volume list \<Rightarrow> string \<Rightarrow> (string \<Rightarrow> bool) \<Rightarrow> field_error list" where
  "ValidateNoSecretAliasVolumes volumes base isProtected =
     at_each (\<lambda>p v. map (\<lambda>n. Forbidden p) (filter isProtected (VolumeSecretRefs v))) base volumes"

definition ValidateNoSecretRefEnv ::
  "container list \<Rightarrow> string \<Rightarrow> (string \<Rightarrow> bool) \<Rightarrow> field_error list" where
  "ValidateNoSecretRefEnv containers base isProtected =
     at_each (\<lambda>p c. map (\<lambda>n. Forbidden p) (filter isProtected (ContainerSecretRefs c))) base containers"

section \<open>The gates of an engine\<close>

text \<open>\<open>engineTemplates\<close>: the templates that merge into the pod, each with its path. Class and Preset are the
  sources before the overlay.\<close>

definition engineTemplates ::
  "engine_spec \<Rightarrow> class_info option \<Rightarrow> preset_info option \<Rightarrow> (pod_template \<times> string) list" where
  "engineTemplates spec class preset =
     (case sp_template spec of Some t \<Rightarrow> [(t, ''spec.template.spec'')] | None \<Rightarrow> [])
     @ (case preset of
          Some d \<Rightarrow> (case pi_template d of
                      Some t \<Rightarrow> [(t, ''FireboltEnginePreset['' @ pi_name d @ ''].spec.template.spec'')] | None \<Rightarrow> [])
        | None \<Rightarrow> [])
     @ (case class_template class of Some t \<Rightarrow> [(t, ''spec.engineClassRef.template.spec'')] | None \<Rightarrow> [])"

definition validateEngineTemplate :: "engine_spec \<Rightarrow> field_error list" where
  "validateEngineTemplate spec = ValidateOperatorOwnedPodTemplate (sp_template spec) ''spec.template''"

definition validateEngineSecretEnvRefs ::
  "engine_spec \<Rightarrow> class_info option \<Rightarrow> preset_info option \<Rightarrow> instance_info \<Rightarrow> field_error list" where
  "validateEngineSecretEnvRefs spec class preset info =
     concat (map (\<lambda>(t, path).
       ValidateNoSecretRefEnv (sitems (p_containers (pt_spec t))) (path_child path ''containers'') (engineProtectedSecret info)
       @ ValidateNoSecretRefEnv (sitems (p_initContainers (pt_spec t))) (path_child path ''initContainers'')
           (engineProtectedSecret info)) (engineTemplates spec class preset))"

definition validateEngineTemplates ::
  "engine_spec \<Rightarrow> class_info option \<Rightarrow> preset_info option \<Rightarrow> instance_info \<Rightarrow> field_error list" where
  "validateEngineTemplates spec class preset info =
     validateEngineTemplate spec @ validateEngineSecretEnvRefs spec class preset info"

definition engineAliasedSecretVolumes ::
  "engine_spec \<Rightarrow> class_info option \<Rightarrow> preset_info option \<Rightarrow> instance_info \<Rightarrow> field_error list" where
  "engineAliasedSecretVolumes spec class preset info =
     concat (map (\<lambda>(t, path).
       ValidateNoSecretAliasVolumes (sitems (p_volumes (pt_spec t))) (path_child path ''volumes'') (engineProtectedSecret info))
       (engineTemplates spec class preset))"

end
