(* ===== verification/Auth_Admission.thy ===== *)
theory Auth_Admission
  imports Operator_Authority Engine_State Go_Duration
begin

text \<open>
  The validation of \<open>spec.auth\<close> (\<open>ValidateAuth\<close> and its helpers in \<open>src/api/v1alpha1/fireboltinstance_webhook.go\<close>),
  which the admission webhook and every pass of the Instance controller run. The lemmas say what an accepted block is
  like: complete, with a signing key that fits the algorithm, unambiguous providers, and a retention of old keys that
  covers the window in which the engines accept tokens.
\<close>

section \<open>Durations\<close>

definition validateDurationField :: "int \<Rightarrow> string \<Rightarrow> string \<Rightarrow> field_error list" where
  "validateDurationField huge path value =
     (if value = [] then []
      else case parseEngineDuration huge value of None \<Rightarrow> [Invalid path] | Some _ \<Rightarrow> [])"

definition validatePositiveDurationField :: "int \<Rightarrow> string \<Rightarrow> string \<Rightarrow> field_error list" where
  "validatePositiveDurationField huge path value =
     (if value = [] then []
      else case parseEngineDuration huge value of
             None \<Rightarrow> [Invalid path]
           | Some d \<Rightarrow> if d \<le> 0 then [Invalid path] else [])"

section \<open>The embedded authorization server\<close>

definition validateCertManagerKey :: "cert_manager_spec option \<Rightarrow> string \<Rightarrow> field_error list" where
  "validateCertManagerKey cm base =
     (case cm of
        None \<Rightarrow> []
      | Some c \<Rightarrow>
          (let alg = str_or_else (cms_algorithm c) ''ECDSA''; size = (if cms_size c = 0 then 384 else cms_size c)
           in if alg = ''RSA'' then
                if size \<noteq> 2048 \<and> size \<noteq> 4096 \<and> size \<noteq> 8192 then [Invalid (base @ ''.size'')] else []
              else if alg = ''ECDSA'' then
                if size \<noteq> 256 \<and> size \<noteq> 384 \<and> size \<noteq> 521 then [Invalid (base @ ''.size'')] else []
              else []))"

definition curve_size :: "string \<Rightarrow> int" where
  "curve_size alg = (if alg = ''ES256'' then 256 else if alg = ''ES384'' then 384 else if alg = ''ES512'' then 521 else 0)"

definition validateSigningAlgorithmCompatibility ::
  "local_auth_spec \<Rightarrow> signing_key_policy \<Rightarrow> string \<Rightarrow> field_error list" where
  "validateSigningAlgorithmCompatibility l pol base =
     (let alg = str_or_else (la_signingAlgorithm l) ''ES384'';
          keyAlg = str_or_else (cms_algorithm (sk_certManager pol)) ''ECDSA'';
          wantsRSA = has_prefix alg ''RS'';
          size = (if cms_size (sk_certManager pol) = 0 then 384 else cms_size (sk_certManager pol));
          wantSize = curve_size alg
      in if wantsRSA \<and> keyAlg \<noteq> ''RSA'' then [Invalid (path_child base ''signingAlgorithm'')]
         else if \<not> wantsRSA \<and> keyAlg \<noteq> ''ECDSA'' then [Invalid (path_child base ''signingAlgorithm'')]
         else if \<not> wantsRSA \<and> wantSize \<noteq> 0 \<and> size \<noteq> wantSize
           then [Invalid (path_child (path_child (path_child base ''signingKeys'') ''certManager'') ''size'')]
         else [])"

definition engineDefaultMaxTokenAge :: int where "engineDefaultMaxTokenAge = 24 * (60 * minute)"
definition engineDefaultClockSkew :: int where "engineDefaultClockSkew = 30 * second"

definition floor_age :: "int \<Rightarrow> local_auth_spec \<Rightarrow> int" where
  "floor_age huge l =
     (if la_maxTokenAge l = [] then engineDefaultMaxTokenAge
      else case parseEngineDuration huge (la_maxTokenAge l) of
             None \<Rightarrow> engineDefaultMaxTokenAge
           | Some d \<Rightarrow> if 0 < d then d else engineDefaultMaxTokenAge)"

definition floor_skew :: "int \<Rightarrow> local_auth_spec \<Rightarrow> int" where
  "floor_skew huge l =
     (if la_clockSkewTolerance l = [] then engineDefaultClockSkew
      else case parseEngineDuration huge (la_clockSkewTolerance l) of
             None \<Rightarrow> engineDefaultClockSkew
           | Some d \<Rightarrow> if 0 \<le> d then d else engineDefaultClockSkew)"

definition validateSigningKeyRotation ::
  "int \<Rightarrow> local_auth_spec \<Rightarrow> signing_key_policy \<Rightarrow> string \<Rightarrow> field_error list" where
  "validateSigningKeyRotation huge l policy base =
     (case (sk_rotationInterval policy, sk_retainDuration policy) of
        (None, None) \<Rightarrow> []
      | (Some _, None) \<Rightarrow> [Required (path_child base ''retainDuration'')]
      | (None, Some _) \<Rightarrow> [Forbidden (path_child base ''retainDuration'')]
      | (Some rotation, Some retain) \<Rightarrow>
          if rotation \<le> 0 then [Invalid (path_child base ''rotationInterval'')]
          else (let floor = wrap64 (floor_age huge l + floor_skew huge l)
                in if retain < floor then [Invalid (path_child base ''retainDuration'')] else []))"

definition validateLocalAuth :: "int \<Rightarrow> local_auth_spec \<Rightarrow> string \<Rightarrow> field_error list" where
  "validateLocalAuth huge l base =
     (if la_adminPasswordName l = [] then [Required (path_child (path_child (path_child base ''admin'') ''password'') ''name'')] else [])
     @ (if la_adminPasswordKey l = [] then [Required (path_child (path_child (path_child base ''admin'') ''password'') ''key'')] else [])
     @ (case la_signingKeys l of
          None \<Rightarrow> [Required (path_child base ''signingKeys'')]
        | Some policy \<Rightarrow>
            validateSigningAlgorithmCompatibility l policy base
            @ validateCertManagerKey (Some (sk_certManager policy)) (path_child (path_child base ''signingKeys'') ''certManager'')
            @ validateSigningKeyRotation huge l policy (path_child base ''signingKeys''))
     @ validatePositiveDurationField huge (path_child base ''tokenExpiry'') (la_tokenExpiry l)
     @ validatePositiveDurationField huge (path_child base ''maxTokenAge'') (la_maxTokenAge l)
     @ validateDurationField huge (path_child base ''clockSkewTolerance'') (la_clockSkewTolerance l)"

section \<open>Providers\<close>

definition localAuthServerName :: string where "localAuthServerName = ''_local''"
definition issuerClaim :: string where "issuerClaim = ''iss''"
definition defaultAdminName :: string where "defaultAdminName = ''firebolt''"

definition authAdminName :: "auth_spec \<Rightarrow> string" where
  "authAdminName auth =
     (case au_local auth of
        Some l \<Rightarrow> if la_adminName l \<noteq> [] then la_adminName l else defaultAdminName
      | None \<Rightarrow> defaultAdminName)"

text \<open>The expression \<open>\{\{\s*iss\s*\}\}\<close>, at the start of a string and anywhere in it.\<close>

definition regex_space :: "char \<Rightarrow> bool" where
  "regex_space c \<longleftrightarrow> of_char c \<in> {9, 10, 12, 13, 32 :: nat}"

definition issuer_ref_here :: "string \<Rightarrow> bool" where
  "issuer_ref_here s \<longleftrightarrow>
     has_prefix s ''{{'' \<and>
     (let r = dropWhile regex_space (drop 2 s)
      in has_prefix r issuerClaim \<and> has_prefix (dropWhile regex_space (drop (length issuerClaim) r)) ''}}'')"

fun issuerClaimRef :: "string \<Rightarrow> bool" where
  "issuerClaimRef [] = False"
| "issuerClaimRef (c # s) = (issuer_ref_here (c # s) \<or> issuerClaimRef s)"

definition validateUsernameMapping :: "string \<Rightarrow> string \<Rightarrow> nat \<Rightarrow> string \<Rightarrow> field_error list" where
  "validateUsernameMapping mapping path providerCount adminName =
     (if 1 < providerCount \<and> \<not> issuerClaimRef mapping then [Invalid path] else [])
     @ (if \<not> str_contains mapping ''{{'' \<and> trim_space mapping = adminName then [Invalid path] else [])"

definition validateProviderServers :: "oidc_provider \<Rightarrow> string \<Rightarrow> field_error list" where
  "validateProviderServers p base =
     (if op_discoveryURL p \<noteq> [] \<and> op_target p \<noteq> None then [Invalid base]
      else if op_discoveryURL p = [] \<and> op_target p = None then [Required (path_child base ''target'')]
      else [])"

definition validateProvider :: "int \<Rightarrow> nat \<Rightarrow> string \<Rightarrow> oidc_provider \<Rightarrow> string \<Rightarrow> field_error list" where
  "validateProvider huge count adminName p path =
     validateUsernameMapping (op_usernameMapping p) (path_child path ''usernameMapping'') count adminName
     @ validateProviderServers p path
     @ (case op_jwksCacheTTL p of
          Some v \<Rightarrow> validateDurationField huge (path_child (path_child path ''jwks'') ''cacheTTL'') v
        | None \<Rightarrow> [])
     @ (case op_discoveryRefreshInterval p of
          Some v \<Rightarrow> validatePositiveDurationField huge (path_child (path_child path ''discovery'') ''refreshInterval'') v
        | None \<Rightarrow> [])"

fun providers_loop ::
  "int \<Rightarrow> nat \<Rightarrow> string \<Rightarrow> string \<Rightarrow> string list \<Rightarrow> nat \<Rightarrow> oidc_provider list \<Rightarrow> field_error list" where
  "providers_loop huge count adminName base seen i [] = []"
| "providers_loop huge count adminName base seen i (p # ps) =
     (if op_name p \<in> set seen then [Duplicate (path_child (path_index base i) ''name'')] else [])
     @ validateProvider huge count adminName p (path_index base i)
     @ providers_loop huge count adminName base (op_name p # seen) (Suc i) ps"

definition validateOIDCAuth :: "int \<Rightarrow> oidc_spec \<Rightarrow> string \<Rightarrow> string \<Rightarrow> field_error list" where
  "validateOIDCAuth huge oidc base adminName =
     (case oi_jwt oidc of
        Some (clockSkewTolerance, maxTokenAge) \<Rightarrow>
          validateDurationField huge (path_child (path_child base ''jwt'') ''clockSkewTolerance'') clockSkewTolerance
          @ validatePositiveDurationField huge (path_child (path_child base ''jwt'') ''maxTokenAge'') maxTokenAge
      | None \<Rightarrow> [])
     @ providers_loop huge (length (oi_providers oidc)) adminName (path_child base ''providers'') [] 0 (oi_providers oidc)"

definition validatePreferredAuthorizationServer :: "auth_spec \<Rightarrow> string \<Rightarrow> field_error list" where
  "validatePreferredAuthorizationServer auth path =
     (let preferred = au_preferredAuthorizationServer auth
      in if preferred = [] \<or> preferred = localAuthServerName then []
         else if (case au_oidc auth of Some o' \<Rightarrow> list_ex (\<lambda>p. op_name p = preferred) (oi_providers o') | None \<Rightarrow> False) then []
         else [Invalid path])"

section \<open>The whole block\<close>

definition validateAuthDisabled :: "auth_spec \<Rightarrow> string \<Rightarrow> field_error list" where
  "validateAuthDisabled auth base =
     forbid (au_local auth \<noteq> None) (path_child base ''local'')
     @ forbid (au_oidc auth \<noteq> None) (path_child base ''oidc'')
     @ forbid (au_preferredAuthorizationServer auth \<noteq> []) (path_child base ''preferredAuthorizationServer'')"

definition validateAuthEnabled :: "int \<Rightarrow> auth_spec \<Rightarrow> string \<Rightarrow> field_error list" where
  "validateAuthEnabled huge auth base =
     (case au_local auth of
        None \<Rightarrow> [Required (path_child base ''local'')]
      | Some l \<Rightarrow> validateLocalAuth huge l (path_child base ''local''))
     @ validatePreferredAuthorizationServer auth (path_child base ''preferredAuthorizationServer'')
     @ (case au_oidc auth of
          Some oidc \<Rightarrow> validateOIDCAuth huge oidc (path_child base ''oidc'') (authAdminName auth)
        | None \<Rightarrow> [])"

definition ValidateAuth :: "int \<Rightarrow> auth_spec option \<Rightarrow> field_error list" where
  "ValidateAuth huge a =
     (case a of
        None \<Rightarrow> []
      | Some auth \<Rightarrow>
          if \<not> au_enabled auth then validateAuthDisabled auth ''spec.auth'' else validateAuthEnabled huge auth ''spec.auth'')"

text \<open>The error a list of findings is turned into.\<close>

definition aggregate :: "field_error list \<Rightarrow> engine_error" where
  "aggregate errs =
     ApiError (concat (map (\<lambda>e. (case e of Forbidden p \<Rightarrow> p @ '': Forbidden '' | Required p \<Rightarrow> p @ '': Required ''
                                  | Invalid p \<Rightarrow> p @ '': Invalid '' | Duplicate p \<Rightarrow> p @ '': Duplicate ''
                                  | NotSupported p \<Rightarrow> p @ '': Unsupported '' | NotFound p \<Rightarrow> p @ '': Not found ''
                                  | InternalError p \<Rightarrow> p @ '': Internal error '')) errs))"

section \<open>What an accepted block is like\<close>

lemma duration_accepted:
  "validateDurationField huge path v = [] \<longleftrightarrow> v = [] \<or> (\<exists>d. parseEngineDuration huge v = Some d)"
  "validatePositiveDurationField huge path v = [] \<longleftrightarrow> v = [] \<or> (\<exists>d > 0. parseEngineDuration huge v = Some d)"
  by (auto simp: validateDurationField_def validatePositiveDurationField_def split: option.splits)

text \<open>A signing algorithm and the key it is used with.\<close>

definition key_fits :: "string \<Rightarrow> string \<times> int \<Rightarrow> bool" where
  "key_fits alg key \<longleftrightarrow>
     (if has_prefix alg ''RS'' then fst key = ''RSA'' \<and> snd key \<in> {2048, 4096, 8192}
      else fst key = ''ECDSA'' \<and> snd key \<in> {256, 384, 521} \<and> (curve_size alg \<noteq> 0 \<longrightarrow> snd key = curve_size alg))"

definition signing_algorithm :: "local_auth_spec \<Rightarrow> string" where
  "signing_algorithm l = str_or_else (la_signingAlgorithm l) ''ES384''"

lemma accepted_key_fits:
  assumes "validateSigningAlgorithmCompatibility l pol base = []" "validateCertManagerKey (Some (sk_certManager pol)) base' = []"
  shows "key_fits (signing_algorithm l) (resolvedCertManagerAlgSize (sk_certManager pol))"
  using assms
  by (auto simp: validateSigningAlgorithmCompatibility_def validateCertManagerKey_def key_fits_def signing_algorithm_def
      resolvedCertManagerAlgSize_def Let_def split: if_splits)

definition provider_ok :: "nat \<Rightarrow> string \<Rightarrow> oidc_provider \<Rightarrow> bool" where
  "provider_ok count adminName p \<longleftrightarrow>
     (op_discoveryURL p \<noteq> []) \<noteq> (op_target p \<noteq> None) \<and>
     (1 < count \<longrightarrow> issuerClaimRef (op_usernameMapping p)) \<and>
     (trim_space (op_usernameMapping p) = adminName \<longrightarrow> str_contains (op_usernameMapping p) ''{{'')"

lemma accepted_provider: "validateProvider huge count adminName p path = [] \<Longrightarrow> provider_ok count adminName p"
  by (auto simp: validateProvider_def provider_ok_def validateUsernameMapping_def validateProviderServers_def split: if_splits)

lemma accepted_providers:
  assumes "providers_loop huge count adminName base seen i ps = []"
  shows "distinct (map op_name ps) \<and> set (map op_name ps) \<inter> set seen = {} \<and> list_all (provider_ok count adminName) ps"
  using assms
proof (induction ps arbitrary: seen i)
  case (Cons p ps)
  then have "distinct (map op_name ps) \<and> set (map op_name ps) \<inter> set (op_name p # seen) = {} \<and> list_all (provider_ok count adminName) ps"
    by (intro Cons.IH [of "op_name p # seen" "Suc i"]) simp
  then show ?case using Cons.prems accepted_provider by (auto split: if_splits)
qed simp

definition oidc_ok :: "string \<Rightarrow> oidc_spec \<Rightarrow> bool" where
  "oidc_ok adminName oidc \<longleftrightarrow>
     distinct (map op_name (oi_providers oidc)) \<and>
     list_all (provider_ok (length (oi_providers oidc)) adminName) (oi_providers oidc)"

definition preferred_ok :: "auth_spec \<Rightarrow> bool" where
  "preferred_ok a \<longleftrightarrow>
     au_preferredAuthorizationServer a \<in> {[], localAuthServerName} \<or>
     (\<exists>oidc. au_oidc a = Some oidc \<and> au_preferredAuthorizationServer a \<in> set (map op_name (oi_providers oidc)))"

lemma accepted_preferred: "validatePreferredAuthorizationServer a path = [] \<Longrightarrow> preferred_ok a"
  by (auto simp: validatePreferredAuthorizationServer_def preferred_ok_def list_ex_iff Let_def image_iff eq_commute [of _ "op_name _"]
      split: if_splits option.splits)

lemma accepted_enabled:
  assumes "ValidateAuth huge (Some a) = []" "au_enabled a"
  obtains l pol where "au_local a = Some l" "la_signingKeys l = Some pol" "validateLocalAuth huge l ''spec.auth.local'' = []"
proof -
  have v: "validateAuthEnabled huge a ''spec.auth'' = []" using assms by (simp add: ValidateAuth_def)
  then obtain l where l: "au_local a = Some l" by (cases "au_local a") (auto simp: validateAuthEnabled_def)
  then have vl: "validateLocalAuth huge l ''spec.auth.local'' = []" using v by (simp add: validateAuthEnabled_def path_child_def)
  then obtain pol where "la_signingKeys l = Some pol" by (cases "la_signingKeys l") (auto simp: validateLocalAuth_def)
  then show ?thesis using that l vl by blast
qed

lemma accepted_retention:
  assumes "validateSigningKeyRotation huge l pol base = []" "sk_retainDuration pol = Some d"
  shows "(\<exists>r > 0. sk_rotationInterval pol = Some r) \<and> wrap64 (floor_age huge l + floor_skew huge l) \<le> d"
  using assms by (auto simp: validateSigningKeyRotation_def Let_def split: option.splits if_splits)

lemma floor_positive: "0 < floor_age huge l" "0 \<le> floor_skew huge l"
  by (auto simp: floor_age_def floor_skew_def engineDefaultMaxTokenAge_def engineDefaultClockSkew_def minute_def second_def split: option.splits)

text \<open>The window in which the engines accept a token fits a \<open>time.Duration\<close>; without this the sum wraps.\<close>

definition token_window :: "int \<Rightarrow> local_auth_spec \<Rightarrow> int" where
  "token_window huge l = floor_age huge l + floor_skew huge l"

lemma accepted_retention_covers:
  assumes "ValidateAuth huge (Some a) = []" "au_enabled a" "au_local a = Some l" "la_signingKeys l = Some pol"
    "sk_retainDuration pol = Some d" "token_window huge l \<le> MaxInt64"
  shows "token_window huge l \<le> d"
proof -
  obtain l' pol' where "au_local a = Some l'" "la_signingKeys l' = Some pol'" "validateLocalAuth huge l' ''spec.auth.local'' = []"
    using accepted_enabled [OF assms(1,2)] by blast
  then have "validateSigningKeyRotation huge l pol (path_child ''spec.auth.local'' ''signingKeys'') = []"
    using assms(3,4) by (simp add: validateLocalAuth_def)
  moreover have "wrap64 (token_window huge l) = token_window huge l"
    using assms(6) floor_positive [of huge l] by (intro wrap64_id) (simp add: token_window_def in_int64_def MaxInt64_def)
  ultimately show ?thesis using accepted_retention [OF _ assms(5)] by (metis token_window_def)
qed

text \<open>C24. An enabled block that is accepted can be run: it has the local server with a named key of the admin Secret and
  a signing policy, whose key is of the family and on the curve that the signing algorithm needs, with a size that
  cert-manager issues; the preferred server is configured; provider names are distinct, each provider names its server in
  exactly one way, with several providers each mapping refers to the issuer, and none maps literally to the admin; a
  retention comes with a positive interval and covers the longest life of a token, unless that overflows.\<close>

theorem accepted_auth_can_run:
  assumes "ValidateAuth huge (Some a) = []" "au_enabled a"
  shows "\<exists>l pol. au_local a = Some l \<and> la_signingKeys l = Some pol \<and> la_adminPasswordName l \<noteq> [] \<and> la_adminPasswordKey l \<noteq> []
     \<and> key_fits (signing_algorithm l) (resolvedCertManagerAlgSize (sk_certManager pol))
     \<and> preferred_ok a \<and> (\<forall>oidc. au_oidc a = Some oidc \<longrightarrow> oidc_ok (authAdminName a) oidc)
     \<and> (\<forall>d. sk_retainDuration pol = Some d \<longrightarrow> (\<exists>r > 0. sk_rotationInterval pol = Some r) \<and>
          (token_window huge l \<le> MaxInt64 \<longrightarrow> token_window huge l \<le> d))"
proof -
  obtain l pol where l: "au_local a = Some l" "la_signingKeys l = Some pol" "validateLocalAuth huge l ''spec.auth.local'' = []"
    using accepted_enabled [OF assms] by blast
  have v: "validateAuthEnabled huge a ''spec.auth'' = []" using assms by (simp add: ValidateAuth_def)
  have "preferred_ok a" using v by (auto simp: validateAuthEnabled_def intro: accepted_preferred)
  moreover have "oidc_ok (authAdminName a) oidc" if "au_oidc a = Some oidc" for oidc
    using v that accepted_providers by (fastforce simp: validateAuthEnabled_def validateOIDCAuth_def oidc_ok_def)
  moreover have "key_fits (signing_algorithm l) (resolvedCertManagerAlgSize (sk_certManager pol))"
    using l by (auto simp: validateLocalAuth_def intro: accepted_key_fits)
  moreover have "\<exists>r > 0. sk_rotationInterval pol = Some r" if "sk_retainDuration pol = Some d" for d
    using l accepted_retention [OF _ that] by (auto simp: validateLocalAuth_def)
  ultimately show ?thesis
    using l accepted_retention_covers [OF assms l(1,2)] by (auto simp: validateLocalAuth_def split: if_splits)
qed

definition ex_signing_policy :: signing_key_policy where
  "ex_signing_policy = \<lparr>sk_certManager = \<lparr>cms_issuerName = ''ca'', cms_issuerKind = [], cms_algorithm = [], cms_size = 256,
       cms_duration = None, cms_renewBefore = None\<rparr>,
     sk_rotationInterval = Some (720 * (60 * minute)), sk_retainDuration = Some (49 * (60 * minute))\<rparr>"

definition ex_local :: local_auth_spec where
  "ex_local = \<lparr>la_passwordLogin = [], la_adminName = [], la_adminPasswordName = ''admin'', la_adminPasswordKey = ''pw'',
     la_signingAlgorithm = ''ES256'', la_tokenExpiry = ''1h'', la_maxTokenAge = ''2d'', la_clockSkewTolerance = ''1m'',
     la_signingKeys = Some ex_signing_policy\<rparr>"

definition ex_provider :: "string \<Rightarrow> oidc_provider" where
  "ex_provider n = \<lparr>op_name = n, op_title = [], op_discoveryURL = ''https://idp'', op_target = None, op_exchange = None,
     op_audience = [], op_usernameMapping = ''{{ iss }}|{{ sub }}'', op_jit = None, op_jwksCacheTTL = Some ''10m'',
     op_discoveryRefreshInterval = Some ''1.5d'', op_roleMapping = None\<rparr>"

definition ex_auth :: auth_spec where
  "ex_auth = \<lparr>au_enabled = True, au_preferredAuthorizationServer = ''okta'', au_local = Some ex_local,
     au_oidc = Some \<lparr>oi_jwt = Some (''30s'', ''1d''), oi_providers = [ex_provider ''okta'', ex_provider ''entra'']\<rparr>\<rparr>"

theorem accepted_auth_can_run_witness:
  "ValidateAuth 0 (Some ex_auth) = [] \<and> key_fits ''ES256'' (''ECDSA'', 256) \<and> token_window 0 ex_local = 2881 * minute \<and>
   token_window 0 ex_local \<le> 49 * (60 * minute)"
proof -
  have v: "ValidateAuth 0 (Some ex_auth) = []" by code_simp
  have e: "au_enabled ex_auth" "au_local ex_auth = Some ex_local" "la_signingKeys ex_local = Some ex_signing_policy"
    "sk_retainDuration ex_signing_policy = Some (49 * (60 * minute))"
    "signing_algorithm ex_local = ''ES256''" "resolvedCertManagerAlgSize (sk_certManager ex_signing_policy) = (''ECDSA'', 256)"
    by (simp_all add: ex_auth_def ex_local_def ex_signing_policy_def signing_algorithm_def resolvedCertManagerAlgSize_def)
  have w: "token_window 0 ex_local = 2881 * minute" by code_simp
  have "2881 * minute \<le> MaxInt64" by (simp add: minute_def second_def MaxInt64_def)
  then show ?thesis using accepted_auth_can_run [OF v e(1)] v e w by auto
qed

text \<open>The sum does wrap: tokens of 106751 days and a tolerance of one day are accepted with a retention of a second.\<close>

definition ex_wrapped :: auth_spec where
  "ex_wrapped = ex_auth\<lparr>au_local := Some (ex_local\<lparr>la_maxTokenAge := ''106751d'', la_clockSkewTolerance := ''1d'',
     la_signingKeys := Some (ex_signing_policy\<lparr>sk_retainDuration := Some second\<rparr>)\<rparr>)\<rparr>"

lemma wrapped_floor_accepts_short_retention: "ValidateAuth huge (Some ex_wrapped) = []"
proof -
  have "ValidateAuth huge (Some ex_wrapped) = ValidateAuth 0 (Some ex_wrapped)" by code_simp
  also have "\<dots> = []" by code_simp
  finally show ?thesis .
qed

end
