(* ===== verification/Instance_Auth.thy ===== *)
theory Instance_Auth
  imports Engine_Conditions Auth_Admission
begin

text \<open>
  Authentication of an Instance (\<open>instance_auth.go\<close>): the signing keys with their Certificates and Secrets,
  the rotation step and \<open>ensureAuth\<close>, and the part of \<open>resolveInstanceInfo\<close> that hands the keys to the engines.
  A call to the API is a field of \<open>auth_api\<close>, which also brings the parser of public keys and what the conversion of
  a float beyond \<open>int64\<close> gives on the machine; every call of \<open>metav1.Now\<close> in a pass gives the same time, and
  the zero time is 0. Reads of Secrets and Certificates answer \<open>Inr None\<close> for not found.
\<close>

section \<open>The Instance and its keys\<close>

datatype rotation_step = StepNone | AwaitingPromotion | AwaitingRetireAnchor | AwaitingRemoval

record auth_status =
  as_signingKeys :: "signing_key list"
  as_generation :: int
  as_pendingStep :: rotation_step
  as_pendingSince :: "time option"
  as_lagging :: "string list"
  as_laggingCount :: int

record instance_cr =
  in_name :: string
  in_namespace :: string
  in_generation :: int
  in_auth :: "auth_spec option"
  in_authStatus :: "auth_status option"
  in_conditions :: "condition list"

definition signingKeyID :: "int \<Rightarrow> string" where
  "signingKeyID generation = ''signing-'' @ itoa generation"

definition AuthSigningKeyID :: string where "AuthSigningKeyID = signingKeyID 1"

definition DefaultCertDurationSigning :: int where "DefaultCertDurationSigning = 365 * 24 * hour"

definition DefaultCertRenewBeforeSigning :: int where "DefaultCertRenewBeforeSigning = 120 * 24 * hour"

definition authSigningRotationPolicy :: string where "authSigningRotationPolicy = ''Never''"

definition authSigningCertCommonName :: string where "authSigningCertCommonName = ''firebolt-jwt-signing''"

definition signingCertificateName :: "string \<Rightarrow> string \<Rightarrow> string" where
  "signingCertificateName instanceName kid =
     (if kid = AuthSigningKeyID then instanceName @ SuffixAuthSigning
      else instanceName @ SuffixAuthSigning @ ''-'' @ kid)"

definition LabelInstance :: string where "LabelInstance = ''firebolt.io/instance''"
definition LabelComponent :: string where "LabelComponent = ''firebolt.io/component''"

definition instanceLabels :: "string \<Rightarrow> string \<Rightarrow> (string, string) fmap" where
  "instanceLabels instanceName component =
     fmupd LabelComponent component (fmupd LabelInstance instanceName fmempty)"

record signing_certificate = certificate +
  crt_commonName :: string

definition buildSigningCertificate :: "'i instance_cr_scheme \<Rightarrow> cert_manager_spec \<Rightarrow> string \<Rightarrow> signing_certificate" where
  "buildSigningCertificate inst cm kid =
     (let name = signingCertificateName (in_name inst) kid;
          labels = instanceLabels (in_name inst) ''auth-signing'';
          (alg, size) = resolvedCertManagerAlgSize cm;
          (duration, renewBefore) = resolveCertDuration cm DefaultCertDurationSigning DefaultCertRenewBeforeSigning
      in \<lparr>crt_name = name, crt_namespace = in_namespace inst, crt_labels = Some labels,
          crt_secretName = name, crt_secretLabels = Some labels,
          crt_usages = [''digital signature''], crt_encoding = ''PKCS8'', crt_dnsNames = [],
          crt_issuerName = cms_issuerName cm,
          crt_issuerKind = resolveCertManagerIssuerKind (cms_issuerKind cm),
          crt_duration = duration, crt_renewBefore = renewBefore,
          crt_rotationPolicy = authSigningRotationPolicy,
          crt_algorithm = (if alg = ''ECDSA'' then ''ECDSA'' else ''RSA''),
          crt_size = size,
          crt_commonName = authSigningCertCommonName\<rparr>)"

section \<open>The API as a pass sees it\<close>

text \<open>A Secret with the data a key holds, empty where the key is missing, the annotation cert-manager leaves
  and the one the operator puts on its trust bundle, each empty where it is missing; a Certificate as read back, with the conditions in its status.\<close>

record secret =
  se_resourceVersion :: string
  se_data :: "string \<Rightarrow> string"
  se_certificateName :: string
  se_trustCAs :: string
  se_creation :: time

record issued_cert =
  co_name :: string
  co_generation :: int
  co_creation :: time
  co_conditions :: "(string \<times> string \<times> int) list"

record engine_ref =
  er_name :: string
  er_instanceRef :: string
  er_observedAuthHash :: string

record auth_api =
  au_now :: time
  au_hugeDuration :: int
  au_apply :: "signing_certificate \<Rightarrow> engine_error option"
  au_getCert :: "string \<Rightarrow> engine_error + issued_cert option"
  au_getSecret :: "string \<Rightarrow> engine_error + secret option"
  au_deleteCert :: "string \<Rightarrow> engine_error option"
  au_deleteSecret :: "string \<Rightarrow> engine_error option"
  au_engines :: "engine_error + engine_ref list"
  au_publicKey :: "string \<Rightarrow> engine_error + string"

datatype auth_op = ApplyCert string | DeleteCert string | DeleteSecret string

definition TLSPrivateKeyKey :: string where "TLSPrivateKeyKey = ''tls.key''"
definition TLSCertKey :: string where "TLSCertKey = ''tls.crt''"

definition not_found :: "string \<Rightarrow> string \<Rightarrow> string \<Rightarrow> engine_error" where
  "not_found lbl ns name = ApiError (lbl @ '' '' @ ns @ ''/'' @ name @ '' not found'')"

definition missing_key :: "string \<Rightarrow> string \<Rightarrow> string \<Rightarrow> string \<Rightarrow> engine_error" where
  "missing_key lbl ns name key =
     ApiError (lbl @ '' '' @ ns @ ''/'' @ name @ '' is missing or empty for key '' @ key)"

definition checkSecretKeyPresent ::
  "auth_api \<Rightarrow> string \<Rightarrow> string \<Rightarrow> string \<Rightarrow> string \<Rightarrow> engine_error + string" where
  "checkSecretKeyPresent api ns name key lbl =
     (case au_getSecret api name of
        Inl e \<Rightarrow> Inl e
      | Inr None \<Rightarrow> Inl (not_found lbl ns name)
      | Inr (Some s) \<Rightarrow>
          if se_data s key = [] then Inl (missing_key lbl ns name key) else Inr (se_resourceVersion s))"

definition checkAdminPasswordSecret :: "auth_api \<Rightarrow> 'i instance_cr_scheme \<Rightarrow> local_auth_spec \<Rightarrow> engine_error + string" where
  "checkAdminPasswordSecret api inst l =
     checkSecretKeyPresent api (in_namespace inst) (la_adminPasswordName l) (la_adminPasswordKey l)
       ''admin password secret''"

definition signingKeyFingerprint :: "auth_api \<Rightarrow> string \<Rightarrow> string \<Rightarrow> engine_error + string" where
  "signingKeyFingerprint api ns name =
     (case au_getSecret api name of
        Inl e \<Rightarrow> Inl e
      | Inr None \<Rightarrow> Inl (not_found ''signing key secret'' ns name)
      | Inr (Some s) \<Rightarrow>
          if se_data s TLSPrivateKeyKey = []
          then Inl (missing_key ''signing key secret'' ns name TLSPrivateKeyKey)
          else au_publicKey api (se_data s TLSCertKey))"

section \<open>Keys of a status\<close>

definition existingSigningKeys :: "'i instance_cr_scheme \<Rightarrow> signing_key list" where
  "existingSigningKeys inst = (case in_authStatus inst of None \<Rightarrow> [] | Some a \<Rightarrow> as_signingKeys a)"

definition authStatusGeneration :: "'i instance_cr_scheme \<Rightarrow> int" where
  "authStatusGeneration inst = (case in_authStatus inst of None \<Rightarrow> 0 | Some a \<Rightarrow> as_generation a)"

definition normalizeSigningKeyPhases :: "signing_key list \<Rightarrow> signing_key list" where
  "normalizeSigningKeyPhases keys =
     map (\<lambda>k. if ky_phase k = KeyUnset then k\<lparr>ky_phase := KeyActive\<rparr> else k) keys"

text \<open>The source returns pointers into the slice, through which it writes; the model returns the position.\<close>

fun first_index :: "('a \<Rightarrow> bool) \<Rightarrow> 'a list \<Rightarrow> nat option" where
  "first_index P [] = None"
| "first_index P (x # xs) = (if P x then Some 0 else map_option Suc (first_index P xs))"

definition activeSigningKey :: "signing_key list \<Rightarrow> nat option" where
  "activeSigningKey keys = first_index (\<lambda>k. ky_phase k = KeyActive) keys"

definition otherSigningKey :: "signing_key list \<Rightarrow> nat option" where
  "otherSigningKey keys = first_index (\<lambda>k. ky_phase k \<noteq> KeyActive) keys"

definition signingKeysForRender :: "signing_key list \<Rightarrow> signing_key list" where
  "signingKeysForRender keys =
     (case activeSigningKey keys of Some i \<Rightarrow> [keys ! i] | None \<Rightarrow> []) @
     (case otherSigningKey keys of
        Some j \<Rightarrow> if ky_phase (keys ! j) \<noteq> KeyRemoving then [keys ! j] else []
      | None \<Rightarrow> [])"

definition removeSigningKey :: "signing_key list \<Rightarrow> string \<Rightarrow> signing_key list" where
  "removeSigningKey keys kid = filter (\<lambda>k. ky_id k \<noteq> kid) keys"

definition promoteSigningKey :: "time \<Rightarrow> nat \<Rightarrow> nat \<Rightarrow> signing_key list \<Rightarrow> signing_key list" where
  "promoteSigningKey now i j keys =
     (let keys1 = keys[i := (keys ! i)\<lparr>ky_phase := KeyValidationOnly, ky_demotedAt := Some now\<rparr>]
      in keys1[j := (keys1 ! j)\<lparr>ky_phase := KeyActive\<rparr>])"

section \<open>Pending steps\<close>

record rotation_pending =
  rp_step :: rotation_step
  rp_since :: "time option"
  rp_lagging :: "string list"
  rp_count :: int

definition rotationPendingSnapshot :: "auth_status option \<Rightarrow> rotation_pending" where
  "rotationPendingSnapshot a =
     (case a of
        None \<Rightarrow> \<lparr>rp_step = StepNone, rp_since = None, rp_lagging = [], rp_count = 0\<rparr>
      | Some s \<Rightarrow> \<lparr>rp_step = as_pendingStep s, rp_since = as_pendingSince s, rp_lagging = as_lagging s,
                  rp_count = as_laggingCount s\<rparr>)"

definition clearRotationPending :: "auth_status \<Rightarrow> auth_status" where
  "clearRotationPending s =
     s\<lparr>as_pendingStep := StepNone, as_pendingSince := None, as_lagging := [], as_laggingCount := 0\<rparr>"

definition MaxLaggingEnginesReported :: nat where "MaxLaggingEnginesReported = 5"

definition noteRotationPending ::
  "time \<Rightarrow> rotation_step \<Rightarrow> string list \<Rightarrow> rotation_pending \<Rightarrow> auth_status \<Rightarrow> auth_status" where
  "noteRotationPending now step lagging prev s =
     (let since = (if rp_step prev \<noteq> step \<or> rp_since prev = None then Some now else rp_since prev)
      in s\<lparr>as_pendingStep := step, as_pendingSince := since,
           as_lagging := take MaxLaggingEnginesReported lagging, as_laggingCount := int (length lagging)\<rparr>)"

definition step_name :: "rotation_step \<Rightarrow> string" where
  "step_name s =
     (case s of StepNone \<Rightarrow> [] | AwaitingPromotion \<Rightarrow> ''AwaitingPromotion''
      | AwaitingRetireAnchor \<Rightarrow> ''AwaitingRetireAnchor'' | AwaitingRemoval \<Rightarrow> ''AwaitingRemoval'')"

fun join_comma :: "string list \<Rightarrow> string" where
  "join_comma [] = []"
| "join_comma [x] = x"
| "join_comma (x # y # xs) = x @ '', '' @ join_comma (y # xs)"

definition rotationPendingMessage :: "rotation_pending \<Rightarrow> string" where
  "rotationPendingMessage p =
     ''signing key rotation is waiting at '' @ step_name (rp_step p) @ '' for '' @ itoa (rp_count p)
     @ '' engine(s) to converge''
     @ (if rp_lagging p \<noteq> [] then '': '' @ join_comma (rp_lagging p) else [])
     @ (if rp_count p > int (length (rp_lagging p))
        then '' (and '' @ itoa (rp_count p - int (length (rp_lagging p))) @ '' more)'' else [])"

section \<open>Certificates\<close>

text \<open>\<open>instance_tls.go\<close>: provenance of a Secret and readiness of a Certificate.\<close>

definition certificateReadyForCurrentGeneration :: "issued_cert \<Rightarrow> bool" where
  "certificateReadyForCurrentGeneration cert =
     (case find (\<lambda>(t, s, g). t = ''Ready'') (co_conditions cert) of
        Some (t, s, g) \<Rightarrow> s = ''True'' \<and> g = co_generation cert
      | None \<Rightarrow> False)"

definition verifyCertManagerIssued :: "secret \<Rightarrow> string \<Rightarrow> engine_error option" where
  "verifyCertManagerIssued s certName =
     (if se_certificateName s \<noteq> certName
      then Some (ApiError (''Secret was not issued by the Certificate '' @ certName)) else None)"

definition verifySigningKeyProvenance ::
  "auth_api \<Rightarrow> secret \<Rightarrow> issued_cert \<Rightarrow> string option \<Rightarrow> engine_error option" where
  "verifySigningKeyProvenance api s cert witnessed =
     (case verifyCertManagerIssued s (co_name cert) of
        Some e \<Rightarrow> Some e
      | None \<Rightarrow>
          if \<not> se_creation s < co_creation cert then None
          else case (witnessed, au_publicKey api (se_data s TLSCertKey)) of
                 (Some w, Inr fp) \<Rightarrow>
                   if fp \<noteq> [] \<and> fp = w then None
                   else Some (ApiError ''signing key secret predates the certificate that would issue it'')
               | _ \<Rightarrow> Some (ApiError ''signing key secret predates the certificate that would issue it''))"

text \<open>The witness of the public key: recorded when it can be read, replaced when it changed.\<close>

definition observed_fingerprint :: "auth_api \<Rightarrow> secret \<Rightarrow> string option \<Rightarrow> string option" where
  "observed_fingerprint api s old =
     (case au_publicKey api (se_data s TLSCertKey) of
        Inr fp \<Rightarrow> if fp \<noteq> [] then Some fp else old
      | Inl e \<Rightarrow> old)"

definition applySigningCertificate ::
  "auth_api \<Rightarrow> 'i instance_cr_scheme \<Rightarrow> cert_manager_spec \<Rightarrow> signing_key \<Rightarrow> (engine_error + bool) \<times> signing_key \<times> auth_op list" where
  "applySigningCertificate api inst cm key =
     (let desired = buildSigningCertificate inst cm (ky_id key); name = crt_name desired
      in case au_apply api desired of
           Some e \<Rightarrow> (Inl e, key, [])
         | None \<Rightarrow>
             (let key1 = key\<lparr>ky_secretName := crt_secretName desired\<rparr>; ops = [ApplyCert name]
              in case au_getCert api name of
                   Inl e \<Rightarrow> (Inl e, key1, ops)
                 | Inr None \<Rightarrow> (Inr False, key1, ops)
                 | Inr (Some cert) \<Rightarrow>
                     if \<not> certificateReadyForCurrentGeneration cert then (Inr False, key1, ops)
                     else case au_getSecret api (ky_secretName key1) of
                            Inl e \<Rightarrow> (Inl e, key1, ops)
                          | Inr None \<Rightarrow> (Inr False, key1, ops)
                          | Inr (Some s) \<Rightarrow>
                              if se_data s TLSPrivateKeyKey = [] then (Inr False, key1, ops)
                              else case verifySigningKeyProvenance api s cert (ky_observedFingerprint key1) of
                                     Some e \<Rightarrow> (Inl e, key1, ops)
                                   | None \<Rightarrow>
                                       (Inr True,
                                        key1\<lparr>ky_observedFingerprint := observed_fingerprint api s (ky_observedFingerprint key1),
                                             ky_createdAt := (if ky_createdAt key1 = 0 then au_now api else ky_createdAt key1)\<rparr>,
                                        ops)))"

section \<open>The rotation\<close>

fun fingerprints_of :: "auth_api \<Rightarrow> string \<Rightarrow> signing_key list \<Rightarrow> engine_error + (string, string) fmap" where
  "fingerprints_of api ns [] = Inr fmempty"
| "fingerprints_of api ns (k # ks) =
     and_then (signingKeyFingerprint api ns (ky_secretName k)) (\<lambda>fp.
     and_then (fingerprints_of api ns ks) (\<lambda>m. Inr (if ky_id k \<in> fset (fmdom m) then m else fmupd (ky_id k) fp m)))"

definition expected_auth ::
  "auth_api \<Rightarrow> string \<Rightarrow> auth_spec \<Rightarrow> local_auth_spec option \<Rightarrow> signing_key list \<Rightarrow> engine_error + resolved_auth" where
  "expected_auth api ns spec loc keys =
     and_then (case loc of
                 Some l \<Rightarrow> checkSecretKeyPresent api ns (la_adminPasswordName l) (la_adminPasswordKey l)
                            ''admin password secret''
               | None \<Rightarrow> Inr []) (\<lambda>rv.
     and_then (fingerprints_of api ns (signingKeysForRender keys)) (\<lambda>fps.
       Inr \<lparr>ra_spec = spec, ra_signingKeys = signingKeysForRender keys, ra_adminSecretVersion = rv,
            ra_fingerprints = fps\<rparr>))"

definition enginesConvergedOn ::
  "operator_env \<Rightarrow> auth_api \<Rightarrow> 'i instance_cr_scheme \<Rightarrow> auth_spec \<Rightarrow> signing_key list \<Rightarrow> engine_error + bool \<times> string list" where
  "enginesConvergedOn env api inst spec keys =
     and_then (au_engines api) (\<lambda>items.
       (let ours = filter (\<lambda>e. er_instanceRef e = in_name inst) items
        in if ours = [] then Inr (True, [])
           else and_then (expected_auth api (in_namespace inst) spec (au_local spec) keys) (\<lambda>a.
                  (let lagging = map er_name (filter (\<lambda>e. er_observedAuthHash e \<noteq> authHash env (Some a)) ours)
                   in if lagging \<noteq> [] then Inr (False, sort lagging) else Inr (True, [])))))"

text \<open>Minting and deleting act on the status and leave the error, if any; a failed deletion leaves the status.\<close>

definition mint_key :: "int \<Rightarrow> signing_key_phase \<Rightarrow> cert_manager_spec \<Rightarrow> signing_key" where
  "mint_key gen phase cm =
     (case resolvedCertManagerAlgSize cm of (alg, sz) \<Rightarrow>
        \<lparr>ky_id = signingKeyID gen, ky_secretName = [], ky_createdAt = 0, ky_observedFingerprint = None,
         ky_algorithm = alg, ky_size = sz, ky_phase = phase, ky_demotedAt = None, ky_retireEligibleAt = None\<rparr>)"

definition mintNextSigningKey ::
  "auth_api \<Rightarrow> 'i instance_cr_scheme \<Rightarrow> cert_manager_spec \<Rightarrow> auth_status \<Rightarrow> engine_error option \<times> auth_status \<times> auth_op list" where
  "mintNextSigningKey api inst cm a =
     (let gen = as_generation a + 1
      in case applySigningCertificate api inst cm (mint_key gen KeyValidationOnly cm) of
           (Inl e, _, ops) \<Rightarrow> (Some e, a, ops)
         | (Inr False, _, ops) \<Rightarrow> (None, a, ops)
         | (Inr True, key, ops) \<Rightarrow>
             (None, a\<lparr>as_signingKeys := as_signingKeys a @ [key], as_generation := gen\<rparr>, ops))"

definition deleteSigningKey ::
  "auth_api \<Rightarrow> 'i instance_cr_scheme \<Rightarrow> signing_key \<Rightarrow> auth_status \<Rightarrow> engine_error option \<times> auth_status \<times> auth_op list" where
  "deleteSigningKey api inst key a =
     (let certName = signingCertificateName (in_name inst) (ky_id key)
      in case au_deleteCert api certName of
           Some e \<Rightarrow> (Some e, a, [])
         | None \<Rightarrow>
             case au_deleteSecret api (ky_secretName key) of
               Some e \<Rightarrow> (Some e, a, [DeleteCert certName])
             | None \<Rightarrow> (None, a\<lparr>as_signingKeys := removeSigningKey (as_signingKeys a) (ky_id key)\<rparr>,
                        [DeleteCert certName, DeleteSecret (ky_secretName key)]))"

text \<open>A step that waits for the engines: errors and lagging engines park it, else it goes on.\<close>

definition gated ::
  "operator_env \<Rightarrow> auth_api \<Rightarrow> 'i instance_cr_scheme \<Rightarrow> auth_spec \<Rightarrow> rotation_step \<Rightarrow> rotation_pending \<Rightarrow> auth_status
     \<Rightarrow> engine_error option \<times> auth_status \<times> auth_op list \<Rightarrow> engine_error option \<times> auth_status \<times> auth_op list" where
  "gated env api inst spec step prev a advance =
     (case enginesConvergedOn env api inst spec (as_signingKeys a) of
        Inl e \<Rightarrow> (Some e, a, [])
      | Inr (False, lagging) \<Rightarrow> (None, noteRotationPending (au_now api) step lagging prev a, [])
      | Inr (True, _) \<Rightarrow> advance)"

definition stepSigningKeyRotation ::
  "operator_env \<Rightarrow> auth_api \<Rightarrow> 'i instance_cr_scheme \<Rightarrow> auth_spec \<Rightarrow> signing_key_policy \<Rightarrow> auth_status
     \<Rightarrow> engine_error option \<times> auth_status \<times> auth_op list" where
  "stepSigningKeyRotation env api inst spec pol a0 =
     (let keys = as_signingKeys a0; now = au_now api;
          prev = rotationPendingSnapshot (Some a0); a = clearRotationPending a0
      in case activeSigningKey keys of
           None \<Rightarrow> (Some (Panic ''nil active signing key''), a, [])
         | Some i \<Rightarrow>
           case otherSigningKey keys of
             None \<Rightarrow>
               (let (alg, size) = resolvedCertManagerAlgSize (sk_certManager pol);
                    act = keys ! i;
                    a1 = (if ky_algorithm act = [] \<or> ky_size act = 0
                          then a\<lparr>as_signingKeys := keys[i := act\<lparr>ky_algorithm := alg, ky_size := size\<rparr>]\<rparr> else a)
                in case sk_rotationInterval pol of
                     None \<Rightarrow> (None, a1, [])
                   | Some interval \<Rightarrow>
                       if now < ky_createdAt act + interval then (None, a1, [])
                       else mintNextSigningKey api inst (sk_certManager pol) a1)
           | Some j \<Rightarrow>
               (let other = keys ! j
                in if ky_phase other = KeyValidationOnly \<and> ky_demotedAt other = None then
                     gated env api inst spec AwaitingPromotion prev a
                       (None, a\<lparr>as_signingKeys := promoteSigningKey now i j keys\<rparr>, [])
                   else if ky_phase other = KeyValidationOnly \<and> ky_retireEligibleAt other = None then
                     gated env api inst spec AwaitingRetireAnchor prev a
                       (None, a\<lparr>as_signingKeys := keys[j := other\<lparr>ky_retireEligibleAt := Some now\<rparr>]\<rparr>, [])
                   else if ky_phase other = KeyValidationOnly then
                     (case sk_retainDuration pol of
                        None \<Rightarrow> (None, a, [])
                      | Some retain \<Rightarrow>
                          if now < the (ky_retireEligibleAt other) + retain then (None, a, [])
                          else (None, a\<lparr>as_signingKeys := keys[j := other\<lparr>ky_phase := KeyRemoving\<rparr>]\<rparr>, []))
                   else if ky_phase other = KeyRemoving then
                     gated env api inst spec AwaitingRemoval prev a (deleteSigningKey api inst other a)
                   else (None, a, [])))"

definition bootstrapSigningKey ::
  "auth_api \<Rightarrow> 'i instance_cr_scheme \<Rightarrow> cert_manager_spec \<Rightarrow> signing_key list
     \<Rightarrow> (engine_error + bool) \<times> auth_status option \<times> auth_op list" where
  "bootstrapSigningKey api inst cm keys =
     (let gen = authStatusGeneration inst + 1
      in case applySigningCertificate api inst cm (mint_key gen KeyActive cm) of
           (Inl e, _, ops) \<Rightarrow> (Inl e, map_option (\<lambda>a. a\<lparr>as_signingKeys := keys\<rparr>) (in_authStatus inst), ops)
         | (Inr ready, key, ops) \<Rightarrow>
             (Inr ready, Some \<lparr>as_signingKeys = keys @ [key], as_generation = gen, as_pendingStep = StepNone,
                as_pendingSince = None, as_lagging = [], as_laggingCount = 0\<rparr>, ops))"

text \<open>Applying the Certificate of one key of the list; the key is updated in place also on an error.\<close>

definition apply_at ::
  "auth_api \<Rightarrow> 'i instance_cr_scheme \<Rightarrow> cert_manager_spec \<Rightarrow> nat \<Rightarrow> signing_key list
     \<Rightarrow> (engine_error + bool) \<times> signing_key list \<times> auth_op list" where
  "apply_at api inst cm i keys =
     (case applySigningCertificate api inst cm (keys ! i) of (r, key, ops) \<Rightarrow> (r, keys[i := key], ops))"

definition ensureSigningKeys ::
  "operator_env \<Rightarrow> auth_api \<Rightarrow> 'i instance_cr_scheme \<Rightarrow> auth_spec \<Rightarrow> signing_key_policy
     \<Rightarrow> (engine_error + bool) \<times> auth_status option \<times> auth_op list" where
  "ensureSigningKeys env api inst spec pol =
     (let cm = sk_certManager pol; keys = normalizeSigningKeyPhases (existingSigningKeys inst);
          with_keys = (\<lambda>ks. map_option (\<lambda>a. a\<lparr>as_signingKeys := ks\<rparr>) (in_authStatus inst))
      in case activeSigningKey keys of
           None \<Rightarrow> bootstrapSigningKey api inst cm keys
         | Some i \<Rightarrow>
           case apply_at api inst cm i keys of
             (Inl e, keys1, ops1) \<Rightarrow> (Inl e, with_keys keys1, ops1)
           | (Inr activeReady, keys1, ops1) \<Rightarrow>
               (case (case otherSigningKey keys1 of
                        Some j \<Rightarrow> if ky_phase (keys1 ! j) \<noteq> KeyRemoving then apply_at api inst cm j keys1
                                  else (Inr True, keys1, [])
                      | None \<Rightarrow> (Inr True, keys1, [])) of
                  (Inl e, keys2, ops2) \<Rightarrow> (Inl e, with_keys keys2, ops1 @ ops2)
                | (Inr _, keys2, ops2) \<Rightarrow>
                    (let pending = rotationPendingSnapshot (in_authStatus inst);
                         a = \<lparr>as_signingKeys = keys2, as_generation = authStatusGeneration inst,
                              as_pendingStep = rp_step pending, as_pendingSince = rp_since pending,
                              as_lagging = rp_lagging pending, as_laggingCount = rp_count pending\<rparr>
                     in if \<not> activeReady then (Inr False, Some a, ops1 @ ops2)
                        else case stepSigningKeyRotation env api inst spec pol a of
                               (err, a', ops3) \<Rightarrow> (Inr True, Some a', ops1 @ ops2 @ ops3))))"

definition InstanceConditionAuthReady :: string where "InstanceConditionAuthReady = ''AuthReady''"

definition setInstanceCondition ::
  "condition_api \<Rightarrow> 'i instance_cr_scheme \<Rightarrow> string \<Rightarrow> bool \<Rightarrow> string \<Rightarrow> string \<Rightarrow> 'i instance_cr_scheme" where
  "setInstanceCondition ca inst t b reason msg =
     inst\<lparr>in_conditions := ca_set ca (mk_condition t b reason msg (in_generation inst)) (in_conditions inst)\<rparr>"

definition reasonAuthSpecInvalid :: string where "reasonAuthSpecInvalid = ''AuthSpecInvalid''"

definition reasonRotationWaitingForEngines :: string where
  "reasonRotationWaitingForEngines = ''RotationWaitingForEngines''"

fun error_text :: "engine_error \<Rightarrow> string" where
  "error_text (ApiError m) = m"
| "error_text (ParseError m) = m"
| "error_text (Panic m) = m"
| "error_text e = ''error''"

text \<open>While auth is off only the generation counter is kept, so that no identifier is minted twice.\<close>

definition retained_generation :: "'i instance_cr_scheme \<Rightarrow> auth_status option" where
  "retained_generation inst =
     (if authStatusGeneration inst > 0
      then Some \<lparr>as_signingKeys = [], as_generation = authStatusGeneration inst, as_pendingStep = StepNone,
             as_pendingSince = None, as_lagging = [], as_laggingCount = 0\<rparr>
      else None)"

definition auth_cond :: "condition_api \<Rightarrow> bool \<Rightarrow> string \<Rightarrow> string \<Rightarrow> 'i instance_cr_scheme \<Rightarrow> 'i instance_cr_scheme" where
  "auth_cond ca b reason msg inst = setInstanceCondition ca inst InstanceConditionAuthReady b reason msg"

text \<open>The source dereferences \<open>spec.auth.local\<close> and its policy, which the validation requires of an enabled
  block; without them the process panics, here before anything is written.\<close>

definition provision_auth ::
  "condition_api \<Rightarrow> operator_env \<Rightarrow> auth_api \<Rightarrow> 'i instance_cr_scheme \<Rightarrow> auth_spec
     \<Rightarrow> engine_error option \<times> 'i instance_cr_scheme \<times> auth_op list" where
  "provision_auth ca env api inst spec =
     (case au_local spec of
        None \<Rightarrow> (Some (Panic ''spec.auth.local is nil''), inst, [])
      | Some l \<Rightarrow>
        case checkAdminPasswordSecret api inst l of
          Inl e \<Rightarrow> (Some e, auth_cond ca False ''AdminSecretMissing'' (error_text e) inst, [])
        | Inr _ \<Rightarrow>
          case la_signingKeys l of
            None \<Rightarrow> (Some (Panic ''spec.auth.local.signingKeys is nil''), inst, [])
          | Some pol \<Rightarrow>
            case ensureSigningKeys env api inst spec pol of
              (Inl e, a, ops) \<Rightarrow>
                (Some e, auth_cond ca False ''SigningCertificateEnsureFailed'' (error_text e)
                   (inst\<lparr>in_authStatus := a\<rparr>), ops)
            | (Inr False, a, ops) \<Rightarrow>
                (None, auth_cond ca False ''SigningKeyPending''
                   ''waiting for cert-manager to issue the JWT signing keypair'' (inst\<lparr>in_authStatus := a\<rparr>), ops)
            | (Inr True, a, ops) \<Rightarrow>
                (let pending = rotationPendingSnapshot a
                 in if rp_step pending \<noteq> StepNone
                    then (None, auth_cond ca True reasonRotationWaitingForEngines (rotationPendingMessage pending)
                            (inst\<lparr>in_authStatus := a\<rparr>), ops)
                    else (None, auth_cond ca True ''Ready'' ''admin credentials and JWT signing key are provisioned''
                            (inst\<lparr>in_authStatus := a\<rparr>), ops)))"

definition ensureAuth ::
  "condition_api \<Rightarrow> operator_env \<Rightarrow> auth_api \<Rightarrow> 'i instance_cr_scheme \<Rightarrow> engine_error option \<times> 'i instance_cr_scheme \<times> auth_op list" where
  "ensureAuth ca env api inst =
     (case in_auth inst of
        None \<Rightarrow> (None, auth_cond ca True ''Disabled'' ''spec.auth is unset or disabled''
                         (inst\<lparr>in_authStatus := retained_generation inst\<rparr>), [])
      | Some spec \<Rightarrow>
          if \<not> au_enabled spec
          then (None, auth_cond ca True ''Disabled'' ''spec.auth is unset or disabled''
                        (inst\<lparr>in_authStatus := retained_generation inst\<rparr>), [])
          else (let errs = ValidateAuth (au_hugeDuration api) (in_auth inst)
                in if errs \<noteq> []
                   then (let err = aggregate errs
                         in (Some err, auth_cond ca False reasonAuthSpecInvalid (error_text err) inst, []))
                   else provision_auth ca env api inst spec))"

section \<open>What an engine renders\<close>

text \<open>The authentication part of \<open>resolveInstanceInfo\<close>.\<close>

definition resolve_auth ::
  "condition_api \<Rightarrow> auth_api \<Rightarrow> 'i instance_cr_scheme \<Rightarrow> engine_error + resolved_auth option" where
  "resolve_auth ca api inst =
     (case in_auth inst of
        None \<Rightarrow> Inr None
      | Some spec \<Rightarrow>
          if \<not> au_enabled spec then Inr None
          else if \<not> (case ca_find ca (in_conditions inst) InstanceConditionAuthReady of
                       Some c \<Rightarrow> cd_status c = ''True'' | None \<Rightarrow> False)
                  \<or> existingSigningKeys inst = []
          then Inl (ApiError (''FireboltInstance '' @ in_name inst @ '' has auth enabled but it is not ready yet''))
          else case au_local spec of
                 None \<Rightarrow> Inl (ApiError (''FireboltInstance '' @ in_name inst
                                @ '' has auth enabled but spec.auth.local is unset''))
               | Some l \<Rightarrow> and_then (expected_auth api (in_namespace inst) spec (Some l) (existingSigningKeys inst))
                             (\<lambda>a. Inr (Some a)))"

end
