(* ===== verification/Auth_Rotation.thy ===== *)
theory Auth_Rotation
  imports Instance_Auth
begin

text \<open>
  The rotation of signing keys as an abstract machine over stages (\<open>key_step\<close>), and that a pass of
  \<open>ensureAuth\<close> over keys in some stage makes one step of it, whatever the API answers.
\<close>

section \<open>The rotation as an abstract machine\<close>

text \<open>The stages of a rotation, with the generations of the keys: one key; a second one minted that only
  validates; promoted, so that it signs and the old one validates; anchored at the time from which no engine
  signs with the old key; retired, so that no engine renders it any more.\<close>

datatype key_stage =
    NoKeys
  | Single int
  | Minted int int
  | Promoted int int
  | Anchored int int time
  | Retired int int

inductive key_step :: "bool \<Rightarrow> time \<Rightarrow> int option \<Rightarrow> key_stage \<times> int \<Rightarrow> key_stage \<times> int \<Rightarrow> bool"
  for conv now retain where
  stay: "key_step conv now retain (s, g) (s, g)"
| boot: "key_step conv now retain (NoKeys, g) (Single (g + 1), g + 1)"
| mint: "key_step conv now retain (Single i, g) (Minted i (g + 1), g + 1)"
| promote: "conv \<Longrightarrow> key_step conv now retain (Minted i j, g) (Promoted i j, g)"
| anchor: "conv \<Longrightarrow> key_step conv now retain (Promoted i j, g) (Anchored i j now, g)"
| retire: "retain = Some d \<Longrightarrow> r + d \<le> now \<Longrightarrow> key_step conv now retain (Anchored i j r, g) (Retired i j, g)"
| remove: "conv \<Longrightarrow> key_step conv now retain (Retired i j, g) (Single j, g)"

inductive_cases key_stepE: "key_step conv now retain (s, g) (s', g')"

type_synonym key_role = "string \<times> signing_key_phase \<times> bool \<times> time option"

definition role :: "signing_key \<Rightarrow> key_role" where
  "role k = (ky_id k, ky_phase k, ky_demotedAt k \<noteq> None, ky_retireEligibleAt k)"

fun in_stage :: "signing_key list \<Rightarrow> key_stage \<Rightarrow> bool" where
  "in_stage ks NoKeys \<longleftrightarrow> ks = []"
| "in_stage ks (Single i) \<longleftrightarrow>
     map role ks = [(signingKeyID i, KeyActive, False, None)] \<or> map role ks = [(signingKeyID i, KeyUnset, False, None)]"
| "in_stage ks (Minted i j) \<longleftrightarrow>
     map role ks = [(signingKeyID i, KeyActive, False, None), (signingKeyID j, KeyValidationOnly, False, None)]"
| "in_stage ks (Promoted i j) \<longleftrightarrow>
     map role ks = [(signingKeyID i, KeyValidationOnly, True, None), (signingKeyID j, KeyActive, False, None)]"
| "in_stage ks (Anchored i j r) \<longleftrightarrow>
     map role ks = [(signingKeyID i, KeyValidationOnly, True, Some r), (signingKeyID j, KeyActive, False, None)]"
| "in_stage ks (Retired i j) \<longleftrightarrow>
     (\<exists>r. map role ks = [(signingKeyID i, KeyRemoving, True, Some r), (signingKeyID j, KeyActive, False, None)])"

definition rendered :: "key_stage \<Rightarrow> string list" where
  "rendered s =
     (case s of NoKeys \<Rightarrow> [] | Single i \<Rightarrow> [signingKeyID i] | Minted i j \<Rightarrow> [signingKeyID i, signingKeyID j]
      | Promoted i j \<Rightarrow> [signingKeyID j, signingKeyID i] | Anchored i j r \<Rightarrow> [signingKeyID j, signingKeyID i]
      | Retired i j \<Rightarrow> [signingKeyID j])"

fun stage_ok :: "key_stage \<Rightarrow> int \<Rightarrow> bool" where
  "stage_ok NoKeys g \<longleftrightarrow> 0 \<le> g"
| "stage_ok (Single i) g \<longleftrightarrow> 0 < i \<and> i \<le> g"
| "stage_ok (Minted i j) g \<longleftrightarrow> 0 < i \<and> i < j \<and> j \<le> g"
| "stage_ok (Promoted i j) g \<longleftrightarrow> 0 < i \<and> i < j \<and> j \<le> g"
| "stage_ok (Anchored i j r) g \<longleftrightarrow> 0 < i \<and> i < j \<and> j \<le> g"
| "stage_ok (Retired i j) g \<longleftrightarrow> 0 < i \<and> i < j \<and> j \<le> g"

lemma key_step_ok: "key_step conv now retain (s, g) (s', g') \<Longrightarrow> stage_ok s g \<Longrightarrow> stage_ok s' g'"
  by (erule key_stepE) auto

lemma signingKeyID_inject [simp]: "0 \<le> i \<Longrightarrow> 0 \<le> j \<Longrightarrow> signingKeyID i = signingKeyID j \<longleftrightarrow> i = j"
  by (simp add: signingKeyID_def itoa_inject_nonneg)

lemma map_one: "map f xs = [y] \<longleftrightarrow> (\<exists>x. xs = [x] \<and> f x = y)"
  by (cases xs) auto

lemma map_two: "map f xs = [y, z] \<longleftrightarrow> (\<exists>a b. xs = [a, b] \<and> f a = y \<and> f b = z)"
  by (cases xs; cases "tl xs") auto

lemma role_eq: "role k = (i, p, d, r) \<longleftrightarrow>
    ky_id k = i \<and> ky_phase k = p \<and> (ky_demotedAt k \<noteq> None) = d \<and> ky_retireEligibleAt k = r"
  by (simp add: role_def)

lemmas key_lists = map_one map_two role_eq

lemma in_stage_render: "in_stage ks s \<Longrightarrow> map ky_id (signingKeysForRender ks) = rendered s"
  by (cases s) (auto simp: key_lists signingKeysForRender_def activeSigningKey_def otherSigningKey_def rendered_def)

lemma in_stage_roles: "in_stage ks s \<Longrightarrow> map role ks' = map role ks \<Longrightarrow> in_stage ks' s"
  by (cases s) auto

section \<open>The code runs that machine\<close>

lemma apply_keeps_role:
  "applySigningCertificate api inst cm key = (r, key', ops) \<Longrightarrow> role key' = role key"
  by (auto simp: applySigningCertificate_def Let_def role_def split: option.splits sum.splits if_splits)

lemma apply_at_roles:
  assumes "apply_at api inst cm i keys = (r, keys', ops)"
  shows "map role keys' = map role keys"
proof (cases "i < length keys")
  case True
  obtain key where "applySigningCertificate api inst cm (keys ! i) = (r, key, ops)" "keys' = keys[i := key]"
    using assms by (auto simp: apply_at_def split: prod.splits)
  with True show ?thesis using apply_keeps_role by (metis list_update_id map_update nth_map)
next
  case False
  then show ?thesis using assms by (auto simp: apply_at_def list_update_beyond split: prod.splits)
qed

text \<open>The convergence check a pass makes on key lists with the roles of the stored ones.\<close>

definition converged_on :: "operator_env \<Rightarrow> auth_api \<Rightarrow> instance_cr \<Rightarrow> auth_spec \<Rightarrow> key_role list \<Rightarrow> bool" where
  "converged_on env api inst spec R \<longleftrightarrow>
     (\<exists>ks. map role ks = R \<and> (\<exists>l. enginesConvergedOn env api inst spec ks = Inr (True, l)))"

lemma gated_cases:
  assumes "gated env api inst spec st prev a advance = (err, a', ops)"
  obtains (parked) "as_signingKeys a' = as_signingKeys a" "as_generation a' = as_generation a" "ops = []"
  | (advanced) "converged_on env api inst spec (map role (as_signingKeys a))" "advance = (err, a', ops)"
  using assms
  by (auto simp: gated_def noteRotationPending_def converged_on_def Let_def split: sum.splits prod.splits bool.splits)

lemma mint_cases:
  assumes "mintNextSigningKey api inst cm a = (err, a', ops)"
  obtains "a' = a"
  | key where "role key = (signingKeyID (as_generation a + 1), KeyValidationOnly, False, None)"
      "a' = a\<lparr>as_signingKeys := as_signingKeys a @ [key], as_generation := as_generation a + 1\<rparr>"
  using assms apply_keeps_role
  by (fastforce simp: mintNextSigningKey_def Let_def mint_key_def role_def split: sum.splits prod.splits bool.splits)


definition settled_phases :: "signing_key list \<Rightarrow> bool" where
  "settled_phases ks \<longleftrightarrow> (\<forall>k\<in>set ks. ky_phase k \<noteq> KeyUnset)"

lemma normalize_settled: "settled_phases (normalizeSigningKeyPhases ks)"
  by (auto simp: settled_phases_def normalizeSigningKeyPhases_def)

lemma normalize_stage: "in_stage ks s \<Longrightarrow> in_stage (normalizeSigningKeyPhases ks) s"
  by (cases s) (auto dest!: map_one [THEN iffD1] map_two [THEN iffD1] simp: role_eq normalizeSigningKeyPhases_def)

lemma roles_settled: "map role ks = map role ks' \<Longrightarrow> settled_phases ks \<longleftrightarrow> settled_phases ks'"
proof -
  assume "map role ks = map role ks'"
  then have "map (fst \<circ> snd) (map role ks) = map (fst \<circ> snd) (map role ks')" by simp
  then have "map ky_phase ks = map ky_phase ks'" by (simp add: role_def comp_def)
  then have "ky_phase ` set ks = ky_phase ` set ks'" by (metis set_map)
  then show ?thesis by (auto simp: settled_phases_def) (metis imageE imageI)+
qed

lemmas index_defs = activeSigningKey_def otherSigningKey_def

text \<open>The stage and counter a status is in, next to those a step may lead to.\<close>

definition steps_to :: "bool \<Rightarrow> time \<Rightarrow> int option \<Rightarrow> key_stage \<Rightarrow> int \<Rightarrow> signing_key list \<Rightarrow> int \<Rightarrow> bool" where
  "steps_to conv now retain s g ks g' \<longleftrightarrow>
     (\<exists>s'. in_stage ks s' \<and> settled_phases ks \<and> key_step conv now retain (s, g) (s', g'))"

lemma steps_to_stay: "in_stage ks s \<Longrightarrow> settled_phases ks \<Longrightarrow> steps_to conv now retain s g ks g"
  by (auto simp: steps_to_def intro: key_step.stay)

lemma clear_keys [simp]: "as_signingKeys (clearRotationPending a) = as_signingKeys a"
  "as_generation (clearRotationPending a) = as_generation a"
  by (simp_all add: clearRotationPending_def)

lemma step_single:
  assumes "in_stage (as_signingKeys a) (Single i)" "settled_phases (as_signingKeys a)"
    and "stepSigningKeyRotation env api inst spec pol a = (err, a', ops)"
  shows "steps_to conv (au_now api) (sk_retainDuration pol) (Single i) (as_generation a)
    (as_signingKeys a') (as_generation a')"
proof -
  obtain x where x: "as_signingKeys a = [x]" "role x = (signingKeyID i, KeyActive, False, None)"
    using assms(1,2) by (auto simp: key_lists settled_phases_def)
  let ?m = "\<lambda>b. steps_to conv (au_now api) (sk_retainDuration pol) (Single i) (as_generation a)
    (as_signingKeys b) (as_generation b)"
  have keep: "?m b" if "as_signingKeys b = [y]" "role y = role x" "as_generation b = as_generation a" for b y
    using that x by (auto simp: role_eq settled_phases_def intro!: steps_to_stay)
  have grow: "?m b" if "mintNextSigningKey api inst cm c = (e, b, os)" "as_signingKeys c = [y]" "role y = role x"
    "as_generation c = as_generation a" for b c y e os cm
    using that(1)
  proof (cases rule: mint_cases)
    case 1
    then show ?thesis using keep that by metis
  next
    case (2 key)
    then show ?thesis using that x
      by (auto simp: steps_to_def role_eq settled_phases_def
          intro!: exI [of _ "Minted i (as_generation a + 1)"] key_step.mint)
  qed
  obtain alg sz where res: "resolvedCertManagerAlgSize (sk_certManager pol) = (alg, sz)" by force
  define bare where "bare \<longleftrightarrow> ky_algorithm x = [] \<or> ky_size x = 0"
  define y where "y = (if bare then x\<lparr>ky_algorithm := alg, ky_size := sz\<rparr> else x)"
  define c where "c = (if bare then (clearRotationPending a)\<lparr>as_signingKeys := [y]\<rparr> else clearRotationPending a)"
  have c: "as_signingKeys c = [y]" "role y = role x" "as_generation c = as_generation a"
    using x by (simp_all add: c_def y_def role_def)
  have "a' = c \<or> mintNextSigningKey api inst (sk_certManager pol) c = (err, a', ops)"
    using assms(3) x res
    by (auto simp: stepSigningKeyRotation_def index_defs Let_def role_eq c_def y_def bare_def split: option.splits if_splits)
  with c keep grow show ?thesis by metis
qed

lemma step_minted:
  assumes "in_stage (as_signingKeys a) (Minted i j)"
    and "stepSigningKeyRotation env api inst spec pol a = (err, a', ops)"
  shows "steps_to (converged_on env api inst spec (map role (as_signingKeys a))) (au_now api) (sk_retainDuration pol)
    (Minted i j) (as_generation a) (as_signingKeys a') (as_generation a')"
proof -
  obtain x y where ks: "as_signingKeys a = [x, y]" "role x = (signingKeyID i, KeyActive, False, None)"
    "role y = (signingKeyID j, KeyValidationOnly, False, None)"
    using assms(1) by (auto dest!: map_two [THEN iffD1])
  have "gated env api inst spec AwaitingPromotion (rotationPendingSnapshot (Some a)) (clearRotationPending a)
      (None, (clearRotationPending a)\<lparr>as_signingKeys := promoteSigningKey (au_now api) 0 1 [x, y]\<rparr>, []) = (err, a', ops)"
    using assms(2) ks by (simp add: stepSigningKeyRotation_def index_defs Let_def role_eq)
  then show ?thesis
  proof (cases rule: gated_cases)
    case parked
    then show ?thesis using assms(1) ks by (auto simp: role_eq settled_phases_def intro!: steps_to_stay)
  next
    case advanced
    then show ?thesis using ks
      by (auto simp: steps_to_def promoteSigningKey_def role_def settled_phases_def
          intro!: exI [of _ "Promoted i j"] key_step.promote)
  qed
qed

lemma step_promoted:
  assumes "in_stage (as_signingKeys a) (Promoted i j)"
    and "stepSigningKeyRotation env api inst spec pol a = (err, a', ops)"
  shows "steps_to (converged_on env api inst spec (map role (as_signingKeys a))) (au_now api) (sk_retainDuration pol)
    (Promoted i j) (as_generation a) (as_signingKeys a') (as_generation a')"
proof -
  obtain x y where ks: "as_signingKeys a = [x, y]" "role x = (signingKeyID i, KeyValidationOnly, True, None)"
    "role y = (signingKeyID j, KeyActive, False, None)"
    using assms(1) by (auto dest!: map_two [THEN iffD1])
  have "gated env api inst spec AwaitingRetireAnchor (rotationPendingSnapshot (Some a)) (clearRotationPending a)
      (None, (clearRotationPending a)\<lparr>as_signingKeys := [x\<lparr>ky_retireEligibleAt := Some (au_now api)\<rparr>, y]\<rparr>, []) = (err, a', ops)"
    using assms(2) ks by (auto simp: stepSigningKeyRotation_def index_defs Let_def role_eq)
  then show ?thesis
  proof (cases rule: gated_cases)
    case parked
    then show ?thesis using assms(1) ks by (auto simp: role_eq settled_phases_def intro!: steps_to_stay)
  next
    case advanced
    then show ?thesis using ks
      by (auto simp: steps_to_def role_def settled_phases_def
          intro!: exI [of _ "Anchored i j (au_now api)"] key_step.anchor)
  qed
qed

lemma step_anchored:
  assumes "in_stage (as_signingKeys a) (Anchored i j r)"
    and "stepSigningKeyRotation env api inst spec pol a = (err, a', ops)"
  shows "steps_to conv (au_now api) (sk_retainDuration pol)
    (Anchored i j r) (as_generation a) (as_signingKeys a') (as_generation a')"
proof -
  obtain x y where ks: "as_signingKeys a = [x, y]" "role x = (signingKeyID i, KeyValidationOnly, True, Some r)"
    "role y = (signingKeyID j, KeyActive, False, None)"
    using assms(1) by (auto dest!: map_two [THEN iffD1])
  show ?thesis
  proof (cases "\<exists>d. sk_retainDuration pol = Some d \<and> r + d \<le> au_now api")
    case True
    then obtain d where d: "sk_retainDuration pol = Some d" "r + d \<le> au_now api" by blast
    then have "as_signingKeys a' = [x\<lparr>ky_phase := KeyRemoving\<rparr>, y]" "as_generation a' = as_generation a"
      using assms(2) ks by (auto simp: stepSigningKeyRotation_def index_defs Let_def role_eq)
    then show ?thesis using ks d
      by (auto simp: steps_to_def role_def settled_phases_def intro!: exI [of _ "Retired i j"] key_step.retire)
  next
    case False
    then have "as_signingKeys a' = [x, y]" "as_generation a' = as_generation a"
      using assms(2) ks by (auto simp: stepSigningKeyRotation_def index_defs Let_def role_eq split: option.splits if_splits)
    then show ?thesis using assms(1) ks by (auto simp: role_eq settled_phases_def intro!: steps_to_stay)
  qed
qed

lemma step_retired:
  assumes "in_stage (as_signingKeys a) (Retired i j)" "stage_ok (Retired i j) g"
    and "stepSigningKeyRotation env api inst spec pol a = (err, a', ops)"
  shows "steps_to (converged_on env api inst spec (map role (as_signingKeys a))) (au_now api) (sk_retainDuration pol)
    (Retired i j) (as_generation a) (as_signingKeys a') (as_generation a')"
proof -
  obtain x y r where ks: "as_signingKeys a = [x, y]" "role x = (signingKeyID i, KeyRemoving, True, Some r)"
    "role y = (signingKeyID j, KeyActive, False, None)"
    using assms(1) by (auto dest!: map_two [THEN iffD1])
  have keep: "steps_to c (au_now api) (sk_retainDuration pol) (Retired i j) (as_generation a)
      (as_signingKeys b) (as_generation b)"
    if "as_signingKeys b = as_signingKeys a" "as_generation b = as_generation a" for b c
    using assms(1) ks that by (auto simp: role_eq settled_phases_def intro!: steps_to_stay)
  have "gated env api inst spec AwaitingRemoval (rotationPendingSnapshot (Some a)) (clearRotationPending a)
      (deleteSigningKey api inst x (clearRotationPending a)) = (err, a', ops)"
    using assms(3) ks by (simp add: stepSigningKeyRotation_def index_defs Let_def role_eq)
  then show ?thesis
  proof (cases rule: gated_cases)
    case parked
    then show ?thesis by (intro keep) simp_all
  next
    case advanced
    from advanced(2) have "as_generation a' = as_generation a"
      and ends: "as_signingKeys a' = [y] \<or> as_signingKeys a' = as_signingKeys a"
      using ks assms(2) by (auto simp: deleteSigningKey_def removeSigningKey_def role_eq Let_def split: option.splits)
    moreover from ks have "in_stage [y] (Single j)" "settled_phases [y]" by (auto simp: role_eq settled_phases_def)
    ultimately show ?thesis using keep advanced(1) unfolding steps_to_def
      by (metis clear_keys(1) key_step.remove)
  qed
qed

lemma step_stage:
  assumes "in_stage (as_signingKeys a) s" "settled_phases (as_signingKeys a)" "stage_ok s (as_generation a)" "s \<noteq> NoKeys"
    and "stepSigningKeyRotation env api inst spec pol a = (err, a', ops)"
  shows "steps_to (converged_on env api inst spec (map role (as_signingKeys a))) (au_now api) (sk_retainDuration pol)
    s (as_generation a) (as_signingKeys a') (as_generation a')"
proof (cases s)
  case (Single i)
  then show ?thesis using step_single assms by blast
next
  case (Minted i j)
  then show ?thesis using step_minted assms by blast
next
  case (Promoted i j)
  then show ?thesis using step_promoted assms by blast
next
  case (Anchored i j r)
  then show ?thesis using step_anchored assms by blast
next
  case (Retired i j)
  then show ?thesis using step_retired assms by blast
qed (use assms in simp)

definition status_keys :: "auth_status option \<Rightarrow> signing_key list" where
  "status_keys a = (case a of None \<Rightarrow> [] | Some s \<Rightarrow> as_signingKeys s)"

definition status_gen :: "auth_status option \<Rightarrow> int" where
  "status_gen a = (case a of None \<Rightarrow> 0 | Some s \<Rightarrow> as_generation s)"

lemma status_simps [simp]:
  "status_keys None = []" "status_keys (Some s) = as_signingKeys s" "status_gen None = 0" "status_gen (Some s) = as_generation s"
  "existingSigningKeys inst = status_keys (in_authStatus inst)" "authStatusGeneration inst = status_gen (in_authStatus inst)"
  by (simp_all add: status_keys_def status_gen_def existingSigningKeys_def authStatusGeneration_def)

lemma status_map_keys:
  "a \<noteq> None \<Longrightarrow> status_keys (map_option (\<lambda>s. s\<lparr>as_signingKeys := ks\<rparr>) a) = ks"
  "status_gen (map_option (\<lambda>s. s\<lparr>as_signingKeys := ks\<rparr>) a) = status_gen a"
  by (cases a; simp)+

lemma active_none: "in_stage ks s \<Longrightarrow> settled_phases ks \<Longrightarrow> activeSigningKey ks = None \<longleftrightarrow> s = NoKeys"
  by (cases s) (auto dest!: map_one [THEN iffD1] map_two [THEN iffD1] simp: role_eq activeSigningKey_def settled_phases_def)

lemma boot_stage:
  assumes "bootstrapSigningKey api inst cm [] = (r, a', ops)" "status_keys (in_authStatus inst) = []"
  shows "steps_to conv now retain NoKeys (status_gen (in_authStatus inst)) (status_keys a') (status_gen a')"
proof -
  obtain r1 key os where ap: "applySigningCertificate api inst cm (mint_key (status_gen (in_authStatus inst) + 1) KeyActive cm)
      = (r1, key, os)" by (cases "applySigningCertificate api inst cm (mint_key (status_gen (in_authStatus inst) + 1) KeyActive cm)")
  have role: "role key = (signingKeyID (status_gen (in_authStatus inst) + 1), KeyActive, False, None)"
    using apply_keeps_role [OF ap] by (simp add: mint_key_def role_def split: prod.splits)
  show ?thesis
  proof (cases r1)
    case (Inl e)
    then have "a' = map_option (\<lambda>s. s\<lparr>as_signingKeys := []\<rparr>) (in_authStatus inst)"
      using assms ap by (auto simp: bootstrapSigningKey_def Let_def)
    then have "status_keys a' = []" "status_gen a' = status_gen (in_authStatus inst)"
      by (cases "in_authStatus inst"; simp)+
    then show ?thesis by (simp add: steps_to_stay settled_phases_def)
  next
    case (Inr b)
    then have "status_keys a' = [key]" "status_gen a' = status_gen (in_authStatus inst) + 1"
      using assms ap by (auto simp: bootstrapSigningKey_def Let_def)
    then show ?thesis using role
      by (auto simp: steps_to_def role_eq settled_phases_def intro!: exI [of _ "Single (status_gen (in_authStatus inst) + 1)"] key_step.boot)
  qed
qed

lemma first_index_Some: "first_index P xs = Some i \<Longrightarrow> i < length xs \<and> P (xs ! i)"
  by (induction xs arbitrary: i) (auto split: if_splits)

lemma first_index_map: "map f xs = map f ys \<Longrightarrow> (\<And>x. P x \<longleftrightarrow> Q (f x)) \<Longrightarrow> first_index P xs = first_index P ys"
proof (induction xs arbitrary: ys)
  case (Cons x xs)
  then obtain y zs where "ys = y # zs" "f x = f y" "map f xs = map f zs" by (cases ys) auto
  with Cons show ?case by auto
qed simp

lemma other_roles: "map role ks = map role ks' \<Longrightarrow> otherSigningKey ks = otherSigningKey ks'"
  unfolding otherSigningKey_def by (rule first_index_map [where Q = "\<lambda>(i, p, d, r). p \<noteq> KeyActive"]) (auto simp: role_def)

lemma apply_ops: "applySigningCertificate api inst cm key = (r, key', ops) \<Longrightarrow> DeleteSecret n \<notin> set ops"
  by (auto simp: applySigningCertificate_def Let_def split: option.splits sum.splits if_splits)

lemma apply_at_ops: "apply_at api inst cm i keys = (r, keys', ops) \<Longrightarrow> DeleteSecret n \<notin> set ops"
  by (auto simp: apply_at_def split: prod.splits dest: apply_ops)

lemma apply_at_others: "apply_at api inst cm i keys = (r, keys', ops) \<Longrightarrow> j \<noteq> i \<Longrightarrow> keys' ! j = keys ! j"
  by (auto simp: apply_at_def split: prod.splits)

text \<open>A pass over the keys bootstraps the first one, or leaves the roles of the keys, or makes one rotation step
  on keys with the same roles; a key that is being removed is not touched before the step.\<close>

lemma ensure_cases:
  assumes run: "ensureSigningKeys env api inst spec pol = (r, a', ops)"
    and keys: "keys = normalizeSigningKeyPhases (status_keys (in_authStatus inst))"
  obtains (boot) "activeSigningKey keys = None" "bootstrapSigningKey api inst (sk_certManager pol) keys = (r, a', ops)"
  | (kept) "activeSigningKey keys \<noteq> None" "map role (status_keys a') = map role keys"
      "status_gen a' = status_gen (in_authStatus inst)" "\<forall>n. DeleteSecret n \<notin> set ops"
  | (stepped) a e a1 os where "activeSigningKey keys \<noteq> None" "map role (as_signingKeys a) = map role keys"
      "as_generation a = status_gen (in_authStatus inst)"
      "stepSigningKeyRotation env api inst spec pol a = (e, a1, os)" "a' = Some a1"
      "\<forall>n. DeleteSecret n \<in> set ops \<longrightarrow> DeleteSecret n \<in> set os"
      "\<forall>j. otherSigningKey keys = Some j \<longrightarrow> ky_phase (keys ! j) = KeyRemoving \<longrightarrow> as_signingKeys a ! j = keys ! j"
proof (cases "activeSigningKey keys")
  case None
  then show ?thesis using run boot by (auto simp: ensureSigningKeys_def Let_def keys)
next
  case (Some i)
  have i: "i < length keys" "ky_phase (keys ! i) = KeyActive"
    using Some by (auto simp: activeSigningKey_def dest!: first_index_Some)
  then have st: "in_authStatus inst \<noteq> None" unfolding keys normalizeSigningKeyPhases_def by (cases "in_authStatus inst") auto
  obtain r1 keys1 ops1 where ap1: "apply_at api inst (sk_certManager pol) i keys = (r1, keys1, ops1)"
    by (cases "apply_at api inst (sk_certManager pol) i keys")
  note m1 = apply_at_roles [OF ap1]
  define snd_apply where "snd_apply = (case otherSigningKey keys1 of
      Some j \<Rightarrow> if ky_phase (keys1 ! j) \<noteq> KeyRemoving then apply_at api inst (sk_certManager pol) j keys1
                else (Inr True, keys1, [])
    | None \<Rightarrow> (Inr True, keys1, []))"
  obtain r2 keys2 ops2 where ap2: "snd_apply = (r2, keys2, ops2)" by (cases snd_apply)
  have m2: "map role keys2 = map role keys"
    using ap2 m1 by (auto simp: snd_apply_def split: option.splits if_splits dest!: apply_at_roles)
  have dels: "DeleteSecret n \<notin> set ops1" "DeleteSecret n \<notin> set ops2" for n
    using ap1 ap2 by (auto simp: snd_apply_def split: option.splits if_splits dest: apply_at_ops)
  have still: "keys2 ! j = keys ! j" if "otherSigningKey keys = Some j" "ky_phase (keys ! j) = KeyRemoving" for j
  proof -
    have "j \<noteq> i" using that(2) i by auto
    then have "keys1 ! j = keys ! j" using ap1 apply_at_others by blast
    then show ?thesis using ap2 that other_roles [OF m1] by (simp add: snd_apply_def)
  qed
  show ?thesis
  proof (cases "(\<exists>e. r1 = Inl e) \<or> (\<exists>e. r2 = Inl e)")
    case True
    then have "\<exists>ks'. map role ks' = map role keys \<and> (\<forall>n. DeleteSecret n \<notin> set ops) \<and>
        a' = map_option (\<lambda>s. s\<lparr>as_signingKeys := ks'\<rparr>) (in_authStatus inst)"
      using run Some ap1 ap2 m1 m2 dels
      by (auto simp: ensureSigningKeys_def Let_def keys [symmetric] snd_apply_def [symmetric] split: sum.splits)
    then show ?thesis using kept st Some status_map_keys by (metis option.distinct(1))
  next
    case False
    define a where "a = \<lparr>as_signingKeys = keys2, as_generation = status_gen (in_authStatus inst),
      as_pendingStep = rp_step (rotationPendingSnapshot (in_authStatus inst)),
      as_pendingSince = rp_since (rotationPendingSnapshot (in_authStatus inst)),
      as_lagging = rp_lagging (rotationPendingSnapshot (in_authStatus inst)),
      as_laggingCount = rp_count (rotationPendingSnapshot (in_authStatus inst))\<rparr>"
    obtain b1 b2 where b: "r1 = Inr b1" "r2 = Inr b2" using False by (cases r1; cases r2) auto
    then have "a' = Some a \<and> ops = ops1 @ ops2 \<or>
        (\<exists>e a1 os. stepSigningKeyRotation env api inst spec pol a = (e, a1, os) \<and> a' = Some a1 \<and> ops = ops1 @ ops2 @ os)"
      using run Some ap1 ap2
      by (auto simp: ensureSigningKeys_def Let_def keys [symmetric] snd_apply_def [symmetric] a_def [symmetric]
          split: if_splits prod.splits)
    then show ?thesis
    proof
      assume "a' = Some a \<and> ops = ops1 @ ops2"
      then show ?thesis using kept Some m2 dels by (simp add: a_def)
    next
      assume "\<exists>e a1 os. stepSigningKeyRotation env api inst spec pol a = (e, a1, os) \<and> a' = Some a1 \<and> ops = ops1 @ ops2 @ os"
      then show ?thesis using stepped [of a] Some m2 dels still by (auto simp: a_def)
    qed
  qed
qed

lemma ensure_stage:
  assumes s: "in_stage (status_keys (in_authStatus inst)) s" and ok: "stage_ok s (status_gen (in_authStatus inst))"
    and run: "ensureSigningKeys env api inst spec pol = (r, a', ops)"
  shows "steps_to (converged_on env api inst spec (map role (normalizeSigningKeyPhases (status_keys (in_authStatus inst)))))
    (au_now api) (sk_retainDuration pol) s (status_gen (in_authStatus inst)) (status_keys a') (status_gen a')"
proof -
  define keys where "keys = normalizeSigningKeyPhases (status_keys (in_authStatus inst))"
  have ks: "in_stage keys s" "settled_phases keys"
    using s by (auto simp: keys_def intro: normalize_stage normalize_settled)
  have same: "in_stage ks' s" "settled_phases ks'" if "map role ks' = map role keys" for ks'
    using that ks in_stage_roles roles_settled by metis+
  have "steps_to (converged_on env api inst spec (map role keys)) (au_now api) (sk_retainDuration pol) s
      (status_gen (in_authStatus inst)) (status_keys a') (status_gen a')"
    using run keys_def
  proof (cases rule: ensure_cases)
    case boot
    then have "s = NoKeys" "keys = []" "status_keys (in_authStatus inst) = []"
      using active_none ks s by (force simp: keys_def normalizeSigningKeyPhases_def)+
    then show ?thesis using boot boot_stage by simp
  next
    case kept
    then show ?thesis using same by (simp add: steps_to_stay)
  next
    case (stepped a e a1 os)
    have "s \<noteq> NoKeys" using stepped(1) active_none [OF ks] by simp
    then show ?thesis using step_stage [OF _ _ _ _ stepped(4), of s] same [OF stepped(2)] ok stepped by simp
  qed
  then show ?thesis by (simp add: keys_def)
qed

end
