(* ===== verification/Auth_Fleet.thy ===== *)
theory Auth_Fleet
  imports Auth_Rotation
begin

text \<open>
  Instance controller and engines together: passes of the controller, roll-outs of the engines onto the keys they
  read, signatures and time in any order. The rotation never opens a validation gap, deletes only keys nobody
  uses, never uses an identifier twice, and ends.
\<close>

lemma ensureAuth_cases:
  assumes "ensureAuth ca env api inst = (err, inst', ops)" "in_auth inst = Some spec" "au_enabled spec"
  obtains (kept) "in_authStatus inst' = in_authStatus inst" "ops = []"
  | (ran) l pol r where "au_local spec = Some l" "la_signingKeys l = Some pol"
      "ensureSigningKeys env api inst spec pol = (r, in_authStatus inst', ops)"
      "ValidateAuth (au_hugeDuration api) (Some spec) = []"
  using assms
  by (auto simp: ensureAuth_def provision_auth_def auth_cond_def setInstanceCondition_def Let_def
      split: option.splits sum.splits prod.splits bool.splits if_splits)

lemma ensureAuth_frame:
  assumes "ensureAuth ca env api inst = (err, inst', ops)"
  shows "in_name inst' = in_name inst \<and> in_auth inst' = in_auth inst \<and> in_namespace inst' = in_namespace inst"
  using assms
  by (auto simp: ensureAuth_def provision_auth_def auth_cond_def setInstanceCondition_def Let_def
      split: option.splits sum.splits prod.splits bool.splits if_splits)

section \<open>The fleet\<close>

text \<open>An engine keeps generations alive, each started with the authentication it was rendered with; the first
  key of a rendering signs and all of them validate. Once it has settled on the newest one, it records that
  rendering's hash (\<open>computeStable\<close>). Tokens are a ghost: the key and the time of each signature.\<close>

lemma computeStable_records_auth:
  assumes "computeStable rc spec m current status = Inr r" "es_phase (r_status r) \<noteq> PhaseCreating"
  shows "es_observedAuthHash (r_status r) = authHash (rc_env rc) (ii_auth (rc_info rc))"
  using assms
  by (auto simp: computeStable_def settle_def pass_matches_def stsMatchesSpec_def annotationsMatchSpec_def record_serving_cert_def
      result_of_def bump_generation_def Let_def split: if_splits option.splits list.splits)

record fleet_engine =
  fe_name :: string
  fe_instanceRef :: string
  fe_seen :: "resolved_auth option"
  fe_views :: "resolved_auth list"

record auth_world =
  aw_inst :: instance_cr
  aw_now :: time
  aw_fleet :: "fleet_engine list"
  aw_tokens :: "(string \<times> time) set"

definition ref_of :: "operator_env \<Rightarrow> fleet_engine \<Rightarrow> engine_ref" where
  "ref_of env e = \<lparr>er_name = fe_name e, er_instanceRef = fe_instanceRef e, er_observedAuthHash = authHash env (fe_seen e)\<rparr>"

definition ours :: "auth_world \<Rightarrow> fleet_engine list" where
  "ours w = filter (\<lambda>e. fe_instanceRef e = in_name (aw_inst w)) (aw_fleet w)"

definition view_ids :: "resolved_auth \<Rightarrow> string list" where
  "view_ids v = map ky_id (ra_signingKeys v)"

text \<open>Stored times have whole seconds.\<close>

definition stored_key :: "signing_key \<Rightarrow> signing_key" where
  "stored_key k = k\<lparr>ky_createdAt := whole_second (ky_createdAt k), ky_demotedAt := map_option whole_second (ky_demotedAt k),
     ky_retireEligibleAt := map_option whole_second (ky_retireEligibleAt k)\<rparr>"

definition stored_status :: "auth_status \<Rightarrow> auth_status" where
  "stored_status a = a\<lparr>as_signingKeys := map stored_key (as_signingKeys a),
     as_pendingSince := map_option whole_second (as_pendingSince a)\<rparr>"

definition stored_instance :: "instance_cr \<Rightarrow> instance_cr" where
  "stored_instance inst = inst\<lparr>in_authStatus := map_option stored_status (in_authStatus inst)\<rparr>"

text \<open>The hash an engine recorded equals the one a pass expects of the present keys only if it comes from a
  rendering of the same keys.\<close>

definition collision_free :: "operator_env \<Rightarrow> auth_api \<Rightarrow> auth_world \<Rightarrow> bool" where
  "collision_free env api w \<longleftrightarrow>
     (\<forall>e\<in>set (ours w). \<forall>spec ks a. in_auth (aw_inst w) = Some spec \<longrightarrow>
        map role ks = map role (normalizeSigningKeyPhases (existingSigningKeys (aw_inst w))) \<longrightarrow>
        expected_auth api (in_namespace (aw_inst w)) spec (au_local spec) ks = Inr a \<longrightarrow>
        authHash env (fe_seen e) = authHash env (Some a) \<longrightarrow>
        (\<exists>v. fe_seen e = Some v \<and> view_ids v = view_ids a))"

text \<open>Authentication stays on, and a token lives at least a second shorter than the engines accept it, the second by
  which a stored time can be early. How long a demoted key is retained is left to the validation of each pass.\<close>

definition auth_stays :: "time \<Rightarrow> instance_cr \<Rightarrow> bool" where
  "auth_stays life inst \<longleftrightarrow>
     (\<exists>spec. in_auth inst = Some spec \<and> au_enabled spec \<and>
        (\<forall>l huge. au_local spec = Some l \<longrightarrow> life + second \<le> token_window huge l \<and> token_window huge l \<le> MaxInt64))"

inductive auth_step :: "condition_api \<Rightarrow> operator_env \<Rightarrow> time \<Rightarrow> auth_world \<Rightarrow> auth_world \<Rightarrow> bool"
  for ca env life where
  tick: "aw_now w \<le> t \<Longrightarrow> auth_step ca env life w (w\<lparr>aw_now := t\<rparr>)"
| sign: "e \<in> set (ours w) \<Longrightarrow> v \<in> set (fe_views e) \<Longrightarrow> ra_signingKeys v = k # ks \<Longrightarrow>
    auth_step ca env life w (w\<lparr>aw_tokens := insert (ky_id k, aw_now w) (aw_tokens w)\<rparr>)"
| roll: "aw_fleet w = es @ e # fs \<Longrightarrow> fe_instanceRef e = in_name (aw_inst w) \<Longrightarrow>
    resolve_auth ca api (aw_inst w) = Inr (Some v) \<Longrightarrow>
    auth_step ca env life w (w\<lparr>aw_fleet := es @ e\<lparr>fe_views := fe_views e @ [v]\<rparr> # fs\<rparr>)"
| settle: "aw_fleet w = es @ e # fs \<Longrightarrow> fe_views e = vs @ [v] \<Longrightarrow>
    auth_step ca env life w (w\<lparr>aw_fleet := es @ e\<lparr>fe_views := [v], fe_seen := Some v\<rparr> # fs\<rparr>)"
| retire: "aw_fleet w = es @ e # fs \<Longrightarrow> set vs \<subseteq> set (fe_views e) \<Longrightarrow>
    auth_step ca env life w (w\<lparr>aw_fleet := es @ e\<lparr>fe_views := vs\<rparr> # fs\<rparr>)"
| join: "aw_fleet w = es @ fs \<Longrightarrow> fe_seen e = None \<Longrightarrow> fe_views e = [] \<Longrightarrow>
    auth_step ca env life w (w\<lparr>aw_fleet := es @ e # fs\<rparr>)"
| leave: "aw_fleet w = es @ e # fs \<Longrightarrow> auth_step ca env life w (w\<lparr>aw_fleet := es @ fs\<rparr>)"
| edit: "in_name inst = in_name (aw_inst w) \<Longrightarrow> in_authStatus inst = in_authStatus (aw_inst w) \<Longrightarrow> auth_stays life inst \<Longrightarrow>
    auth_step ca env life w (w\<lparr>aw_inst := inst\<rparr>)"
| pass: "ensureAuth ca env api (aw_inst w) = (err, inst, ops) \<Longrightarrow> au_now api = aw_now w \<Longrightarrow>
    au_engines api = Inr (map (ref_of env) (aw_fleet w)) \<or> (\<exists>e. au_engines api = Inl e) \<Longrightarrow>
    collision_free env api w \<Longrightarrow>
    auth_step ca env life w (w\<lparr>aw_inst := stored_instance inst\<rparr>)"

text \<open>Renderings that may be alive in a stage, and the keys that may have signed tokens that still count.\<close>

fun allowed :: "key_stage \<Rightarrow> string list set" where
  "allowed NoKeys = {}"
| "allowed (Single i) = {[signingKeyID i]}"
| "allowed (Minted i j) = {[signingKeyID i], [signingKeyID i, signingKeyID j]}"
| "allowed (Promoted i j) = {[signingKeyID i, signingKeyID j], [signingKeyID j, signingKeyID i]}"
| "allowed (Anchored i j r) = {[signingKeyID j, signingKeyID i]}"
| "allowed (Retired i j) = {[signingKeyID j, signingKeyID i], [signingKeyID j]}"

fun signers :: "key_stage \<Rightarrow> string set" where
  "signers NoKeys = {}"
| "signers (Single i) = {signingKeyID i}"
| "signers (Minted i j) = {signingKeyID i}"
| "signers (Promoted i j) = {signingKeyID i, signingKeyID j}"
| "signers (Anchored i j r) = {signingKeyID i, signingKeyID j}"
| "signers (Retired i j) = {signingKeyID j}"

text \<open>What an engine can have recorded about the newest key: renderings of stages already passed.\<close>

fun recorded_ok :: "key_stage \<Rightarrow> string list \<Rightarrow> bool" where
  "recorded_ok NoKeys o' \<longleftrightarrow> True"
| "recorded_ok (Single i) o' \<longleftrightarrow> True"
| "recorded_ok (Minted i j) o' \<longleftrightarrow> signingKeyID j \<in> set o' \<longrightarrow> o' = [signingKeyID i, signingKeyID j]"
| "recorded_ok (Promoted i j) o' \<longleftrightarrow> signingKeyID j \<in> set o' \<longrightarrow> length o' = 2"
| "recorded_ok (Anchored i j r) o' \<longleftrightarrow> signingKeyID j \<in> set o' \<longrightarrow> length o' = 2"
| "recorded_ok (Retired i j) o' \<longleftrightarrow> True"

definition engine_ok :: "key_stage \<Rightarrow> int \<Rightarrow> fleet_engine \<Rightarrow> bool" where
  "engine_ok s g e \<longleftrightarrow>
     (\<forall>v\<in>set (fe_views e). view_ids v \<in> allowed s) \<and>
     (\<forall>v. fe_seen e = Some v \<longrightarrow>
        set (view_ids v) \<subseteq> signingKeyID ` {0<..g} \<and> recorded_ok s (view_ids v) \<and>
        (view_ids v = rendered s \<longrightarrow> (\<forall>u\<in>set (fe_views e). view_ids u = rendered s)))"

definition token_ok :: "time \<Rightarrow> time \<Rightarrow> key_stage \<Rightarrow> string \<times> time \<Rightarrow> bool" where
  "token_ok life now s tok \<longleftrightarrow>
     snd tok \<le> now \<and> (now \<le> snd tok + life \<longrightarrow> fst tok \<in> signers s) \<and>
     (\<forall>i j r. s = Anchored i j r \<longrightarrow> fst tok = signingKeyID i \<longrightarrow> snd tok < r + second)"

definition auth_inv :: "time \<Rightarrow> auth_world \<Rightarrow> bool" where
  "auth_inv life w \<longleftrightarrow> 0 \<le> life \<and> auth_stays life (aw_inst w) \<and>
     (\<exists>s. in_stage (status_keys (in_authStatus (aw_inst w))) s \<and> stage_ok s (status_gen (in_authStatus (aw_inst w))) \<and>
        (\<forall>e\<in>set (ours w). engine_ok s (status_gen (in_authStatus (aw_inst w))) e) \<and>
        (\<forall>tok\<in>aw_tokens w. token_ok life (aw_now w) s tok) \<and>
        (\<forall>i j r. s = Anchored i j r \<longrightarrow> whole_second r = r))"

section \<open>Every step keeps the invariant\<close>

lemma allowed_rendered: "s \<noteq> NoKeys \<Longrightarrow> rendered s \<in> allowed s"
  by (cases s) (auto simp: rendered_def)

lemma allowed_signer: "k # ks \<in> allowed s \<Longrightarrow> k \<in> signers s"
  by (cases s) auto

lemma allowed_validates: "stage_ok s g \<Longrightarrow> ids \<in> allowed s \<Longrightarrow> k \<in> signers s \<Longrightarrow> k \<in> set ids"
  by (cases s) auto

lemma allowed_recorded: "stage_ok s g \<Longrightarrow> ids \<in> allowed s \<Longrightarrow> recorded_ok s ids"
  by (cases s) auto

lemma allowed_generations: "stage_ok s g \<Longrightarrow> ids \<in> allowed s \<Longrightarrow> set ids \<subseteq> signingKeyID ` {0<..g}"
  by (cases s) auto

lemma expected_ids:
  "expected_auth api ns spec loc ks = Inr a \<Longrightarrow> view_ids a = map ky_id (signingKeysForRender ks)"
  by (auto simp: expected_auth_def and_then_Inr view_ids_def)

lemma resolve_ids:
  assumes "resolve_auth ca api inst = Inr (Some v)"
  shows "view_ids v = map ky_id (signingKeysForRender (status_keys (in_authStatus inst))) \<and> status_keys (in_authStatus inst) \<noteq> []"
  using assms
  by (auto simp: resolve_auth_def and_then_Inr split: option.splits if_splits dest!: expected_ids)

lemma converged_views:
  assumes conv: "converged_on env api (aw_inst w) spec (map role (normalizeSigningKeyPhases (existingSigningKeys (aw_inst w))))"
    and spec: "in_auth (aw_inst w) = Some spec" and cf: "collision_free env api w"
    and engines: "au_engines api = Inr (map (ref_of env) (aw_fleet w)) \<or> (\<exists>e. au_engines api = Inl e)"
    and stage: "in_stage (status_keys (in_authStatus (aw_inst w))) s"
    and ok: "\<forall>e\<in>set (ours w). engine_ok s g e" and e: "e \<in> set (ours w)" and u: "u \<in> set (fe_views e)"
  shows "view_ids u = rendered s"
proof -
  obtain ks l where ks: "map role ks = map role (normalizeSigningKeyPhases (existingSigningKeys (aw_inst w)))"
    "enginesConvergedOn env api (aw_inst w) spec ks = Inr (True, l)"
    using conv by (auto simp: converged_on_def)
  have list: "au_engines api = Inr (map (ref_of env) (aw_fleet w))"
    using ks(2) engines by (auto simp: enginesConvergedOn_def)
  have ours: "filter (\<lambda>e. er_instanceRef e = in_name (aw_inst w)) (map (ref_of env) (aw_fleet w)) = map (ref_of env) (ours w)"
    by (simp add: ours_def filter_map comp_def ref_of_def)
  obtain a where a: "expected_auth api (in_namespace (aw_inst w)) spec (au_local spec) ks = Inr a"
    and all: "\<forall>e\<in>set (ours w). authHash env (fe_seen e) = authHash env (Some a)"
    using ks(2) e unfolding enginesConvergedOn_def list and_then_simps ours
    by (auto simp: and_then_Inr Let_def ref_of_def filter_empty_conv split: if_splits)
  have "in_stage ks s" using normalize_stage [OF stage] ks(1) in_stage_roles by simp
  then have "view_ids a = rendered s" using expected_ids [OF a] in_stage_render by simp
  moreover obtain v where "fe_seen e = Some v" "view_ids v = view_ids a"
    using cf e spec ks(1) a all unfolding collision_free_def by blast
  ultimately show ?thesis using ok e u by (auto simp: engine_ok_def)
qed

fun stored_stage :: "key_stage \<Rightarrow> key_stage" where
  "stored_stage (Anchored i j r) = Anchored i j (whole_second r)"
| "stored_stage s = s"

lemma stored_in_stage: "in_stage ks s \<Longrightarrow> in_stage (map stored_key ks) (stored_stage s)"
  by (cases s) (auto dest!: map_one [THEN iffD1] map_two [THEN iffD1] simp: role_def stored_key_def)

lemma stored_stage_same [simp]: "rendered (stored_stage s) = rendered s" "allowed (stored_stage s) = allowed s"
  "signers (stored_stage s) = signers s" "stage_ok (stored_stage s) g = stage_ok s g"
  "recorded_ok (stored_stage s) ids = recorded_ok s ids"
  by (cases s; simp add: rendered_def)+

lemma engine_ok_stored [simp]: "engine_ok (stored_stage s) g e = engine_ok s g e"
  by (simp add: engine_ok_def)

text \<open>A step of the key machine, taken on a converged fleet where it asks for one, keeps every engine in order.\<close>

lemma key_step_engine:
  assumes st: "key_step conv now retain (s, g) (s', g')" and ok: "stage_ok s g" and e: "engine_ok s g e"
    and conv: "conv \<Longrightarrow> \<forall>u\<in>set (fe_views e). view_ids u = rendered s"
  shows "engine_ok s' g' e"
proof -
  have grow: "set ids \<subseteq> signingKeyID ` {0<..g + 1}" if "set ids \<subseteq> signingKeyID ` {0<..g}" for ids
    using that by (rule subset_trans) (auto intro!: image_mono)
  show ?thesis using st
proof cases
  case stay
  then show ?thesis using e by simp
next
  case boot
  then show ?thesis using e grow by (fastforce simp: engine_ok_def)
next
  case (mint i)
  have fresh: "signingKeyID (g + 1) \<notin> signingKeyID ` {0<..g}" using ok mint by auto
  with mint e grow show ?thesis by (fastforce simp: engine_ok_def rendered_def)
next
  case (promote i j)
  then show ?thesis using e conv ok by (auto simp: engine_ok_def rendered_def)
next
  case (anchor i j)
  then show ?thesis using e conv by (auto simp: engine_ok_def rendered_def)
next
  case (retire d r i j)
  then show ?thesis using e by (auto simp: engine_ok_def rendered_def)
next
  case (remove i j)
  then show ?thesis using e conv by (auto simp: engine_ok_def rendered_def)
qed
qed

lemma whole_second_bounds: "whole_second t \<le> t" "t < whole_second t + second"
  using div_mult_mod_eq [of t second] pos_mod_bound [of second t] pos_mod_sign [of second t]
  by (simp_all add: whole_second_def second_def)

lemma whole_second_twice [simp]: "whole_second (whole_second t) = whole_second t"
  by (simp add: whole_second_def second_def)

lemma key_step_token:
  assumes st: "key_step conv now retain (s, g) (s', g')" and ok: "stage_ok s g" and tok: "token_ok life now s tok"
    and ret: "\<And>d. retain = Some d \<Longrightarrow> life + second \<le> d" and life: "0 \<le> life"
    and wh: "\<And>i j r. s = Anchored i j r \<Longrightarrow> whole_second r = r"
  shows "token_ok life now (stored_stage s') tok"
  using st
proof cases
  case stay
  then show ?thesis using tok wh by (cases s) (auto simp: token_ok_def)
next
  case (anchor i j)
  then show ?thesis using tok whole_second_bounds [of now] by (auto simp: token_ok_def)
next
  case (retire d r i j)
  then show ?thesis using tok ret [of d] by (auto simp: token_ok_def)
qed (use tok in \<open>auto simp: token_ok_def\<close>)


lemma stored_status_keys: "status_keys (map_option stored_status a) = map stored_key (status_keys a)"
  "status_gen (map_option stored_status a) = status_gen a"
  by (cases a; simp add: stored_status_def)+

lemma stored_instance_simps [simp]: "in_name (stored_instance i) = in_name i" "in_auth (stored_instance i) = in_auth i"
  "in_authStatus (stored_instance i) = map_option stored_status (in_authStatus i)"
  by (simp_all add: stored_instance_def)

lemma ensureAuth_stage:
  assumes run: "ensureAuth ca env api inst = (err, inst', ops)" and spec: "in_auth inst = Some spec" "au_enabled spec"
    and s: "in_stage (status_keys (in_authStatus inst)) s" "stage_ok s (status_gen (in_authStatus inst))"
  obtains s' retain where "in_stage (status_keys (in_authStatus inst')) s'"
    "key_step (converged_on env api inst spec (map role (normalizeSigningKeyPhases (status_keys (in_authStatus inst)))))
      (au_now api) retain (s, status_gen (in_authStatus inst)) (s', status_gen (in_authStatus inst'))"
    "retain = None \<or> ValidateAuth (au_hugeDuration api) (Some spec) = [] \<and>
       (\<exists>l pol. au_local spec = Some l \<and> la_signingKeys l = Some pol \<and> retain = sk_retainDuration pol)"
  using run spec
proof (cases rule: ensureAuth_cases)
  case kept
  then show ?thesis using that [of s None] s by (simp add: key_step.stay)
next
  case (ran l pol r)
  then show ?thesis using ensure_stage [OF s ran(3)] that unfolding steps_to_def by blast
qed

lemma pass_keeps:
  assumes run: "ensureAuth ca env api (aw_inst w) = (err, inst, ops)" and now: "au_now api = aw_now w"
    and engines: "au_engines api = Inr (map (ref_of env) (aw_fleet w)) \<or> (\<exists>e. au_engines api = Inl e)"
    and cf: "collision_free env api w" and inv: "auth_inv life w"
  shows "auth_inv life (w\<lparr>aw_inst := stored_instance inst\<rparr>)"
proof -
  let ?g = "status_gen (in_authStatus (aw_inst w))"
  obtain spec where spec: "in_auth (aw_inst w) = Some spec" "au_enabled spec"
    and win: "\<And>l huge. au_local spec = Some l \<Longrightarrow> life + second \<le> token_window huge l \<and> token_window huge l \<le> MaxInt64"
    using inv unfolding auth_inv_def auth_stays_def by blast
  obtain s where s: "in_stage (status_keys (in_authStatus (aw_inst w))) s" "stage_ok s ?g"
    and es: "\<forall>e\<in>set (ours w). engine_ok s ?g e" and toks: "\<forall>tok\<in>aw_tokens w. token_ok life (aw_now w) s tok"
    and wh: "\<forall>i j r. s = Anchored i j r \<longrightarrow> whole_second r = r"
    using inv unfolding auth_inv_def by blast
  obtain s' retain where s': "in_stage (status_keys (in_authStatus inst)) s'"
    and st: "key_step (converged_on env api (aw_inst w) spec
        (map role (normalizeSigningKeyPhases (status_keys (in_authStatus (aw_inst w))))))
      (au_now api) retain (s, ?g) (s', status_gen (in_authStatus inst))"
    and pol: "retain = None \<or> ValidateAuth (au_hugeDuration api) (Some spec) = [] \<and>
      (\<exists>l pol. au_local spec = Some l \<and> la_signingKeys l = Some pol \<and> retain = sk_retainDuration pol)"
    using ensureAuth_stage [OF run spec s] by blast
  note frame = ensureAuth_frame [OF run]
  have life0: "0 \<le> life" using inv by (simp add: auth_inv_def)
  have retd: "life + second \<le> d" if "retain = Some d" for d
  proof -
    obtain l p where "ValidateAuth (au_hugeDuration api) (Some spec) = []" "au_local spec = Some l" "la_signingKeys l = Some p"
      "sk_retainDuration p = Some d" using pol \<open>retain = Some d\<close> by auto
    then show ?thesis using win [of l "au_hugeDuration api"] accepted_retention_covers [OF _ spec(2)] by (meson order_trans)
  qed
  have "in_stage (map stored_key (status_keys (in_authStatus inst))) (stored_stage s')" using s' by (rule stored_in_stage)
  moreover have "stage_ok (stored_stage s') (status_gen (in_authStatus inst))" using key_step_ok [OF st s(2)] by simp
  moreover have "engine_ok (stored_stage s') (status_gen (in_authStatus inst)) e" if "e \<in> set (ours w)" for e
    unfolding engine_ok_stored
    by (rule key_step_engine [OF st s(2)]) (use es that converged_views [OF _ spec(1) cf engines s(1) es that] in auto)
  moreover have "token_ok life (aw_now w) (stored_stage s') tok" if "tok \<in> aw_tokens w" for tok
    by (rule key_step_token [OF st [unfolded now] s(2)]) (use toks that retd life0 wh in auto)
  moreover have "stored_stage s' = Anchored i j r \<Longrightarrow> whole_second r = r" for i j r
    by (cases s') auto
  moreover have "ours (w\<lparr>aw_inst := stored_instance inst\<rparr>) = ours w" using frame by (simp add: ours_def)
  moreover have "auth_stays life (stored_instance inst)" using inv frame by (simp add: auth_inv_def auth_stays_def)
  ultimately show ?thesis using inv by (auto simp: auth_inv_def stored_status_keys)
qed


text \<open>Steps of single engines.\<close>

lemma ours_split:
  "aw_fleet w = es @ e # fs \<Longrightarrow> set (ours w) =
     set (ours (w\<lparr>aw_fleet := es @ fs\<rparr>)) \<union> (if fe_instanceRef e = in_name (aw_inst w) then {e} else {})"
  by (auto simp: ours_def)

lemma fleet_keeps:
  assumes inv: "auth_inv life w" and fleet: "aw_fleet w = es @ e # fs" and ref: "fe_instanceRef e' = fe_instanceRef e"
    and ok: "\<And>s. in_stage (status_keys (in_authStatus (aw_inst w))) s \<Longrightarrow> stage_ok s (status_gen (in_authStatus (aw_inst w))) \<Longrightarrow>
      fe_instanceRef e = in_name (aw_inst w) \<Longrightarrow> engine_ok s (status_gen (in_authStatus (aw_inst w))) e \<Longrightarrow>
      engine_ok s (status_gen (in_authStatus (aw_inst w))) e'"
  shows "auth_inv life (w\<lparr>aw_fleet := es @ e' # fs\<rparr>)"
proof -
  let ?w = "w\<lparr>aw_fleet := es @ e' # fs\<rparr>"
  have "aw_fleet ?w = es @ e' # fs" by simp
  then have o': "set (ours ?w) = set (ours (w\<lparr>aw_fleet := es @ fs\<rparr>)) \<union> (if fe_instanceRef e' = in_name (aw_inst w) then {e'} else {})"
    by (subst ours_split) (auto simp: ours_def)
  have "\<forall>x\<in>set (ours ?w). engine_ok s (status_gen (in_authStatus (aw_inst w))) x"
    if "in_stage (status_keys (in_authStatus (aw_inst w))) s" "stage_ok s (status_gen (in_authStatus (aw_inst w)))"
      "\<forall>x\<in>set (ours w). engine_ok s (status_gen (in_authStatus (aw_inst w))) x" for s
    using that ok ref unfolding o' ours_split [OF fleet] by (auto split: if_splits)
  then show ?thesis using inv unfolding auth_inv_def by auto
qed

lemma auth_step_keeps:
  assumes "auth_step ca env life w w'" "auth_inv life w"
  shows "auth_inv life w'"
  using assms
proof cases
  case (tick t)
  have "token_ok life t s tok" if "token_ok life (aw_now w) s tok" for s tok
    using that tick by (auto simp: token_ok_def)
  then show ?thesis using assms(2) tick unfolding auth_inv_def by (auto simp: ours_def)
next
  case (sign e v k ks)
  obtain s where s: "in_stage (status_keys (in_authStatus (aw_inst w))) s" "stage_ok s (status_gen (in_authStatus (aw_inst w)))"
    "\<forall>e\<in>set (ours w). engine_ok s (status_gen (in_authStatus (aw_inst w))) e"
    "\<forall>tok\<in>aw_tokens w. token_ok life (aw_now w) s tok" "\<forall>i j r. s = Anchored i j r \<longrightarrow> whole_second r = r"
    using assms(2) unfolding auth_inv_def by blast
  have "view_ids v \<in> allowed s" using s(3) sign by (auto simp: engine_ok_def)
  then have al: "ky_id k # map ky_id ks \<in> allowed s" using sign by (simp add: view_ids_def)
  have "token_ok life (aw_now w) s (ky_id k, aw_now w)"
    using allowed_signer [OF al] al s(2) by (cases s) (auto simp: token_ok_def)
  then show ?thesis using assms(2) s sign unfolding auth_inv_def by (auto simp: ours_def)
next
  case (roll es e fs api v)
  show ?thesis unfolding roll(1)
  proof (rule fleet_keeps [OF assms(2) roll(2)])
    fix s assume s: "in_stage (status_keys (in_authStatus (aw_inst w))) s" "engine_ok s (status_gen (in_authStatus (aw_inst w))) e"
    have "view_ids v = rendered s" "s \<noteq> NoKeys" using resolve_ids [OF roll(4)] in_stage_render [OF s(1)] s(1) by auto
    with s(2) allowed_rendered show "engine_ok s (status_gen (in_authStatus (aw_inst w))) (e\<lparr>fe_views := fe_views e @ [v]\<rparr>)"
      by (auto simp: engine_ok_def)
  qed simp
next
  case (settle es e fs vs v)
  show ?thesis unfolding settle(1)
  proof (rule fleet_keeps [OF assms(2) settle(2)])
    fix s assume s: "stage_ok s (status_gen (in_authStatus (aw_inst w)))" "engine_ok s (status_gen (in_authStatus (aw_inst w))) e"
    then have "view_ids v \<in> allowed s" using settle by (simp add: engine_ok_def)
    with s allowed_recorded allowed_generations
    show "engine_ok s (status_gen (in_authStatus (aw_inst w))) (e\<lparr>fe_views := [v], fe_seen := Some v\<rparr>)"
      by (simp add: engine_ok_def)
  qed simp
next
  case (retire es e fs vs)
  show ?thesis unfolding retire(1)
    by (rule fleet_keeps [OF assms(2) retire(2)]) (use retire in \<open>auto simp: engine_ok_def\<close>)
next
  case (join es fs e)
  have "engine_ok s g e" for s g using join by (simp add: engine_ok_def)
  then show ?thesis using assms(2) join unfolding auth_inv_def by (auto simp: ours_def)
next
  case (leave es e fs)
  then show ?thesis using assms(2) ours_split [OF leave(2)] unfolding auth_inv_def by auto
next
  case (edit inst)
  then show ?thesis using assms(2) unfolding auth_inv_def by (auto simp: ours_def)
next
  case (pass api err inst ops)
  then show ?thesis using pass_keeps assms(2) by blast
qed

interpretation keyring: invariant_system "auth_step ca env life" "auth_inv life" for ca env life
  by unfold_locales (rule auth_step_keeps)

section \<open>Properties of the rotation\<close>

definition fresh_auth :: "time \<Rightarrow> auth_world \<Rightarrow> bool" where
  "fresh_auth life w \<longleftrightarrow>
     0 \<le> life \<and> auth_stays life (aw_inst w) \<and> existingSigningKeys (aw_inst w) = [] \<and>
     0 \<le> authStatusGeneration (aw_inst w) \<and>
     (\<forall>e\<in>set (ours w). fe_seen e = None \<and> fe_views e = []) \<and> aw_tokens w = {}"

lemma fresh_auth_inv: "fresh_auth life w \<Longrightarrow> auth_inv life w"
  unfolding fresh_auth_def auth_inv_def by (auto simp: engine_ok_def intro!: exI [of _ NoKeys])

lemma auth_inv_validates:
  assumes "auth_inv life w" "e \<in> set (ours w)" "v \<in> set (fe_views e)"
  shows "\<forall>(k, t)\<in>aw_tokens w. aw_now w \<le> t + life \<longrightarrow> k \<in> set (view_ids v)"
    and "\<forall>f\<in>set (ours w). \<forall>u\<in>set (fe_views f). view_ids u \<noteq> [] \<and> hd (view_ids u) \<in> set (view_ids v)"
proof -
  obtain s g where s: "stage_ok s g" "\<forall>e\<in>set (ours w). engine_ok s g e" "\<forall>tok\<in>aw_tokens w. token_ok life (aw_now w) s tok"
    using assms(1) unfolding auth_inv_def by blast
  have al: "view_ids u \<in> allowed s" if "f \<in> set (ours w)" "u \<in> set (fe_views f)" for f u
    using s(2) that by (auto simp: engine_ok_def)
  show "\<forall>(k, t)\<in>aw_tokens w. aw_now w \<le> t + life \<longrightarrow> k \<in> set (view_ids v)"
    using s(3) allowed_validates [OF s(1) al [OF assms(2,3)]] by (fastforce simp: token_ok_def)
  have "ids \<noteq> [] \<and> hd ids \<in> signers s" if "ids \<in> allowed s" for ids
    using that by (cases s) auto
  then show "\<forall>f\<in>set (ours w). \<forall>u\<in>set (fe_views f). view_ids u \<noteq> [] \<and> hd (view_ids u) \<in> set (view_ids v)"
    using al allowed_validates [OF s(1) al [OF assms(2,3)]] by blast
qed


subsection \<open>Deleted Secrets\<close>

lemma mint_ops: "mintNextSigningKey api inst cm a = (err, a', ops) \<Longrightarrow> DeleteSecret n \<notin> set ops"
  by (auto simp: mintNextSigningKey_def Let_def split: prod.splits sum.splits bool.splits dest: apply_ops)

lemma step_deletes:
  assumes "stepSigningKeyRotation env api inst spec pol a = (err, a', ops)" "DeleteSecret n \<in> set ops"
  obtains j where "otherSigningKey (as_signingKeys a) = Some j" "ky_phase (as_signingKeys a ! j) = KeyRemoving"
    "n = ky_secretName (as_signingKeys a ! j)" "converged_on env api inst spec (map role (as_signingKeys a))"
proof -
  have parks: False if "gated env api inst spec st prev b (e, c, []) = (err, a', ops)" for st prev b e c
    using that assms(2) by (cases rule: gated_cases) auto
  have deletes: "converged_on env api inst spec (map role (as_signingKeys b)) \<and> n = ky_secretName k"
    if "gated env api inst spec st prev b (deleteSigningKey api inst k c) = (err, a', ops)" for st prev b k c
    using that assms(2)
    by (cases rule: gated_cases) (auto simp: deleteSigningKey_def Let_def split: option.splits)
  show ?thesis
    using assms that
    by (auto simp: stepSigningKeyRotation_def Let_def split: option.splits prod.splits if_splits
        dest: mint_ops parks deletes)
qed

lemma boot_ops: "bootstrapSigningKey api inst cm keys = (r, a', ops) \<Longrightarrow> DeleteSecret n \<notin> set ops"
  by (auto simp: bootstrapSigningKey_def Let_def split: prod.splits sum.splits dest: apply_ops)

lemma ensure_deletes:
  assumes s: "in_stage (status_keys (in_authStatus inst)) s" and ok: "stage_ok s (status_gen (in_authStatus inst))"
    and run: "ensureSigningKeys env api inst spec pol = (r, a', ops)" and n: "DeleteSecret n \<in> set ops"
  obtains i j k where "s = Retired i j" "k \<in> set (status_keys (in_authStatus inst))" "ky_id k = signingKeyID i"
    "ky_secretName k = n"
    "converged_on env api inst spec (map role (normalizeSigningKeyPhases (status_keys (in_authStatus inst))))"
  using run refl
proof (cases rule: ensure_cases)
  case boot
  then show ?thesis using n boot_ops by blast
next
  case kept
  then show ?thesis using n by blast
next
  case (stepped a e a1 os)
  define keys where "keys = normalizeSigningKeyPhases (status_keys (in_authStatus inst))"
  obtain j where j: "otherSigningKey (as_signingKeys a) = Some j" "ky_phase (as_signingKeys a ! j) = KeyRemoving"
    "n = ky_secretName (as_signingKeys a ! j)" "converged_on env api inst spec (map role (as_signingKeys a))"
    using step_deletes [OF stepped(4)] stepped(6) n by blast
  have st: "in_stage keys s" using s by (simp add: keys_def normalize_stage)
  have oj: "otherSigningKey keys = Some j" using j(1) other_roles [OF stepped(2)] by (simp add: keys_def)
  then have len: "j < length keys" by (auto simp: otherSigningKey_def dest!: first_index_Some)
  then have "ky_phase (keys ! j) = KeyRemoving"
    using j(2) stepped(2) unfolding keys_def [symmetric] role_def by (auto simp: list_eq_iff_nth_eq)
  note rem = oj this
  then obtain i j' where ret: "s = Retired i j'" "ky_id (keys ! j) = signingKeyID i"
    using st by (cases s) (auto dest!: map_one [THEN iffD1] map_two [THEN iffD1] simp: role_eq otherSigningKey_def)
  have "keys ! j = status_keys (in_authStatus inst) ! j" "length keys = length (status_keys (in_authStatus inst))"
    using rem(2) len by (auto simp: keys_def normalizeSigningKeyPhases_def split: if_splits)
  then have mem: "keys ! j \<in> set (status_keys (in_authStatus inst))" using len by simp
  have "as_signingKeys a ! j = keys ! j" using stepped(7) rem by (simp add: keys_def)
  then show ?thesis using that [OF ret(1) mem ret(2)] j(3,4) stepped(2) by simp
qed


subsection \<open>Identifiers\<close>

text \<open>The life of an Instance's authentication status: the spec changes in any way, also to auth turned off and on
  again, and passes run with any answers of the API; a pass whose status is not stored leaves no trace here.\<close>

inductive auth_life :: "condition_api \<Rightarrow> operator_env \<Rightarrow> instance_cr \<Rightarrow> instance_cr \<Rightarrow> bool" for ca env where
  edit: "in_authStatus inst' = in_authStatus inst \<Longrightarrow> auth_life ca env inst inst'"
| pass: "ensureAuth ca env api inst = (err, inst', ops) \<Longrightarrow> auth_life ca env inst (stored_instance inst')"

definition kids :: "instance_cr \<Rightarrow> string set" where
  "kids inst = ky_id ` set (existingSigningKeys inst)"

definition numbered :: "instance_cr \<Rightarrow> bool" where
  "numbered inst \<longleftrightarrow>
     (\<exists>s. in_stage (existingSigningKeys inst) s \<and> stage_ok s (authStatusGeneration inst))"

lemma stage_kids: "in_stage ks s \<Longrightarrow> ky_id ` set ks =
    (case s of NoKeys \<Rightarrow> {} | Single i \<Rightarrow> {signingKeyID i} | Minted i j \<Rightarrow> {signingKeyID i, signingKeyID j}
     | Promoted i j \<Rightarrow> {signingKeyID i, signingKeyID j} | Anchored i j r \<Rightarrow> {signingKeyID i, signingKeyID j}
     | Retired i j \<Rightarrow> {signingKeyID i, signingKeyID j})"
  by (cases s) (auto dest!: map_one [THEN iffD1] map_two [THEN iffD1] simp: role_eq)

lemma numbered_kids: "numbered inst \<Longrightarrow> kids inst \<subseteq> signingKeyID ` {0<..authStatusGeneration inst}"
proof -
  assume "numbered inst"
  then obtain s where s: "in_stage (existingSigningKeys inst) s" "stage_ok s (authStatusGeneration inst)"
    unfolding numbered_def by blast
  show ?thesis using s(2) unfolding kids_def stage_kids [OF s(1)] by (cases s) auto
qed

text \<open>One step of such a life: identifiers come from numbers above the counter.\<close>

definition advances :: "instance_cr \<Rightarrow> instance_cr \<Rightarrow> bool" where
  "advances inst inst' \<longleftrightarrow> authStatusGeneration inst \<le> authStatusGeneration inst' \<and>
     kids inst' \<subseteq> kids inst \<union> signingKeyID ` {authStatusGeneration inst<..authStatusGeneration inst'}"

lemma key_step_kids:
  assumes "key_step conv now retain (s, g) (s', g')" "in_stage ks s" "in_stage ks' s'"
  shows "g \<le> g' \<and> ky_id ` set ks' \<subseteq> ky_id ` set ks \<union> signingKeyID ` {g<..g'}"
  using assms(1) unfolding stage_kids [OF assms(2)] stage_kids [OF assms(3)] by cases auto

lemma kids_stored: "kids (stored_instance inst) = kids inst"
  "authStatusGeneration (stored_instance inst) = authStatusGeneration inst"
  by (auto simp: kids_def stored_status_keys stored_key_def image_image)

lemma numbered_stored: "numbered inst \<Longrightarrow> numbered (stored_instance inst)"
  unfolding numbered_def using stored_in_stage by (simp add: stored_status_keys) (metis stored_stage_same(4))

lemma auth_life_step:
  assumes "auth_life ca env inst inst'" "numbered inst"
  shows "numbered inst' \<and> advances inst inst'"
  using assms(1)
proof cases
  case edit
  then show ?thesis using assms(2) by (simp add: numbered_def advances_def kids_def)
next
  case (pass api err i ops)
  have "numbered i \<and> advances inst i"
  proof (cases "\<exists>spec. in_auth inst = Some spec \<and> au_enabled spec")
    case True
    then obtain spec where spec: "in_auth inst = Some spec" "au_enabled spec" by blast
    obtain s where s: "in_stage (status_keys (in_authStatus inst)) s" "stage_ok s (status_gen (in_authStatus inst))"
      using assms(2) by (auto simp: numbered_def)
    show ?thesis
      using ensureAuth_stage [OF pass(2) spec s] key_step_ok [OF _ s(2)] key_step_kids [OF _ s(1)]
      by (simp add: numbered_def advances_def kids_def) metis
  next
    case False
    then have "in_authStatus i = retained_generation inst"
      using pass(2) by (auto simp: ensureAuth_def auth_cond_def setInstanceCondition_def split: option.splits if_splits)
    moreover have "0 \<le> status_gen (in_authStatus inst)"
      using assms(2) by (auto simp: numbered_def) (case_tac s; auto)
    ultimately show ?thesis
      by (auto simp: retained_generation_def numbered_def advances_def kids_def intro!: exI [of _ NoKeys])
  qed
  then show ?thesis using pass(1) numbered_stored kids_stored(1) [of i]
    by (simp add: advances_def stored_status_keys)
qed

lemma auth_life_run:
  assumes "(auth_life ca env)\<^sup>*\<^sup>* inst inst'" "numbered inst"
  shows "numbered inst' \<and> advances inst inst'"
  using assms
proof (induction rule: rtranclp_induct)
  case base
  then show ?case by (simp add: advances_def)
next
  case (step y z)
  then have "numbered y" "advances inst y" "numbered z" "advances y z" using auth_life_step by blast+
  then show ?case unfolding advances_def by fastforce
qed

text \<open>C28. A key identifier is never used again: once it has gone from the status of an Instance it does not come
  back, whatever the passes meet and also when auth is turned off and on again, so a retired key cannot make
  old tokens valid. The counter behind the identifiers never goes back.\<close>

theorem kids_never_return:
  assumes "in_authStatus start = None" "(auth_life ca env)\<^sup>*\<^sup>* start i1" "(auth_life ca env)\<^sup>*\<^sup>* i1 i2"
    and "(auth_life ca env)\<^sup>*\<^sup>* i2 i3" "kid \<in> kids i1" "kid \<notin> kids i2"
  shows "kid \<notin> kids i3 \<and> authStatusGeneration i1 \<le> authStatusGeneration i2"
proof -
  have "numbered start" using assms(1) by (auto simp: numbered_def intro!: exI [of _ NoKeys])
  then have n1: "numbered i1" using auth_life_run [OF assms(2)] by blast
  have n2: "numbered i2" "advances i1 i2" using auth_life_run [OF assms(3) n1] by auto
  have "advances i2 i3" using auth_life_run [OF assms(4) n2(1)] by auto
  moreover obtain m where "kid = signingKeyID m" "0 < m" "m \<le> authStatusGeneration i1"
    using numbered_kids [OF n1] assms(5) by auto
  ultimately show ?thesis using assms(6) n2(2) unfolding advances_def by auto
qed

subsection \<open>A rotation ends\<close>

text \<open>A pass is undisturbed when the API answers, cert-manager has issued the keys and every engine of the
  Instance has rolled onto the keys of the status.\<close>

definition issued_ok :: "auth_api \<Rightarrow> instance_cr \<Rightarrow> bool" where
  "issued_ok api inst \<longleftrightarrow>
     (\<forall>c. au_apply api c = None) \<and>
     (\<forall>name. \<exists>cert s. au_getCert api name = Inr (Some cert) \<and> co_name cert = name \<and>
        certificateReadyForCurrentGeneration cert \<and> au_getSecret api name = Inr (Some s) \<and>
        se_data s TLSPrivateKeyKey \<noteq> [] \<and> se_certificateName s = name \<and> co_creation cert \<le> se_creation s)"

definition undisturbed_auth :: "operator_env \<Rightarrow> auth_api \<Rightarrow> instance_cr \<Rightarrow> auth_spec \<Rightarrow> local_auth_spec \<Rightarrow> bool" where
  "undisturbed_auth env api inst spec l \<longleftrightarrow>
     ValidateAuth (au_hugeDuration api) (Some spec) = [] \<and> (\<exists>rv. checkAdminPasswordSecret api inst l = Inr rv) \<and>
     issued_ok api inst \<and> (\<forall>n. au_deleteCert api n = None) \<and> (\<forall>n. au_deleteSecret api n = None) \<and>
     (\<forall>ks. map role ks = map role (normalizeSigningKeyPhases (existingSigningKeys inst)) \<longrightarrow>
        enginesConvergedOn env api inst spec ks = Inr (True, []))"

lemma issued_applies:
  assumes "issued_ok api inst"
  shows "\<exists>key' ops. applySigningCertificate api inst cm key = (Inr True, key', ops)"
proof -
  let ?n = "signingCertificateName (in_name inst) (ky_id key)"
  obtain cert s where "au_getCert api ?n = Inr (Some cert)" "co_name cert = ?n"
    "certificateReadyForCurrentGeneration cert" "au_getSecret api ?n = Inr (Some s)"
    "se_data s TLSPrivateKeyKey \<noteq> []" "se_certificateName s = ?n" "co_creation cert \<le> se_creation s"
    using assms unfolding issued_ok_def by blast
  moreover have "crt_name (buildSigningCertificate inst cm (ky_id key)) = ?n" "crt_secretName (buildSigningCertificate inst cm (ky_id key)) = ?n"
    by (simp_all add: buildSigningCertificate_def Let_def split: prod.splits)
  moreover have "au_apply api c = None" for c using assms by (simp add: issued_ok_def)
  ultimately show ?thesis
    by (simp add: applySigningCertificate_def Let_def verifySigningKeyProvenance_def verifyCertManagerIssued_def)
qed

lemma issued_at: "issued_ok api inst \<Longrightarrow> \<exists>ks ops. apply_at api inst cm i keys = (Inr True, ks, ops)"
  using issued_applies [of api inst cm "keys ! i"] by (auto simp: apply_at_def)

lemma ensure_steps:
  assumes "issued_ok api inst" "activeSigningKey (normalizeSigningKeyPhases (status_keys (in_authStatus inst))) = Some i"
  obtains a e a1 os ops where "map role (as_signingKeys a) = map role (normalizeSigningKeyPhases (status_keys (in_authStatus inst)))"
    "stepSigningKeyRotation env api inst spec pol a = (e, a1, os)"
    "ensureSigningKeys env api inst spec pol = (Inr True, Some a1, ops)"
proof -
  define keys where "keys = normalizeSigningKeyPhases (status_keys (in_authStatus inst))"
  obtain keys1 ops1 where ap1: "apply_at api inst (sk_certManager pol) i keys = (Inr True, keys1, ops1)"
    using issued_at [OF assms(1)] by blast
  obtain b2 keys2 ops2 where ap2: "(case otherSigningKey keys1 of
      Some j \<Rightarrow> if ky_phase (keys1 ! j) \<noteq> KeyRemoving then apply_at api inst (sk_certManager pol) j keys1
                else (Inr True, keys1, [])
    | None \<Rightarrow> (Inr True, keys1, [])) = (Inr b2, keys2, ops2)"
    using issued_at [OF assms(1)] by (cases "otherSigningKey keys1") (auto, metis)
  have m: "map role keys2 = map role keys"
    using ap2 apply_at_roles [OF ap1] by (auto split: option.splits if_splits dest!: apply_at_roles)
  define a where "a = \<lparr>as_signingKeys = keys2, as_generation = status_gen (in_authStatus inst),
      as_pendingStep = rp_step (rotationPendingSnapshot (in_authStatus inst)),
      as_pendingSince = rp_since (rotationPendingSnapshot (in_authStatus inst)),
      as_lagging = rp_lagging (rotationPendingSnapshot (in_authStatus inst)),
      as_laggingCount = rp_count (rotationPendingSnapshot (in_authStatus inst))\<rparr>"
  obtain e a1 os where st: "stepSigningKeyRotation env api inst spec pol a = (e, a1, os)"
    by (cases "stepSigningKeyRotation env api inst spec pol a")
  have "ensureSigningKeys env api inst spec pol = (Inr True, Some a1, ops1 @ ops2 @ os)"
    using assms(2) ap1 ap2 st by (simp add: ensureSigningKeys_def Let_def keys_def [symmetric] a_def [symmetric])
  then show ?thesis using that [of a] m st by (simp add: a_def keys_def)
qed

text \<open>The next stage of a rotation that is not held up, with the retain window over.\<close>

fun next_stage :: "time \<Rightarrow> key_stage \<Rightarrow> key_stage" where
  "next_stage now (Minted i j) = Promoted i j"
| "next_stage now (Promoted i j) = Anchored i j now"
| "next_stage now (Anchored i j r) = Retired i j"
| "next_stage now (Retired i j) = Single j"
| "next_stage now s = s"

lemma step_advances:
  assumes s: "in_stage (as_signingKeys a) s" "stage_ok s g" "\<And>i. s \<noteq> Single i" "s \<noteq> NoKeys"
    and conv: "enginesConvergedOn env api inst spec (as_signingKeys a) = Inr (True, [])"
    and del: "\<And>n. au_deleteCert api n = None" "\<And>n. au_deleteSecret api n = None"
    and due: "\<And>i j r. s = Anchored i j r \<Longrightarrow> \<exists>d. sk_retainDuration pol = Some d \<and> r + d \<le> au_now api"
    and run: "stepSigningKeyRotation env api inst spec pol a = (e, a1, os)"
  shows "in_stage (as_signingKeys a1) (next_stage (au_now api) s)"
proof (cases s)
  case (Minted i j)
  obtain x y where ks: "as_signingKeys a = [x, y]" "role x = (signingKeyID i, KeyActive, False, None)"
    "role y = (signingKeyID j, KeyValidationOnly, False, None)"
    using s Minted by (auto dest!: map_two [THEN iffD1])
  then show ?thesis using run conv Minted
    by (auto simp: stepSigningKeyRotation_def index_defs Let_def gated_def promoteSigningKey_def role_eq role_def)
next
  case (Promoted i j)
  obtain x y where ks: "as_signingKeys a = [x, y]" "role x = (signingKeyID i, KeyValidationOnly, True, None)"
    "role y = (signingKeyID j, KeyActive, False, None)"
    using s Promoted by (auto dest!: map_two [THEN iffD1])
  then show ?thesis using run conv Promoted
    by (auto simp: stepSigningKeyRotation_def index_defs Let_def gated_def role_eq role_def)
next
  case (Anchored i j r)
  obtain x y where ks: "as_signingKeys a = [x, y]" "role x = (signingKeyID i, KeyValidationOnly, True, Some r)"
    "role y = (signingKeyID j, KeyActive, False, None)"
    using s Anchored by (auto dest!: map_two [THEN iffD1])
  then show ?thesis using run due [OF Anchored] Anchored
    by (auto simp: stepSigningKeyRotation_def index_defs Let_def role_eq role_def)
next
  case (Retired i j)
  obtain x y r where ks: "as_signingKeys a = [x, y]" "role x = (signingKeyID i, KeyRemoving, True, Some r)"
    "role y = (signingKeyID j, KeyActive, False, None)"
    using s Retired by (auto dest!: map_two [THEN iffD1])
  then show ?thesis using run conv del Retired s(2)
    by (auto simp: stepSigningKeyRotation_def index_defs Let_def gated_def deleteSigningKey_def removeSigningKey_def role_eq)
qed (use s in auto)

definition auth_pass :: "condition_api \<Rightarrow> operator_env \<Rightarrow> auth_api \<Rightarrow> instance_cr \<Rightarrow> instance_cr" where
  "auth_pass ca env api inst = stored_instance (fst (snd (ensureAuth ca env api inst)))"

fun quiet_run :: "condition_api \<Rightarrow> operator_env \<Rightarrow> auth_spec \<Rightarrow> local_auth_spec \<Rightarrow> instance_cr \<Rightarrow> auth_api list \<Rightarrow> bool" where
  "quiet_run ca env spec l inst [] \<longleftrightarrow> True"
| "quiet_run ca env spec l inst (api # apis) \<longleftrightarrow>
     undisturbed_auth env api inst spec l \<and> quiet_run ca env spec l (auth_pass ca env api inst) apis"

lemma auth_pass_spec: "in_auth (auth_pass ca env api inst) = in_auth inst"
  by (cases "ensureAuth ca env api inst") (auto simp: auth_pass_def dest: ensureAuth_frame)

lemma pass_advances:
  assumes spec: "in_auth inst = Some spec" "au_enabled spec" "au_local spec = Some l" "la_signingKeys l = Some pol"
    and s: "in_stage (existingSigningKeys inst) s" "stage_ok s g" "\<And>i. s \<noteq> Single i" "s \<noteq> NoKeys"
    and quiet: "undisturbed_auth env api inst spec l"
    and due: "\<And>i j r. s = Anchored i j r \<Longrightarrow> \<exists>d. sk_retainDuration pol = Some d \<and> r + d \<le> au_now api"
  shows "in_stage (existingSigningKeys (auth_pass ca env api inst)) (stored_stage (next_stage (au_now api) s))"
proof -
  define keys where "keys = normalizeSigningKeyPhases (status_keys (in_authStatus inst))"
  have st: "in_stage keys s" "settled_phases keys" using s by (auto simp: keys_def normalize_stage normalize_settled)
  then obtain i where "activeSigningKey keys = Some i" using active_none s(4) by fastforce
  moreover have "issued_ok api inst" using quiet by (simp add: undisturbed_auth_def)
  ultimately obtain a e a1 os ops where a: "map role (as_signingKeys a) = map role keys"
    "stepSigningKeyRotation env api inst spec pol a = (e, a1, os)"
    "ensureSigningKeys env api inst spec pol = (Inr True, Some a1, ops)"
    unfolding keys_def using ensure_steps [of api inst i env spec pol] by blast
  have "in_stage (as_signingKeys a1) (next_stage (au_now api) s)"
    by (rule step_advances [OF _ s(2-4) _ _ _ _ a(2)])
      (use a(1) st in_stage_roles quiet due in \<open>auto simp: undisturbed_auth_def keys_def\<close>)
  moreover have "in_authStatus (fst (snd (ensureAuth ca env api inst))) = Some a1"
    using spec a(3) quiet
    by (auto simp: ensureAuth_def provision_auth_def undisturbed_auth_def auth_cond_def setInstanceCondition_def Let_def)
  ultimately show ?thesis by (simp add: auth_pass_def stored_status_def stored_in_stage)
qed

text \<open>C29. A rotation that was begun ends: four undisturbed passes, the third at least the retain duration after the
  second, take a freshly minted key to the only one of the Instance, the one that signs, and the old key is gone.\<close>

theorem rotation_completes:
  assumes spec: "in_auth inst = Some spec" "au_enabled spec" "au_local spec = Some l" "la_signingKeys l = Some pol"
    and minted: "in_stage (existingSigningKeys inst) (Minted i j)" "0 < i" "i < j"
    and quiet: "quiet_run ca env spec l inst [a1, a2, a3, a4]"
    and retain: "sk_retainDuration pol = Some d" "au_now a2 + d \<le> au_now a3"
  shows "\<exists>k. existingSigningKeys (foldl (\<lambda>x api. auth_pass ca env api x) inst [a1, a2, a3, a4]) = [k] \<and>
     ky_id k = signingKeyID j \<and> signingKeysForRender [k] = [k]"
proof -
  let ?i1 = "auth_pass ca env a1 inst" let ?i2 = "auth_pass ca env a2 ?i1" let ?i3 = "auth_pass ca env a3 ?i2"
  have sp: "in_auth ?i1 = Some spec" "in_auth ?i2 = Some spec" "in_auth ?i3 = Some spec"
    using spec(1) by (simp_all add: auth_pass_spec)
  have 1: "in_stage (existingSigningKeys ?i1) (Promoted i j)"
    using pass_advances [OF spec minted(1), of j env a1 ca] minted quiet by simp
  have 2: "in_stage (existingSigningKeys ?i2) (Anchored i j (whole_second (au_now a2)))"
    using pass_advances [OF sp(1) spec(2-4) 1, of j env a2 ca] minted quiet by simp
  have 3: "in_stage (existingSigningKeys ?i3) (Retired i j)"
    using pass_advances [OF sp(2) spec(2-4) 2, of j env a3 ca] minted quiet retain whole_second_bounds(1) [of "au_now a2"] by simp
  have "in_stage (existingSigningKeys (auth_pass ca env a4 ?i3)) (Single j)"
    using pass_advances [OF sp(3) spec(2-4) 3, of j env a4 ca] minted quiet by simp
  then show ?thesis
    by (auto dest!: map_one [THEN iffD1] simp: role_eq signingKeysForRender_def index_defs)
qed

section \<open>Witnesses\<close>

definition demo_policy :: signing_key_policy where
  "demo_policy = \<lparr>sk_certManager = \<lparr>cms_issuerName = ''ca'', cms_issuerKind = [], cms_algorithm = [], cms_size = 0,
       cms_duration = None, cms_renewBefore = None\<rparr>,
     sk_rotationInterval = Some (100 * second), sk_retainDuration = Some (20 * second)\<rparr>"

definition demo_local :: local_auth_spec where
  "demo_local = \<lparr>la_passwordLogin = [], la_adminName = [], la_adminPasswordName = ''admin'', la_adminPasswordKey = ''pw'',
     la_signingAlgorithm = [], la_tokenExpiry = [], la_maxTokenAge = ''11s'', la_clockSkewTolerance = ''0'',
     la_signingKeys = Some demo_policy\<rparr>"

definition demo_auth :: auth_spec where
  "demo_auth = \<lparr>au_enabled = True, au_preferredAuthorizationServer = [], au_local = Some demo_local, au_oidc = None\<rparr>"

definition demo_instance :: "condition list \<Rightarrow> auth_status option \<Rightarrow> instance_cr" where
  "demo_instance cs a = \<lparr>in_name = ''i'', in_namespace = ''n'', in_generation = 1, in_auth = Some demo_auth,
     in_authStatus = a, in_conditions = cs\<rparr>"

definition demo_auth_api :: "time \<Rightarrow> engine_ref list \<Rightarrow> auth_api" where
  "demo_auth_api now es = \<lparr>au_now = now, au_hugeDuration = 0, au_apply = (\<lambda>_. None),
     au_getCert = (\<lambda>n. Inr (Some \<lparr>co_name = n, co_generation = 1, co_creation = 0,
                         co_conditions = [(''Ready'', ''True'', 1)]\<rparr>)),
     au_getSecret = (\<lambda>n. Inr (Some \<lparr>se_resourceVersion = ''1'', se_data = (\<lambda>_. ''x''), se_certificateName = n, se_trustCAs = [], se_creation = 0\<rparr>)),
     au_deleteCert = (\<lambda>_. None), au_deleteSecret = (\<lambda>_. None), au_engines = Inr es, au_publicKey = (\<lambda>_. Inr ''fp'')\<rparr>"

definition demo_key :: "int \<Rightarrow> int \<Rightarrow> signing_key_phase \<Rightarrow> time option \<Rightarrow> signing_key" where
  "demo_key g c p dem = \<lparr>ky_id = signingKeyID g, ky_secretName = signingCertificateName ''i'' (signingKeyID g),
     ky_createdAt = c * second, ky_observedFingerprint = Some ''fp'', ky_algorithm = ''ECDSA'', ky_size = 384,
     ky_phase = p, ky_demotedAt = dem, ky_retireEligibleAt = None\<rparr>"

definition demo_status :: "signing_key list \<Rightarrow> int \<Rightarrow> auth_status" where
  "demo_status ks g = \<lparr>as_signingKeys = ks, as_generation = g, as_pendingStep = StepNone, as_pendingSince = None,
     as_lagging = [], as_laggingCount = 0\<rparr>"

lemmas demo_auth_defs = demo_policy_def demo_local_def demo_auth_def demo_instance_def demo_auth_api_def demo_key_def demo_status_def

lemma demo_parse: "parseEngineDuration huge ''11s'' = Some (11 * second)" "parseEngineDuration huge ''0'' = Some 0"
  by code_simp+

lemma demo_window: "token_window huge demo_local = 11 * second"
  by (simp add: token_window_def floor_age_def floor_skew_def demo_local_def demo_parse second_def)

lemma demo_valid: "ValidateAuth huge (Some demo_auth) = []"
proof -
  have "ValidateAuth huge (Some demo_auth) = ValidateAuth 0 (Some demo_auth)" by code_simp
  also have "\<dots> = []" by code_simp
  finally show ?thesis .
qed

lemma demo_apply:
  "applySigningCertificate (demo_auth_api now es) (demo_instance cs a) (sk_certManager demo_policy) key =
     (Inr True, key\<lparr>ky_secretName := signingCertificateName ''i'' (ky_id key), ky_observedFingerprint := Some ''fp'',
        ky_createdAt := (if ky_createdAt key = 0 then now else ky_createdAt key)\<rparr>,
      [ApplyCert (signingCertificateName ''i'' (ky_id key))])"
  by (simp add: applySigningCertificate_def Let_def demo_auth_api_def demo_instance_def verifySigningKeyProvenance_def
      verifyCertManagerIssued_def buildSigningCertificate_def observed_fingerprint_def
      certificateReadyForCurrentGeneration_def split: prod.splits)

lemma demo_admin: "checkAdminPasswordSecret (demo_auth_api now es) (demo_instance cs a) demo_local = Inr ''1''"
  by (simp add: checkAdminPasswordSecret_def checkSecretKeyPresent_def demo_auth_api_def demo_local_def)

definition demo_ready :: "condition list" where
  "demo_ready = [mk_condition InstanceConditionAuthReady True ''Ready'' ''admin credentials and JWT signing key are provisioned'' 1]"

lemma demo_ensureAuth:
  assumes "ensureSigningKeys env (demo_auth_api now es) (demo_instance cs a) demo_auth demo_policy = (Inr True, Some b, ops)"
    "as_pendingStep b = StepNone" "cs = [] \<or> cs = demo_ready"
  shows "ensureAuth list_conditions env (demo_auth_api now es) (demo_instance cs a) = (None, demo_instance demo_ready (Some b), ops)"
proof -
  have "in_auth (demo_instance cs a) = Some demo_auth" "au_enabled demo_auth" "au_local demo_auth = Some demo_local"
    "la_signingKeys demo_local = Some demo_policy" "ValidateAuth (au_hugeDuration (demo_auth_api now es)) (Some demo_auth) = []"
    by (simp_all add: demo_valid) (simp_all add: demo_auth_defs)
  moreover have "auth_cond list_conditions True ''Ready'' ''admin credentials and JWT signing key are provisioned''
      ((demo_instance cs a)\<lparr>in_authStatus := Some b\<rparr>) = demo_instance demo_ready (Some b)"
    using assms(3) by (auto simp: demo_instance_def auth_cond_def setInstanceCondition_def demo_ready_def list_conditions_def mk_condition_def)
  ultimately show ?thesis using assms by (simp add: ensureAuth_def provision_auth_def demo_admin rotationPendingSnapshot_def)
qed

lemma demo_algSize: "resolvedCertManagerAlgSize (sk_certManager demo_policy) = (''ECDSA'', 384)"
  by (simp add: resolvedCertManagerAlgSize_def demo_policy_def str_or_else_def)

lemma demo_instance_status [simp]: "in_authStatus (demo_instance cs a) = a" "in_name (demo_instance cs a) = ''i''"
  "in_auth (demo_instance cs a) = Some demo_auth" "in_namespace (demo_instance cs a) = ''n''"
  "in_conditions (demo_instance cs a) = cs"
  by (simp_all add: demo_instance_def)

lemma demo_boot:
  assumes "status_keys a = []" "g = status_gen a + 1" "0 < c" "cs = [] \<or> cs = demo_ready"
  shows "ensureAuth list_conditions env (demo_auth_api (c * second) es) (demo_instance cs a) =
     (None, demo_instance demo_ready (Some (demo_status [demo_key g c KeyActive None] g)),
      [ApplyCert (signingCertificateName ''i'' (signingKeyID g))])"
proof (rule demo_ensureAuth [OF _ _ assms(4)])
  show "ensureSigningKeys env (demo_auth_api (c * second) es) (demo_instance cs a) demo_auth demo_policy =
      (Inr True, Some (demo_status [demo_key g c KeyActive None] g), [ApplyCert (signingCertificateName ''i'' (signingKeyID g))])"
    using assms by (simp add: ensureSigningKeys_def normalizeSigningKeyPhases_def index_defs bootstrapSigningKey_def demo_apply
        mint_key_def demo_algSize demo_status_def demo_key_def Let_def)
qed (simp_all add: demo_status_def)

lemma demo_apply_at:
  "i < length ks \<Longrightarrow> ks ! i = (demo_key g c p d)\<lparr>ky_retireEligibleAt := r\<rparr> \<Longrightarrow> 0 < c \<Longrightarrow>
     apply_at (demo_auth_api now es) (demo_instance cs a) (sk_certManager demo_policy) i ks =
       (Inr True, ks, [ApplyCert (signingCertificateName ''i'' (signingKeyID g))])"
  by (simp add: apply_at_def demo_apply) (simp add: demo_key_def second_def list_update_same_conv)

lemma demo_status_simps [simp]: "as_signingKeys (demo_status ks g) = ks" "as_generation (demo_status ks g) = g"
  "as_pendingStep (demo_status ks g) = StepNone" "as_pendingSince (demo_status ks g) = None"
  "as_lagging (demo_status ks g) = []" "as_laggingCount (demo_status ks g) = 0"
  by (simp_all add: demo_status_def)

lemma demo_pair:
  assumes ks: "ks = [(demo_key 1 5 p1 d1)\<lparr>ky_retireEligibleAt := r1\<rparr>, demo_key 2 200 p2 d2]"
    and ph: "p1 = KeyActive \<and> p2 = KeyValidationOnly \<or> p1 = KeyValidationOnly \<and> p2 = KeyActive \<or> p1 = KeyRemoving \<and> p2 = KeyActive"
    and st: "stepSigningKeyRotation env (demo_auth_api now es) (demo_instance cs (Some (demo_status ks 2))) demo_auth demo_policy
      (demo_status ks 2) = (None, b, os)"
  obtains ops where
    "ensureSigningKeys env (demo_auth_api now es) (demo_instance cs (Some (demo_status ks 2))) demo_auth demo_policy =
       (Inr True, Some b, ops)" "set os \<subseteq> set ops"
proof -
  have n: "normalizeSigningKeyPhases ks = ks" using ph by (auto simp: ks normalizeSigningKeyPhases_def demo_key_def)
  have ap: "apply_at (demo_auth_api now es) (demo_instance cs (Some (demo_status ks 2))) (sk_certManager demo_policy) i ks =
      (Inr True, ks, [ApplyCert (signingCertificateName ''i'' (signingKeyID (int i + 1)))])" if "i = 0 \<or> i = 1" for i
    using that demo_apply_at [of 0 ks r1 1 5 p1 d1] demo_apply_at [of 1 ks None 2 200 p2 d2] by (auto simp: ks demo_key_def)
  have sn: "\<lparr>as_signingKeys = ks, as_generation = 2, as_pendingStep = StepNone, as_pendingSince = None, as_lagging = [],
      as_laggingCount = 0\<rparr> = demo_status ks 2" by (simp add: demo_status_def)
  have ix: "activeSigningKey ks = Some (if p1 = KeyActive then 0 else 1)" "otherSigningKey ks = Some (if p1 = KeyActive then 1 else 0)"
    using ph by (auto simp: ks index_defs demo_key_def)
  have "\<exists>ops. ensureSigningKeys env (demo_auth_api now es) (demo_instance cs (Some (demo_status ks 2))) demo_auth demo_policy =
       (Inr True, Some b, ops) \<and> set os \<subseteq> set ops"
    using ph st by (auto simp: ensureSigningKeys_def n ix ap rotationPendingSnapshot_def sn Let_def)
  then show ?thesis using that by blast
qed

definition demo_view :: resolved_auth where
  "demo_view = \<lparr>ra_spec = demo_auth, ra_signingKeys = [demo_key 1 5 KeyActive None], ra_adminSecretVersion = ''1'',
     ra_fingerprints = fmupd (signingKeyID 1) ''fp'' fmempty\<rparr>"

definition demo_world :: "instance_cr \<Rightarrow> time \<Rightarrow> fleet_engine list \<Rightarrow> (string \<times> time) set \<Rightarrow> auth_world" where
  "demo_world inst now es toks = \<lparr>aw_inst = inst, aw_now = now, aw_fleet = es, aw_tokens = toks\<rparr>"

definition demo_engine :: "resolved_auth list \<Rightarrow> fleet_engine" where
  "demo_engine vs = \<lparr>fe_name = ''e'', fe_instanceRef = ''i'', fe_seen = None, fe_views = vs\<rparr>"

definition demo_booted :: instance_cr where
  "demo_booted = demo_instance demo_ready (Some (demo_status [demo_key 1 5 KeyActive None] 1))"

lemma demo_stored:
  assumes "map stored_key ks = ks"
  shows "stored_instance (demo_instance cs (Some (demo_status ks g))) = demo_instance cs (Some (demo_status ks g))"
  using assms by (simp add: stored_instance_def demo_instance_def stored_status_def demo_status_def)

lemma demo_stays: "auth_stays (10 * second) (demo_instance cs a)"
  using demo_window by (auto simp: auth_stays_def demo_instance_def demo_auth_def MaxInt64_def second_def)

lemma demo_fresh: "fresh_auth (10 * second) (demo_world (demo_instance [] None) (5 * second) es {}) \<longleftrightarrow>
    (\<forall>e\<in>set es. fe_instanceRef e = ''i'' \<longrightarrow> fe_seen e = None \<and> fe_views e = [])"
  using demo_stays by (auto simp: fresh_auth_def demo_world_def ours_def second_def)

lemma demo_collision: "\<forall>e\<in>set (ours w). fe_seen e = None \<Longrightarrow> collision_free ex_env api w"
  by (simp add: collision_free_def authHash_def contentHash_def ex_env_def)

lemma demo_pass:
  assumes run: "ensureAuth list_conditions ex_env (demo_auth_api now (map (ref_of ex_env) es)) inst = (err, inst', ops)"
    and "\<forall>e\<in>set es. fe_seen e = None" "stored_instance inst' = inst'"
  shows "auth_step list_conditions ex_env life (demo_world inst now es toks) (demo_world inst' now es toks)"
proof -
  have "auth_step list_conditions ex_env life (demo_world inst now es toks)
      ((demo_world inst now es toks)\<lparr>aw_inst := stored_instance inst'\<rparr>)"
    by (rule auth_step.pass [where api = "demo_auth_api now (map (ref_of ex_env) es)"])
      (use assms demo_collision in \<open>auto simp: demo_world_def demo_auth_api_def ours_def\<close>)
  then show ?thesis using assms(3) by (simp add: demo_world_def)
qed

lemma demo_first_pass:
  assumes "\<forall>e\<in>set es. fe_seen e = None"
  shows "auth_step list_conditions ex_env life (demo_world (demo_instance [] None) (5 * second) es toks)
    (demo_world demo_booted (5 * second) es toks)"
proof (rule demo_pass [OF _ assms])
  show "ensureAuth list_conditions ex_env (demo_auth_api (5 * second) (map (ref_of ex_env) es)) (demo_instance [] None) =
      (None, demo_booted, [ApplyCert (signingCertificateName ''i'' (signingKeyID 1))])"
    using demo_boot [of None 1 5] by (simp add: demo_booted_def)
  show "stored_instance demo_booted = demo_booted"
    unfolding demo_booted_def by (rule demo_stored) (simp add: stored_key_def demo_key_def whole_second_def second_def)
qed

lemma demo_resolve: "resolve_auth list_conditions (demo_auth_api now es) demo_booted = Inr (Some demo_view)"
  by (simp add: resolve_auth_def demo_booted_def demo_ready_def list_conditions_def mk_condition_def expected_auth_def
      signingKeysForRender_def index_defs checkSecretKeyPresent_def signingKeyFingerprint_def demo_view_def demo_auth_defs
      InstanceConditionAuthReady_def)



text \<open>The first rotation of an Instance without engines up to the deletion of the old key.\<close>

lemma demo_facts: "au_now (demo_auth_api now es) = now" "au_engines (demo_auth_api now es) = Inr es"
  "au_deleteCert (demo_auth_api now es) n = None" "au_deleteSecret (demo_auth_api now es) n = None"
  "sk_rotationInterval demo_policy = Some (100 * second)" "sk_retainDuration demo_policy = Some (20 * second)"
  "ky_algorithm (demo_key g c p d) = ''ECDSA''" "ky_size (demo_key g c p d) = 384" "ky_createdAt (demo_key g c p d) = c * second"
  "ky_phase (demo_key g c p d) = p" "ky_demotedAt (demo_key g c p d) = d" "ky_retireEligibleAt (demo_key g c p d) = None"
  "ky_id (demo_key g c p d) = signingKeyID g" "0 < second"
  by (simp_all add: demo_auth_api_def demo_policy_def demo_key_def second_def)

definition demo_pairs :: "signing_key_phase \<Rightarrow> time option \<Rightarrow> time option \<Rightarrow> signing_key_phase \<Rightarrow> signing_key list" where
  "demo_pairs p1 d r p2 = [(demo_key 1 5 p1 d)\<lparr>ky_retireEligibleAt := r\<rparr>, demo_key 2 200 p2 None]"

definition demo_rotating :: "signing_key_phase \<Rightarrow> time option \<Rightarrow> time option \<Rightarrow> signing_key_phase \<Rightarrow> instance_cr" where
  "demo_rotating p1 d r p2 = demo_instance demo_ready (Some (demo_status (demo_pairs p1 d r p2) 2))"

lemma demo_rotating_stored:
  "stored_instance (demo_rotating p1 (map_option ((*) second) d) (map_option ((*) second) r) p2) =
     demo_rotating p1 (map_option ((*) second) d) (map_option ((*) second) r) p2"
  unfolding demo_rotating_def
  by (rule demo_stored) (cases d; cases r; simp add: demo_pairs_def stored_key_def demo_key_def whole_second_def second_def)

lemma demo_minted:
  "ensureAuth list_conditions env (demo_auth_api (200 * second) es) demo_booted =
     (None, demo_rotating KeyActive None None KeyValidationOnly,
      [ApplyCert (signingCertificateName ''i'' (signingKeyID 1)), ApplyCert (signingCertificateName ''i'' (signingKeyID 2))])"
  unfolding demo_booted_def demo_rotating_def
proof (rule demo_ensureAuth)
  let ?k = "demo_key 1 5 KeyActive None"
  have ap: "apply_at (demo_auth_api (200 * second) es) (demo_instance demo_ready (Some (demo_status [?k] 1))) (sk_certManager demo_policy) 0 [?k] =
      (Inr True, [?k], [ApplyCert (signingCertificateName ''i'' (signingKeyID 1))])"
    using demo_apply_at [of 0 "[?k]" None 1 5 KeyActive None] by (simp add: demo_key_def)
  show "ensureSigningKeys env (demo_auth_api (200 * second) es) (demo_instance demo_ready (Some (demo_status [?k] 1)))
      demo_auth demo_policy = (Inr True, Some (demo_status (demo_pairs KeyActive None None KeyValidationOnly) 2),
        [ApplyCert (signingCertificateName ''i'' (signingKeyID 1)), ApplyCert (signingCertificateName ''i'' (signingKeyID 2))])"
  proof -
    have n: "normalizeSigningKeyPhases [?k] = [?k]" by (simp add: normalizeSigningKeyPhases_def demo_key_def)
    have ix: "activeSigningKey [?k] = Some 0" "otherSigningKey [?k] = None" by (simp_all add: index_defs demo_key_def)
    have sn: "\<lparr>as_signingKeys = [?k], as_generation = 1, as_pendingStep = StepNone, as_pendingSince = None, as_lagging = [],
      as_laggingCount = 0\<rparr> = demo_status [?k] 1" by (simp add: demo_status_def)
    have m: "mintNextSigningKey (demo_auth_api (200 * second) es) (demo_instance demo_ready (Some (demo_status [?k] 1)))
        (sk_certManager demo_policy) (demo_status [?k] 1) =
        (None, demo_status (demo_pairs KeyActive None None KeyValidationOnly) 2,
         [ApplyCert (signingCertificateName ''i'' (signingKeyID 2))])"
      by (simp add: mintNextSigningKey_def Let_def demo_apply demo_algSize mint_key_def)
        (simp add: demo_status_def demo_pairs_def demo_key_def)
    have cl: "clearRotationPending (demo_status [?k] 1) = demo_status [?k] 1"
      by (simp add: clearRotationPending_def demo_status_def)
    have "stepSigningKeyRotation env (demo_auth_api (200 * second) es) (demo_instance demo_ready (Some (demo_status [?k] 1)))
        demo_auth demo_policy (demo_status [?k] 1) =
        (None, demo_status (demo_pairs KeyActive None None KeyValidationOnly) 2,
         [ApplyCert (signingCertificateName ''i'' (signingKeyID 2))])"
      by (simp add: stepSigningKeyRotation_def ix Let_def demo_algSize cl m demo_facts)
    then show ?thesis by (simp add: ensureSigningKeys_def n ix ap rotationPendingSnapshot_def sn Let_def)
  qed
qed simp_all


lemma demo_rotation_pass:
  assumes "p1 = KeyActive \<and> p2 = KeyValidationOnly \<or> p1 = KeyValidationOnly \<and> p2 = KeyActive \<or> p1 = KeyRemoving \<and> p2 = KeyActive"
    and "stepSigningKeyRotation env (demo_auth_api now es) (demo_rotating p1 d r p2) demo_auth demo_policy
      (demo_status (demo_pairs p1 d r p2) 2) = (None, b, os)" "as_pendingStep b = StepNone"
  obtains ops where "ensureAuth list_conditions env (demo_auth_api now es) (demo_rotating p1 d r p2) =
      (None, demo_instance demo_ready (Some b), ops)" "set os \<subseteq> set ops"
proof -
  obtain ops where "ensureSigningKeys env (demo_auth_api now es) (demo_rotating p1 d r p2) demo_auth demo_policy =
       (Inr True, Some b, ops)" "set os \<subseteq> set ops"
    unfolding demo_rotating_def using demo_pair [OF demo_pairs_def assms(1) assms(2) [unfolded demo_rotating_def]] by blast
  then show ?thesis using that demo_ensureAuth [of env now es demo_ready] assms(3) by (simp add: demo_rotating_def)
qed

lemma demo_rotation_steps:
  "stepSigningKeyRotation env (demo_auth_api now []) (demo_rotating KeyActive None None KeyValidationOnly) demo_auth demo_policy
     (demo_status (demo_pairs KeyActive None None KeyValidationOnly) 2) =
     (None, demo_status (demo_pairs KeyValidationOnly (Some now) None KeyActive) 2, [])"
  "stepSigningKeyRotation env (demo_auth_api now []) (demo_rotating KeyValidationOnly (Some t) None KeyActive) demo_auth demo_policy
     (demo_status (demo_pairs KeyValidationOnly (Some t) None KeyActive) 2) =
     (None, demo_status (demo_pairs KeyValidationOnly (Some t) (Some now) KeyActive) 2, [])"
  "r + 20 * second \<le> now \<Longrightarrow>
   stepSigningKeyRotation env (demo_auth_api now []) (demo_rotating KeyValidationOnly (Some t) (Some r) KeyActive) demo_auth demo_policy
     (demo_status (demo_pairs KeyValidationOnly (Some t) (Some r) KeyActive) 2) =
     (None, demo_status (demo_pairs KeyRemoving (Some t) (Some r) KeyActive) 2, [])"
  "stepSigningKeyRotation env (demo_auth_api now []) (demo_rotating KeyRemoving (Some t) (Some r) KeyActive) demo_auth demo_policy
     (demo_status (demo_pairs KeyRemoving (Some t) (Some r) KeyActive) 2) =
     (None, demo_status [demo_key 2 200 KeyActive None] 2,
      [DeleteCert (signingCertificateName ''i'' (signingKeyID 1)), DeleteSecret (signingCertificateName ''i'' (signingKeyID 1))])"
  by (simp_all add: stepSigningKeyRotation_def demo_pairs_def index_defs demo_facts Let_def gated_def enginesConvergedOn_def
      clearRotationPending_def promoteSigningKey_def deleteSigningKey_def removeSigningKey_def demo_rotating_def,
      simp_all add: demo_status_def demo_key_def)


definition demo_retired :: instance_cr where
  "demo_retired = demo_rotating KeyRemoving (Some (200 * second)) (Some (200 * second)) KeyActive"

lemma demo_run:
  "(auth_step list_conditions ex_env (10 * second))\<^sup>*\<^sup>* (demo_world (demo_instance [] None) (5 * second) [] {})
     (demo_world demo_retired (300 * second) [] {})"
proof -
  let ?step = "auth_step list_conditions ex_env (10 * second)"
  let ?r = "\<lambda>p1 d r p2. demo_rotating p1 (map_option ((*) second) d) (map_option ((*) second) r) p2"
  have tick: "?step (demo_world i t [] {}) (demo_world i t' [] {})" if "t \<le> t'" for i t t'
    using auth_step.tick [of "demo_world i t [] {}" t' list_conditions ex_env "10 * second"] that by (simp add: demo_world_def)
  have pass: "?step (demo_world i t [] {}) (demo_world (?r p1 d r p2) t [] {})"
    if "ensureAuth list_conditions ex_env (demo_auth_api t []) i = (err, ?r p1 d r p2, ops)" for i t err ops p1 d r p2
    using demo_pass [of t "[]" i err "?r p1 d r p2" ops] that demo_rotating_stored by simp
  have rot: "?step (demo_world (?r p1 d r p2) t [] {}) (demo_world (?r p1' d' r' p2') t [] {})"
    if "p1 = KeyActive \<and> p2 = KeyValidationOnly \<or> p1 = KeyValidationOnly \<and> p2 = KeyActive \<or> p1 = KeyRemoving \<and> p2 = KeyActive"
      "stepSigningKeyRotation ex_env (demo_auth_api t []) (?r p1 d r p2) demo_auth demo_policy
        (demo_status (demo_pairs p1 (map_option ((*) second) d) (map_option ((*) second) r) p2) 2) =
        (None, demo_status (demo_pairs p1' (map_option ((*) second) d') (map_option ((*) second) r') p2') 2, [])"
    for p1 d r p2 t p1' d' r' p2'
  proof -
    note st = that
    obtain ops where "ensureAuth list_conditions ex_env (demo_auth_api t []) (?r p1 d r p2) = (None, ?r p1' d' r' p2', ops)"
      by (rule demo_rotation_pass [OF st]) (simp_all add: demo_rotating_def)
    then show ?thesis by (rule pass)
  qed
  have 1: "?step (demo_world (demo_instance [] None) (5 * second) [] {}) (demo_world demo_booted (5 * second) [] {})"
    by (rule demo_first_pass) simp
  have 2: "?step (demo_world demo_booted (200 * second) [] {}) (demo_world (?r KeyActive None None KeyValidationOnly) (200 * second) [] {})"
    using pass [of "200 * second" demo_booted None KeyActive None None KeyValidationOnly] demo_minted [of ex_env "[]"] by simp
  have 3: "?step (demo_world (?r KeyActive None None KeyValidationOnly) (200 * second) [] {})
      (demo_world (?r KeyValidationOnly (Some 200) None KeyActive) (200 * second) [] {})"
    by (rule rot) (simp_all add: demo_rotation_steps mult.commute)
  have 4: "?step (demo_world (?r KeyValidationOnly (Some 200) None KeyActive) (200 * second) [] {})
      (demo_world (?r KeyValidationOnly (Some 200) (Some 200) KeyActive) (200 * second) [] {})"
    by (rule rot) (simp_all add: demo_rotation_steps mult.commute)
  have 5: "?step (demo_world (?r KeyValidationOnly (Some 200) (Some 200) KeyActive) (300 * second) [] {})
      (demo_world (?r KeyRemoving (Some 200) (Some 200) KeyActive) (300 * second) [] {})"
    by (rule rot) (simp_all add: demo_rotation_steps second_def)
  have t1: "?step (demo_world demo_booted (5 * second) [] {}) (demo_world demo_booted (200 * second) [] {})"
    and t2: "?step (demo_world (?r KeyValidationOnly (Some 200) (Some 200) KeyActive) (200 * second) [] {})
      (demo_world (?r KeyValidationOnly (Some 200) (Some 200) KeyActive) (300 * second) [] {})"
    by (rule tick, simp add: second_def)+
  have end_state: "?r KeyRemoving (Some 200) (Some 200) KeyActive = demo_retired" by (simp add: demo_retired_def mult.commute)
  show ?thesis unfolding end_state [symmetric]
    by (rule converse_rtranclp_into_rtranclp, rule 1, rule converse_rtranclp_into_rtranclp, rule t1,
        rule converse_rtranclp_into_rtranclp, rule 2, rule converse_rtranclp_into_rtranclp, rule 3,
        rule converse_rtranclp_into_rtranclp, rule 4, rule converse_rtranclp_into_rtranclp, rule t2,
        rule r_into_rtranclp, rule 5)
qed


text \<open>Auth is turned off after the first key and on again: the second key has a new identifier.\<close>

definition demo_off :: instance_cr where
  "demo_off = demo_instance [] (Some (demo_status [] 1))"

theorem kids_never_return_witness:
  "(auth_life list_conditions ex_env)\<^sup>*\<^sup>* (demo_instance [] None) demo_booted \<and>
   (auth_life list_conditions ex_env)\<^sup>*\<^sup>* demo_booted demo_off \<and>
   (auth_life list_conditions ex_env)\<^sup>*\<^sup>* demo_off (demo_instance demo_ready (Some (demo_status [demo_key 2 200 KeyActive None] 2))) \<and>
   signingKeyID 1 \<in> kids demo_booted \<and> signingKeyID 1 \<notin> kids demo_off \<and>
   signingKeyID 1 \<notin> kids (demo_instance demo_ready (Some (demo_status [demo_key 2 200 KeyActive None] 2)))"
proof -
  let ?life = "auth_life list_conditions ex_env"
  let ?on = "demo_instance demo_ready (Some (demo_status [demo_key 2 200 KeyActive None] 2))"
  let ?dis = "demo_booted\<lparr>in_auth := None\<rparr>"
  have stored: "map stored_key [demo_key g c KeyActive None] = [demo_key g c KeyActive None]" for g c
    by (simp add: stored_key_def demo_key_def whole_second_def second_def)
  have "?life (demo_instance [] None) (stored_instance demo_booted)"
    using auth_life.pass demo_boot [of None 1 5 "[]" ex_env "[]"] unfolding demo_booted_def by force
  then have 1: "?life\<^sup>*\<^sup>* (demo_instance [] None) demo_booted"
    using demo_stored [OF stored] by (simp add: demo_booted_def)
  obtain i where i: "ensureAuth list_conditions ex_env (demo_auth_api 0 []) ?dis = (None, i, [])"
    "in_authStatus i = Some (demo_status [] 1)"
    by (simp add: ensureAuth_def auth_cond_def setInstanceCondition_def retained_generation_def demo_booted_def demo_status_def)
  have "?life demo_booted ?dis" by (rule auth_life.edit) simp
  moreover have "?life ?dis (stored_instance i)" using i(1) by (rule auth_life.pass)
  moreover have "?life (stored_instance i) demo_off"
    by (rule auth_life.edit) (simp add: i(2) demo_off_def stored_status_def demo_status_def)
  ultimately have 2: "?life\<^sup>*\<^sup>* demo_booted demo_off"
    by (meson converse_rtranclp_into_rtranclp r_into_rtranclp)
  have "?life demo_off (stored_instance ?on)"
    using auth_life.pass demo_boot [of "Some (demo_status [] 1)" 2 200 "[]" ex_env "[]"] unfolding demo_off_def by force
  then have 3: "?life\<^sup>*\<^sup>* demo_off ?on" using demo_stored [OF stored] by simp
  have kid: "signingKeyID 1 \<in> kids demo_booted" "signingKeyID 1 \<notin> kids demo_off"
    by (simp_all add: kids_def demo_booted_def demo_off_def demo_facts)
  show ?thesis using kids_never_return [OF _ 1 2 3 kid] 1 2 3 kid by simp
qed

lemma demo_expected: "\<exists>a. expected_auth (demo_auth_api t es) ns spec loc ks = Inr a"
proof -
  have "\<exists>m. fingerprints_of (demo_auth_api t es) ns xs = Inr m" for xs
    by (induction xs) (auto simp: signingKeyFingerprint_def demo_auth_api_def)
  then obtain m where "fingerprints_of (demo_auth_api t es) ns (signingKeysForRender ks) = Inr m" by blast
  then show ?thesis by (cases loc) (simp_all add: expected_auth_def checkSecretKeyPresent_def, simp add: demo_auth_api_def)
qed

text \<open>An engine that has recorded the hash every rendering has here.\<close>

definition demo_ref :: engine_ref where
  "demo_ref = \<lparr>er_name = ''e'', er_instanceRef = ''i'', er_observedAuthHash = ''0123456789abcdef''\<rparr>"

lemma demo_undisturbed:
  "undisturbed_auth ex_env (demo_auth_api t [demo_ref]) inst demo_auth demo_local"
proof -
  have "enginesConvergedOn ex_env (demo_auth_api t [demo_ref]) inst demo_auth ks = Inr (True, [])" for ks
  proof -
    obtain a where a: "expected_auth (demo_auth_api t [demo_ref]) (in_namespace inst) demo_auth (au_local demo_auth) ks = Inr a"
      using demo_expected by blast
    have "authHash ex_env (Some a) = er_observedAuthHash demo_ref"
      by (simp add: authHash_def contentHash_def ex_env_def demo_ref_def)
    then show ?thesis using a by (simp add: enginesConvergedOn_def demo_facts)
  qed
  moreover have "issued_ok (demo_auth_api t [demo_ref]) inst"
    by (simp add: issued_ok_def demo_auth_api_def certificateReadyForCurrentGeneration_def)
  moreover have "ValidateAuth (au_hugeDuration (demo_auth_api t [demo_ref])) (Some demo_auth) = []" by (simp add: demo_valid)
  moreover have "\<exists>rv. checkAdminPasswordSecret (demo_auth_api t [demo_ref]) inst demo_local = Inr rv"
    by (simp add: checkAdminPasswordSecret_def checkSecretKeyPresent_def demo_auth_api_def)
  ultimately show ?thesis by (simp add: undisturbed_auth_def demo_facts)
qed

theorem rotation_completes_witness:
  "\<exists>k. existingSigningKeys (foldl (\<lambda>x api. auth_pass list_conditions ex_env api x)
       (demo_rotating KeyActive None None KeyValidationOnly)
       [demo_auth_api (200 * second) [demo_ref], demo_auth_api (230 * second) [demo_ref],
        demo_auth_api (260 * second) [demo_ref], demo_auth_api (290 * second) [demo_ref]]) = [k] \<and>
     ky_id k = signingKeyID 2 \<and> signingKeysForRender [k] = [k]"
proof (rule rotation_completes [where spec = demo_auth and l = demo_local and pol = demo_policy and i = 1 and d = "20 * second"])
  show "in_stage (existingSigningKeys (demo_rotating KeyActive None None KeyValidationOnly)) (Minted 1 2)"
    by (simp add: demo_rotating_def demo_pairs_def role_def demo_facts)
  show "quiet_run list_conditions ex_env demo_auth demo_local (demo_rotating KeyActive None None KeyValidationOnly)
       [demo_auth_api (200 * second) [demo_ref], demo_auth_api (230 * second) [demo_ref],
        demo_auth_api (260 * second) [demo_ref], demo_auth_api (290 * second) [demo_ref]]"
    by (simp add: demo_undisturbed)
qed (simp_all add: demo_rotating_def demo_auth_def demo_local_def demo_facts second_def)

end
