(* ===== verification/Instance_TLS.thy ===== *)
theory Instance_TLS
  imports Instance_Auth Operator_Authority
begin

text \<open>
  The TLS side of an Instance (\<open>instance_tls.go\<close>): what the spec asks of the two listeners and its validation
  (\<open>ValidateTLS\<close> of \<open>src/api/v1alpha1/fireboltinstance_webhook.go\<close>, with the names of protected Secrets of
  \<open>operatorauthority.go\<close>), the certificate of the engine listener and its state across the fleet, and the bundle
  of certificate authorities the gateway trusts engines with.
\<close>

section \<open>Spec and status\<close>

record tls_listener =
  tl_enabled :: bool
  tl_certManager :: "cert_manager_spec option"
  tl_secretRef :: "string option"
  tl_dnsNames :: "string list"
  tl_clientCASecretRef :: "string option"
  tl_crlSecretRef :: "string option"

record tls_spec =
  ts_engine :: "tls_listener option"
  ts_gateway :: "tls_listener option"

record engine_tls_status =
  et_secretName :: string
  et_createdAt :: time
  et_reencrypting :: bool

record gateway_tls_status =
  gt_secretName :: string
  gt_createdAt :: time
  gt_mode :: string
  gt_clientCAFingerprint :: string

record postgres_tls =
  pgt_mode :: string
  pgt_caName :: string
  pgt_caKey :: string
  pgt_caOptional :: "bool option"

record postgres_spec =
  pg_credentials :: string
  pg_tls :: "postgres_tls option"

datatype instance_phase = PhaseUnset | Provisioning | InstReady | Degraded | InstFailed

record fb_instance = instance_cr +
  fi_id :: string
  fi_metadataReplicas :: "int option"
  fi_tls :: "tls_spec option"
  fi_postgres :: "postgres_spec option"
  fi_gatewayReplicas :: "int option"
  fi_metricsPort :: int
  fi_gatewayTemplate :: "pod_template option"
  fi_metadataTemplate :: "pod_template option"
  fi_engineTLS :: "engine_tls_status option"
  fi_gatewayTLS :: "gateway_tls_status option"
  fi_rolledTrustCAs :: "string list"
  fi_phase :: instance_phase
  fi_metadataReady :: bool
  fi_metadataEndpoint :: string
  fi_gatewayReady :: bool
  fi_gatewayEndpoint :: string

definition engine_listener :: "fb_instance \<Rightarrow> tls_listener option" where
  "engine_listener inst = Option.bind (fi_tls inst) ts_engine"

definition gateway_listener :: "fb_instance \<Rightarrow> tls_listener option" where
  "gateway_listener inst = Option.bind (fi_tls inst) ts_gateway"

section \<open>Secrets no template may reach\<close>

definition opt_name :: "string option \<Rightarrow> string list" where
  "opt_name n = (case n of Some s \<Rightarrow> if s = [] then [] else [s] | None \<Rightarrow> [])"

definition InstanceOperatorSecretNames :: "fb_instance \<Rightarrow> string list" where
  "InstanceOperatorSecretNames inst =
     opt_name (case in_auth inst of
                 Some a \<Rightarrow> if au_enabled a then map_option la_adminPasswordName (au_local a) else None
               | None \<Rightarrow> None)
     @ filter (\<lambda>n. n \<noteq> []) (map ky_secretName (existingSigningKeys inst))
     @ opt_name (map_option et_secretName (fi_engineTLS inst))
     @ opt_name (map_option gt_secretName (fi_gatewayTLS inst))
     @ opt_name (Option.bind (gateway_listener inst) tl_clientCASecretRef)
     @ (case fi_postgres inst of
          Some p \<Rightarrow> opt_name (Some (pg_credentials p)) @ opt_name (map_option pgt_caName (pg_tls p))
        | None \<Rightarrow> [])"

definition InstanceProvisionedSecretNames :: "fb_instance \<Rightarrow> string list" where
  "InstanceProvisionedSecretNames inst =
     filter (\<lambda>n. n \<noteq> []) (map ky_secretName (existingSigningKeys inst))
     @ (case engine_listener inst of
          Some l \<Rightarrow> if tl_secretRef l = None then opt_name (map_option et_secretName (fi_engineTLS inst)) else []
        | None \<Rightarrow> [])
     @ (case gateway_listener inst of
          Some l \<Rightarrow> if tl_secretRef l = None then opt_name (map_option gt_secretName (fi_gatewayTLS inst)) else []
        | None \<Rightarrow> [])"

definition instanceProtectedSecretPredicate :: "fb_instance \<Rightarrow> string \<Rightarrow> bool" where
  "instanceProtectedSecretPredicate inst name \<longleftrightarrow>
     name \<noteq> [] \<and>
     (name \<in> set (InstanceProvisionedSecretNames inst) \<or> IsGeneratedEngineTLSSecretName name
      \<or> IsSigningKeySecretName name)"

definition SuffixEngineCABundle :: string where "SuffixEngineCABundle = ''-engine-ca-bundle''"
definition SuffixMetadataPostgresCreds :: string where "SuffixMetadataPostgresCreds = ''-metadata-postgres-creds''"

definition engineCABundleSecretName :: "string \<Rightarrow> string" where
  "engineCABundleSecretName instanceName = instanceName @ SuffixEngineCABundle"

definition metadataCredsSecretName :: "fb_instance \<Rightarrow> string" where
  "metadataCredsSecretName inst =
     (case fi_postgres inst of
        Some p \<Rightarrow> pg_credentials p
      | None \<Rightarrow> in_name inst @ SuffixMetadataPostgresCreds)"

definition instanceProtectedSecretNames :: "fb_instance \<Rightarrow> string list" where
  "instanceProtectedSecretNames inst =
     fold (\<lambda>n out. if n = [] \<or> n \<in> set out then out else out @ [n])
       (InstanceOperatorSecretNames inst
        @ [engineCABundleSecretName (in_name inst), metadataCredsSecretName inst]) []"

definition instanceProtectedSecret :: "fb_instance \<Rightarrow> string \<Rightarrow> bool" where
  "instanceProtectedSecret inst name \<longleftrightarrow>
     name \<noteq> [] \<and>
     (name \<in> set (instanceProtectedSecretNames inst) \<or> IsGeneratedEngineTLSSecretName name
      \<or> IsSigningKeySecretName name)"

section \<open>Validation\<close>

definition forbidProtectedSecretRef :: "string option \<Rightarrow> string \<Rightarrow> (string \<Rightarrow> bool) \<Rightarrow> field_error list" where
  "forbidProtectedSecretRef ref path isProtected =
     (case ref of Some n \<Rightarrow> if n \<noteq> [] \<and> isProtected n then [Forbidden path] else [] | None \<Rightarrow> [])"

definition validateTLSListener :: "tls_listener option \<Rightarrow> string \<Rightarrow> (string \<Rightarrow> bool) \<Rightarrow> field_error list" where
  "validateTLSListener listener base isProtected =
     (case listener of
        None \<Rightarrow> []
      | Some l \<Rightarrow>
          forbidProtectedSecretRef (tl_secretRef l) (base @ ''.secretRef'') isProtected
          @ forbidProtectedSecretRef (tl_clientCASecretRef l) (base @ ''.clientCASecretRef'') isProtected
          @ forbidProtectedSecretRef (tl_crlSecretRef l) (base @ ''.crlSecretRef'') isProtected
          @ (if \<not> tl_enabled l then
               (if tl_clientCASecretRef l \<noteq> None then [Forbidden (base @ ''.clientCASecretRef'')] else [])
               @ (if tl_crlSecretRef l \<noteq> None then [Forbidden (base @ ''.crlSecretRef'')] else [])
             else
               (case (tl_certManager l, tl_secretRef l) of
                  (Some _, Some _) \<Rightarrow> [Forbidden (base @ ''.secretRef'')]
                | (None, None) \<Rightarrow> [Required (base @ ''.certManager'')]
                | (None, Some n) \<Rightarrow> if n = [] then [Required (base @ ''.secretRef.name'')] else []
                | (Some c, None) \<Rightarrow>
                    (if cms_issuerName c = [] then [Required (base @ ''.certManager.issuerRef.name'')] else [])
                    @ validateCertManagerKey (Some c) (base @ ''.certManager''))
               @ (if tl_clientCASecretRef l = Some [] then [Required (base @ ''.clientCASecretRef.name'')] else [])
               @ (if tl_crlSecretRef l = Some [] then [Required (base @ ''.crlSecretRef.name'')] else [])))"

definition ValidateTLS :: "fb_instance \<Rightarrow> field_error list" where
  "ValidateTLS inst =
     (case fi_tls inst of
        None \<Rightarrow> []
      | Some tls \<Rightarrow>
          validateTLSListener (ts_engine tls) ''spec.tls.engine'' (instanceProtectedSecretPredicate inst)
          @ validateTLSListener (ts_gateway tls) ''spec.tls.gateway'' (instanceProtectedSecretPredicate inst)
          @ (case ts_gateway tls of
               Some g \<Rightarrow> if tl_crlSecretRef g \<noteq> None \<and> tl_clientCASecretRef g = None
                         then [Forbidden ''spec.tls.gateway.crlSecretRef''] else []
             | None \<Rightarrow> [])
          @ (case ts_engine tls of
               Some e \<Rightarrow> (if tl_clientCASecretRef e \<noteq> None then [Forbidden ''spec.tls.engine.clientCASecretRef''] else [])
                 @ (if tl_secretRef e \<noteq> None then [Forbidden ''spec.tls.engine.secretRef''] else [])
             | None \<Rightarrow> []))"

section \<open>The API as a pass sees it\<close>

record fleet_ref = engine_ref +
  fr_observedTLSHash :: string
  fr_current :: int
  fr_active :: int
  fr_draining :: "int option"

record ca_bundle =
  cb_name :: string
  cb_namespace :: string
  cb_labels :: "(string, string) fmap"
  cb_trustCAs :: string
  cb_caCrt :: string

text \<open>To the answers the authentication steps use come the writes of Certificates and of the bundle, which
  gives back the Secret as stored, and the engines of the namespace.\<close>

record instance_api = auth_api +
  ti_applyCert :: "certificate \<Rightarrow> engine_error option"
  ti_applyBundle :: "ca_bundle \<Rightarrow> engine_error + secret"
  ti_fleet :: "engine_error + fleet_ref list"

definition fleet_of :: "fb_instance \<Rightarrow> fleet_ref list \<Rightarrow> fleet_ref list" where
  "fleet_of inst items = filter (\<lambda>e. er_instanceRef e = in_name inst) items"

section \<open>The engine listener\<close>

definition engineTLSCASecretKey :: string where "engineTLSCASecretKey = ''ca.crt''"

definition engineTLSCertificateName :: "string \<Rightarrow> string" where
  "engineTLSCertificateName instanceName = instanceName @ SuffixEngineTLS"

definition engineTLSAnchorDNSName :: "string \<Rightarrow> string \<Rightarrow> string" where
  "engineTLSAnchorDNSName instanceName ns = instanceName @ ''-engine-tls-anchor.'' @ ns @ ''.svc.cluster.local''"

definition tls_certificate :: "fb_instance \<Rightarrow> cert_manager_spec \<Rightarrow> string \<Rightarrow> string \<Rightarrow> string list \<Rightarrow> certificate" where
  "tls_certificate inst policy name component dnsNames =
     (let labels = instanceLabels (in_name inst) component;
          (alg, size) = resolvedCertManagerAlgSize policy;
          (duration, renewBefore) = resolveCertDuration policy DefaultCertDurationTLS DefaultCertRenewBeforeTLS
      in \<lparr>crt_name = name, crt_namespace = in_namespace inst, crt_labels = Some labels,
          crt_secretName = name, crt_secretLabels = Some labels,
          crt_usages = [''server auth''], crt_encoding = ''PKCS8'', crt_dnsNames = dnsNames,
          crt_issuerName = cms_issuerName policy,
          crt_issuerKind = resolveCertManagerIssuerKind (cms_issuerKind policy),
          crt_duration = duration, crt_renewBefore = renewBefore,
          crt_rotationPolicy = ''Always'',
          crt_algorithm = (if alg = ''ECDSA'' then ''ECDSA'' else ''RSA''),
          crt_size = size\<rparr>)"

definition buildEngineTLSCertificate :: "fb_instance \<Rightarrow> cert_manager_spec \<Rightarrow> certificate" where
  "buildEngineTLSCertificate inst policy =
     tls_certificate inst policy (engineTLSCertificateName (in_name inst)) ''engine-tls''
       [engineTLSAnchorDNSName (in_name inst) (in_namespace inst)]"

definition engineTLSSecretReady :: "secret \<Rightarrow> bool" where
  "engineTLSSecretReady s \<longleftrightarrow>
     se_data s TLSCertKey \<noteq> [] \<and> se_data s TLSPrivateKeyKey \<noteq> [] \<and> se_data s engineTLSCASecretKey \<noteq> []"

text \<open>Applying a Certificate and waiting for it, which both listeners share: \<open>Inr False\<close> while it is not issued
  for its current spec.\<close>

definition cert_issued :: "instance_api \<Rightarrow> string \<Rightarrow> engine_error + bool" where
  "cert_issued api name =
     (case au_getCert api name of
        Inl e \<Rightarrow> Inl e
      | Inr None \<Rightarrow> Inr False
      | Inr (Some cert) \<Rightarrow> Inr (certificateReadyForCurrentGeneration cert))"

definition ensureEngineTLSCertificate ::
  "instance_api \<Rightarrow> fb_instance \<Rightarrow> tls_listener \<Rightarrow> (engine_error + bool) \<times> fb_instance" where
  "ensureEngineTLSCertificate api inst l =
     (let src = (case tl_secretRef l of
                   Some n \<Rightarrow> Inr (n, [], True)
                 | None \<Rightarrow>
                     (case tl_certManager l of
                        None \<Rightarrow> Inl (Panic ''spec.tls.engine.certManager is nil'')
                      | Some policy \<Rightarrow>
                          (let desired = buildEngineTLSCertificate inst policy
                           in case ti_applyCert api desired of
                                Some e \<Rightarrow> Inl e
                              | None \<Rightarrow>
                                  (case cert_issued api (crt_name desired) of
                                     Inl e \<Rightarrow> Inl e
                                   | Inr ok \<Rightarrow> Inr (crt_secretName desired, crt_name desired, ok)))))
      in case src of
           Inl e \<Rightarrow> (Inl e, inst)
         | Inr (secretName, certName, ok) \<Rightarrow>
             if \<not> ok then (Inr False, inst)
             else case au_getSecret api secretName of
                    Inl e \<Rightarrow> (Inl e, inst)
                  | Inr None \<Rightarrow> (Inr False, inst)
                  | Inr (Some s) \<Rightarrow>
                      if \<not> engineTLSSecretReady s then (Inr False, inst)
                      else (case (if certName \<noteq> [] then verifyCertManagerIssued s certName else None) of
                              Some e \<Rightarrow> (Inl e, inst)
                            | None \<Rightarrow>
                                (Inr True,
                                 inst\<lparr>fi_engineTLS := Some \<lparr>et_secretName = secretName,
                                        et_createdAt = (case fi_engineTLS inst of Some t \<Rightarrow> et_createdAt t
                                                        | None \<Rightarrow> au_now api),
                                        et_reencrypting = False\<rparr>\<rparr>)))"

definition expected_tls_hash :: "operator_env \<Rightarrow> fb_instance \<Rightarrow> string" where
  "expected_tls_hash env inst =
     (case fi_engineTLS inst of
        None \<Rightarrow> []
      | Some t \<Rightarrow> tlsHash env (Some \<lparr>rt_secretName = et_secretName t,
                   rt_certManager = Option.bind (engine_listener inst) tl_certManager, rt_servingCertFP = []\<rparr>))"

definition engineFleetTLSState ::
  "operator_env \<Rightarrow> instance_api \<Rightarrow> fb_instance \<Rightarrow> engine_error + bool \<times> bool" where
  "engineFleetTLSState env api inst =
     and_then (ti_fleet api) (\<lambda>items.
       (let ours = fleet_of inst items; expectedOn = expected_tls_hash env inst
        in if ours = [] then Inr (True, False)
           else Inr (expectedOn \<noteq> [] \<and> list_all (\<lambda>e. fr_observedTLSHash e = expectedOn) ours,
                     list_ex (\<lambda>e. fr_observedTLSHash e \<noteq> []) ours)))"

definition InstanceConditionEngineTLSReady :: string where "InstanceConditionEngineTLSReady = ''EngineTLSReady''"

definition engine_tls_cond :: "condition_api \<Rightarrow> bool \<Rightarrow> string \<Rightarrow> string \<Rightarrow> fb_instance \<Rightarrow> fb_instance" where
  "engine_tls_cond ca b reason msg inst = setInstanceCondition ca inst InstanceConditionEngineTLSReady b reason msg"

definition set_reencrypting :: "bool \<Rightarrow> fb_instance \<Rightarrow> fb_instance" where
  "set_reencrypting b inst = inst\<lparr>fi_engineTLS := map_option (\<lambda>t. t\<lparr>et_reencrypting := b\<rparr>) (fi_engineTLS inst)\<rparr>"

definition engine_tls_off :: "condition_api \<Rightarrow> fb_instance \<Rightarrow> fb_instance" where
  "engine_tls_off ca inst =
     engine_tls_cond ca True ''Disabled'' ''spec.tls.engine is unset or disabled'' (inst\<lparr>fi_engineTLS := None\<rparr>)"

definition ensureEngineTLS ::
  "condition_api \<Rightarrow> operator_env \<Rightarrow> instance_api \<Rightarrow> fb_instance \<Rightarrow> engine_error option \<times> fb_instance" where
  "ensureEngineTLS ca env api inst =
     (case engine_listener inst of
        None \<Rightarrow> (None, engine_tls_off ca inst)
      | Some l \<Rightarrow>
          if ValidateTLS inst \<noteq> [] then
            (let e = aggregate (ValidateTLS inst)
             in (Some e, engine_tls_cond ca False ''TLSSpecInvalid'' (error_text e) inst))
          else if \<not> tl_enabled l then
            (if fi_engineTLS inst = None then (None, engine_tls_off ca inst)
             else case engineFleetTLSState env api inst of
                    Inl e \<Rightarrow> (Some e, engine_tls_cond ca False ''DrainCheckFailed'' (error_text e) inst)
                  | Inr (_, anyOnTLS) \<Rightarrow>
                      if anyOnTLS then
                        (None, engine_tls_cond ca False ''Draining''
                           ''engine TLS disabled; retaining the trust anchor while the engine fleet rolls back to plaintext''
                           (set_reencrypting True inst))
                      else (None, engine_tls_off ca inst))
          else case ensureEngineTLSCertificate api inst l of
                 (Inl e, inst1) \<Rightarrow> (Some e, engine_tls_cond ca False ''CertificateEnsureFailed'' (error_text e) inst1)
               | (Inr False, inst1) \<Rightarrow>
                   (None, engine_tls_cond ca False
                      (if tl_secretRef l \<noteq> None then ''SecretPending'' else ''CertificatePending'')
                      (if tl_secretRef l \<noteq> None
                       then ''waiting for the referenced engine TLS secret to exist and carry tls.crt, tls.key, and ca.crt''
                       else ''waiting for cert-manager to issue the engine TLS certificate'') inst1)
               | (Inr True, inst1) \<Rightarrow>
                   (case engineFleetTLSState env api inst1 of
                      Inl e \<Rightarrow> (Some e, engine_tls_cond ca False ''ConvergenceCheckFailed'' (error_text e) inst1)
                    | Inr (allOnTLS, _) \<Rightarrow>
                        if \<not> allOnTLS then
                          (None, engine_tls_cond ca False ''Converging''
                             ''engine TLS certificate provisioned; waiting for the engine fleet to roll onto TLS''
                             (set_reencrypting False inst1))
                        else (None, engine_tls_cond ca True ''Ready''
                                ''engine TLS certificate is provisioned and the fleet is re-encrypting''
                                (set_reencrypting True inst1))))"

definition engineUpstreamTLSReady :: "fb_instance \<Rightarrow> bool" where
  "engineUpstreamTLSReady inst \<longleftrightarrow> (case fi_engineTLS inst of Some t \<Rightarrow> et_reencrypting t | None \<Rightarrow> False)"

section \<open>The trust bundle\<close>

definition caFingerprint :: "operator_env \<Rightarrow> string \<Rightarrow> string" where
  "caFingerprint env blob = oe_sha256hex env (trim_space blob)"

definition liveEngineGenerations :: "fleet_ref \<Rightarrow> int list" where
  "liveEngineGenerations e =
     (let add = (\<lambda>g out. if g > 0 \<and> g \<notin> set out then out @ [g] else out);
          out = add (fr_active e) (add (fr_current e) [])
      in case fr_draining e of Some d \<Rightarrow> add d out | None \<Rightarrow> out)"

definition bundle_sources :: "fb_instance \<Rightarrow> fleet_ref list \<Rightarrow> string list" where
  "bundle_sources inst items =
     concat (map (\<lambda>e. map (\<lambda>g. genResourceName (er_name e) g SuffixEngineTLS) (liveEngineGenerations e))
               (fleet_of inst items))"

fun collectCACerts :: "instance_api \<Rightarrow> string list \<Rightarrow> engine_error + string list \<times> bool" where
  "collectCACerts api [] = Inr ([], True)"
| "collectCACerts api (name # names) =
     (case au_getSecret api name of
        Inl e \<Rightarrow> Inl e
      | Inr None \<Rightarrow> and_then (collectCACerts api names) (\<lambda>(cas, _). Inr (cas, False))
      | Inr (Some s) \<Rightarrow>
          and_then (collectCACerts api names) (\<lambda>(cas, complete).
            if se_data s engineTLSCASecretKey \<noteq> [] then Inr (se_data s engineTLSCASecretKey # cas, complete)
            else Inr (cas, False)))"

definition servedEngineTrustCAs :: "instance_api \<Rightarrow> fb_instance \<Rightarrow> engine_error + string list \<times> bool \<times> bool" where
  "servedEngineTrustCAs api inst =
     (case au_getSecret api (engineCABundleSecretName (in_name inst)) of
        Inl e \<Rightarrow> Inl e
      | Inr None \<Rightarrow> Inr ([], False, False)
      | Inr (Some s) \<Rightarrow>
          if se_data s engineTLSCASecretKey = [] then Inr ([], False, False)
          else if se_trustCAs s = [] then Inr ([], False, True)
          else Inr (split_on CHR '','' [] (se_trustCAs s), True, True))"

definition caFingerprintsSorted :: "operator_env \<Rightarrow> string list \<Rightarrow> string list" where
  "caFingerprintsSorted env blobs = sort (map (caFingerprint env) blobs)"

definition engineTrustCAsSubset :: "string list \<Rightarrow> string list \<Rightarrow> bool" where
  "engineTrustCAsSubset a b \<longleftrightarrow> list_all (\<lambda>fp. fp \<in> set b) a"

definition dedupCABlobs :: "string list \<Rightarrow> string list" where
  "dedupCABlobs inputs =
     sort (fold (\<lambda>i blobs. (let b = trim_space i in if b = [] \<or> b \<in> set blobs then blobs else blobs @ [b])) inputs [])"

definition caBundleBytes :: "string list \<Rightarrow> string" where
  "caBundleBytes blobs = join_with (CHR 0x0A) blobs"

definition desired_bundle :: "operator_env \<Rightarrow> fb_instance \<Rightarrow> string list \<Rightarrow> ca_bundle" where
  "desired_bundle env inst blobs =
     \<lparr>cb_name = engineCABundleSecretName (in_name inst), cb_namespace = in_namespace inst,
      cb_labels = instanceLabels (in_name inst) ''engine-ca-bundle'',
      cb_trustCAs = join_with CHR '','' (caFingerprintsSorted env blobs),
      cb_caCrt = caBundleBytes blobs\<rparr>"

text \<open>The certificates found, the anchor standing in when there are none, and whether every live generation
  was read.\<close>

definition assembled :: "instance_api \<Rightarrow> fb_instance \<Rightarrow> fleet_ref list \<Rightarrow> engine_error + string list \<times> bool" where
  "assembled api inst items =
     and_then (collectCACerts api (bundle_sources inst items)) (\<lambda>(cas, complete).
       if cas \<noteq> [] then Inr (cas, complete)
       else and_then (collectCACerts api [et_secretName (the (fi_engineTLS inst))]) (\<lambda>(anchor, _).
              Inr (anchor, complete)))"

text \<open>The result, and the API with the Secret the call may have written.\<close>

definition ensureEngineCABundle ::
  "operator_env \<Rightarrow> instance_api \<Rightarrow> fb_instance \<Rightarrow> (engine_error + string list) \<times> instance_api" where
  "ensureEngineCABundle env api inst =
     (if \<not> engineUpstreamTLSReady inst then (Inr [], api)
      else case and_then (ti_fleet api) (assembled api inst) of
             Inl e \<Rightarrow> (Inl e, api)
           | Inr (cas, complete) \<Rightarrow>
               (let blobs = dedupCABlobs cas; newFPs = caFingerprintsSorted env blobs
                in case servedEngineTrustCAs api inst of
                     Inl e \<Rightarrow> (Inl e, api)
                   | Inr (served, known, present) \<Rightarrow>
                       if \<not> (blobs \<noteq> [] \<and> (complete \<or> \<not> present \<or> known \<and> engineTrustCAsSubset served newFPs))
                       then (Inr (if known then served else []), api)
                       else case ti_applyBundle api (desired_bundle env inst blobs) of
                              Inl e \<Rightarrow> (Inl e, api)
                            | Inr stored \<Rightarrow>
                                (Inr newFPs,
                                 api\<lparr>au_getSecret := (\<lambda>n. if n = engineCABundleSecretName (in_name inst)
                                        then Inr (Some stored) else au_getSecret api n)\<rparr>)))"

section \<open>What an engine resolves\<close>

text \<open>The TLS part of \<open>resolveInstanceInfo\<close>: the resolved block and whether the gateway trusts the authority of the
  engine's current generation.\<close>

definition resolve_tls ::
  "operator_env \<Rightarrow> instance_api \<Rightarrow> fb_instance \<Rightarrow> string \<Rightarrow> int \<Rightarrow> engine_error + resolved_tls option \<times> bool" where
  "resolve_tls env api inst engine gen =
     (case engine_listener inst of
        None \<Rightarrow> Inr (None, False)
      | Some l \<Rightarrow>
          if \<not> tl_enabled l then Inr (None, False)
          else case fi_engineTLS inst of
                 None \<Rightarrow> Inl (ApiError (''FireboltInstance '' @ in_name inst
                                @ '' has engine TLS enabled but it is not provisioned yet''))
               | Some t \<Rightarrow>
                   (let secretName = et_secretName t; ns = in_namespace inst; auth = auth_api.truncate api;
                        genSecretName = genResourceName engine gen SuffixEngineTLS
                    in and_then (checkSecretKeyPresent auth ns secretName TLSCertKey ''engine TLS secret'') (\<lambda>_.
                       and_then (checkSecretKeyPresent auth ns secretName TLSPrivateKeyKey ''engine TLS secret'') (\<lambda>_.
                       and_then (au_getSecret api genSecretName) (\<lambda>genSecret.
                         (case (case genSecret of Some s \<Rightarrow> verifyCertManagerIssued s genSecretName | None \<Rightarrow> None) of
                            Some e \<Rightarrow> Inl e
                          | None \<Rightarrow>
                              (let crt = (case genSecret of Some s \<Rightarrow> se_data s TLSCertKey | None \<Rightarrow> []);
                                   ca = (case genSecret of Some s \<Rightarrow> se_data s engineTLSCASecretKey | None \<Rightarrow> [])
                               in Inr (Some \<lparr>rt_secretName = secretName, rt_certManager = tl_certManager l,
                                         rt_servingCertFP = (if crt \<noteq> [] then caFingerprint env crt else [])\<rparr>,
                                       \<not> engineUpstreamTLSReady inst
                                       \<or> ca \<noteq> [] \<and> caFingerprint env ca \<in> set (fi_rolledTrustCAs inst)))))))))"

end
