(* ===== verification/Instance_Admission.thy ===== *)
theory Instance_Admission
  imports Instance_TLS
begin

text \<open>
  Admission of an Instance (\<open>src/api/v1alpha1/fireboltinstance_webhook.go\<close>): the defaulting and the validating webhook
  on creation and update, with the fields that must not change in place, and the check of an external database that
  \<open>instance_controller.go\<close> repeats before it rolls out the metadata service. The identifier a webhook mints
  (\<open>MintInstanceID\<close>, random) is an argument.
\<close>

section \<open>Defaults\<close>

definition PostgresTLSModeVerifyFull :: string where "PostgresTLSModeVerifyFull = ''verify-full''"

definition default_instance :: "string \<Rightarrow> fb_instance \<Rightarrow> fb_instance" where
  "default_instance minted inst =
     (let i = (if fi_id inst = [] then inst\<lparr>fi_id := minted\<rparr> else inst)
      in i\<lparr>fi_postgres := map_option (\<lambda>pg. pg\<lparr>pg_tls := map_option
             (\<lambda>t. if pgt_mode t = [] then t\<lparr>pgt_mode := PostgresTLSModeVerifyFull\<rparr> else t) (pg_tls pg)\<rparr>) (fi_postgres i)\<rparr>)"

section \<open>The spec\<close>

definition validateMetadataReplicas :: "fb_instance \<Rightarrow> field_error list" where
  "validateMetadataReplicas inst =
     (case fi_metadataReplicas inst of
        Some r \<Rightarrow> if r \<noteq> 1 then [Invalid ''spec.metadata.replicas''] else []
      | None \<Rightarrow> [])"

definition ValidateExternalPostgres :: "fb_instance \<Rightarrow> field_error list" where
  "ValidateExternalPostgres inst =
     (case fi_postgres inst of
        None \<Rightarrow> []
      | Some pg \<Rightarrow>
          (if pg_credentials pg = [] then [Required ''spec.metadata.postgres.credentialsSecretRef.name''] else [])
          @ (case pg_tls pg of
               None \<Rightarrow> []
             | Some t \<Rightarrow>
                 (if pgt_mode t \<noteq> [] \<and> pgt_mode t \<noteq> PostgresTLSModeVerifyFull
                  then [NotSupported ''spec.metadata.postgres.tls.mode''] else [])
                 @ (if pgt_caName t = [] then [Required ''spec.metadata.postgres.tls.caSecretRef.name''] else [])
                 @ (if pgt_caKey t = [] then [Required ''spec.metadata.postgres.tls.caSecretRef.key''] else [])
                 @ forbid (pgt_caOptional t = Some True) ''spec.metadata.postgres.tls.caSecretRef.optional''
                 @ forbid (pgt_caName t \<noteq> [] \<and> instanceProtectedSecretPredicate inst (pgt_caName t))
                     ''spec.metadata.postgres.tls.caSecretRef.name''))"

definition validateSpec :: "int \<Rightarrow> fb_instance \<Rightarrow> field_error list" where
  "validateSpec huge inst =
     validateMetadataReplicas inst
     @ ValidatePodTemplate (fi_metadataTemplate inst) ''spec.metadata.template'' MetadataPodTemplateRules
     @ ValidatePodTemplate (fi_gatewayTemplate inst) ''spec.gateway.template'' GatewayPodTemplateRules
     @ ValidateExternalPostgres inst
     @ ValidateAuth huge (in_auth inst)
     @ ValidateTLS inst"

section \<open>What must not change\<close>

definition authLocalEnabled :: "'i instance_cr_scheme \<Rightarrow> bool" where
  "authLocalEnabled inst \<longleftrightarrow> (case in_auth inst of Some a \<Rightarrow> au_enabled a \<and> au_local a \<noteq> None | None \<Rightarrow> False)"

definition local_auth :: "'i instance_cr_scheme \<Rightarrow> local_auth_spec" where
  "local_auth inst = the (au_local (the (in_auth inst)))"

definition validateImmutableSigningKey :: "fb_instance \<Rightarrow> fb_instance \<Rightarrow> field_error list" where
  "validateImmutableSigningKey oldInst newInst =
     (if \<not> authLocalEnabled oldInst \<or> \<not> authLocalEnabled newInst then []
      else (let oldLocal = local_auth oldInst; newLocal = local_auth newInst
            in (if la_signingAlgorithm oldLocal \<noteq> la_signingAlgorithm newLocal
                then [Invalid ''spec.auth.local.signingAlgorithm''] else [])
               @ (case (la_signingKeys oldLocal, la_signingKeys newLocal) of
                    (Some p, Some q) \<Rightarrow>
                      if cms_size (sk_certManager p) \<noteq> cms_size (sk_certManager q)
                      then [Invalid ''spec.auth.local.signingKeys.certManager.size''] else []
                  | _ \<Rightarrow> [])))"

definition engine_issuer :: "fb_instance \<Rightarrow> cert_manager_spec option" where
  "engine_issuer inst = Option.bind (engine_listener inst) (\<lambda>l. if tl_enabled l then tl_certManager l else None)"

definition engineTLSCertManaged :: "fb_instance \<Rightarrow> bool" where
  "engineTLSCertManaged inst \<longleftrightarrow> engine_issuer inst \<noteq> None"

definition validateImmutableEngineTLSIssuer :: "fb_instance \<Rightarrow> fb_instance \<Rightarrow> field_error list" where
  "validateImmutableEngineTLSIssuer oldInst newInst =
     (case (engine_issuer oldInst, engine_issuer newInst) of
        (Some oldRef, Some newRef) \<Rightarrow>
          if cms_issuerName oldRef = cms_issuerName newRef \<and> cms_issuerKind oldRef = cms_issuerKind newRef then []
          else [Invalid ''spec.tls.engine.certManager.issuerRef'']
      | _ \<Rightarrow> [])"

definition validateImmutableFields :: "fb_instance \<Rightarrow> fb_instance \<Rightarrow> field_error list" where
  "validateImmutableFields oldInst newInst =
     validateImmutableSigningKey oldInst newInst @ validateImmutableEngineTLSIssuer oldInst newInst"

section \<open>The webhook\<close>

definition validate_instance_create :: "int \<Rightarrow> fb_instance \<Rightarrow> field_error list" where
  "validate_instance_create huge inst = validateSpec huge inst"

definition validate_instance_update :: "int \<Rightarrow> fb_instance \<Rightarrow> fb_instance \<Rightarrow> field_error list" where
  "validate_instance_update huge oldInst newInst = validateSpec huge newInst @ validateImmutableFields oldInst newInst"

definition validate_instance_delete :: "fb_instance \<Rightarrow> field_error list" where
  "validate_instance_delete inst = []"

section \<open>The controller's check of an external database\<close>

definition checkExternalPostgresSecret :: "auth_api \<Rightarrow> fb_instance \<Rightarrow> engine_error option" where
  "checkExternalPostgresSecret api inst =
     (case fi_postgres inst of
        None \<Rightarrow> None
      | Some pg \<Rightarrow>
          if ValidateExternalPostgres inst \<noteq> [] then Some (aggregate (ValidateExternalPostgres inst))
          else case au_getSecret api (pg_credentials pg) of
                 Inl e \<Rightarrow> Some e
               | Inr None \<Rightarrow> Some (not_found ''external postgres credentials secret'' (in_namespace inst) (pg_credentials pg))
               | Inr (Some _) \<Rightarrow>
                   (case pg_tls pg of
                      None \<Rightarrow> None
                    | Some t \<Rightarrow>
                        (case checkSecretKeyPresent api (in_namespace inst) (pgt_caName t) (pgt_caKey t)
                                ''external postgres CA Secret'' of
                           Inl e \<Rightarrow> Some e
                         | Inr _ \<Rightarrow> None)))"

section \<open>Accepted specs\<close>

lemma accepted_spec:
  assumes "validateSpec huge inst = []"
  shows "ValidateAuth huge (in_auth inst) = []" "ValidateTLS inst = []" "ValidateExternalPostgres inst = []"
    "ValidatePodTemplate (fi_gatewayTemplate inst) ''spec.gateway.template'' GatewayPodTemplateRules = []"
    "ValidatePodTemplate (fi_metadataTemplate inst) ''spec.metadata.template'' MetadataPodTemplateRules = []"
  using assms by (simp_all add: validateSpec_def)

text \<open>Defaulting does not change the verdict, and is done after once.\<close>

lemma default_verdict: "validateSpec huge (default_instance minted inst) = validateSpec huge inst"
proof -
  have "instanceProtectedSecretPredicate (default_instance minted inst) = instanceProtectedSecretPredicate inst"
    by (simp add: fun_eq_iff instanceProtectedSecretPredicate_def InstanceProvisionedSecretNames_def default_instance_def
        existingSigningKeys_def engine_listener_def gateway_listener_def Let_def)
  then show ?thesis
    by (simp add: validateSpec_def validateMetadataReplicas_def ValidateExternalPostgres_def ValidateTLS_def)
      (simp add: default_instance_def Let_def PostgresTLSModeVerifyFull_def split: option.splits)
qed

lemma default_idem: "minted \<noteq> [] \<Longrightarrow> default_instance m (default_instance minted inst) = default_instance minted inst"
  by (cases "fi_postgres inst"; cases "pg_tls (the (fi_postgres inst))")
    (auto simp: default_instance_def Let_def PostgresTLSModeVerifyFull_def)

lemma accepted_local_auth:
  assumes "ValidateAuth huge (in_auth inst) = []" "authLocalEnabled inst"
  obtains a pol where "in_auth inst = Some a" "au_enabled a" "au_local a = Some (local_auth inst)"
    "la_signingKeys (local_auth inst) = Some pol"
    "key_fits (signing_algorithm (local_auth inst)) (resolvedCertManagerAlgSize (sk_certManager pol))"
proof -
  obtain a where a: "in_auth inst = Some a" "au_enabled a" "au_local a \<noteq> None"
    using assms(2) by (auto simp: authLocalEnabled_def split: option.splits)
  obtain l pol where l: "au_local a = Some l" "la_signingKeys l = Some pol" "validateLocalAuth huge l ''spec.auth.local'' = []"
    using accepted_enabled [of huge a] assms(1) a by auto
  have "local_auth inst = l" by (simp add: local_auth_def a(1) l(1))
  then show ?thesis using that a l by (auto simp: validateLocalAuth_def intro: accepted_key_fits)
qed

lemma key_fits_algorithm: "key_fits alg (k, s) \<Longrightarrow> key_fits alg (k', s') \<Longrightarrow> k = k'"
  by (auto simp: key_fits_def split: if_splits)

text \<open>What the signing keys of an Instance are made from.\<close>

definition key_parameters :: "'i instance_cr_scheme \<Rightarrow> (string \<times> int) option" where
  "key_parameters inst = map_option (\<lambda>p. resolvedCertManagerAlgSize (sk_certManager p)) (la_signingKeys (local_auth inst))"

lemma update_freezes_key:
  assumes old: "ValidateAuth huge (in_auth oldI) = []" "authLocalEnabled oldI"
    and new: "authLocalEnabled newI" "validate_instance_update huge oldI newI = []"
  shows "la_signingAlgorithm (local_auth newI) = la_signingAlgorithm (local_auth oldI)" "key_parameters newI = key_parameters oldI"
proof -
  have v: "ValidateAuth huge (in_auth newI) = []" "validateImmutableSigningKey oldI newI = []"
    using new(2) accepted_spec(1) [of huge newI] by (simp_all add: validate_instance_update_def validateImmutableFields_def)
  obtain p where p: "la_signingKeys (local_auth oldI) = Some p"
    "key_fits (signing_algorithm (local_auth oldI)) (resolvedCertManagerAlgSize (sk_certManager p))"
    using accepted_local_auth [OF old] by blast
  obtain q where q: "la_signingKeys (local_auth newI) = Some q"
    "key_fits (signing_algorithm (local_auth newI)) (resolvedCertManagerAlgSize (sk_certManager q))"
    using accepted_local_auth [OF v(1) new(1)] by blast
  show alg: "la_signingAlgorithm (local_auth newI) = la_signingAlgorithm (local_auth oldI)"
    using v(2) old(2) new(1) by (auto simp: validateImmutableSigningKey_def Let_def split: if_splits)
  have size: "cms_size (sk_certManager p) = cms_size (sk_certManager q)"
    using v(2) old(2) new(1) p(1) q(1) by (auto simp: validateImmutableSigningKey_def Let_def split: if_splits)
  have "signing_algorithm (local_auth newI) = signing_algorithm (local_auth oldI)" by (simp add: signing_algorithm_def alg)
  then have "fst (resolvedCertManagerAlgSize (sk_certManager p)) = fst (resolvedCertManagerAlgSize (sk_certManager q))"
    using p(2) q(2) key_fits_algorithm by (metis prod.collapse)
  then show "key_parameters newI = key_parameters oldI"
    using size by (simp add: key_parameters_def p(1) q(1) resolvedCertManagerAlgSize_def)
qed

end
