(* ===== verification/Engine_Lookup.thy ===== *)
theory Engine_Lookup
  imports Instance_TLS
begin

text \<open>
  What an engine pass reads before it renders: its class (the namespaced object first, the cluster catalog after it),
  the Preset of its namespace and the Instance it belongs to (engine_controller.go, engine_reconcile.go,
  engine_preset_overlay.go), and the rule that a cluster class names nothing of a namespace (cluster_sku.go). Each
  lookup gives one of the outcomes the pass acts on. The reads of the API are arguments: an error, \<open>None\<close> where the
  object does not exist, or the object. The text of an aggregated list of field errors is an argument too.
\<close>

section \<open>The objects\<close>

record engine_class =
  ec_name :: string
  ec_namespace :: string
  ec_generation :: int
  ec_finalizers :: "string list"
  ec_deleting :: bool
  ec_template :: pod_template
  ec_uiSidecar :: "bool option"
  ec_storage :: storage_spec
  ec_customEngineConfig :: "json option"
  ec_rollout :: string
  ec_drainCheckEnabled :: "bool option"
  ec_drainCheckInterval :: "int option"
  ec_autoStop :: "auto_stop_spec option"
  ec_boundEngines :: int
  ec_observedGeneration :: int
  ec_conditions :: "condition list"

record cluster_class =
  cc_name :: string
  cc_template :: pod_template

record engine_preset =
  ep_name :: string
  ep_namespace :: string
  ep_generation :: int
  ep_finalizers :: "string list"
  ep_deleting :: bool
  ep_template :: pod_template
  ep_storage :: storage_spec
  ep_customEngineConfig :: "json option"
  ep_boundEngines :: int
  ep_observedGeneration :: int
  ep_conditions :: "condition list"

text \<open>The reads of a lookup, the JSON text of a Preset's spec and the text of an error list.\<close>

record lookup_api =
  lk_class :: "string \<Rightarrow> string + engine_class option"
  lk_clusterClass :: "string \<Rightarrow> string + cluster_class option"
  lk_preset :: "string \<Rightarrow> string + engine_preset option"
  lk_marshalPreset :: "engine_preset \<Rightarrow> string"
  lk_aggregate :: "field_error list \<Rightarrow> string"

definition FireboltEngineClassConditionReady :: string where "FireboltEngineClassConditionReady = ''Ready''"
definition FireboltEnginePresetConditionReady :: string where "FireboltEnginePresetConditionReady = ''Ready''"
definition reasonOperatorOwnedFieldSet :: string where "reasonOperatorOwnedFieldSet = ''OperatorOwnedFieldSet''"

definition newFireboltEngineClassInfo :: "operator_env \<Rightarrow> engine_class \<Rightarrow> class_info" where
  "newFireboltEngineClassInfo env ec =
     \<lparr>ci_name = ec_name ec, ci_template = Some (ec_template ec), ci_uiSidecar = ec_uiSidecar ec, ci_storage = ec_storage ec,
      ci_customEngineConfig = ec_customEngineConfig ec, ci_rollout = ec_rollout ec,
      ci_drainCheckEnabled = ec_drainCheckEnabled ec, ci_drainCheckInterval = ec_drainCheckInterval ec,
      ci_autoStop = ec_autoStop ec, ci_hash = contentHash env (oe_marshalTemplate env (ec_template ec)),
      ci_presetName = [], ci_presetHash = []\<rparr>"

definition newClusterFireboltEngineClassInfo :: "operator_env \<Rightarrow> cluster_class \<Rightarrow> class_info" where
  "newClusterFireboltEngineClassInfo env cc =
     \<lparr>ci_name = cc_name cc, ci_template = Some (cc_template cc), ci_uiSidecar = None, ci_storage = empty_storage,
      ci_customEngineConfig = None, ci_rollout = [], ci_drainCheckEnabled = None, ci_drainCheckInterval = None,
      ci_autoStop = None, ci_hash = contentHash env (oe_marshalTemplate env (cc_template cc)),
      ci_presetName = [], ci_presetHash = []\<rparr>"

definition newFireboltEnginePresetInfo :: "operator_env \<Rightarrow> lookup_api \<Rightarrow> engine_preset \<Rightarrow> preset_info" where
  "newFireboltEnginePresetInfo env api d =
     \<lparr>pi_name = ep_name d, pi_hash = contentHash env (lk_marshalPreset api d), pi_template = Some (ep_template d),
      pi_storage = ep_storage d, pi_customEngineConfig = ep_customEngineConfig d\<rparr>"

definition classReadyBlocksRender :: "condition option \<Rightarrow> bool" where
  "classReadyBlocksRender cond \<longleftrightarrow>
     (case cond of
        None \<Rightarrow> False
      | Some c \<Rightarrow> cd_status c = ''False'' \<and> cd_reason c = reasonOperatorOwnedFieldSet)"

section \<open>The cluster catalog\<close>

definition annotationIAMRole :: string where "annotationIAMRole = ''iam.amazonaws.com/role''"
definition annotationEKSRoleARN :: string where "annotationEKSRoleARN = ''eks.amazonaws.com/role-arn''"
definition clusterClassIAMAnnotationKeys :: "string list" where
  "clusterClassIAMAnnotationKeys = [annotationIAMRole, annotationEKSRoleARN]"

definition containerConfigMapRefs :: "container \<Rightarrow> string list" where
  "containerConfigMapRefs c =
     concat (map (\<lambda>e. secret_ref (map_option vs_configMapKeyRef (ev_valueFrom e))) (sitems (c_env c)))
     @ concat (map (\<lambda>e. secret_ref (Some (ef_configMapRef e))) (sitems (c_envFrom c)))"

definition forbidContainerNamespacedRefs :: "container list \<Rightarrow> string \<Rightarrow> field_error list" where
  "forbidContainerNamespacedRefs containers base =
     at_each (\<lambda>p c.
       forbid (ContainerSecretRefs c \<noteq> []) p
       @ forbid (containerConfigMapRefs c \<noteq> []) p
       @ forbid (sitems (rr_claims (c_resources c)) \<noteq> []) (path_child (path_child p ''resources'') ''claims''))
       base containers"

text \<open>The first projected source with a ConfigMap is reported.\<close>

fun first_config_map :: "nat \<Rightarrow> projected_source list \<Rightarrow> nat option" where
  "first_config_map i [] = None"
| "first_config_map i (s # ss) = (if pj_configMap s \<noteq> None then Some i else first_config_map (Suc i) ss)"

definition forbidNamespacedVolumeRefs :: "volume \<Rightarrow> string \<Rightarrow> field_error list" where
  "forbidNamespacedVolumeRefs v volPath =
     (if v_configMap v \<noteq> None then [Forbidden (path_child volPath ''configMap'')]
      else if v_persistentVolumeClaim v \<noteq> None then [Forbidden (path_child volPath ''persistentVolumeClaim'')]
      else case v_projected v of
             Some srcs \<Rightarrow>
               (case first_config_map 0 srcs of
                  Some i \<Rightarrow> [Forbidden (path_child (path_index (path_child (path_child volPath ''projected'') ''sources'') i)
                                          ''configMap'')]
                | None \<Rightarrow> [])
           | None \<Rightarrow>
               (case v_ephemeral v of
                  Some (Some claim) \<Rightarrow>
                    (let claimPath = path_child (path_child (path_child volPath ''ephemeral'') ''volumeClaimTemplate'') ''spec''
                     in forbid (cl_dataSource claim \<noteq> None) (path_child claimPath ''dataSource'')
                        @ forbid (cl_dataSourceRef claim \<noteq> None) (path_child claimPath ''dataSourceRef''))
                | _ \<Rightarrow> []))"

definition ValidateClusterEngineClassSKUOnly :: "pod_template option \<Rightarrow> string \<Rightarrow> field_error list" where
  "ValidateClusterEngineClassSKUOnly template base =
     (case template of
        None \<Rightarrow> []
      | Some t \<Rightarrow>
          (let spec = pt_spec t; specPath = path_child base ''spec'';
               annPath = path_child (path_child base ''metadata'') ''annotations''
           in forbid (p_serviceAccountName spec \<noteq> []) (path_child specPath ''serviceAccountName'')
              @ forbid (sitems (p_imagePullSecrets spec) \<noteq> []) (path_child specPath ''imagePullSecrets'')
              @ at_each (\<lambda>p c. [Forbidden p]) (path_child specPath ''resourceClaims'') (sitems (p_resourceClaims spec))
              @ concat (map (\<lambda>k. forbid (k |\<in>| fmdom (mitems (pt_annotations t))) (path_key annPath k))
                          clusterClassIAMAnnotationKeys)
              @ at_each (\<lambda>p v. forbid (VolumeSecretRefs v \<noteq> []) p @ forbidNamespacedVolumeRefs v p)
                  (path_child specPath ''volumes'') (sitems (p_volumes spec))
              @ forbidContainerNamespacedRefs (sitems (p_containers spec)) (path_child specPath ''containers'')
              @ forbidContainerNamespacedRefs (sitems (p_initContainers spec)) (path_child specPath ''initContainers'')))"

definition clusterClassLiveSpecErrors :: "pod_template \<Rightarrow> field_error list" where
  "clusterClassLiveSpecErrors template =
     ValidateOperatorOwnedPodTemplate (Some template) ''spec.template''
     @ ValidateClusterEngineClassSKUOnly (Some template) ''spec.template''"

section \<open>The class of an engine\<close>

definition resolveClusterFireboltEngineClassInfo :: "operator_env \<Rightarrow> lookup_api \<Rightarrow> string \<Rightarrow> string \<Rightarrow> class_outcome" where
  "resolveClusterFireboltEngineClassInfo env api ns ref =
     (case lk_clusterClass api ref of
        Inl e \<Rightarrow> ClassReadError (''getting ClusterFireboltEngineClass '' @ ref @ '': '' @ e)
      | Inr None \<Rightarrow> ClassNotFound (''spec.engineClassRef '' @ ref @ '': FireboltEngineClass '' @ ns @ ''/'' @ ref
                      @ '' not found, ClusterFireboltEngineClass '' @ ref @ '' not found'')
      | Inr (Some cc) \<Rightarrow>
          (let errs = clusterClassLiveSpecErrors (cc_template cc); info = Some (newClusterFireboltEngineClassInfo env cc)
           in if errs \<noteq> [] then ClassUnready info (''ClusterFireboltEngineClass '' @ cc_name cc @ '': '' @ lk_aggregate api errs)
              else ClassFound info))"

definition resolveFireboltEngineClassInfo ::
  "operator_env \<Rightarrow> condition_api \<Rightarrow> lookup_api \<Rightarrow> string \<Rightarrow> engine_spec \<Rightarrow> class_outcome" where
  "resolveFireboltEngineClassInfo env ca api ns spec =
     (case sp_engineClassRef spec of
        None \<Rightarrow> ClassFound None
      | Some ref \<Rightarrow>
          (if ref = [] then ClassFound None
          else case lk_class api ref of
                 Inl e \<Rightarrow> ClassReadError (''getting FireboltEngineClass '' @ ref @ '' in namespace '' @ ns @ '': '' @ e)
               | Inr None \<Rightarrow> resolveClusterFireboltEngineClassInfo env api ns ref
               | Inr (Some class) \<Rightarrow>
                   (let cond = ca_find ca (ec_conditions class) FireboltEngineClassConditionReady;
                        info = Some (newFireboltEngineClassInfo env class)
                    in if classReadyBlocksRender cond
                       then ClassUnready info (ec_name class @ '' in namespace '' @ ec_namespace class @ '': ''
                              @ (case cond of Some c \<Rightarrow> cd_message c | None \<Rightarrow> []))
                       else ClassFound info)))"

section \<open>The Preset of a namespace\<close>

definition resolveFireboltEnginePresetInfo ::
  "operator_env \<Rightarrow> condition_api \<Rightarrow> lookup_api \<Rightarrow> string \<Rightarrow> engine_spec \<Rightarrow> preset_outcome" where
  "resolveFireboltEnginePresetInfo env ca api ns spec =
     (case lk_preset api FireboltEnginePresetDefaultName of
        Inl e \<Rightarrow> PresetReadError (''getting FireboltEnginePreset '' @ FireboltEnginePresetDefaultName
                     @ '' in namespace '' @ ns @ '': '' @ e)
      | Inr None \<Rightarrow>
          if sp_requirePreset spec = Some True
          then PresetRequired (''namespace '' @ ns @ '' has no FireboltEnginePreset'')
          else PresetFound None
      | Inr (Some d) \<Rightarrow>
          (let who = ep_name d @ '' in namespace '' @ ep_namespace d @ '': '';
               live = (let errs = ValidateOperatorOwnedPodTemplate (Some (ep_template d)) ''spec.template''
                       in if errs \<noteq> [] then PresetUnready (who @ lk_aggregate api errs)
                          else PresetFound (Some (newFireboltEnginePresetInfo env api d)))
           in case ca_find ca (ep_conditions d) FireboltEnginePresetConditionReady of
                Some c \<Rightarrow>
                  (if cd_status c = ''False'' \<and> cd_reason c = reasonOperatorOwnedFieldSet
                   then PresetUnready (who @ cd_message c) else live)
              | None \<Rightarrow> live))"

section \<open>The Instance of an engine\<close>

definition resolveInstanceInfo ::
  "operator_env \<Rightarrow> condition_api \<Rightarrow> instance_api \<Rightarrow> (string \<Rightarrow> engine_error + fb_instance option)
     \<Rightarrow> string \<Rightarrow> engine_spec \<Rightarrow> string \<Rightarrow> int \<Rightarrow> engine_error + instance_info" where
  "resolveInstanceInfo env ca api getInstance ns spec engineName gen =
     and_then (getInstance (sp_instanceRef spec)) (\<lambda>found.
       case found of
         None \<Rightarrow> Inl (ApiError (''FireboltInstance '' @ sp_instanceRef spec @ '' not found in namespace '' @ ns))
       | Some inst \<Rightarrow>
           if fi_metadataEndpoint inst = []
           then Inl (ApiError (''FireboltInstance '' @ in_name inst @ '' has no metadata endpoint yet''))
           else if fi_id inst = [] then Inl (ApiError (''FireboltInstance '' @ in_name inst @ '' has no instance ID yet''))
           else and_then (resolve_auth ca (auth_api.truncate api) inst) (\<lambda>auth.
                and_then (resolve_tls env api inst engineName gen) (\<lambda>(tls, trusted).
                  Inr \<lparr>ii_metadataEndpoint = fi_metadataEndpoint inst, ii_instanceID = fi_id inst, ii_auth = auth, ii_tls = tls,
                       ii_engineTrustBundleReady = trusted,
                       ii_protectedSecretNames = instanceProtectedSecretNames inst\<rparr>)))"

end
