(* ===== verification/Class_Controller.thy ===== *)
theory Class_Controller
  imports Engine_Lookup
begin

text \<open>
  The controllers of FireboltEngineClass and FireboltEnginePreset: readiness of the template, the count of the
  engines that use the object, and the finalizer that holds a deletion while engines use it
  (fireboltengineclass_controller.go, fireboltenginepreset_controller.go). A pass gives the result handed to the
  queue, the write it made and the object as stored after it. The engines are given twice: as the cache shows them and
  as a read of the API server does; the guard counts the second. A namespace holds fewer than 2 to the 31 engines.
\<close>

section \<open>Results and answers\<close>

datatype ctrl_result = Failed string | Requeue | RequeueAfter int | NoRequeue

datatype write_outcome = Written | WriteConflict | WriteError string

datatype guard_write = NoWrite | FinalizerWrite | StatusWrite

text \<open>What the API answers to one pass: the engines of the namespace as cached and live, an update of the object, an
  update of its status.\<close>

record guard_api =
  gu_cached :: "string + engine_spec list"
  gu_live :: "string + engine_spec list"
  gu_update :: write_outcome
  gu_updateStatus :: write_outcome
  gu_aggregate :: "field_error list \<Rightarrow> string"

definition reasonDeletionBlocked :: string where "reasonDeletionBlocked = ''DeletionBlocked''"
definition reasonAdmissible :: string where "reasonAdmissible = ''Admissible''"

definition admissible_message :: string where "admissible_message = ''spec.template contains no operator-owned paths''"

section \<open>Classes\<close>

definition engineClassFinalizerName :: string where
  "engineClassFinalizerName = ''compute.firebolt.io/fireboltengineclass-deletion-guard''"

definition engineClassRequeueAfter :: int where "engineClassRequeueAfter = 30 * second"

definition countBoundEngines :: "string + engine_spec list \<Rightarrow> string \<Rightarrow> string + int" where
  "countBoundEngines engines className =
     (case engines of
        Inl e \<Rightarrow> Inl e
      | Inr items \<Rightarrow> Inr (int (length (filter (\<lambda>e. sp_engineClassRef e = Some className) items))))"

definition classReadiness :: "guard_api \<Rightarrow> engine_class \<Rightarrow> bool \<times> string \<times> string" where
  "classReadiness api class =
     (let errs = ValidateOperatorOwnedPodTemplate (Some (ec_template class)) ''spec.template''
      in if errs = [] then (True, reasonAdmissible, admissible_message)
         else (False, reasonOperatorOwnedFieldSet, gu_aggregate api errs))"

definition engineClassStatusEqual ::
  "condition_api \<Rightarrow> engine_class \<Rightarrow> int \<Rightarrow> bool \<Rightarrow> string \<Rightarrow> string \<Rightarrow> bool" where
  "engineClassStatusEqual ca class bound ready reason message \<longleftrightarrow>
     ec_boundEngines class = bound \<and> ec_observedGeneration class = ec_generation class \<and>
     (case ca_find ca (ec_conditions class) FireboltEngineClassConditionReady of
        None \<Rightarrow> False
      | Some c \<Rightarrow> cd_status c = (if ready then ''True'' else ''False'') \<and> cd_reason c = reason \<and> cd_message c = message)"

text \<open>The status a pass wants, and the write of it where it differs.\<close>

definition class_status ::
  "condition_api \<Rightarrow> engine_class \<Rightarrow> int \<Rightarrow> bool \<Rightarrow> string \<Rightarrow> string \<Rightarrow> engine_class" where
  "class_status ca class bound ready reason message =
     class\<lparr>ec_boundEngines := bound, ec_observedGeneration := ec_generation class,
       ec_conditions := ca_set ca (mk_condition FireboltEngineClassConditionReady ready reason message (ec_generation class))
                          (ec_conditions class)\<rparr>"

definition sync_class_status ::
  "condition_api \<Rightarrow> guard_api \<Rightarrow> engine_class \<Rightarrow> int \<Rightarrow> bool \<Rightarrow> string \<Rightarrow> string \<Rightarrow> ctrl_result \<times> guard_write \<times> engine_class" where
  "sync_class_status ca api class bound ready reason message =
     (if engineClassStatusEqual ca class bound ready reason message
      then (RequeueAfter engineClassRequeueAfter, NoWrite, class)
      else case gu_updateStatus api of
             Written \<Rightarrow> (RequeueAfter engineClassRequeueAfter, StatusWrite, class_status ca class bound ready reason message)
           | WriteConflict \<Rightarrow> (Requeue, NoWrite, class)
           | WriteError e \<Rightarrow> (Failed (''updating FireboltEngineClass status: '' @ e), NoWrite, class))"

definition class_deletion_message :: "engine_class \<Rightarrow> int \<Rightarrow> string" where
  "class_deletion_message class bound =
     ''FireboltEngineClass '' @ ec_name class @ '' in namespace '' @ ec_namespace class @ '' is referenced by '' @ itoa bound
     @ '' FireboltEngine(s); clear spec.engineClassRef on those engines before deleting the class''"

definition class_reconcileDelete ::
  "condition_api \<Rightarrow> guard_api \<Rightarrow> engine_class \<Rightarrow> ctrl_result \<times> guard_write \<times> engine_class" where
  "class_reconcileDelete ca api class =
     (if engineClassFinalizerName \<notin> set (ec_finalizers class) then (NoRequeue, NoWrite, class)
      else case countBoundEngines (gu_live api) (ec_name class) of
             Inl e \<Rightarrow> (Failed (''counting bound engines during delete: '' @ e), NoWrite, class)
           | Inr bound \<Rightarrow>
               (if bound > 0
               then sync_class_status ca api class bound False reasonDeletionBlocked (class_deletion_message class bound)
               else case gu_update api of
                      Written \<Rightarrow> (NoRequeue, FinalizerWrite,
                                  class\<lparr>ec_finalizers := removeAll engineClassFinalizerName (ec_finalizers class)\<rparr>)
                    | WriteConflict \<Rightarrow> (Requeue, NoWrite, class)
                    | WriteError e \<Rightarrow> (Failed (''removing finalizer: '' @ e), NoWrite, class)))"

definition class_reconcile ::
  "condition_api \<Rightarrow> guard_api \<Rightarrow> engine_class \<Rightarrow> ctrl_result \<times> guard_write \<times> engine_class" where
  "class_reconcile ca api class =
     (if engineClassFinalizerName \<notin> set (ec_finalizers class) then
        (case gu_update api of
           Written \<Rightarrow> (Requeue, FinalizerWrite, class\<lparr>ec_finalizers := ec_finalizers class @ [engineClassFinalizerName]\<rparr>)
         | WriteConflict \<Rightarrow> (Failed ''adding finalizer: conflict'', NoWrite, class)
         | WriteError e \<Rightarrow> (Failed (''adding finalizer: '' @ e), NoWrite, class))
      else if ec_deleting class then class_reconcileDelete ca api class
      else case countBoundEngines (gu_cached api) (ec_name class) of
             Inl e \<Rightarrow> (Failed (''counting bound engines: '' @ e), NoWrite, class)
           | Inr bound \<Rightarrow>
               (case classReadiness api class of
                  (ready, reason, message) \<Rightarrow> sync_class_status ca api class bound ready reason message))"

section \<open>Presets\<close>

definition enginePresetFinalizerName :: string where
  "enginePresetFinalizerName = ''compute.firebolt.io/fireboltenginepresets-deletion-guard''"

definition enginePresetRequeueAfter :: int where "enginePresetRequeueAfter = 30 * second"

definition countNamespaceEngines :: "string + engine_spec list \<Rightarrow> string + int" where
  "countNamespaceEngines engines = (case engines of Inl e \<Rightarrow> Inl e | Inr items \<Rightarrow> Inr (int (length items)))"

definition presetReadiness :: "guard_api \<Rightarrow> engine_preset \<Rightarrow> bool \<times> string \<times> string" where
  "presetReadiness api d =
     (let errs = ValidateOperatorOwnedPodTemplate (Some (ep_template d)) ''spec.template''
      in if errs = [] then (True, reasonAdmissible, admissible_message)
         else (False, reasonOperatorOwnedFieldSet, gu_aggregate api errs))"

definition enginePresetStatusEqual ::
  "condition_api \<Rightarrow> engine_preset \<Rightarrow> int \<Rightarrow> bool \<Rightarrow> string \<Rightarrow> string \<Rightarrow> bool" where
  "enginePresetStatusEqual ca d bound ready reason message \<longleftrightarrow>
     ep_boundEngines d = bound \<and> ep_observedGeneration d = ep_generation d \<and>
     (case ca_find ca (ep_conditions d) FireboltEnginePresetConditionReady of
        None \<Rightarrow> False
      | Some c \<Rightarrow> cd_status c = (if ready then ''True'' else ''False'') \<and> cd_reason c = reason \<and> cd_message c = message)"

definition preset_status ::
  "condition_api \<Rightarrow> engine_preset \<Rightarrow> int \<Rightarrow> bool \<Rightarrow> string \<Rightarrow> string \<Rightarrow> engine_preset" where
  "preset_status ca d bound ready reason message =
     d\<lparr>ep_boundEngines := bound, ep_observedGeneration := ep_generation d,
       ep_conditions := ca_set ca (mk_condition FireboltEnginePresetConditionReady ready reason message (ep_generation d))
                          (ep_conditions d)\<rparr>"

definition sync_preset_status ::
  "condition_api \<Rightarrow> guard_api \<Rightarrow> engine_preset \<Rightarrow> int \<Rightarrow> bool \<Rightarrow> string \<Rightarrow> string \<Rightarrow> ctrl_result \<times> guard_write \<times> engine_preset" where
  "sync_preset_status ca api d bound ready reason message =
     (if enginePresetStatusEqual ca d bound ready reason message
      then (RequeueAfter enginePresetRequeueAfter, NoWrite, d)
      else case gu_updateStatus api of
             Written \<Rightarrow> (RequeueAfter enginePresetRequeueAfter, StatusWrite, preset_status ca d bound ready reason message)
           | WriteConflict \<Rightarrow> (Requeue, NoWrite, d)
           | WriteError e \<Rightarrow> (Failed (''updating FireboltEnginePreset status: '' @ e), NoWrite, d))"

definition preset_deletion_message :: "engine_preset \<Rightarrow> int \<Rightarrow> string" where
  "preset_deletion_message d bound =
     itoa bound @ '' FireboltEngine(s) in namespace '' @ ep_namespace d @ '' consume FireboltEnginePreset '' @ ep_name d
     @ '' as their ambient overlay; delete those engines before deleting the Preset object''"

definition preset_reconcileDelete ::
  "condition_api \<Rightarrow> guard_api \<Rightarrow> engine_preset \<Rightarrow> ctrl_result \<times> guard_write \<times> engine_preset" where
  "preset_reconcileDelete ca api d =
     (if enginePresetFinalizerName \<notin> set (ep_finalizers d) then (NoRequeue, NoWrite, d)
      else case countNamespaceEngines (gu_live api) of
             Inl e \<Rightarrow> (Failed (''counting namespace engines during delete: '' @ e), NoWrite, d)
           | Inr bound \<Rightarrow>
               (if bound > 0
               then sync_preset_status ca api d bound False reasonDeletionBlocked (preset_deletion_message d bound)
               else case gu_update api of
                      Written \<Rightarrow> (NoRequeue, FinalizerWrite,
                                  d\<lparr>ep_finalizers := removeAll enginePresetFinalizerName (ep_finalizers d)\<rparr>)
                    | WriteConflict \<Rightarrow> (Requeue, NoWrite, d)
                    | WriteError e \<Rightarrow> (Failed (''removing finalizer: '' @ e), NoWrite, d)))"

definition preset_reconcile ::
  "condition_api \<Rightarrow> guard_api \<Rightarrow> engine_preset \<Rightarrow> ctrl_result \<times> guard_write \<times> engine_preset" where
  "preset_reconcile ca api d =
     (if enginePresetFinalizerName \<notin> set (ep_finalizers d) then
        (case gu_update api of
           Written \<Rightarrow> (Requeue, FinalizerWrite, d\<lparr>ep_finalizers := ep_finalizers d @ [enginePresetFinalizerName]\<rparr>)
         | WriteConflict \<Rightarrow> (Failed ''adding finalizer: conflict'', NoWrite, d)
         | WriteError e \<Rightarrow> (Failed (''adding finalizer: '' @ e), NoWrite, d))
      else if ep_deleting d then preset_reconcileDelete ca api d
      else case countNamespaceEngines (gu_cached api) of
             Inl e \<Rightarrow> (Failed (''counting namespace engines: '' @ e), NoWrite, d)
           | Inr bound \<Rightarrow>
               (case presetReadiness api d of
                  (ready, reason, message) \<Rightarrow> sync_preset_status ca api d bound ready reason message))"

section \<open>The deletion guard\<close>

text \<open>What the two controllers promise: a pass keeps the finalizer of an object that is in use, an object stays in use
  whatever a pass stores, and a pass that wrote the status leaves an object the next pass, given the same answers, does not write.\<close>

locale deletion_guard =
  fixes pass :: "'api \<Rightarrow> 'o \<Rightarrow> ctrl_result \<times> guard_write \<times> 'o"
    and held :: "'o \<Rightarrow> bool" and in_use :: "'api \<Rightarrow> 'o \<Rightarrow> bool"
  assumes keeps: "held x \<Longrightarrow> in_use api x \<Longrightarrow> held (snd (snd (pass api x)))"
    and use_stable: "in_use api (snd (snd (pass api' x))) = in_use api x"
    and settles: "pass api x = (r, StatusWrite, y) \<Longrightarrow> fst (snd (pass api y)) = NoWrite \<and> snd (snd (pass api y)) = y"
begin

lemma run_holds:
  assumes "held x" "list_all (\<lambda>api. in_use api x) apis"
  shows "held (fold (\<lambda>api y. snd (snd (pass api y))) apis x)"
  using assms
proof (induction apis arbitrary: x)
  case (Cons api apis)
  have "list_all (\<lambda>a. in_use a (snd (snd (pass api x)))) apis" using Cons.prems(2) by (simp add: use_stable)
  with Cons show ?case using keeps by simp
qed simp

lemma settled_run:
  assumes "pass api x = (r, StatusWrite, y)"
  shows "fold (\<lambda>api z. snd (snd (pass api z))) (replicate n api) y = y"
  using settles[OF assms] by (induction n) simp_all

end

definition class_in_use :: "guard_api \<Rightarrow> engine_class \<Rightarrow> bool" where
  "class_in_use api class \<longleftrightarrow>
     (case gu_live api of Inl e \<Rightarrow> True | Inr items \<Rightarrow> list_ex (\<lambda>e. sp_engineClassRef e = Some (ec_name class)) items)"

definition preset_in_use :: "guard_api \<Rightarrow> engine_preset \<Rightarrow> bool" where
  "preset_in_use api d \<longleftrightarrow> (case gu_live api of Inl e \<Rightarrow> True | Inr items \<Rightarrow> items \<noteq> [])"

lemma class_sync_keeps [simp]:
  "ec_name (snd (snd (sync_class_status ca api c b rd rs m))) = ec_name c"
  "ec_finalizers (snd (snd (sync_class_status ca api c b rd rs m))) = ec_finalizers c"
  "ec_template (snd (snd (sync_class_status ca api c b rd rs m))) = ec_template c"
  by (simp_all add: sync_class_status_def class_status_def split: write_outcome.split)

lemma preset_sync_keeps [simp]:
  "ep_finalizers (snd (snd (sync_preset_status ca api c b rd rs m))) = ep_finalizers c"
  by (simp_all add: sync_preset_status_def preset_status_def split: write_outcome.split)

lemma class_pass_name [simp]: "ec_name (snd (snd (class_reconcile ca api c))) = ec_name c"
  by (auto simp: class_reconcile_def class_reconcileDelete_def split: write_outcome.splits sum.splits prod.splits)

lemma status_equal_after:
  assumes "condition_api_ok ca"
  shows "engineClassStatusEqual ca (class_status ca c b rd rs m) b rd rs m"
    and "enginePresetStatusEqual ca (preset_status ca d b rd rs m) b rd rs m"
proof -
  have "ca_find ca (ca_set ca x cs) ''Ready'' = Some x" if "cd_type x = ''Ready''" for x cs
    using assms that unfolding condition_api_ok_def by metis
  then show "engineClassStatusEqual ca (class_status ca c b rd rs m) b rd rs m"
    and "enginePresetStatusEqual ca (preset_status ca d b rd rs m) b rd rs m"
    by (simp_all add: engineClassStatusEqual_def class_status_def enginePresetStatusEqual_def preset_status_def
        FireboltEngineClassConditionReady_def FireboltEnginePresetConditionReady_def mk_condition_def)
qed

lemma class_sync_once:
  assumes "condition_api_ok ca" "sync_class_status ca api c b rd rs m = (r, StatusWrite, c')"
  shows "c' = class_status ca c b rd rs m \<and> sync_class_status ca api c' b rd rs m = (RequeueAfter engineClassRequeueAfter, NoWrite, c')"
proof -
  have c': "c' = class_status ca c b rd rs m" using assms(2) by (auto simp: sync_class_status_def split: if_splits write_outcome.splits)
  show ?thesis using status_equal_after(1)[OF assms(1)] by (simp add: c' sync_class_status_def)
qed

lemma preset_sync_once:
  assumes "condition_api_ok ca" "sync_preset_status ca api c b rd rs m = (r, StatusWrite, c')"
  shows "c' = preset_status ca c b rd rs m \<and> sync_preset_status ca api c' b rd rs m = (RequeueAfter enginePresetRequeueAfter, NoWrite, c')"
proof -
  have c': "c' = preset_status ca c b rd rs m" using assms(2) by (auto simp: sync_preset_status_def split: if_splits write_outcome.splits)
  show ?thesis using status_equal_after(2)[OF assms(1)] by (simp add: c' sync_preset_status_def)
qed

lemma class_status_fields [simp]:
  "ec_finalizers (class_status ca c b rd rs m) = ec_finalizers c"
  "ec_deleting (class_status ca c b rd rs m) = ec_deleting c"
  "ec_name (class_status ca c b rd rs m) = ec_name c"
  "ec_namespace (class_status ca c b rd rs m) = ec_namespace c"
  "ec_template (class_status ca c b rd rs m) = ec_template c"
  by (simp_all add: class_status_def)

lemma preset_status_fields [simp]:
  "ep_finalizers (preset_status ca c b rd rs m) = ep_finalizers c"
  "ep_deleting (preset_status ca c b rd rs m) = ep_deleting c"
  "ep_name (preset_status ca c b rd rs m) = ep_name c"
  "ep_namespace (preset_status ca c b rd rs m) = ep_namespace c"
  "ep_template (preset_status ca c b rd rs m) = ep_template c"
  by (simp_all add: preset_status_def)

text \<open>A pass that writes the status has the finalizer, a count and a verdict.\<close>

lemma class_status_write:
  assumes "class_reconcile ca api c = (r, StatusWrite, c')"
  shows "\<exists>b rd rs m. engineClassFinalizerName \<in> set (ec_finalizers c) \<and> sync_class_status ca api c b rd rs m = (r, StatusWrite, c') \<and>
    (if ec_deleting c
     then countBoundEngines (gu_live api) (ec_name c) = Inr b \<and> 0 < b \<and> (rd, rs, m) = (False, reasonDeletionBlocked, class_deletion_message c b)
     else countBoundEngines (gu_cached api) (ec_name c) = Inr b \<and> classReadiness api c = (rd, rs, m))"
proof (cases "ec_deleting c")
  case True
  with assms show ?thesis
    by (auto simp: class_reconcile_def class_reconcileDelete_def split: if_splits write_outcome.splits sum.splits)
next
  case False
  with assms show ?thesis
    by (auto simp: class_reconcile_def split: if_splits write_outcome.splits sum.splits prod.splits)
qed

lemma preset_status_write:
  assumes "preset_reconcile ca api c = (r, StatusWrite, c')"
  shows "\<exists>b rd rs m. enginePresetFinalizerName \<in> set (ep_finalizers c) \<and> sync_preset_status ca api c b rd rs m = (r, StatusWrite, c') \<and>
    (if ep_deleting c
     then countNamespaceEngines (gu_live api) = Inr b \<and> 0 < b \<and> (rd, rs, m) = (False, reasonDeletionBlocked, preset_deletion_message c b)
     else countNamespaceEngines (gu_cached api) = Inr b \<and> presetReadiness api c = (rd, rs, m))"
proof (cases "ep_deleting c")
  case True
  with assms show ?thesis
    by (auto simp: preset_reconcile_def preset_reconcileDelete_def split: if_splits write_outcome.splits sum.splits)
next
  case False
  with assms show ?thesis
    by (auto simp: preset_reconcile_def split: if_splits write_outcome.splits sum.splits prod.splits)
qed

lemma class_settles:
  assumes "condition_api_ok ca" "class_reconcile ca api c = (r, StatusWrite, c')"
  shows "class_reconcile ca api c' = (RequeueAfter engineClassRequeueAfter, NoWrite, c')"
proof -
  obtain b rd rs m where w: "engineClassFinalizerName \<in> set (ec_finalizers c)" "sync_class_status ca api c b rd rs m = (r, StatusWrite, c')"
    and d: "if ec_deleting c
     then countBoundEngines (gu_live api) (ec_name c) = Inr b \<and> 0 < b \<and> (rd, rs, m) = (False, reasonDeletionBlocked, class_deletion_message c b)
     else countBoundEngines (gu_cached api) (ec_name c) = Inr b \<and> classReadiness api c = (rd, rs, m)"
    using class_status_write[OF assms(2)] by blast
  note o = class_sync_once[OF assms(1) w(2)]
  have r: "classReadiness api (class_status ca c b rd rs m) = classReadiness api c" "class_deletion_message (class_status ca c b rd rs m) b = class_deletion_message c b"
    by (simp_all add: classReadiness_def class_deletion_message_def)
  show ?thesis
    by (cases "ec_deleting c") (use w o r d in \<open>auto simp: class_reconcile_def class_reconcileDelete_def\<close>)
qed

lemma preset_settles:
  assumes "condition_api_ok ca" "preset_reconcile ca api c = (r, StatusWrite, c')"
  shows "preset_reconcile ca api c' = (RequeueAfter enginePresetRequeueAfter, NoWrite, c')"
proof -
  obtain b rd rs m where w: "enginePresetFinalizerName \<in> set (ep_finalizers c)" "sync_preset_status ca api c b rd rs m = (r, StatusWrite, c')"
    and d: "if ep_deleting c
     then countNamespaceEngines (gu_live api) = Inr b \<and> 0 < b \<and> (rd, rs, m) = (False, reasonDeletionBlocked, preset_deletion_message c b)
     else countNamespaceEngines (gu_cached api) = Inr b \<and> presetReadiness api c = (rd, rs, m)"
    using preset_status_write[OF assms(2)] by blast
  note o = preset_sync_once[OF assms(1) w(2)]
  have r: "presetReadiness api (preset_status ca c b rd rs m) = presetReadiness api c" "preset_deletion_message (preset_status ca c b rd rs m) b = preset_deletion_message c b"
    by (simp_all add: presetReadiness_def preset_deletion_message_def)
  show ?thesis
    by (cases "ep_deleting c") (use w o r d in \<open>auto simp: preset_reconcile_def preset_reconcileDelete_def\<close>)
qed

lemma class_keeps:
  assumes "engineClassFinalizerName \<in> set (ec_finalizers c)" "class_in_use api c"
  shows "engineClassFinalizerName \<in> set (ec_finalizers (snd (snd (class_reconcile ca api c))))"
  using assms
  by (auto simp: class_reconcile_def class_reconcileDelete_def class_in_use_def countBoundEngines_def list_ex_iff filter_empty_conv
      split: sum.splits prod.splits write_outcome.splits)

lemma preset_keeps:
  assumes "enginePresetFinalizerName \<in> set (ep_finalizers c)" "preset_in_use api c"
  shows "enginePresetFinalizerName \<in> set (ep_finalizers (snd (snd (preset_reconcile ca api c))))"
  using assms
  by (auto simp: preset_reconcile_def preset_reconcileDelete_def preset_in_use_def countNamespaceEngines_def
      split: sum.splits prod.splits write_outcome.splits)

lemma class_guard_laws:
  assumes "condition_api_ok ca"
  shows "deletion_guard (class_reconcile ca) (\<lambda>c. engineClassFinalizerName \<in> set (ec_finalizers c)) class_in_use"
proof
  show "class_in_use api (snd (snd (class_reconcile ca api' c))) = class_in_use api c" for api api' c
    by (simp add: class_in_use_def split: sum.split)
qed (use class_keeps class_settles[OF assms] in auto)

lemma preset_guard_laws:
  assumes "condition_api_ok ca"
  shows "deletion_guard (preset_reconcile ca) (\<lambda>c. enginePresetFinalizerName \<in> set (ep_finalizers c)) preset_in_use"
proof
  show "preset_in_use api (snd (snd (preset_reconcile ca api' c))) = preset_in_use api c" for api api' c
    by (simp add: preset_in_use_def)
qed (use preset_keeps preset_settles[OF assms] in auto)

interpretation class_guard: deletion_guard "class_reconcile list_conditions"
  "\<lambda>c. engineClassFinalizerName \<in> set (ec_finalizers c)" class_in_use
  by (rule class_guard_laws[OF list_conditions_ok])

interpretation preset_guard: deletion_guard "preset_reconcile list_conditions"
  "\<lambda>c. enginePresetFinalizerName \<in> set (ep_finalizers c)" preset_in_use
  by (rule preset_guard_laws[OF list_conditions_ok])

section \<open>The verdict an engine acts on\<close>

text \<open>A class whose Ready condition tells an engine what the allowlist says of its template now.\<close>

definition class_stamped :: "condition_api \<Rightarrow> engine_class \<Rightarrow> bool" where
  "class_stamped ca c \<longleftrightarrow>
     classReadyBlocksRender (ca_find ca (ec_conditions c) FireboltEngineClassConditionReady)
       = (ValidateOperatorOwnedPodTemplate (Some (ec_template c)) ''spec.template'' \<noteq> [])"

lemma find_class_status:
  assumes "condition_api_ok ca"
  shows "ca_find ca (ec_conditions (class_status ca c b rd rs m)) FireboltEngineClassConditionReady
     = Some (mk_condition FireboltEngineClassConditionReady rd rs m (ec_generation c))"
proof -
  have "ca_find ca (ca_set ca x cs) (cd_type x) = Some x" for x cs using assms by (simp add: condition_api_ok_def)
  from this[of "mk_condition FireboltEngineClassConditionReady rd rs m (ec_generation c)" "ec_conditions c"]
  show ?thesis by (simp add: class_status_def mk_condition_def)
qed

lemma class_pass_stamps:
  assumes "condition_api_ok ca" "\<not> ec_deleting c" "class_reconcile ca api c = (r, StatusWrite, c')"
  shows "class_stamped ca c'"
proof -
  obtain b rd rs m where w: "sync_class_status ca api c b rd rs m = (r, StatusWrite, c')" and rd: "classReadiness api c = (rd, rs, m)"
    using class_status_write[OF assms(3)] assms(2) by auto
  have c': "c' = class_status ca c b rd rs m" using class_sync_once[OF assms(1) w] by simp
  show ?thesis using rd
    by (auto simp: c' class_stamped_def find_class_status[OF assms(1)] classReadyBlocksRender_def mk_condition_def classReadiness_def
        Let_def split: if_splits)
qed

lemma class_held_delete_found:
  assumes "condition_api_ok ca" "ec_deleting c" "class_reconcile ca api c = (r, StatusWrite, c')"
  shows "\<not> classReadyBlocksRender (ca_find ca (ec_conditions c') FireboltEngineClassConditionReady)"
proof -
  obtain b where "sync_class_status ca api c b False reasonDeletionBlocked (class_deletion_message c b) = (r, StatusWrite, c')"
    using class_status_write[OF assms(3)] assms(2) by auto
  from class_sync_once[OF assms(1) this] show ?thesis
    by (simp add: find_class_status[OF assms(1)] classReadyBlocksRender_def mk_condition_def reasonDeletionBlocked_def
        reasonOperatorOwnedFieldSet_def)
qed

section \<open>Holding and releasing\<close>

text \<open>Once no engine uses them, the guards are released.\<close>

lemma unused_class_is_released:
  assumes "ec_deleting c" "gu_live api = Inr items" "\<not> class_in_use api c" "gu_update api = Written"
    "engineClassFinalizerName \<in> set (ec_finalizers c)"
  shows "class_reconcile ca api c = (NoRequeue, FinalizerWrite, c\<lparr>ec_finalizers := removeAll engineClassFinalizerName (ec_finalizers c)\<rparr>)"
  using assms by (auto simp: class_reconcile_def class_reconcileDelete_def countBoundEngines_def class_in_use_def list_ex_iff)

lemma unused_preset_is_released:
  assumes "ep_deleting d" "gu_live api = Inr []" "gu_update api = Written" "enginePresetFinalizerName \<in> set (ep_finalizers d)"
  shows "preset_reconcile ca api d = (NoRequeue, FinalizerWrite, d\<lparr>ep_finalizers := removeAll enginePresetFinalizerName (ep_finalizers d)\<rparr>)"
  using assms by (simp add: preset_reconcile_def preset_reconcileDelete_def countNamespaceEngines_def)

text \<open>An object in deletion that has no finalizer of the operator's gets one again on the next pass: the branch of the
  deletion that would let it go is not reached.\<close>

lemma released_class_is_guarded_again:
  assumes "engineClassFinalizerName \<notin> set (ec_finalizers c)" "gu_update api = Written"
  shows "class_reconcile ca api c = (Requeue, FinalizerWrite, c\<lparr>ec_finalizers := ec_finalizers c @ [engineClassFinalizerName]\<rparr>)"
  using assms by (simp add: class_reconcile_def)

text \<open>C36. The deletion guard of a class: over any sequence of passes, whatever they read from the cache and whichever
  writes fail, a class keeps its finalizer as long as at each pass the live read of the engines fails or shows an engine
  that names the class. (A pass that finds none may release it.)\<close>

theorem bound_class_keeps_its_guard:
  assumes "condition_api_ok ca" "engineClassFinalizerName \<in> set (ec_finalizers c)" "list_all (\<lambda>api. class_in_use api c) apis"
  shows "engineClassFinalizerName \<in> set (ec_finalizers (fold (\<lambda>api x. snd (snd (class_reconcile ca api x))) apis c))"
  using deletion_guard.run_holds[OF class_guard_laws[OF assms(1)], OF assms(2,3)] .

text \<open>A class in deletion that one engine still names, its template with a container that mounts the engine's own
  serving key.\<close>

definition held_class :: engine_class where
  "held_class = \<lparr>ec_name = ''c'', ec_namespace = ''n'', ec_generation = 2, ec_finalizers = [engineClassFinalizerName], ec_deleting = True,
     ec_template = empty_pod_template\<lparr>pt_spec := empty_pod_spec\<lparr>p_containers := Some [empty_container\<lparr>c_name := ''spy'',
       c_volumeMounts := Some [mk_mount ''tls-engine'' ''/keys'' True]\<rparr>]\<rparr>\<rparr>,
     ec_uiSidecar = None, ec_storage = empty_storage, ec_customEngineConfig = None, ec_rollout = [], ec_drainCheckEnabled = None,
     ec_drainCheckInterval = None, ec_autoStop = None, ec_boundEngines = 1, ec_observedGeneration = 1, ec_conditions = []\<rparr>"

definition held_engine :: engine_spec where
  "held_engine = zero_engine_spec\<lparr>sp_instanceRef := ''i'', sp_engineClassRef := Some ''c'', sp_replicas := 1\<rparr>"

definition held_api :: guard_api where
  "held_api = \<lparr>gu_cached = Inr [held_engine], gu_live = Inr [held_engine], gu_update = Written, gu_updateStatus = Written,
     gu_aggregate = (\<lambda>_. [])\<rparr>"

theorem bound_class_keeps_its_guard_witness:
  "engineClassFinalizerName \<in> set (ec_finalizers (fold (\<lambda>api x. snd (snd (class_reconcile list_conditions api x)))
     [held_api, held_api\<lparr>gu_live := Inl ''timeout''\<rparr>, held_api\<lparr>gu_cached := Inr []\<rparr>] held_class))"
  by (rule bound_class_keeps_its_guard[OF list_conditions_ok]) code_simp+

end
