(* ===== verification/Template_Safety.thy ===== *)
theory Template_Safety
  imports Class_Controller Engine_Build
begin

text \<open>
  What the checks of pod templates are for: in the pod of an engine only the engine container reads the Secrets the
  operator manages. The rules of the allowlist and of the references to Secrets are turned into what they say of an
  accepted template, the Preset overlay is shown to keep it, and the lookups to vouch for it. The one gap, a class whose
  deletion is held, is shown as well.
\<close>

section \<open>What the checks accept\<close>

text \<open>A container of the user that touches no operator Secret: it mounts no Secret-backed volume of the operator.\<close>

definition mounts_ok :: "pod_template_rules \<Rightarrow> container \<Rightarrow> bool" where
  "mounts_ok rules c \<longleftrightarrow>
     (\<forall>m\<in>set (sitems (c_volumeMounts c)). \<not> isReservedVolumeMountName (vm_name m) (tr_secretBackedVolumeMountNames rules))"

definition env_ok :: "(string \<Rightarrow> bool) \<Rightarrow> container \<Rightarrow> bool" where
  "env_ok isProtected c \<longleftrightarrow> (\<forall>n\<in>set (ContainerSecretRefs c). \<not> isProtected n)"

lemma at_each_all: "at_each f base xs = [] \<Longrightarrow> x \<in> set xs \<Longrightarrow> \<exists>p. f p x = []"
  by (auto simp: at_each_empty in_set_conv_nth)

lemma at_each_forbid: "(\<And>p x. f p x = [] \<longleftrightarrow> \<not> P x) \<Longrightarrow> at_each f base xs = [] \<longleftrightarrow> (\<forall>x\<in>set xs. \<not> P x)"
  by (simp add: at_each_empty all_set_conv_all_nth)

lemma reserved_mounts_ok: "validateReservedVolumeMounts c base rules = [] \<longleftrightarrow> mounts_ok rules c"
  by (simp add: validateReservedVolumeMounts_def mounts_ok_def
      at_each_forbid[where P = "\<lambda>m. isReservedVolumeMountName (vm_name m) (tr_secretBackedVolumeMountNames rules)"])

lemma no_secret_env: "ValidateNoSecretRefEnv cs base P = [] \<longleftrightarrow> (\<forall>c\<in>set cs. env_ok P c)"
  using at_each_forbid[where P = "\<lambda>c. \<not> env_ok P c" and xs = cs and base = base and f = "\<lambda>p c. map (\<lambda>n. Forbidden p) (filter P (ContainerSecretRefs c))"]
  by (auto simp: ValidateNoSecretRefEnv_def env_ok_def filter_empty_conv)

lemma no_secret_volumes:
  "ValidateNoSecretAliasVolumes vs base P = [] \<longleftrightarrow> (\<forall>v\<in>set vs. \<not> aliasesProtectedSecret v P)"
  using at_each_forbid[where P = "\<lambda>v. aliasesProtectedSecret v P" and xs = vs and base = base and f = "\<lambda>p v. map (\<lambda>n. Forbidden p) (filter P (VolumeSecretRefs v))"]
  by (auto simp: ValidateNoSecretAliasVolumes_def aliasesProtectedSecret_def filter_empty_conv list_ex_iff)

lemma containers_ok:
  assumes "containers_loop rules base i seen cs = []" "c \<in> set cs" "c_name c \<noteq> tr_primaryContainerName rules"
  shows "mounts_ok rules c \<and> c_name c \<notin> set (tr_reservedContainerNames rules)"
  using assms
proof (induction rules base i seen cs rule: containers_loop.induct)
  case (2 rules base i seen d cs)
  then show ?case by (auto simp: Let_def reserved_mounts_ok split: if_splits)
qed simp

lemma one_primary:
  "containers_loop rules base i seen cs = [] \<Longrightarrow>
     length (filter (\<lambda>c. c_name c = tr_primaryContainerName rules) cs) \<le> (if seen then 0 else 1)"
  by (induction rules base i seen cs rule: containers_loop.induct) (auto simp: Let_def split: if_splits)

lemma inits_ok:
  assumes "validateInitContainersAgainstRules cs base rules = []" "c \<in> set cs"
  shows "mounts_ok rules c \<and> c_name c \<notin> set (tr_primaryContainerName rules # tr_reservedContainerNames rules)"
  using at_each_all[OF assms[unfolded validateInitContainersAgainstRules_def]]
  by (auto simp: reserved_mounts_ok split: if_splits)

section \<open>Reaching a Secret\<close>

text \<open>The Secrets a container of a pod reads: through its environment, or by mounting a volume that carries one.\<close>

definition container_reads :: "volume list \<Rightarrow> container \<Rightarrow> string \<Rightarrow> bool" where
  "container_reads vols c n \<longleftrightarrow>
     n \<in> set (ContainerSecretRefs c)
     \<or> (\<exists>m\<in>set (sitems (c_volumeMounts c)). \<exists>v\<in>set vols. v_name v = vm_name m \<and> n \<in> set (VolumeSecretRefs v))"

text \<open>What a pod must satisfy so that only the operator's own containers read its Secrets: a volume that carries a
  protected Secret is one of the operator's, those have reserved names, and no other container mounts a reserved name
  or reads a protected Secret into its environment.\<close>

locale secret_screen =
  fixes isProtected :: "string \<Rightarrow> bool" and reserved :: "string \<Rightarrow> bool"
    and operator vols :: "volume list" and others :: "container list"
  assumes aliases_own: "v \<in> set vols \<Longrightarrow> aliasesProtectedSecret v isProtected \<Longrightarrow> v \<in> set operator"
    and own_reserved: "v \<in> set operator \<Longrightarrow> aliasesProtectedSecret v isProtected \<Longrightarrow> reserved (v_name v)"
    and others_mount: "c \<in> set others \<Longrightarrow> m \<in> set (sitems (c_volumeMounts c)) \<Longrightarrow> \<not> reserved (vm_name m)"
    and others_env: "c \<in> set others \<Longrightarrow> env_ok isProtected c"
begin

lemma others_read_nothing:
  assumes "c \<in> set others" "container_reads vols c n"
  shows "\<not> isProtected n"
proof
  assume p: "isProtected n"
  have "n \<notin> set (ContainerSecretRefs c)" using others_env[OF assms(1)] p by (auto simp: env_ok_def)
  with assms(2) obtain m v where m: "m \<in> set (sitems (c_volumeMounts c))" and v: "v \<in> set vols" "v_name v = vm_name m"
    and n: "n \<in> set (VolumeSecretRefs v)" by (auto simp: container_reads_def)
  have al: "aliasesProtectedSecret v isProtected" using n p by (auto simp: aliasesProtectedSecret_def list_ex_iff)
  have "reserved (v_name v)" by (rule own_reserved[OF aliases_own[OF v(1) al] al])
  then show False using others_mount[OF assms(1) m] v(2) by simp
qed

end

section \<open>The engine pod\<close>

abbreviation engine_rules :: pod_template_rules where "engine_rules \<equiv> FireboltEngineClassPodTemplateRules"

definition engine_secret_volume :: "string \<Rightarrow> bool" where
  "engine_secret_volume name \<longleftrightarrow> isReservedVolumeMountName name operatorOwnedEngineSecretVolumeNames"

lemma operator_volume_reserved:
  assumes "v \<in> set (operator_volumes spec name gen info ci)" "aliasesProtectedSecret v P"
  shows "engine_secret_volume (v_name v)"
proof -
  have plain: "\<not> aliasesProtectedSecret (empty_volume\<lparr>v_name := x, v_configMap := y\<rparr>) P"
    "\<not> aliasesProtectedSecret (empty_volume\<lparr>v_name := x, v_emptyDir := z\<rparr>) P"
    "\<not> aliasesProtectedSecret (empty_volume\<lparr>v_name := x, v_hostPath := h\<rparr>) P" for x y z h
    by (simp_all add: aliasesProtectedSecret_def VolumeSecretRefs_def empty_volume_def secret_ref_def)
  show ?thesis using assms
    by (auto simp: operator_volumes_def plain data_volume_def buildAuthVolumes_def buildEngineTLSVolumes_def secret_volume_def
        engine_secret_volume_def isReservedVolumeMountName_def isReservedKey_def operatorOwnedEngineSecretVolumeNames_def
        authSigningVolumeName_def split: storage_backend.splits option.splits)
qed

lemma pod_volume_screened:
  assumes "v \<in> set (pod_volumes spec name gen info ci)" "aliasesProtectedSecret v (engineProtectedSecret info)"
  shows "v \<in> set (operator_volumes spec name gen info ci)"
proof -
  have "\<not> aliasesProtectedSecret buildEngineWebWritableVolume P" for P
    by (simp add: buildEngineWebWritableVolume_def aliasesProtectedSecret_def VolumeSecretRefs_def empty_volume_def secret_ref_def)
  then show ?thesis using assms
    by (auto simp: pod_volumes_def appendUserPodVolumes_def appendUserVolumesFrom_def Let_def split: option.splits if_splits)
qed

text \<open>Templates whose containers are secretless next to the engine.\<close>

definition secretless :: "(string \<Rightarrow> bool) \<Rightarrow> container \<Rightarrow> bool" where
  "secretless P c \<longleftrightarrow> mounts_ok engine_rules c \<and> env_ok P c"

definition template_clean :: "(string \<Rightarrow> bool) \<Rightarrow> pod_template option \<Rightarrow> bool" where
  "template_clean P t \<longleftrightarrow>
     (case t of
        None \<Rightarrow> True
      | Some t \<Rightarrow> (\<forall>c\<in>set (sitems (p_containers (pt_spec t))). env_ok P c \<and> (c_name c \<noteq> EngineContainerName \<longrightarrow> mounts_ok engine_rules c))
          \<and> (\<forall>c\<in>set (sitems (p_initContainers (pt_spec t))). secretless P c))"

lemma engine_rules_simps:
  "tr_primaryContainerName engine_rules = EngineContainerName"
  "tr_secretBackedVolumeMountNames engine_rules = operatorOwnedEngineSecretVolumeNames"
  "tr_reservedContainerNames engine_rules = [EngineWebContainerName]"
  by (simp_all add: FireboltEngineClassPodTemplateRules_def)

lemma accepted_clean:
  assumes "ValidateOperatorOwnedPodTemplate t base = []"
    and "\<forall>x. t = Some x \<longrightarrow> ValidateNoSecretRefEnv (sitems (p_containers (pt_spec x))) b1 P = []
                              \<and> ValidateNoSecretRefEnv (sitems (p_initContainers (pt_spec x))) b2 P = []"
  shows "template_clean P t"
proof (cases t)
  case (Some x)
  have env: "\<forall>c\<in>set (sitems (p_containers (pt_spec x))). env_ok P c" "\<forall>c\<in>set (sitems (p_initContainers (pt_spec x))). env_ok P c"
    using assms(2) Some by (auto simp: no_secret_env)
  obtain b3 b4 where "containers_loop engine_rules b3 0 False (sitems (p_containers (pt_spec x))) = []"
    and "validateInitContainersAgainstRules (sitems (p_initContainers (pt_spec x))) b4 engine_rules = []"
    using assms(1) Some
    by (auto simp: ValidateOperatorOwnedPodTemplate_def ValidatePodTemplate_def validateContainersAgainstRules_def Let_def)
  then show ?thesis using env containers_ok inits_ok Some
    by (auto simp: template_clean_def secretless_def engine_rules_simps)
qed (simp add: template_clean_def)

lemma secretless_defaults [simp]:
  "secretless P (applyContainerAPIServerDefaults env c) = secretless P c"
  "env_ok P (applyContainerAPIServerDefaults env c) = env_ok P c"
  by (simp_all add: secretless_def mounts_ok_def env_ok_def ContainerSecretRefs_def applyContainerAPIServerDefaults_def)

lemma template_clean_none [simp]: "template_clean P None"
  by (simp add: template_clean_def)

lemma refs_envs:
  "set (ContainerSecretRefs c) =
     (\<Union>e\<in>set (sitems (c_env c)). set (secret_ref (map_option vs_secretKeyRef (ev_valueFrom e))))
     \<union> (\<Union>e\<in>set (sitems (c_envFrom c)). set (secret_ref (Some (ef_secretRef e))))"
  by (simp add: ContainerSecretRefs_def)

lemma in_template_env:
  assumes "template_clean P t" "EngineContainerInTemplate t = Some c"
  shows "env_ok P c"
  using assms by (auto simp: template_clean_def EngineContainerInTemplate_def find_Some_iff split: option.splits)

lemma classEngineContainer_template: "classEngineContainer ci = EngineContainerInTemplate (class_template ci)"
  by (simp add: classEngineContainer_def EngineContainerInTemplate_def)

lemma set_nil_if_empty [simp]: "sitems (nil_if_empty xs) = xs"
  by (simp add: nil_if_empty_def)

lemma sitems_class_then_engine [simp]: "sitems (class_then_engine a b) = sitems a @ sitems b"
  by (simp add: class_then_engine_def)

lemma merged_env_ok:
  assumes "template_clean P (class_template ci)" "template_clean P (sp_template spec)"
    and "set (sitems (c_env c)) \<subseteq> set (sitems (effectiveEngineEnv spec ci)) \<union> {e. ev_valueFrom e = None \<or> map_option vs_secretKeyRef (ev_valueFrom e) = Some None}"
    and "c_envFrom c = effectiveEngineEnvFrom spec ci"
  shows "env_ok P c"
proof -
  have cl: "classEngineContainer ci = Some d \<Longrightarrow> env_ok P d" and en: "engineSpecContainer spec = Some d \<Longrightarrow> env_ok P d" for d
    using in_template_env assms(1,2) by (simp_all add: classEngineContainer_template engineSpecContainer_def)
  have e: "\<not> P n" if "e \<in> set (sitems (effectiveEngineEnv spec ci))" "n \<in> set (secret_ref (map_option vs_secretKeyRef (ev_valueFrom e)))" for e n
    using that cl en by (auto simp: effectiveEngineEnv_def class_field_def spec_field_def env_ok_def refs_envs split: bind_splits)
  have f: "\<not> P n" if "e \<in> set (sitems (effectiveEngineEnvFrom spec ci))" "n \<in> set (secret_ref (Some (ef_secretRef e)))" for e n
    using that cl en by (auto simp: effectiveEngineEnvFrom_def class_field_def spec_field_def env_ok_def refs_envs split: bind_splits)
  have "\<not> P n" if "e \<in> set (sitems (c_env c))" "n \<in> set (secret_ref (map_option vs_secretKeyRef (ev_valueFrom e)))" for e n
  proof -
    have "secret_ref (map_option vs_secretKeyRef (ev_valueFrom e)) \<noteq> []" using that(2) by auto
    then have "\<not> (ev_valueFrom e = None \<or> map_option vs_secretKeyRef (ev_valueFrom e) = Some None)" by (auto simp: secret_ref_def split: option.splits)
    then have "e \<in> set (sitems (effectiveEngineEnv spec ci))" using assms(3) that(1) by blast
    then show ?thesis using e that(2) by blast
  qed
  then show ?thesis using f assms(4) by (auto simp: env_ok_def refs_envs)
qed

lemma sidecars_secretless:
  assumes "template_clean P (class_template ci)" "template_clean P (sp_template spec)" "c \<in> set (sitems (effectiveSidecars env spec ci))"
  shows "secretless P c"
proof -
  have own: "sitems (p_containers (engine_pod spec)) = (case sp_template spec of Some t \<Rightarrow> sitems (p_containers (pt_spec t)) | None \<Rightarrow> [])"
    by (simp add: engine_pod_def engineTemplate_def empty_pod_template_def empty_pod_spec_def split: option.split)
  obtain d t where "c = applyContainerAPIServerDefaults env d" "c_name d \<noteq> EngineContainerName" "d \<in> set (sitems (p_containers (pt_spec t)))"
    "class_template ci = Some t \<or> sp_template spec = Some t"
    using assms(3) by (auto simp: effectiveSidecars_def appendSidecars_def own split: option.splits)
  then show ?thesis using assms(1,2) by (auto simp: template_clean_def) (auto simp: secretless_def)
qed

lemma inits_secretless:
  assumes "template_clean P (class_template ci)" "template_clean P (sp_template spec)" "c \<in> set (sitems (effectiveInitContainers env spec ci))"
  shows "secretless P c"
  using assms by (auto simp: effectiveInitContainers_def engineClassInitContainers_def engineInitContainers_def template_clean_def
      engine_pod_def engineTemplate_def empty_pod_template_def empty_pod_spec_def split: option.splits)

lemma sidecar_not_engine:
  "c \<in> set (sitems (effectiveSidecars env spec ci)) \<Longrightarrow> c_name c \<noteq> EngineContainerName"
  by (auto simp: effectiveSidecars_def appendSidecars_def)

lemma overlay_clean:
  assumes "template_clean P (class_template class)" "template_clean P (Option.bind preset pi_template)"
  shows "template_clean P (class_template (overlayPresetOnClass env preset class))"
proof (cases preset)
  case (Some d)
  define fake where "fake = presetAsEngineSpec d"
  have fk: "template_clean P (sp_template fake)" using assms(2) Some by (simp add: fake_def presetAsEngineSpec_def)
  have "class_template (overlayPresetOnClass env preset class) = Some (overlayPresetPodTemplate env fake class)"
    by (simp add: overlayPresetOnClass_def Some fake_def Let_def class_template_def)
  moreover have "env_ok P (overlayPresetEngineContainer fake class)"
    by (rule merged_env_ok[OF assms(1) fk]) (auto simp: overlayPresetEngineContainer_def)
  moreover have "c_name (overlayPresetEngineContainer fake class) = EngineContainerName"
    by (simp add: overlayPresetEngineContainer_def)
  ultimately show ?thesis
    using sidecars_secretless[OF assms(1) fk] inits_secretless[OF assms(1) fk]
    by (auto simp: template_clean_def overlayPresetPodTemplate_def overlayPresetPodSpec_def Let_def secretless_def)
qed (use assms in \<open>simp add: overlayPresetOnClass_def\<close>)

lemma web_sidecar_secretless: "secretless P (buildEngineWebSidecar env pull tls)"
  by (auto simp: buildEngineWebSidecar_def secretless_def mounts_ok_def env_ok_def ContainerSecretRefs_def empty_container_def mk_mount_def
      applyContainerAPIServerDefaults_def secret_ref_def engine_rules_simps isReservedVolumeMountName_def isReservedKey_def
      operatorOwnedEngineSecretVolumeNames_def authSigningVolumeName_def EngineWebWritableVolumeName_def
      has_prefix_def EngineAuthSigningVolumeNamePrefix_def EngineAuthAdminVolumeName_def EngineTLSVolumeName_def)

section \<open>The lookups vouch for the templates\<close>

lemma class_found_accepted:
  assumes "resolveFireboltEngineClassInfo env ca api ns spec = ClassFound (Some ci)"
    and "\<And>ref c. sp_engineClassRef spec = Some ref \<Longrightarrow> lk_class api ref = Inr (Some c) \<Longrightarrow> class_stamped ca c"
  shows "\<exists>t. ci_template ci = Some t \<and> ValidateOperatorOwnedPodTemplate (Some t) ''spec.template'' = []"
  using assms
  by (auto simp: resolveFireboltEngineClassInfo_def resolveClusterFireboltEngineClassInfo_def clusterClassLiveSpecErrors_def Let_def
      class_stamped_def newFireboltEngineClassInfo_def newClusterFireboltEngineClassInfo_def split: option.splits if_splits sum.splits)

lemma preset_found_accepted:
  assumes "resolveFireboltEnginePresetInfo env ca api ns spec = PresetFound (Some d)"
  shows "\<exists>t. pi_template d = Some t \<and> ValidateOperatorOwnedPodTemplate (Some t) ''spec.template'' = []"
  using assms
  by (auto simp: resolveFireboltEnginePresetInfo_def Let_def newFireboltEnginePresetInfo_def split: option.splits if_splits sum.splits)

lemma gated_templates:
  assumes "validateEngineTemplates spec class preset info = []"
    and "\<And>t. class_template class = Some t \<Longrightarrow> ValidateOperatorOwnedPodTemplate (Some t) ''spec.template'' = []"
    and "\<And>t. Option.bind preset pi_template = Some t \<Longrightarrow> ValidateOperatorOwnedPodTemplate (Some t) ''spec.template'' = []"
  shows "template_clean (engineProtectedSecret info) (sp_template spec)"
    and "template_clean (engineProtectedSecret info) (class_template class)"
    and "template_clean (engineProtectedSecret info) (Option.bind preset pi_template)"
proof -
  let ?P = "engineProtectedSecret info"
  have env: "ValidateNoSecretRefEnv (sitems (p_containers (pt_spec t))) (path_child p ''containers'') ?P = []
      \<and> ValidateNoSecretRefEnv (sitems (p_initContainers (pt_spec t))) (path_child p ''initContainers'') ?P = []"
    if "(t, p) \<in> set (engineTemplates spec class preset)" for t p
    using assms(1) that by (auto simp: validateEngineTemplates_def validateEngineSecretEnvRefs_def)
  have acc: "template_clean ?P (Some t)" if "(t, p) \<in> set (engineTemplates spec class preset)"
    "ValidateOperatorOwnedPodTemplate (Some t) base = []" for t p base
    using accepted_clean[OF that(2)] env[OF that(1)] by simp
  have own: "sp_template spec = Some t \<Longrightarrow> ValidateOperatorOwnedPodTemplate (Some t) ''spec.template'' = []" for t
    using assms(1) by (simp add: validateEngineTemplates_def validateEngineTemplate_def)
  show "template_clean ?P (sp_template spec)"
    using acc own by (cases "sp_template spec") (force simp: engineTemplates_def)+
  show "template_clean ?P (class_template class)"
    using acc assms(2) by (cases "class_template class") (force simp: engineTemplates_def)+
  show "template_clean ?P (Option.bind preset pi_template)"
  proof (cases "Option.bind preset pi_template")
    case (Some t)
    then obtain d where "preset = Some d" "pi_template d = Some t" by (cases preset) auto
    then show ?thesis using acc[OF _ assms(3)] Some by (force simp: engineTemplates_def)
  qed simp
qed

lemma engine_screen:
  assumes "template_clean (engineProtectedSecret info) (sp_template spec)" "template_clean (engineProtectedSecret info) (class_template ci)"
  shows "secret_screen (engineProtectedSecret info) engine_secret_volume (operator_volumes spec name gen info ci)
    (pod_volumes spec name gen info ci)
    (sitems (effectiveInitContainers env spec ci) @ sitems (effectiveSidecarsWithUI env spec info ci))"
proof -
  have h: "secretless (engineProtectedSecret info) c"
    if "c \<in> set (sitems (effectiveInitContainers env spec ci) @ sitems (effectiveSidecarsWithUI env spec info ci))" for c
    using that inits_secretless[OF assms(2,1)] sidecars_secretless[OF assms(2,1)] web_sidecar_secretless
    by (auto simp: effectiveSidecarsWithUI_def Let_def split: if_splits)
  show ?thesis
  proof
    fix c m assume "c \<in> set (sitems (effectiveInitContainers env spec ci) @ sitems (effectiveSidecarsWithUI env spec info ci))"
      "m \<in> set (sitems (c_volumeMounts c))"
    then show "\<not> engine_secret_volume (vm_name m)"
      using h by (fastforce simp: secretless_def mounts_ok_def engine_rules_simps engine_secret_volume_def)
  qed (use h operator_volume_reserved pod_volume_screened in \<open>auto simp: secretless_def\<close>)
qed

lemma engine_container_env_ok:
  assumes "template_clean P (sp_template spec)" "template_clean P (class_template ci)"
  shows "env_ok P (engine_container env script spec info ci)"
  by (rule merged_env_ok[OF assms(2,1)])
     (auto simp: engine_container_def Let_def buildEngineContainerEnv_def split: prod.split)

lemma resolved_info_protects:
  assumes "resolveInstanceInfo env ca api getI ns spec name gen = Inr info" "getI (sp_instanceRef spec) = Inr (Some inst)"
  shows "engineProtectedSecret info = instanceProtectedSecret inst"
  using assms
  by (auto simp: resolveInstanceInfo_def and_then_def engineProtectedSecret_def instanceProtectedSecret_def fun_eq_iff
      split: sum.splits if_splits prod.splits)

definition other_containers ::
  "operator_env \<Rightarrow> engine_spec \<Rightarrow> instance_info \<Rightarrow> class_info option \<Rightarrow> container list" where
  "other_containers env spec info ci =
     sitems (effectiveInitContainers env spec ci) @ sitems (effectiveSidecarsWithUI env spec info ci)"

definition screened_containers ::
  "operator_env \<Rightarrow> engine_spec \<Rightarrow> instance_info \<Rightarrow> class_info option \<Rightarrow> container list" where
  "screened_containers env spec info ci =
     (if template_clean (engineProtectedSecret info) (sp_template spec) \<and> template_clean (engineProtectedSecret info) (class_template ci)
      then other_containers env spec info ci else [])"

interpretation engine_pod_screen: secret_screen "engineProtectedSecret info" engine_secret_volume
  "operator_volumes spec name gen info ci" "pod_volumes spec name gen info ci" "screened_containers env spec info ci"
  for env spec name gen info ci
proof (cases "template_clean (engineProtectedSecret info) (sp_template spec) \<and> template_clean (engineProtectedSecret info) (class_template ci)")
  case True
  then show "secret_screen (engineProtectedSecret info) engine_secret_volume (operator_volumes spec name gen info ci)
    (pod_volumes spec name gen info ci) (screened_containers env spec info ci)"
    using engine_screen by (simp add: screened_containers_def other_containers_def)
next
  case False
  then show "secret_screen (engineProtectedSecret info) engine_secret_volume (operator_volumes spec name gen info ci)
    (pod_volumes spec name gen info ci) (screened_containers env spec info ci)"
    by unfold_locales (use operator_volume_reserved pod_volume_screened in \<open>auto simp: screened_containers_def\<close>)
qed

lemma pod_others:
  "set (sitems (p_initContainers (engine_pod_spec env script spec name gen info ci)))
     \<union> set (tl (sitems (p_containers (engine_pod_spec env script spec name gen info ci)))) = set (other_containers env spec info ci)"
  by (simp add: engine_pod_spec_def other_containers_def)

lemma clean_pod:
  fixes env script spec name gen info ci
  defines "pod \<equiv> engine_pod_spec env script spec name gen info ci"
  assumes "template_clean (engineProtectedSecret info) (sp_template spec)" "template_clean (engineProtectedSecret info) (class_template ci)"
  shows "\<forall>c \<in> set (sitems (p_initContainers pod)) \<union> set (tl (sitems (p_containers pod))).
           \<forall>n. container_reads (sitems (p_volumes pod)) c n \<longrightarrow> \<not> engineProtectedSecret info n"
    and "\<forall>n\<in>set (ContainerSecretRefs (hd (sitems (p_containers pod)))). \<not> engineProtectedSecret info n"
proof -
  have "other_containers env spec info ci = screened_containers env spec info ci" using assms(2,3) by (simp add: screened_containers_def)
  then show "\<forall>c \<in> set (sitems (p_initContainers pod)) \<union> set (tl (sitems (p_containers pod))).
           \<forall>n. container_reads (sitems (p_volumes pod)) c n \<longrightarrow> \<not> engineProtectedSecret info n"
    using engine_pod_screen.others_read_nothing[of _ env spec info ci] unfolding pod_def pod_others by (auto simp: engine_pod_spec_def)
  show "\<forall>n\<in>set (ContainerSecretRefs (hd (sitems (p_containers pod)))). \<not> engineProtectedSecret info n"
    using engine_container_env_ok[OF assms(2,3)] by (simp add: pod_def engine_pod_spec_def env_ok_def)
qed


text \<open>An engine with a helper of its own: the helper mounts a volume that names the trust bundle of the Instance, and
  takes a Secret of the user into its environment. The class comes from the cluster catalog; the Preset adds an init
  container. The volume is left out of the pod.\<close>

definition helper_engine :: engine_spec where
  "helper_engine = zero_engine_spec\<lparr>sp_instanceRef := ''i'', sp_engineClassRef := Some ''large'', sp_replicas := 1,
     sp_template := Some (empty_pod_template\<lparr>pt_spec := empty_pod_spec\<lparr>
       p_volumes := Some [empty_volume\<lparr>v_name := ''certs'', v_secret := Some ''i-engine-ca-bundle''\<rparr>],
       p_containers := Some [empty_container\<lparr>c_name := ''helper'', c_image := ''h'',
         c_volumeMounts := Some [mk_mount ''certs'' ''/certs'' True],
         c_envFrom := Some [\<lparr>ef_secretRef = Some ''mine'', ef_configMapRef = None, ef_rest = K8s []\<rparr>]\<rparr>]\<rparr>\<rparr>)\<rparr>"

definition helper_instance :: fb_instance where
  "helper_instance = \<lparr>in_name = ''i'', in_namespace = ''n'', in_generation = 1, in_auth = None, in_authStatus = None,
     in_conditions = [], fi_id = ''id'', fi_metadataReplicas = None, fi_tls = None, fi_postgres = None, fi_gatewayReplicas = None, fi_metricsPort = 9090,
     fi_gatewayTemplate = None, fi_metadataTemplate = None, fi_engineTLS = None, fi_gatewayTLS = None,
     fi_rolledTrustCAs = [], fi_phase = InstReady, fi_metadataReady = True, fi_metadataEndpoint = ''m:7000'',
     fi_gatewayReady = True, fi_gatewayEndpoint = []\<rparr>"

definition helper_env :: operator_env where
  "helper_env = \<lparr>oe_sha256hex = (\<lambda>s. s), oe_parseReference = (\<lambda>_. None), oe_marshalTemplate = (\<lambda>_. []), oe_marshalAuth = (\<lambda>_. []),
     oe_marshalJson = (\<lambda>_. []), oe_engineRepository = [], oe_engineTag = [], oe_engineWebImage = [], oe_telemetryDisabled = False\<rparr>"

definition helper_lookups :: lookup_api where
  "helper_lookups = \<lparr>lk_class = (\<lambda>_. Inr None),
     lk_clusterClass = (\<lambda>n. Inr (Some \<lparr>cc_name = n, cc_template = empty_pod_template\<rparr>)),
     lk_preset = (\<lambda>n. Inr (Some \<lparr>ep_name = n, ep_namespace = ''n'', ep_generation = 1, ep_finalizers = [], ep_deleting = False,
       ep_template = empty_pod_template\<lparr>pt_spec := empty_pod_spec\<lparr>p_initContainers := Some [empty_container\<lparr>c_name := ''warm''\<rparr>]\<rparr>\<rparr>,
       ep_storage = empty_storage, ep_customEngineConfig = None, ep_boundEngines = 0, ep_observedGeneration = 0, ep_conditions = []\<rparr>)),
     lk_marshalPreset = (\<lambda>_. []), lk_aggregate = (\<lambda>_. [])\<rparr>"

definition helper_reads :: "instance_api" where
  "helper_reads = \<lparr>au_now = 0, au_hugeDuration = 0, au_apply = (\<lambda>_. None), au_getCert = (\<lambda>n. Inr None),
     au_getSecret = (\<lambda>n. Inr None), au_deleteCert = (\<lambda>_. None), au_deleteSecret = (\<lambda>_. None), au_engines = Inr [], au_publicKey = Inr,
     ti_applyCert = (\<lambda>_. None), ti_applyBundle = (\<lambda>b. Inl (ApiError [])), ti_fleet = Inr []\<rparr>"

definition helper_info :: instance_info where
  "helper_info = \<lparr>ii_metadataEndpoint = ''m:7000'', ii_instanceID = ''id'', ii_auth = None, ii_tls = None,
     ii_engineTrustBundleReady = False, ii_protectedSecretNames = instanceProtectedSecretNames helper_instance\<rparr>"

definition helper_class :: class_info where
  "helper_class = newClusterFireboltEngineClassInfo helper_env \<lparr>cc_name = ''large'', cc_template = empty_pod_template\<rparr>"

definition helper_preset :: preset_info where
  "helper_preset = \<lparr>pi_name = ''firebolt'', pi_hash = [],
     pi_template = Some (empty_pod_template\<lparr>pt_spec := empty_pod_spec\<lparr>p_initContainers := Some [empty_container\<lparr>c_name := ''warm''\<rparr>]\<rparr>\<rparr>),
     pi_storage = empty_storage, pi_customEngineConfig = None\<rparr>"

definition helper_pod :: pod_spec where
  "helper_pod = engine_pod_spec helper_env ''run'' helper_engine ''e'' 0 helper_info
     (overlayPresetOnClass helper_env (Some helper_preset) (Some helper_class))"

lemma helper_inputs:
  "resolveInstanceInfo helper_env list_conditions helper_reads (\<lambda>_. Inr (Some helper_instance)) ''n'' helper_engine ''e'' 0 = Inr helper_info"
  "validateEngineTemplates helper_engine (Some helper_class) (Some helper_preset) helper_info = []"
  by code_simp+

lemma helper_class_found: "resolveFireboltEngineClassInfo helper_env list_conditions helper_lookups ''n'' helper_engine = ClassFound (Some helper_class)"
  by code_simp

lemma helper_preset_found: "resolveFireboltEnginePresetInfo helper_env list_conditions helper_lookups ''n'' helper_engine = PresetFound (Some helper_preset)"
  by code_simp



text \<open>The class of the controller's example: the gate of the pass accepts it, and its container reads the key.\<close>

definition held_after :: engine_class where
  "held_after = snd (snd (class_reconcile list_conditions held_api held_class))"

definition held_lookups :: lookup_api where
  "held_lookups = helper_lookups\<lparr>lk_class := (\<lambda>_. Inr (Some held_after)), lk_preset := (\<lambda>_. Inr None)\<rparr>"

definition held_info :: instance_info where
  "held_info = helper_info\<lparr>ii_tls := Some \<lparr>rt_secretName = ''i-engine-tls'', rt_certManager = None, rt_servingCertFP = []\<rparr>\<rparr>"

definition held_pod :: pod_spec where
  "held_pod = engine_pod_spec helper_env ''run'' held_engine ''e'' 0 held_info (Some (newFireboltEngineClassInfo helper_env held_after))"

lemma held_pass: "class_reconcile list_conditions held_api held_class = (RequeueAfter engineClassRequeueAfter, StatusWrite, held_after)"
  by code_simp

lemma held_pod_leaks:
  "ValidateOperatorOwnedPodTemplate (Some (ec_template held_after)) ''spec.template'' \<noteq> []"
  "validateEngineTemplates held_engine (Some (newFireboltEngineClassInfo helper_env held_after)) None held_info = []"
  "engineProtectedSecret held_info ''e-g0-engine-tls''"
  "list_ex (\<lambda>c. c_name c = ''spy'' \<and> container_reads (sitems (p_volumes held_pod)) c ''e-g0-engine-tls'') (tl (sitems (p_containers held_pod)))"
  by code_simp+


end
