(* ===== verification/Auth_Curve.thy ===== *)
theory Auth_Curve
  imports Auth_Fleet Instance_Admission Template_Safety
begin

text \<open>
  Admission and rotation together: the fields of \<open>spec.auth\<close> that an update must not change keep every signing key of an
  Instance on the curve of its signing algorithm, as long as authentication stays enabled; switched off and on again
  between two passes, it does not.
\<close>

section \<open>The kind of a key\<close>

definition key_kind :: "signing_key \<Rightarrow> string \<times> int" where
  "key_kind k = (ky_algorithm k, ky_size k)"

definition uniform :: "string \<times> int \<Rightarrow> signing_key list \<Rightarrow> bool" where
  "uniform p ks \<longleftrightarrow> list_all (\<lambda>k. key_kind k = p) ks"

lemma uniform_simps [simp]:
  "uniform p []" "uniform p (k # ks) \<longleftrightarrow> key_kind k = p \<and> uniform p ks"
  "uniform p (ks @ ks') \<longleftrightarrow> uniform p ks \<and> uniform p ks'"
  by (simp_all add: uniform_def)

lemma uniform_nth: "uniform p ks \<Longrightarrow> i < length ks \<Longrightarrow> key_kind (ks ! i) = p"
  by (simp add: uniform_def list_all_length)

lemma uniform_update: "uniform p ks \<Longrightarrow> (i < length ks \<Longrightarrow> key_kind k = p) \<Longrightarrow> uniform p (ks[i := k])"
  by (cases "i < length ks") (auto simp: uniform_def list_all_length nth_list_update)

lemma uniform_filter: "uniform p ks \<Longrightarrow> uniform p (filter P ks)"
  by (auto simp: uniform_def list_all_iff)

lemma uniform_map: "(\<And>k. key_kind (f k) = key_kind k) \<Longrightarrow> uniform p (map f ks) \<longleftrightarrow> uniform p ks"
  by (simp add: uniform_def list_all_iff)

lemma kind_simps [simp]:
  "key_kind (k\<lparr>ky_phase := ph\<rparr>) = key_kind k" "key_kind (k\<lparr>ky_demotedAt := d\<rparr>) = key_kind k"
  "key_kind (k\<lparr>ky_retireEligibleAt := r\<rparr>) = key_kind k" "key_kind (k\<lparr>ky_secretName := s\<rparr>) = key_kind k"
  "key_kind (stored_key k) = key_kind k" "key_kind (k\<lparr>ky_algorithm := a, ky_size := z\<rparr>) = (a, z)"
  "key_kind (mint_key g ph cm) = resolvedCertManagerAlgSize cm"
  by (simp_all add: key_kind_def stored_key_def mint_key_def split: prod.splits)

lemma apply_kind: "applySigningCertificate api inst cm key = (r, key', ops) \<Longrightarrow> key_kind key' = key_kind key"
  by (auto simp: applySigningCertificate_def Let_def key_kind_def split: option.splits sum.splits if_splits)

lemma apply_at_uniform:
  assumes "apply_at api inst cm i keys = (r, keys', ops)" "uniform p keys"
  shows "uniform p keys'"
proof -
  obtain r1 key ops1 where a: "applySigningCertificate api inst cm (keys ! i) = (r1, key, ops1)" by (metis prod_cases3)
  have "i < length keys \<Longrightarrow> key_kind key = p" using apply_kind [OF a] uniform_nth [OF assms(2)] by simp
  then show ?thesis using assms a by (auto simp: apply_at_def intro: uniform_update)
qed

section \<open>Passes keep the kind\<close>

lemma mint_uniform:
  assumes "mintNextSigningKey api inst cm a = (e, a', ops)" "uniform (resolvedCertManagerAlgSize cm) (as_signingKeys a)"
  shows "uniform (resolvedCertManagerAlgSize cm) (as_signingKeys a')"
  using assms apply_kind by (fastforce simp: mintNextSigningKey_def Let_def split: sum.splits prod.splits bool.splits)

lemma gated_uniform:
  assumes "gated env api inst spec st prev a advance = (e, a', ops)" "uniform p (as_signingKeys a)"
    "uniform p (as_signingKeys (fst (snd advance)))"
  shows "uniform p (as_signingKeys a')"
  using assms by (auto simp: gated_def noteRotationPending_def Let_def split: sum.splits prod.splits bool.splits)

lemma promote_uniform: "uniform p ks \<Longrightarrow> i < length ks \<Longrightarrow> j < length ks \<Longrightarrow> uniform p (promoteSigningKey now i j ks)"
  by (auto simp: promoteSigningKey_def Let_def nth_list_update uniform_nth intro!: uniform_update)

lemma delete_uniform: "uniform p (as_signingKeys a) \<Longrightarrow> uniform p (as_signingKeys (fst (snd (deleteSigningKey api inst k a))))"
  by (auto simp: deleteSigningKey_def removeSigningKey_def Let_def uniform_filter split: option.splits)

lemma step_uniform:
  assumes run: "stepSigningKeyRotation env api inst spec pol a0 = (e, a', ops)"
    and u: "uniform (resolvedCertManagerAlgSize (sk_certManager pol)) (as_signingKeys a0)"
  shows "uniform (resolvedCertManagerAlgSize (sk_certManager pol)) (as_signingKeys a')"
proof (cases "activeSigningKey (as_signingKeys a0)")
  case None
  then show ?thesis using run u by (auto simp: stepSigningKeyRotation_def Let_def)
next
  case (Some i)
  let ?p = "resolvedCertManagerAlgSize (sk_certManager pol)" let ?ks = "as_signingKeys a0"
  have i: "i < length ?ks" using Some first_index_Some by (auto simp: activeSigningKey_def)
  show ?thesis
  proof (cases "otherSigningKey ?ks")
    case None
    obtain alg size where p: "?p = (alg, size)" by (cases ?p)
    define a1 where "a1 = (if ky_algorithm (?ks ! i) = [] \<or> ky_size (?ks ! i) = 0
        then (clearRotationPending a0)\<lparr>as_signingKeys := ?ks[i := (?ks ! i)\<lparr>ky_algorithm := alg, ky_size := size\<rparr>]\<rparr>
        else clearRotationPending a0)"
    have u1: "uniform ?p (as_signingKeys a1)" using u uniform_update [OF u, of i] by (simp add: a1_def p)
    have "a' = a1 \<or> mintNextSigningKey api inst (sk_certManager pol) a1 = (e, a', ops)"
      using run Some None by (auto simp: stepSigningKeyRotation_def Let_def p a1_def split: option.splits if_splits)
    then show ?thesis using u1 mint_uniform by blast
  next
    case (Some j)
    have j: "j < length ?ks" using Some first_index_Some by (auto simp: otherSigningKey_def)
    have upd: "uniform ?p (?ks[j := (?ks ! j)\<lparr>ky_retireEligibleAt := r\<rparr>])" "uniform ?p (?ks[j := (?ks ! j)\<lparr>ky_phase := ph\<rparr>])" for r ph
      using u j by (auto intro!: uniform_update simp: uniform_nth)
    show ?thesis
      using run \<open>activeSigningKey ?ks = Some i\<close> Some u upd promote_uniform [OF u i j]
      by (auto simp: stepSigningKeyRotation_def Let_def split: if_splits option.splits elim!: gated_uniform intro: delete_uniform)
  qed
qed

lemma ensure_uniform:
  assumes "ensureSigningKeys env api inst spec pol = (r, a', ops)"
    "uniform (resolvedCertManagerAlgSize (sk_certManager pol)) (existingSigningKeys inst)"
  shows "uniform (resolvedCertManagerAlgSize (sk_certManager pol)) (status_keys a')"
proof -
  let ?p = "resolvedCertManagerAlgSize (sk_certManager pol)"
  define keys where "keys = normalizeSigningKeyPhases (status_keys (in_authStatus inst))"
  have u: "uniform ?p keys"
    using assms(2) unfolding keys_def normalizeSigningKeyPhases_def by (subst uniform_map) auto
  have with_keys: "uniform ?p ks \<Longrightarrow> uniform ?p (status_keys (map_option (\<lambda>a. a\<lparr>as_signingKeys := ks\<rparr>) (in_authStatus inst)))" for ks
    by (cases "in_authStatus inst") (simp_all add: status_keys_def)
  show ?thesis
  proof (cases "activeSigningKey keys")
    case None
    obtain r1 key os where ap: "applySigningCertificate api inst (sk_certManager pol)
        (mint_key (status_gen (in_authStatus inst) + 1) KeyActive (sk_certManager pol)) = (r1, key, os)" by (metis prod_cases3)
    then have "key_kind key = ?p" using apply_kind by fastforce
    then show ?thesis using assms(1) None u with_keys [OF u]
      by (cases r1) (auto simp: ensureSigningKeys_def keys_def [symmetric] bootstrapSigningKey_def ap Let_def)
  next
    case (Some i)
    obtain r1 keys1 ops1 where a1: "apply_at api inst (sk_certManager pol) i keys = (r1, keys1, ops1)" by (metis prod_cases3)
    have u1: "uniform ?p keys1" by (rule apply_at_uniform [OF a1 u])
    define snd_apply where "snd_apply = (case otherSigningKey keys1 of
        Some j \<Rightarrow> if ky_phase (keys1 ! j) \<noteq> KeyRemoving then apply_at api inst (sk_certManager pol) j keys1 else (Inr True, keys1, [])
      | None \<Rightarrow> (Inr True, keys1, []))"
    obtain r2 keys2 ops2 where a2: "snd_apply = (r2, keys2, ops2)" by (metis prod_cases3)
    have u2: "uniform ?p keys2"
      using a2 u1 by (auto simp: snd_apply_def split: option.splits if_splits elim: apply_at_uniform)
    show ?thesis
      using assms(1) Some u1 u2 with_keys
      by (auto simp: ensureSigningKeys_def Let_def keys_def [symmetric] a1 snd_apply_def [symmetric] a2
          split: sum.splits if_splits prod.splits elim!: step_uniform)
  qed
qed

lemma existing_keys: "existingSigningKeys inst = status_keys (in_authStatus inst)"
  by (simp add: existingSigningKeys_def status_keys_def split: option.splits)

lemma pass_uniform:
  assumes run: "ensureAuth ca env api inst = (err, inst', ops)" and en: "in_auth inst = Some a" "au_enabled a" "au_local a = Some l"
    "la_signingKeys l = Some pol" and u: "uniform (resolvedCertManagerAlgSize (sk_certManager pol)) (existingSigningKeys inst)"
  shows "uniform (resolvedCertManagerAlgSize (sk_certManager pol)) (existingSigningKeys inst')"
proof -
  have "in_authStatus inst' = in_authStatus inst \<or> (\<exists>r. ensureSigningKeys env api inst a pol = (r, in_authStatus inst', ops))"
    using run en by (auto simp: ensureAuth_def provision_auth_def auth_cond_def setInstanceCondition_def Let_def
        split: sum.splits prod.splits bool.splits if_splits)
  then show ?thesis using ensure_uniform u by (auto simp: existing_keys)
qed

section \<open>Updates and passes\<close>

inductive signing_step :: "condition_api \<Rightarrow> operator_env \<Rightarrow> int \<Rightarrow> fb_instance \<Rightarrow> fb_instance \<Rightarrow> bool" for ca env huge where
  update: "validate_instance_update huge i j = [] \<Longrightarrow> authLocalEnabled j \<Longrightarrow> in_authStatus j = in_authStatus i \<Longrightarrow>
    signing_step ca env huge i j"
| pass: "ensureAuth ca env api i = (err, k, ops) \<Longrightarrow> in_auth j = in_auth i \<Longrightarrow>
    in_authStatus j = map_option stored_status (in_authStatus k) \<Longrightarrow> signing_step ca env huge i j"

definition signing_inv :: "int \<Rightarrow> string \<Rightarrow> string \<times> int \<Rightarrow> fb_instance \<Rightarrow> bool" where
  "signing_inv huge alg p i \<longleftrightarrow>
     authLocalEnabled i \<and> ValidateAuth huge (in_auth i) = [] \<and> la_signingAlgorithm (local_auth i) = alg \<and>
     key_parameters i = Some p \<and> uniform p (existingSigningKeys i)"

lemma local_auth_cong: "in_auth j = in_auth i \<Longrightarrow> local_auth j = local_auth i \<and> authLocalEnabled j = authLocalEnabled i"
  by (simp add: local_auth_def authLocalEnabled_def)

lemma signing_step_keeps: "signing_step ca env huge i j \<Longrightarrow> signing_inv huge alg p i \<Longrightarrow> signing_inv huge alg p j"
proof (induction rule: signing_step.induct)
  case (update i j)
  have "ValidateAuth huge (in_auth j) = []"
    using update(1) accepted_spec(1) by (simp add: validate_instance_update_def)
  then show ?case
    using update update_freezes_key [of huge i j] by (simp add: signing_inv_def existing_keys)
next
  case (pass api i err k ops j)
  obtain a pol where a: "in_auth i = Some a" "au_enabled a" "au_local a = Some (local_auth i)" "la_signingKeys (local_auth i) = Some pol"
    using accepted_local_auth [of huge i] pass(4) unfolding signing_inv_def by metis
  have p: "p = resolvedCertManagerAlgSize (sk_certManager pol)" using pass(4) a(4) by (simp add: signing_inv_def key_parameters_def)
  have "uniform p (existingSigningKeys k)"
    using pass_uniform [OF pass(1) a] pass(4) by (simp add: p signing_inv_def)
  then have "uniform p (existingSigningKeys j)"
    using pass(3) uniform_map [of stored_key p]
    by (cases "in_authStatus k") (simp_all add: existing_keys status_keys_def stored_status_def)
  then show ?case using pass(2,4) local_auth_cong [OF pass(2)] by (simp add: signing_inv_def key_parameters_def)
qed

interpretation curve: invariant_system "signing_step ca env huge" "signing_inv huge alg p" for ca env huge alg p
  by unfold_locales (rule signing_step_keeps)

text \<open>C25. The signing keys of an Instance always fit its signing algorithm: from an admitted Instance without keys, through
  any sequence of admitted updates that leave authentication enabled and of passes that mint, promote, retire and delete
  keys, the algorithm stays as it was, and every key is of the family and on the curve that it needs.\<close>

theorem signing_keys_fit_algorithm:
  assumes "(signing_step ca env huge)\<^sup>*\<^sup>* i j" "validate_instance_create huge i = []" "authLocalEnabled i"
    "existingSigningKeys i = []"
  shows "la_signingAlgorithm (local_auth j) = la_signingAlgorithm (local_auth i) \<and>
     (\<forall>k\<in>set (existingSigningKeys j). key_fits (signing_algorithm (local_auth j)) (ky_algorithm k, ky_size k))"
proof -
  have v: "ValidateAuth huge (in_auth i) = []" using assms(2) accepted_spec(1) by (simp add: validate_instance_create_def)
  obtain pol where pol: "la_signingKeys (local_auth i) = Some pol"
    "key_fits (signing_algorithm (local_auth i)) (resolvedCertManagerAlgSize (sk_certManager pol))"
    using accepted_local_auth [OF v assms(3)] by blast
  have "signing_inv huge (la_signingAlgorithm (local_auth i)) (resolvedCertManagerAlgSize (sk_certManager pol)) i"
    using v pol assms(3,4) by (simp add: signing_inv_def key_parameters_def)
  from curve.reach_keeps [OF assms(1) this]
  show ?thesis using pol(2) by (auto simp: signing_inv_def signing_algorithm_def uniform_def list_all_iff key_kind_def)
qed

definition curve_start :: fb_instance where
  "curve_start = helper_instance\<lparr>in_auth := Some demo_auth\<rparr>"

definition curve_booted :: fb_instance where
  "curve_booted = curve_start\<lparr>in_authStatus := Some (demo_status [demo_key 1 5 KeyActive None] 1)\<rparr>"

lemma curve_boot:
  "map_prod id (map_prod in_authStatus id) (ensureAuth list_conditions helper_env (demo_auth_api (5 * second) []) curve_start) =
     (None, in_authStatus curve_booted, [ApplyCert (signingCertificateName ''i'' (signingKeyID 1))])"
  "map_option stored_status (in_authStatus curve_booted) = in_authStatus curve_booted"
  by code_simp+

theorem signing_keys_fit_algorithm_witness:
  "(signing_step list_conditions helper_env 0)\<^sup>*\<^sup>* curve_start curve_booted \<and> length (existingSigningKeys curve_booted) = 1 \<and>
   list_all (\<lambda>k. key_fits (signing_algorithm (local_auth curve_booted)) (ky_algorithm k, ky_size k)) (existingSigningKeys curve_booted)"
proof -
  obtain e k ops where k: "ensureAuth list_conditions helper_env (demo_auth_api (5 * second) []) curve_start = (e, k, ops)"
    by (metis prod_cases3)
  then have "in_authStatus k = in_authStatus curve_booted" using curve_boot(1) by simp
  then have "signing_step list_conditions helper_env 0 curve_start curve_booted"
    using signing_step.pass [OF k, of curve_booted 0] curve_boot(2) by (simp add: curve_booted_def)
  then have r: "(signing_step list_conditions helper_env 0)\<^sup>*\<^sup>* curve_start curve_booted" by (rule r_into_rtranclp)
  have "validate_instance_create 0 curve_start = []" "authLocalEnabled curve_start" "existingSigningKeys curve_start = []"
    "length (existingSigningKeys curve_booted) = 1" by code_simp+
  then show ?thesis using signing_keys_fit_algorithm [OF r] r by (simp add: list_all_iff)
qed

text \<open>Switched off and on between two passes, authentication does not start from a fresh key: both updates are admitted, and
  the next pass keeps the recorded key of the old curve, under its old identifier, and reports that authentication is
  ready.\<close>

definition curve_changed :: fb_instance where
  "curve_changed = curve_booted\<lparr>in_auth := Some (demo_auth\<lparr>au_local := Some (demo_local\<lparr>la_signingAlgorithm := ''ES256'',
     la_signingKeys := Some (demo_policy\<lparr>sk_certManager := (sk_certManager demo_policy)\<lparr>cms_size := 256\<rparr>\<rparr>)\<rparr>)\<rparr>)\<rparr>"

lemma reenabled_auth_keeps_old_key:
  "validate_instance_update 0 curve_booted (curve_booted\<lparr>in_auth := None\<rparr>) = []"
  "validate_instance_update 0 (curve_booted\<lparr>in_auth := None\<rparr>) curve_changed = []"
  "map_prod id (map_prod (\<lambda>i. (existingSigningKeys i = existingSigningKeys curve_booted,
       map (\<lambda>c. (cd_type c, cd_status c)) (in_conditions i))) id)
     (ensureAuth list_conditions helper_env (demo_auth_api (9 * second) []) curve_changed) =
     (None, (True, [(InstanceConditionAuthReady, ''True'')]), [ApplyCert (signingCertificateName ''i'' (signingKeyID 1))])"
  "map (\<lambda>k. key_fits (signing_algorithm (local_auth curve_changed)) (ky_algorithm k, ky_size k)) (existingSigningKeys curve_booted) = [False]"
  by code_simp+

end
