(* ===== verification/Gateway_Routing.thy ===== *)
theory Gateway_Routing
  imports Wake_Agent Engine_Containers
begin

text \<open>
  The request filter of the gateway: the Lua program in the Envoy configuration that \<open>buildEnvoyConfigYAML\<close>
  renders (\<open>instance_gateway.go\<close>). It finds the engine a request names, in a header or in the query, takes the
  routing parameter out of the query and sends the request to the Service of that engine, after asking the wake
  agent. A string of Lua is a \<open>string\<close>, \<open>nil\<close> is \<open>None\<close>.
\<close>

section \<open>The program\<close>

definition lower_or_digit :: "char \<Rightarrow> bool" where
  "lower_or_digit c \<longleftrightarrow> (CHR ''a'' \<le> c \<and> c \<le> CHR ''z'') \<or> (CHR ''0'' \<le> c \<and> c \<le> CHR ''9'')"

definition is_valid_engine :: "string option \<Rightarrow> bool" where
  "is_valid_engine v =
     (case v of
        None \<Rightarrow> False
      | Some s \<Rightarrow>
          if s = [] \<or> length s > 63 then False
          else if \<not> (lower_or_digit (hd s) \<and> list_all (\<lambda>c. c = CHR ''-'' \<or> lower_or_digit c) (tl s)) then False
          else last s \<noteq> CHR ''-'')"

definition hex_value :: "char \<Rightarrow> nat option" where
  "hex_value c =
     (if CHR ''0'' \<le> c \<and> c \<le> CHR ''9'' then Some (of_char c - 48)
      else if CHR ''A'' \<le> c \<and> c \<le> CHR ''F'' then Some (of_char c - 55)
      else if CHR ''a'' \<le> c \<and> c \<le> CHR ''f'' then Some (of_char c - 87)
      else None)"

fun url_decode :: "string \<Rightarrow> string option" where
  "url_decode [] = Some []"
| "url_decode (c # s) =
     (if c = CHR ''%'' then
        (case s of
           a # b # rest \<Rightarrow>
             (case (hex_value a, hex_value b) of
                (Some x, Some y) \<Rightarrow> map_option (\<lambda>t. char_of (16 * x + y) # t) (url_decode rest)
              | _ \<Rightarrow> None)
         | _ \<Rightarrow> None)
      else if c = CHR ''+'' then map_option (\<lambda>t. CHR '' '' # t) (url_decode s)
      else map_option (\<lambda>t. c # t) (url_decode s))"

definition split_param :: "string \<Rightarrow> string \<times> string" where
  "split_param part = (case str_cut part ''='' of Some (k, v) \<Rightarrow> (k, v) | None \<Rightarrow> (part, []))"

definition is_engine_param :: "string \<Rightarrow> bool" where
  "is_engine_param part \<longleftrightarrow> url_decode (fst (split_param part)) = Some ''engine''"

text \<open>The loop over the parts of the query, with the engine found so far and the parts kept.\<close>

fun scan_query :: "string list \<Rightarrow> string option \<Rightarrow> string list \<Rightarrow> string + string option \<times> string list" where
  "scan_query [] found kept = Inr (found, kept)"
| "scan_query (part # parts) found kept =
     (if is_engine_param part then
        if found \<noteq> None then Inl ''multiple engine query parameters''
        else (case url_decode (snd (split_param part)) of
                None \<Rightarrow> Inl ''invalid engine query parameter encoding''
              | Some e \<Rightarrow> scan_query parts (Some e) kept)
      else scan_query parts found (kept @ [part]))"

definition extract_engine_from_path ::
  "string option \<Rightarrow> string + string option \<times> string option" where
  "extract_engine_from_path path =
     (case path of
        None \<Rightarrow> Inr (None, None)
      | Some p \<Rightarrow>
          (case str_cut p ''?'' of
             None \<Rightarrow> Inr (None, Some p)
           | Some (base, query) \<Rightarrow>
               (case scan_query (split_on CHR ''&'' [] query) None [] of
                  Inl e \<Rightarrow> Inl e
                | Inr (None, _) \<Rightarrow> Inr (None, Some p)
                | Inr (Some e, kept) \<Rightarrow>
                    (let stripped = join_with CHR ''&'' kept
                     in Inr (Some e, Some (if stripped = [] then base else base @ CHR ''?'' # stripped))))))"

record gw_request =
  rq_path :: "string option"
  rq_engine :: "string option"
  rq_authority :: string

datatype filter_result = Respond nat string | Forward gw_request

definition engine_authority :: "string \<Rightarrow> string \<Rightarrow> string" where
  "engine_authority ns engine =
     engine @ ''-service.'' @ ns @ ''.svc.cluster.local:'' @ itoa EngineHTTPQueryPort"

text \<open>The answer of the agent: its decision header, if it has one, and the status. Envoy answers for an agent it
  cannot reach, without the header; such an answer is ignored.\<close>

type_synonym hold_answer = "string option \<times> nat"

definition wake_hold :: "bool \<Rightarrow> (string \<Rightarrow> hold_answer option) \<Rightarrow> string \<Rightarrow> bool" where
  "wake_hold enabled call engine \<longleftrightarrow>
     (\<not> enabled \<or> (case call engine of Some (Some d, status) \<Rightarrow> status = 200 | _ \<Rightarrow> True))"

definition envoy_on_request ::
  "string \<Rightarrow> bool \<Rightarrow> (string \<Rightarrow> hold_answer option) \<Rightarrow> gw_request \<Rightarrow> filter_result" where
  "envoy_on_request ns wake call rq =
     (case extract_engine_from_path (rq_path rq) of
        Inl e \<Rightarrow> Respond 400 e
      | Inr (query_engine, stripped) \<Rightarrow>
          if rq_engine rq \<noteq> None \<and> \<not> is_valid_engine (rq_engine rq)
          then Respond 400 ''invalid X-Firebolt-Engine header''
          else if rq_engine rq \<noteq> None \<and> query_engine \<noteq> None \<and> query_engine \<noteq> rq_engine rq
          then Respond 400 ''conflicting engine selectors''
          else (let engine = (if rq_engine rq \<noteq> None then rq_engine rq else query_engine)
                in if \<not> is_valid_engine engine then Respond 400 ''invalid or missing engine selector''
                   else if \<not> wake_hold wake call (the engine)
                   then Respond 503 ''engine is not available; retry shortly''
                   else Forward \<lparr>rq_path = (if query_engine \<noteq> None then stripped else rq_path rq),
                          rq_engine = engine, rq_authority = engine_authority ns (the engine)\<rparr>))"

section \<open>Names\<close>

text \<open>The filter, the agent and the operator agree on what names an engine.\<close>

lemma name_char_split: "name_char c \<longleftrightarrow> c = CHR ''-'' \<or> lower_or_digit c"
  by (auto simp: name_char_def lower_or_digit_def)

lemma dash_not_lower: "\<not> lower_or_digit CHR ''-''"
  by (simp add: lower_or_digit_def less_eq_char_def)

lemma is_valid_engine_iff: "is_valid_engine (Some s) \<longleftrightarrow> isValidEngineName s"
proof (cases s)
  case (Cons c cs)
  then show ?thesis using dash_not_lower
    by (auto simp: is_valid_engine_def isValidEngineName_def name_char_split list_all_iff)
qed (simp add: is_valid_engine_def isValidEngineName_def)

text \<open>The answers of \<open>handleHold\<close>: an agent with the name of a forwarded request never rejects it.\<close>

fun decision_status :: "decision \<Rightarrow> nat" where
  "decision_status DecisionReady = 200"
| "decision_status DecisionReleased = 200"
| "decision_status DecisionUnsynced = 200"
| "decision_status DecisionRejected = 400"
| "decision_status DecisionShed = 503"
| "decision_status DecisionTimeout = 503"

lemma agent_accepts_routed:
  assumes "is_valid_engine (Some e)" "hold_next now Run e Arrived ag = Some (Done (Some d), ag')"
  shows "decision_status d = 200"
  using assms by (auto simp: hold_next_def is_valid_engine_iff split: if_splits)

lemma is_valid_engineE:
  assumes "is_valid_engine v" obtains s where "v = Some s" "isValidEngineName s"
proof (cases v)
  case (Some s)
  then show ?thesis using assms that by (simp add: is_valid_engine_iff)
qed (use assms in \<open>simp add: is_valid_engine_def\<close>)

section \<open>The query\<close>

text \<open>A scan keeps exactly the parts that do not name an engine, and finds the engine of the only one that does.\<close>

lemma scan_kept:
  "scan_query parts found kept = Inr (e, kept') \<Longrightarrow> kept' = kept @ filter (\<lambda>p. \<not> is_engine_param p) parts"
  by (induction parts found kept rule: scan_query.induct) (auto split: if_splits option.splits)

lemma scan_none:
  "scan_query parts found kept = Inr (None, kept') \<Longrightarrow> found = None \<and> filter is_engine_param parts = []"
  by (induction parts found kept rule: scan_query.induct) (auto split: if_splits option.splits)

lemma scan_again:
  "filter is_engine_param parts = [] \<Longrightarrow> scan_query parts found kept = Inr (found, kept @ parts)"
  by (induction parts found kept rule: scan_query.induct) (auto split: if_splits)

text \<open>What an engine reads of a path: everything before the query, and the settings, the non-empty parts of the
  query that are not the routing parameter.\<close>

definition path_base :: "string \<Rightarrow> string" where
  "path_base p = (case str_cut p ''?'' of Some (b, q) \<Rightarrow> b | None \<Rightarrow> p)"

definition path_params :: "string \<Rightarrow> string list" where
  "path_params p =
     (case str_cut p ''?'' of Some (b, q) \<Rightarrow> filter (\<lambda>x. x \<noteq> []) (split_on CHR ''&'' [] q) | None \<Rightarrow> [])"

lemma path_join:
  assumes "CHR ''?'' \<notin> set b" "\<forall>x\<in>set xs. CHR ''&'' \<notin> set x"
  defines "p \<equiv> (if join_with CHR ''&'' xs = [] then b else b @ CHR ''?'' # join_with CHR ''&'' xs)"
  shows "path_base p = b" "path_params p = filter (\<lambda>x. x \<noteq> []) xs"
proof -
  have cut: "str_cut (b @ CHR ''?'' # q) ''?'' = Some (b, q)" for q using assms(1) by (simp add: str_cut_some)
  have none: "str_cut b ''?'' = None" using assms(1) by (simp add: str_cut_none)
  show "path_base p = b" by (simp add: p_def path_base_def cut none)
  show "path_params p = filter (\<lambda>x. x \<noteq> []) xs"
  proof (cases "join_with CHR ''&'' xs = []")
    case True
    then show ?thesis using join_empty[OF True] by (auto simp: p_def path_params_def none)
  next
    case False
    then have "xs \<noteq> []" by auto
    then show ?thesis using False assms(2) by (simp add: p_def path_params_def cut split_join)
  qed
qed

text \<open>What the extraction leaves: the base, the settings, and no routing parameter.\<close>

lemma extract_found:
  assumes "extract_engine_from_path (Some p) = Inr (Some e, stripped)"
  obtains p' where "stripped = Some p'" "path_base p' = path_base p"
    "path_params p' = filter (\<lambda>x. \<not> is_engine_param x) (path_params p)"
proof -
  from assms obtain b q kept where cut: "str_cut p ''?'' = Some (b, q)"
    and scan: "scan_query (split_on CHR ''&'' [] q) None [] = Inr (Some e, kept)"
    and st: "stripped = Some (if join_with CHR ''&'' kept = [] then b else b @ CHR ''?'' # join_with CHR ''&'' kept)"
    by (auto simp: extract_engine_from_path_def Let_def split: option.splits sum.splits prod.splits)
  have kept: "kept = filter (\<lambda>x. \<not> is_engine_param x) (split_on CHR ''&'' [] q)" using scan_kept[OF scan] by simp
  have "CHR ''?'' \<notin> set b" using cut by (simp add: str_cut_some)
  moreover have "\<forall>x\<in>set kept. CHR ''&'' \<notin> set x" unfolding kept by (auto dest: split_on_no_sep)
  ultimately have "path_base (the stripped) = b" "path_params (the stripped) = filter (\<lambda>x. x \<noteq> []) kept"
    using path_join[of b kept] by (simp_all add: st)
  then show ?thesis using st cut
    by (intro that[of "the stripped"]) (simp_all add: path_base_def[of p] path_params_def[of p] kept conj_commute)
qed

lemma extract_none:
  assumes "extract_engine_from_path (Some p) = Inr (None, stripped)"
  shows "stripped = Some p" "filter is_engine_param (path_params p) = []"
  using assms
  by (auto simp: extract_engine_from_path_def path_params_def Let_def filter_empty_conv
        split: option.splits sum.splits prod.splits dest!: scan_none)

lemma extract_again:
  assumes "filter is_engine_param (path_params p) = []"
  shows "extract_engine_from_path (Some p) = Inr (None, Some p)"
proof (cases "str_cut p ''?''")
  case (Some bq)
  then obtain b q where bq: "str_cut p ''?'' = Some (b, q)" by (cases bq) auto
  have "\<not> is_engine_param []" by (simp add: is_engine_param_def split_param_def)
  then have "filter is_engine_param (split_on CHR ''&'' [] q) = []"
    using assms bq by (auto simp: path_params_def filter_empty_conv)
  from scan_again[OF this] show ?thesis using bq by (simp add: extract_engine_from_path_def)
qed (simp add: extract_engine_from_path_def)

section \<open>Routing\<close>

lemma forwardE:
  assumes "envoy_on_request ns wake call rq = Forward rq'"
  obtains e query_engine stripped where
    "extract_engine_from_path (rq_path rq) = Inr (query_engine, stripped)" "isValidEngineName e"
    "rq_engine rq = Some e \<and> (query_engine = None \<or> query_engine = Some e) \<or> rq_engine rq = None \<and> query_engine = Some e"
    "wake_hold wake call e"
    "rq' = \<lparr>rq_path = (if query_engine \<noteq> None then stripped else rq_path rq), rq_engine = Some e,
            rq_authority = engine_authority ns e\<rparr>"
  using assms
  by (auto simp: envoy_on_request_def Let_def is_valid_engine_iff split: sum.splits prod.splits if_splits
        elim!: is_valid_engineE)

lemma query_port_text: "itoa EngineHTTPQueryPort = ''3473''"
  by code_simp

text \<open>C21. A request the gateway forwards goes to the query port of the Service of one engine in the namespace of
  the Instance: the name is a DNS label the wake agent accepts, so it holds no dot, colon or slash, it is the one
  that the header and the query give, where they give one, and no agent has refused it. Every other request is
  answered with 400 or 503.\<close>

theorem requests_stay_in_namespace:
  "case envoy_on_request ns wake call rq of
     Respond status body \<Rightarrow> status \<in> {400, 503}
   | Forward rq' \<Rightarrow>
       \<exists>e. isValidEngineName e \<and> set ''.:/%?'' \<inter> set e = {}
         \<and> rq_authority rq' = e @ ''-service.'' @ ns @ ''.svc.cluster.local:3473'' \<and> rq_engine rq' = Some e
         \<and> rq_engine rq \<in> {None, Some e}
         \<and> (\<exists>stripped q. extract_engine_from_path (rq_path rq) = Inr (q, stripped) \<and> q \<in> {None, Some e})
         \<and> wake_hold wake call e"
proof (cases "envoy_on_request ns wake call rq")
  case (Respond status body)
  then show ?thesis
    by (auto simp: envoy_on_request_def Let_def split: sum.splits prod.splits if_splits)
next
  case (Forward rq')
  from forwardE[OF Forward] obtain e q stripped where
    x: "extract_engine_from_path (rq_path rq) = Inr (q, stripped)" "isValidEngineName e" "wake_hold wake call e"
    and sel: "rq_engine rq = Some e \<and> (q = None \<or> q = Some e) \<or> rq_engine rq = None \<and> q = Some e"
    and rq': "rq_engine rq' = Some e" "rq_authority rq' = engine_authority ns e"
    by (metis gw_request.select_convs(2,3))
  have "list_all name_char e" using x(2) by (simp add: isValidEngineName_def split: if_splits)
  then have "set ''.:/%?'' \<inter> set e = {}"
    by (auto simp: list_all_iff name_char_def less_eq_char_def)
  moreover have "rq_authority rq' = e @ ''-service.'' @ ns @ ''.svc.cluster.local:3473''"
    by (simp add: rq' engine_authority_def query_port_text)
  ultimately show ?thesis using Forward x sel rq'(1) by auto
qed


definition ex_request :: gw_request where
  "ex_request = \<lparr>rq_path = Some ''/query?a=%2B&engine=my%2Ddb&b'', rq_engine = None, rq_authority = ''gw''\<rparr>"

definition ex_routed :: gw_request where
  "ex_routed = \<lparr>rq_path = Some ''/query?a=%2B&b'', rq_engine = Some ''my-db'',
                rq_authority = ''my-db-service.prod.svc.cluster.local:3473''\<rparr>"

lemma ex_forwarded: "envoy_on_request ''prod'' True (\<lambda>_. Some (None, 503)) ex_request = Forward ex_routed"
  by code_simp


end
