(* ===== verification/Gateway_Pod.thy ===== *)
theory Gateway_Pod
  imports Instance_TLS
begin

text \<open>
  The pod of the gateway (\<open>instance_gateway.go\<close>): the posture of its client-facing listener, the container of Envoy,
  the wake agent beside it and the merge of the user's pod template (\<open>effectiveGatewayPodTemplate\<close>). The default image
  of Envoy and the text of the stop script are arguments.
\<close>

section \<open>Posture\<close>

definition GatewayTLSModeOneWay :: string where "GatewayTLSModeOneWay = ''TLS''"
definition GatewayTLSModeMutual :: string where "GatewayTLSModeMutual = ''MutualTLS''"

definition gateway_tls_enabled :: "fb_instance \<Rightarrow> bool" where
  "gateway_tls_enabled inst \<longleftrightarrow> (case gateway_listener inst of Some l \<Rightarrow> tl_enabled l | None \<Rightarrow> False)"

definition gatewayDownstreamTLSReady :: "fb_instance \<Rightarrow> bool" where
  "gatewayDownstreamTLSReady inst \<longleftrightarrow> gateway_tls_enabled inst \<and> fi_gatewayTLS inst \<noteq> None"

definition gatewayDownstreamTLSPending :: "fb_instance \<Rightarrow> bool" where
  "gatewayDownstreamTLSPending inst \<longleftrightarrow> gateway_tls_enabled inst \<and> fi_gatewayTLS inst = None"

definition gatewayClientCASecretRef :: "fb_instance \<Rightarrow> string option" where
  "gatewayClientCASecretRef inst = Option.bind (gateway_listener inst) tl_clientCASecretRef"

definition gatewayCRLSecretRef :: "fb_instance \<Rightarrow> string option" where
  "gatewayCRLSecretRef inst = Option.bind (gateway_listener inst) tl_crlSecretRef"

definition engineCRLSecretRef :: "fb_instance \<Rightarrow> string option" where
  "engineCRLSecretRef inst = Option.bind (engine_listener inst) tl_crlSecretRef"

definition gatewayDesiredMode :: "fb_instance \<Rightarrow> string" where
  "gatewayDesiredMode inst =
     (if \<not> gateway_tls_enabled inst then []
      else if gatewayClientCASecretRef inst \<noteq> None then GatewayTLSModeMutual else GatewayTLSModeOneWay)"

definition gatewayServedMode :: "fb_instance \<Rightarrow> string" where
  "gatewayServedMode inst =
     (case fi_gatewayTLS inst of
        None \<Rightarrow> []
      | Some t \<Rightarrow> if gt_mode t = [] then GatewayTLSModeOneWay else gt_mode t)"

definition gatewayPostureLevel :: "string \<Rightarrow> int" where
  "gatewayPostureLevel mode =
     (if mode = GatewayTLSModeMutual then 2 else if mode = GatewayTLSModeOneWay then 1 else 0)"

definition gatewayPostureTightening :: "fb_instance \<Rightarrow> bool" where
  "gatewayPostureTightening inst \<longleftrightarrow>
     gatewayPostureLevel (gatewayDesiredMode inst) > gatewayPostureLevel (gatewayServedMode inst)"

section \<open>The user's part of the template\<close>

definition userGatewayServiceAccountName :: "fb_instance \<Rightarrow> string" where
  "userGatewayServiceAccountName inst =
     (case fi_gatewayTemplate inst of Some t \<Rightarrow> p_serviceAccountName (pt_spec t) | None \<Rightarrow> [])"

definition SuffixGateway :: string where "SuffixGateway = ''-gateway''"

definition gatewayServiceAccountName :: "string \<Rightarrow> string" where
  "gatewayServiceAccountName instanceName = instanceName @ SuffixGateway"

text \<open>\<open>splitUserContainers\<close>: the first container of the primary's name, and all the others.\<close>

fun splitUserContainers :: "container list \<Rightarrow> string \<Rightarrow> container option \<times> container list" where
  "splitUserContainers [] primaryName = (None, [])"
| "splitUserContainers (c # cs) primaryName =
     (if c_name c = primaryName then (Some c, cs)
      else case splitUserContainers cs primaryName of (p, sidecars) \<Rightarrow> (p, c # sidecars))"

definition envoyImageFromUser :: "string \<Rightarrow> string \<Rightarrow> container option \<Rightarrow> string" where
  "envoyImageFromUser defaultRepo defaultTag primary =
     (case primary of
        Some c \<Rightarrow> if c_image c \<noteq> [] then c_image c else resolveImageRef None defaultRepo defaultTag
      | None \<Rightarrow> resolveImageRef None defaultRepo defaultTag)"

definition envoyImagePullPolicy :: "operator_env \<Rightarrow> container option \<Rightarrow> string \<Rightarrow> string" where
  "envoyImagePullPolicy env primary img =
     (case primary of
        Some c \<Rightarrow> if c_imagePullPolicy c \<noteq> [] then c_imagePullPolicy c else resolveContainerImagePullPolicy env img []
      | None \<Rightarrow> resolveContainerImagePullPolicy env img [])"

definition appendUserVolumes ::
  "volume list \<Rightarrow> volume list \<Rightarrow> (string \<Rightarrow> bool) \<Rightarrow> string list \<Rightarrow> volume list" where
  "appendUserVolumes operator userVolumes isProtected reserved =
     operator @ filter (\<lambda>v. \<not> List.member reserved (v_name v) \<and> \<not> aliasesProtectedSecret v isProtected) userVolumes"

definition automountForGateway :: "pod_spec \<Rightarrow> bool option" where
  "automountForGateway userPodSpec =
     (if p_serviceAccountName userPodSpec \<noteq> [] then p_automountServiceAccountToken userPodSpec else Some False)"

definition mergeMaps :: "(string, string) gomap \<Rightarrow> (string, string) fmap \<Rightarrow> (string, string) gomap" where
  "mergeMaps base overrides = (if overrides = fmempty then base else Some (mitems base ++\<^sub>f overrides))"

definition gatewayMetricsPort :: "fb_instance \<Rightarrow> int" where
  "gatewayMetricsPort inst = (if fi_metricsPort inst > 0 then fi_metricsPort inst else 9090)"

section \<open>Constants\<close>

definition gatewayContainerPort :: int where "gatewayContainerPort = 8080"
definition gatewayAdminPort :: int where "gatewayAdminPort = 9901"
definition gatewayWakeAgentHoldPort :: int where "gatewayWakeAgentHoldPort = 9902"
definition gatewayWakeAgentDemandPort :: int where "gatewayWakeAgentDemandPort = 9903"
definition gatewayWakeAgentRouteProbePort :: int where "gatewayWakeAgentRouteProbePort = 9905"
definition gatewayTerminationGraceSeconds :: int where "gatewayTerminationGraceSeconds = 15"
definition gatewayPreStopPropagationSeconds :: int where "gatewayPreStopPropagationSeconds = 5"
definition gatewayWakeAgentDrainSeconds :: int where "gatewayWakeAgentDrainSeconds = gatewayTerminationGraceSeconds"
definition gatewayPerConnectionBufferLimitBytes :: int where "gatewayPerConnectionBufferLimitBytes = 2097152"
definition gatewayEngineCAMountPath :: string where "gatewayEngineCAMountPath = ''/etc/envoy/tls/engine-ca''"
definition gatewayTLSMountPath :: string where "gatewayTLSMountPath = ''/etc/envoy/tls/gateway''"
definition gatewayEngineCRLMountPath :: string where "gatewayEngineCRLMountPath = ''/etc/envoy/tls/engine-crl''"
definition gatewayClientCRLMountPath :: string where "gatewayClientCRLMountPath = ''/etc/envoy/tls/client-crl''"
definition gatewayClientCAMountPath :: string where "gatewayClientCAMountPath = ''/etc/envoy/tls/client-ca''"
definition serviceAccountTokenMountPath :: string where
  "serviceAccountTokenMountPath = ''/var/run/secrets/kubernetes.io/serviceaccount''"
definition wakeAgentTokenExpirationSeconds :: int where "wakeAgentTokenExpirationSeconds = 3600"
definition gatewayConfigKey :: string where "gatewayConfigKey = ''envoy.yaml''"
definition tlsCRLSecretKey :: string where "tlsCRLSecretKey = ''crl.pem''"
definition AnnotationConfigHash :: string where "AnnotationConfigHash = ''firebolt.io/config-hash''"

text \<open>The security context of both containers, up to the user they run as.\<close>

definition gateway_security_context :: "int \<Rightarrow> security_context" where
  "gateway_security_context runAsUser =
     \<lparr>sc_allowPrivilegeEscalation = Some False, sc_readOnlyRootFilesystem = Some True, sc_runAsNonRoot = Some True,
      sc_runAsUser = Some runAsUser, sc_runAsGroup = None, sc_capabilitiesDrop = Some [''ALL''], sc_rest = K8s []\<rparr>"

definition healthz_probe :: "int \<Rightarrow> int \<Rightarrow> int \<Rightarrow> probe" where
  "healthz_probe period timeout failures =
     \<lparr>pr_initialDelaySeconds = 1, pr_timeoutSeconds = timeout, pr_periodSeconds = period, pr_successThreshold = 0,
      pr_failureThreshold = failures,
      pr_httpGet = Some \<lparr>hg_path = ''/healthz'', hg_scheme = ''HTTP'', hg_port = NamedPort ''metrics'', hg_rest = K8s []\<rparr>,
      pr_rest = K8s []\<rparr>"

definition pre_stop :: "lifecycle_handler \<Rightarrow> lifecycle" where
  "pre_stop h = \<lparr>lc_postStart = None, lc_preStop = Some h, lc_rest = K8s []\<rparr>"

section \<open>The wake agent\<close>

record wake_agent_config =
  wc_image :: string
  wc_imagePullPolicy :: string

definition wake_agent_token_volume :: volume where
  "wake_agent_token_volume =
     empty_volume\<lparr>v_name := GatewayWakeAgentTokenVolumeName,
       v_projected := Some
         [\<lparr>pj_secret = None, pj_configMap = None, pj_serviceAccountToken = Some (''token'', wakeAgentTokenExpirationSeconds), pj_downwardAPI = None\<rparr>,
          \<lparr>pj_secret = None, pj_configMap = Some ''kube-root-ca.crt'', pj_serviceAccountToken = None, pj_downwardAPI = None\<rparr>,
          \<lparr>pj_secret = None, pj_configMap = None, pj_serviceAccountToken = None, pj_downwardAPI = Some [(''namespace'', ''metadata.namespace'')]\<rparr>]\<rparr>"

definition buildWakeAgentContainer :: "wake_agent_config \<Rightarrow> container \<Rightarrow> (container \<times> volume) option" where
  "buildWakeAgentContainer cfg envoy =
     (if wc_image cfg = [] then None
      else Some
        (empty_container\<lparr>
           c_name := GatewayWakeAgentContainerName,
           c_image := wc_image cfg,
           c_imagePullPolicy := wc_imagePullPolicy cfg,
           c_args := Some [''wake-agent'',
             ''--hold-port='' @ itoa gatewayWakeAgentHoldPort,
             ''--demand-port='' @ itoa gatewayWakeAgentDemandPort,
             ''--envoy-admin-url=http://127.0.0.1:'' @ itoa gatewayAdminPort,
             ''--per-hold-bytes='' @ itoa gatewayPerConnectionBufferLimitBytes,
             ''--route-probe-url=http://127.0.0.1:'' @ itoa gatewayWakeAgentRouteProbePort @ ''/health/ready''],
           c_env := Some
             (\<lparr>ev_name = ''POD_NAMESPACE'', ev_value = [],
               ev_valueFrom = Some \<lparr>vs_fieldRef = Some \<lparr>fr_apiVersion = [], fr_fieldPath = ''metadata.namespace''\<rparr>,
                 vs_secretKeyRef = None, vs_configMapKeyRef = None, vs_resourceFieldRef = None, vs_rest = K8s []\<rparr>\<rparr>
              # (if ''memory'' |\<in>| fmdom (mitems (rr_limits (c_resources envoy)))
                 then [\<lparr>ev_name = ''ENVOY_MEMORY_LIMIT_BYTES'', ev_value = [],
                        ev_valueFrom = Some \<lparr>vs_fieldRef = None, vs_secretKeyRef = None, vs_configMapKeyRef = None,
                          vs_resourceFieldRef = Some (GatewayContainerName, ''limits.memory''), vs_rest = K8s []\<rparr>\<rparr>]
                 else [])),
           c_resources := \<lparr>rr_requests = Some (fmupd ''memory'' (Quantity (32 * Mi) ''32Mi'')
                                               (fmupd ''cpu'' (Quantity 10000000 ''10m'') fmempty)),
                           rr_limits = Some (fmupd ''memory'' (Quantity (128 * Mi) ''128Mi'') fmempty), rr_claims = None\<rparr>,
           c_lifecycle := Some (pre_stop \<lparr>lh_httpGet = None, lh_exec = None, lh_sleep = Some gatewayWakeAgentDrainSeconds, lh_rest = K8s []\<rparr>),
           c_ports := Some [\<lparr>po_name = ''wake-demand'', po_port = gatewayWakeAgentDemandPort\<rparr>],
           c_securityContext := Some (gateway_security_context 65532),
           c_volumeMounts := Some [mk_mount GatewayWakeAgentTokenVolumeName serviceAccountTokenMountPath True]\<rparr>,
         wake_agent_token_volume))"

section \<open>Envoy\<close>

text \<open>A Secret mounted into Envoy: its volume name, path, Secret and the keys it is cut down to.\<close>

type_synonym secret_mount = "string \<times> string \<times> string \<times> string list"

definition gateway_secret_mounts :: "fb_instance \<Rightarrow> secret_mount list" where
  "gateway_secret_mounts inst =
     (if engineUpstreamTLSReady inst
      then (GatewayEngineCAVolumeName, gatewayEngineCAMountPath, engineCABundleSecretName (in_name inst), [engineTLSCASecretKey])
           # (case engineCRLSecretRef inst of
                Some n \<Rightarrow> [(GatewayEngineCRLVolumeName, gatewayEngineCRLMountPath, n, [tlsCRLSecretKey])] | None \<Rightarrow> [])
      else [])
     @ (if gatewayDownstreamTLSReady inst
        then (GatewayTLSVolumeName, gatewayTLSMountPath, (case fi_gatewayTLS inst of Some t \<Rightarrow> gt_secretName t | None \<Rightarrow> []), [])
             # (case gatewayClientCASecretRef inst of
                  Some n \<Rightarrow> (GatewayClientCAVolumeName, gatewayClientCAMountPath, n, [engineTLSCASecretKey])
                            # (case gatewayCRLSecretRef inst of
                                 Some m \<Rightarrow> [(GatewayClientCRLVolumeName, gatewayClientCRLMountPath, m, [tlsCRLSecretKey])]
                               | None \<Rightarrow> [])
                | None \<Rightarrow> [])
        else [])"

definition secret_mount_volume :: "secret_mount \<Rightarrow> volume" where
  "secret_mount_volume m =
     (case m of (name, path, sec, keys) \<Rightarrow> empty_volume\<lparr>v_name := name, v_secret := Some sec, v_items := keys\<rparr>)"

definition gateway_operator_volumes :: "fb_instance \<Rightarrow> string \<Rightarrow> volume list" where
  "gateway_operator_volumes inst configMapName =
     [empty_volume\<lparr>v_name := GatewayConfigVolumeName, v_configMap := Some configMapName, v_items := [gatewayConfigKey]\<rparr>,
      empty_volume\<lparr>v_name := GatewayTmpVolumeName, v_emptyDir := Some \<lparr>ed_medium = [], ed_sizeLimit = None\<rparr>\<rparr>]
     @ map secret_mount_volume (gateway_secret_mounts inst)"

definition envoy_container ::
  "operator_env \<Rightarrow> string \<times> string \<Rightarrow> (int \<Rightarrow> int \<Rightarrow> string) \<Rightarrow> fb_instance \<Rightarrow> container option \<Rightarrow> container" where
  "envoy_container env defaultImage preStop inst userPrimary =
     (let img = envoyImageFromUser (fst defaultImage) (snd defaultImage) userPrimary
      in empty_container\<lparr>
           c_name := GatewayContainerName,
           c_image := img,
           c_imagePullPolicy := envoyImagePullPolicy env userPrimary img,
           c_args := Some [''envoy'', ''-c'', ''/etc/envoy/envoy.yaml'', ''--drain-time-s'', ''0'', ''--drain-strategy'', ''immediate''],
           c_ports := Some [\<lparr>po_name = ''http'', po_port = gatewayContainerPort\<rparr>, \<lparr>po_name = ''metrics'', po_port = gatewayMetricsPort inst\<rparr>],
           c_lifecycle := Some (pre_stop \<lparr>lh_httpGet = None,
             lh_exec = Some [''bash'', ''-c'', preStop gatewayAdminPort gatewayPreStopPropagationSeconds], lh_sleep = None, lh_rest = K8s []\<rparr>),
           c_livenessProbe := Some (healthz_probe 15 3 0),
           c_readinessProbe := Some (healthz_probe 2 2 2),
           c_securityContext := Some (gateway_security_context 101),
           c_resources := (case userPrimary of
                             Some c \<Rightarrow> if HasContainerResources (c_resources c) then c_resources c else empty_resources
                           | None \<Rightarrow> empty_resources),
           c_volumeMounts := Some ([mk_mount GatewayConfigVolumeName ''/etc/envoy'' True, mk_mount GatewayTmpVolumeName ''/tmp'' False]
             @ map (\<lambda>(name, path, sec, keys). mk_mount name path True) (gateway_secret_mounts inst))\<rparr>)"

section \<open>The template\<close>

definition gateway_reserved_volumes :: "string list" where
  "gateway_reserved_volumes =
     [GatewayConfigVolumeName, GatewayTmpVolumeName, GatewayEngineCAVolumeName, GatewayTLSVolumeName, GatewayClientCAVolumeName,
      GatewayEngineCRLVolumeName, GatewayClientCRLVolumeName, GatewayWakeAgentTokenVolumeName]"

definition effectiveGatewayPodTemplate ::
  "operator_env \<Rightarrow> string \<times> string \<Rightarrow> (int \<Rightarrow> int \<Rightarrow> string) \<Rightarrow> fb_instance \<Rightarrow> string \<Rightarrow> string
     \<Rightarrow> (string, string) fmap \<Rightarrow> wake_agent_config \<Rightarrow> pod_template" where
  "effectiveGatewayPodTemplate env defaultImage preStop inst configMapName configHash baseLabels wakeAgent =
     (let user = (case fi_gatewayTemplate inst of Some t \<Rightarrow> t | None \<Rightarrow> empty_pod_template);
          userPodSpec = pt_spec user;
          (userPrimary, userSidecars) = splitUserContainers (sitems (p_containers userPodSpec)) GatewayContainerName;
          envoy = envoy_container env defaultImage preStop inst userPrimary;
          agent = buildWakeAgentContainer wakeAgent envoy;
          containers = envoy # userSidecars @ (case agent of Some (c, v) \<Rightarrow> [c] | None \<Rightarrow> []);
          operatorVolumes = gateway_operator_volumes inst configMapName @ (case agent of Some (c, v) \<Rightarrow> [v] | None \<Rightarrow> [])
      in \<lparr>pt_labels = mergeMaps (pt_labels user) baseLabels,
          pt_annotations = mergeMaps (pt_annotations user) (fmupd AnnotationConfigHash configHash fmempty),
          pt_meta = empty_template_meta,
          pt_spec = empty_pod_spec\<lparr>
            p_serviceAccountName := (if p_serviceAccountName userPodSpec = [] then gatewayServiceAccountName (in_name inst)
                                     else p_serviceAccountName userPodSpec),
            p_automountServiceAccountToken := automountForGateway userPodSpec,
            p_terminationGracePeriodSeconds := Some gatewayTerminationGraceSeconds,
            p_enableServiceLinks := Some False,
            p_nodeSelector := p_nodeSelector userPodSpec,
            p_tolerations := p_tolerations userPodSpec,
            p_affinity := p_affinity userPodSpec,
            p_topologySpreadConstraints := p_topologySpreadConstraints userPodSpec,
            p_priorityClassName := p_priorityClassName userPodSpec,
            p_securityContext := p_securityContext userPodSpec,
            p_imagePullSecrets := p_imagePullSecrets userPodSpec,
            p_initContainers := p_initContainers userPodSpec,
            p_containers := Some containers,
            p_volumes := Some (appendUserVolumes operatorVolumes (sitems (p_volumes userPodSpec)) (instanceProtectedSecret inst)
                                 gateway_reserved_volumes)\<rparr>\<rparr>)"

end
