(* ===== verification/Instance_Gateway.thy ===== *)
theory Instance_Gateway
  imports Gateway_Pod
begin

text \<open>
  The gateway of an Instance (\<open>instance_gateway.go\<close> and the second half of \<open>instance_tls.go\<close>): the configuration it
  runs, the hash that rolls it out, its Deployment, and the certificate of the listener with the staged change to a
  stricter posture.

  The configuration of Envoy is the data the template of \<open>buildEnvoyConfigYAML\<close> is filled with; its text is the
  argument \<open>gx_text\<close>. Of the Deployment the replicas, the strategy and the pod template are modelled.
\<close>

section \<open>Configuration\<close>

text \<open>The TLS context of the client-facing listener: whether it asks for a client certificate, and whether it
  loads a revocation list; and that of the connections to the engines.\<close>

record downstream_tls =
  dt_requireClientCertificate :: bool
  dt_crl :: bool

record upstream_tls =
  ut_namespace :: string
  ut_crl :: bool

record serving_config =
  sc_namespace :: string
  sc_downstream :: "downstream_tls option"
  sc_upstream :: "upstream_tls option"
  sc_metricsPort :: int
  sc_wake :: bool

datatype envoy_config = FailClosed int | Serving serving_config

definition buildListenerDownstreamTLSTransportSocket :: "fb_instance \<Rightarrow> downstream_tls option" where
  "buildListenerDownstreamTLSTransportSocket inst =
     (if \<not> gatewayDownstreamTLSReady inst then None
      else Some \<lparr>dt_requireClientCertificate = gatewayClientCASecretRef inst \<noteq> None,
                 dt_crl = gatewayClientCASecretRef inst \<noteq> None \<and> gatewayCRLSecretRef inst \<noteq> None\<rparr>)"

definition buildDFPUpstreamTLSTransportSocket :: "fb_instance \<Rightarrow> upstream_tls option" where
  "buildDFPUpstreamTLSTransportSocket inst =
     (if \<not> engineUpstreamTLSReady inst then None
      else Some \<lparr>ut_namespace = in_namespace inst, ut_crl = engineCRLSecretRef inst \<noteq> None\<rparr>)"

definition buildEnvoyConfigYAML :: "fb_instance \<Rightarrow> bool \<Rightarrow> envoy_config" where
  "buildEnvoyConfigYAML inst wakeEnabled =
     (if gatewayDownstreamTLSPending inst then FailClosed (gatewayMetricsPort inst)
      else Serving \<lparr>sc_namespace = in_namespace inst,
             sc_downstream = buildListenerDownstreamTLSTransportSocket inst,
             sc_upstream = buildDFPUpstreamTLSTransportSocket inst,
             sc_metricsPort = gatewayMetricsPort inst, sc_wake = wakeEnabled\<rparr>)"

section \<open>The Deployment\<close>

text \<open>A Deployment as read: its generation, the replicas and the hash of its template, and its status.\<close>

record gw_deployment =
  dp_generation :: int
  dp_replicas :: "int option"
  dp_configHash :: string
  dp_observedGeneration :: int
  dp_updatedReplicas :: int
  dp_statusReplicas :: int
  dp_availableReplicas :: int
  dp_readyReplicas :: int

record rolling_update =
  ru_maxUnavailable :: string
  ru_maxSurge :: string

record gw_desired =
  gd_replicas :: int
  gd_configHash :: string
  gd_strategy :: rolling_update
  gd_template :: pod_template

datatype gw_write = GwRBAC | GwConfigMap envoy_config | GwDeployment gw_desired | GwService | GwPDB

record gateway_api = instance_api +
  gx_text :: "envoy_config \<Rightarrow> string"
  gx_wakeAgentImage :: string
  gx_wakeAgentImagePullPolicy :: string
  gx_envoyImage :: "string \<times> string"
  gx_preStop :: "int \<Rightarrow> int \<Rightarrow> string"
  gx_deployment :: "engine_error + gw_deployment option"
  gx_write :: "gw_write \<Rightarrow> engine_error option"

abbreviation tls_api :: "gateway_api \<Rightarrow> instance_api" where "tls_api api \<equiv> instance_api.truncate api"

definition wakeAgentEnabled :: "gateway_api \<Rightarrow> fb_instance \<Rightarrow> bool" where
  "wakeAgentEnabled api inst \<longleftrightarrow> gx_wakeAgentImage api \<noteq> [] \<and> userGatewayServiceAccountName inst = []"

definition deploymentRolledOut :: "gw_deployment \<Rightarrow> bool" where
  "deploymentRolledOut d \<longleftrightarrow>
     (let desired = (case dp_replicas d of Some n \<Rightarrow> n | None \<Rightarrow> 1)
      in dp_observedGeneration d \<ge> dp_generation d \<and> dp_updatedReplicas d = desired \<and>
         dp_statusReplicas d = desired \<and> dp_availableReplicas d = desired)"

definition gatewayCRLSecretUsable :: "gateway_api \<Rightarrow> string \<Rightarrow> engine_error + bool" where
  "gatewayCRLSecretUsable api name =
     (case au_getSecret api name of
        Inl e \<Rightarrow> Inl e
      | Inr None \<Rightarrow> Inr False
      | Inr (Some s) \<Rightarrow> Inr (se_data s tlsCRLSecretKey \<noteq> []))"

definition usable_crl :: "gateway_api \<Rightarrow> string option \<Rightarrow> engine_error + string list" where
  "usable_crl api ref =
     (case ref of
        None \<Rightarrow> Inr []
      | Some n \<Rightarrow> and_then (gatewayCRLSecretUsable api n) (\<lambda>ok. Inr (if ok then [n] else [])))"

fun secret_versions :: "gateway_api \<Rightarrow> string list \<Rightarrow> engine_error + string list" where
  "secret_versions api [] = Inr []"
| "secret_versions api (n # ns) =
     (case au_getSecret api n of
        Inl e \<Rightarrow> Inl e
      | Inr None \<Rightarrow> secret_versions api ns
      | Inr (Some s) \<Rightarrow> and_then (secret_versions api ns) (\<lambda>ps. Inr ((n @ ''='' @ se_resourceVersion s) # ps)))"

definition gatewayTLSSecretVersions :: "gateway_api \<Rightarrow> fb_instance \<Rightarrow> engine_error + string" where
  "gatewayTLSSecretVersions api inst =
     and_then (if gatewayDownstreamTLSReady inst
               then and_then (if gatewayClientCASecretRef inst \<noteq> None then usable_crl api (gatewayCRLSecretRef inst) else Inr [])
                      (\<lambda>crl. Inr (map gt_secretName (case fi_gatewayTLS inst of Some t \<Rightarrow> [t] | None \<Rightarrow> [])
                                   @ (case gatewayClientCASecretRef inst of Some n \<Rightarrow> [n] | None \<Rightarrow> []) @ crl))
               else Inr []) (\<lambda>down.
     and_then (if engineUpstreamTLSReady inst
               then and_then (usable_crl api (engineCRLSecretRef inst))
                      (\<lambda>crl. Inr (engineCABundleSecretName (in_name inst) # crl))
               else Inr []) (\<lambda>up.
     and_then (secret_versions api (down @ up)) (\<lambda>parts. Inr (join_with CHR '','' parts))))"

definition config_hash :: "operator_env \<Rightarrow> (envoy_config \<Rightarrow> string) \<Rightarrow> envoy_config \<Rightarrow> string \<Rightarrow> string" where
  "config_hash env txt cfg versions =
     contentHash env (if versions \<noteq> [] then txt cfg @ CHR 0x00 # versions else txt cfg)"

definition gatewayConfigHash :: "operator_env \<Rightarrow> gateway_api \<Rightarrow> fb_instance \<Rightarrow> envoy_config \<Rightarrow> engine_error + string" where
  "gatewayConfigHash env api inst cfg =
     and_then (gatewayTLSSecretVersions api inst) (\<lambda>v. Inr (config_hash env (gx_text api) cfg v))"

definition gatewayServingCurrentConfig :: "operator_env \<Rightarrow> gateway_api \<Rightarrow> fb_instance \<Rightarrow> engine_error + bool" where
  "gatewayServingCurrentConfig env api inst =
     (case gx_deployment api of
        Inl e \<Rightarrow> Inl e
      | Inr None \<Rightarrow> Inr False
      | Inr (Some dep) \<Rightarrow>
          and_then (gatewayConfigHash env api inst (buildEnvoyConfigYAML inst (wakeAgentEnabled api inst))) (\<lambda>want.
            Inr (dp_configHash dep = want \<and> deploymentRolledOut dep)))"

definition isGatewayReady :: "gateway_api \<Rightarrow> engine_error + bool" where
  "isGatewayReady api =
     (case gx_deployment api of
        Inl e \<Rightarrow> Inl e | Inr None \<Rightarrow> Inr False | Inr (Some dep) \<Rightarrow> Inr (dp_readyReplicas dep > 0))"

definition gatewayRollingUpdateStrategy :: "fb_instance \<Rightarrow> rolling_update" where
  "gatewayRollingUpdateStrategy inst =
     (if gatewayDownstreamTLSPending inst then \<lparr>ru_maxUnavailable = ''100%'', ru_maxSurge = ''0''\<rparr>
      else \<lparr>ru_maxUnavailable = ''0'', ru_maxSurge = ''25%''\<rparr>)"

definition wakeAgentConfig :: "gateway_api \<Rightarrow> fb_instance \<Rightarrow> wake_agent_config" where
  "wakeAgentConfig api inst =
     (if wakeAgentEnabled api inst
      then \<lparr>wc_image = gx_wakeAgentImage api, wc_imagePullPolicy = gx_wakeAgentImagePullPolicy api\<rparr>
      else \<lparr>wc_image = [], wc_imagePullPolicy = []\<rparr>)"

definition desired_deployment :: "operator_env \<Rightarrow> gateway_api \<Rightarrow> fb_instance \<Rightarrow> string \<Rightarrow> gw_desired" where
  "desired_deployment env api inst configHash =
     \<lparr>gd_replicas = (case fi_gatewayReplicas inst of Some n \<Rightarrow> n | None \<Rightarrow> 2), gd_configHash = configHash,
      gd_strategy = gatewayRollingUpdateStrategy inst,
      gd_template = effectiveGatewayPodTemplate env (gx_envoyImage api) (gx_preStop api) inst
        (in_name inst @ SuffixGateway @ ''-config'') configHash (instanceLabels (in_name inst) ''gateway'') (wakeAgentConfig api inst)\<rparr>"

text \<open>The writes of \<open>ensureGatewayResources\<close> in order, up to the first that fails.\<close>

fun do_writes :: "gateway_api \<Rightarrow> gw_write list \<Rightarrow> engine_error option \<times> gw_write list" where
  "do_writes api [] = (None, [])"
| "do_writes api (x # xs) =
     (case gx_write api x of
        Some e \<Rightarrow> (Some e, [])
      | None \<Rightarrow> (case do_writes api xs of (r, done) \<Rightarrow> (r, x # done)))"

definition ensureGatewayResources ::
  "operator_env \<Rightarrow> gateway_api \<Rightarrow> fb_instance \<Rightarrow> engine_error option \<times> gw_write list" where
  "ensureGatewayResources env api inst =
     (let cfg = buildEnvoyConfigYAML inst (wakeAgentEnabled api inst);
          rbac = (if userGatewayServiceAccountName inst \<noteq> [] then [] else [GwRBAC])
      in case do_writes api (rbac @ [GwConfigMap cfg]) of
           (Some e, ws) \<Rightarrow> (Some e, ws)
         | (None, ws) \<Rightarrow>
             (case gatewayConfigHash env api inst cfg of
                Inl e \<Rightarrow> (Some e, ws)
              | Inr h \<Rightarrow>
                  (case do_writes api [GwDeployment (desired_deployment env api inst h), GwService, GwPDB] of
                     (r, ws') \<Rightarrow> (r, ws @ ws'))))"

definition checkGatewayCRLSecrets :: "gateway_api \<Rightarrow> fb_instance \<Rightarrow> engine_error option" where
  "checkGatewayCRLSecrets api inst =
     (let check = (\<lambda>open ref lbl.
            (case ref of
               Some n \<Rightarrow> if open then (case checkSecretKeyPresent (auth_api.truncate api) (in_namespace inst) n tlsCRLSecretKey lbl of
                                       Inl e \<Rightarrow> Some e | Inr _ \<Rightarrow> None) else None
             | None \<Rightarrow> None))
      in case check (gatewayDownstreamTLSReady inst \<and> gatewayClientCASecretRef inst \<noteq> None)
                (gatewayCRLSecretRef inst) ''gateway client CRL secret'' of
           Some e \<Rightarrow> Some e
         | None \<Rightarrow> check (engineUpstreamTLSReady inst) (engineCRLSecretRef inst) ''gateway engine CRL secret'')"

section \<open>The certificate of the listener\<close>

definition SuffixGatewayTLS :: string where "SuffixGatewayTLS = ''-gateway-tls''"

definition gatewayTLSCertificateName :: "string \<Rightarrow> string" where
  "gatewayTLSCertificateName instanceName = instanceName @ SuffixGatewayTLS"

definition gatewayServiceDNSNames :: "fb_instance \<Rightarrow> string list" where
  "gatewayServiceDNSNames inst =
     (let name = in_name inst @ SuffixGateway; ns = in_namespace inst
      in [name, name @ ''.'' @ ns, name @ ''.'' @ ns @ ''.svc'', name @ ''.'' @ ns @ ''.svc.cluster.local''])"

definition gatewayTLSDNSNames :: "fb_instance \<Rightarrow> tls_listener \<Rightarrow> string list" where
  "gatewayTLSDNSNames inst l = gatewayServiceDNSNames inst @ tl_dnsNames l"

definition buildGatewayTLSCertificate :: "fb_instance \<Rightarrow> tls_listener \<Rightarrow> cert_manager_spec \<Rightarrow> certificate" where
  "buildGatewayTLSCertificate inst l policy =
     tls_certificate inst policy (gatewayTLSCertificateName (in_name inst)) ''gateway-tls'' (gatewayTLSDNSNames inst l)"

definition gatewayTLSSecretReady :: "secret \<Rightarrow> bool" where
  "gatewayTLSSecretReady s \<longleftrightarrow> se_data s TLSCertKey \<noteq> [] \<and> se_data s TLSPrivateKeyKey \<noteq> []"

text \<open>The Secret to serve with, and the name of the Certificate that issues it, empty for a Secret of the user.\<close>

definition gateway_cert_source ::
  "gateway_api \<Rightarrow> fb_instance \<Rightarrow> tls_listener \<Rightarrow> engine_error + string \<times> string" where
  "gateway_cert_source api inst l =
     (case tl_secretRef l of
        Some n \<Rightarrow> Inr (n, [])
      | None \<Rightarrow>
          (case tl_certManager l of
             None \<Rightarrow> Inl (Panic ''spec.tls.gateway.certManager is nil'')
           | Some policy \<Rightarrow>
               (let desired = buildGatewayTLSCertificate inst l policy
                in case ti_applyCert api desired of
                     Some e \<Rightarrow> Inl e
                   | None \<Rightarrow> Inr (crt_secretName desired, crt_name desired))))"

text \<open>The fingerprint of the client authority: empty without mutual TLS, \<open>None\<close> while its Secret lacks it.\<close>

definition desired_client_ca ::
  "operator_env \<Rightarrow> gateway_api \<Rightarrow> tls_listener \<Rightarrow> engine_error + string option" where
  "desired_client_ca env api l =
     (case tl_clientCASecretRef l of
        None \<Rightarrow> Inr (Some [])
      | Some n \<Rightarrow>
          and_then (au_getSecret api n) (\<lambda>s.
            (let ca = (case s of Some x \<Rightarrow> se_data x engineTLSCASecretKey | None \<Rightarrow> [])
             in Inr (if ca = [] then None else Some (caFingerprint env ca)))))"

definition client_ca_swapped :: "fb_instance \<Rightarrow> string \<Rightarrow> bool" where
  "client_ca_swapped inst fp \<longleftrightarrow>
     gatewayDesiredMode inst = GatewayTLSModeMutual \<and> gatewayServedMode inst = GatewayTLSModeMutual \<and>
     (case fi_gatewayTLS inst of
        Some t \<Rightarrow> gt_clientCAFingerprint t \<noteq> [] \<and> gt_clientCAFingerprint t \<noteq> fp
      | None \<Rightarrow> False)"

text \<open>Whether the certificate is issued and in its Secret, which must be the Certificate's own.\<close>

definition gateway_cert_ready :: "gateway_api \<Rightarrow> string \<Rightarrow> string \<Rightarrow> engine_error + bool" where
  "gateway_cert_ready api secretName certName =
     and_then (if certName \<noteq> [] then cert_issued (tls_api api) certName else Inr True) (\<lambda>issued.
       if \<not> issued then Inr False
       else and_then (au_getSecret api secretName) (\<lambda>secret.
              case secret of
                None \<Rightarrow> Inr False
              | Some s \<Rightarrow>
                  if \<not> gatewayTLSSecretReady s then Inr False
                  else (case (if certName \<noteq> [] then verifyCertManagerIssued s certName else None) of
                          Some e \<Rightarrow> Inl e | None \<Rightarrow> Inr True)))"

text \<open>The end of the function, once a stricter posture is out of the way.\<close>

definition record_gateway_tls ::
  "gateway_api \<Rightarrow> time \<Rightarrow> string \<Rightarrow> string \<Rightarrow> string \<Rightarrow> fb_instance \<Rightarrow> (engine_error + bool) \<times> fb_instance" where
  "record_gateway_tls api createdAt secretName certName fp inst =
     (case gateway_cert_ready api secretName certName of
        Inr True \<Rightarrow>
          (Inr True, inst\<lparr>fi_gatewayTLS := Some \<lparr>gt_secretName = secretName, gt_createdAt = createdAt,
                        gt_mode = gatewayDesiredMode inst, gt_clientCAFingerprint = fp\<rparr>\<rparr>)
      | r \<Rightarrow> (r, inst))"

text \<open>Ready and staging, or an error.\<close>

definition ensureGatewayTLSCertificate ::
  "operator_env \<Rightarrow> gateway_api \<Rightarrow> fb_instance \<Rightarrow> tls_listener \<Rightarrow> (engine_error + bool \<times> bool) \<times> fb_instance" where
  "ensureGatewayTLSCertificate env api inst l =
     (case gateway_cert_source api inst l of
        Inl e \<Rightarrow> (Inl e, inst)
      | Inr (secretName, certName) \<Rightarrow>
          (case desired_client_ca env api l of
             Inl e \<Rightarrow> (Inl e, inst)
           | Inr None \<Rightarrow> (Inr (False, False), inst\<lparr>fi_gatewayTLS := None\<rparr>)
           | Inr (Some fp) \<Rightarrow>
               (let createdAt = (case fi_gatewayTLS inst of Some t \<Rightarrow> gt_createdAt t | None \<Rightarrow> au_now api);
                    finish = (\<lambda>i. case record_gateway_tls api createdAt secretName certName fp i of
                                   (Inl e, i') \<Rightarrow> (Inl e, i') | (Inr ready, i') \<Rightarrow> (Inr (ready, False), i'))
                in if gatewayPostureTightening inst \<or> client_ca_swapped inst fp
                   then (let closed = inst\<lparr>fi_gatewayTLS := None\<rparr>
                         in case gatewayServingCurrentConfig env api closed of
                              Inl e \<Rightarrow> (Inl e, closed)
                            | Inr False \<Rightarrow> (Inr (False, True), closed)
                            | Inr True \<Rightarrow> finish closed)
                   else finish inst)))"

definition InstanceConditionGatewayTLSReady :: string where "InstanceConditionGatewayTLSReady = ''GatewayTLSReady''"

definition gateway_tls_cond :: "condition_api \<Rightarrow> bool \<Rightarrow> string \<Rightarrow> string \<Rightarrow> fb_instance \<Rightarrow> fb_instance" where
  "gateway_tls_cond ca b reason msg inst = setInstanceCondition ca inst InstanceConditionGatewayTLSReady b reason msg"

definition condition_true :: "condition_api \<Rightarrow> fb_instance \<Rightarrow> string \<Rightarrow> bool" where
  "condition_true ca inst t \<longleftrightarrow>
     (case ca_find ca (in_conditions inst) t of Some c \<Rightarrow> cd_status c = ''True'' | None \<Rightarrow> False)"

definition gateway_tls_off :: "condition_api \<Rightarrow> fb_instance \<Rightarrow> fb_instance" where
  "gateway_tls_off ca inst =
     gateway_tls_cond ca True ''Disabled'' ''spec.tls.gateway is unset or disabled'' (inst\<lparr>fi_gatewayTLS := None\<rparr>)"

definition ensureGatewayTLS ::
  "condition_api \<Rightarrow> operator_env \<Rightarrow> gateway_api \<Rightarrow> fb_instance \<Rightarrow> engine_error option \<times> fb_instance" where
  "ensureGatewayTLS ca env api inst =
     (case gateway_listener inst of
        None \<Rightarrow> (None, gateway_tls_off ca inst)
      | Some l \<Rightarrow>
          if ValidateTLS inst \<noteq> [] then
            (let e = aggregate (ValidateTLS inst)
             in (Some e, gateway_tls_cond ca False ''TLSSpecInvalid'' (error_text e) inst))
          else if \<not> tl_enabled l then (None, gateway_tls_off ca inst)
          else case ensureGatewayTLSCertificate env api inst l of
                 (Inl e, i) \<Rightarrow> (Some e, gateway_tls_cond ca False ''CertificateEnsureFailed'' (error_text e) i)
               | (Inr (_, True), i) \<Rightarrow>
                   (None, gateway_tls_cond ca False ''StagingFailClosed''
                      ''tightening gateway TLS posture: serving fail-closed until the previous listener's pods are fully replaced'' i)
               | (Inr (False, False), i) \<Rightarrow>
                   (None, gateway_tls_cond ca False
                      (if tl_secretRef l \<noteq> None then ''SecretPending'' else ''CertificatePending'')
                      (if tl_secretRef l \<noteq> None
                       then ''waiting for the referenced gateway TLS secret to exist and carry tls.crt and tls.key''
                       else ''waiting for cert-manager to issue the gateway TLS certificate'') i)
               | (Inr (True, False), i) \<Rightarrow>
                   (case (if condition_true ca i InstanceConditionGatewayTLSReady then Inr True
                          else gatewayServingCurrentConfig env api i) of
                      Inl e \<Rightarrow> (Some e, gateway_tls_cond ca False ''CertificateEnsureFailed'' (error_text e) i)
                    | Inr False \<Rightarrow>
                        (None, gateway_tls_cond ca False ''SecureRolloutPending''
                           ''gateway TLS certificate provisioned; waiting for the secure listener to finish rolling out'' i)
                    | Inr True \<Rightarrow>
                        (None, gateway_tls_cond ca True ''Ready'' ''gateway TLS certificate is provisioned and serving'' i)))"

definition publishRolledEngineTrustCAs ::
  "operator_env \<Rightarrow> gateway_api \<Rightarrow> engine_error + string list \<Rightarrow> fb_instance \<Rightarrow> fb_instance" where
  "publishRolledEngineTrustCAs env api bundle inst =
     (case bundle of
        Inl e \<Rightarrow> inst
      | Inr fps \<Rightarrow>
          if \<not> engineUpstreamTLSReady inst then inst\<lparr>fi_rolledTrustCAs := []\<rparr>
          else (case gatewayServingCurrentConfig env api inst of
                  Inr True \<Rightarrow> inst\<lparr>fi_rolledTrustCAs := fps\<rparr> | _ \<Rightarrow> inst))"

end
