(* ===== verification/Instance_Controller.thy ===== *)
theory Instance_Controller
  imports Instance_Gateway Instance_Admission
begin

text \<open>
  The controller of an Instance (\<open>instance_controller.go\<close>): the roll-up of its conditions, its phase, and
  \<open>Reconcile\<close> from the point where the Instance has its finalizer and identifier. The metadata service, its
  database and the checks of the pod templates are outcomes in \<open>pass_api\<close>; authentication, TLS, trust bundle and
  gateway are the functions of their theories.
\<close>

section \<open>Roll-up and phase\<close>

definition InstanceConditionReady :: string where "InstanceConditionReady = ''Ready''"
definition InstanceConditionMetadataReady :: string where "InstanceConditionMetadataReady = ''MetadataReady''"
definition InstanceConditionGatewayReady :: string where "InstanceConditionGatewayReady = ''GatewayReady''"

definition ready_components :: "string list" where
  "ready_components = [InstanceConditionMetadataReady, InstanceConditionGatewayReady, InstanceConditionEngineTLSReady,
     InstanceConditionGatewayTLSReady]"

fun rollup :: "condition_api \<Rightarrow> string list \<Rightarrow> fb_instance \<Rightarrow> fb_instance" where
  "rollup ca [] inst =
     setInstanceCondition ca inst InstanceConditionReady True ''AllComponentsReady''
       ''metadata, gateway, and TLS certificates are ready''"
| "rollup ca (c # cs) inst =
     (case ca_find ca (in_conditions inst) c of
        None \<Rightarrow> setInstanceCondition ca inst InstanceConditionReady False ''Initializing'' (c @ '' has not been observed yet'')
      | Some x \<Rightarrow>
          if cd_status x \<noteq> ''True''
          then setInstanceCondition ca inst InstanceConditionReady False (cd_reason x) (c @ '': '' @ cd_message x)
          else rollup ca cs inst)"

definition setInstanceReadyRollup :: "condition_api \<Rightarrow> fb_instance \<Rightarrow> fb_instance" where
  "setInstanceReadyRollup ca inst = rollup ca ready_components inst"

definition computePhase :: "condition_api \<Rightarrow> fb_instance \<Rightarrow> instance_phase" where
  "computePhase ca inst =
     (if fi_phase inst = InstFailed then InstFailed
      else if condition_true ca inst InstanceConditionReady then InstReady
      else if fi_phase inst = InstReady \<or> fi_phase inst = Degraded then Degraded
      else Provisioning)"

definition headline :: "condition_api \<Rightarrow> fb_instance \<Rightarrow> fb_instance" where
  "headline ca inst = (let i = setInstanceReadyRollup ca inst in i\<lparr>fi_phase := computePhase ca i\<rparr>)"

section \<open>The template gate\<close>

definition validateTemplateSecretRefs :: "pod_template \<Rightarrow> string \<Rightarrow> (string \<Rightarrow> bool) \<Rightarrow> field_error list" where
  "validateTemplateSecretRefs tpl base isProtected =
     ValidateNoSecretAliasVolumes (sitems (p_volumes (pt_spec tpl))) (path_child base ''volumes'') isProtected
     @ ValidateNoSecretRefEnv (sitems (p_containers (pt_spec tpl))) (path_child base ''containers'') isProtected
     @ ValidateNoSecretRefEnv (sitems (p_initContainers (pt_spec tpl))) (path_child base ''initContainers'') isProtected"

definition validateInstanceTemplates :: "fb_instance \<Rightarrow> field_error list \<times> field_error list" where
  "validateInstanceTemplates inst =
     (let isProtected = instanceProtectedSecret inst
      in (ValidatePodTemplate (fi_gatewayTemplate inst) ''spec.gateway.template'' GatewayPodTemplateRules
          @ (case fi_gatewayTemplate inst of
               Some t \<Rightarrow> validateTemplateSecretRefs t ''spec.gateway.template.spec'' isProtected | None \<Rightarrow> []),
          ValidatePodTemplate (fi_metadataTemplate inst) ''spec.metadata.template'' MetadataPodTemplateRules
          @ (case fi_metadataTemplate inst of
               Some t \<Rightarrow> validateTemplateSecretRefs t ''spec.metadata.template.spec'' isProtected | None \<Rightarrow> [])))"

section \<open>Reconcile\<close>

record pass_api = gateway_api +
  px_postgres :: "engine_error option"
  px_metadata :: "engine_error option"
  px_metadataReady :: "engine_error + bool"
  px_deploymentAfter :: "engine_error + gw_deployment option"
  px_statusWrite :: "engine_error option"

abbreviation gw_api :: "pass_api \<Rightarrow> gateway_api" where "gw_api api \<equiv> gateway_api.truncate api"

text \<open>How a pass ends: what it wrote of the gateway, the status it stored, if it did, the error it returns and the
  delay it asks for.\<close>

record pass_end =
  pe_stored :: "fb_instance option"
  pe_writes :: "gw_write list"
  pe_error :: "engine_error option"
  pe_requeue :: bool
  pe_requeueAfter :: int

definition store :: "pass_api \<Rightarrow> fb_instance \<Rightarrow> fb_instance option" where
  "store api inst = (if px_statusWrite api = None then Some inst else None)"

text \<open>A failure is stored as far as possible, and the error of the component is the one returned.\<close>

definition failWithCondition ::
  "condition_api \<Rightarrow> pass_api \<Rightarrow> gw_write list \<Rightarrow> string \<Rightarrow> string \<Rightarrow> engine_error \<Rightarrow> fb_instance \<Rightarrow> pass_end" where
  "failWithCondition ca api ws t reason e inst =
     \<lparr>pe_stored = store api (headline ca (setInstanceCondition ca inst t False reason (error_text e))),
      pe_writes = ws, pe_error = Some e, pe_requeue = False, pe_requeueAfter = 0\<rparr>"

definition writeStatusAndPoll :: "condition_api \<Rightarrow> pass_api \<Rightarrow> gw_write list \<Rightarrow> int \<Rightarrow> fb_instance \<Rightarrow> pass_end" where
  "writeStatusAndPoll ca api ws every inst =
     \<lparr>pe_stored = store api (headline ca inst), pe_writes = ws, pe_error = px_statusWrite api,
      pe_requeue = False, pe_requeueAfter = (if px_statusWrite api = None then every else 0)\<rparr>"

definition SuffixMetadataService :: string where "SuffixMetadataService = ''-metadata''"
definition MetadataServicePort :: int where "MetadataServicePort = 7000"

definition metadataServiceEndpoint :: "string \<Rightarrow> string \<Rightarrow> string" where
  "metadataServiceEndpoint instanceName ns =
     instanceName @ SuffixMetadataService @ ''.'' @ ns @ ''.svc.cluster.local:'' @ itoa MetadataServicePort"

text \<open>Steps 0 to 0.7: authentication, both listeners, and the trust bundle. Errors are logged and leave the rest of
  the pass to go on.\<close>

definition secure_steps ::
  "condition_api \<Rightarrow> operator_env \<Rightarrow> gateway_api \<Rightarrow> fb_instance
     \<Rightarrow> fb_instance \<times> (engine_error + string list) \<times> gateway_api" where
  "secure_steps ca env api inst =
     (case ensureAuth ca env (auth_api.truncate api) inst of (_, i1, _) \<Rightarrow>
      case ensureEngineTLS ca env (tls_api api) i1 of (_, i2) \<Rightarrow>
      case ensureGatewayTLS ca env api i2 of (_, i3) \<Rightarrow>
      case ensureEngineCABundle env (tls_api api) i3 of (bundle, tapi) \<Rightarrow>
        (i3, bundle, api\<lparr>au_getSecret := au_getSecret tapi\<rparr>))"

text \<open>Step 4 and the end of the pass, once the metadata service is ready.\<close>

definition gateway_steps ::
  "condition_api \<Rightarrow> operator_env \<Rightarrow> pass_api \<Rightarrow> gateway_api \<Rightarrow> engine_error + string list \<Rightarrow> fb_instance \<Rightarrow> pass_end" where
  "gateway_steps ca env api gw bundle inst =
     (case ensureGatewayResources env gw inst of
        (Some e, ws) \<Rightarrow> failWithCondition ca api ws InstanceConditionGatewayReady ''EnsureFailed'' e inst
      | (None, ws) \<Rightarrow>
          (let gw' = gw\<lparr>gx_deployment := px_deploymentAfter api\<rparr>
           in case checkGatewayCRLSecrets gw' inst of
                Some e \<Rightarrow> failWithCondition ca api ws InstanceConditionGatewayReady ''CRLSecretPreflightFailed'' e
                            (inst\<lparr>fi_gatewayReady := False, fi_gatewayEndpoint := []\<rparr>)
              | None \<Rightarrow>
                  (case isGatewayReady gw' of
                     Inl e \<Rightarrow> failWithCondition ca api ws InstanceConditionGatewayReady ''ProbeFailed'' e inst
                   | Inr ready \<Rightarrow>
                       (let i = (if ready
                                 then setInstanceCondition ca
                                        (inst\<lparr>fi_gatewayReady := True,
                                              fi_gatewayEndpoint := in_name inst @ SuffixGateway @ ''.'' @ in_namespace inst
                                                @ ''.svc.cluster.local''\<rparr>)
                                        InstanceConditionGatewayReady True ''Ready''
                                        ''gateway Deployment has at least one ready replica''
                                 else setInstanceCondition ca (inst\<lparr>fi_gatewayReady := False, fi_gatewayEndpoint := []\<rparr>)
                                        InstanceConditionGatewayReady False ''Provisioning''
                                        ''gateway Deployment has no ready replicas yet'')
                        in writeStatusAndPoll ca api ws (30 * second) (publishRolledEngineTrustCAs env gw' bundle i)))))"

text \<open>Step 1: the operator's own database, or the check of an external one.\<close>

definition database_step :: "pass_api \<Rightarrow> gateway_api \<Rightarrow> fb_instance \<Rightarrow> engine_error option" where
  "database_step api gw inst =
     (if fi_postgres inst = None then px_postgres api else checkExternalPostgresSecret (auth_api.truncate gw) inst)"

definition reconcile_instance ::
  "condition_api \<Rightarrow> operator_env \<Rightarrow> pass_api \<Rightarrow> fb_instance \<Rightarrow> pass_end" where
  "reconcile_instance ca env api inst =
     (if fi_phase inst = PhaseUnset then
        \<lparr>pe_stored = store api (inst\<lparr>fi_phase := Provisioning\<rparr>), pe_writes = [], pe_error = px_statusWrite api,
         pe_requeue = (px_statusWrite api = None), pe_requeueAfter = 0\<rparr>
      else if fi_phase inst = InstFailed then
        \<lparr>pe_stored = None, pe_writes = [], pe_error = None, pe_requeue = False, pe_requeueAfter = 5 * minute\<rparr>
      else case validateInstanceTemplates inst of (gwTplErrs, mdTplErrs) \<Rightarrow>
        (if mdTplErrs \<noteq> [] then
           failWithCondition ca api [] InstanceConditionMetadataReady ''TemplateRejected'' (aggregate mdTplErrs) inst
         else if gwTplErrs \<noteq> [] then
           failWithCondition ca api [] InstanceConditionGatewayReady ''TemplateRejected'' (aggregate gwTplErrs) inst
         else  (case secure_steps ca env (gw_api api) inst of (i, bundle, gw) \<Rightarrow>
                  (case database_step api gw i of
                     Some e \<Rightarrow>
                       if fi_postgres i = None
                       then failWithCondition ca api [] InstanceConditionMetadataReady ''PostgresEnsureFailed'' e i
                       else failWithCondition ca api [] InstanceConditionMetadataReady ''PostgresSecretPreflightFailed'' e
                              (i\<lparr>fi_metadataReady := False, fi_metadataEndpoint := []\<rparr>)
                   | None \<Rightarrow>
                       (case px_metadata api of
                          Some e \<Rightarrow> failWithCondition ca api [] InstanceConditionMetadataReady ''EnsureFailed'' e i
                        | None \<Rightarrow>
                            (case px_metadataReady api of
                               Inl e \<Rightarrow> failWithCondition ca api [] InstanceConditionMetadataReady ''ProbeFailed'' e i
                             | Inr False \<Rightarrow>
                                 writeStatusAndPoll ca api [] (5 * second)
                                   (setInstanceCondition ca (i\<lparr>fi_metadataReady := False, fi_metadataEndpoint := []\<rparr>)
                                      InstanceConditionMetadataReady False ''Provisioning''
                                      ''metadata Deployment has no ready replicas yet'')
                             | Inr True \<Rightarrow>
                                 gateway_steps ca env api gw bundle
                                   (setInstanceCondition ca
                                      (i\<lparr>fi_metadataReady := True,
                                         fi_metadataEndpoint := metadataServiceEndpoint (in_name i) (in_namespace i)\<rparr>)
                                      InstanceConditionMetadataReady True ''Ready''
                                      ''metadata Deployment has at least one ready replica'')))))))"

end
