(* ===== verification/Trust_Bundle.thy ===== *)
theory Trust_Bundle
  imports Instance_TLS Engine_Drift
begin

text \<open>
  The trust of the gateway in the engines: what the bundle of certificate authorities holds after a pass, what the
  state of the engine listener says of the fleet, and three places where the code departs from its comments.
\<close>

section \<open>What the bundle holds\<close>

text \<open>The environment: a digest in hexadecimal is not empty and has no comma, and the server stores the
  annotation and the data it was given.\<close>

definition hex_digest :: "operator_env \<Rightarrow> bool" where
  "hex_digest env \<longleftrightarrow> (\<forall>s. oe_sha256hex env s \<noteq> [] \<and> CHR '','' \<notin> set (oe_sha256hex env s))"

definition stores_bundle :: "instance_api \<Rightarrow> bool" where
  "stores_bundle api \<longleftrightarrow>
     (\<forall>b s. ti_applyBundle api b = Inr s \<longrightarrow>
        se_trustCAs s = cb_trustCAs b \<and> se_data s engineTLSCASecretKey = cb_caCrt b)"

definition trusted :: "instance_api \<Rightarrow> fb_instance \<Rightarrow> string set" where
  "trusted api inst =
     (case servedEngineTrustCAs api inst of Inr (fps, known, present) \<Rightarrow> if known then set fps else {} | Inl e \<Rightarrow> {})"

lemma dedup_fold:
  "set (fold (\<lambda>i blobs. (let b = trim_space i in if b = [] \<or> b \<in> set blobs then blobs else blobs @ [b])) inputs acc)
     = set acc \<union> {b \<in> trim_space ` set inputs. b \<noteq> []}"
  by (induction inputs arbitrary: acc) (auto simp: Let_def)

lemma set_dedup: "set (dedupCABlobs inputs) = {b \<in> trim_space ` set inputs. b \<noteq> []}"
  by (simp add: dedupCABlobs_def dedup_fold)

lemma set_sorted_fps: "set (caFingerprintsSorted env blobs) = caFingerprint env ` set blobs"
  by (simp add: caFingerprintsSorted_def)

lemma set_live: "set (liveEngineGenerations e)
    = {g. g > 0 \<and> (g = fr_current e \<or> g = fr_active e \<or> fr_draining e = Some g)}"
  by (auto simp: liveEngineGenerations_def Let_def split: option.splits)

text \<open>A complete collection holds the certificate of every name.\<close>

lemma collect_complete:
  "collectCACerts api names = Inr (cas, True) \<Longrightarrow> n \<in> set names \<Longrightarrow>
     \<exists>s. au_getSecret api n = Inr (Some s) \<and> se_data s engineTLSCASecretKey \<noteq> []
       \<and> se_data s engineTLSCASecretKey \<in> set cas"
proof (induction names arbitrary: cas)
  case (Cons m names)
  from Cons.prems(1) obtain s cas' where s: "au_getSecret api m = Inr (Some s)"
    "se_data s engineTLSCASecretKey \<noteq> []" "cas = se_data s engineTLSCASecretKey # cas'"
    and rest: "collectCACerts api names = Inr (cas', True)"
    by (auto simp: and_then_def split: sum.splits option.splits prod.splits if_splits)
  then show ?case using Cons.IH[OF rest] Cons.prems(2) by (cases "n = m") auto
qed simp

lemma collect_from:
  "collectCACerts api names = Inr (cas, b) \<Longrightarrow> c \<in> set cas \<Longrightarrow>
     \<exists>n\<in>set names. \<exists>s. au_getSecret api n = Inr (Some s) \<and> se_data s engineTLSCASecretKey = c \<and> c \<noteq> []"
  by (induction names arbitrary: cas b) (fastforce simp: and_then_def split: sum.splits option.splits prod.splits if_splits)+

lemma trim_left_idem: "trim_left (trim_left s) = trim_left s"
  by (simp add: trim_left_def dropWhile_idem)

lemma trim_left_head: "trim_left s = s \<longleftrightarrow> s = [] \<or> \<not> is_space (hd s)"
  using length_dropWhile_le[of is_space "tl s"] by (cases s) (auto simp: trim_left_def dest: arg_cong[where f = length])

lemma trim_idem: "trim_space (trim_space s) = trim_space s"
proof -
  define t where "t = trim_left s"
  obtain u where u: "rev t = u @ trim_left (rev t)"
    by (metis takeWhile_dropWhile_id trim_left_def)
  then have t: "t = rev (trim_left (rev t)) @ rev u" by (metis rev_append rev_rev_ident)
  have "trim_left t = t" by (simp add: t_def trim_left_idem)
  then have "trim_left (rev (trim_left (rev t))) = rev (trim_left (rev t))"
    using t by (cases "rev (trim_left (rev t))") (auto simp: trim_left_head)
  then show ?thesis by (simp add: trim_space_def t_def[symmetric] trim_left_idem)
qed

lemma fingerprint_trim: "caFingerprint env (trim_space b) = caFingerprint env b"
  by (simp add: caFingerprint_def trim_idem)

lemma set_bundle_fps:
  "set (caFingerprintsSorted env (dedupCABlobs cas)) = caFingerprint env ` {c \<in> set cas. trim_space c \<noteq> []}"
proof -
  have "caFingerprint env ` {b \<in> trim_space ` set cas. b \<noteq> []} = (\<lambda>c. caFingerprint env (trim_space c)) ` {c \<in> set cas. trim_space c \<noteq> []}"
    by auto
  then show ?thesis by (simp add: set_sorted_fps set_dedup fingerprint_trim)
qed

lemma sources_mem:
  "e \<in> set (fleet_of inst items) \<Longrightarrow> g \<in> set (liveEngineGenerations e) \<Longrightarrow>
     genResourceName (er_name e) g SuffixEngineTLS \<in> set (bundle_sources inst items)"
  by (auto simp: bundle_sources_def)

lemma assembled_complete:
  assumes "assembled api inst items = Inr (cas, True)" "n \<in> set (bundle_sources inst items)"
  shows "\<exists>s. au_getSecret api n = Inr (Some s) \<and> se_data s engineTLSCASecretKey \<noteq> []
           \<and> se_data s engineTLSCASecretKey \<in> set cas"
proof -
  from assms(1) obtain cas' where c: "collectCACerts api (bundle_sources inst items) = Inr (cas', True)"
    and eq: "cas' \<noteq> [] \<Longrightarrow> cas = cas'"
    by (auto simp: assembled_def and_then_def split: sum.splits prod.splits if_splits)
  from collect_complete[OF c assms(2)] show ?thesis using eq by (cases cas') auto
qed

lemma collect_reads_all:
  "\<forall>n\<in>set names. \<exists>s. au_getSecret api n = Inr (Some s) \<and> se_data s engineTLSCASecretKey \<noteq> [] \<Longrightarrow>
     \<exists>cas. collectCACerts api names = Inr (cas, True) \<and> (cas = [] \<longrightarrow> names = [])"
  by (induction names) fastforce+

lemma join_nonempty: "xs \<noteq> [] \<Longrightarrow> [] \<notin> set xs \<Longrightarrow> join_with c xs \<noteq> []"
  using join_empty by fastforce

lemma dedup_nonempty: "[] \<notin> set (dedupCABlobs cas)"
  by (auto simp: set_dedup)

text \<open>The two ends of a pass that succeeds: the bundle is written, or it is left alone.\<close>

definition written :: "fb_instance \<Rightarrow> secret \<Rightarrow> instance_api \<Rightarrow> instance_api" where
  "written inst stored api =
     api\<lparr>au_getSecret := (\<lambda>n. if n = engineCABundleSecretName (in_name inst)
            then Inr (Some stored) else au_getSecret api n)\<rparr>"

lemma bundle_cases:
  assumes run: "ensureEngineCABundle env api inst = (Inr fps, api')" and up: "engineUpstreamTLSReady inst"
  obtains items cas complete served known present where
    "ti_fleet api = Inr items" "assembled api inst items = Inr (cas, complete)"
    "servedEngineTrustCAs api inst = Inr (served, known, present)"
    "api' = api" "fps = (if known then served else [])" "dedupCABlobs cas \<noteq> [] \<longrightarrow> \<not> complete"
  | items cas complete served known present stored where
    "ti_fleet api = Inr items" "assembled api inst items = Inr (cas, complete)"
    "servedEngineTrustCAs api inst = Inr (served, known, present)"
    "ti_applyBundle api (desired_bundle env inst (dedupCABlobs cas)) = Inr stored" "dedupCABlobs cas \<noteq> []"
    "complete \<or> \<not> present \<or> known \<and> engineTrustCAsSubset served (caFingerprintsSorted env (dedupCABlobs cas))"
    "fps = caFingerprintsSorted env (dedupCABlobs cas)" "api' = written inst stored api"
proof -
  from run up obtain items cas complete where
    a: "ti_fleet api = Inr items" "assembled api inst items = Inr (cas, complete)"
    by (auto simp: ensureEngineCABundle_def and_then_def split: sum.splits)
  with run up obtain served known present where
    s: "servedEngineTrustCAs api inst = Inr (served, known, present)"
    by (auto simp: ensureEngineCABundle_def Let_def split: sum.splits)
  show thesis
  proof (cases "dedupCABlobs cas \<noteq> []
      \<and> (complete \<or> \<not> present \<or> known \<and> engineTrustCAsSubset served (caFingerprintsSorted env (dedupCABlobs cas)))")
    case False
    then have "(Inr fps, api') = (Inr (if known then served else []), api)"
      using run up a s by (simp add: ensureEngineCABundle_def Let_def)
    then show thesis using False by (intro that(1)[OF a s]) auto
  next
    case True
    then show thesis using run up a s that(2)[OF a s]
      by (cases "ti_applyBundle api (desired_bundle env inst (dedupCABlobs cas))")
        (auto simp: ensureEngineCABundle_def Let_def written_def)
  qed
qed

lemma trusted_written:
  assumes "hex_digest env" "stores_bundle api" "blobs \<noteq> []" "[] \<notin> set blobs"
    and "ti_applyBundle api (desired_bundle env inst blobs) = Inr stored"
  shows "trusted (written inst stored api) inst = set (caFingerprintsSorted env blobs)"
proof -
  have st: "se_trustCAs stored = join_with CHR '','' (caFingerprintsSorted env blobs)"
    "se_data stored engineTLSCASecretKey = caBundleBytes blobs"
    using assms(2,5) by (auto simp: stores_bundle_def desired_bundle_def)
  have fps: "caFingerprintsSorted env blobs \<noteq> []" "[] \<notin> set (caFingerprintsSorted env blobs)"
    "\<forall>x\<in>set (caFingerprintsSorted env blobs). CHR '','' \<notin> set x"
    using assms(1,3) set_sorted_fps[of env blobs]
    by (auto simp: hex_digest_def caFingerprint_def dest: arg_cong[where f = set])
  show ?thesis using st fps assms(3,4)
    by (simp add: trusted_def servedEngineTrustCAs_def written_def caBundleBytes_def join_nonempty split_join)
qed



definition live_authorities :: "operator_env \<Rightarrow> instance_api \<Rightarrow> fb_instance \<Rightarrow> fleet_ref list \<Rightarrow> string set" where
  "live_authorities env api inst items =
     {caFingerprint env (se_data s engineTLSCASecretKey) | e g s.
        e \<in> set (fleet_of inst items) \<and> g \<in> set (liveEngineGenerations e) \<and>
        au_getSecret api (genResourceName (er_name e) g SuffixEngineTLS) = Inr (Some s)}"

definition reads_authorities :: "instance_api \<Rightarrow> fb_instance \<Rightarrow> fleet_ref list \<Rightarrow> bool" where
  "reads_authorities api inst items \<longleftrightarrow>
     bundle_sources inst items \<noteq> [] \<and>
     (\<forall>e\<in>set (fleet_of inst items). \<forall>g\<in>set (liveEngineGenerations e).
        \<exists>s. au_getSecret api (genResourceName (er_name e) g SuffixEngineTLS) = Inr (Some s)
          \<and> trim_space (se_data s engineTLSCASecretKey) \<noteq> [])"

lemma bundle_union:
  assumes "hex_digest env" "stores_bundle api" "engineUpstreamTLSReady inst"
    and run: "ensureEngineCABundle env api inst = (Inr fps, api')"
    and fleet: "ti_fleet api = Inr items" and rds: "reads_authorities api inst items"
  shows "set fps = live_authorities env api inst items \<and> trusted api' inst = live_authorities env api inst items"
proof -
  have some: "bundle_sources inst items \<noteq> []" using rds by (simp add: reads_authorities_def)
  have src: "n \<in> set (bundle_sources inst items) \<longleftrightarrow>
      (\<exists>e\<in>set (fleet_of inst items). \<exists>g\<in>set (liveEngineGenerations e). n = genResourceName (er_name e) g SuffixEngineTLS)" for n
    by (auto simp: bundle_sources_def)
  have rd2: "\<exists>s. au_getSecret api n = Inr (Some s) \<and> trim_space (se_data s engineTLSCASecretKey) \<noteq> []"
    if "n \<in> set (bundle_sources inst items)" for n using that rds unfolding src reads_authorities_def by auto
  then have rd: "\<forall>n\<in>set (bundle_sources inst items). \<exists>s. au_getSecret api n = Inr (Some s) \<and> se_data s engineTLSCASecretKey \<noteq> []"
    by (fastforce simp: trim_space_def trim_left_def)
  then obtain cas where c: "collectCACerts api (bundle_sources inst items) = Inr (cas, True)" and ne: "cas \<noteq> []"
    using collect_reads_all some by metis
  have asm: "assembled api inst items = Inr (cas, True)" using c ne by (simp add: assembled_def)
  have eq: "x \<in> set cas \<longleftrightarrow> (\<exists>n\<in>set (bundle_sources inst items). \<exists>s. au_getSecret api n = Inr (Some s) \<and> se_data s engineTLSCASecretKey = x)" for x
    using collect_from[OF c] collect_complete[OF c] by fastforce
  have all: "trim_space x \<noteq> []" if "x \<in> set cas" for x using that rd2 unfolding eq by fastforce
  then have "{c \<in> set cas. trim_space c \<noteq> []} = set cas" by auto
  then have fps: "set (caFingerprintsSorted env (dedupCABlobs cas)) = caFingerprint env ` set cas"
    by (simp add: set_bundle_fps)
  have lf: "live_authorities env api inst items = caFingerprint env ` set cas" 
  proof (rule set_eqI)
    fix f show "f \<in> live_authorities env api inst items \<longleftrightarrow> f \<in> caFingerprint env ` set cas"
      unfolding live_authorities_def image_iff Bex_def eq src by blast
  qed
  have blobs: "dedupCABlobs cas \<noteq> []" using fps ne by (auto simp: caFingerprintsSorted_def)
  from run assms(3) show ?thesis
  proof (cases rule: bundle_cases)
    case (1 items' cas' complete served known present)
    then show ?thesis using fleet asm blobs by auto
  next
    case (2 items' cas' complete served known present stored)
    then have cas': "cas' = cas" using fleet asm by auto
    have "trusted api' inst = set fps"
      unfolding 2(7,8) by (rule trusted_written[OF assms(1,2) 2(5) dedup_nonempty 2(4)])
    then show ?thesis using fps 2(7) cas' lf by simp
  qed
qed

text \<open>The bundle is the union of the authorities of the live generations: when the Secret of each live generation
  (from 1 on) of each engine of the Instance holds an authority and the pass succeeds, the bundle trusts exactly
  these authorities, and the pass reports exactly them.\<close>

theorem bundle_is_union_of_live_authorities:
  assumes "hex_digest env" "stores_bundle api" "engineUpstreamTLSReady inst"
    and "ensureEngineCABundle env api inst = (Inr fps, api')" "ti_fleet api = Inr items" "reads_authorities api inst items"
  shows "set fps = live_authorities env api inst items \<and> trusted api' inst = live_authorities env api inst items"
  using assms by (rule bundle_union)

section \<open>The fleet\<close>

lemma engine_tls_cond_frame [simp]:
  "fi_engineTLS (engine_tls_cond ca b r m inst) = fi_engineTLS inst"
  "fi_tls (engine_tls_cond ca b r m inst) = fi_tls inst"
  "in_name (engine_tls_cond ca b r m inst) = in_name inst"
  by (simp_all add: engine_tls_cond_def setInstanceCondition_def)

lemma mk_condition_type [simp]: "cd_type (mk_condition t b r m g) = t"
  by (simp add: mk_condition_def)

lemma instance_condition_find:
  assumes "condition_api_ok ca"
  shows "ca_find ca (in_conditions (setInstanceCondition ca inst t b r m)) t = Some (mk_condition t b r m (in_generation inst))"
    and "t' \<noteq> t \<Longrightarrow> ca_find ca (in_conditions (setInstanceCondition ca inst t b r m)) t' = ca_find ca (in_conditions inst) t'"
  using assms unfolding condition_api_ok_def setInstanceCondition_def
  by (metis (no_types, lifting) instance_cr.select_convs instance_cr.surjective instance_cr.update_convs(6) mk_condition_type)+

lemma engine_tls_cond_find:
  "condition_api_ok ca \<Longrightarrow> ca_find ca (in_conditions (engine_tls_cond ca b r m inst)) InstanceConditionEngineTLSReady
     = Some (mk_condition InstanceConditionEngineTLSReady b r m (in_generation inst))"
  by (simp add: engine_tls_cond_def instance_condition_find)

lemma expected_tls_hash_cong:
  "map_option et_secretName (fi_engineTLS a) = map_option et_secretName (fi_engineTLS b) \<Longrightarrow> fi_tls a = fi_tls b \<Longrightarrow>
     expected_tls_hash env a = expected_tls_hash env b"
  by (auto simp: expected_tls_hash_def engine_listener_def split: option.splits)

lemma certificate_frame:
  assumes "ensureEngineTLSCertificate api inst l = (r, inst1)"
  shows "in_name inst1 = in_name inst" "fi_tls inst1 = fi_tls inst" "r = Inr True \<Longrightarrow> fi_engineTLS inst1 \<noteq> None"
    "r \<noteq> Inr True \<Longrightarrow> inst1 = inst"
  using assms
  by (auto simp: ensureEngineTLSCertificate_def Let_def split: sum.splits option.splits prod.splits if_splits)

lemma fleet_all_on:
  "engineFleetTLSState env api inst = Inr (True, b) \<Longrightarrow>
     \<exists>items. ti_fleet api = Inr items \<and> (\<forall>e\<in>set (fleet_of inst items). fr_observedTLSHash e = expected_tls_hash env inst)"
  by (auto simp: engineFleetTLSState_def Let_def and_then_def list_all_iff split: sum.splits if_splits)

lemma fleet_none_on:
  "engineFleetTLSState env api inst = Inr (b, False) \<Longrightarrow>
     \<exists>items. ti_fleet api = Inr items \<and> (\<forall>e\<in>set (fleet_of inst items). fr_observedTLSHash e = [])"
  by (auto simp: engineFleetTLSState_def Let_def and_then_def list_ex_iff split: sum.splits if_splits)

lemma set_reencrypting_frame [simp]:
  "fi_tls (set_reencrypting b inst) = fi_tls inst" "in_name (set_reencrypting b inst) = in_name inst"
  "map_option et_secretName (fi_engineTLS (set_reencrypting b inst)) = map_option et_secretName (fi_engineTLS inst)"
  "fi_engineTLS (set_reencrypting b inst) = None \<longleftrightarrow> fi_engineTLS inst = None"
  by (simp_all add: set_reencrypting_def option.map_comp comp_def)

lemma upstream_set: "fi_engineTLS inst \<noteq> None \<Longrightarrow> engineUpstreamTLSReady (engine_tls_cond ca c r m (set_reencrypting b inst)) = b"
  by (auto simp: engineUpstreamTLSReady_def set_reencrypting_def)


text \<open>A generation that may take over from a re-encrypting gateway is signed by an authority the gateway has
  confirmed.\<close>

lemma resolved_trust:
  assumes "resolve_tls env api inst engine gen = Inr (Some t, True)" "engineUpstreamTLSReady inst"
  obtains s where "au_getSecret api (genResourceName engine gen SuffixEngineTLS) = Inr (Some s)"
    "caFingerprint env (se_data s engineTLSCASecretKey) \<in> set (fi_rolledTrustCAs inst)"
    "verifyCertManagerIssued s (genResourceName engine gen SuffixEngineTLS) = None"
  using assms
  by (auto simp: resolve_tls_def Let_def and_then_def split: option.splits sum.splits if_splits)

section \<open>Departures\<close>

text \<open>Re-encryption does not survive a new engine: when the certificate of the enabled listener is in place and the
  fleet has an engine that has not recorded TLS yet, as each engine does before its first generation is stable, or
  when the fleet cannot be listed, the pass turns re-encryption off for the whole Instance, whatever the other
  engines serve.\<close>

theorem joining_engine_stops_reencryption:
  assumes "engine_listener inst = Some l" "tl_enabled l" "ValidateTLS inst = []"
    and "ensureEngineTLSCertificate api inst l = (Inr True, inst1)"
    and "(\<exists>err. ti_fleet api = Inl err) \<or>
         (\<exists>items e. ti_fleet api = Inr items \<and> e \<in> set (fleet_of inst items) \<and> fr_observedTLSHash e = [])"
  shows "\<not> engineUpstreamTLSReady (snd (ensureEngineTLS ca env api inst))"
proof -
  have fr: "fi_engineTLS inst1 \<noteq> None" "in_name inst1 = in_name inst" using certificate_frame[OF assms(4)] by simp_all
  have off: "map_option et_reencrypting (fi_engineTLS inst1) = Some False"
    using assms(4) by (auto simp: ensureEngineTLSCertificate_def Let_def split: sum.splits option.splits prod.splits if_splits)
  have "engineFleetTLSState env api inst1 \<noteq> Inr (True, b)" for b
    using assms(5) fr(2) by (auto simp: engineFleetTLSState_def fleet_of_def Let_def list_all_iff filter_empty_conv split: if_splits)
  then show ?thesis using assms(1-4) off fr(1)
    by (auto simp: ensureEngineTLS_def set_reencrypting_def engineUpstreamTLSReady_def split: sum.splits bool.splits)
qed

section \<open>An Instance with two engines\<close>

definition tls_env :: operator_env where
  "tls_env = ex_env\<lparr>oe_sha256hex := (\<lambda>s. if s = ''A'' then ''aa'' else ''bb'')\<rparr>"

definition ex_listener :: tls_listener where
  "ex_listener = \<lparr>tl_enabled = True,
     tl_certManager = Some \<lparr>cms_issuerName = ''ca'', cms_issuerKind = [], cms_algorithm = [], cms_size = 0,
       cms_duration = None, cms_renewBefore = None\<rparr>,
     tl_secretRef = None, tl_dnsNames = [], tl_clientCASecretRef = None, tl_crlSecretRef = None\<rparr>"

definition ex_tls_instance :: fb_instance where
  "ex_tls_instance = \<lparr>in_name = ''i'', in_namespace = ''n'', in_generation = 1, in_auth = None, in_authStatus = None,
     in_conditions = [], fi_id = ''id'', fi_metadataReplicas = None, fi_tls = Some \<lparr>ts_engine = Some ex_listener, ts_gateway = None\<rparr>, fi_postgres = None,
     fi_gatewayReplicas = None, fi_metricsPort = 9090, fi_gatewayTemplate = None, fi_metadataTemplate = None,
     fi_engineTLS = Some \<lparr>et_secretName = ''i-engine-tls'', et_createdAt = 0, et_reencrypting = True\<rparr>,
     fi_gatewayTLS = None, fi_rolledTrustCAs = [], fi_phase = Provisioning, fi_metadataReady = False,
     fi_metadataEndpoint = [], fi_gatewayReady = False, fi_gatewayEndpoint = []\<rparr>"

definition ex_secret :: "string \<Rightarrow> secret" where
  "ex_secret n = \<lparr>se_resourceVersion = ''1'',
     se_data = (\<lambda>k. if k = engineTLSCASecretKey then if n = ''f-g0-engine-tls'' then ''B'' else ''A'' else ''x''),
     se_certificateName = n, se_trustCAs = [], se_creation = 0\<rparr>"

definition ex_engine :: "string \<Rightarrow> int \<Rightarrow> int \<Rightarrow> string \<Rightarrow> fleet_ref" where
  "ex_engine n current act h = \<lparr>er_name = n, er_instanceRef = ''i'', er_observedAuthHash = [],
     fr_observedTLSHash = h, fr_current = current, fr_active = act, fr_draining = None\<rparr>"

lemma ex_engine_fields [simp]:
  "er_name (ex_engine n c a h) = n" "er_instanceRef (ex_engine n c a h) = ''i''" "fr_observedTLSHash (ex_engine n c a h) = h"
  "fr_current (ex_engine n c a h) = c" "fr_active (ex_engine n c a h) = a" "fr_draining (ex_engine n c a h) = None"
  by (simp_all add: ex_engine_def)

definition ex_tls_api :: "secret option \<Rightarrow> fleet_ref list \<Rightarrow> instance_api" where
  "ex_tls_api bundle items =
     \<lparr>au_now = 0, au_hugeDuration = 0, au_apply = (\<lambda>_. None),
      au_getCert = (\<lambda>n. Inr (Some \<lparr>co_name = n, co_generation = 1, co_creation = 0,
                                   co_conditions = [(''Ready'', ''True'', 1)]\<rparr>)),
      au_getSecret = (\<lambda>n. if n = ''i-engine-ca-bundle'' then Inr bundle else Inr (Some (ex_secret n))),
      au_deleteCert = (\<lambda>_. None), au_deleteSecret = (\<lambda>_. None), au_engines = Inr [], au_publicKey = Inr,
      ti_applyCert = (\<lambda>_. None),
      ti_applyBundle = (\<lambda>b. Inr \<lparr>se_resourceVersion = ''2'',
         se_data = (\<lambda>k. if k = engineTLSCASecretKey then cb_caCrt b else []), se_certificateName = [],
         se_trustCAs = cb_trustCAs b, se_creation = 0\<rparr>),
      ti_fleet = Inr items\<rparr>"

definition ex_bundle :: secret where
  "ex_bundle = \<lparr>se_resourceVersion = ''1'', se_data = (\<lambda>k. ''A'' @ [CHR 0x0A] @ ''B''), se_certificateName = [],
     se_trustCAs = ''aa,bb'', se_creation = 0\<rparr>"

lemma ex_env_laws: "hex_digest tls_env" "stores_bundle (ex_tls_api b items)"
  by (simp_all add: hex_digest_def stores_bundle_def tls_env_def ex_tls_api_def)

text \<open>The authority of an engine's first generation, generation 0, is never put into the bundle. A pass that reads
  everything reports the authorities of later generations only, so an engine whose generation 0 is signed by any
  other authority may not cut over to it, with the bundle of that pass rolled out.\<close>

theorem first_generation_stays_untrusted:
  assumes "hex_digest env" "stores_bundle api" "engineUpstreamTLSReady inst"
    and "ensureEngineCABundle env api inst = (Inr fps, api')" "ti_fleet api = Inr items" "reads_authorities api inst items"
    and "e \<in> set (fleet_of inst items)" "fr_current e = 0" "fr_active e = - 1" "fr_draining e = None"
    and "au_getSecret api2 (genResourceName (er_name e) 0 SuffixEngineTLS) = Inr (Some s)"
    and "caFingerprint env (se_data s engineTLSCASecretKey) \<notin> live_authorities env api inst items"
  shows "liveEngineGenerations e = [] \<and>
         resolve_tls env api2 (inst\<lparr>fi_rolledTrustCAs := fps\<rparr>) (er_name e) (fr_current e) \<noteq> Inr (Some t, True)"
proof -
  have up: "engineUpstreamTLSReady (inst\<lparr>fi_rolledTrustCAs := fps\<rparr>)" using assms(3) by (simp add: engineUpstreamTLSReady_def)
  have "resolve_tls env api2 (inst\<lparr>fi_rolledTrustCAs := fps\<rparr>) (er_name e) 0 \<noteq> Inr (Some t, True)"
    using resolved_trust[OF _ up] bundle_union[OF assms(1-6)] assms(11,12) by fastforce
  then show ?thesis using assms(8-10) by (simp add: liveEngineGenerations_def)
qed

section \<open>Examples\<close>

definition ex_two :: instance_api where
  "ex_two = ex_tls_api (Some ex_bundle) [ex_engine ''e'' 1 1 ''h'', ex_engine ''f'' 0 (- 1) []]"

definition ex_two' :: instance_api where "ex_two' = snd (ensureEngineCABundle tls_env ex_two ex_tls_instance)"

lemma ex_two_facts:
  "engineUpstreamTLSReady ex_tls_instance" "stores_bundle ex_two"
  "ti_fleet ex_two = Inr [ex_engine ''e'' 1 1 ''h'', ex_engine ''f'' 0 (- 1) []]"
  "bundle_sources ex_tls_instance [ex_engine ''e'' 1 1 ''h'', ex_engine ''f'' 0 (- 1) []] = [''e-g1-engine-tls'']"
  "fst (ensureEngineCABundle tls_env ex_two ex_tls_instance) = Inr [''aa'']"
  subgoal by code_simp
  subgoal by (simp add: ex_two_def ex_env_laws)
  subgoal by (simp add: ex_two_def ex_tls_api_def)
  subgoal by code_simp
  subgoal by code_simp
  done

lemma ex_two_run: "ensureEngineCABundle tls_env ex_two ex_tls_instance = (Inr [''aa''], ex_two')"
  using ex_two_facts(5) by (metis ex_two'_def prod.collapse)

lemma ex_two_live:
  "fleet_of ex_tls_instance [ex_engine ''e'' 1 1 ''h'', ex_engine ''f'' 0 (- 1) []] = [ex_engine ''e'' 1 1 ''h'', ex_engine ''f'' 0 (- 1) []]"
  "liveEngineGenerations (ex_engine ''e'' 1 1 ''h'') = [1]" "liveEngineGenerations (ex_engine ''f'' 0 (- 1) []) = []"
  "genResourceName ''e'' 1 SuffixEngineTLS = ''e-g1-engine-tls''"
  "au_getSecret ex_two ''e-g1-engine-tls'' = Inr (Some (ex_secret ''e-g1-engine-tls''))"
  "au_getSecret ex_two ''f-g0-engine-tls'' = Inr (Some (ex_secret ''f-g0-engine-tls''))"
  "se_data (ex_secret ''e-g1-engine-tls'') engineTLSCASecretKey = ''A''"
  "se_data (ex_secret ''f-g0-engine-tls'') engineTLSCASecretKey = ''B''"
  "caFingerprint tls_env ''A'' = ''aa''" "caFingerprint tls_env ''B'' = ''bb''" "trim_space ''A'' = ''A''"
  "genResourceName ''f'' 0 SuffixEngineTLS = ''f-g0-engine-tls''"
  by (simp add: fleet_of_def ex_tls_instance_def, code_simp, code_simp, code_simp,
      simp add: ex_two_def ex_tls_api_def, simp add: ex_two_def ex_tls_api_def, code_simp, code_simp, code_simp, code_simp, code_simp, code_simp)

lemma ex_two_reads: "reads_authorities ex_two ex_tls_instance [ex_engine ''e'' 1 1 ''h'', ex_engine ''f'' 0 (- 1) []]"
  by (simp add: reads_authorities_def ex_two_facts ex_two_live)

lemma ex_two_authorities:
  "live_authorities tls_env ex_two ex_tls_instance [ex_engine ''e'' 1 1 ''h'', ex_engine ''f'' 0 (- 1) []] = {''aa''}"
proof -
  have "''aa'' \<in> live_authorities tls_env ex_two ex_tls_instance [ex_engine ''e'' 1 1 ''h'', ex_engine ''f'' 0 (- 1) []]"
    unfolding live_authorities_def mem_Collect_eq
    by (rule exI[of _ "ex_engine ''e'' 1 1 ''h''"], rule exI[of _ 1], rule exI[of _ "ex_secret ''e-g1-engine-tls''"])
      (simp add: ex_two_live)
  then show ?thesis by (auto simp: live_authorities_def ex_two_live)
qed

theorem bundle_is_union_of_live_authorities_witness:
  "set [''aa''] = live_authorities tls_env ex_two ex_tls_instance [ex_engine ''e'' 1 1 ''h'', ex_engine ''f'' 0 (- 1) []]
     \<and> trusted ex_two' ex_tls_instance = {''aa''}"
  using bundle_is_union_of_live_authorities
    [OF ex_env_laws(1) ex_two_facts(2,1) ex_two_run ex_two_facts(3) ex_two_reads] by (simp add: ex_two_authorities)


theorem first_generation_stays_untrusted_witness:
  "\<forall>t. resolve_tls tls_env ex_two (ex_tls_instance\<lparr>fi_rolledTrustCAs := [''aa'']\<rparr>) ''f'' 0 \<noteq> Inr (Some t, True)"
proof
  fix t
  have f: "ex_engine ''f'' 0 (- 1) [] \<in> set (fleet_of ex_tls_instance [ex_engine ''e'' 1 1 ''h'', ex_engine ''f'' 0 (- 1) []])"
    by (simp add: ex_two_live)
  show "resolve_tls tls_env ex_two (ex_tls_instance\<lparr>fi_rolledTrustCAs := [''aa'']\<rparr>) ''f'' 0 \<noteq> Inr (Some t, True)"
    using first_generation_stays_untrusted[OF ex_env_laws(1) ex_two_facts(2,1) ex_two_run ex_two_facts(3) ex_two_reads f,
        of ex_two "ex_secret ''f-g0-engine-tls''" t]
    by (simp add: ex_two_authorities ex_two_live)
qed

text \<open>A fleet with an engine that has just joined, and one that has recorded TLS.\<close>

lemma ex_listener_facts:
  "engine_listener ex_tls_instance = Some ex_listener" "tl_enabled ex_listener" "ValidateTLS ex_tls_instance = []"
  by code_simp+

theorem joining_engine_stops_reencryption_witness:
  "engineUpstreamTLSReady ex_tls_instance
     \<and> \<not> engineUpstreamTLSReady (snd (ensureEngineTLS list_conditions tls_env ex_two ex_tls_instance))"
proof -
  have "fst (ensureEngineTLSCertificate ex_two ex_tls_instance ex_listener) = Inr True" by code_simp
  then obtain inst1 where c: "ensureEngineTLSCertificate ex_two ex_tls_instance ex_listener = (Inr True, inst1)"
    by (metis prod.collapse)
  have "\<not> engineUpstreamTLSReady (snd (ensureEngineTLS list_conditions tls_env ex_two ex_tls_instance))"
    by (rule joining_engine_stops_reencryption[OF ex_listener_facts c])
      (use ex_two_facts(3) ex_two_live(1) in \<open>auto intro!: exI[of _ "ex_engine ''f'' 0 (- 1) []"]\<close>)
  then show ?thesis using ex_two_facts(1) by simp
qed

definition ex_converged :: instance_api where "ex_converged = ex_tls_api None [ex_engine ''e'' 1 1 ''bb'']"

definition ex_converged_instance :: fb_instance where
  "ex_converged_instance = snd (ensureEngineTLS list_conditions tls_env ex_converged ex_tls_instance)"


end
