(* ===== verification/Instance_Report.thy ===== *)
theory Instance_Report
  imports Instance_Controller Trust_Bundle
begin

text \<open>
  What the status of an Instance says (\<open>setInstanceReadyRollup\<close>, \<open>computePhase\<close>, and the steps of \<open>Reconcile\<close> that set the
  conditions they read): frames of every step, the ways a pass can end, and that Ready means that the Instance
  serves what its spec asks for.
\<close>

section \<open>Frames\<close>

lemma condition_true_set:
  assumes "condition_api_ok ca"
  shows "condition_true ca (setInstanceCondition ca inst t b r m) t' \<longleftrightarrow> (if t' = t then b else condition_true ca inst t')"
  by (cases "t' = t") (simp_all add: condition_true_def instance_condition_find[OF assms] mk_condition_def)

lemma setInstanceCondition_frame [simp]:
  "fi_tls (setInstanceCondition ca inst t b r m) = fi_tls inst"
  "fi_engineTLS (setInstanceCondition ca inst t b r m) = fi_engineTLS inst"
  "fi_gatewayTLS (setInstanceCondition ca inst t b r m) = fi_gatewayTLS inst"
  "fi_phase (setInstanceCondition ca inst t b r m) = fi_phase inst"
  "fi_metricsPort (setInstanceCondition ca inst t b r m) = fi_metricsPort inst"
  "fi_gatewayTemplate (setInstanceCondition ca inst t b r m) = fi_gatewayTemplate inst"
  "in_name (setInstanceCondition ca inst t b r m) = in_name inst"
  "in_namespace (setInstanceCondition ca inst t b r m) = in_namespace inst"
  by (simp_all add: setInstanceCondition_def)

lemma rollup_frame [simp]:
  "fi_tls (rollup ca cs inst) = fi_tls inst" "fi_engineTLS (rollup ca cs inst) = fi_engineTLS inst"
  "fi_gatewayTLS (rollup ca cs inst) = fi_gatewayTLS inst" "fi_phase (rollup ca cs inst) = fi_phase inst"
  by (induction cs) (auto split: option.splits)

lemma rollup_true: "condition_true ca inst c \<Longrightarrow> rollup ca (c # cs) inst = rollup ca cs inst"
  by (auto simp: condition_true_def split: option.splits)

lemma rollup_false:
  "\<not> condition_true ca inst c \<Longrightarrow> \<exists>r m. rollup ca (c # cs) inst = setInstanceCondition ca inst InstanceConditionReady False r m"
  by (auto simp: condition_true_def split: option.splits)

declare rollup.simps(2) [simp del]

lemma rollup_ready:
  assumes "condition_api_ok ca" "InstanceConditionReady \<notin> set cs"
  shows "condition_true ca (rollup ca cs inst) InstanceConditionReady \<longleftrightarrow> (\<forall>c\<in>set cs. condition_true ca inst c)"
    and "t \<noteq> InstanceConditionReady \<Longrightarrow> condition_true ca (rollup ca cs inst) t = condition_true ca inst t"
  using assms(2)
proof (induction cs)
  case (Cons c cs)
  { case 1
    then show ?case using Cons
      by (cases "condition_true ca inst c") (auto simp: rollup_true condition_true_set[OF assms(1)] dest!: rollup_false[of _ _ _ cs])
  next
    case 2
    then show ?case using Cons
      by (cases "condition_true ca inst c") (auto simp: rollup_true condition_true_set[OF assms(1)] dest!: rollup_false[of _ _ _ cs])
  }
qed (simp_all add: condition_true_set[OF assms(1)])

lemma ready_components_distinct: "InstanceConditionReady \<notin> set ready_components" "distinct ready_components"
  by (simp_all add: ready_components_def InstanceConditionReady_def InstanceConditionMetadataReady_def
      InstanceConditionGatewayReady_def InstanceConditionEngineTLSReady_def InstanceConditionGatewayTLSReady_def)

lemma condition_true_phase [simp]: "condition_true ca (inst\<lparr>fi_phase := p\<rparr>) t = condition_true ca inst t"
  by (simp add: condition_true_def)

lemma headline_ready:
  assumes "condition_api_ok ca"
  shows "condition_true ca (headline ca inst) InstanceConditionReady \<longleftrightarrow> (\<forall>c\<in>set ready_components. condition_true ca inst c)"
    and "c \<in> set ready_components \<Longrightarrow> condition_true ca (headline ca inst) c = condition_true ca inst c"
  using rollup_ready[OF assms ready_components_distinct(1)] ready_components_distinct(1)
  by (simp_all add: headline_def setInstanceReadyRollup_def Let_def) metis

lemma headline_phase:
  "fi_phase inst \<noteq> InstFailed \<Longrightarrow> fi_phase (headline ca inst) = InstReady \<longleftrightarrow> condition_true ca (headline ca inst) InstanceConditionReady"
  "fi_phase (headline ca inst) = Degraded \<Longrightarrow> fi_phase inst \<in> {InstReady, Degraded}"
  by (auto simp: headline_def setInstanceReadyRollup_def Let_def computePhase_def split: if_splits)

lemma headline_frame [simp]:
  "fi_tls (headline ca inst) = fi_tls inst" "fi_engineTLS (headline ca inst) = fi_engineTLS inst"
  "fi_gatewayTLS (headline ca inst) = fi_gatewayTLS inst"
  by (simp_all add: headline_def setInstanceReadyRollup_def Let_def)


lemma tls_cond_frame [simp]:
  "fi_tls (gateway_tls_cond ca b r m inst) = fi_tls inst" "fi_engineTLS (gateway_tls_cond ca b r m inst) = fi_engineTLS inst"
  "fi_gatewayTLS (gateway_tls_cond ca b r m inst) = fi_gatewayTLS inst" "fi_phase (gateway_tls_cond ca b r m inst) = fi_phase inst"
  "fi_metricsPort (gateway_tls_cond ca b r m inst) = fi_metricsPort inst"
  by (simp_all add: gateway_tls_cond_def)

text \<open>What \<open>ensureGatewayTLS\<close> can do to the recorded posture: clear it, keep it, or record the one the spec asks for,
  the last only when that is not stricter than before or the closed gateway is fully rolled out.\<close>

lemma record_gateway_tls_cases:
  assumes "record_gateway_tls api t n c fp inst = (r, inst')"
  shows "inst' = inst \<and> r \<noteq> Inr True \<or>
         (\<exists>g. inst' = inst\<lparr>fi_gatewayTLS := Some g\<rparr> \<and> gt_mode g = gatewayDesiredMode inst \<and> r = Inr True)"
  using assms by (auto simp: record_gateway_tls_def split: sum.splits bool.splits)

lemma desired_mode_frame [simp]: "gatewayDesiredMode (inst\<lparr>fi_gatewayTLS := g\<rparr>) = gatewayDesiredMode inst"
  by (simp add: gatewayDesiredMode_def gateway_tls_enabled_def gateway_listener_def gatewayClientCASecretRef_def)

definition may_record :: "operator_env \<Rightarrow> gateway_api \<Rightarrow> fb_instance \<Rightarrow> bool" where
  "may_record env api inst \<longleftrightarrow>
     gatewayPostureLevel (gatewayDesiredMode inst) \<le> gatewayPostureLevel (gatewayServedMode inst)
     \<or> gatewayServingCurrentConfig env api (inst\<lparr>fi_gatewayTLS := None\<rparr>) = Inr True"

lemma gateway_certificate_cases:
  assumes "ensureGatewayTLSCertificate env api inst l = (r, inst')"
  shows "inst' = inst\<lparr>fi_gatewayTLS := None\<rparr> \<and> (\<forall>st. r \<noteq> Inr (True, st))
       \<or> inst' = inst \<and> (\<forall>st. r \<noteq> Inr (True, st))
       \<or> (\<exists>g. inst' = inst\<lparr>fi_gatewayTLS := Some g\<rparr> \<and> gt_mode g = gatewayDesiredMode inst \<and> may_record env api inst
              \<and> r = Inr (True, False))"
proof (cases "gateway_cert_source api inst l")
  case (Inr nc)
  obtain n c where nc: "nc = (n, c)" by (cases nc)
  show ?thesis
  proof (cases "\<exists>fp. desired_client_ca env api l = Inr (Some fp)")
    case True
    then obtain fp where fp: "desired_client_ca env api l = Inr (Some fp)" ..
    define t where "t = (case fi_gatewayTLS inst of Some t \<Rightarrow> gt_createdAt t | None \<Rightarrow> au_now api)"
    show ?thesis
    proof (cases "gatewayPostureTightening inst \<or> client_ca_swapped inst fp")
      case tight: True
      show ?thesis
      proof (cases "gatewayServingCurrentConfig env api (inst\<lparr>fi_gatewayTLS := None\<rparr>) = Inr True")
        case True
        then show ?thesis using assms Inr nc fp tight
            record_gateway_tls_cases[of api t n c fp "inst\<lparr>fi_gatewayTLS := None\<rparr>"]
          by (auto simp: ensureGatewayTLSCertificate_def may_record_def Let_def t_def[symmetric] split: prod.splits sum.splits)
      next
        case False
        then show ?thesis using assms Inr nc fp tight
          by (auto simp: ensureGatewayTLSCertificate_def Let_def split: sum.splits bool.splits)
      qed
    next
      case False
      then show ?thesis using assms Inr nc fp record_gateway_tls_cases[of api t n c fp inst]
        by (auto simp: ensureGatewayTLSCertificate_def may_record_def gatewayPostureTightening_def Let_def t_def[symmetric]
            split: prod.splits sum.splits)
    qed
  next
    case False
    then consider e where "desired_client_ca env api l = Inl e" | "desired_client_ca env api l = Inr None"
      by (metis option.exhaust sum.exhaust)
    then show ?thesis by cases (use assms Inr nc in \<open>simp_all add: ensureGatewayTLSCertificate_def\<close>, auto)
  qed
qed (use assms in \<open>auto simp: ensureGatewayTLSCertificate_def\<close>)

lemma gateway_tls_cases:
  assumes "ensureGatewayTLS ca env api inst = (r, inst')"
  shows "fi_tls inst' = fi_tls inst" "fi_engineTLS inst' = fi_engineTLS inst" "fi_phase inst' = fi_phase inst"
    "fi_metricsPort inst' = fi_metricsPort inst" "in_name inst' = in_name inst" "in_namespace inst' = in_namespace inst"
    and "fi_gatewayTLS inst' = None \<or> fi_gatewayTLS inst' = fi_gatewayTLS inst
       \<or> (\<exists>g. fi_gatewayTLS inst' = Some g \<and> gt_mode g = gatewayDesiredMode inst \<and> may_record env api inst \<and> gateway_tls_enabled inst)"
    and "fi_gatewayTemplate inst' = fi_gatewayTemplate inst"
proof -
  have *: "\<exists>i b x m. inst' = gateway_tls_cond ca b x m i \<and>
      (i = inst\<lparr>fi_gatewayTLS := None\<rparr> \<or> i = inst
       \<or> (\<exists>g. i = inst\<lparr>fi_gatewayTLS := Some g\<rparr> \<and> gt_mode g = gatewayDesiredMode inst \<and> may_record env api inst \<and> gateway_tls_enabled inst))"
  proof (cases "gateway_listener inst")
    case None
    then show ?thesis using assms by (auto simp: ensureGatewayTLS_def gateway_tls_off_def)
  next
    case (Some l)
    show ?thesis
    proof (cases "ValidateTLS inst \<noteq> [] \<or> \<not> tl_enabled l")
      case True
      then show ?thesis using assms Some by (auto simp: ensureGatewayTLS_def gateway_tls_off_def Let_def split: if_splits)
    next
      case False
      obtain r1 i where c: "ensureGatewayTLSCertificate env api inst l = (r1, i)" by fastforce
      have "\<exists>b x m. inst' = gateway_tls_cond ca b x m i"
        using assms Some False c
        by (auto simp: ensureGatewayTLS_def split: sum.splits prod.splits bool.splits if_splits)
      moreover have "gateway_tls_enabled inst" using Some False by (simp add: gateway_tls_enabled_def)
      ultimately show ?thesis using gateway_certificate_cases[OF c] by blast
    qed
  qed
  then obtain i b x m where i: "inst' = gateway_tls_cond ca b x m i"
      "i = inst\<lparr>fi_gatewayTLS := None\<rparr> \<or> i = inst
       \<or> (\<exists>g. i = inst\<lparr>fi_gatewayTLS := Some g\<rparr> \<and> gt_mode g = gatewayDesiredMode inst \<and> may_record env api inst \<and> gateway_tls_enabled inst)" by blast
  from i(2) show "fi_tls inst' = fi_tls inst" "fi_engineTLS inst' = fi_engineTLS inst" "fi_phase inst' = fi_phase inst"
    "fi_metricsPort inst' = fi_metricsPort inst" "in_name inst' = in_name inst" "in_namespace inst' = in_namespace inst"
    "fi_gatewayTLS inst' = None \<or> fi_gatewayTLS inst' = fi_gatewayTLS inst
       \<or> (\<exists>g. fi_gatewayTLS inst' = Some g \<and> gt_mode g = gatewayDesiredMode inst \<and> may_record env api inst \<and> gateway_tls_enabled inst)"
    "fi_gatewayTemplate inst' = fi_gatewayTemplate inst"
    unfolding i(1) by (auto simp: gateway_tls_cond_def)
qed

lemma condition_true_cong: "in_conditions a = in_conditions b \<Longrightarrow> condition_true ca a t = condition_true ca b t"
  by (simp add: condition_true_def)

lemma condition_true_fields [simp]:
  "condition_true ca (inst\<lparr>fi_gatewayTLS := g\<rparr>) t = condition_true ca inst t"
  "condition_true ca (inst\<lparr>fi_engineTLS := e\<rparr>) t = condition_true ca inst t"
  "condition_true ca (inst\<lparr>fi_rolledTrustCAs := f\<rparr>) t = condition_true ca inst t"
  "condition_true ca (inst\<lparr>fi_metadataReady := b, fi_metadataEndpoint := x\<rparr>) t = condition_true ca inst t"
  "condition_true ca (inst\<lparr>fi_gatewayReady := b, fi_gatewayEndpoint := x\<rparr>) t = condition_true ca inst t"
  by (simp_all add: condition_true_def)

lemma gateway_tls_ready:
  assumes "ensureGatewayTLS ca env api inst = (r, inst')" and ca: "condition_api_ok ca"
  shows "condition_true ca inst' InstanceConditionGatewayTLSReady \<Longrightarrow> gateway_tls_enabled inst \<Longrightarrow>
           \<exists>g. fi_gatewayTLS inst' = Some g \<and> gt_mode g = gatewayDesiredMode inst"
    and "t \<noteq> InstanceConditionGatewayTLSReady \<Longrightarrow> condition_true ca inst' t = condition_true ca inst t"
proof -
  show "\<exists>g. fi_gatewayTLS inst' = Some g \<and> gt_mode g = gatewayDesiredMode inst"
    if t: "condition_true ca inst' InstanceConditionGatewayTLSReady" and en: "gateway_tls_enabled inst"
  proof -
    from en obtain l where l: "gateway_listener inst = Some l" "tl_enabled l"
      by (auto simp: gateway_tls_enabled_def split: option.splits)
    obtain r1 i where c: "ensureGatewayTLSCertificate env api inst l = (r1, i)" by fastforce
    have "r1 = Inr (True, False) \<and> (\<exists>x m. inst' = gateway_tls_cond ca True x m i)"
      using assms(1) l c t
      by (auto simp: ensureGatewayTLS_def gateway_tls_cond_def condition_true_set[OF ca] Let_def
          split: sum.splits prod.splits bool.splits if_splits)
    then show ?thesis using gateway_certificate_cases[OF c] by auto
  qed
  assume ne: "t \<noteq> InstanceConditionGatewayTLSReady"
  have eq: "condition_true ca (gateway_tls_cond ca b x m i) t = condition_true ca i t" for b x m i
    using ne by (simp add: gateway_tls_cond_def condition_true_set[OF ca])
  show "condition_true ca inst' t = condition_true ca inst t"
  proof (cases "gateway_listener inst")
    case None
    then show ?thesis using assms by (auto simp: ensureGatewayTLS_def gateway_tls_off_def eq intro: condition_true_cong)
  next
    case (Some l)
    show ?thesis
    proof (cases "ValidateTLS inst \<noteq> [] \<or> \<not> tl_enabled l")
      case True
      then show ?thesis using assms Some
        by (auto simp: ensureGatewayTLS_def gateway_tls_off_def Let_def eq split: if_splits intro: condition_true_cong)
    next
      case False
      obtain r1 i where c: "ensureGatewayTLSCertificate env api inst l = (r1, i)" by fastforce
      have "\<exists>b x m. inst' = gateway_tls_cond ca b x m i"
        using assms Some False c
        by (auto simp: ensureGatewayTLS_def split: sum.splits prod.splits bool.splits if_splits)
      moreover have "condition_true ca i t = condition_true ca inst t"
        using gateway_certificate_cases[OF c] by (auto intro: condition_true_cong)
      ultimately show ?thesis using eq by metis
    qed
  qed
qed


text \<open>The steps before.\<close>

lemma ensureAuth_more:
  assumes "ensureAuth ca env api inst = (err, inst', ops)"
  shows "instance_cr.more inst' = instance_cr.more inst"
  using assms
  by (auto simp: ensureAuth_def provision_auth_def auth_cond_def setInstanceCondition_def Let_def
      split: option.splits sum.splits prod.splits bool.splits if_splits)

definition same_gateway :: "fb_instance \<Rightarrow> fb_instance \<Rightarrow> bool" where
  "same_gateway a b \<longleftrightarrow>
     fi_tls a = fi_tls b \<and> fi_gatewayTLS a = fi_gatewayTLS b \<and> fi_phase a = fi_phase b \<and> fi_metricsPort a = fi_metricsPort b
     \<and> fi_gatewayTemplate a = fi_gatewayTemplate b"

lemma same_gateway_more:
  assumes "instance_cr.more a = instance_cr.more b"
  shows "same_gateway a b"
proof -
  show ?thesis using assms by (cases a, cases b) (simp add: same_gateway_def)
qed

lemma same_gateway_steps:
  "same_gateway inst i \<Longrightarrow> same_gateway inst (engine_tls_cond ca b x m i)"
  "same_gateway inst i \<Longrightarrow> same_gateway inst (set_reencrypting q i)"
  "same_gateway inst (inst\<lparr>fi_engineTLS := e\<rparr>)" "same_gateway inst inst"
  by (simp_all add: same_gateway_def engine_tls_cond_def set_reencrypting_def)

lemma engine_certificate_same:
  "ensureEngineTLSCertificate api inst l = (r, j) \<Longrightarrow> same_gateway inst j"
  by (auto simp: ensureEngineTLSCertificate_def same_gateway_steps Let_def split: sum.splits option.splits prod.splits if_splits)

lemma engine_tls_same:
  assumes "ensureEngineTLS ca env api inst = (r, inst')"
  shows "same_gateway inst inst'"
proof (cases "engine_listener inst")
  case None
  then show ?thesis using assms by (auto simp: ensureEngineTLS_def engine_tls_off_def intro!: same_gateway_steps)
next
  case (Some l)
  obtain r1 j where c: "ensureEngineTLSCertificate api inst l = (r1, j)" by fastforce
  show ?thesis using assms Some c engine_certificate_same[OF c]
    by (auto simp: ensureEngineTLS_def engine_tls_off_def Let_def intro!: same_gateway_steps
        split: if_splits sum.splits prod.splits bool.splits)
qed

lemma engine_tls_upstream:
  assumes "ensureEngineTLS ca env api inst = (r, inst')" "condition_api_ok ca"
    and "condition_true ca inst' InstanceConditionEngineTLSReady" "engine_listener inst = Some l" "tl_enabled l"
  shows "engineUpstreamTLSReady inst'"
proof -
  obtain r1 j where c: "ensureEngineTLSCertificate api inst l = (r1, j)" by fastforce
  have "\<exists>x m. r1 = Inr True \<and> inst' = engine_tls_cond ca True x m (set_reencrypting True j)"
    using assms c
    by (auto simp: ensureEngineTLS_def engine_tls_cond_def condition_true_set[OF assms(2)] Let_def
        split: if_splits sum.splits prod.splits bool.splits)
  then show ?thesis using certificate_frame(3)[OF c] upstream_set by auto
qed

lemma upstream_cong: "fi_engineTLS a = fi_engineTLS b \<Longrightarrow> engineUpstreamTLSReady a = engineUpstreamTLSReady b"
  by (simp add: engineUpstreamTLSReady_def)

lemma listener_cong: "fi_tls a = fi_tls b \<Longrightarrow> engine_listener a = engine_listener b \<and> gateway_listener a = gateway_listener b
   \<and> gateway_tls_enabled a = gateway_tls_enabled b \<and> gatewayDesiredMode a = gatewayDesiredMode b"
  by (simp add: engine_listener_def gateway_listener_def gateway_tls_enabled_def gatewayDesiredMode_def gatewayClientCASecretRef_def)

text \<open>The steps of a pass that touch the two listeners, from the Instance that was read.\<close>

lemma secure_steps_cases:
  assumes "secure_steps ca env api inst = (i, bundle, gw)"
  obtains i2 where "same_gateway inst i2" "fi_tls i = fi_tls inst" "fi_phase i = fi_phase inst"
    "fi_metricsPort i = fi_metricsPort inst" "fi_gatewayTemplate i = fi_gatewayTemplate inst"
    "fi_gatewayTLS i = None \<or> fi_gatewayTLS i = fi_gatewayTLS inst
      \<or> (\<exists>g. fi_gatewayTLS i = Some g \<and> gt_mode g = gatewayDesiredMode inst \<and> may_record env api i2 \<and> gateway_tls_enabled inst)"
    "condition_api_ok ca \<Longrightarrow> condition_true ca i InstanceConditionEngineTLSReady \<Longrightarrow>
       engine_listener inst = Some l \<Longrightarrow> tl_enabled l \<Longrightarrow> engineUpstreamTLSReady i"
    "condition_api_ok ca \<Longrightarrow> condition_true ca i InstanceConditionGatewayTLSReady \<Longrightarrow> gateway_tls_enabled inst \<Longrightarrow>
       \<exists>g. fi_gatewayTLS i = Some g \<and> gt_mode g = gatewayDesiredMode inst"
proof -
  obtain e1 i1 ops where a: "ensureAuth ca env (auth_api.truncate api) inst = (e1, i1, ops)" using prod_cases3 by blast
  obtain e2 i2 where e: "ensureEngineTLS ca env (tls_api api) i1 = (e2, i2)" by fastforce
  obtain e3 i3 where g: "ensureGatewayTLS ca env api i2 = (e3, i3)" by fastforce
  have i: "i = i3" using assms a e g by (auto simp: secure_steps_def split: prod.splits)
  have s1: "same_gateway inst i1" using same_gateway_more[OF ensureAuth_more[OF a]] by (auto simp: same_gateway_def)
  have s2: "same_gateway inst i2" using s1 engine_tls_same[OF e] by (auto simp: same_gateway_def)
  note g7 = gateway_tls_cases[OF g]
  note l2 = listener_cong[of i2 inst] and l1 = listener_cong[of i1 inst]
  show thesis
  proof (rule that[OF s2])
    show "fi_tls i = fi_tls inst" "fi_phase i = fi_phase inst" "fi_metricsPort i = fi_metricsPort inst"
      "fi_gatewayTemplate i = fi_gatewayTemplate inst"
      using g7 s2 i by (auto simp: same_gateway_def)
    show "fi_gatewayTLS i = None \<or> fi_gatewayTLS i = fi_gatewayTLS inst
        \<or> (\<exists>g. fi_gatewayTLS i = Some g \<and> gt_mode g = gatewayDesiredMode inst \<and> may_record env api i2 \<and> gateway_tls_enabled inst)"
      using g7(7) s2 i l2 by (auto simp: same_gateway_def)
    show "engineUpstreamTLSReady i"
      if ca: "condition_api_ok ca" and t: "condition_true ca i InstanceConditionEngineTLSReady" and l: "engine_listener inst = Some l" "tl_enabled l"
    proof -
      have "condition_true ca i2 InstanceConditionEngineTLSReady"
        using t gateway_tls_ready(2)[OF g ca, of InstanceConditionEngineTLSReady] i
        by (simp add: InstanceConditionEngineTLSReady_def InstanceConditionGatewayTLSReady_def)
      moreover have "engine_listener i1 = Some l" using l l1 s1 by (auto simp: same_gateway_def)
      ultimately have "engineUpstreamTLSReady i2" using engine_tls_upstream[OF e ca] l(2) by blast
      then show ?thesis using g7(2) i upstream_cong by metis
    qed
    show "\<exists>g. fi_gatewayTLS i = Some g \<and> gt_mode g = gatewayDesiredMode inst"
      if "condition_api_ok ca" "condition_true ca i InstanceConditionGatewayTLSReady" "gateway_tls_enabled inst"
      using gateway_tls_ready(1)[OF g that(1)] that i s2 l2 by (auto simp: same_gateway_def)
  qed
qed

section \<open>Ready\<close>

lemma fail_not_ready:
  assumes "condition_api_ok ca" "t \<in> set ready_components" "pe_stored (failWithCondition ca api ws t reason e inst) = Some inst'"
  shows "\<not> condition_true ca inst' InstanceConditionReady"
  using assms
  by (auto simp: failWithCondition_def store_def headline_ready condition_true_set split: if_splits)

lemma components:
  "InstanceConditionMetadataReady \<in> set ready_components" "InstanceConditionGatewayReady \<in> set ready_components"
  "InstanceConditionEngineTLSReady \<in> set ready_components" "InstanceConditionGatewayTLSReady \<in> set ready_components"
  by (simp_all add: ready_components_def)

lemma publish_frame:
  "fi_phase (publishRolledEngineTrustCAs env gw b i) = fi_phase i" "fi_tls (publishRolledEngineTrustCAs env gw b i) = fi_tls i"
  "fi_engineTLS (publishRolledEngineTrustCAs env gw b i) = fi_engineTLS i"
  "fi_gatewayTLS (publishRolledEngineTrustCAs env gw b i) = fi_gatewayTLS i"
  "condition_true ca (publishRolledEngineTrustCAs env gw b i) t = condition_true ca i t"
  by (auto simp: publishRolledEngineTrustCAs_def split: sum.splits bool.splits)

text \<open>The ends of the gateway steps: a failure, or the status with everything recorded.\<close>

lemma gateway_steps_ends:
  obtains ws reason e j where "gateway_steps ca env api gw bundle inst = failWithCondition ca api ws InstanceConditionGatewayReady reason e j"
      "fi_phase j = fi_phase inst" "fi_gatewayTLS j = fi_gatewayTLS inst"
  | ws j b where "gateway_steps ca env api gw bundle inst = writeStatusAndPoll ca api ws (30 * second) j"
      "fi_phase j = fi_phase inst" "fi_gatewayTLS j = fi_gatewayTLS inst" "fi_engineTLS j = fi_engineTLS inst" "fi_tls j = fi_tls inst"
      "\<And>t. condition_api_ok ca \<Longrightarrow> condition_true ca j t = (if t = InstanceConditionGatewayReady then b else condition_true ca inst t)"
      "b \<Longrightarrow> \<exists>d. px_deploymentAfter api = Inr (Some d) \<and> dp_readyReplicas d > 0"
proof (cases "ensureGatewayResources env gw inst")
  case (Pair r ws)
  define gw' where "gw' = gw\<lparr>gx_deployment := px_deploymentAfter api\<rparr>"
  show thesis
  proof (cases r)
    case (Some e)
    show thesis by (rule that(1)[of ws "''EnsureFailed''" e inst]) (simp_all add: gateway_steps_def Pair Some)
  next
    case None
    show thesis
    proof (cases "checkGatewayCRLSecrets gw' inst")
      case (Some e)
      show thesis
        by (rule that(1)[of ws "''CRLSecretPreflightFailed''" e "inst\<lparr>fi_gatewayReady := False, fi_gatewayEndpoint := []\<rparr>"])
          (simp_all add: gateway_steps_def Pair None Some gw'_def[symmetric])
    next
      case ok: None
      show thesis
      proof (cases "isGatewayReady gw'")
        case (Inl e)
        show thesis by (rule that(1)[of ws "''ProbeFailed''" e inst]) (simp_all add: gateway_steps_def Pair None ok Inl gw'_def[symmetric])
      next
        case (Inr ready)
        define j where "j = (if ready
           then setInstanceCondition ca
                  (inst\<lparr>fi_gatewayReady := True,
                        fi_gatewayEndpoint := in_name inst @ SuffixGateway @ ''.'' @ in_namespace inst @ ''.svc.cluster.local''\<rparr>)
                  InstanceConditionGatewayReady True ''Ready'' ''gateway Deployment has at least one ready replica''
           else setInstanceCondition ca (inst\<lparr>fi_gatewayReady := False, fi_gatewayEndpoint := []\<rparr>)
                  InstanceConditionGatewayReady False ''Provisioning'' ''gateway Deployment has no ready replicas yet'')"
        show thesis
        proof (rule that(2)[of ws "publishRolledEngineTrustCAs env gw' bundle j" ready])
          show "gateway_steps ca env api gw bundle inst =
              writeStatusAndPoll ca api ws (30 * second) (publishRolledEngineTrustCAs env gw' bundle j)"
            by (simp add: gateway_steps_def Pair None ok Inr gw'_def[symmetric] j_def Let_def)
          show "\<exists>d. px_deploymentAfter api = Inr (Some d) \<and> dp_readyReplicas d > 0" if ready
            using that Inr by (auto simp: isGatewayReady_def gw'_def split: sum.splits option.splits)
        qed (auto simp: publish_frame j_def condition_true_set)
      qed
    qed
  qed
qed

definition live_phase :: "fb_instance \<Rightarrow> bool" where
  "live_phase inst \<longleftrightarrow> fi_phase inst \<noteq> PhaseUnset \<and> fi_phase inst \<noteq> InstFailed"

text \<open>The ends of a pass: a component has failed or waits, or the gateway steps ran after the listeners.\<close>

lemma reconcile_ends:
  assumes live: "live_phase inst"
  obtains t reason e j where "reconcile_instance ca env api inst = failWithCondition ca api [] t reason e j"
      "t \<in> set ready_components" "fi_phase j = fi_phase inst"
      "j = inst \<or> (\<exists>i bd gw. secure_steps ca env (gw_api api) inst = (i, bd, gw) \<and> fi_gatewayTLS j = fi_gatewayTLS i)"
  | j i bd gw where "reconcile_instance ca env api inst = writeStatusAndPoll ca api [] (5 * second) j"
      "fi_phase j = fi_phase inst" "condition_api_ok ca \<Longrightarrow> \<not> condition_true ca j InstanceConditionMetadataReady"
      "secure_steps ca env (gw_api api) inst = (i, bd, gw)" "fi_gatewayTLS j = fi_gatewayTLS i"
  | i bd gw k where "secure_steps ca env (gw_api api) inst = (i, bd, gw)"
      "reconcile_instance ca env api inst = gateway_steps ca env api gw bd k" "px_metadataReady api = Inr True"
      "fi_phase k = fi_phase inst" "fi_gatewayTLS k = fi_gatewayTLS i" "fi_engineTLS k = fi_engineTLS i" "fi_tls k = fi_tls i"
      "fi_metricsPort k = fi_metricsPort i" "gx_deployment gw = gx_deployment api" "gx_text gw = gx_text api"
      "\<And>t. condition_api_ok ca \<Longrightarrow> t \<noteq> InstanceConditionMetadataReady \<Longrightarrow> condition_true ca k t = condition_true ca i t"
      "fi_gatewayTemplate k = fi_gatewayTemplate i" "validateInstanceTemplates inst = ([], [])"
proof -
  note start = reconcile_instance_def live[unfolded live_phase_def]
  obtain i bd gw where s: "secure_steps ca env (gw_api api) inst = (i, bd, gw)" using prod_cases3 by blast
  have ph: "fi_phase i = fi_phase inst" using secure_steps_cases[OF s] by metis
  have gw: "gx_deployment gw = gx_deployment api" "gx_text gw = gx_text api"
    using s by (auto simp: secure_steps_def gateway_api.defs split: prod.splits)
  show thesis
  proof (cases "validateInstanceTemplates inst = ([], [])")
    case False
    then show thesis
      using that(1)[of InstanceConditionMetadataReady "''TemplateRejected''" "aggregate (snd (validateInstanceTemplates inst))" inst]
        that(1)[of InstanceConditionGatewayReady "''TemplateRejected''" "aggregate (fst (validateInstanceTemplates inst))" inst]
        components(1,2) start
      by (cases "validateInstanceTemplates inst"; cases "snd (validateInstanceTemplates inst) = []") simp_all
  next
    case True
    note start = start True s
    show thesis
    proof (cases "database_step api gw i")
      case (Some e)
      then show thesis using that(1)[of InstanceConditionMetadataReady "''PostgresEnsureFailed''" e i]
          that(1)[of InstanceConditionMetadataReady "''PostgresSecretPreflightFailed''" e "i\<lparr>fi_metadataReady := False, fi_metadataEndpoint := []\<rparr>"]
          components(1) start ph by (cases "fi_postgres i = None") simp_all
    next
      case None
      note start = start None
      show thesis
      proof (cases "px_metadata api")
        case (Some e)
        then show thesis using that(1)[of InstanceConditionMetadataReady "''EnsureFailed''" e i] components(1) start ph by auto
      next
        case None
        note start = start None
        show thesis
        proof (cases "px_metadataReady api")
          case (Inl e)
          then show thesis using that(1)[of InstanceConditionMetadataReady "''ProbeFailed''" e i] components(1) start ph by auto
        next
          case (Inr b)
          show thesis
          proof (cases b)
            case False
            define j where "j = setInstanceCondition ca (i\<lparr>fi_metadataReady := False, fi_metadataEndpoint := []\<rparr>)
               InstanceConditionMetadataReady False ''Provisioning'' ''metadata Deployment has no ready replicas yet''"
            show thesis by (rule that(2)[of j, OF _ _ _ s]) (use start Inr False ph in \<open>auto simp: j_def condition_true_set\<close>)
          next
            case True
            define k where "k = setInstanceCondition ca
               (i\<lparr>fi_metadataReady := True, fi_metadataEndpoint := metadataServiceEndpoint (in_name i) (in_namespace i)\<rparr>)
               InstanceConditionMetadataReady True ''Ready'' ''metadata Deployment has at least one ready replica''"
            show thesis by (rule that(3)[of i bd gw k]) (use start Inr True ph gw in \<open>auto simp: k_def condition_true_set\<close>)
          qed
        qed
      qed
    qed
  qed
qed

lemma stored_headline:
  assumes live: "live_phase inst" and st: "pe_stored (reconcile_instance ca env api inst) = Some inst'"
  obtains j where "inst' = headline ca j" "fi_phase j = fi_phase inst"
proof (cases rule: reconcile_ends[OF live, where ca = ca and env = env and api = api])
  case (1 t reason e j)
  then show thesis using st that by (fastforce simp: failWithCondition_def store_def split: if_splits)
next
  case (2 j i bd gw)
  then show thesis using st that by (fastforce simp: writeStatusAndPoll_def store_def split: if_splits)
next
  case (3 i bd gw k)
  show thesis
  proof (cases rule: gateway_steps_ends[of ca env api gw bd k])
    case (1 ws reason e j)
    then show thesis using st that 3(2,4) by (fastforce simp: failWithCondition_def store_def split: if_splits)
  next
    case (2 ws j b)
    then show thesis using st that 3(2,4) by (fastforce simp: writeStatusAndPoll_def store_def split: if_splits)
  qed
qed

lemma ready_pass:
  assumes ca: "condition_api_ok ca" and live: "live_phase inst"
    and st: "pe_stored (reconcile_instance ca env api inst) = Some inst'" and rdy: "condition_true ca inst' InstanceConditionReady"
  obtains i bd gw where "secure_steps ca env (gw_api api) inst = (i, bd, gw)" "px_metadataReady api = Inr True"
    "\<exists>d. px_deploymentAfter api = Inr (Some d) \<and> dp_readyReplicas d > 0"
    "fi_gatewayTLS inst' = fi_gatewayTLS i" "fi_engineTLS inst' = fi_engineTLS i" "fi_tls inst' = fi_tls i"
    "condition_true ca i InstanceConditionEngineTLSReady" "condition_true ca i InstanceConditionGatewayTLSReady"
proof (cases rule: reconcile_ends[OF live, where ca = ca and env = env and api = api])
  case (1 t reason e j)
  then show thesis using fail_not_ready[OF ca 1(2)] st rdy by metis
next
  case (2 j i bd gw)
  then show thesis using st rdy components(1)
    by (auto simp: writeStatusAndPoll_def store_def headline_ready[OF ca] ca split: if_splits)
next
  case (3 i bd gw k)
  show thesis
  proof (cases rule: gateway_steps_ends[of ca env api gw bd k])
    case (1 ws reason e j)
    then show thesis using fail_not_ready[OF ca components(2)] st rdy 3(2) by metis
  next
    case (2 ws j b)
    have inst': "inst' = headline ca j" using st 3(2) 2(1) by (auto simp: writeStatusAndPoll_def store_def split: if_splits)
    have all: "condition_true ca j c" if "c \<in> set ready_components" for c
      using that rdy unfolding inst' headline_ready(1)[OF ca] by blast
    have b using all[OF components(2)] 2(6)[OF ca] by simp
    have tr: "condition_true ca i InstanceConditionEngineTLSReady" "condition_true ca i InstanceConditionGatewayTLSReady"
      using all[OF components(3)] all[OF components(4)]
      by (simp_all add: 2(6)[OF ca] 3(11)[OF ca] InstanceConditionEngineTLSReady_def InstanceConditionGatewayTLSReady_def
          InstanceConditionGatewayReady_def InstanceConditionMetadataReady_def split: if_splits)
    show thesis by (rule that[OF 3(1,3) 2(7)[OF \<open>b\<close>] _ _ _ tr]) (simp_all add: inst' 2(3-5) 3(5-7))
  qed
qed


end
