(* ===== verification/Gateway_Safety.thy ===== *)
theory Gateway_Safety
  imports Instance_Report
begin

text \<open>
  The gateway and its pods over time. Passes of the controller write the Deployment, the Deployment controller
  starts and stops pods and reports on them, the Instance is edited; the invariant relates the posture the status
  records to the configuration of every pod. A posture that gets stricter is staged through a configuration without
  a client listener, and this is what keeps the invariant.
\<close>

section \<open>Pods\<close>

text \<open>The strictness of a configuration: plaintext, TLS, TLS with client certificates, no listener at all.\<close>

fun config_level :: "envoy_config \<Rightarrow> int" where
  "config_level (FailClosed p) = 3"
| "config_level (Serving c) =
     (case sc_downstream c of None \<Rightarrow> 0 | Some t \<Rightarrow> if dt_requireClientCertificate t then 2 else 1)"

lemma rendered_level:
  "config_level (buildEnvoyConfigYAML inst w) =
     (if gatewayDownstreamTLSPending inst then 3 else gatewayPostureLevel (gatewayDesiredMode inst))"
  by (simp add: buildEnvoyConfigYAML_def buildListenerDownstreamTLSTransportSocket_def gatewayDownstreamTLSPending_def
      gatewayDownstreamTLSReady_def gatewayDesiredMode_def gatewayPostureLevel_def GatewayTLSModeMutual_def GatewayTLSModeOneWay_def)

lemma posture_level_bound: "gatewayPostureLevel m \<le> 3" "0 \<le> gatewayPostureLevel m"
  by (simp_all add: gatewayPostureLevel_def)

record gw_pod =
  gp_hash :: string
  gp_config :: envoy_config

record gw_world =
  gw_inst :: fb_instance
  gw_dep :: "gw_deployment option"
  gw_template :: envoy_config
  gw_pods :: "gw_pod list"

text \<open>Applying a Deployment: the generation goes up when the spec changes, here whenever the replicas or the template
  do, and possibly for a reason that is not modelled.\<close>

definition apply_deployment :: "bool \<Rightarrow> gw_desired \<Rightarrow> gw_deployment option \<Rightarrow> gw_deployment" where
  "apply_deployment other d dep =
     (case dep of
        None \<Rightarrow> \<lparr>dp_generation = 1, dp_replicas = Some (gd_replicas d), dp_configHash = gd_configHash d,
                dp_observedGeneration = 0, dp_updatedReplicas = 0, dp_statusReplicas = 0, dp_availableReplicas = 0,
                dp_readyReplicas = 0\<rparr>
      | Some x \<Rightarrow>
          if dp_replicas x = Some (gd_replicas d) \<and> dp_configHash x = gd_configHash d \<and> \<not> other then x
          else x\<lparr>dp_generation := dp_generation x + 1, dp_replicas := Some (gd_replicas d), dp_configHash := gd_configHash d\<rparr>)"

fun rendered_config :: "gw_write list \<Rightarrow> envoy_config option" where
  "rendered_config [] = None"
| "rendered_config (x # xs) = (case x of GwConfigMap c \<Rightarrow> Some c | _ \<Rightarrow> rendered_config xs)"

fun written_deployment :: "gw_write list \<Rightarrow> gw_desired option" where
  "written_deployment [] = None"
| "written_deployment (x # xs) = (case x of GwDeployment d \<Rightarrow> Some d | _ \<Rightarrow> written_deployment xs)"

definition after_writes :: "bool \<Rightarrow> gw_write list \<Rightarrow> gw_world \<Rightarrow> gw_world" where
  "after_writes other ws w =
     (case (written_deployment ws, rendered_config ws) of
        (Some d, Some c) \<Rightarrow> w\<lparr>gw_dep := Some (apply_deployment other d (gw_dep w)), gw_template := c\<rparr>
      | _ \<Rightarrow> w)"

definition stored_after :: "pass_end \<Rightarrow> fb_instance \<Rightarrow> fb_instance" where
  "stored_after e inst = (case pe_stored e of Some i \<Rightarrow> i | None \<Rightarrow> inst)"

definition loosens :: "fb_instance \<Rightarrow> bool" where
  "loosens inst \<longleftrightarrow> gatewayPostureLevel (gatewayDesiredMode inst) < gatewayPostureLevel (gatewayServedMode inst)"

text \<open>The gateway with its pods: passes of the controller, edits of the Instance that leave the recorded posture,
  pods that start from the current template or are replaced in an old ReplicaSet, pods that stop, and the report of
  the Deployment controller. A pod runs the configuration of its template. A pass reads the current Deployment; one
  that finds the spec asking for a looser posture than the recorded one, and rolls it out, also records it.\<close>

inductive gw_step :: "condition_api \<Rightarrow> operator_env \<Rightarrow> (envoy_config \<Rightarrow> string) \<Rightarrow> gw_world \<Rightarrow> gw_world \<Rightarrow> bool"
  for ca env tx where
  pass: "gx_deployment api = Inr (gw_dep w) \<Longrightarrow> gx_text api = tx \<Longrightarrow> e = reconcile_instance ca env api (gw_inst w) \<Longrightarrow>
     (loosens (gw_inst w) \<and> written_deployment (pe_writes e) \<noteq> None \<Longrightarrow>
        gatewayServedMode (stored_after e (gw_inst w)) = gatewayDesiredMode (gw_inst w)) \<Longrightarrow>
     gw_step ca env tx w (after_writes other (pe_writes e) (w\<lparr>gw_inst := stored_after e (gw_inst w)\<rparr>))"
| edit: "fi_gatewayTLS inst = fi_gatewayTLS (gw_inst w) \<Longrightarrow> gw_step ca env tx w (w\<lparr>gw_inst := inst\<rparr>)"
| start: "gw_dep w = Some d \<Longrightarrow> gw_step ca env tx w (w\<lparr>gw_pods := \<lparr>gp_hash = dp_configHash d, gp_config = gw_template w\<rparr> # gw_pods w\<rparr>)"
| again: "p \<in> set (gw_pods w) \<Longrightarrow> gw_step ca env tx w (w\<lparr>gw_pods := p # gw_pods w\<rparr>)"
| stop: "gw_step ca env tx w (w\<lparr>gw_pods := remove1 p (gw_pods w)\<rparr>)"
| observe: "gw_dep w = Some d \<Longrightarrow>
     gw_step ca env tx w (w\<lparr>gw_dep := Some (d\<lparr>dp_observedGeneration := dp_generation d,
        dp_updatedReplicas := int (length (filter (\<lambda>p. gp_hash p = dp_configHash d) (gw_pods w))),
        dp_statusReplicas := int (length (gw_pods w)), dp_availableReplicas := a, dp_readyReplicas := r\<rparr>)\<rparr>)"

definition served_level :: "fb_instance \<Rightarrow> int" where
  "served_level inst = gatewayPostureLevel (gatewayServedMode inst)"

definition dep_ok :: "operator_env \<Rightarrow> (envoy_config \<Rightarrow> string) \<Rightarrow> envoy_config \<Rightarrow> gw_pod list \<Rightarrow> gw_deployment \<Rightarrow> bool" where
  "dep_ok env tx c pods d \<longleftrightarrow>
     (\<exists>v. dp_configHash d = config_hash env tx c v) \<and> dp_observedGeneration d \<le> dp_generation d \<and>
     (dp_observedGeneration d = dp_generation d \<and> dp_updatedReplicas d = dp_statusReplicas d \<longrightarrow>
        (\<forall>p\<in>set pods. gp_hash p = dp_configHash d))"

definition gw_inv :: "operator_env \<Rightarrow> (envoy_config \<Rightarrow> string) \<Rightarrow> gw_world \<Rightarrow> bool" where
  "gw_inv env tx w \<longleftrightarrow>
     (\<forall>d. gw_dep w = Some d \<longrightarrow> dep_ok env tx (gw_template w) (gw_pods w) d)
     \<and> (\<forall>p\<in>set (gw_pods w). \<exists>v. gp_hash p = config_hash env tx (gp_config p) v)
     \<and> (fi_gatewayTLS (gw_inst w) \<noteq> None \<longrightarrow>
          (gw_dep w \<noteq> None \<longrightarrow> served_level (gw_inst w) \<le> config_level (gw_template w))
          \<and> (\<forall>p\<in>set (gw_pods w). served_level (gw_inst w) \<le> config_level (gp_config p)))"

text \<open>A configuration without a client listener never shares its hash with one that has it.\<close>

definition closed_is_distinct :: "operator_env \<Rightarrow> (envoy_config \<Rightarrow> string) \<Rightarrow> bool" where
  "closed_is_distinct env tx \<longleftrightarrow> (\<forall>p v c v'. config_hash env tx (FailClosed p) v \<noteq> config_hash env tx (Serving c) v')"

lemma closed_hash:
  "closed_is_distinct env tx \<Longrightarrow> config_hash env tx c v = config_hash env tx (FailClosed p) v' \<Longrightarrow> config_level c = 3"
  by (cases c) (auto simp: closed_is_distinct_def, metis)

text \<open>A gateway confirmed to run the closed configuration has only pods without a client listener.\<close>

lemma serving_closed:
  assumes "gatewayServingCurrentConfig env api (i\<lparr>fi_gatewayTLS := None\<rparr>) = Inr True" "gateway_tls_enabled i"
    and "gx_deployment api = Inr (gw_dep w)" "gx_text api = tx" "gw_inv env tx w" "closed_is_distinct env tx"
  shows "config_level (gw_template w) = 3" "p \<in> set (gw_pods w) \<Longrightarrow> config_level (gp_config p) = 3"
proof -
  from assms(1,3) obtain d v where d: "gw_dep w = Some d" "deploymentRolledOut d"
    "dp_configHash d = config_hash env tx (buildEnvoyConfigYAML (i\<lparr>fi_gatewayTLS := None\<rparr>) (wakeAgentEnabled api (i\<lparr>fi_gatewayTLS := None\<rparr>))) v"
    using assms(4) by (auto simp: gatewayServingCurrentConfig_def gatewayConfigHash_def and_then_def split: option.splits sum.splits) metis
  have pend: "gatewayDownstreamTLSPending (i\<lparr>fi_gatewayTLS := None\<rparr>)"
    using assms(2) by (simp add: gatewayDownstreamTLSPending_def gateway_tls_enabled_def gateway_listener_def)
  then obtain q where h: "dp_configHash d = config_hash env tx (FailClosed q) v"
    using d(3) by (simp add: buildEnvoyConfigYAML_def)
  have ok: "dep_ok env tx (gw_template w) (gw_pods w) d" using assms(5) d(1) by (simp add: gw_inv_def)
  then have all: "\<forall>p\<in>set (gw_pods w). gp_hash p = dp_configHash d"
    using d(2) by (auto simp: dep_ok_def deploymentRolledOut_def Let_def)
  show "config_level (gw_template w) = 3"
    using ok h closed_hash[OF assms(6)] by (metis dep_ok_def)
  show "config_level (gp_config p) = 3" if p: "p \<in> set (gw_pods w)"
  proof -
    obtain v' where "gp_hash p = config_hash env tx (gp_config p) v'" using assms(5) p by (auto simp: gw_inv_def)
    then show ?thesis using all p h closed_hash[OF assms(6)] by metis
  qed
qed


section \<open>Passes\<close>

text \<open>What a pass writes of the gateway, and the status it leaves.\<close>

lemma do_writes_prefix: "do_writes api xs = (r, ws) \<Longrightarrow> \<exists>ys. xs = ws @ ys"
  by (induction xs arbitrary: r ws) (auto split: option.splits prod.splits)

lemma resources_writes:
  assumes "ensureGatewayResources env api inst = (r, ws)" "written_deployment ws = Some d"
  shows "rendered_config ws = Some (buildEnvoyConfigYAML inst (wakeAgentEnabled api inst)) \<and>
         (\<exists>v. gd_configHash d = config_hash env (gx_text api) (buildEnvoyConfigYAML inst (wakeAgentEnabled api inst)) v) \<and>
         (\<exists>h. d = desired_deployment env api inst h)"
proof -
  define cfg where "cfg = buildEnvoyConfigYAML inst (wakeAgentEnabled api inst)"
  define rbac where "rbac = (if userGatewayServiceAccountName inst \<noteq> [] then [] else [GwRBAC])"
  obtain r1 ws1 where 1: "do_writes api (rbac @ [GwConfigMap cfg]) = (r1, ws1)" by fastforce
  have no: "written_deployment ws1 = None" if "rbac @ [GwConfigMap cfg] = ws1 @ ys" for ys
    using that by (auto simp: rbac_def Cons_eq_append_conv append_eq_Cons_conv split: if_splits)
  have full: "ws1 = rbac @ [GwConfigMap cfg]" if "r1 = None"
    using 1 that by (auto simp: rbac_def split: option.splits if_splits prod.splits)
  from do_writes_prefix[OF 1] no have none: "written_deployment ws1 = None" by blast
  have wd: "written_deployment (ws1 @ zs) = written_deployment zs" for zs
    using full none 1 by (auto simp: rbac_def split: option.splits if_splits prod.splits)
  obtain h where h: "gatewayConfigHash env api inst cfg = Inr h" and r1: "r1 = None"
    and ws: "\<exists>zs. ws = ws1 @ zs \<and> (\<exists>ys. [GwDeployment (desired_deployment env api inst h), GwService, GwPDB] = zs @ ys)"
    using assms 1 none
    by (auto simp: ensureGatewayResources_def cfg_def[symmetric] rbac_def[symmetric] Let_def
        split: prod.splits option.splits sum.splits dest: do_writes_prefix)
  obtain zs ys where zs: "ws = ws1 @ zs" "[GwDeployment (desired_deployment env api inst h), GwService, GwPDB] = zs @ ys" using ws by blast
  then have "written_deployment zs = Some d" using assms(2) wd by simp
  then have "d = desired_deployment env api inst h" using zs(2) by (cases zs) auto
  moreover have "\<exists>v. h = config_hash env (gx_text api) cfg v" using h by (auto simp: gatewayConfigHash_def and_then_def split: sum.splits)
  moreover have "rendered_config ws = Some cfg" using full[OF r1] zs(1) by (simp add: rbac_def)
  ultimately show ?thesis by (auto simp: desired_deployment_def cfg_def)
qed

lemma gateway_steps_writes: "pe_writes (gateway_steps ca env api gw bd inst) = snd (ensureGatewayResources env gw inst)"
  by (cases "ensureGatewayResources env gw inst")
    (auto simp: gateway_steps_def failWithCondition_def writeStatusAndPoll_def Let_def split: option.splits sum.splits)

lemma end_writes:
  "pe_writes (failWithCondition ca api ws t reason e inst) = ws" "pe_writes (writeStatusAndPoll ca api ws every inst) = ws"
  by (simp_all add: failWithCondition_def writeStatusAndPoll_def)

lemma end_stored:
  "fi_gatewayTLS (stored_after (failWithCondition ca api ws t reason e j) inst) \<in> {fi_gatewayTLS inst, fi_gatewayTLS j}"
  "fi_gatewayTLS (stored_after (writeStatusAndPoll ca api ws every j) inst) \<in> {fi_gatewayTLS inst, fi_gatewayTLS j}"
  by (simp_all add: failWithCondition_def writeStatusAndPoll_def stored_after_def store_def)

definition recorded_from :: "operator_env \<Rightarrow> gateway_api \<Rightarrow> fb_instance \<Rightarrow> gateway_tls_status option \<Rightarrow> bool" where
  "recorded_from env api inst t \<longleftrightarrow>
     t = None \<or> t = fi_gatewayTLS inst
     \<or> (\<exists>g i2. t = Some g \<and> gt_mode g = gatewayDesiredMode inst \<and> same_gateway inst i2 \<and> may_record env api i2
          \<and> gateway_tls_enabled inst)"

lemma pass_records:
  "recorded_from env (gw_api api) inst (fi_gatewayTLS (stored_after (reconcile_instance ca env api inst) inst))"
proof (cases "live_phase inst")
  case False
  then show ?thesis
    by (auto simp: live_phase_def recorded_from_def stored_after_def reconcile_instance_def store_def)
next
  case True
  have sec: "recorded_from env (gw_api api) inst (fi_gatewayTLS i)" if "secure_steps ca env (gw_api api) inst = (i, bd, gw)" for i bd gw
    using that by (rule secure_steps_cases) (auto simp: recorded_from_def)
  have self: "recorded_from env (gw_api api) inst (fi_gatewayTLS inst)" by (simp add: recorded_from_def)
  show ?thesis
  proof (cases rule: reconcile_ends[OF True, where ca = ca and env = env and api = api])
    case (1 t reason e j)
    then show ?thesis using end_stored(1)[of ca api "[]" t reason e j inst] sec self by auto
  next
    case (2 j i bd gw)
    then show ?thesis using end_stored(2)[of ca api "[]" "5 * second" j inst] sec[OF 2(4)] self by auto
  next
    case (3 i bd gw k)
    have "fi_gatewayTLS (stored_after (gateway_steps ca env api gw bd k) inst) \<in> {fi_gatewayTLS inst, fi_gatewayTLS k}"
    proof (cases rule: gateway_steps_ends[of ca env api gw bd k])
      case (1 ws reason e j)
      then show ?thesis using end_stored(1)[of ca api ws _ reason e j inst] by auto
    next
      case (2 ws j b)
      then show ?thesis using end_stored(2)[of ca api ws _ j inst] by auto
    qed
    then show ?thesis using 3(2,5) sec[OF 3(1)] self by auto
  qed
qed

lemma pass_renders:
  assumes "written_deployment (pe_writes (reconcile_instance ca env api inst)) = Some d"
  obtains c v where "rendered_config (pe_writes (reconcile_instance ca env api inst)) = Some c"
    "gd_configHash d = config_hash env (gx_text api) c v"
    "config_level c = 3 \<or> config_level c = gatewayPostureLevel (gatewayDesiredMode inst)"
proof (cases "live_phase inst")
  case False
  then show thesis using assms by (auto simp: live_phase_def reconcile_instance_def)
next
  case True
  show thesis
  proof (cases rule: reconcile_ends[OF True, where ca = ca and env = env and api = api])
    case (3 i bd gw k)
    obtain r ws where rs: "ensureGatewayResources env gw k = (r, ws)" by fastforce
    have ws: "pe_writes (reconcile_instance ca env api inst) = ws" by (simp add: 3(2) gateway_steps_writes rs)
    have "fi_tls i = fi_tls inst" using 3(1) by (rule secure_steps_cases) simp
    then have dm: "gatewayDesiredMode k = gatewayDesiredMode inst" using 3(7) listener_cong[of k inst] by simp
    from resources_writes[OF rs] assms ws obtain v where
      "rendered_config ws = Some (buildEnvoyConfigYAML k (wakeAgentEnabled gw k))"
      "gd_configHash d = config_hash env (gx_text gw) (buildEnvoyConfigYAML k (wakeAgentEnabled gw k)) v" by auto
    then show thesis using that[of "buildEnvoyConfigYAML k (wakeAgentEnabled gw k)" v] ws 3(10) dm
      by (auto simp: rendered_level)
  qed (use assms end_writes in auto)
qed


lemma desired_served:
  "gateway_tls_enabled inst \<Longrightarrow> fi_gatewayTLS i = Some g \<Longrightarrow> gt_mode g = gatewayDesiredMode inst \<Longrightarrow>
     gatewayServedMode i = gatewayDesiredMode inst"
  by (auto simp: gatewayServedMode_def gatewayDesiredMode_def GatewayTLSModeMutual_def GatewayTLSModeOneWay_def)

lemma served_cong: "fi_gatewayTLS a = fi_gatewayTLS b \<Longrightarrow> gatewayServedMode a = gatewayServedMode b"
  by (simp add: gatewayServedMode_def)

text \<open>A pass leaves a recorded posture that every pod and the template it found already keep.\<close>

lemma pass_keeps_level:
  assumes inv: "gw_inv env tx w" and dist: "closed_is_distinct env tx"
    and api: "gx_deployment api = Inr (gw_dep w)" "gx_text api = tx"
    and i: "recorded_from env (gw_api api) (gw_inst w) (fi_gatewayTLS i)" "fi_gatewayTLS i \<noteq> None"
  shows "gw_dep w \<noteq> None \<Longrightarrow> served_level i \<le> config_level (gw_template w)"
    and "p \<in> set (gw_pods w) \<Longrightarrow> served_level i \<le> config_level (gp_config p)"
proof -
  from i(1)[unfolded recorded_from_def] i(2)
  have "(gw_dep w \<noteq> None \<longrightarrow> served_level i \<le> config_level (gw_template w)) \<and> (\<forall>p\<in>set (gw_pods w). served_level i \<le> config_level (gp_config p))"
  proof (elim disjE)
    assume "fi_gatewayTLS i = fi_gatewayTLS (gw_inst w)"
    then show ?thesis using inv i(2) served_cong[of i "gw_inst w"] by (auto simp: gw_inv_def served_level_def)
  next
    assume "\<exists>g i2. fi_gatewayTLS i = Some g \<and> gt_mode g = gatewayDesiredMode (gw_inst w) \<and> same_gateway (gw_inst w) i2
      \<and> may_record env (gw_api api) i2 \<and> gateway_tls_enabled (gw_inst w)"
    then obtain g i2 where g: "fi_gatewayTLS i = Some g" "gt_mode g = gatewayDesiredMode (gw_inst w)"
      and i2: "same_gateway (gw_inst w) i2" "may_record env (gw_api api) i2" and en: "gateway_tls_enabled (gw_inst w)" by blast
    have lv: "served_level i = gatewayPostureLevel (gatewayDesiredMode (gw_inst w))"
      using desired_served[OF en g] by (simp add: served_level_def)
    have same: "gatewayDesiredMode i2 = gatewayDesiredMode (gw_inst w)" "gateway_tls_enabled i2"
      "gatewayServedMode i2 = gatewayServedMode (gw_inst w)"
      using i2(1) listener_cong[of i2 "gw_inst w"] served_cong[of i2 "gw_inst w"] en by (auto simp: same_gateway_def)
    show ?thesis
    proof (cases "gatewayServingCurrentConfig env (gw_api api) (i2\<lparr>fi_gatewayTLS := None\<rparr>) = Inr True")
      case True
      have "gx_deployment (gw_api api) = Inr (gw_dep w)" "gx_text (gw_api api) = tx"
        using api by (simp_all add: gateway_api.defs)
      from serving_closed[OF True same(2) this inv dist] show ?thesis
        by (auto simp: served_level_def posture_level_bound)
    next
      case False
      then have le: "gatewayPostureLevel (gatewayDesiredMode (gw_inst w)) \<le> served_level (gw_inst w)"
        using i2(2) same by (simp add: may_record_def served_level_def)
      moreover have "fi_gatewayTLS (gw_inst w) \<noteq> None"
      proof
        assume "fi_gatewayTLS (gw_inst w) = None"
        then have "served_level (gw_inst w) = 0"
          by (simp add: served_level_def gatewayServedMode_def gatewayPostureLevel_def GatewayTLSModeMutual_def GatewayTLSModeOneWay_def)
        then show False using le en
          by (auto simp: gatewayDesiredMode_def gatewayPostureLevel_def GatewayTLSModeMutual_def GatewayTLSModeOneWay_def split: if_splits)
      qed
      ultimately show ?thesis using inv unfolding gw_inv_def lv by force
    qed
  qed simp
  then show "gw_dep w \<noteq> None \<Longrightarrow> served_level i \<le> config_level (gw_template w)"
    "p \<in> set (gw_pods w) \<Longrightarrow> served_level i \<le> config_level (gp_config p)" by blast+
qed

lemma dep_ok_applied:
  assumes "\<forall>x. dep = Some x \<longrightarrow> dep_ok env tx c0 pods x" "gd_configHash d = config_hash env tx c v"
  shows "dep_ok env tx c pods (apply_deployment other d dep)"
  using assms by (cases dep) (auto simp: apply_deployment_def dep_ok_def)

lemma gw_inv_pass:
  assumes inv: "gw_inv env tx w" and dist: "closed_is_distinct env tx"
    and api: "gx_deployment api = Inr (gw_dep w)" "gx_text api = tx"
    and e: "e = reconcile_instance ca env api (gw_inst w)"
    and kept: "loosens (gw_inst w) \<and> written_deployment (pe_writes e) \<noteq> None \<Longrightarrow>
        gatewayServedMode (stored_after e (gw_inst w)) = gatewayDesiredMode (gw_inst w)"
  shows "gw_inv env tx (after_writes other (pe_writes e) (w\<lparr>gw_inst := stored_after e (gw_inst w)\<rparr>))"
proof -
  define i where "i = stored_after e (gw_inst w)"
  have rec: "recorded_from env (gw_api api) (gw_inst w) (fi_gatewayTLS i)" unfolding i_def e by (rule pass_records)
  note lv = pass_keeps_level[OF inv dist api rec]
  show ?thesis
  proof (cases "written_deployment (pe_writes e)")
    case None
    then show ?thesis using inv lv unfolding i_def[symmetric] by (auto simp: after_writes_def gw_inv_def)
  next
    case (Some d)
    from Some[unfolded e] obtain c v where c: "rendered_config (pe_writes e) = Some c" "gd_configHash d = config_hash env tx c v"
      "config_level c = 3 \<or> config_level c = gatewayPostureLevel (gatewayDesiredMode (gw_inst w))"
      unfolding e using api(2) by (metis pass_renders)
    have up: "served_level i \<le> config_level c" if ne: "fi_gatewayTLS i \<noteq> None"
    proof (cases "loosens (gw_inst w)")
      case True
      then have "gatewayServedMode i = gatewayDesiredMode (gw_inst w)" using kept Some by (simp add: i_def)
      then show ?thesis using c(3) posture_level_bound(1) by (auto simp: served_level_def)
    next
      case False
      then have le: "served_level (gw_inst w) \<le> gatewayPostureLevel (gatewayDesiredMode (gw_inst w))"
        by (simp add: loosens_def served_level_def)
      have "served_level i \<le> gatewayPostureLevel (gatewayDesiredMode (gw_inst w))"
        using rec ne le served_cong[of i "gw_inst w"] desired_served[of "gw_inst w" i]
        by (auto simp: recorded_from_def served_level_def)
      then show ?thesis using c(3) posture_level_bound(1)[of "gatewayServedMode i"] by (auto simp: served_level_def)
    qed
    have "dep_ok env tx c (gw_pods w) (apply_deployment other d (gw_dep w))"
      by (rule dep_ok_applied[OF _ c(2)]) (use inv in \<open>auto simp: gw_inv_def\<close>)
    then show ?thesis using inv up lv(2) Some c(1) unfolding i_def[symmetric] by (auto simp: after_writes_def gw_inv_def)
  qed
qed

lemma filter_length_all: "length (filter P xs) = length xs \<longleftrightarrow> (\<forall>x\<in>set xs. P x)"
proof
  assume "length (filter P xs) = length xs"
  then show "\<forall>x\<in>set xs. P x" using length_filter_less[of _ xs P] by fastforce
qed simp

lemma gw_inv_fewer:
  assumes "set ps \<subseteq> set (gw_pods w)" "gw_inv env tx w"
  shows "gw_inv env tx (w\<lparr>gw_pods := ps\<rparr>)"
  unfolding gw_inv_def
proof (intro conjI)
  show "\<forall>d. gw_dep (w\<lparr>gw_pods := ps\<rparr>) = Some d \<longrightarrow> dep_ok env tx (gw_template (w\<lparr>gw_pods := ps\<rparr>)) (gw_pods (w\<lparr>gw_pods := ps\<rparr>)) d"
    using assms by (auto simp: gw_inv_def dep_ok_def)
qed (use assms in \<open>auto simp: gw_inv_def\<close>)

lemma dep_ok_observed:
  assumes "dep_ok env tx c pods d"
  shows "dep_ok env tx c pods (d\<lparr>dp_observedGeneration := dp_generation d,
        dp_updatedReplicas := int (length (filter (\<lambda>p. gp_hash p = dp_configHash d) pods)),
        dp_statusReplicas := int (length pods), dp_availableReplicas := a, dp_readyReplicas := r\<rparr>)"
  using assms by (simp add: dep_ok_def filter_length_all)

lemma gw_inv_step:
  assumes "gw_step ca env tx w w'" "closed_is_distinct env tx" "gw_inv env tx w"
  shows "gw_inv env tx w'"
  using assms
proof (induction rule: gw_step.induct)
  case (pass api w e other)
  then show ?case using gw_inv_pass by blast
next
  case (edit inst w)
  then show ?case using served_cong[of inst "gw_inst w"] by (auto simp: gw_inv_def served_level_def)
next
  case (start w d)
  then show ?case by (auto simp: gw_inv_def dep_ok_def)
next
  case (again p w)
  then show ?case by (intro gw_inv_fewer) auto
next
  case (stop w p)
  then show ?case by (intro gw_inv_fewer set_remove1_subset)
next
  case (observe w d a r)
  then show ?case using dep_ok_observed by (simp add: gw_inv_def)
qed


text \<open>The step with the assumption on the hash, which the locale of invariants is interpreted with.\<close>

definition gw_move :: "condition_api \<Rightarrow> operator_env \<Rightarrow> (envoy_config \<Rightarrow> string) \<Rightarrow> gw_world \<Rightarrow> gw_world \<Rightarrow> bool" where
  "gw_move ca env tx w w' \<longleftrightarrow> closed_is_distinct env tx \<and> gw_step ca env tx w w'"

interpretation gateway: invariant_system "gw_move ca env tx" "gw_inv env tx" for ca env tx
  by unfold_locales (auto simp: gw_move_def intro: gw_inv_step)

text \<open>A world before TLS was asked for: no posture is recorded, nothing has been observed that the pods contradict.\<close>

definition gw_fresh :: "operator_env \<Rightarrow> (envoy_config \<Rightarrow> string) \<Rightarrow> gw_world \<Rightarrow> bool" where
  "gw_fresh env tx w \<longleftrightarrow>
     fi_gatewayTLS (gw_inst w) = None \<and> (\<forall>p\<in>set (gw_pods w). \<exists>v. gp_hash p = config_hash env tx (gp_config p) v)
     \<and> (\<forall>d. gw_dep w = Some d \<longrightarrow> (\<exists>v. dp_configHash d = config_hash env tx (gw_template w) v)
          \<and> dp_observedGeneration d < dp_generation d)"

lemma gw_fresh_inv: "gw_fresh env tx w \<Longrightarrow> gw_inv env tx w"
  by (auto simp: gw_fresh_def gw_inv_def dep_ok_def)


section \<open>A gateway that gets TLS\<close>

definition gw_env :: operator_env where "gw_env = ex_env\<lparr>oe_sha256hex := (\<lambda>s. s)\<rparr>"

definition gw_text :: "envoy_config \<Rightarrow> string" where
  "gw_text c = (case c of FailClosed p \<Rightarrow> ''closed'' | Serving s \<Rightarrow> ''serving'' @ itoa (config_level (Serving s)))"

lemma gw_distinct: "closed_is_distinct gw_env gw_text"
  by (simp add: closed_is_distinct_def config_hash_def contentHash_def gw_env_def gw_text_def)

definition ex_gw_listener :: "string option \<Rightarrow> tls_listener" where
  "ex_gw_listener clientCA = ex_listener\<lparr>tl_clientCASecretRef := clientCA\<rparr>"

definition ex_gw_tls :: "string option \<Rightarrow> tls_spec option" where
  "ex_gw_tls clientCA = Some \<lparr>ts_engine = None, ts_gateway = Some (ex_gw_listener clientCA)\<rparr>"

definition ex_gw_instance :: "string option \<Rightarrow> gateway_tls_status option \<Rightarrow> fb_instance" where
  "ex_gw_instance clientCA st =
     ex_tls_instance\<lparr>fi_tls := ex_gw_tls clientCA, fi_engineTLS := None, fi_gatewayTLS := st, fi_gatewayReplicas := Some 1\<rparr>"

definition ex_pass_api :: "int \<Rightarrow> gw_deployment option \<Rightarrow> pass_api" where
  "ex_pass_api issued dep =
     \<lparr>au_now = 0, au_hugeDuration = 0, au_apply = (\<lambda>_. None),
      au_getCert = (\<lambda>n. Inr (Some \<lparr>co_name = n, co_generation = 1, co_creation = 0,
                                   co_conditions = [(''Ready'', ''True'', issued)]\<rparr>)),
      au_getSecret = (\<lambda>n. Inr (Some (ex_secret n))), au_deleteCert = (\<lambda>_. None), au_deleteSecret = (\<lambda>_. None),
      au_engines = Inr [], au_publicKey = Inr, ti_applyCert = (\<lambda>_. None),
      ti_applyBundle = (\<lambda>b. Inr (ex_secret (cb_name b))), ti_fleet = Inr [],
      gx_text = gw_text, gx_wakeAgentImage = [], gx_wakeAgentImagePullPolicy = [], gx_envoyImage = (''envoy'', ''v1''),
      gx_preStop = (\<lambda>_ _. []), gx_deployment = Inr dep, gx_write = (\<lambda>_. None),
      px_postgres = None, px_metadata = None, px_metadataReady = Inr True,
      px_deploymentAfter = Inr dep, px_statusWrite = None\<rparr>"

definition ex_pass :: "int \<Rightarrow> gw_world \<Rightarrow> pass_end" where
  "ex_pass issued w = reconcile_instance list_conditions gw_env (ex_pass_api issued (gw_dep w)) (gw_inst w)"

definition ex_passed :: "int \<Rightarrow> gw_world \<Rightarrow> gw_world" where
  "ex_passed issued w =
     after_writes False (pe_writes (ex_pass issued w)) (w\<lparr>gw_inst := stored_after (ex_pass issued w) (gw_inst w)\<rparr>)"

definition ex_start :: "gw_world \<Rightarrow> gw_world" where
  "ex_start w = w\<lparr>gw_pods := \<lparr>gp_hash = dp_configHash (the (gw_dep w)), gp_config = gw_template w\<rparr> # gw_pods w\<rparr>"

definition ex_observe :: "gw_world \<Rightarrow> gw_world" where
  "ex_observe w = (let d = the (gw_dep w) in
     w\<lparr>gw_dep := Some (d\<lparr>dp_observedGeneration := dp_generation d,
        dp_updatedReplicas := int (length (filter (\<lambda>p. gp_hash p = dp_configHash d) (gw_pods w))),
        dp_statusReplicas := int (length (gw_pods w)), dp_availableReplicas := 1, dp_readyReplicas := 1\<rparr>)\<rparr>)"

lemma ex_moves:
  "\<not> loosens (gw_inst w) \<Longrightarrow> gw_move list_conditions gw_env gw_text w (ex_passed issued w)"
  "gw_dep w \<noteq> None \<Longrightarrow> gw_move list_conditions gw_env gw_text w (ex_start w)"
  "gw_dep w \<noteq> None \<Longrightarrow> gw_move list_conditions gw_env gw_text w (ex_observe w)"
proof -
  show "gw_move list_conditions gw_env gw_text w (ex_passed issued w)" if "\<not> loosens (gw_inst w)"
    unfolding gw_move_def ex_passed_def
    by (intro conjI gw_distinct gw_step.pass[where api = "ex_pass_api issued (gw_dep w)"])
      (use that in \<open>simp_all add: ex_pass_api_def ex_pass_def\<close>)
  assume "gw_dep w \<noteq> None"
  then obtain d where d: "gw_dep w = Some d" by blast
  show "gw_move list_conditions gw_env gw_text w (ex_start w)"
    using gw_step.start[OF d] gw_distinct by (simp add: gw_move_def ex_start_def d)
  show "gw_move list_conditions gw_env gw_text w (ex_observe w)"
    using gw_step.observe[OF d] gw_distinct by (simp add: gw_move_def ex_observe_def d Let_def)
qed







definition ex_cond :: "string \<Rightarrow> string \<Rightarrow> string \<Rightarrow> string \<Rightarrow> condition" where
  "ex_cond t s r m = \<lparr>cd_type = t, cd_status = s, cd_reason = r, cd_message = m, cd_observedGeneration = 1\<rparr>"

definition ex_gw_at :: "string option \<Rightarrow> gateway_tls_status option \<Rightarrow> condition list \<Rightarrow> fb_instance" where
  "ex_gw_at clientCA st cs = (ex_gw_instance clientCA st)\<lparr>in_conditions := cs\<rparr>"

definition ex_dep :: "int \<Rightarrow> string \<Rightarrow> gw_deployment" where
  "ex_dep observed h =
     \<lparr>dp_generation = 1, dp_replicas = Some 1, dp_configHash = h, dp_observedGeneration = observed, dp_updatedReplicas = observed,
      dp_statusReplicas = observed, dp_availableReplicas = observed, dp_readyReplicas = observed\<rparr>"

definition ex_recorded :: "string \<Rightarrow> gateway_tls_status" where
  "ex_recorded m = \<lparr>gt_secretName = ''i-gateway-tls'', gt_createdAt = 0, gt_mode = m, gt_clientCAFingerprint = []\<rparr>"

definition ex_auth_cond :: condition where
  "ex_auth_cond = ex_cond ''AuthReady'' ''True'' ''Disabled'' ''spec.auth is unset or disabled''"
definition ex_engine_cond :: condition where
  "ex_engine_cond = ex_cond ''EngineTLSReady'' ''True'' ''Disabled'' ''spec.tls.engine is unset or disabled''"

lemma ex_auth_step: "ensureAuth list_conditions gw_env (auth_api.truncate (gw_api (ex_pass_api n dep))) (ex_gw_at c st []) = (None, ex_gw_at c st [ex_auth_cond], [])"
  by (simp add: ensureAuth_def auth_cond_def retained_generation_def authStatusGeneration_def ex_gw_at_def ex_gw_instance_def ex_tls_instance_def setInstanceCondition_def mk_condition_def list_conditions_def ex_auth_cond_def ex_cond_def InstanceConditionAuthReady_def)

lemma ex_engine_step: "ensureEngineTLS list_conditions gw_env (tls_api (gw_api (ex_pass_api n dep))) (ex_gw_at c st [ex_auth_cond]) =
  (None, ex_gw_at c st [ex_engine_cond, ex_auth_cond])"
  by (simp add: ensureEngineTLS_def engine_tls_cond_def engine_tls_off_def ex_gw_at_def ex_gw_instance_def ex_tls_instance_def setInstanceCondition_def
     mk_condition_def list_conditions_def ex_auth_cond_def ex_engine_cond_def ex_cond_def ex_gw_tls_def engine_listener_def InstanceConditionEngineTLSReady_def)
lemma ex_upstream: "\<not> engineUpstreamTLSReady (ex_gw_at c st cs)"
  by (simp add: engineUpstreamTLSReady_def ex_gw_at_def ex_gw_instance_def)

lemma ex_gateway_step: "ensureGatewayTLS list_conditions gw_env (gw_api (ex_pass_api 1 (Some (ex_dep 1 ''closed'')))) (ex_gw_at None None [ex_engine_cond, ex_auth_cond]) =
  (None, ex_gw_at None (Some (ex_recorded ''TLS'')) [ex_cond ''GatewayTLSReady'' ''False'' ''SecureRolloutPending'' ''gateway TLS certificate provisioned; waiting for the secure listener to finish rolling out'', ex_engine_cond, ex_auth_cond])"
  by code_simp


definition ex_metadata_cond :: condition where
  "ex_metadata_cond = ex_cond ''MetadataReady'' ''True'' ''Ready'' ''metadata Deployment has at least one ready replica''"

definition ex_ready_at :: "string option \<Rightarrow> gateway_tls_status option \<Rightarrow> condition list \<Rightarrow> fb_instance" where
  "ex_ready_at clientCA st cs =
     (ex_gw_at clientCA st (ex_metadata_cond # cs))\<lparr>fi_metadataReady := True, fi_metadataEndpoint := ''i-metadata.n.svc.cluster.local:7000''\<rparr>"

lemma ex_metadata_step:
  assumes "\<forall>c\<in>set cs. cd_type c \<noteq> ''MetadataReady''"
  shows "setInstanceCondition list_conditions
     ((ex_gw_at c st cs)\<lparr>fi_metadataReady := True,
        fi_metadataEndpoint := metadataServiceEndpoint (in_name (ex_gw_at c st cs)) (in_namespace (ex_gw_at c st cs))\<rparr>)
     InstanceConditionMetadataReady True ''Ready'' ''metadata Deployment has at least one ready replica'' = ex_ready_at c st cs"
proof -
  have e: "metadataServiceEndpoint ''i'' ''n'' = ''i-metadata.n.svc.cluster.local:7000''"
    by (simp add: metadataServiceEndpoint_def SuffixMetadataService_def MetadataServicePort_def itoa_def nat_digits.simps digit_char_def) code_simp
  have f: "filter (\<lambda>d. cd_type d \<noteq> ''MetadataReady'') cs = cs" using assms by (induction cs) simp_all
  have n: "in_name (ex_gw_at c st cs) = ''i''" "in_namespace (ex_gw_at c st cs) = ''n''"
    by (simp_all add: ex_gw_at_def ex_gw_instance_def ex_tls_instance_def)
  show ?thesis unfolding n e
    by (simp add: f ex_ready_at_def ex_gw_at_def ex_gw_instance_def ex_tls_instance_def setInstanceCondition_def mk_condition_def
        list_conditions_def ex_metadata_cond_def ex_cond_def InstanceConditionMetadataReady_def)
qed

lemma ex_reconcile:
  assumes "ensureGatewayTLS list_conditions gw_env (gw_api (ex_pass_api n dep)) (ex_gw_at c st [ex_engine_cond, ex_auth_cond]) = (r, ex_gw_at c st' cs)"
    and "\<forall>c\<in>set cs. cd_type c \<noteq> ''MetadataReady''"
  shows "reconcile_instance list_conditions gw_env (ex_pass_api n dep) (ex_gw_at c st []) =
    gateway_steps list_conditions gw_env (ex_pass_api n dep) (gw_api (ex_pass_api n dep)) (Inr []) (ex_ready_at c st' cs)"
proof -
  have s: "secure_steps list_conditions gw_env (gw_api (ex_pass_api n dep)) (ex_gw_at c st []) =
      (ex_gw_at c st' cs, Inr [], gw_api (ex_pass_api n dep))"
    by (simp add: secure_steps_def ex_auth_step ex_engine_step assms ensureEngineCABundle_def ex_upstream)
      (simp add: instance_api.defs gateway_api.defs ex_pass_api_def)
  have p: "fi_phase (ex_gw_at c st []) = Provisioning"
    by (simp add: ex_gw_at_def ex_gw_instance_def ex_tls_instance_def)
  have v: "validateInstanceTemplates (ex_gw_at c st []) = ([], [])"
    by (simp add: validateInstanceTemplates_def ex_gw_at_def ex_gw_instance_def ex_tls_instance_def ValidatePodTemplate_def Let_def)
  have a: "database_step (ex_pass_api n dep) gw (ex_gw_at c st' cs) = None" for gw
    by (simp add: database_step_def ex_pass_api_def ex_gw_at_def ex_gw_instance_def ex_tls_instance_def)
  have m: "px_metadata (ex_pass_api n dep) = None" "px_metadataReady (ex_pass_api n dep) = Inr True"
    by (simp_all add: ex_pass_api_def)
  show ?thesis by (simp add: reconcile_instance_def p v a m s ex_metadata_step[OF assms(2)])
qed

definition ex_staged_cond :: condition where "ex_staged_cond = ex_cond ''GatewayTLSReady'' ''False'' ''SecureRolloutPending''
  ''gateway TLS certificate provisioned; waiting for the secure listener to finish rolling out''"
definition ex_ready_cond :: condition where "ex_ready_cond = ex_cond ''GatewayTLSReady'' ''True'' ''Ready'' ''gateway TLS certificate is provisioned and serving''"

definition ex_hash :: "string" where "ex_hash = take 16 (''serving1'' @ CHR 0x00 # ''i-gateway-tls'')"

lemma ex_gateway_step2: "ensureGatewayTLS list_conditions gw_env (gw_api (ex_pass_api 1 (Some (ex_dep 1 ex_hash)))) (ex_gw_at None (Some (ex_recorded ''TLS'')) [ex_engine_cond, ex_auth_cond]) =
  (None, ex_gw_at None (Some (ex_recorded ''TLS'')) [ex_ready_cond, ex_engine_cond, ex_auth_cond])"
  by code_simp


lemma gateway_steps_stored:
  assumes "px_statusWrite api = None"
  shows "\<exists>i. pe_stored (gateway_steps ca env api gw bd inst) = Some i \<and> fi_gatewayTLS i = fi_gatewayTLS inst"
proof (cases rule: gateway_steps_ends[of ca env api gw bd inst])
  case (1 ws reason e j)
  then show ?thesis using assms by (simp add: failWithCondition_def store_def)
next
  case (2 ws j b)
  then show ?thesis using assms by (simp add: writeStatusAndPoll_def store_def)
qed

definition ex_serving :: envoy_config where
  "ex_serving = Serving \<lparr>sc_namespace = ''n'', sc_downstream = Some \<lparr>dt_requireClientCertificate = False, dt_crl = False\<rparr>,
     sc_upstream = None, sc_metricsPort = 9090, sc_wake = False\<rparr>"

definition ex_desired :: gw_desired where
  "ex_desired = desired_deployment gw_env (gw_api (ex_pass_api 1 (Some (ex_dep 1 ''closed''))))
     (ex_ready_at None (Some (ex_recorded ''TLS'')) [ex_staged_cond, ex_engine_cond, ex_auth_cond]) ex_hash"

lemma ex_desired_fields [simp]: "gd_replicas ex_desired = 1" "gd_configHash ex_desired = ex_hash"
  by (simp_all add: ex_desired_def desired_deployment_def ex_ready_at_def ex_gw_at_def ex_gw_instance_def)

definition ex_writes :: "gw_write list" where
  "ex_writes = [GwRBAC, GwConfigMap ex_serving, GwDeployment ex_desired, GwService, GwPDB]"

lemma ex_config: "buildEnvoyConfigYAML (ex_ready_at None (Some (ex_recorded ''TLS'')) cs) False = ex_serving"
  by (simp add: buildEnvoyConfigYAML_def ex_serving_def gatewayDownstreamTLSPending_def ex_ready_at_def ex_gw_at_def ex_gw_instance_def
    ex_tls_instance_def buildListenerDownstreamTLSTransportSocket_def gatewayDownstreamTLSReady_def gateway_tls_enabled_def gateway_listener_def
    ex_gw_tls_def ex_gw_listener_def ex_listener_def gatewayClientCASecretRef_def buildDFPUpstreamTLSTransportSocket_def engineUpstreamTLSReady_def
    gatewayMetricsPort_def)

lemma ex_resources:
  "ensureGatewayResources gw_env (gw_api (ex_pass_api 1 (Some (ex_dep 1 ''closed''))))
     (ex_ready_at None (Some (ex_recorded ''TLS'')) [ex_staged_cond, ex_engine_cond, ex_auth_cond]) = (None, ex_writes)"
  by code_simp


definition ex_world0 :: gw_world where
  "ex_world0 = \<lparr>gw_inst = ex_gw_at None None [], gw_dep = Some (ex_dep 0 ''closed''), gw_template = FailClosed 9090,
     gw_pods = [\<lparr>gp_hash = ''closed'', gp_config = FailClosed 9090\<rparr>]\<rparr>"

lemma ex_gw_fresh: "gw_fresh gw_env gw_text ex_world0"
proof -
  have "''closed'' = config_hash gw_env gw_text (FailClosed 9090) []"
    by (simp add: config_hash_def contentHash_def gw_env_def gw_text_def)
  then show ?thesis by (auto simp: gw_fresh_def ex_world0_def ex_gw_at_def ex_gw_instance_def ex_dep_def)
qed

definition ex_world1 :: gw_world where "ex_world1 = ex_world0\<lparr>gw_dep := Some (ex_dep 1 ''closed'')\<rparr>"

lemma ex_observed: "ex_observe ex_world0 = ex_world1"
  by (simp add: ex_observe_def ex_world0_def ex_world1_def ex_dep_def)

lemma ex_ready_tls: "fi_gatewayTLS (ex_ready_at c st cs) = st"
  by (simp add: ex_ready_at_def ex_gw_at_def ex_gw_instance_def)

lemma ex_pass1:
  "pe_writes (ex_pass 1 ex_world1) = ex_writes"
  "\<exists>i. pe_stored (ex_pass 1 ex_world1) = Some i \<and> fi_gatewayTLS i = Some (ex_recorded ''TLS'')"
proof -
  have e: "ex_pass 1 ex_world1 = gateway_steps list_conditions gw_env (ex_pass_api 1 (Some (ex_dep 1 ''closed'')))
      (gw_api (ex_pass_api 1 (Some (ex_dep 1 ''closed'')))) (Inr [])
      (ex_ready_at None (Some (ex_recorded ''TLS'')) [ex_staged_cond, ex_engine_cond, ex_auth_cond])"
    using ex_reconcile[OF ex_gateway_step]
    by (simp add: ex_pass_def ex_world1_def ex_world0_def ex_staged_cond_def ex_engine_cond_def ex_auth_cond_def ex_cond_def)
  show "pe_writes (ex_pass 1 ex_world1) = ex_writes" by (simp add: e gateway_steps_writes ex_resources)
  have "px_statusWrite (ex_pass_api 1 (Some (ex_dep 1 ''closed''))) = None" by (simp add: ex_pass_api_def)
  then show "\<exists>i. pe_stored (ex_pass 1 ex_world1) = Some i \<and> fi_gatewayTLS i = Some (ex_recorded ''TLS'')"
    unfolding e by (metis gateway_steps_stored ex_ready_tls)
qed


lemma ex_reaches:
  obtains w where "(gw_move list_conditions gw_env gw_text)\<^sup>*\<^sup>* ex_world0 w" "fi_gatewayTLS (gw_inst w) = Some (ex_recorded ''TLS'')"
    "gw_pods w = [\<lparr>gp_hash = ex_hash, gp_config = ex_serving\<rparr>, \<lparr>gp_hash = ''closed'', gp_config = FailClosed 9090\<rparr>]"
proof -
  let ?m = "gw_move list_conditions gw_env gw_text" and ?w = "ex_passed 1 ex_world1"
  have 1: "?m ex_world0 ex_world1" using ex_moves(3)[of ex_world0] by (simp add: ex_observed) (simp add: ex_world0_def)
  have "\<not> loosens (gw_inst ex_world1)"
    by (simp add: loosens_def ex_world1_def ex_world0_def ex_gw_at_def ex_gw_instance_def gatewayServedMode_def gatewayPostureLevel_def
        GatewayTLSModeMutual_def GatewayTLSModeOneWay_def)
  then have 2: "?m ex_world1 ?w" by (rule ex_moves(1))
  obtain i where i: "pe_stored (ex_pass 1 ex_world1) = Some i" "fi_gatewayTLS i = Some (ex_recorded ''TLS'')"
    using ex_pass1(2) by blast
  have eq: "?w = after_writes False ex_writes (ex_world1\<lparr>gw_inst := i\<rparr>)"
    by (simp add: ex_passed_def ex_pass1(1) stored_after_def i(1))
  have w: "gw_inst ?w = i" "gw_template ?w = ex_serving" "gw_pods ?w = gw_pods ex_world0"
    "\<exists>d. gw_dep ?w = Some d \<and> dp_configHash d = ex_hash"
    unfolding eq by (simp_all add: after_writes_def ex_writes_def ex_world1_def apply_deployment_def)
  then have 3: "?m ?w (ex_start ?w)" by (intro ex_moves(2)) auto
  have "?m\<^sup>*\<^sup>* ex_world0 (ex_start ?w)" using 1 2 3 by (meson converse_rtranclp_into_rtranclp rtranclp.rtrancl_refl)
  then show thesis by (rule that) (use w i(2) in \<open>auto simp: ex_start_def ex_world0_def\<close>)
qed


lemma ex_serving_resources:
  "ensureGatewayResources gw_env (gw_api (ex_pass_api 1 (Some (ex_dep 1 ex_hash))))
     (ex_ready_at None (Some (ex_recorded ''TLS'')) [ex_ready_cond, ex_engine_cond, ex_auth_cond]) = (None, ex_writes)"
  by code_simp

definition ex_served :: fb_instance where "ex_served = ex_gw_at None (Some (ex_recorded ''TLS'')) []"

lemma ex_served_pass:
  obtains i where "pe_stored (reconcile_instance list_conditions gw_env (ex_pass_api 1 (Some (ex_dep 1 ex_hash))) ex_served) = Some i"
    "condition_true list_conditions i InstanceConditionReady"
proof -
  let ?api = "ex_pass_api 1 (Some (ex_dep 1 ex_hash))"
  let ?k = "ex_ready_at None (Some (ex_recorded ''TLS'')) [ex_ready_cond, ex_engine_cond, ex_auth_cond]"
  have e: "reconcile_instance list_conditions gw_env ?api ex_served = gateway_steps list_conditions gw_env ?api (gw_api ?api) (Inr []) ?k"
    unfolding ex_served_def
    by (rule ex_reconcile[OF ex_gateway_step2]) (simp add: ex_ready_cond_def ex_engine_cond_def ex_auth_cond_def ex_cond_def)
  have c: "checkGatewayCRLSecrets ((gw_api ?api)\<lparr>gx_deployment := px_deploymentAfter ?api\<rparr>) ?k = None" by code_simp
  have r: "isGatewayReady ((gw_api ?api)\<lparr>gx_deployment := px_deploymentAfter ?api\<rparr>) = Inr True" by code_simp
  have t: "condition_true list_conditions ?k t" if "t \<in> {InstanceConditionMetadataReady, InstanceConditionEngineTLSReady, InstanceConditionGatewayTLSReady}" for t
    using that by (auto simp: condition_true_def list_conditions_def ex_ready_at_def ex_gw_at_def ex_metadata_cond_def ex_cond_def ex_ready_cond_def
       ex_engine_cond_def InstanceConditionMetadataReady_def InstanceConditionEngineTLSReady_def InstanceConditionGatewayTLSReady_def)
  have s: "px_statusWrite ?api = None" by (simp add: ex_pass_api_def)
  show thesis
    by (rule that) (auto simp: e gateway_steps_def ex_serving_resources c r Let_def writeStatusAndPoll_def store_def s
        headline_ready[OF list_conditions_ok] publish_frame condition_true_set[OF list_conditions_ok] ready_components_def intro!: t)
qed



section \<open>A loosened posture that is not recorded\<close>

definition ex_mutual :: gateway_tls_status where
  "ex_mutual = (ex_recorded ''MutualTLS'')\<lparr>gt_clientCAFingerprint := caFingerprint gw_env ''A''\<rparr>"

definition ex_pending_cond :: condition where
  "ex_pending_cond = ex_cond ''GatewayTLSReady'' ''False'' ''CertificatePending'' ''waiting for cert-manager to issue the gateway TLS certificate''"

lemma ex_pending_step:
  "ensureGatewayTLS list_conditions gw_env (gw_api (ex_pass_api 0 (Some (ex_dep 1 ''closed'')))) (ex_gw_at None (Some ex_mutual) [ex_engine_cond, ex_auth_cond]) =
     (None, ex_gw_at None (Some ex_mutual) [ex_pending_cond, ex_engine_cond, ex_auth_cond])"
  by code_simp

lemma ex_pending_resources:
  "ensureGatewayResources gw_env (gw_api (ex_pass_api 0 (Some (ex_dep 1 ''closed''))))
     (ex_ready_at None (Some ex_mutual) [ex_pending_cond, ex_engine_cond, ex_auth_cond]) = (None, ex_writes)"
  by code_simp

text \<open>A finding. The listener is rendered from the spec, its posture is recorded when the certificate is ready. So when
  mutual TLS is recorded, the spec drops the client authority and the certificate waits for a reissue, the pass rolls
  out a listener that asks for no client certificate while the status still says mutual TLS. Putting the authority
  back is then neither a tightening nor a changed authority, and is not staged.\<close>

theorem unrecorded_loosening_is_not_staged_back:
  "\<exists>i d. let e = reconcile_instance list_conditions gw_env (ex_pass_api 0 (Some (ex_dep 1 ''closed''))) (ex_gw_at None (Some ex_mutual) []);
          back = i\<lparr>fi_tls := ex_gw_tls (Some ''client-ca'')\<rparr>
      in pe_stored e = Some i \<and> gatewayServedMode i = GatewayTLSModeMutual
         \<and> written_deployment (pe_writes e) = Some d \<and> rendered_config (pe_writes e) = Some ex_serving
         \<and> config_level ex_serving < gatewayPostureLevel (gatewayServedMode i)
         \<and> gatewayDesiredMode back = GatewayTLSModeMutual
         \<and> \<not> gatewayPostureTightening back \<and> \<not> client_ca_swapped back (caFingerprint gw_env ''A'')"
proof -
  let ?api = "ex_pass_api 0 (Some (ex_dep 1 ''closed''))"
  let ?k = "ex_ready_at None (Some ex_mutual) [ex_pending_cond, ex_engine_cond, ex_auth_cond]"
  have e: "reconcile_instance list_conditions gw_env ?api (ex_gw_at None (Some ex_mutual) []) = gateway_steps list_conditions gw_env ?api (gw_api ?api) (Inr []) ?k"
    by (rule ex_reconcile[OF ex_pending_step]) (simp add: ex_pending_cond_def ex_engine_cond_def ex_auth_cond_def ex_cond_def)
  have "px_statusWrite ?api = None" by (simp add: ex_pass_api_def)
  then obtain i where i: "pe_stored (gateway_steps list_conditions gw_env ?api (gw_api ?api) (Inr []) ?k) = Some i" "fi_gatewayTLS i = Some ex_mutual"
    by (metis gateway_steps_stored ex_ready_tls)
  have m: "gt_mode ex_mutual = GatewayTLSModeMutual" "gt_clientCAFingerprint ex_mutual = caFingerprint gw_env ''A''"
    by (simp_all add: ex_mutual_def ex_recorded_def GatewayTLSModeMutual_def)
  have s: "gatewayServedMode i = GatewayTLSModeMutual" by (simp add: gatewayServedMode_def i(2) m GatewayTLSModeMutual_def)
  have w: "pe_writes (gateway_steps list_conditions gw_env ?api (gw_api ?api) (Inr []) ?k) = ex_writes"
    by (simp add: gateway_steps_writes ex_pending_resources)
  show ?thesis
    by (rule exI[of _ i]) (simp add: Let_def e i w s m ex_writes_def ex_serving_def gatewayPostureLevel_def gatewayPostureTightening_def client_ca_swapped_def gatewayServedMode_def gatewayDesiredMode_def
      GatewayTLSModeMutual_def gateway_tls_enabled_def gateway_listener_def ex_gw_tls_def ex_gw_listener_def ex_listener_def gatewayClientCASecretRef_def)
qed

end
