(* ===== verification/Gateway_Secrets.thy ===== *)
theory Gateway_Secrets
  imports Gateway_Safety Template_Safety
begin

text \<open>
  The pod of the gateway as a pass of the Instance writes it: only Envoy reads the Secrets the operator manages, as the
  Instance stood when the pass checked the user's template; and what the checks of one pass miss, a Secret first recorded
  later in the same pass.
\<close>

section \<open>The Deployment of a pass\<close>

lemma pass_deployment:
  assumes "written_deployment (pe_writes (reconcile_instance ca env api inst)) = Some d"
  obtains gw k h where "d = desired_deployment env gw k h" "fi_gatewayTemplate k = fi_gatewayTemplate inst"
    "fst (validateInstanceTemplates inst) = []"
proof (cases "live_phase inst")
  case False
  then show thesis using assms by (auto simp: live_phase_def reconcile_instance_def)
next
  case True
  show thesis
  proof (cases rule: reconcile_ends[OF True, where ca = ca and env = env and api = api])
    case (3 i bd gw k)
    obtain r ws where rs: "ensureGatewayResources env gw k = (r, ws)" by fastforce
    have ws: "pe_writes (reconcile_instance ca env api inst) = ws" by (simp add: 3(2) gateway_steps_writes rs)
    have "fi_gatewayTemplate i = fi_gatewayTemplate inst" using 3(1) by (rule secure_steps_cases) simp
    then show thesis using that resources_writes[OF rs] assms ws 3(12,13) by auto
  qed (use assms end_writes in auto)
qed

text \<open>The names of Envoy's own Secret volumes: reserved, and not the token of the wake agent.\<close>

definition gateway_secret_volume :: "string \<Rightarrow> bool" where
  "gateway_secret_volume name \<longleftrightarrow>
     isReservedVolumeMountName name operatorOwnedGatewaySecretVolumeNames \<and> name \<noteq> GatewayWakeAgentTokenVolumeName"

definition gateway_user :: "fb_instance \<Rightarrow> pod_spec" where
  "gateway_user inst = (case fi_gatewayTemplate inst of Some t \<Rightarrow> pt_spec t | None \<Rightarrow> empty_pod_spec)"

lemma split_sidecars: "set (snd (splitUserContainers cs n)) \<subseteq> set cs"
  by (induction cs) (auto split: prod.splits)

lemma split_sidecar_names:
  "length (filter (\<lambda>c. c_name c = n) cs) \<le> 1 \<Longrightarrow> c \<in> set (snd (splitUserContainers cs n)) \<Longrightarrow> c_name c \<noteq> n"
  by (induction cs) (auto split: prod.splits if_splits simp: filter_empty_conv)

lemma gateway_pod_parts:
  fixes env gw k h
  defines "pod \<equiv> pt_spec (gd_template (desired_deployment env gw k h))"
  defines "agent \<equiv> buildWakeAgentContainer (wakeAgentConfig gw k) (hd (sitems (p_containers pod)))"
  shows "sitems (p_initContainers pod) = sitems (p_initContainers (gateway_user k))"
    and "tl (sitems (p_containers pod)) = snd (splitUserContainers (sitems (p_containers (gateway_user k))) GatewayContainerName)
           @ (case agent of Some (c, v) \<Rightarrow> [c] | None \<Rightarrow> [])"
    and "sitems (p_volumes pod) = (gateway_operator_volumes k (in_name k @ SuffixGateway @ ''-config'')
           @ (case agent of Some (c, v) \<Rightarrow> [v] | None \<Rightarrow> []))
         @ filter (\<lambda>v. \<not> List.member gateway_reserved_volumes (v_name v) \<and> \<not> aliasesProtectedSecret v (instanceProtectedSecret k))
             (sitems (p_volumes (gateway_user k)))"
  by (simp_all add: pod_def agent_def desired_deployment_def effectiveGatewayPodTemplate_def gateway_user_def empty_pod_template_def
      appendUserVolumes_def Let_def split: prod.split option.split)

lemma gateway_volume_reserved:
  assumes "v \<in> set (gateway_operator_volumes k cm)" "aliasesProtectedSecret v P"
  shows "gateway_secret_volume (v_name v)"
proof -
  have n: "v_name (secret_mount_volume m) = fst m" for m by (simp add: secret_mount_volume_def split: prod.split)
  have "\<not> aliasesProtectedSecret (empty_volume\<lparr>v_name := x, v_configMap := y, v_items := z\<rparr>) P"
    "\<not> aliasesProtectedSecret (empty_volume\<lparr>v_name := x, v_emptyDir := w\<rparr>) P" for x y z w
    by (simp_all add: aliasesProtectedSecret_def VolumeSecretRefs_def empty_volume_def secret_ref_def)
  then obtain m where "m \<in> set (gateway_secret_mounts k)" "v = secret_mount_volume m"
    using assms by (auto simp: gateway_operator_volumes_def)
  then show ?thesis
    by (auto simp: n gateway_secret_mounts_def gateway_secret_volume_def isReservedVolumeMountName_def isReservedKey_def
        operatorOwnedGatewaySecretVolumeNames_def gateway_volume_names split: if_splits option.splits)
qed

lemma wake_agent_reads_nothing:
  assumes "buildWakeAgentContainer cfg envoy = Some (c, v)"
  shows "env_ok P c" "\<not> aliasesProtectedSecret v P" "sitems (c_volumeMounts c) = [mk_mount GatewayWakeAgentTokenVolumeName serviceAccountTokenMountPath True]"
    "v_name v = GatewayWakeAgentTokenVolumeName"
  using assms
  by (auto simp: buildWakeAgentContainer_def env_ok_def ContainerSecretRefs_def empty_container_def secret_ref_def wake_agent_token_volume_def
      aliasesProtectedSecret_def VolumeSecretRefs_def empty_volume_def split: if_splits)

lemma gateway_gate:
  assumes "fst (validateInstanceTemplates inst) = []"
  defines "u \<equiv> gateway_user inst" and "P \<equiv> instanceProtectedSecret inst"
  shows "c \<in> set (sitems (p_initContainers u)) \<Longrightarrow> mounts_ok GatewayPodTemplateRules c \<and> env_ok P c"
    and "c \<in> set (snd (splitUserContainers (sitems (p_containers u)) GatewayContainerName)) \<Longrightarrow> mounts_ok GatewayPodTemplateRules c \<and> env_ok P c"
    and "v \<in> set (sitems (p_volumes u)) \<Longrightarrow> \<not> aliasesProtectedSecret v P"
proof -
  have e: "fi_gatewayTemplate inst = None \<Longrightarrow> sitems (p_initContainers u) = [] \<and> sitems (p_containers u) = [] \<and> sitems (p_volumes u) = []"
    by (simp add: u_def gateway_user_def empty_pod_spec_def)
  have a: "(\<exists>b. containers_loop GatewayPodTemplateRules b 0 False (sitems (p_containers u)) = [])
      \<and> (\<exists>b. validateInitContainersAgainstRules (sitems (p_initContainers u)) b GatewayPodTemplateRules = [])
      \<and> (\<forall>v\<in>set (sitems (p_volumes u)). \<not> aliasesProtectedSecret v P)
      \<and> (\<forall>c\<in>set (sitems (p_containers u)). env_ok P c) \<and> (\<forall>c\<in>set (sitems (p_initContainers u)). env_ok P c)"
    if "fi_gatewayTemplate inst = Some t" for t
    using assms(1) that
    by (auto simp: validateInstanceTemplates_def validateTemplateSecretRefs_def ValidatePodTemplate_def validateContainersAgainstRules_def
        Let_def no_secret_volumes no_secret_env u_def gateway_user_def P_def)
  show "v \<in> set (sitems (p_volumes u)) \<Longrightarrow> \<not> aliasesProtectedSecret v P"
    using e a by (cases "fi_gatewayTemplate inst") auto
  show "c \<in> set (sitems (p_initContainers u)) \<Longrightarrow> mounts_ok GatewayPodTemplateRules c \<and> env_ok P c"
    using e a inits_ok[of "sitems (p_initContainers u)" _ GatewayPodTemplateRules c] by (cases "fi_gatewayTemplate inst") auto
  have pr: "tr_primaryContainerName GatewayPodTemplateRules = GatewayContainerName" by (simp add: GatewayPodTemplateRules_def)
  show "mounts_ok GatewayPodTemplateRules c \<and> env_ok P c"
    if c: "c \<in> set (snd (splitUserContainers (sitems (p_containers u)) GatewayContainerName))"
  proof (cases "fi_gatewayTemplate inst")
    case None
    then show ?thesis using e c by simp
  next
    case (Some t)
    obtain b where b: "containers_loop GatewayPodTemplateRules b 0 False (sitems (p_containers u)) = []" using a[OF Some] by blast
    have "c_name c \<noteq> GatewayContainerName" using split_sidecar_names[OF _ c] one_primary[OF b] pr by simp
    then have "mounts_ok GatewayPodTemplateRules c" using containers_ok[OF b, of c] split_sidecars c pr by auto
    then show ?thesis using a[OF Some] split_sidecars c by blast
  qed
qed

text \<open>The Deployment a pass writes, as the gate saw the Instance.\<close>

definition gateway_pod_of :: "condition_api \<Rightarrow> operator_env \<Rightarrow> pass_api \<Rightarrow> fb_instance \<Rightarrow> pod_spec" where
  "gateway_pod_of ca env api inst =
     (case written_deployment (pe_writes (reconcile_instance ca env api inst)) of
        Some d \<Rightarrow> pt_spec (gd_template d) | None \<Rightarrow> empty_pod_spec)"

definition beside_envoy :: "pod_spec \<Rightarrow> container list" where
  "beside_envoy pod = sitems (p_initContainers pod) @ tl (sitems (p_containers pod))"

lemma gateway_screen:
  fixes env gw k h inst
  assumes "fi_gatewayTemplate k = fi_gatewayTemplate inst" "fst (validateInstanceTemplates inst) = []"
  defines "pod \<equiv> pt_spec (gd_template (desired_deployment env gw k h))"
  shows "secret_screen (instanceProtectedSecret inst) gateway_secret_volume
    (gateway_operator_volumes k (in_name k @ SuffixGateway @ ''-config'')) (sitems (p_volumes pod)) (beside_envoy pod)"
proof -
  have u: "gateway_user k = gateway_user inst" by (simp add: gateway_user_def assms(1))
  note parts = gateway_pod_parts[of env gw k h, folded pod_def, unfolded u] and gate = gateway_gate[OF assms(2)]
  define agent where "agent = buildWakeAgentContainer (wakeAgentConfig gw k) (hd (sitems (p_containers pod)))"
  have sec: "tr_secretBackedVolumeMountNames GatewayPodTemplateRules = operatorOwnedGatewaySecretVolumeNames"
    by (simp add: GatewayPodTemplateRules_def)
  have oth: "(mounts_ok GatewayPodTemplateRules c \<or> sitems (c_volumeMounts c) = [mk_mount GatewayWakeAgentTokenVolumeName serviceAccountTokenMountPath True])
      \<and> env_ok (instanceProtectedSecret inst) c" if "c \<in> set (beside_envoy pod)" for c
    using that gate(1,2) wake_agent_reads_nothing(1,3)
    by (auto simp: beside_envoy_def parts(1,2) agent_def[symmetric] split: option.splits prod.splits) (auto simp: agent_def)
  show ?thesis
  proof
    fix v assume "v \<in> set (sitems (p_volumes pod))" "aliasesProtectedSecret v (instanceProtectedSecret inst)"
    then show "v \<in> set (gateway_operator_volumes k (in_name k @ SuffixGateway @ ''-config''))"
      using gate(3) wake_agent_reads_nothing(2) unfolding parts(3) agent_def[symmetric]
      by (auto split: option.splits prod.splits) (auto simp: agent_def)
  next
    fix c m assume "c \<in> set (beside_envoy pod)" "m \<in> set (sitems (c_volumeMounts c))"
    then show "\<not> gateway_secret_volume (vm_name m)"
      using oth by (fastforce simp: gateway_secret_volume_def mounts_ok_def sec mk_mount_def)
  qed (use oth gateway_volume_reserved in auto)
qed

interpretation gateway_pod_screen: secret_screen "instanceProtectedSecret inst" gateway_secret_volume
  "if fst (validateInstanceTemplates inst) = [] \<and> fi_gatewayTemplate k = fi_gatewayTemplate inst
   then gateway_operator_volumes k (in_name k @ SuffixGateway @ ''-config'') else []"
  "if fst (validateInstanceTemplates inst) = [] \<and> fi_gatewayTemplate k = fi_gatewayTemplate inst
   then sitems (p_volumes (pt_spec (gd_template (desired_deployment env gw k h)))) else []"
  "if fst (validateInstanceTemplates inst) = [] \<and> fi_gatewayTemplate k = fi_gatewayTemplate inst
   then beside_envoy (pt_spec (gd_template (desired_deployment env gw k h))) else []"
  for env gw k h inst
proof (cases "fst (validateInstanceTemplates inst) = [] \<and> fi_gatewayTemplate k = fi_gatewayTemplate inst")
  case True
  then show "secret_screen (instanceProtectedSecret inst) gateway_secret_volume
    (if fst (validateInstanceTemplates inst) = [] \<and> fi_gatewayTemplate k = fi_gatewayTemplate inst
     then gateway_operator_volumes k (in_name k @ SuffixGateway @ ''-config'') else [])
    (if fst (validateInstanceTemplates inst) = [] \<and> fi_gatewayTemplate k = fi_gatewayTemplate inst
     then sitems (p_volumes (pt_spec (gd_template (desired_deployment env gw k h)))) else [])
    (if fst (validateInstanceTemplates inst) = [] \<and> fi_gatewayTemplate k = fi_gatewayTemplate inst
     then beside_envoy (pt_spec (gd_template (desired_deployment env gw k h))) else [])"
    using gateway_screen[of k inst env gw h] by simp
qed (unfold_locales, auto)

lemma gateway_pod_reads:
  assumes "fi_gatewayTemplate k = fi_gatewayTemplate inst" "fst (validateInstanceTemplates inst) = []"
    and "c \<in> set (beside_envoy (pt_spec (gd_template (desired_deployment env gw k h))))"
    and "container_reads (sitems (p_volumes (pt_spec (gd_template (desired_deployment env gw k h))))) c n"
  shows "\<not> instanceProtectedSecret inst n"
  using gateway_pod_screen.others_read_nothing[of c inst k env gw h n] assms by simp

text \<open>C19. Only Envoy reads the Instance's Secrets. Whenever a pass of the Instance writes the gateway's Deployment,
  whatever template the user gave: no init container of its pod and no container beside Envoy reads, through its
  environment or a volume it mounts, a Secret the operator manages for the Instance as it stood when the pass checked
  the template.\<close>

theorem only_envoy_reads_secrets:
  assumes "c \<in> set (beside_envoy (gateway_pod_of ca env api inst))"
    and "container_reads (sitems (p_volumes (gateway_pod_of ca env api inst))) c n"
  shows "\<not> instanceProtectedSecret inst n"
proof (cases "written_deployment (pe_writes (reconcile_instance ca env api inst))")
  case None
  then show ?thesis using assms(1) by (simp add: gateway_pod_of_def beside_envoy_def empty_pod_spec_def)
next
  case (Some d)
  from pass_deployment[OF Some] obtain gw k h where "d = desired_deployment env gw k h"
    "fi_gatewayTemplate k = fi_gatewayTemplate inst" "fst (validateInstanceTemplates inst) = []" .
  then show ?thesis using gateway_pod_reads assms Some by (simp add: gateway_pod_of_def)
qed

section \<open>A gateway with a helper\<close>

text \<open>A gateway whose secure listener is about to be recorded, and a helper beside Envoy that mounts a Secret of the user and
  takes another into its environment.\<close>

definition helper_template :: "string \<Rightarrow> pod_template" where
  "helper_template sec = empty_pod_template\<lparr>pt_spec := empty_pod_spec\<lparr>
     p_volumes := Some [empty_volume\<lparr>v_name := ''data'', v_secret := Some ''mine''\<rparr>],
     p_containers := Some [empty_container\<lparr>c_name := ''helper'', c_image := ''h'',
       c_volumeMounts := Some [mk_mount ''data'' ''/data'' True],
       c_envFrom := Some [\<lparr>ef_secretRef = Some sec, ef_configMapRef = None, ef_rest = K8s []\<rparr>]\<rparr>]\<rparr>\<rparr>"

definition helped_gateway :: "string \<Rightarrow> fb_instance" where
  "helped_gateway sec = (ex_gw_at None None [])\<lparr>fi_gatewayTemplate := Some (helper_template sec)\<rparr>"

definition helped_api :: pass_api where "helped_api = ex_pass_api 1 (Some (ex_dep 1 ''closed''))"

theorem only_envoy_reads_secrets_witness:
  "list_ex (\<lambda>c. c_name c = ''helper'' \<and> container_reads (sitems (p_volumes (gateway_pod_of list_conditions gw_env helped_api
       (helped_gateway ''mine'')))) c ''mine'') (beside_envoy (gateway_pod_of list_conditions gw_env helped_api (helped_gateway ''mine'')))
   \<and> \<not> instanceProtectedSecret (helped_gateway ''mine'') ''mine''"
proof -
  let ?pod = "gateway_pod_of list_conditions gw_env helped_api (helped_gateway ''mine'')"
  have r: "list_ex (\<lambda>c. c_name c = ''helper'' \<and> container_reads (sitems (p_volumes ?pod)) c ''mine'') (beside_envoy ?pod)"
    by code_simp
  then obtain c where "c \<in> set (beside_envoy ?pod)" "container_reads (sitems (p_volumes ?pod)) c ''mine''"
    by (auto simp: list_ex_iff)
  then show ?thesis using r only_envoy_reads_secrets by blast
qed

text \<open>The check comes before the steps that record the Secrets. A helper that takes the gateway's serving key into its
  environment by the name it will have is accepted while nothing is recorded, and the Deployment that carries it is
  written by the pass that records the key; from then on the Instance counts the key among its own.\<close>

lemma unrecorded_key_reaches_the_pod:
  defines "inst \<equiv> helped_gateway ''i-gateway-tls''"
  shows "\<not> instanceProtectedSecret inst ''i-gateway-tls''"
    and "list_ex (\<lambda>c. c_name c = ''helper'' \<and> container_reads (sitems (p_volumes (gateway_pod_of list_conditions gw_env helped_api inst))) c
           ''i-gateway-tls'') (beside_envoy (gateway_pod_of list_conditions gw_env helped_api inst))"
    and "case pe_stored (reconcile_instance list_conditions gw_env helped_api inst) of
           Some i \<Rightarrow> instanceProtectedSecret i ''i-gateway-tls'' | None \<Rightarrow> False"
  unfolding inst_def by code_simp+

end
