(* ===== verification/Engine_Admission.thy ===== *)
theory Engine_Admission
  imports Template_Safety
begin

text \<open>
  Admission of engines, classes and Presets (\<open>fireboltengine_webhook.go\<close>, \<open>fireboltengineclass_webhook.go\<close>,
  \<open>clusterfireboltengineclass_webhook.go\<close> and \<open>fireboltenginepreset_webhook.go\<close> of \<open>src/api/v1alpha1\<close>), with the bounds on
  the resources of an engine and their twin in \<open>engine_controller.go\<close>. What the API answers to a webhook is read through
  the same record as the lookups of a pass. Go walks the entries of a map in any order; the model takes their names
  in order.
\<close>

section \<open>Resource bounds\<close>

record resource_bounds =
  rb_maxCPU :: quantity
  rb_maxMemory :: quantity
  rb_maxEphemeralStorage :: quantity

definition zero_quantity :: quantity where "zero_quantity = Quantity 0 []"

definition is_zero :: "quantity \<Rightarrow> bool" where "is_zero q \<longleftrightarrow> qval q = 0"

definition bounds_IsEmpty :: "resource_bounds \<Rightarrow> bool" where
  "bounds_IsEmpty b \<longleftrightarrow> is_zero (rb_maxCPU b) \<and> is_zero (rb_maxMemory b) \<and> is_zero (rb_maxEphemeralStorage b)"

definition bounds_max :: "resource_bounds \<Rightarrow> string \<Rightarrow> quantity" where
  "bounds_max b name =
     (if name = ''cpu'' then rb_maxCPU b
      else if name = ''memory'' then rb_maxMemory b
      else if name = ''ephemeral-storage'' then rb_maxEphemeralStorage b
      else zero_quantity)"

definition validateResourceList :: "resource_bounds \<Rightarrow> string \<Rightarrow> (string, quantity) gomap \<Rightarrow> field_error list" where
  "validateResourceList b path l =
     map (\<lambda>name. Invalid (path_key path name))
       (filter (\<lambda>name. \<not> is_zero (bounds_max b name) \<and>
                  (case fmlookup (mitems l) name of Some q \<Rightarrow> qval (bounds_max b name) < qval q | None \<Rightarrow> False))
          (sorted_list_of_fset (fmdom (mitems l))))"

definition bounds_Validate :: "resource_bounds \<Rightarrow> resource_requirements \<Rightarrow> string \<Rightarrow> field_error list" where
  "bounds_Validate b r base =
     (if bounds_IsEmpty b then []
      else validateResourceList b (path_child base ''requests'') (rr_requests r)
           @ validateResourceList b (path_child base ''limits'') (rr_limits r))"

definition merged_path :: string where
  "merged_path = path_child (path_key ''spec.template.spec.containers'' EngineContainerName) ''resources''"

text \<open>The resources a layer declares on the engine container.\<close>

definition declared_resources :: "pod_template option \<Rightarrow> resource_requirements option" where
  "declared_resources t =
     (case EngineContainerInTemplate t of
        Some c \<Rightarrow> if HasContainerResources (c_resources c) then Some (c_resources c) else None
      | None \<Rightarrow> None)"

text \<open>The gate of the controller, on class and Preset before the overlay.\<close>

definition validateMergedEngineResources ::
  "resource_bounds \<Rightarrow> engine_spec \<Rightarrow> class_info option \<Rightarrow> preset_info option \<Rightarrow> field_error list" where
  "validateMergedEngineResources b spec class preset =
     (case declared_resources (sp_template spec) of
        Some r \<Rightarrow> bounds_Validate b r merged_path
      | None \<Rightarrow>
          (case declared_resources (Option.bind preset pi_template) of
             Some r \<Rightarrow> bounds_Validate b r merged_path
           | None \<Rightarrow>
               (case declared_resources (class_template class) of
                  Some r \<Rightarrow> bounds_Validate b r merged_path
                | None \<Rightarrow> [])))"

section \<open>The webhook of engines\<close>

text \<open>The class, which the later checks use for its template only.\<close>

definition resolveEngineClass :: "lookup_api \<Rightarrow> engine_spec \<Rightarrow> pod_template option \<times> field_error list" where
  "resolveEngineClass api spec =
     (case sp_engineClassRef spec of
        None \<Rightarrow> (None, [])
      | Some ref \<Rightarrow>
          (if ref = [] then (None, [])
           else case lk_class api ref of
                  Inl e \<Rightarrow> (None, [InternalError ''spec.engineClassRef''])
                | Inr (Some class) \<Rightarrow> (Some (ec_template class), [])
                | Inr None \<Rightarrow>
                    (case lk_clusterClass api ref of
                       Inl e \<Rightarrow> (None, [InternalError ''spec.engineClassRef''])
                     | Inr None \<Rightarrow> (None, [NotFound ''spec.engineClassRef''])
                     | Inr (Some cc) \<Rightarrow> (Some (cc_template cc), []))))"

definition resolveEnginePreset :: "lookup_api \<Rightarrow> engine_preset option" where
  "resolveEnginePreset api =
     (case lk_preset api FireboltEnginePresetDefaultName of Inr d \<Rightarrow> d | Inl e \<Rightarrow> None)"

definition validateSecretAliases ::
  "(string \<Rightarrow> engine_error + fb_instance option) \<Rightarrow> engine_spec \<Rightarrow> field_error list" where
  "validateSecretAliases getInstance spec =
     (case sp_template spec of
        None \<Rightarrow> []
      | Some t \<Rightarrow>
          (case getInstance (sp_instanceRef spec) of
             Inr (Some inst) \<Rightarrow>
               (let isProtected = (\<lambda>n. n \<in> set (InstanceOperatorSecretNames inst))
                in if InstanceOperatorSecretNames inst = [] then []
                   else ValidateNoSecretAliasVolumes (sitems (p_volumes (pt_spec t))) ''spec.template.spec.volumes'' isProtected
                        @ ValidateNoSecretRefEnv (sitems (p_containers (pt_spec t))) ''spec.template.spec.containers'' isProtected
                        @ ValidateNoSecretRefEnv (sitems (p_initContainers (pt_spec t))) ''spec.template.spec.initContainers''
                            isProtected)
           | _ \<Rightarrow> []))"

definition validateTemplate :: "engine_spec \<Rightarrow> field_error list" where
  "validateTemplate spec = ValidatePodTemplate (sp_template spec) ''spec.template'' FireboltEngineClassPodTemplateRules"

definition validateResources ::
  "resource_bounds \<Rightarrow> engine_spec \<Rightarrow> engine_preset option \<Rightarrow> pod_template option \<Rightarrow> field_error list" where
  "validateResources b spec defaults class =
     (case declared_resources (sp_template spec) of
        Some r \<Rightarrow> bounds_Validate b r merged_path
      | None \<Rightarrow>
          (case declared_resources (map_option ep_template defaults) of
             Some r \<Rightarrow> bounds_Validate b r merged_path
           | None \<Rightarrow>
               (case declared_resources class of
                  Some r \<Rightarrow> bounds_Validate b r merged_path
                | None \<Rightarrow> [])))"

definition validate_engine ::
  "resource_bounds \<Rightarrow> lookup_api \<Rightarrow> (string \<Rightarrow> engine_error + fb_instance option) \<Rightarrow> engine_spec \<Rightarrow> field_error list" where
  "validate_engine b api getInstance spec =
     (case resolveEngineClass api spec of
        (class, refErrs) \<Rightarrow>
          refErrs @ validateTemplate spec @ validateSecretAliases getInstance spec
          @ validateResources b spec (resolveEnginePreset api) class)"

section \<open>The webhooks of classes and Presets\<close>

definition validateFireboltEngineClassSpec :: "engine_class \<Rightarrow> field_error list" where
  "validateFireboltEngineClassSpec ec = ValidateOperatorOwnedPodTemplate (Some (ec_template ec)) ''spec.template''"

definition validateFireboltEnginePresetSpec :: "engine_preset \<Rightarrow> field_error list" where
  "validateFireboltEnginePresetSpec d = ValidateOperatorOwnedPodTemplate (Some (ep_template d)) ''spec.template''"

definition validateClusterFireboltEngineClassSpec :: "cluster_class \<Rightarrow> field_error list" where
  "validateClusterFireboltEngineClassSpec cc =
     ValidateOperatorOwnedPodTemplate (Some (cc_template cc)) ''spec.template''
     @ ValidateClusterEngineClassSKUOnly (Some (cc_template cc)) ''spec.template''"

text \<open>Deletion: the reader may be missing, the list of the namespace's engines may fail.\<close>

definition validate_class_delete :: "(string + engine_spec list) option \<Rightarrow> engine_class \<Rightarrow> (string, field_error) sum option" where
  "validate_class_delete engines ec =
     (case engines of
        None \<Rightarrow> Some (Inl ''FireboltEngineClass delete webhook has no API reader configured'')
      | Some (Inl e) \<Rightarrow> Some (Inl (''listing FireboltEngines in namespace '' @ CHR 0x22 # ec_namespace ec @ CHR 0x22 # '' to check class references: '' @ e))
      | Some (Inr items) \<Rightarrow>
          if length (filter (\<lambda>e. sp_engineClassRef e = Some (ec_name ec)) items) = 0 then None
          else Some (Inr (Forbidden ''metadata.name'')))"

definition validate_preset_delete :: "(string + engine_spec list) option \<Rightarrow> engine_preset \<Rightarrow> (string, field_error) sum option" where
  "validate_preset_delete engines d =
     (case engines of
        None \<Rightarrow> Some (Inl ''FireboltEnginePreset delete webhook has no API reader configured'')
      | Some (Inl e) \<Rightarrow> Some (Inl (''listing FireboltEngines in namespace '' @ CHR 0x22 # ep_namespace d @ CHR 0x22 # '' to check Preset bindings: '' @ e))
      | Some (Inr items) \<Rightarrow> if length items = 0 then None else Some (Inr (Forbidden ''metadata.name'')))"

section \<open>Admission and reconciliation agree\<close>

lemma preset_found_template:
  assumes "resolveFireboltEnginePresetInfo env ca api ns spec = PresetFound preset"
  shows "Option.bind preset pi_template = map_option ep_template (resolveEnginePreset api)"
  using assms
  by (auto simp: resolveFireboltEnginePresetInfo_def resolveEnginePreset_def newFireboltEnginePresetInfo_def Let_def
      split: sum.splits option.splits if_splits)

lemma class_found_template:
  assumes "resolveFireboltEngineClassInfo env ca api ns spec = ClassFound class"
  shows "resolveEngineClass api spec = (class_template class, [])"
  using assms
  by (auto simp: resolveFireboltEngineClassInfo_def resolveClusterFireboltEngineClassInfo_def resolveEngineClass_def
      newFireboltEngineClassInfo_def newClusterFireboltEngineClassInfo_def class_template_def Let_def
      split: sum.splits option.splits if_splits)

lemma resources_agree:
  assumes "resolveFireboltEnginePresetInfo env ca api ns spec = PresetFound preset"
  shows "validateResources b spec (resolveEnginePreset api) (class_template class) = validateMergedEngineResources b spec class preset"
  unfolding validateResources_def validateMergedEngineResources_def preset_found_template [OF assms] by (rule refl)

text \<open>Classes, Presets and cluster classes are judged as their controllers and lookups judge them, and a webhook lets a class
  or Preset go exactly when the controller counts no engine that needs it.\<close>

lemma webhook_guards_agree:
  "classReadiness api ec = (if validateFireboltEngineClassSpec ec = [] then (True, reasonAdmissible, admissible_message)
     else (False, reasonOperatorOwnedFieldSet, gu_aggregate api (validateFireboltEngineClassSpec ec)))"
  "presetReadiness api d = (if validateFireboltEnginePresetSpec d = [] then (True, reasonAdmissible, admissible_message)
     else (False, reasonOperatorOwnedFieldSet, gu_aggregate api (validateFireboltEnginePresetSpec d)))"
  "validateClusterFireboltEngineClassSpec cc = clusterClassLiveSpecErrors (cc_template cc)"
  "validate_class_delete (Some (gu_live api)) ec = None \<longleftrightarrow> countBoundEngines (gu_live api) (ec_name ec) = Inr 0"
  "validate_preset_delete (Some (gu_live api)) d = None \<longleftrightarrow> countNamespaceEngines (gu_live api) = Inr 0"
  by (auto simp: classReadiness_def validateFireboltEngineClassSpec_def presetReadiness_def validateFireboltEnginePresetSpec_def
      validateClusterFireboltEngineClassSpec_def clusterClassLiveSpecErrors_def validate_class_delete_def countBoundEngines_def
      validate_preset_delete_def countNamespaceEngines_def Let_def split: sum.splits)

text \<open>Admission and the controller judge an engine alike: whenever the lookups of a pass find class and Preset, the
  webhook on the same objects has no objection to the reference, and finds the errors in the engine's template and in its
  resources that the gates of the pass find, besides references to Secrets of the Instance.\<close>

theorem admission_agrees_with_gates:
  assumes "resolveFireboltEngineClassInfo env ca api ns spec = ClassFound class"
    "resolveFireboltEnginePresetInfo env ca api ns spec = PresetFound preset"
  shows "validate_engine b api getInstance spec =
      validateEngineTemplate spec @ validateSecretAliases getInstance spec @ validateMergedEngineResources b spec class preset"
  by (simp add: validate_engine_def class_found_template [OF assms(1)] resources_agree [OF assms(2)] validateTemplate_def
      validateEngineTemplate_def ValidateOperatorOwnedPodTemplate_def)

text \<open>A cluster class with eight processors, a limit of four, and a Preset that may bring the resources down to two.\<close>

definition sized_template :: "int \<Rightarrow> pod_template" where
  "sized_template n = empty_pod_template\<lparr>pt_spec := empty_pod_spec\<lparr>p_containers := Some [empty_container\<lparr>
     c_name := EngineContainerName,
     c_resources := empty_resources\<lparr>rr_requests := Some (fmupd ''cpu'' (Quantity n []) fmempty)\<rparr>\<rparr>]\<rparr>\<rparr>"

definition sized_lookups :: lookup_api where
  "sized_lookups = helper_lookups\<lparr>lk_clusterClass := (\<lambda>n. Inr (Some \<lparr>cc_name = n, cc_template = sized_template 8000\<rparr>))\<rparr>"

definition sized_class :: class_info where
  "sized_class = newClusterFireboltEngineClassInfo helper_env \<lparr>cc_name = ''large'', cc_template = sized_template 8000\<rparr>"

definition sized_bounds :: resource_bounds where
  "sized_bounds = \<lparr>rb_maxCPU = Quantity 4000 ''4'', rb_maxMemory = zero_quantity, rb_maxEphemeralStorage = zero_quantity\<rparr>"

lemma sized_found:
  "resolveFireboltEngineClassInfo helper_env list_conditions sized_lookups ''n'' helper_engine = ClassFound (Some sized_class)"
  "resolveFireboltEnginePresetInfo helper_env list_conditions sized_lookups ''n'' helper_engine = PresetFound (Some helper_preset)"
  by code_simp+

theorem admission_agrees_with_gates_witness:
  "validate_engine sized_bounds sized_lookups (\<lambda>_. Inr None) helper_engine =
     [Invalid ''spec.template.spec.containers[engine].resources.requests[cpu]'']"
proof -
  have "validateEngineTemplate helper_engine = []" "validateSecretAliases (\<lambda>_. Inr None) helper_engine = []"
    "validateMergedEngineResources sized_bounds helper_engine (Some sized_class) (Some helper_preset) =
       [Invalid ''spec.template.spec.containers[engine].resources.requests[cpu]'']"
    by code_simp+
  then show ?thesis using admission_agrees_with_gates [OF sized_found, of sized_bounds "\<lambda>_. Inr None"] by simp
qed

section \<open>Bounds hold in the pod\<close>

definition within :: "resource_bounds \<Rightarrow> resource_requirements \<Rightarrow> bool" where
  "within b r \<longleftrightarrow>
     (\<forall>m \<in> {mitems (rr_requests r), mitems (rr_limits r)}. \<forall>name q.
        fmlookup m name = Some q \<longrightarrow> \<not> is_zero (bounds_max b name) \<longrightarrow> qval q \<le> qval (bounds_max b name))"

lemma resource_list_within:
  assumes "validateResourceList b path l = []" "fmlookup (mitems l) name = Some q" "\<not> is_zero (bounds_max b name)"
  shows "qval q \<le> qval (bounds_max b name)"
proof -
  have "name |\<in>| fmdom (mitems l)" using assms(2) by (rule fmdomI)
  then show ?thesis using assms by (auto simp: validateResourceList_def filter_empty_conv)
qed

lemma bounds_within:
  assumes "bounds_Validate b r base = []"
  shows "within b r"
proof (cases "bounds_IsEmpty b")
  case True
  then have "is_zero (bounds_max b name)" for name
    by (simp add: bounds_IsEmpty_def bounds_max_def is_zero_def zero_quantity_def)
  then show ?thesis by (simp add: within_def)
next
  case False
  then show ?thesis using assms resource_list_within by (auto simp: bounds_Validate_def within_def)
qed

lemma within_empty: "within b empty_resources"
  by (simp add: within_def empty_resources_def)

lemma effective_resources:
  "effectiveEngineResources spec ci =
     (case declared_resources (sp_template spec) of
        Some r \<Rightarrow> r
      | None \<Rightarrow> (case declared_resources (class_template ci) of Some r \<Rightarrow> r | None \<Rightarrow> empty_resources))"
  by (auto simp: effectiveEngineResources_def declared_resources_def spec_field_def class_field_def engineSpecContainer_def
      classEngineContainer_def EngineContainerInTemplate_def split: option.splits)

text \<open>The overlay keeps the precedence: what the merged class declares is the Preset's, or else the class's.\<close>

lemma overlay_resources:
  "effectiveEngineResources spec (overlayPresetOnClass env preset class) =
     (case declared_resources (sp_template spec) of
        Some r \<Rightarrow> r
      | None \<Rightarrow>
          (case declared_resources (Option.bind preset pi_template) of
             Some r \<Rightarrow> r
           | None \<Rightarrow> (case declared_resources (class_template class) of Some r \<Rightarrow> r | None \<Rightarrow> empty_resources)))"
proof (cases preset)
  case None
  then show ?thesis
    by (simp add: overlayPresetOnClass_def effective_resources declared_resources_def EngineContainerInTemplate_def split: option.splits)
next
  case (Some d)
  define fake where "fake = presetAsEngineSpec d"
  have t: "class_template (overlayPresetOnClass env preset class) = Some (overlayPresetPodTemplate env fake class)"
    by (simp add: overlayPresetOnClass_def Some fake_def Let_def class_template_def)
  have "EngineContainerInTemplate (Some (overlayPresetPodTemplate env fake class)) = Some (overlayPresetEngineContainer fake class)"
    by (simp add: EngineContainerInTemplate_def overlayPresetPodTemplate_def overlayPresetPodSpec_def
        overlayPresetEngineContainer_def Let_def)
  moreover have "c_resources (overlayPresetEngineContainer fake class) = effectiveEngineResources fake class"
    by (simp add: overlayPresetEngineContainer_def)
  moreover have "sp_template fake = Option.bind preset pi_template" by (simp add: fake_def presetAsEngineSpec_def Some)
  moreover have "\<not> HasContainerResources empty_resources" by (simp add: HasContainerResources_def empty_resources_def)
  moreover have "declared_resources x = Some r \<Longrightarrow> HasContainerResources r" for x r
    by (auto simp: declared_resources_def split: option.splits if_splits)
  ultimately show ?thesis
    unfolding effective_resources [of spec] t
    by (auto simp: declared_resources_def [of "Some _"] effective_resources [of fake] split: option.splits)
qed

text \<open>C20. The configured maxima hold in every pod the operator renders: when the gate accepted engine, class and Preset, no
  request and no limit of the engine container of the StatefulSet exceeds the maximum of its resource, whichever of the
  three layers it comes from and however the Preset was folded over the class.\<close>

theorem rendered_resources_within_bounds:
  assumes "validateMergedEngineResources b spec class preset = []"
    "sts = buildStatefulSet env script spec engineName ns gen info (overlayPresetOnClass env preset class)"
  shows "\<exists>c cs. p_containers (pt_spec (sts_template sts)) = Some (c # cs) \<and> c_name c = EngineContainerName \<and>
     (\<forall>name q. \<not> is_zero (bounds_max b name) \<longrightarrow>
        (fmlookup (mitems (rr_requests (c_resources c))) name = Some q \<longrightarrow> qval q \<le> qval (bounds_max b name)) \<and>
        (fmlookup (mitems (rr_limits (c_resources c))) name = Some q \<longrightarrow> qval q \<le> qval (bounds_max b name)))"
proof -
  let ?ci = "overlayPresetOnClass env preset class"
  let ?c = "engine_container env script spec info ?ci"
  have "within b (effectiveEngineResources spec ?ci)"
    using assms(1) bounds_within within_empty
    by (auto simp: overlay_resources validateMergedEngineResources_def split: option.splits)
  then have "within b (c_resources ?c)" by (simp add: engine_container_def split: prod.splits)
  moreover have "c_name ?c = EngineContainerName" by (simp add: engine_container_def split: prod.splits)
  ultimately show ?thesis
    by (auto simp: assms(2) buildStatefulSet_def engine_pod_spec_def within_def)
qed

definition sized_sts :: stateful_set where
  "sized_sts = buildStatefulSet helper_env ''run'' helper_engine ''e'' ''n'' 0 helper_info
     (overlayPresetOnClass helper_env (Some (helper_preset\<lparr>pi_template := Some (sized_template 2000)\<rparr>)) (Some sized_class))"

theorem rendered_resources_within_bounds_witness:
  "map (\<lambda>c. map_option qval (fmlookup (mitems (rr_requests (c_resources c))) ''cpu''))
       (take 1 (sitems (p_containers (pt_spec (sts_template sized_sts))))) = [Some 2000] \<and>
   qval (bounds_max sized_bounds ''cpu'') = 4000 \<and>
   list_all (\<lambda>c. case fmlookup (mitems (rr_requests (c_resources c))) ''cpu'' of Some q \<Rightarrow> qval q \<le> 4000 | None \<Rightarrow> True)
       (take 1 (sitems (p_containers (pt_spec (sts_template sized_sts)))))"
proof -
  have v: "validateMergedEngineResources sized_bounds helper_engine (Some sized_class)
      (Some (helper_preset\<lparr>pi_template := Some (sized_template 2000)\<rparr>)) = []" by code_simp
  have r: "map (\<lambda>c. map_option qval (fmlookup (mitems (rr_requests (c_resources c))) ''cpu''))
       (take 1 (sitems (p_containers (pt_spec (sts_template sized_sts))))) = [Some 2000]" by code_simp
  have b: "qval (bounds_max sized_bounds ''cpu'') = 4000" "\<not> is_zero (bounds_max sized_bounds ''cpu'')" by code_simp+
  show ?thesis
    using rendered_resources_within_bounds [OF v sized_sts_def] r b by (auto split: option.splits)
qed

end
