(* ===== verification/Spec2Isabelle.thy ===== *)
theory Spec2Isabelle
  imports Engine_Report Engine_GC Wake_Demand Auth_Curve Gateway_Routing Gateway_Secrets
    Engine_Admission
begin

text \<open>
  The Firebolt Kubernetes operator reconciles \<open>FireboltEngine\<close> and \<open>FireboltInstance\<close> objects. An engine
  is a set of pods that answers queries; every change of its pod template is rolled out blue-green, with a
  numbered generation of StatefulSet, ConfigMap, headless Service and Certificate for each roll-out and one
  routing Service that selects the serving generation. An idle engine can be scaled to zero; queries that
  arrive for it are parked by a sidecar of the gateway, the wake agent, whose demand metric the operator
  polls to scale the engine up again. An Instance is what a group of engines shares: a metadata service, the
  gateway, which is an Envoy proxy that routes each request to the engine it names, the signing keys of the
  tokens, and the certificates of both listeners. Classes and Presets are pod templates engines inherit from.
  This development models the engine controller, auto-stop, garbage collection, the wake path, the authentication,
  TLS and gateway of the Instance controller, the class and Preset controllers and the checks of pod templates; file
  names below are relative to \<open>src/internal/controller\<close> unless a directory is given.

  \<^bold>\<open>Parts and theories\<close>

  \<^item> \<open>Go_Prelude\<close>: nil and empty slices and maps, strings, decimal numbers, times in nanoseconds, 64-bit
    wrap-around, and the locale \<open>invariant_system\<close> (a step relation and an invariant each step keeps).
  \<^item> \<open>Go_Duration\<close>: rounding of floating point numbers, \<open>time.ParseDuration\<close>, and the parser for the durations of an
    Instance, which knows days.
  \<^item> \<open>K8s_Types\<close>: the API types, one record per Go struct (\<open>src/api/v1alpha1\<close> and the Kubernetes and
    cert-manager types the sources use). Fields that are only copied and compared are opaque values.
  \<^item> \<open>Engine_Effective\<close>, \<open>Engine_Containers\<close>, \<open>Engine_Config\<close>, \<open>Engine_Build\<close>: the rendering half of
    \<open>engine_reconcile.go\<close> with \<open>pod_volumes.go\<close> and \<open>engine_preset_overlay.go\<close>: the resolvers that layer
    engine, Preset and class, containers with API-server defaults, the configuration document with the
    operator-owned paths of \<open>src/api/v1alpha1/operatorauthority.go\<close>, and the builders of the objects.
  \<^item> \<open>Engine_Drift\<close>: \<open>stsMatchesSpec\<close> and its field comparisons.
  \<^item> \<open>Engine_State\<close>: \<open>engine_state.go\<close>, what a pass observes: pods, readiness, the drain probe with its
    metric parser, warning events.
  \<^item> \<open>Rollout_Spec\<close>: the blue-green contract as an abstract machine \<open>rollout_step\<close> over serving and newest
    generation, and the locale \<open>rollout_simulation\<close> of its implementations.
  \<^item> \<open>Engine_Phases\<close>: \<open>computeEngineReconcile\<close> with the handlers of the phases stable, stopped, creating,
    switching, draining and cleaning.
  \<^item> \<open>Engine_Conditions\<close>: the gates, conditions, requeue delays and the status writer of
    \<open>engine_controller.go\<close>.
  \<^item> \<open>Engine_Apply\<close>: \<open>engine_apply.go\<close>, the ordered writes, each of which can fail, one whole pass of
    \<open>Reconcile\<close>, and the closed system: \<open>sys_step\<close> interleaves passes, each with its own class, Preset and
    Instance and stopped at any write, with edits of the spec, pods coming and going, bookkeeping on the
    status and sweeps; \<open>hostile_step\<close> also lets the cluster objects change in any way. Its interpretations \<open>engine\<close> and \<open>fleet\<close> discharge the laws of both locales.
  \<^item> \<open>Engine_Safety\<close>, \<open>Engine_Converge\<close>, \<open>Engine_Report\<close>: the theorems on the closed system.
  \<^item> \<open>Engine_GC\<close>: \<open>engine_gc.go\<close> and \<open>reconcileDelete\<close>.
  \<^item> \<open>Auto_Stop\<close>: \<open>engine_autostop.go\<close>: schedule, decision, idle metric, and the step that ends a pass.
  \<^item> \<open>Wake_Agent\<close>: \<open>src/internal/wakeagent\<close>: demand and readiness trackers, the capacity limiter, and
    \<open>handleHold\<close> as one program counter per request, interleaved by \<open>agent_step\<close>.
  \<^item> \<open>Wake_Demand\<close>: \<open>wake_demand.go\<close>: parsing the agents' expositions, merging scrapes in any order, and
    the composition of agent, poller and auto-stop.
  \<^item> \<open>Instance_Auth\<close>, \<open>Auth_Rotation\<close>, \<open>Auth_Fleet\<close>: \<open>instance_auth.go\<close>: the signing keys of an Instance, one
    rotation as a machine of stages, and the closed system of controller and engines, with tokens that live for
    their lifetime.
  \<^item> \<open>Auth_Admission\<close>, \<open>Instance_Admission\<close>: \<open>src/api/v1alpha1/fireboltinstance_webhook.go\<close>: the validation of
    \<open>spec.auth\<close>, which each pass repeats, the webhooks of an Instance with the fields that must not change, and the check
    of an external database.
  \<^item> \<open>Auth_Curve\<close>: the updates those webhooks admit, interleaved with the passes that rotate the keys.
  \<^item> \<open>Instance_TLS\<close>, \<open>Trust_Bundle\<close>: \<open>instance_tls.go\<close>: certificate and validation of the engine listener, the
    fleet check, the names of protected Secrets, and the bundle of authorities the gateway trusts.
  \<^item> \<open>Operator_Authority\<close>: the allowlist for pod templates (\<open>src/api/v1alpha1/operatorauthority.go\<close>) with its rules for
    engines, gateway and metadata service, the references to Secrets, and the template gate of an engine pass.
  \<^item> \<open>Engine_Lookup\<close>: the reads of class, Preset and Instance that feed an engine pass, and
    \<open>src/api/v1alpha1/cluster_sku.go\<close>, the rule that a cluster class names nothing of a namespace.
  \<^item> \<open>Class_Controller\<close>: \<open>fireboltengineclass_controller.go\<close> and \<open>fireboltenginepreset_controller.go\<close>; the locale
    \<open>deletion_guard\<close> states what both promise.
  \<^item> \<open>Template_Safety\<close>, \<open>Gateway_Secrets\<close>: who reads the Secrets of an Instance in the pods of engines and gateway; the
    locale \<open>secret_screen\<close> is interpreted for both pods.
  \<^item> \<open>Engine_Admission\<close>: the webhooks of engines, classes, cluster classes and Presets, and the bounds on the resources of
    an engine, which the webhook and the pass both check.
  \<^item> \<open>Gateway_Routing\<close>: the request filter the gateway runs (the Lua text in \<open>instance_gateway.go\<close>), with the hold
    of the wake agent.
  \<^item> \<open>Gateway_Pod\<close>, \<open>Instance_Gateway\<close>: the posture of the gateway's listener, its pod with Envoy, the wake agent and the
    user's template, its configuration as the data that fills the template, its hash, its roll-out, and the staged
    change of posture.
  \<^item> \<open>Instance_Controller\<close>: \<open>instance_controller.go\<close>: one pass of \<open>Reconcile\<close>, roll-up of conditions, phase.
  \<^item> \<open>Instance_Report\<close>, \<open>Gateway_Safety\<close>: how a pass ends and what Ready means; the gateway with its Deployment and
    pods as a closed system \<open>gw_step\<close>, whose invariant is the interpretation \<open>gateway\<close>.

  \<^bold>\<open>What is shown\<close>

  \<^item> Routing and roll-out (\<open>Engine_Safety\<close>): in every reachable state traffic goes to a generation that
    exists; no guard against impossible states fires; cut-over waits for ready pods and trust, clean-up for the
    drain; no pass deletes what serves; a failed pass leaves the recorded status; and the recorded statuses of
    every run, with crashes and lost objects, are a run of \<open>rollout_step\<close>.
  \<^item> Convergence (\<open>Engine_Converge\<close>): at most eleven undisturbed passes bring an engine to rest in the phase its
    spec asks for, and there it stays. The bound is that of the measure \<open>rank\<close>.
  \<^item> Drift (\<open>Engine_Drift\<close>): a rendered StatefulSet matches its own spec, also as the API server stores it,
    and a match means that the inputs resolve alike field by field. Two theorems record where the code
    departs from its comments: a host path without a type drifts forever, and a lost routing Service is
    recreated on the generation that is still being created.
  \<^item> Reporting (\<open>Engine_Report\<close>): \<open>Ready=True\<close> is truthful, and a roll-out that moves traffic finishes
    without the gates.
  \<^item> Collection (\<open>Engine_GC\<close>): only orphans are deleted, also on a stale view, at most a hundred per sweep,
    and all of them when no backlog is reported; the finalizer goes last.
  \<^item> Auto-stop (\<open>Auto_Stop\<close>): the schedule is the calendar's; an engine is stopped only when every pod has
    been idle for the timeout and no demand protects it; a demand is accepted once, stored before the replicas
    change, and protects for its whole window; the idle time read from a float cannot overflow.
  \<^item> Waking (\<open>Wake_Agent\<close>, \<open>Wake_Demand\<close>): in every interleaving parked requests are released by the next
    ready report and leave nothing behind; memory is bounded by 4096 names and the capacity; the exposition
    survives its rendering, the cut at a mebibyte and parsing; a query for a stopped engine gives it its
    replicas.
  \<^item> Signing keys (\<open>Auth_Fleet\<close>): in every interleaving of passes and roll-outs an unexpired token is signed with a
    key every running generation validates; a key is deleted only when no generation uses it; identifiers never
    return; a rotation is over after four undisturbed passes.
  \<^item> Validation (\<open>Go_Duration\<close>, \<open>Auth_Admission\<close>): durations are read as they are written, and a block of \<open>spec.auth\<close> that
    is accepted can be run; two lemmas show the overflows that validation lets through.
  \<^item> Admission (\<open>Auth_Curve\<close>, \<open>Engine_Admission\<close>): while authentication stays enabled, admitted updates keep every signing
    key on the curve of the algorithm, which a lemma shows to fail when it is switched off and on between two passes; the
    webhook of engines and the gates of a pass find the same errors; and no rendered pod exceeds the configured maxima.
  \<^item> Gateway (\<open>Gateway_Routing\<close>, \<open>Gateway_Safety\<close>, \<open>Instance_Report\<close>): a request reaches only engines of its own
    namespace and keeps its other parameters; no pod is more open than the recorded posture; Ready means that both
    listeners serve what the spec asks for.
  \<^item> Trust (\<open>Trust_Bundle\<close>): the bundle is the union of the authorities of all live generations, drops only retired
    ones, and re-encryption follows the fleet. Three theorems record where the code departs from its comments:
    the first generation of an engine is left out of the bundle, an engine that joins stops re-encryption,
    and a posture loosened while the certificate is pending is not recorded.

  \<^item> Templates (\<open>Template_Safety\<close>, \<open>Gateway_Secrets\<close>, \<open>Class_Controller\<close>): whatever templates users bring, only the
    engine container and Envoy read the Secrets the operator manages, provided the lookups and the gate accepted the
    templates; a class keeps its deletion guard while an engine uses it. Three results record gaps: a class whose
    deletion is held is rendered without its template being checked, a Secret that is first recorded later in the same
    pass is not protected from the gateway's template yet, and a released guard is added again.

  \<^bold>\<open>Parameters\<close>

  Code outside the repository is an argument of the definitions: what the API server stores for a written
  StatefulSet (\<open>srv\<close>; the reachability theorems take \<open>named_store srv\<close>, a server that keeps
  the name, and the drift theorem takes the defaults of the API written out), \<open>strconv.ParseFloat\<close>
  (\<open>pf\<close>, and \<open>pd\<close> for the idle metric), the answers of scrapes, and which write of a pass fails. The passes of the
  Instance controller take the answers of the API in records (\<open>auth_api\<close>, \<open>instance_api\<close>, \<open>gateway_api\<close>, \<open>pass_api\<close>,
  each extending the one before). Hashes are arguments; where two inputs must not collide this is a named
  hypothesis (\<open>collision_free\<close>, \<open>hex_digest\<close>, \<open>closed_is_distinct\<close>), and so is that the API stores a written
  bundle (\<open>stores_bundle\<close>). The theorem on tokens takes a lifetime at least a second shorter than the window in
  which the engines accept a token, and such a window below the largest duration; the one on the gateway takes pods that
  run the configuration of their template. Loops are structural or bounded recursion; there is no fuel.

  \<^bold>\<open>Not modelled\<close>

  The text of the Envoy configuration around the data it is filled with and the text of the gateway's stop script; the
  objects of the metadata service and its database, which are outcomes of an Instance pass here; deletion of
  an Instance and the canonical form of its identifier; the watches and the functions that map
  events to requests; the route probe of the wake agent (an event of the environment here), HTTP transport, metrics and
  telemetry, the command-line tools, and the test hooks for crash points, which the failing writes stand for.
\<close>

end
